(* ===== verification/CnkPrelude.thy ===== *)
theory CnkPrelude
  imports Main "HOL-Library.Word"
begin

text \<open>
  What every component of the development shares: names for the machine integers of the
  A2 processor, the collections of facts that the component proofs pass to the simplifier,
  and generic facts on words, lists and linked pointers.
\<close>

unbundle bit_operations_syntax

section \<open>Machine types\<close>

type_synonym u8 = "8 word"
type_synonym u16 = "16 word"
type_synonym u32 = "32 word"
type_synonym u64 = "64 word"

text \<open>A pointer into a pool of objects: \<open>None\<close> is NULL, \<open>Some i\<close> the object number \<open>i\<close>.\<close>

type_synonym ptr = "nat option"

section \<open>Collections\<close>

named_theorems word_nat "word operations read as operations on natural numbers"
named_theorems frame "what an operation leaves unchanged"

section \<open>Words\<close>

lemma unat_add_exact [word_nat]:
  fixes a b :: "'a::len word"
  assumes "unat a + unat b < 2 ^ LENGTH('a)"
  shows "unat (a + b) = unat a + unat b"
  using assms by (simp add: unat_word_ariths)

lemma unat_sub_exact [word_nat]:
  fixes a b :: "'a::len word"
  assumes "unat b \<le> unat a"
  shows "unat (a - b) = unat a - unat b"
  using assms by (simp add: unat_sub word_le_nat_alt)

lemma even_unat [word_nat]: "even (unat a) = even a"
  for a :: "'a::len word"
  by transfer (simp add: even_nat_iff)

lemma unat_power_of_2 [word_nat]:
  assumes "n < LENGTH('a::len)"
  shows "unat (2 ^ n :: 'a word) = 2 ^ n"
proof -
  have "unat (word_of_nat (2 ^ n) :: 'a word) = 2 ^ n"
    using assms by (simp only: unat_of_nat) simp
  then show ?thesis by simp
qed

text \<open>The lowest bit of an even word as a flag: setting, testing and clearing it.\<close>

lemma even_set_flag [word_nat]: "even a \<Longrightarrow> a OR 1 = a + 1"
  for a :: "'a::len word"
  by (simp add: or_one_eq)

lemma even_flag_clear: "even a \<Longrightarrow> a AND 1 = 0"
  for a :: "'a::len word"
  by (simp add: and_one_eq mod2_eq_if)

lemma odd_flag_set: "odd a \<Longrightarrow> a AND 1 \<noteq> 0"
  for a :: "'a::len word"
  by (simp add: and_one_eq mod2_eq_if)

lemma flag_set_iff: "a AND 1 \<noteq> 0 \<longleftrightarrow> odd a"
  for a :: "'a::len word"
  using even_flag_clear odd_flag_set by blast

lemma even_clear_flag: "even a \<Longrightarrow> a AND NOT 1 = a"
  for a :: "'a::len word"
  by (rule bit_word_eqI) (auto simp: bit_simps bit_0 intro: Nat.gr0I)

lemma even_set_clear_flag: "even a \<Longrightarrow> (a OR 1) AND NOT 1 = a"
  for a :: "'a::len word"
  by (rule bit_word_eqI) (auto simp: bit_simps bit_0 intro: Nat.gr0I)

lemma even_plus1_clear_flag: "even a \<Longrightarrow> (a + 1) AND NOT 1 = a"
  for a :: "'a::len word"
  using even_set_clear_flag [of a] by (simp add: even_set_flag)

lemma xor_cancel_left [simp]: "r XOR a = r XOR b \<longleftrightarrow> a = b"
  for a b r :: "'a::len word"
  by (auto simp: bit_eq_iff bit_xor_iff)

lemma xor_cancel_right [simp]: "a XOR r = b XOR r \<longleftrightarrow> a = b"
  for a b r :: "'a::len word"
  by (auto simp: bit_eq_iff bit_xor_iff)

lemma xor_eq_0_iff: "a XOR b = 0 \<longleftrightarrow> a = b"
  for a b :: "'a::len word"
  by (auto simp: bit_eq_iff bit_xor_iff)

text \<open>Rounding down to a multiple of a power of two.\<close>

lemma unat_clear_mask:
  fixes a :: "'a::len word"
  shows "unat (a AND NOT (mask n)) = unat a div 2 ^ n * 2 ^ n"
proof -
  have "a AND NOT (mask n) = push_bit n (drop_bit n a)"
    by (rule bit_word_eqI) (auto simp: bit_simps)
  also have "\<dots> = a - take_bit n a"
    using bits_ident [of n a] by (simp add: eq_diff_eq)
  finally have e: "a AND NOT (mask n) = a - take_bit n a" .
  have "unat (take_bit n a) = unat a mod 2 ^ n"
    unfolding unsigned_take_bit_eq by (simp add: take_bit_eq_mod)
  then show ?thesis
    unfolding e by (subst unat_sub_exact) (simp_all add: minus_mod_eq_div_mult)
qed

end
