(* ===== verification/CnkCrc.thy ===== *)
theory CnkCrc
  imports CnkPrelude
begin

text \<open>
  The cyclic redundancy checks of the driver: \<open>Crc16n\<close> and \<open>Crc32n\<close> of
  \<^verbatim>\<open>bgq_util/src\<close>, which work on half bytes through a table, and the CRC-32 of the
  firmware (\<^verbatim>\<open>firmware/src/crc.c\<close>), which works bit by bit. The two implementations of
  CRC-32 agree on every input; a CRC can be computed buffer by buffer; every corruption of a
  single byte changes the CRC. A buffer \<open>(pData, ulLen)\<close> is the list of its bytes;
  \<open>unsigned long\<close> has 64 bits on this machine.
\<close>

section \<open>The code\<close>

definition Crc16x4_Table :: "u16 list" where
  "Crc16x4_Table =
     [0x0000, 0x1081, 0x2102, 0x3183, 0x4204, 0x5285, 0x6306, 0x7387,
      0x8408, 0x9489, 0xa50a, 0xb58b, 0xc60c, 0xd68d, 0xe70e, 0xf78f]"

definition Crc16n_byte :: "u16 \<Rightarrow> u8 \<Rightarrow> u16" where
  "Crc16n_byte usCrc c =
     (let t = usCrc XOR ucast (c AND 0x0f);
          usCrc = drop_bit 4 usCrc XOR Crc16x4_Table ! unat (t AND 0xf);
          t = usCrc XOR ucast (drop_bit 4 c)
      in drop_bit 4 usCrc XOR Crc16x4_Table ! unat (t AND 0xf))"

fun Crc16n :: "u16 \<Rightarrow> u8 list \<Rightarrow> u16" where
  "Crc16n usCrc [] = usCrc"
| "Crc16n usCrc (c # p) = Crc16n (Crc16n_byte usCrc c) p"

definition Crc32x4_Table :: "u64 list" where
  "Crc32x4_Table =
     [0x00000000, 0x1db71064, 0x3b6e20c8, 0x26d930ac,
      0x76dc4190, 0x6b6b51f4, 0x4db26158, 0x5005713c,
      0xedb88320, 0xf00f9344, 0xd6d6a3e8, 0xcb61b38c,
      0x9b64c2b0, 0x86d3d2d4, 0xa00ae278, 0xbdbdf21c]"

definition Crc32n_byte :: "u64 \<Rightarrow> u8 \<Rightarrow> u64" where
  "Crc32n_byte ulCrc c =
     (let t = ulCrc XOR ucast (c AND 0x0f);
          ulCrc = drop_bit 4 ulCrc XOR Crc32x4_Table ! unat (t AND 0xf);
          t = ulCrc XOR ucast (drop_bit 4 c)
      in drop_bit 4 ulCrc XOR Crc32x4_Table ! unat (t AND 0xf))"

fun Crc32n :: "u64 \<Rightarrow> u8 list \<Rightarrow> u64" where
  "Crc32n ulCrc [] = ulCrc"
| "Crc32n ulCrc (c # p) = Crc32n (Crc32n_byte ulCrc c) p"

text \<open>The firmware's version: \<open>t\<close> is an \<open>unsigned short\<close> that is shifted right once per bit.\<close>

definition CRC_32_POLYNOMIAL :: u64 where
  "CRC_32_POLYNOMIAL = (drop_bit 1 0xDB710641) OR 0x80000000"

fun fw_Crc32n_bits :: "nat \<Rightarrow> u64 \<Rightarrow> u16 \<Rightarrow> u64" where
  "fw_Crc32n_bits 0 ulCrc t = ulCrc"
| "fw_Crc32n_bits (Suc n) ulCrc t =
     fw_Crc32n_bits n
       (if (ulCrc AND 0x0001) XOR (ucast t AND 1) \<noteq> 0
        then drop_bit 1 ulCrc XOR CRC_32_POLYNOMIAL else drop_bit 1 ulCrc)
       (drop_bit 1 t)"

fun fw_Crc32n :: "u64 \<Rightarrow> u8 list \<Rightarrow> u64" where
  "fw_Crc32n ulCrc [] = ulCrc"
| "fw_Crc32n ulCrc (c # p) = fw_Crc32n (fw_Crc32n_bits 8 ulCrc (ucast c)) p"

section \<open>One step of the shift register\<close>

text \<open>
  Both CRCs are a shift register: the low bit of the register decides whether the
  polynomial is added after the shift. A byte enters by addition into the low bits.
\<close>

definition reg_step :: "'a::len word \<Rightarrow> 'a word \<Rightarrow> 'a word" where
  "reg_step P r = drop_bit 1 r XOR (if bit r 0 then P else 0)"

definition reg_byte :: "'a::len word \<Rightarrow> 'a word \<Rightarrow> u8 \<Rightarrow> 'a word" where
  "reg_byte P r c = (reg_step P ^^ 8) (r XOR ucast c)"

lemma reg_step_xor: "reg_step P (a XOR b) = reg_step P a XOR reg_step P b"
  by (auto simp: reg_step_def drop_bit_xor bit_xor_iff xor.assoc xor.left_commute)

lemma reg_step_0 [simp]: "reg_step P 0 = 0"
  by (simp add: reg_step_def)

lemma reg_steps_xor: "(reg_step P ^^ n) (a XOR b) = (reg_step P ^^ n) a XOR (reg_step P ^^ n) b"
  by (induction n arbitrary: a b) (simp_all add: reg_step_xor funpow_swap1)

lemma reg_steps_0 [simp]: "(reg_step P ^^ n) 0 = 0"
  by (induction n) simp_all

lemma reg_step_shifted: "\<not> bit r 0 \<Longrightarrow> reg_step P r = drop_bit 1 r"
  by (simp add: reg_step_def)

lemma reg_steps_shifted:
  "(\<And>i. i < n \<Longrightarrow> \<not> bit r i) \<Longrightarrow> (reg_step P ^^ n) r = drop_bit n r"
proof (induction n arbitrary: r)
  case 0
  then show ?case by simp
next
  case (Suc n)
  have "(reg_step P ^^ n) (drop_bit 1 r) = drop_bit n (drop_bit 1 r)"
    by (rule Suc.IH) (use Suc.prems in \<open>auto simp: bit_drop_bit_eq\<close>)
  moreover have "reg_step P r = drop_bit 1 r"
    using Suc.prems [of 0] by (simp add: reg_step_shifted)
  ultimately show ?case
    by (simp add: funpow_Suc_right del: funpow.simps)
qed

lemma bit_0xf: "bit (0xf :: int) i \<longleftrightarrow> i < 4"
  using bit_mask_iff [of 4 i, where ?'a = int] by (simp add: mask_eq_exp_minus_1)

lemma bit_0xf0: "bit (0xf0 :: int) i \<longleftrightarrow> 4 \<le> i \<and> i < 8"
  using bit_push_bit_iff [of 4 "0xf :: int" i] by (auto simp: bit_0xf push_bit_eq_mult)

lemma reg_steps_4: "(reg_step P ^^ 4) r = drop_bit 4 r XOR (reg_step P ^^ 4) (r AND 0xf)"
proof -
  have "r = (r AND NOT 0xf) XOR (r AND 0xf)"
    by (rule bit_word_eqI) (auto simp: bit_simps)
  then have "(reg_step P ^^ 4) r = (reg_step P ^^ 4) (r AND NOT 0xf) XOR (reg_step P ^^ 4) (r AND 0xf)"
    by (metis reg_steps_xor)
  moreover have "(reg_step P ^^ 4) (r AND NOT 0xf) = drop_bit 4 (r AND NOT 0xf)"
    by (intro reg_steps_shifted) (auto simp: bit_simps bit_0xf dest: bit_imp_le_length)
  moreover have "drop_bit 4 (r AND NOT 0xf) = drop_bit 4 r"
    by (rule bit_word_eqI) (auto simp: bit_simps bit_0xf dest: bit_imp_le_length)
  ultimately show ?thesis by simp
qed

lemma drop_nibble:
  fixes n :: "'a::len word"
  assumes "\<And>i. bit n i \<Longrightarrow> i < 4"
  shows "drop_bit 4 n = 0"
  by (rule bit_word_eqI) (use assms in \<open>fastforce simp: bit_simps\<close>)

lemma reg_steps_4_nibble:
  fixes n :: "'a::len word"
  assumes "\<And>i. bit n i \<Longrightarrow> i < 4"
  shows "(reg_step P ^^ 4) (r XOR n) = drop_bit 4 r XOR (reg_step P ^^ 4) ((r XOR n) AND 0xf)"
  using reg_steps_4 [of P "r XOR n"] by (simp add: drop_nibble [OF assms])

lemma Crc16x4_Table_steps:
  "k < 16 \<Longrightarrow> Crc16x4_Table ! k = (reg_step 0x8408 ^^ 4) (word_of_nat k)"
proof -
  have "list_all (\<lambda>k. Crc16x4_Table ! k = (reg_step 0x8408 ^^ 4) (word_of_nat k)) [0..<16]"
    by code_simp
  then show "k < 16 \<Longrightarrow> Crc16x4_Table ! k = (reg_step 0x8408 ^^ 4) (word_of_nat k)"
    by (simp add: list_all_iff)
qed

lemma Crc32x4_Table_steps:
  "k < 16 \<Longrightarrow> Crc32x4_Table ! k = (reg_step CRC_32_POLYNOMIAL ^^ 4) (word_of_nat k)"
proof -
  have "list_all (\<lambda>k. Crc32x4_Table ! k = (reg_step CRC_32_POLYNOMIAL ^^ 4) (word_of_nat k)) [0..<16]"
    by code_simp
  then show "k < 16 \<Longrightarrow> Crc32x4_Table ! k = (reg_step CRC_32_POLYNOMIAL ^^ 4) (word_of_nat k)"
    by (simp add: list_all_iff)
qed

lemma nibble_index: "unat (x AND 0xf) < 16"
  for x :: "'a::len word"
proof -
  have "x AND 0xf = take_bit 4 x"
    by (simp add: take_bit_eq_mask mask_eq_exp_minus_1)
  then show ?thesis
    using take_bit_nat_less_exp [of 4 "unat x"] by (simp add: unsigned_take_bit_eq)
qed

text \<open>A byte is its low and its high half; the low half enters the register first.\<close>

lemma low_half_bits: "bit (ucast (c AND 0x0f :: u8) :: 'a::len word) i \<Longrightarrow> i < 4"
  by (auto simp: bit_simps bit_0xf)

lemma high_half_bits: "bit (ucast (drop_bit 4 c :: u8) :: 'a::len word) i \<Longrightarrow> i < 4"
  by (auto simp: bit_simps dest: bit_imp_le_length)

lemma reg_byte_halves:
  fixes r :: "'a::len word"
  assumes "8 \<le> LENGTH('a)"
  shows "reg_byte P r c =
    (reg_step P ^^ 4) ((reg_step P ^^ 4) (r XOR ucast (c AND 0x0f)) XOR ucast (drop_bit 4 c))"
proof -
  let ?h = "ucast (c AND 0xf0) :: 'a word"
  have "ucast c = (ucast (c AND 0x0f) :: 'a word) XOR ?h"
  proof (rule bit_word_eqI)
    fix i assume "i < LENGTH('a)"
    show "bit (ucast c :: 'a word) i = bit ((ucast (c AND 0x0f) :: 'a word) XOR ?h) i"
      by (auto simp: bit_simps bit_0xf bit_0xf0 dest: bit_imp_le_length)
  qed
  moreover have "(reg_step P ^^ 8) x = (reg_step P ^^ 4) ((reg_step P ^^ 4) x)" for x
    using funpow_add [of 4 4 "reg_step P"] by simp
  ultimately have "reg_byte P r c = (reg_step P ^^ 4)
      ((reg_step P ^^ 4) (r XOR ucast (c AND 0x0f)) XOR (reg_step P ^^ 4) ?h)"
    by (simp add: reg_byte_def reg_steps_xor xor.assoc)
  also have "(reg_step P ^^ 4) ?h = ucast (drop_bit 4 c)"
  proof -
    have "(reg_step P ^^ 4) ?h = drop_bit 4 ?h"
      by (intro reg_steps_shifted) (auto simp: bit_simps bit_0xf0)
    also have "\<dots> = ucast (drop_bit 4 c)"
      using assms by (intro bit_word_eqI) (auto simp: bit_simps bit_0xf0 dest: bit_imp_le_length)
    finally show ?thesis .
  qed
  finally show ?thesis .
qed

lemma Crc16n_byte_reg: "Crc16n_byte r c = reg_byte 0x8408 r c"
  by (simp add: Crc16n_byte_def Let_def reg_byte_halves Crc16x4_Table_steps nibble_index
      reg_steps_4_nibble [OF low_half_bits] reg_steps_4_nibble [OF high_half_bits])

lemma Crc32n_byte_reg: "Crc32n_byte r c = reg_byte CRC_32_POLYNOMIAL r c"
  by (simp add: Crc32n_byte_def Let_def reg_byte_halves Crc32x4_Table_steps nibble_index
      reg_steps_4_nibble [OF low_half_bits] reg_steps_4_nibble [OF high_half_bits])

lemma fw_Crc32n_bits_reg:
  "n \<le> 64 \<Longrightarrow> fw_Crc32n_bits n r t = (reg_step CRC_32_POLYNOMIAL ^^ n) (r XOR take_bit n (ucast t))"
proof (induction n arbitrary: r t)
  case 0
  then show ?case by simp
next
  case (Suc n)
  let ?P = CRC_32_POLYNOMIAL
  let ?u = "ucast t :: u64"
  have low: "((r AND 1) XOR (?u AND 1) \<noteq> 0) = bit (r XOR take_bit (Suc n) ?u) 0"
    unfolding bit_xor_iff bit_take_bit_iff by (auto simp: bit_0 and_one_eq mod2_eq_if)
  have "drop_bit 1 (r XOR take_bit (Suc n) ?u) = drop_bit 1 r XOR take_bit n (ucast (drop_bit 1 t))"
    using Suc.prems by (intro bit_word_eqI) (auto simp: bit_simps dest: bit_imp_le_length)
  then have "reg_step ?P (r XOR take_bit (Suc n) ?u) =
      (if (r AND 1) XOR (?u AND 1) \<noteq> 0 then drop_bit 1 r XOR ?P else drop_bit 1 r)
        XOR take_bit n (ucast (drop_bit 1 t))"
    by (simp add: reg_step_def low xor.assoc xor.left_commute xor.commute)
  then show ?case
    using Suc by (simp add: funpow_Suc_right del: funpow.simps)
qed

lemma fw_Crc32n_byte_reg: "fw_Crc32n_bits 8 r (ucast c) = reg_byte CRC_32_POLYNOMIAL r c"
proof -
  have "take_bit 8 (ucast (ucast c :: u16) :: u64) = ucast c"
    by (rule bit_word_eqI) (auto simp: bit_simps dest: bit_imp_le_length)
  then show ?thesis
    by (simp add: fw_Crc32n_bits_reg reg_byte_def)
qed

section \<open>The register forgets nothing\<close>

definition fits :: "nat \<Rightarrow> 'a::len word \<Rightarrow> bool" where
  "fits m r \<longleftrightarrow> (\<forall>i. bit r i \<longrightarrow> i \<le> m)"

lemma fits_xor: "fits m a \<Longrightarrow> fits m b \<Longrightarrow> fits m (a XOR b)"
  by (auto simp: fits_def bit_xor_iff)

lemma fits_ucast_u8: "7 \<le> m \<Longrightarrow> fits m (ucast (c :: u8))"
  by (auto simp: fits_def bit_simps dest: bit_imp_le_length)

lemma fits_reg_step: "fits m P \<Longrightarrow> fits m r \<Longrightarrow> fits m (reg_step P r)"
  by (fastforce simp: fits_def reg_step_def bit_simps)

lemma fits_reg_steps: "fits m P \<Longrightarrow> fits m r \<Longrightarrow> fits m ((reg_step P ^^ n) r)"
  by (induction n) (simp_all add: fits_reg_step)

lemma reg_step_eq_0:
  assumes "bit P m" "fits m r" "reg_step P r = 0"
  shows "r = 0"
proof -
  have "\<not> bit (drop_bit 1 r) m"
    using assms(2) by (auto simp: fits_def bit_simps)
  moreover have "\<not> bit (reg_step P r) m"
    using assms(3) by simp
  ultimately have "\<not> bit r 0"
    using assms(1) by (auto simp: reg_step_def bit_xor_iff)
  then have "drop_bit 1 r = 0"
    using assms(3) by (simp add: reg_step_def)
  then have "\<not> bit r (Suc i)" for i
    using bit_drop_bit_eq [of 1 r] by (auto simp: fun_eq_iff)
  with \<open>\<not> bit r 0\<close> show ?thesis
    by (intro bit_word_eqI) (metis bit_0_eq bot_apply bot_bool_def not0_implies_Suc)
qed

lemma reg_steps_eq_0:
  "bit P m \<Longrightarrow> fits m P \<Longrightarrow> fits m r \<Longrightarrow> (reg_step P ^^ n) r = 0 \<Longrightarrow> r = 0"
  by (induction n) (auto dest: reg_step_eq_0 intro: fits_reg_steps)

lemma fits_reg_byte: "fits m P \<Longrightarrow> 7 \<le> m \<Longrightarrow> fits m r \<Longrightarrow> fits m (reg_byte P r c)"
  unfolding reg_byte_def by (intro fits_reg_steps fits_xor fits_ucast_u8)

text \<open>
  A short run of bytes enters the register at once: as one word, the first byte lowest.
  This is why a burst no longer than the register never goes undetected.
\<close>

fun le_word :: "u8 list \<Rightarrow> 'a::len word" where
  "le_word [] = 0"
| "le_word (c # p) = ucast c XOR push_bit 8 (le_word p)"

lemma bit_le_word: "bit (le_word p :: 'a::len word) i \<longleftrightarrow> i < 8 * length p \<and> i < LENGTH('a) \<and> bit (p ! (i div 8)) (i mod 8)"
proof (induction p arbitrary: i)
  case Nil
  then show ?case by simp
next
  case (Cons c p)
  show ?case
  proof (cases "i < 8")
    case True
    then show ?thesis
      by (auto simp: bit_xor_iff bit_push_bit_iff bit_ucast_iff)
  next
    case False
    then obtain j where "i = 8 + j"
      by (metis le_Suc_ex not_less)
    moreover have "(8 + j) div 8 = Suc (j div 8)"
      by (simp add: div_add_self1)
    ultimately show ?thesis
      using Cons.IH [of j] bit_imp_le_length [of c "8 + j"]
      by (auto simp: bit_xor_iff bit_push_bit_iff bit_ucast_iff)
  qed
qed

lemma le_word_inj:
  assumes "length p = length q" "8 * length p \<le> LENGTH('a::len)"
    and eq: "(le_word p :: 'a word) = le_word q"
  shows "p = q"
proof (rule nth_equalityI [OF assms(1)])
  fix k assume k: "k < length p"
  show "p ! k = q ! k"
  proof (rule bit_word_eqI)
    fix i assume i: "i < LENGTH(8)"
    have "bit (le_word p :: 'a word) (8 * k + i) = bit (le_word q :: 'a word) (8 * k + i)"
      using eq by simp
    with k i assms(1,2) show "bit (p ! k) i = bit (q ! k) i"
      by (simp add: bit_le_word)
  qed
qed

lemma fits_le_word: "8 * length p \<le> Suc m \<Longrightarrow> fits m (le_word p)"
  by (auto simp: fits_def bit_le_word)

lemma reg_bytes_le_word:
  "8 * length p \<le> LENGTH('a) \<Longrightarrow>
   foldl (reg_byte P) r p = (reg_step P ^^ (8 * length p)) (r XOR le_word p)"
  for r :: "'a::len word"
proof (induction p arbitrary: r)
  case Nil
  then show ?case by simp
next
  case (Cons c p)
  let ?w = "le_word p :: 'a word"
  have "(reg_step P ^^ 8) (push_bit 8 ?w) = drop_bit 8 (push_bit 8 ?w)"
    by (intro reg_steps_shifted) (simp add: bit_push_bit_iff)
  also have "\<dots> = ?w"
    using Cons.prems by (intro bit_word_eqI) (auto simp: bit_simps bit_le_word)
  finally have "(reg_step P ^^ 8) (r XOR le_word (c # p)) = reg_byte P r c XOR ?w"
    by (simp add: reg_byte_def reg_steps_xor xor.assoc)
  moreover have "foldl (reg_byte P) (reg_byte P r c) p =
      (reg_step P ^^ (8 * length p)) (reg_byte P r c XOR ?w)"
    using Cons by simp
  ultimately show ?case
    using funpow_add [of "8 * length p" 8 "reg_step P"] by (simp add: add.commute)
qed

section \<open>The contract of a CRC routine\<close>

text \<open>
  What the users of a CRC rely on: a routine that consumes its buffer byte by byte through a
  register, of which \<open>ok\<close> registers stay \<open>ok\<close>, and whose byte step loses neither the register
  nor a short run of data.
\<close>

locale crc_routine =
  fixes byte :: "'r \<Rightarrow> u8 \<Rightarrow> 'r"
    and run :: "'r \<Rightarrow> u8 list \<Rightarrow> 'r"
    and ok :: "'r \<Rightarrow> bool"
    and burst :: nat
  assumes run_Nil: "run r [] = r"
    and run_Cons: "run r (c # p) = run (byte r c) p"
    and ok_byte: "ok r \<Longrightarrow> ok (byte r c)"
    and byte_inj: "ok r \<Longrightarrow> ok s \<Longrightarrow> byte r c = byte s c \<Longrightarrow> r = s"
    and run_inj: "ok r \<Longrightarrow> length p \<le> burst \<Longrightarrow> length q = length p \<Longrightarrow> run r p = run r q \<Longrightarrow> p = q"
begin

lemma run_append: "run r (p @ q) = run (run r p) q"
  by (induction p arbitrary: r) (simp_all add: run_Nil run_Cons)

lemma run_ok: "ok r \<Longrightarrow> ok (run r p)"
  by (induction p arbitrary: r) (simp_all add: run_Nil run_Cons ok_byte)

lemma run_reg_inj: "ok r \<Longrightarrow> ok s \<Longrightarrow> run r p = run s p \<Longrightarrow> r = s"
proof (induction p arbitrary: r s)
  case Nil
  then show ?case by (simp add: run_Nil)
next
  case (Cons c p)
  then have "byte r c = byte s c"
    using Cons.IH [of "byte r c" "byte s c"] by (simp add: run_Cons ok_byte)
  with Cons.prems show ?case by (blast intro: byte_inj)
qed

lemma burst_detected:
  assumes "ok r" "length q = length p" "length p \<le> burst" "p \<noteq> q"
  shows "run r (a @ p @ b) \<noteq> run r (a @ q @ b)"
proof
  assume "run r (a @ p @ b) = run r (a @ q @ b)"
  then have "run (run (run r a) p) b = run (run (run r a) q) b"
    by (simp add: run_append)
  then have "run (run r a) p = run (run r a) q"
    using run_reg_inj run_ok assms(1) by blast
  then show False
    using run_inj run_ok assms by blast
qed

end

lemma Crc16n_foldl: "Crc16n r p = foldl (reg_byte 0x8408) r p"
  by (induction p arbitrary: r) (simp_all add: Crc16n_byte_reg)

lemma Crc32n_foldl: "Crc32n r p = foldl (reg_byte CRC_32_POLYNOMIAL) r p"
  by (induction p arbitrary: r) (simp_all add: Crc32n_byte_reg)

lemma reg_bytes_inj:
  fixes r :: "'a::len word"
  assumes P: "bit P m" "fits m P" and r: "fits m r" "fits m s"
    and len: "length q = length p" "8 * length p \<le> Suc m" "Suc m \<le> LENGTH('a)"
    and eq: "foldl (reg_byte P) r p = foldl (reg_byte P) s q"
  shows "r XOR le_word p = s XOR le_word q"
proof -
  let ?x = "(r XOR le_word p) XOR (s XOR le_word q)"
  have "(reg_step P ^^ (8 * length p)) ?x = 0"
    using eq len by (simp add: reg_bytes_le_word reg_steps_xor [of _ _ "r XOR _"])
  moreover have "fits m ?x"
    using len r by (intro fits_xor fits_le_word) simp_all
  ultimately have "?x = 0"
    using P reg_steps_eq_0 by blast
  then show ?thesis
    by (simp add: xor_eq_0_iff)
qed

lemma reg_crc_routine:
  fixes P :: "'a::len word"
  assumes "bit P m" "fits m P" "7 \<le> m" "Suc m \<le> LENGTH('a)"
  shows "crc_routine (reg_byte P) (foldl (reg_byte P)) (fits m) (Suc m div 8)"
proof
  show "r = s" if "fits m r" "fits m s" "reg_byte P r c = reg_byte P s c" for r s c
    using reg_bytes_inj [of P m r s "[c]" "[c]"] that assms by simp
  show "p = q" if "fits m r" "length p \<le> Suc m div 8" "length q = length p"
    "foldl (reg_byte P) r p = foldl (reg_byte P) r q" for r p q
  proof -
    have len: "8 * length p \<le> Suc m"
      using that(2) by linarith
    have "r XOR le_word p = r XOR le_word q"
      using reg_bytes_inj [of P m r r q p] that assms len by simp
    then have "(le_word p :: 'a word) = le_word q"
      by simp
    then show ?thesis
      using le_word_inj [of p q, where ?'a = 'a] that(3) len assms(4) by simp
  qed
qed (use assms in \<open>simp_all add: fits_reg_byte\<close>)

lemma fits_less: "fits m r \<longleftrightarrow> r < 2 ^ Suc m" if "Suc m < LENGTH('a)"
  for r :: "'a::len word"
proof -
  have "fits m r \<longleftrightarrow> take_bit (Suc m) r = r"
    by (auto simp: fits_def bit_eq_iff bit_take_bit_iff less_Suc_eq_le dest: bit_imp_le_length)
  also have "\<dots> \<longleftrightarrow> r < 2 ^ Suc m"
    using that take_bit_nat_eq_self_iff [of "Suc m" "unat r"]
    by (simp add: word_unat_eq_iff unsigned_take_bit_eq word_less_nat_alt unat_power_of_2 del: power_Suc)
  finally show ?thesis .
qed

lemma CRC_32_POLYNOMIAL_bits: "bit CRC_32_POLYNOMIAL 31" "fits 31 CRC_32_POLYNOMIAL"
proof -
  have P: "CRC_32_POLYNOMIAL = 0xEDB88320"
    by (simp add: CRC_32_POLYNOMIAL_def)
  show "bit CRC_32_POLYNOMIAL 31" "fits 31 CRC_32_POLYNOMIAL"
    unfolding P by (simp_all add: fits_less)
qed

lemma fits_u16: "fits 15 (r :: u16)"
  by (auto simp: fits_def dest: bit_imp_le_length)

interpretation crc16: crc_routine Crc16n_byte Crc16n "\<lambda>_. True" 2
proof -
  have "(fits 15 :: u16 \<Rightarrow> bool) = (\<lambda>_. True)"
    by (rule ext) (simp add: fits_u16)
  moreover have "Crc16n_byte = reg_byte 0x8408" "Crc16n = foldl (reg_byte 0x8408)"
    by (simp_all add: fun_eq_iff Crc16n_byte_reg Crc16n_foldl)
  moreover have "crc_routine (reg_byte 0x8408) (foldl (reg_byte 0x8408)) (fits 15 :: u16 \<Rightarrow> bool) (Suc 15 div 8)"
    by (rule reg_crc_routine) (simp_all add: fits_u16)
  ultimately show "crc_routine Crc16n_byte Crc16n (\<lambda>_. True) 2"
    by simp
qed

interpretation crc32: crc_routine Crc32n_byte Crc32n "\<lambda>r. r < 0x100000000" 4
proof -
  have "(fits 31 :: u64 \<Rightarrow> bool) = (\<lambda>r. r < 0x100000000)"
    by (rule ext) (simp add: fits_less)
  moreover have "Crc32n_byte = reg_byte CRC_32_POLYNOMIAL" "Crc32n = foldl (reg_byte CRC_32_POLYNOMIAL)"
    by (simp_all add: fun_eq_iff Crc32n_byte_reg Crc32n_foldl)
  moreover have "crc_routine (reg_byte CRC_32_POLYNOMIAL) (foldl (reg_byte CRC_32_POLYNOMIAL))
      (fits 31) (Suc 31 div 8)"
    by (rule reg_crc_routine) (simp_all add: CRC_32_POLYNOMIAL_bits)
  ultimately show "crc_routine Crc32n_byte Crc32n (\<lambda>r. r < 0x100000000) 4"
    by simp
qed

section \<open>Properties\<close>

text \<open>
  C8: the bit-by-bit CRC-32 of the firmware and the table-driven CRC-32 of the host library
  compute the same value on every buffer and every initial value: what one side of the
  mailbox writes, the other side verifies.
\<close>

theorem Crc32n_firmware_agrees: "fw_Crc32n ulInitialCrc pData = Crc32n ulInitialCrc pData"
  by (induction pData arbitrary: ulInitialCrc) (simp_all add: fw_Crc32n_byte_reg Crc32n_byte_reg)

text \<open>
  C9: CRC-32 detects every corruption confined to four consecutive bytes: two buffers that
  differ there and nowhere else have different CRCs.
\<close>

theorem Crc32n_detects_burst:
  assumes "ulInitialCrc < 0x100000000"
    and "length q = length p" "length p \<le> 4" "p \<noteq> q"
  shows "Crc32n ulInitialCrc (a @ p @ b) \<noteq> Crc32n ulInitialCrc (a @ q @ b)"
  using assms by (rule crc32.burst_detected)

theorem Crc32n_detects_burst_witness:
  "Crc32n 0 ([0x42] @ [1, 2, 3, 4] @ [7]) \<noteq> Crc32n 0 ([0x42] @ [1, 2, 3, 5] @ [7])"
  by (rule Crc32n_detects_burst) simp_all

text \<open>C10: CRC-16 detects every corruption confined to two consecutive bytes.\<close>

theorem Crc16n_detects_burst:
  assumes "length q = length p" "length p \<le> 2" "p \<noteq> q"
  shows "Crc16n usInitialCrc (a @ p @ b) \<noteq> Crc16n usInitialCrc (a @ q @ b)"
  using assms by (intro crc16.burst_detected) simp_all

theorem Crc16n_detects_burst_witness:
  "Crc16n 0xffff ([0x42] @ [1, 2] @ [7]) \<noteq> Crc16n 0xffff ([0x42] @ [2, 1] @ [7])"
  by (rule Crc16n_detects_burst) simp_all

end
