(* ===== verification/MmapChunks.thy ===== *)
theory MmapChunks
  imports CnkPrelude
begin

text \<open>
  The chunk descriptors of the mmap manager (\<^verbatim>\<open>cnk/src/mmap.c\<close>, \<^verbatim>\<open>cnk/src/mmap.h\<close>): the pool
  of free descriptors, a singly linked stack, and the list of the descriptors in use, doubly
  linked in address order. A descriptor is named by its index in \<open>MmapMgr_t.chunks\<close>, and
  the array is a function from indices to descriptors, so that aliasing is as in the code.
  The second half shows what each pointer operation does to the list it represents.
\<close>

section \<open>The data of \<open>mmap.h\<close>\<close>

definition PAGESIZE :: u64 where
  "PAGESIZE = 4096"

definition MMAPCHUNK_ADDR_FREE :: u64 where
  "MMAPCHUNK_ADDR_FREE = 1"

definition MMAP_MAX_ALLOCS :: nat where
  "MMAP_MAX_ALLOCS = 1096"

definition MMAP_ROUND_UP :: "u64 \<Rightarrow> u64" where
  "MMAP_ROUND_UP a = (a + (PAGESIZE - 1)) AND NOT (PAGESIZE - 1)"

definition MMAP_ROUND_DN :: "u64 \<Rightarrow> u64" where
  "MMAP_ROUND_DN a = a AND NOT (PAGESIZE - 1)"

record MMapChunk =
  c_next :: ptr
  c_prev :: ptr
  byaddr_next :: ptr
  byaddr_prev :: ptr
  c_addr :: u64
  c_size :: u64

record MmapMgr =
  mem_start :: u64
  mem_size :: u64
  mem_avail :: u64
  mem_busy :: u64
  chunks_left :: u64
  high_mark :: u64
  high_mark_max :: u64
  low_unmap :: u64
  high_unmap :: u64
  FreeChunk_anchor :: ptr
  ByAddr_anchor :: ptr
  chunks :: "nat \<Rightarrow> MMapChunk"

text \<open>Assignment to a field of the descriptor \<open>i\<close>.\<close>

definition upd_chunk :: "nat \<Rightarrow> (MMapChunk \<Rightarrow> MMapChunk) \<Rightarrow> MmapMgr \<Rightarrow> MmapMgr" where
  "upd_chunk i f m = m\<lparr>chunks := (chunks m)(i := f (chunks m i))\<rparr>"

text \<open>The test \<open>addr & MMAPCHUNK_ADDR_FREE\<close> and the address without the flag.\<close>

definition is_free :: "MMapChunk \<Rightarrow> bool" where
  "is_free c \<longleftrightarrow> c_addr c AND MMAPCHUNK_ADDR_FREE \<noteq> 0"

definition c_base :: "MMapChunk \<Rightarrow> u64" where
  "c_base c = c_addr c AND NOT MMAPCHUNK_ADDR_FREE"

section \<open>The list by address\<close>

definition MMapMgr_InitQByAddr :: "MmapMgr \<Rightarrow> nat \<Rightarrow> MmapMgr" where
  "MMapMgr_InitQByAddr m c = upd_chunk c (\<lambda>k. k\<lparr>byaddr_next := None, byaddr_prev := None\<rparr>) m"

definition MMapMgr_EnQByAddrAfter :: "MmapMgr \<Rightarrow> nat \<Rightarrow> nat \<Rightarrow> MmapMgr" where
  "MMapMgr_EnQByAddrAfter m n p =
     (let m = (if ByAddr_anchor m = None then m\<lparr>ByAddr_anchor := Some n\<rparr> else m);
          m = upd_chunk n (\<lambda>c. c\<lparr>byaddr_next := byaddr_next (chunks m p)\<rparr>) m;
          m = (case byaddr_next (chunks m n) of
                 None \<Rightarrow> m
               | Some k \<Rightarrow> upd_chunk k (\<lambda>c. c\<lparr>byaddr_prev := Some n\<rparr>) m);
          m = upd_chunk p (\<lambda>c. c\<lparr>byaddr_next := Some n\<rparr>) m
      in upd_chunk n (\<lambda>c. c\<lparr>byaddr_prev := Some p\<rparr>) m)"

definition MMapMgr_EnQByAddrBefore :: "MmapMgr \<Rightarrow> nat \<Rightarrow> nat \<Rightarrow> MmapMgr" where
  "MMapMgr_EnQByAddrBefore m n p =
     (let m = (if ByAddr_anchor m = Some p then m\<lparr>ByAddr_anchor := Some n\<rparr> else m);
          m = upd_chunk n (\<lambda>c. c\<lparr>byaddr_prev := byaddr_prev (chunks m p)\<rparr>) m;
          m = (case byaddr_prev (chunks m n) of
                 None \<Rightarrow> m
               | Some k \<Rightarrow> upd_chunk k (\<lambda>c. c\<lparr>byaddr_next := Some n\<rparr>) m);
          m = upd_chunk n (\<lambda>c. c\<lparr>byaddr_next := Some p\<rparr>) m
      in upd_chunk p (\<lambda>c. c\<lparr>byaddr_prev := Some n\<rparr>) m)"

definition MMapMgr_DeQByAddr :: "MmapMgr \<Rightarrow> nat \<Rightarrow> MmapMgr" where
  "MMapMgr_DeQByAddr m c =
     (let m = (if ByAddr_anchor m = Some c then
                 (case byaddr_prev (chunks m c) of
                    Some k \<Rightarrow> m\<lparr>ByAddr_anchor := Some k\<rparr>
                  | None \<Rightarrow>
                     (case byaddr_next (chunks m c) of
                        Some k \<Rightarrow> m\<lparr>ByAddr_anchor := Some k\<rparr>
                      | None \<Rightarrow> m\<lparr>ByAddr_anchor := None\<rparr>))
               else m);
          m = (case byaddr_prev (chunks m c) of
                 None \<Rightarrow> m
               | Some k \<Rightarrow> upd_chunk k (\<lambda>d. d\<lparr>byaddr_next := byaddr_next (chunks m c)\<rparr>) m);
          m = (case byaddr_next (chunks m c) of
                 None \<Rightarrow> m
               | Some k \<Rightarrow> upd_chunk k (\<lambda>d. d\<lparr>byaddr_prev := byaddr_prev (chunks m c)\<rparr>) m)
      in upd_chunk c (\<lambda>d. d\<lparr>byaddr_next := None, byaddr_prev := None\<rparr>) m)"

section \<open>The pool of free descriptors\<close>

definition MMap_Push_FreeChunk :: "MmapMgr \<Rightarrow> nat \<Rightarrow> MmapMgr" where
  "MMap_Push_FreeChunk m pch =
     (let m = upd_chunk pch (\<lambda>c. c\<lparr>c_next := FreeChunk_anchor m\<rparr>) m
      in m\<lparr>FreeChunk_anchor := Some pch, chunks_left := chunks_left m + 1\<rparr>)"

definition MMap_Pop_FreeChunk :: "MmapMgr \<Rightarrow> MmapMgr \<times> ptr" where
  "MMap_Pop_FreeChunk m =
     (case FreeChunk_anchor m of
        None \<Rightarrow> (m, None)
      | Some pch \<Rightarrow>
         (let m = m\<lparr>FreeChunk_anchor := c_next (chunks m pch)\<rparr>;
              m = upd_chunk pch (\<lambda>c. c\<lparr>c_next := None, c_prev := None\<rparr>) m
          in (m\<lparr>chunks_left := chunks_left m - 1\<rparr>, Some pch)))"

section \<open>Pointers and the lists they represent\<close>

text \<open>The pointer to the first element, and to the last one, of a list of descriptors.\<close>

definition hdp :: "nat list \<Rightarrow> ptr \<Rightarrow> ptr" where
  "hdp xs q = (case xs of [] \<Rightarrow> q | i # _ \<Rightarrow> Some i)"

definition lastp :: "nat list \<Rightarrow> ptr \<Rightarrow> ptr" where
  "lastp xs q = (if xs = [] then q else Some (last xs))"

lemma hdp_simps [simp]: "hdp [] q = q" "hdp (i # xs) q = Some i"
  by (simp_all add: hdp_def)

lemma lastp_simps [simp]: "lastp [] q = q" "lastp (i # xs) q = lastp xs (Some i)"
  "lastp (xs @ [i]) q = Some i"
  by (simp_all add: lastp_def)

lemma hdp_append: "hdp (xs @ ys) q = hdp xs (hdp ys q)"
  by (cases xs) simp_all

lemma hdp_not_None [simp]: "hdp xs (Some j) \<noteq> None" "\<exists>y. hdp xs (Some j) = Some y"
  by (cases xs; simp)+

lemma hdp_member: "hdp xs (Some j) = Some i \<Longrightarrow> i \<in> insert j (set xs)"
  by (cases xs) auto

lemma lastp_append: "lastp (xs @ ys) q = lastp ys (lastp xs q)"
  by (simp add: lastp_def)

text \<open>
  \<open>lnk h p xs q\<close>: in the heap \<open>h\<close> the descriptors \<open>xs\<close> are doubly linked in this order,
  the first one's back pointer is \<open>p\<close> and the last one's forward pointer is \<open>q\<close>.
\<close>

fun lnk :: "(nat \<Rightarrow> MMapChunk) \<Rightarrow> ptr \<Rightarrow> nat list \<Rightarrow> ptr \<Rightarrow> bool" where
  "lnk h p [] q \<longleftrightarrow> True"
| "lnk h p (i # xs) q \<longleftrightarrow>
     byaddr_prev (h i) = p \<and> byaddr_next (h i) = hdp xs q \<and> lnk h (Some i) xs q"

lemma lnk_append [simp]:
  "lnk h p (xs @ ys) q \<longleftrightarrow> lnk h p xs (hdp ys q) \<and> lnk h (lastp xs p) ys q"
  by (induction xs arbitrary: p) (auto simp: hdp_append)

lemma lnk_cong:
  assumes "\<And>i. i \<in> set xs \<Longrightarrow> byaddr_next (h i) = byaddr_next (h' i) \<and> byaddr_prev (h i) = byaddr_prev (h' i)"
  shows "lnk h p xs q = lnk h' p xs q"
  using assms by (induction xs arbitrary: p) auto

lemma lnk_upd_other [simp]: "i \<notin> set xs \<Longrightarrow> lnk (h(i := c)) p xs q = lnk h p xs q"
  by (rule lnk_cong) auto

text \<open>\<open>chain h xs\<close>: the descriptors \<open>xs\<close> are linked through \<open>next\<close>, down to NULL.\<close>

fun chain :: "(nat \<Rightarrow> MMapChunk) \<Rightarrow> nat list \<Rightarrow> bool" where
  "chain h [] \<longleftrightarrow> True"
| "chain h (i # xs) \<longleftrightarrow> c_next (h i) = hdp xs None \<and> chain h xs"

lemma chain_cong:
  "(\<And>i. i \<in> set xs \<Longrightarrow> c_next (h i) = c_next (h' i)) \<Longrightarrow> chain h xs = chain h' xs"
  by (induction xs) auto

lemma chain_upd_other [simp]: "i \<notin> set xs \<Longrightarrow> chain (h(i := c)) xs = chain h xs"
  by (rule chain_cong) auto

section \<open>Pages\<close>

lemma word_4095: "(4095 :: u64) = mask 12"
  by (simp add: mask_eq_exp_minus_1)

lemma unat_MMAP_ROUND_UP: "unat a + 4095 < 2 ^ 64 \<Longrightarrow> unat (MMAP_ROUND_UP a) = (unat a + 4095) div 4096 * 4096"
  using unat_clear_mask [of "a + 4095" 12] unat_add_exact [of a 4095]
  by (simp add: MMAP_ROUND_UP_def PAGESIZE_def flip: word_4095)

lemma dvd_page: "4096 dvd unat a \<Longrightarrow> a AND NOT 4095 = a" for a :: u64
  using unat_clear_mask [of "a" 12]
  by (auto simp: word_unat_eq_iff simp flip: word_4095)

lemma MMAP_ROUND_UP_page: "4096 dvd unat a \<Longrightarrow> MMAP_ROUND_UP a = a" 
proof -
  assume "4096 dvd unat a"
  moreover have "unat a < 2 ^ 64" using unsigned_less [of a] by simp
  ultimately have "unat a + 4095 < 2 ^ 64" by (elim dvdE) simp
  from unat_MMAP_ROUND_UP[OF this] show ?thesis using \<open>4096 dvd unat a\<close> by (auto elim!: dvdE simp: word_unat_eq_iff)
qed

lemma page_even: "4096 dvd unat a \<Longrightarrow> even a" for a :: u64
  by (drule dvd_trans [of 2, rotated]) (simp_all add: even_unat)

section \<open>Well-formed managers\<close>

text \<open>
  \<open>rep m xs fl\<close>: the descriptors in use are \<open>xs\<close>, in the order of the address list, the
  free ones are \<open>fl\<close>, in the order of the stack, and no descriptor is in both.
\<close>

definition byaddr_rep :: "MmapMgr \<Rightarrow> nat list \<Rightarrow> bool" where
  "byaddr_rep m xs \<longleftrightarrow> ByAddr_anchor m = hdp xs None \<and> lnk (chunks m) None xs None"

definition pool_rep :: "MmapMgr \<Rightarrow> nat list \<Rightarrow> bool" where
  "pool_rep m fl \<longleftrightarrow>
     FreeChunk_anchor m = hdp fl None \<and> chain (chunks m) fl \<and> unat (chunks_left m) = length fl"

definition rep :: "MmapMgr \<Rightarrow> nat list \<Rightarrow> nat list \<Rightarrow> bool" where
  "rep m xs fl \<longleftrightarrow> byaddr_rep m xs \<and> pool_rep m fl \<and> distinct (xs @ fl) \<and>
     set (xs @ fl) \<subseteq> {..<MMAP_MAX_ALLOCS}"

lemmas rep_defs = rep_def byaddr_rep_def pool_rep_def

text \<open>The fields of the manager that are not links: the accounting and the marks.\<close>

definition acct :: "MmapMgr \<Rightarrow> u64 \<times> u64 \<times> u64 \<times> u64 \<times> u64 \<times> u64 \<times> u64 \<times> u64" where
  "acct m = (mem_start m, mem_size m, mem_avail m, mem_busy m, high_mark m, high_mark_max m,
             low_unmap m, high_unmap m)"

lemma acct_eqD:
  assumes "acct m = acct m'"
  shows "mem_start m = mem_start m'" "mem_size m = mem_size m'" "mem_avail m = mem_avail m'"
    "mem_busy m = mem_busy m'" "high_mark m = high_mark m'" "high_mark_max m = high_mark_max m'"
    "low_unmap m = low_unmap m'" "high_unmap m = high_unmap m'"
  using assms by (simp_all add: acct_def)

lemma rep_length: "rep m xs fl \<Longrightarrow> length xs + length fl \<le> MMAP_MAX_ALLOCS"
proof -
  assume r: "rep m xs fl"
  have "card (set (xs @ fl)) \<le> card {..<MMAP_MAX_ALLOCS}"
    by (rule card_mono) (use r in \<open>auto simp: rep_def\<close>)
  with r show ?thesis
    by (simp add: rep_def distinct_card flip: length_append distinct_append set_append)
qed

lemma rep_pool_bound: "rep m xs fl \<Longrightarrow> length fl < 2 ^ 64 - 1"
  using rep_length [of m xs fl] by (simp add: MMAP_MAX_ALLOCS_def)

subsection \<open>Updates that leave the links alone\<close>

lemma upd_chunk_simps [simp]:
  "chunks (upd_chunk i f m) = (chunks m)(i := f (chunks m i))"
  "ByAddr_anchor (upd_chunk i f m) = ByAddr_anchor m"
  "FreeChunk_anchor (upd_chunk i f m) = FreeChunk_anchor m"
  "chunks_left (upd_chunk i f m) = chunks_left m"
  "acct (upd_chunk i f m) = acct m"
  "mem_start (upd_chunk i f m) = mem_start m" "mem_size (upd_chunk i f m) = mem_size m"
  "mem_avail (upd_chunk i f m) = mem_avail m" "mem_busy (upd_chunk i f m) = mem_busy m"
  by (simp_all add: upd_chunk_def acct_def)

lemma rep_upd_data:
  assumes "\<And>c. byaddr_next (f c) = byaddr_next c" "\<And>c. byaddr_prev (f c) = byaddr_prev c"
    "\<And>c. c_next (f c) = c_next c"
  shows "rep (upd_chunk i f m) xs fl = rep m xs fl"
proof -
  have "lnk (chunks (upd_chunk i f m)) None xs None = lnk (chunks m) None xs None"
    by (rule lnk_cong) (simp add: assms)
  moreover have "chain (chunks (upd_chunk i f m)) fl = chain (chunks m) fl"
    by (rule chain_cong) (simp add: assms)
  ultimately show ?thesis by (simp add: rep_defs)
qed

lemma rep_upd_addr [simp]: "rep (upd_chunk i (\<lambda>c. c_addr_update (g c) c) m) xs fl = rep m xs fl"
  by (rule rep_upd_data) simp_all

lemma rep_upd_size [simp]: "rep (upd_chunk i (\<lambda>c. c_size_update (g c) c) m) xs fl = rep m xs fl"
  by (rule rep_upd_data) simp_all

lemma rep_upd_addr_size [simp]:
  "rep (upd_chunk i (\<lambda>c. c\<lparr>c_addr := a, c_size := s\<rparr>) m) xs fl = rep m xs fl"
  by (rule rep_upd_data) simp_all

lemma rep_scalar [simp]:
  "rep (m\<lparr>mem_avail := a\<rparr>) xs fl = rep m xs fl" "rep (m\<lparr>mem_busy := a\<rparr>) xs fl = rep m xs fl"
  "rep (m\<lparr>high_mark := a\<rparr>) xs fl = rep m xs fl" "rep (m\<lparr>high_mark_max := a\<rparr>) xs fl = rep m xs fl"
  "rep (m\<lparr>low_unmap := a\<rparr>) xs fl = rep m xs fl" "rep (m\<lparr>high_unmap := a\<rparr>) xs fl = rep m xs fl"
  by (simp_all add: rep_defs)

subsection \<open>The list operations\<close>

lemma EnQByAddrAfter_data [simp]:
  "c_addr (chunks (MMapMgr_EnQByAddrAfter m n p) i) = c_addr (chunks m i)"
  "c_size (chunks (MMapMgr_EnQByAddrAfter m n p) i) = c_size (chunks m i)"
  "acct (MMapMgr_EnQByAddrAfter m n p) = acct m"
  by (auto simp: MMapMgr_EnQByAddrAfter_def Let_def acct_def upd_chunk_def split: option.splits)

lemma EnQByAddrBefore_data [simp]:
  "c_addr (chunks (MMapMgr_EnQByAddrBefore m n p) i) = c_addr (chunks m i)"
  "c_size (chunks (MMapMgr_EnQByAddrBefore m n p) i) = c_size (chunks m i)"
  "acct (MMapMgr_EnQByAddrBefore m n p) = acct m"
  by (auto simp: MMapMgr_EnQByAddrBefore_def Let_def acct_def upd_chunk_def split: option.splits)

lemma DeQByAddr_data [simp]:
  "c_addr (chunks (MMapMgr_DeQByAddr m n) i) = c_addr (chunks m i)"
  "c_size (chunks (MMapMgr_DeQByAddr m n) i) = c_size (chunks m i)"
  "acct (MMapMgr_DeQByAddr m n) = acct m"
  by (auto simp: MMapMgr_DeQByAddr_def Let_def acct_def upd_chunk_def split: option.splits)

lemma Push_FreeChunk_data [simp]:
  "c_addr (chunks (MMap_Push_FreeChunk m n) i) = c_addr (chunks m i)"
  "c_size (chunks (MMap_Push_FreeChunk m n) i) = c_size (chunks m i)"
  "acct (MMap_Push_FreeChunk m n) = acct m"
  by (auto simp: MMap_Push_FreeChunk_def Let_def acct_def upd_chunk_def)

lemma EnQByAddrAfter_rep:
  assumes r: "rep m (xs @ p # ys) fl" and n: "n \<notin> set (xs @ p # ys @ fl)" "n < MMAP_MAX_ALLOCS"
  shows "rep (MMapMgr_EnQByAddrAfter m n p) (xs @ p # n # ys) fl"
proof (cases ys)
  case Nil
  with r n show ?thesis
    by (auto simp: rep_defs MMapMgr_EnQByAddrAfter_def Let_def hdp_append)
next
  case (Cons j zs)
  with r n show ?thesis
    by (auto simp: rep_defs MMapMgr_EnQByAddrAfter_def Let_def hdp_append)
qed

lemma EnQByAddrBefore_rep:
  assumes r: "rep m (xs @ p # ys) fl" and n: "n \<notin> set (xs @ p # ys @ fl)" "n < MMAP_MAX_ALLOCS"
  shows "rep (MMapMgr_EnQByAddrBefore m n p) (xs @ n # p # ys) fl"
proof (cases xs rule: rev_cases)
  case Nil
  with r n show ?thesis
    by (auto simp: rep_defs MMapMgr_EnQByAddrBefore_def Let_def hdp_append)
next
  case (snoc zs j)
  with r n show ?thesis
    by (auto simp: rep_defs MMapMgr_EnQByAddrBefore_def Let_def hdp_append dest: hdp_member)
qed

lemma DeQByAddr_rep:
  assumes r: "rep m (xs @ p # ys) fl"
  shows "rep (MMapMgr_DeQByAddr m p) (xs @ ys) fl" "p \<notin> set (xs @ ys @ fl)" "p < MMAP_MAX_ALLOCS"
proof -
  show "rep (MMapMgr_DeQByAddr m p) (xs @ ys) fl"
  proof (cases xs rule: rev_cases)
    case Nil
    with r show ?thesis
      by (cases ys) (auto simp: rep_defs MMapMgr_DeQByAddr_def Let_def hdp_append)
  next
    case (snoc zs j)
    with r show ?thesis
      by (cases ys) (auto simp: rep_defs MMapMgr_DeQByAddr_def Let_def hdp_append dest: hdp_member)
  qed
qed (use r in \<open>auto simp: rep_defs\<close>)

subsection \<open>The pool\<close>

lemma Push_FreeChunk_rep:
  assumes r: "rep m xs fl" and p: "p \<notin> set (xs @ fl)" "p < MMAP_MAX_ALLOCS"
  shows "rep (MMap_Push_FreeChunk m p) xs (p # fl)"
proof -
  have "unat (chunks_left m + 1) = length fl + 1"
    using r rep_pool_bound [OF r] by (subst unat_add_exact) (simp_all add: rep_defs)
  with r p show ?thesis
    by (auto simp: rep_defs MMap_Push_FreeChunk_def Let_def)
qed

lemma Pop_FreeChunk_rep:
  assumes r: "rep m xs (p # fl)"
  shows "snd (MMap_Pop_FreeChunk m) = Some p" "rep (fst (MMap_Pop_FreeChunk m)) xs fl"
    "p \<notin> set (xs @ fl)" "p < MMAP_MAX_ALLOCS"
proof -
  have l: "unat (chunks_left m) = length fl + 1" using r by (simp add: rep_defs)
  then have "unat (chunks_left m - 1) = length fl"
    by (subst unat_sub_exact) (simp_all add: word_le_nat_alt)
  with r show "rep (fst (MMap_Pop_FreeChunk m)) xs fl"
    by (auto simp: rep_defs MMap_Pop_FreeChunk_def Let_def intro: lnk_cong [THEN iffD1, rotated])
qed (use r in \<open>auto simp: rep_defs MMap_Pop_FreeChunk_def Let_def\<close>)

lemma Pop_FreeChunk_empty: "rep m xs [] \<Longrightarrow> MMap_Pop_FreeChunk m = (m, None)"
  by (simp add: rep_defs MMap_Pop_FreeChunk_def)

lemma Pop_FreeChunk_data [simp]:
  "c_addr (chunks (fst (MMap_Pop_FreeChunk m)) i) = c_addr (chunks m i)"
  "c_size (chunks (fst (MMap_Pop_FreeChunk m)) i) = c_size (chunks m i)"
  "acct (fst (MMap_Pop_FreeChunk m)) = acct m"
  by (auto simp: MMap_Pop_FreeChunk_def Let_def acct_def upd_chunk_def split: option.splits)

end
