(* ===== verification/MmapRegions.thy ===== *)
theory MmapRegions
  imports CnkPrelude
begin

text \<open>
  What the mmap manager means: the managed range as a list of contiguous regions, each free or
  busy. The operations on this list (\<open>combine\<close>, \<open>carve_free\<close>, \<open>carve_busy\<close>) are the
  specification that the pointer code of \<^verbatim>\<open>cnk/src/mmap.c\<close> is shown to implement, and the
  facts about them here are on naturals and lists only.
\<close>

datatype region = Region (reg_base: nat) (reg_len: nat) (reg_free: bool)

abbreviation reg_end :: "region \<Rightarrow> nat" where
  "reg_end r \<equiv> reg_base r + reg_len r"

text \<open>The addresses of a region, and the free addresses of a list of regions.\<close>

definition reg_addrs :: "region \<Rightarrow> nat set" where
  "reg_addrs r = {reg_base r..<reg_end r}"

definition free_addrs :: "region list \<Rightarrow> nat set" where
  "free_addrs rs = (\<Union>r\<in>set (filter reg_free rs). reg_addrs r)"

definition free_sum :: "region list \<Rightarrow> nat" where
  "free_sum rs = sum_list (map reg_len (filter reg_free rs))"

text \<open>The regions fill the range from \<open>a\<close> to \<open>b\<close> without gap, in whole pages.\<close>

fun tiles :: "nat \<Rightarrow> region list \<Rightarrow> nat \<Rightarrow> bool" where
  "tiles a [] b \<longleftrightarrow> a = b"
| "tiles a (r # rs) b \<longleftrightarrow> reg_base r = a \<and> 0 < reg_len r \<and> 4096 dvd reg_len r \<and> tiles (reg_end r) rs b"

text \<open>Neighbours are never in the same state: everything that can be merged has been.\<close>

fun coalesced :: "region list \<Rightarrow> bool" where
  "coalesced [] \<longleftrightarrow> True"
| "coalesced (r # rs) \<longleftrightarrow> (rs \<noteq> [] \<longrightarrow> reg_free (hd rs) \<noteq> reg_free r) \<and> coalesced rs"

section \<open>Operations\<close>

fun comb_next :: "region \<Rightarrow> region list \<Rightarrow> region list" where
  "comb_next r [] = [r]"
| "comb_next r (s # ys) =
     (if reg_free s = reg_free r then Region (reg_base r) (reg_len r + reg_len s) (reg_free r) # ys else r # s # ys)"

definition comb_prev :: "region list \<Rightarrow> region \<Rightarrow> region list \<times> region" where
  "comb_prev xs r =
     (if xs \<noteq> [] \<and> reg_free (last xs) = reg_free r
      then (butlast xs, Region (reg_base (last xs)) (reg_len (last xs) + reg_len r) (reg_free r))
      else (xs, r))"

definition combine :: "region list \<Rightarrow> region \<Rightarrow> region list \<Rightarrow> region list" where
  "combine xs r ys = (case comb_prev xs r of (xs', r') \<Rightarrow> xs' @ comb_next r' ys)"

text \<open>
  The part \<open>[a, a + n)\<close> of a region becomes free or busy: the region is split into at most
  three, and the middle one changes its state.
\<close>

definition front_part :: "region \<Rightarrow> nat \<Rightarrow> region list" where
  "front_part r a = (if reg_base r < a then [Region (reg_base r) (a - reg_base r) (reg_free r)] else [])"

definition back_part :: "region \<Rightarrow> nat \<Rightarrow> region list" where
  "back_part r e = (if e < reg_end r then [Region e (reg_end r - e) (reg_free r)] else [])"

definition carve :: "bool \<Rightarrow> region list \<Rightarrow> region \<Rightarrow> region list \<Rightarrow> nat \<Rightarrow> nat \<Rightarrow> region list" where
  "carve f xs r ys a n = combine (xs @ front_part r a) (Region a n f) (back_part r (a + n) @ ys)"

section \<open>Facts\<close>

lemma tiles_append [simp]:
  "tiles a (xs @ ys) b \<longleftrightarrow> (\<exists>c. tiles a xs c \<and> tiles c ys b)"
  by (induction xs arbitrary: a) auto

lemma tiles_le: "tiles a rs b \<Longrightarrow> a \<le> b"
  by (induction rs arbitrary: a) force+

lemma tiles_dvd: "tiles a rs b \<Longrightarrow> 4096 dvd a \<Longrightarrow> 4096 dvd b"
  by (induction rs arbitrary: a) auto

lemma tiles_mem:
  assumes "tiles a rs b" "r \<in> set rs"
  shows "a \<le> reg_base r" "reg_end r \<le> b" "0 < reg_len r" "4096 dvd reg_len r" "4096 dvd a \<Longrightarrow> 4096 dvd reg_base r"
proof -
  from assms(2) obtain xs ys where "rs = xs @ r # ys" by (auto dest: split_list)
  with assms(1) have t: "tiles a xs (reg_base r)" "0 < reg_len r" "4096 dvd reg_len r" "tiles (reg_end r) ys b"
    by auto
  then show "a \<le> reg_base r" "reg_end r \<le> b" "0 < reg_len r" "4096 dvd reg_len r"
    "4096 dvd a \<Longrightarrow> 4096 dvd reg_base r"
    by (auto dest: tiles_le tiles_dvd)
qed

lemma free_addrs_simps [simp]:
  "free_addrs [] = {}"
  "free_addrs (r # rs) = (if reg_free r then reg_addrs r else {}) \<union> free_addrs rs"
  "free_addrs (xs @ ys) = free_addrs xs \<union> free_addrs ys"
  by (auto simp: free_addrs_def)

lemma free_sum_simps [simp]:
  "free_sum [] = 0"
  "free_sum (r # rs) = (if reg_free r then reg_len r else 0) + free_sum rs"
  "free_sum (xs @ ys) = free_sum xs + free_sum ys"
  by (auto simp: free_sum_def)

lemma free_addrs_bounds: "tiles a rs b \<Longrightarrow> free_addrs rs \<subseteq> {a..<b}"
  using tiles_mem(1,2) by (fastforce simp: free_addrs_def reg_addrs_def)

lemma free_sum_card: "tiles a rs b \<Longrightarrow> finite (free_addrs rs) \<and> card (free_addrs rs) = free_sum rs"
proof (induction rs arbitrary: a)
  case (Cons r rs)
  from Cons.prems have t: "tiles (reg_end r) rs b" by auto
  have "reg_addrs r \<inter> free_addrs rs = {}"
    using free_addrs_bounds [OF t] by (auto simp: reg_addrs_def)
  with Cons.IH [OF t] show ?case
    by (auto simp: card_Un_disjoint reg_addrs_def)
qed simp

lemma coalesced_append:
  "coalesced (xs @ ys) \<longleftrightarrow> coalesced xs \<and> coalesced ys \<and>
     (xs \<noteq> [] \<longrightarrow> ys \<noteq> [] \<longrightarrow> reg_free (last xs) \<noteq> reg_free (hd ys))"
  by (induction xs) (auto simp: hd_append)

subsection \<open>Merging\<close>

lemma combine_cases:
  obtains (both) xs' p s ys' where "xs = xs' @ [p]" "ys = s # ys'" "reg_free p = reg_free r" "reg_free s = reg_free r"
      "combine xs r ys = xs' @ Region (reg_base p) (reg_len p + reg_len r + reg_len s) (reg_free r) # ys'"
  | (prev) xs' p where "xs = xs' @ [p]" "reg_free p = reg_free r" "ys \<noteq> [] \<Longrightarrow> reg_free (hd ys) \<noteq> reg_free r"
      "combine xs r ys = xs' @ Region (reg_base p) (reg_len p + reg_len r) (reg_free r) # ys"
  | (nxt) s ys' where "ys = s # ys'" "reg_free s = reg_free r" "xs \<noteq> [] \<Longrightarrow> reg_free (last xs) \<noteq> reg_free r"
      "combine xs r ys = xs @ Region (reg_base r) (reg_len r + reg_len s) (reg_free r) # ys'"
  | (none) "xs \<noteq> [] \<Longrightarrow> reg_free (last xs) \<noteq> reg_free r" "ys \<noteq> [] \<Longrightarrow> reg_free (hd ys) \<noteq> reg_free r"
      "combine xs r ys = xs @ r # ys"
proof -
  have e: "combine xs r ys = (if xs \<noteq> [] \<and> reg_free (last xs) = reg_free r
      then butlast xs @ comb_next (Region (reg_base (last xs)) (reg_len (last xs) + reg_len r) (reg_free r)) ys
      else xs @ comb_next r ys)"
    by (simp add: combine_def comb_prev_def)
  show thesis
  proof (cases "xs \<noteq> [] \<and> reg_free (last xs) = reg_free r")
    case True
    then obtain xs' p where x: "xs = xs' @ [p]" "reg_free p = reg_free r" by (cases xs rule: rev_cases) auto
    show thesis
      by (cases ys; cases "reg_free (hd ys) = reg_free r") (use x e both prev in auto)
  next
    case False
    then show thesis
      by (cases ys; cases "reg_free (hd ys) = reg_free r") (use False e nxt none in auto)
  qed
qed

lemma combine_tiles:
  assumes "tiles a (xs @ r # ys) b"
  shows "tiles a (combine xs r ys) b"
  by (rule combine_cases [of xs ys r]) (use assms in \<open>auto simp: add.assoc\<close>)

lemma combine_free_sum: "free_sum (combine xs r ys) = free_sum (xs @ r # ys)"
  by (rule combine_cases [of xs ys r]) auto

lemma combine_free_addrs:
  assumes "tiles a (xs @ r # ys) b"
  shows "free_addrs (combine xs r ys) = free_addrs (xs @ r # ys)"
  by (rule combine_cases [of xs ys r]) (use assms in \<open>auto simp: reg_addrs_def\<close>)

lemma combine_coalesced:
  assumes "coalesced xs" "coalesced ys"
  shows "coalesced (combine xs r ys)"
  by (rule combine_cases [of xs ys r])
    (use assms in \<open>auto simp: coalesced_append hd_append split: if_splits\<close>)

lemma combine_coalesced_id: "coalesced (xs @ r # ys) \<Longrightarrow> combine xs r ys = xs @ r # ys"
  by (cases xs ys r rule: combine_cases) (auto simp: coalesced_append hd_append split: if_splits)

lemma comb_prev_tiles:
  "tiles a (xs @ r # ys) b \<Longrightarrow> comb_prev xs r = (xs', r') \<Longrightarrow> tiles a (xs' @ r' # ys) b"
  by (cases xs rule: rev_cases) (auto simp: comb_prev_def add.assoc split: if_splits)

lemma comb_prev_free: "comb_prev xs r = (xs', r') \<Longrightarrow> reg_free r' = reg_free r"
  by (auto simp: comb_prev_def split: if_splits)

subsection \<open>Carving\<close>

lemma front_back_tiles:
  assumes "4096 dvd a" "4096 dvd n" "0 < n" "4096 dvd reg_base r" "4096 dvd reg_len r" "0 < reg_len r"
    "reg_base r \<le> a" "a + n \<le> reg_end r"
  shows "tiles (reg_base r) (front_part r a @ Region a n f # back_part r (a + n)) (reg_end r)"
  using assms by (auto simp: front_part_def back_part_def dvd_diff_nat)

lemma carve_coalesced:
  assumes "coalesced (xs @ r # ys)"
  shows "coalesced (carve f xs r ys a n)"
  unfolding carve_def
  by (rule combine_coalesced)
    (use assms in \<open>auto simp: coalesced_append front_part_def back_part_def hd_append split: if_splits\<close>)

lemma carve_uncombined_tiles:
  assumes "tiles lo (xs @ r # ys) hi" "4096 dvd lo" "4096 dvd a" "4096 dvd n" "0 < n"
    "reg_base r \<le> a" "a + n \<le> reg_end r"
  shows "tiles lo ((xs @ front_part r a) @ Region a n f # back_part r (a + n) @ ys) hi"
proof -
  have r: "4096 dvd reg_base r" "4096 dvd reg_len r" "0 < reg_len r"
    using tiles_mem [OF assms(1), of r] assms(2) by auto
  have "tiles (reg_base r) (front_part r a @ Region a n f # back_part r (a + n)) (reg_end r)"
    by (rule front_back_tiles) (use assms r in simp_all)
  with assms have "tiles lo (xs @ (front_part r a @ Region a n f # back_part r (a + n)) @ ys) hi"
    by (subst tiles_append, subst tiles_append) auto
  then show ?thesis by simp
qed

lemma carve_tiles:
  assumes "tiles lo (xs @ r # ys) hi" "4096 dvd lo" "4096 dvd a" "4096 dvd n" "0 < n"
    "reg_base r \<le> a" "a + n \<le> reg_end r"
  shows "tiles lo (carve f xs r ys a n) hi"
  unfolding carve_def by (rule combine_tiles, rule carve_uncombined_tiles) (use assms in simp_all)

lemma tiles_disjoint_mid:
  assumes "tiles lo (xs @ r # ys) hi"
  shows "free_addrs xs \<inter> reg_addrs r = {}" "free_addrs ys \<inter> reg_addrs r = {}"
proof -
  from assms have "tiles lo xs (reg_base r)" "tiles (reg_end r) ys hi" by auto
  then show "free_addrs xs \<inter> reg_addrs r = {}" "free_addrs ys \<inter> reg_addrs r = {}"
    by (auto dest!: free_addrs_bounds simp: reg_addrs_def)
qed

text \<open>Freeing part of a busy region, and taking part of a free one.\<close>

lemma carve_free:
  assumes t: "tiles lo (xs @ r # ys) hi" "4096 dvd lo" "4096 dvd a" "4096 dvd n" "0 < n"
    "reg_base r \<le> a" "a + n \<le> reg_end r" and f: "\<not> reg_free r"
  shows "free_addrs (carve True xs r ys a n) = free_addrs (xs @ r # ys) \<union> {a..<a + n}"
    "free_sum (carve True xs r ys a n) = free_sum (xs @ r # ys) + n"
proof -
  have u: "tiles lo ((xs @ front_part r a) @ Region a n True # back_part r (a + n) @ ys) hi"
    by (rule carve_uncombined_tiles) (use t in simp_all)
  show "free_addrs (carve True xs r ys a n) = free_addrs (xs @ r # ys) \<union> {a..<a + n}"
    unfolding carve_def combine_free_addrs [OF u]
    using f by (auto simp: front_part_def back_part_def reg_addrs_def)
  show "free_sum (carve True xs r ys a n) = free_sum (xs @ r # ys) + n"
    unfolding carve_def combine_free_sum using f by (auto simp: front_part_def back_part_def)
qed

lemma carve_busy:
  assumes t: "tiles lo (xs @ r # ys) hi" "4096 dvd lo" "4096 dvd a" "4096 dvd n" "0 < n"
    "reg_base r \<le> a" "a + n \<le> reg_end r" and f: "reg_free r"
  shows "free_addrs (carve False xs r ys a n) = free_addrs (xs @ r # ys) - {a..<a + n}"
    "free_sum (carve False xs r ys a n) + n = free_sum (xs @ r # ys)"
    "{a..<a + n} \<subseteq> free_addrs (xs @ r # ys)"
proof -
  have u: "tiles lo ((xs @ front_part r a) @ Region a n False # back_part r (a + n) @ ys) hi"
    by (rule carve_uncombined_tiles) (use t in simp_all)
  have "{a..<a + n} \<subseteq> reg_addrs r" using t by (auto simp: reg_addrs_def)
  then show "free_addrs (carve False xs r ys a n) = free_addrs (xs @ r # ys) - {a..<a + n}"
    "{a..<a + n} \<subseteq> free_addrs (xs @ r # ys)"
    unfolding carve_def combine_free_addrs [OF u]
    using f t(5-7) tiles_disjoint_mid [OF t(1)]
    by (auto simp: front_part_def back_part_def reg_addrs_def)
  show "free_sum (carve False xs r ys a n) + n = free_sum (xs @ r # ys)"
    unfolding carve_def combine_free_sum using f t(5-7) by (auto simp: front_part_def back_part_def)
qed

text \<open>Merging the front part back gives the region again.\<close>

lemma combine_front:
  assumes "coalesced (xs @ r # ys)" "reg_base r \<le> a" "a \<le> reg_end r"
  shows "combine (xs @ front_part r a) (Region a (reg_end r - a) (reg_free r)) ys = xs @ r # ys"
proof (cases "reg_base r < a")
  case True
  then have "comb_prev (xs @ front_part r a) (Region a (reg_end r - a) (reg_free r)) = (xs, r)"
    using assms by (cases r) (simp add: front_part_def comb_prev_def)
  moreover have "comb_next r ys = r # ys" using assms(1) by (cases ys) (auto simp: coalesced_append)
  ultimately show ?thesis by (simp add: combine_def)
next
  case False
  then have "Region a (reg_end r - a) (reg_free r) = r" "front_part r a = []"
    using assms by (cases r; simp add: front_part_def)+
  with assms(1) show ?thesis by (simp add: combine_coalesced_id)
qed

text \<open>The region that a merge returns covers the one it started from.\<close>

lemma combine_covers:
  assumes "tiles a (xs @ r # ys) b" "comb_next (snd (comb_prev xs r)) ys = q # zs"
  shows "reg_base q \<le> reg_base r" "reg_end r \<le> reg_end q" "reg_free q = reg_free r"
proof -
  define r' where "r' = snd (comb_prev xs r)"
  have "reg_base r' \<le> reg_base r \<and> reg_end r' = reg_end r \<and> reg_free r' = reg_free r"
    using assms(1) by (cases xs rule: rev_cases) (auto simp: r'_def comb_prev_def)
  moreover have "reg_base q = reg_base r' \<and> reg_end r' \<le> reg_end q \<and> reg_free q = reg_free r'"
    using assms(2) by (cases ys) (auto simp flip: r'_def split: if_splits)
  ultimately show "reg_base q \<le> reg_base r" "reg_end r \<le> reg_end q" "reg_free q = reg_free r" by auto
qed

end
