(* ===== verification/MmapAlloc.thy ===== *)
theory MmapAlloc
  imports MmapChunks MmapRegions
begin

text \<open>
  The allocator of \<^verbatim>\<open>cnk/src/mmap.c\<close>: merging, freeing and allocating on the chunk list, and the
  public operations \<open>MMap_Init\<close>, \<open>MMap_Malloc\<close>, \<open>MMap_Malloc_Addr\<close> and \<open>MMap_Free\<close>.
  A walk along the list is a \<open>partial_function (option)\<close>, so that a walk that does not end has
  the value None; every operation that walks returns an option for this reason.
  The lock, the flight log and the diagnostic output are not part of the model: the operations
  run to completion under \<open>MMapLock\<close>.
\<close>

section \<open>\<open>MMapMgr_CombineNeighbors\<close>\<close>

definition CombineNeighbors_prev :: "MmapMgr \<Rightarrow> nat \<Rightarrow> bool \<Rightarrow> MmapMgr \<times> nat" where
  "CombineNeighbors_prev m ch fr =
     (case byaddr_prev (chunks m ch) of
        None \<Rightarrow> (m, ch)
      | Some tmp \<Rightarrow>
          if is_free (chunks m tmp) = fr then
            (let m = upd_chunk tmp (\<lambda>c. c\<lparr>c_size := c_size c + c_size (chunks m ch)\<rparr>) m;
                 m = upd_chunk ch (\<lambda>c. c\<lparr>c_addr := 0, c_size := 0\<rparr>) m;
                 m = MMapMgr_DeQByAddr m ch;
                 m = MMap_Push_FreeChunk m ch
             in (m, tmp))
          else (m, ch))"

definition CombineNeighbors_next :: "MmapMgr \<Rightarrow> nat \<Rightarrow> bool \<Rightarrow> MmapMgr" where
  "CombineNeighbors_next m ch fr =
     (case byaddr_next (chunks m ch) of
        None \<Rightarrow> m
      | Some tmp \<Rightarrow>
          if is_free (chunks m tmp) = fr then
            (let m = upd_chunk ch (\<lambda>c. c\<lparr>c_size := c_size c + c_size (chunks m tmp)\<rparr>) m;
                 m = upd_chunk tmp (\<lambda>c. c\<lparr>c_addr := 0, c_size := 0\<rparr>) m;
                 m = MMapMgr_DeQByAddr m tmp
             in MMap_Push_FreeChunk m tmp)
          else m)"

definition MMapMgr_CombineNeighbors :: "MmapMgr \<Rightarrow> nat \<Rightarrow> MmapMgr \<times> nat" where
  "MMapMgr_CombineNeighbors m ch =
     (let fr = is_free (chunks m ch);
          (m, ch) = CombineNeighbors_prev m ch fr
      in (CombineNeighbors_next m ch fr, ch))"

section \<open>\<open>MMapMgr_FreeMemory\<close>\<close>

text \<open>
  The busy memory in front of the freed part, and behind it, goes into descriptors from the
  pool. The second component is the code's \<open>freeError\<close>: the pool was empty.
\<close>

definition FreeMemory_front :: "MmapMgr \<Rightarrow> nat \<Rightarrow> u64 \<Rightarrow> MmapMgr \<times> bool" where
  "FreeMemory_front m chunk addr =
     (if c_addr (chunks m chunk) < addr then
        (case MMap_Pop_FreeChunk m of
           (m, None) \<Rightarrow> (m, True)
         | (m, Some t) \<Rightarrow>
            (let m = upd_chunk t (\<lambda>c. c\<lparr>c_addr := c_addr (chunks m chunk)\<rparr>) m;
                 m = upd_chunk t (\<lambda>c. c\<lparr>c_size := addr - c_addr (chunks m chunk)\<rparr>) m;
                 m = upd_chunk chunk (\<lambda>c. c\<lparr>c_addr := c_addr c + c_size (chunks m t)\<rparr>) m;
                 m = upd_chunk chunk (\<lambda>c. c\<lparr>c_size := c_size c - c_size (chunks m t)\<rparr>) m
             in (MMapMgr_EnQByAddrBefore m t chunk, False)))
      else (m, False))"

definition FreeMemory_back :: "MmapMgr \<Rightarrow> nat \<Rightarrow> u64 \<Rightarrow> u64 \<Rightarrow> MmapMgr \<times> bool" where
  "FreeMemory_back m chunk rbytes addr =
     (if c_addr (chunks m chunk) + c_size (chunks m chunk) > addr + rbytes then
        (case MMap_Pop_FreeChunk m of
           (m, None) \<Rightarrow> (m, True)
         | (m, Some t) \<Rightarrow>
            (let m = upd_chunk t (\<lambda>c. c\<lparr>c_addr := c_addr (chunks m chunk) + rbytes\<rparr>) m;
                 m = upd_chunk t (\<lambda>c. c\<lparr>c_size := c_size (chunks m chunk) - rbytes\<rparr>) m;
                 m = upd_chunk chunk (\<lambda>c. c\<lparr>c_size := c_size c - c_size (chunks m t)\<rparr>) m
             in (MMapMgr_EnQByAddrAfter m t chunk, False)))
      else (m, False))"

definition FreeMemory_mark :: "MmapMgr \<Rightarrow> nat \<Rightarrow> u64 \<Rightarrow> u64 \<Rightarrow> MmapMgr" where
  "FreeMemory_mark m chunk rbytes addr =
     (let m = upd_chunk chunk (\<lambda>c. c\<lparr>c_addr := c_addr c OR MMAPCHUNK_ADDR_FREE\<rparr>) m;
          m = (if addr < low_unmap m then m\<lparr>low_unmap := addr\<rparr> else m)
      in if addr + rbytes > high_unmap m then m\<lparr>high_unmap := addr + rbytes\<rparr> else m)"

definition MMapMgr_FreeMemory :: "MmapMgr \<Rightarrow> nat \<Rightarrow> u64 \<Rightarrow> u64 \<Rightarrow> MmapMgr \<times> nat" where
  "MMapMgr_FreeMemory m chunk len addr =
     (let rbytes = MMAP_ROUND_UP len;
          (m, freeError) =
            (if c_size (chunks m chunk) > rbytes then
               (let (m, e1) = FreeMemory_front m chunk addr;
                    (m, e2) = FreeMemory_back m chunk rbytes addr
                in (m, e1 \<or> e2))
             else (m, False));
          m = (if freeError then m else FreeMemory_mark m chunk rbytes addr)
      in MMapMgr_CombineNeighbors m chunk)"

section \<open>Allocation\<close>

text \<open>The walk from \<open>p\<close> along the address list to the first chunk that satisfies the test.\<close>

partial_function (option) find_chunk :: "(MMapChunk \<Rightarrow> bool) \<Rightarrow> MmapMgr \<Rightarrow> ptr \<Rightarrow> ptr option" where
  "find_chunk P m p =
     (case p of
        None \<Rightarrow> Some None
      | Some i \<Rightarrow>
          if P (chunks m i) then Some (Some i)
          else find_chunk P m (byaddr_next (chunks m i)))"

declare find_chunk.simps [code]

text \<open>
  What \<open>MMapMgr_Malloc\<close> reads of the process: the guard area and the stack pointer last saved
  for the process leader.
\<close>

record GuardView =
  Guard_Enable :: bool
  Guard_Start :: u64
  Guard_Size :: u64
  leader_r1 :: u64

definition guard_conflict :: "GuardView \<Rightarrow> u64 \<Rightarrow> u64 \<Rightarrow> bool" where
  "guard_conflict g caddr rbytes \<longleftrightarrow>
     Guard_Enable g \<and> leader_r1 g > Guard_Start g + Guard_Size g \<and>
     leader_r1 g < caddr + rbytes + Guard_Size g"

text \<open>
  The left-over of a chunk that is larger than the request goes to \<open>new_chunk\<close>, which is
  otherwise returned to the pool; then the chunk is marked busy and accounted for.
\<close>

definition split_chunk :: "MmapMgr \<Rightarrow> nat \<Rightarrow> u64 \<Rightarrow> nat \<Rightarrow> MmapMgr" where
  "split_chunk m ch rbytes new_chunk =
     (if c_size (chunks m ch) > rbytes then
        (let m = upd_chunk new_chunk (\<lambda>c. c\<lparr>c_addr := c_addr (chunks m ch) + rbytes\<rparr>) m;
             m = upd_chunk new_chunk (\<lambda>c. c\<lparr>c_size := c_size (chunks m ch) - rbytes\<rparr>) m;
             m = upd_chunk ch (\<lambda>c. c\<lparr>c_size := rbytes\<rparr>) m;
             m = upd_chunk new_chunk (\<lambda>c. c\<lparr>c_addr := c_addr c OR MMAPCHUNK_ADDR_FREE\<rparr>) m
         in MMapMgr_EnQByAddrAfter m new_chunk ch)
      else MMap_Push_FreeChunk m new_chunk)"

definition take_chunk :: "MmapMgr \<Rightarrow> nat \<Rightarrow> MmapMgr" where
  "take_chunk m ch =
     (let m = upd_chunk ch (\<lambda>c. c\<lparr>c_addr := c_addr c AND NOT MMAPCHUNK_ADDR_FREE\<rparr>) m;
          sz = c_size (chunks m ch)
      in m\<lparr>mem_avail := mem_avail m - sz, mem_busy := mem_busy m + sz\<rparr>)"

definition MMapMgr_Malloc :: "GuardView \<Rightarrow> MmapMgr \<Rightarrow> u64 \<Rightarrow> nat \<Rightarrow> (MmapMgr \<times> u64) option" where
  "MMapMgr_Malloc g m rbytes new_chunk =
     (case find_chunk (\<lambda>c. is_free c \<and> c_size c \<ge> rbytes) m (ByAddr_anchor m) of
        None \<Rightarrow> None
      | Some None \<Rightarrow> Some (MMap_Push_FreeChunk m new_chunk, 0)
      | Some (Some ch) \<Rightarrow>
          if guard_conflict g (c_addr (chunks m ch)) rbytes
          then Some (MMap_Push_FreeChunk m new_chunk, 0)
          else
            (let m = split_chunk m ch rbytes new_chunk;
                 m = take_chunk m ch;
                 returnAddr = c_addr (chunks m ch);
                 (m, _) = MMapMgr_CombineNeighbors m ch
             in Some (m, returnAddr)))"

text \<open>
  \<open>MAP_FIXED\<close>: a chunk that is exactly the request is marked busy; otherwise the request is
  carved out of the free chunk that contains it, or granted as it is inside a busy chunk.
\<close>

definition Malloc_Addr_front :: "MmapMgr \<Rightarrow> nat \<Rightarrow> u64 \<Rightarrow> MmapMgr \<times> bool" where
  "Malloc_Addr_front m ch addr =
     (if c_base (chunks m ch) < addr then
        (case MMap_Pop_FreeChunk m of
           (m, None) \<Rightarrow> (m, True)
         | (m, Some prevch) \<Rightarrow>
            (let m = upd_chunk prevch (\<lambda>c. c\<lparr>c_addr := c_addr (chunks m ch)\<rparr>) m;
                 m = upd_chunk prevch (\<lambda>c. c\<lparr>c_size := addr - c_base (chunks m prevch)\<rparr>) m;
                 m = upd_chunk ch (\<lambda>c. c\<lparr>c_addr := addr\<rparr>) m;
                 m = upd_chunk ch (\<lambda>c. c\<lparr>c_size := c_size c - c_size (chunks m prevch)\<rparr>) m
             in (MMapMgr_EnQByAddrBefore m prevch ch, False)))
      else (m, False))"

definition MMapMgr_Malloc_Addr :: "MmapMgr \<Rightarrow> u64 \<Rightarrow> nat \<Rightarrow> u64 \<Rightarrow> (MmapMgr \<times> u64) option" where
  "MMapMgr_Malloc_Addr m rbytes new_chunk addr =
     (let rlimit = addr + rbytes - 1 in
      case find_chunk (\<lambda>c. c_base c = addr \<and> c_base c + c_size c - 1 = rlimit) m (ByAddr_anchor m) of
        None \<Rightarrow> None
      | Some (Some ch) \<Rightarrow>
          (let m = upd_chunk ch (\<lambda>c. c\<lparr>c_addr := c_addr c AND NOT MMAPCHUNK_ADDR_FREE\<rparr>) m;
               m = MMap_Push_FreeChunk m new_chunk;
               (m, _) = MMapMgr_CombineNeighbors m ch
           in Some (m, addr))
      | Some None \<Rightarrow>
          (case find_chunk (\<lambda>c. c_base c \<le> addr \<and> c_base c + c_size c - 1 \<ge> rlimit) m (ByAddr_anchor m) of
             None \<Rightarrow> None
           | Some None \<Rightarrow> Some (MMap_Push_FreeChunk m new_chunk, 0)
           | Some (Some ch) \<Rightarrow>
               if is_free (chunks m ch) then
                 (case Malloc_Addr_front m ch addr of
                    (m, True) \<Rightarrow> Some (m, 0)
                  | (m, False) \<Rightarrow>
                      (let m = split_chunk m ch rbytes new_chunk;
                           m = take_chunk m ch;
                           (m, _) = MMapMgr_CombineNeighbors m ch
                       in Some (m, addr)))
               else Some (MMap_Push_FreeChunk m new_chunk, addr)))"

section \<open>The public operations\<close>

text \<open>\<open>MMap_Init\<close> for a pool of \<open>n\<close> descriptors; the code has \<open>MMAP_MAX_ALLOCS\<close> of them.\<close>

definition MMap_Init_pool :: "nat \<Rightarrow> MmapMgr \<Rightarrow> u64 \<Rightarrow> u64 \<Rightarrow> MmapMgr" where
  "MMap_Init_pool n m start bytes =
     (if bytes = 0 then m
      else
        (let m = m\<lparr>mem_start := MMAP_ROUND_UP start, mem_size := MMAP_ROUND_DN bytes\<rparr>;
             m = m\<lparr>mem_avail := mem_size m, mem_busy := 0, chunks_left := 0\<rparr>;
             m = fold (\<lambda>i m. MMap_Push_FreeChunk m i) [0..<n] m
         in case MMap_Pop_FreeChunk m of
              (m, None) \<Rightarrow> m
            | (m, Some pch) \<Rightarrow>
                (let m = upd_chunk pch (\<lambda>c. c\<lparr>c_addr := mem_start m\<rparr>) m;
                     m = upd_chunk pch (\<lambda>c. c\<lparr>c_size := mem_size m\<rparr>) m;
                     m = m\<lparr>ByAddr_anchor := Some pch\<rparr>;
                     (m, _) = MMapMgr_FreeMemory m pch (c_size (chunks m pch)) (c_addr (chunks m pch))
                 in m\<lparr>low_unmap := mem_start m + mem_size m, high_unmap := mem_start m\<rparr>)))"

definition MMap_Init :: "MmapMgr \<Rightarrow> u64 \<Rightarrow> u64 \<Rightarrow> MmapMgr" where
  "MMap_Init = MMap_Init_pool MMAP_MAX_ALLOCS"

definition raise_high_mark :: "MmapMgr \<Rightarrow> u64 \<Rightarrow> u64 \<Rightarrow> MmapMgr" where
  "raise_high_mark m rc_mem rbytes =
     (if rc_mem \<noteq> 0 \<and> rc_mem + rbytes > high_mark m then
        (let m = m\<lparr>high_mark := rc_mem + rbytes\<rparr>
         in if high_mark m > high_mark_max m then m\<lparr>high_mark_max := high_mark m\<rparr> else m)
      else m)"

definition MMap_Malloc :: "GuardView \<Rightarrow> MmapMgr \<Rightarrow> u64 \<Rightarrow> (MmapMgr \<times> u64) option" where
  "MMap_Malloc g m bytes =
     (let rbytes = MMAP_ROUND_UP bytes in
      if bytes > 0 \<and> mem_avail m \<ge> rbytes then
        (case MMap_Pop_FreeChunk m of
           (m, None) \<Rightarrow> Some (m, 0)
         | (m, Some new_chunk) \<Rightarrow>
            (case MMapMgr_Malloc g m rbytes new_chunk of
               None \<Rightarrow> None
             | Some (m, rc_mem) \<Rightarrow> Some (raise_high_mark m rc_mem rbytes, rc_mem)))
      else Some (m, 0))"

text \<open>
  \<open>tstart\<close>, \<open>tsize\<close> and \<open>dsize\<close> are what \<open>vmm_getSegment\<close> gives for the start and size of
  the text segment and the size of the data segment.
\<close>

definition MMap_Malloc_Addr ::
  "u64 \<Rightarrow> u64 \<Rightarrow> u64 \<Rightarrow> MmapMgr \<Rightarrow> u64 \<Rightarrow> u64 \<Rightarrow> (MmapMgr \<times> u64) option" where
  "MMap_Malloc_Addr tstart tsize dsize m bytes addr =
     (let rbytes = MMAP_ROUND_UP bytes in
      if addr \<ge> mem_start m \<and> addr + bytes < mem_start m + mem_size m then
        (case MMap_Pop_FreeChunk m of
           (m, None) \<Rightarrow> Some (m, 0)
         | (m, Some new_chunk) \<Rightarrow>
            (case MMapMgr_Malloc_Addr m rbytes new_chunk addr of
               None \<Rightarrow> None
             | Some (m, rc_mem) \<Rightarrow> Some (raise_high_mark m rc_mem rbytes, rc_mem)))
      else if addr \<ge> tstart \<and> addr + bytes < tstart + tsize + dsize then Some (m, addr)
      else Some (m, 0))"

text \<open>
  The walk of \<open>MMap_Free\<close>: the state is the manager, the current chunk and the highest busy
  address seen. The result is the manager and the high mark that is handed to \<open>Guard_Adjust\<close>.
\<close>

definition max_mark :: "u64 \<Rightarrow> MMapChunk \<Rightarrow> u64" where
  "max_mark hi c = (let localHighMark = c_addr c + c_size c
                    in if localHighMark > hi then localHighMark else hi)"

definition MMap_Free_step :: "u64 \<Rightarrow> u64 \<Rightarrow> u64 \<Rightarrow> MmapMgr \<Rightarrow> nat \<Rightarrow> u64 \<Rightarrow> MmapMgr \<times> nat \<times> u64" where
  "MMap_Free_step rbase rbytes rlimit m ch hi =
     (let cbase = c_base (chunks m ch);
          climit = cbase + c_size (chunks m ch) - 1;
          (m, ch, hi) =
            (if rbase \<ge> cbase \<and> rlimit \<le> climit then
               (let m = m\<lparr>mem_avail := mem_avail m + rbytes, mem_busy := mem_busy m - rbytes\<rparr>;
                    (m, ch) = MMapMgr_FreeMemory m ch rbytes rbase
                in (m, ch, case byaddr_prev (chunks m ch) of
                             None \<Rightarrow> hi
                           | Some pch \<Rightarrow> max_mark hi (chunks m pch)))
             else (m, ch, hi))
      in (m, ch, if is_free (chunks m ch) then hi else max_mark hi (chunks m ch)))"

partial_function (option) MMap_Free_loop ::
  "u64 \<Rightarrow> u64 \<Rightarrow> u64 \<Rightarrow> MmapMgr \<Rightarrow> ptr \<Rightarrow> u64 \<Rightarrow> (MmapMgr \<times> u64) option" where
  "MMap_Free_loop rbase rbytes rlimit m p hi =
     (case p of
        None \<Rightarrow> Some (m, hi)
      | Some i \<Rightarrow>
          (case MMap_Free_step rbase rbytes rlimit m i hi of
             (m', j, hi') \<Rightarrow>
               MMap_Free_loop rbase rbytes rlimit m' (byaddr_next (chunks m' j)) hi'))"

declare MMap_Free_loop.simps [code]

definition MMap_Free :: "MmapMgr \<Rightarrow> u64 \<Rightarrow> u64 \<Rightarrow> (MmapMgr \<times> u64) option" where
  "MMap_Free m addr len =
     (let rbytes = MMAP_ROUND_UP len; rlimit = addr + len - 1 in
      case MMap_Free_loop addr rbytes rlimit m (ByAddr_anchor m) (mem_start m) of
        None \<Rightarrow> None
      | Some (m, newMMap_HighMark) \<Rightarrow> Some (m\<lparr>high_mark := newMMap_HighMark\<rparr>, newMMap_HighMark))"

end
