(* ===== verification/MmapRefine.thy ===== *)
theory MmapRefine
  imports MmapAlloc "HOL-Library.Sublist"
begin

text \<open>
  The pointer code of the mmap manager implements the operations on regions: the abstraction of
  a manager is the list of its regions, read off the address list, and each step of
  \<^verbatim>\<open>cnk/src/mmap.c\<close> is shown to do to this list what \<open>MmapRegions\<close> specifies, without
  overflow and without losing a descriptor.
\<close>

section \<open>The abstraction\<close>

definition region_of :: "MMapChunk \<Rightarrow> region" where
  "region_of c = Region (unat (c_base c)) (unat (c_size c)) (is_free c)"

abbreviation reg :: "MmapMgr \<Rightarrow> nat \<Rightarrow> region" where
  "reg m i \<equiv> region_of (chunks m i)"

abbreviation regs :: "MmapMgr \<Rightarrow> nat list \<Rightarrow> region list" where
  "regs m xs \<equiv> map (reg m) xs"

lemmas region_defs = region_of_def c_base_def is_free_def

lemma region_of_sel [simp]:
  "reg_base (region_of c) = unat (c_base c)" "reg_len (region_of c) = unat (c_size c)"
  "reg_free (region_of c) = is_free c"
  by (simp_all add: region_of_def)

lemma regs_cong:
  "(\<And>i. i \<in> set xs \<Longrightarrow> c_addr (chunks m' i) = c_addr (chunks m i) \<and> c_size (chunks m' i) = c_size (chunks m i))
   \<Longrightarrow> regs m' xs = regs m xs"
  by (simp add: region_defs)

lemma is_free_odd: "is_free c \<longleftrightarrow> odd (c_addr c)"
  by (simp add: is_free_def MMAPCHUNK_ADDR_FREE_def flag_set_iff)

lemma busy_base: "\<not> is_free c \<Longrightarrow> c_base c = c_addr c"
  unfolding is_free_odd c_base_def MMAPCHUNK_ADDR_FREE_def by (simp only: not_not even_clear_flag)

section \<open>Merging\<close>

lemma CombineNeighbors_prev_refines:
  assumes r: "rep m (xs @ i # ys) fl" and t: "tiles a (regs m (xs @ i # ys)) b" "b < 2 ^ 64"
    and e: "CombineNeighbors_prev m i (is_free (chunks m i)) = (m', j)"
  shows "\<exists>xs' fl'. rep m' (xs' @ j # ys) fl' \<and> acct m' = acct m \<and>
    (regs m' xs', reg m' j) = comb_prev (regs m xs) (reg m i) \<and> regs m' ys = regs m ys \<and>
    length xs' + length fl' = length xs + length fl"
proof (cases xs rule: rev_cases)
  case Nil
  with r e have "m' = m" "j = i" by (auto simp: CombineNeighbors_prev_def rep_defs)
  with Nil r show ?thesis by (intro exI [of _ "[]"] exI [of _ fl]) (simp add: comb_prev_def)
next
  case (snoc zs p)
  from r snoc have bp: "byaddr_prev (chunks m i) = Some p" and d: "distinct (zs @ p # i # ys @ fl)"
    by (auto simp: rep_defs)
  show ?thesis
  proof (cases "is_free (chunks m p) = is_free (chunks m i)")
    case False
    with bp e have "m' = m" "j = i" by (auto simp: CombineNeighbors_prev_def)
    with False snoc r show ?thesis by (intro exI [of _ xs] exI [of _ fl]) (simp add: comb_prev_def)
  next
    case True
    define m1 where "m1 = upd_chunk i (\<lambda>c. c\<lparr>c_addr := 0, c_size := 0\<rparr>)
      (upd_chunk p (\<lambda>c. c\<lparr>c_size := c_size c + c_size (chunks m i)\<rparr>) m)"
    from True bp e have m': "m' = MMap_Push_FreeChunk (MMapMgr_DeQByAddr m1 i) i" "j = p"
      by (auto simp: CombineNeighbors_prev_def m1_def Let_def)
    have "rep m1 ((zs @ [p]) @ i # ys) fl" using r snoc by (simp add: m1_def)
    note dq = DeQByAddr_rep [OF this]
    have R: "rep m' (zs @ p # ys) (i # fl)"
      unfolding m' using Push_FreeChunk_rep [OF dq(1)] dq(2,3) by simp
    have "unat (c_size (chunks m p) + c_size (chunks m i)) = unat (c_size (chunks m p)) + unat (c_size (chunks m i))"
      using t snoc tiles_mem(2) [OF t(1), of "reg m i"] by (intro unat_add_exact) auto
    then have "reg m' p = Region (unat (c_base (chunks m p)))
        (unat (c_size (chunks m p)) + unat (c_size (chunks m i))) (is_free (chunks m i))"
      using True d by (simp add: m' m1_def region_defs)
    moreover have "regs m' zs = regs m zs" "regs m' ys = regs m ys"
      using d by (auto simp: m' m1_def region_defs)
    ultimately show ?thesis
      using R True snoc
      by (intro exI [of _ zs] exI [of _ "i # fl"]) (simp add: comb_prev_def m' m1_def)
  qed
qed

lemma CombineNeighbors_next_refines:
  assumes r: "rep m (xs @ i # ys) fl" and t: "tiles a (regs m (xs @ i # ys)) b" "b < 2 ^ 64"
    and f: "fr = is_free (chunks m i)"
  shows "\<exists>ys' fl'. rep (CombineNeighbors_next m i fr) (xs @ i # ys') fl' \<and>
    acct (CombineNeighbors_next m i fr) = acct m \<and>
    regs (CombineNeighbors_next m i fr) (i # ys') = comb_next (reg m i) (regs m ys) \<and>
    regs (CombineNeighbors_next m i fr) xs = regs m xs \<and>
    length ys' + length fl' = length ys + length fl \<and> suffix ys' ys"
proof (cases ys)
  case Nil
  with r have "CombineNeighbors_next m i fr = m" by (auto simp: CombineNeighbors_next_def rep_defs)
  with Nil r show ?thesis by (intro exI [of _ "[]"] exI [of _ fl]) simp
next
  case (Cons n zs)
  from r Cons have bn: "byaddr_next (chunks m i) = Some n" and d: "distinct (xs @ i # n # zs @ fl)"
    by (auto simp: rep_defs)
  show ?thesis
  proof (cases "is_free (chunks m n) = is_free (chunks m i)")
    case False
    with bn f have "CombineNeighbors_next m i fr = m" by (auto simp: CombineNeighbors_next_def)
    with False Cons r show ?thesis by (intro exI [of _ ys] exI [of _ fl]) simp
  next
    case True
    define m1 where "m1 = upd_chunk n (\<lambda>c. c\<lparr>c_addr := 0, c_size := 0\<rparr>)
      (upd_chunk i (\<lambda>c. c\<lparr>c_size := c_size c + c_size (chunks m n)\<rparr>) m)"
    define m' where "m' = CombineNeighbors_next m i fr"
    from True bn f have m': "m' = MMap_Push_FreeChunk (MMapMgr_DeQByAddr m1 n) n"
      by (auto simp: CombineNeighbors_next_def m1_def m'_def Let_def)
    have "rep m1 ((xs @ [i]) @ n # zs) fl" using r Cons by (simp add: m1_def)
    note dq = DeQByAddr_rep [OF this]
    have R: "rep m' (xs @ i # zs) (n # fl)"
      unfolding m' using Push_FreeChunk_rep [OF dq(1)] dq(2,3) by simp
    have "unat (c_size (chunks m i) + c_size (chunks m n)) = unat (c_size (chunks m i)) + unat (c_size (chunks m n))"
      using t Cons tiles_mem(2) [OF t(1), of "reg m n"] by (intro unat_add_exact) auto
    then have "reg m' i = Region (unat (c_base (chunks m i)))
        (unat (c_size (chunks m i)) + unat (c_size (chunks m n))) (is_free (chunks m i))"
      using True d by (simp add: m' m1_def region_defs)
    moreover have "regs m' xs = regs m xs" "regs m' zs = regs m zs"
      using d by (auto simp: m' m1_def region_defs)
    ultimately show ?thesis
      using R True Cons unfolding m'_def [symmetric]
      by (intro exI [of _ zs] exI [of _ "n # fl"]) (simp add: m' m1_def suffix_def)
  qed
qed

lemma CombineNeighbors_refines:
  assumes r: "rep m (xs @ i # ys) fl" and t: "tiles a (regs m (xs @ i # ys)) b" "b < 2 ^ 64"
    and e: "MMapMgr_CombineNeighbors m i = (m', j)"
  obtains xs' ys' fl' where "rep m' (xs' @ j # ys') fl'" "acct m' = acct m"
    "regs m' xs' = fst (comb_prev (regs m xs) (reg m i))"
    "regs m' (j # ys') = comb_next (snd (comb_prev (regs m xs) (reg m i))) (regs m ys)"
    "length xs' + length ys' + length fl' = length xs + length ys + length fl" "suffix ys' ys"
proof -
  define fr where "fr = is_free (chunks m i)"
  obtain m1 where e1: "CombineNeighbors_prev m i fr = (m1, j)" and e2: "m' = CombineNeighbors_next m1 j fr"
    using e by (auto simp: MMapMgr_CombineNeighbors_def fr_def Let_def split: prod.splits)
  obtain xs' fl1 where 1: "rep m1 (xs' @ j # ys) fl1" "acct m1 = acct m"
    "(regs m1 xs', reg m1 j) = comb_prev (regs m xs) (reg m i)" "regs m1 ys = regs m ys"
    "length xs' + length fl1 = length xs + length fl"
    using CombineNeighbors_prev_refines [OF r t e1 [unfolded fr_def]] by blast
  have "tiles a (regs m1 xs' @ reg m1 j # regs m ys) b"
    by (rule comb_prev_tiles [of a "regs m xs" "reg m i"]) (use t(1) 1(3) in auto)
  then have t1: "tiles a (regs m1 (xs' @ j # ys)) b" by (simp add: 1(4))
  have "fr = is_free (chunks m1 j)"
    using comb_prev_free [OF 1(3) [symmetric]] by (simp add: fr_def)
  from CombineNeighbors_next_refines [OF 1(1) t1 t(2) this]
  obtain ys' fl' where 2: "rep m' (xs' @ j # ys') fl'" "acct m' = acct m1"
    "regs m' (j # ys') = comb_next (reg m1 j) (regs m1 ys)" "regs m' xs' = regs m1 xs'"
    "length ys' + length fl' = length ys + length fl1" "suffix ys' ys"
    unfolding e2 by blast
  show thesis
    by (rule that [of xs' ys' fl'])
      (use 1 2 in \<open>auto simp flip: 1(3) simp del: map_eq_conv\<close>)
qed

lemma CombineNeighbors_combine:
  assumes r: "rep m (xs @ i # ys) fl" and t: "tiles a (regs m (xs @ i # ys)) b" "b < 2 ^ 64"
    and e: "MMapMgr_CombineNeighbors m i = (m', j)"
  obtains xs' fl' where "rep m' xs' fl'" "acct m' = acct m"
    "regs m' xs' = combine (regs m xs) (reg m i) (regs m ys)"
    "length xs' + length fl' = length xs + length ys + length fl + 1"
proof -
  from CombineNeighbors_refines [OF r t e] obtain xs' ys' fl' where 1: "rep m' (xs' @ j # ys') fl'"
    "acct m' = acct m" "regs m' xs' = fst (comb_prev (regs m xs) (reg m i))"
    "regs m' (j # ys') = comb_next (snd (comb_prev (regs m xs) (reg m i))) (regs m ys)"
    "length xs' + length ys' + length fl' = length xs + length ys + length fl" by metis
  then have "regs m' (xs' @ j # ys') = combine (regs m xs) (reg m i) (regs m ys)"
    unfolding combine_def map_append by (simp add: case_prod_beta)
  with 1 show thesis by (intro that [of "xs' @ j # ys'" fl']) auto
qed

section \<open>Freeing\<close>

text \<open>Splitting off the busy part in front: the chunk \<open>i\<close> now starts at \<open>addr\<close>.\<close>

lemma FreeMemory_front_refines:
  assumes r: "rep m (xs @ i # ys) (t # fl)" and b: "\<not> is_free (chunks m i)"
    and a: "c_addr (chunks m i) < addr" "even addr"
      "unat addr \<le> unat (c_addr (chunks m i)) + unat (c_size (chunks m i))"
    and e: "FreeMemory_front m i addr = (m', err)"
  shows "\<not> err" "rep m' (xs @ t # i # ys) fl" "acct m' = acct m"
    "regs m' xs = regs m xs" "regs m' ys = regs m ys"
    "reg m' t = Region (unat (c_base (chunks m i))) (unat addr - unat (c_base (chunks m i))) False"
    "reg m' i = Region (unat addr)
       (unat (c_base (chunks m i)) + unat (c_size (chunks m i)) - unat addr) False"
    "c_addr (chunks m' i) = addr"
proof -
  note p = Pop_FreeChunk_rep [OF r]
  define m1 where "m1 = fst (MMap_Pop_FreeChunk m)"
  have p1: "MMap_Pop_FreeChunk m = (m1, Some t)" using p(1) by (simp add: m1_def prod_eq_iff)
  have d1: "c_addr (chunks m1 k) = c_addr (chunks m k)" "c_size (chunks m1 k) = c_size (chunks m k)" for k
    by (simp_all add: m1_def)
  have ti: "t \<noteq> i" and d: "distinct (xs @ t # i # ys)" using p(3) r by (auto simp: rep_def)
  define A where "A = c_addr (chunks m i)"
  define M where "M = upd_chunk i (\<lambda>c. c\<lparr>c_size := c_size c - (addr - A)\<rparr>)
     (upd_chunk i (\<lambda>c. c\<lparr>c_addr := c_addr c + (addr - A)\<rparr>)
     (upd_chunk t (\<lambda>c. c\<lparr>c_size := addr - A\<rparr>) (upd_chunk t (\<lambda>c. c\<lparr>c_addr := A\<rparr>) m1)))"
  from e a(1) have m': "m' = MMapMgr_EnQByAddrBefore M t i" and err: "\<not> err"
    using ti by (auto simp: FreeMemory_front_def p1 M_def Let_def d1 A_def)
  have "rep M (xs @ i # ys) fl" using p(2) by (simp add: M_def m1_def)
  then have R: "rep m' (xs @ t # i # ys) fl"
    unfolding m' using p(3,4) by (intro EnQByAddrBefore_rep) auto
  have A: "c_base (chunks m i) = A" "even A" using b by (auto simp: A_def busy_base is_free_odd)
  have sz: "unat (addr - A) = unat addr - unat A"
    using a(1) by (intro unat_sub_exact) (simp add: A_def word_less_nat_alt)
  have sz2: "unat (c_size (chunks m i) - (addr - A)) = unat A + unat (c_size (chunks m i)) - unat addr"
    using a [folded A_def] by (subst unat_sub_exact) (auto simp: sz word_le_nat_alt word_less_nat_alt)
  show "\<not> err" "rep m' (xs @ t # i # ys) fl" "acct m' = acct m"
    using err R by (simp_all add: m' M_def m1_def)
  show "regs m' xs = regs m xs" "regs m' ys = regs m ys"
    using d by (auto simp: m' M_def region_defs d1)
  have "region_of (chunks m' t) = Region (unat A) (unat (addr - A)) False"
    using ti A(2) by (simp add: region_of_def is_free_odd busy_base m' M_def)
  then show "reg m' t = Region (unat (c_base (chunks m i))) (unat addr - unat (c_base (chunks m i))) False"
    by (simp add: A sz)
  have ai: "c_addr (chunks m' i) = addr" "c_size (chunks m' i) = c_size (chunks m i) - (addr - A)"
    using ti by (simp_all add: m' M_def d1 A_def)
  then show "c_addr (chunks m' i) = addr" by simp
  show "reg m' i = Region (unat addr)
       (unat (c_base (chunks m i)) + unat (c_size (chunks m i)) - unat addr) False"
    using a(2) by (simp add: region_of_def is_free_odd busy_base ai A sz2)
qed

lemma FreeMemory_front_error:
  "rep m xs [] \<Longrightarrow> c_addr (chunks m i) < addr \<Longrightarrow> FreeMemory_front m i addr = (m, True)"
  by (simp add: FreeMemory_front_def Pop_FreeChunk_empty)

text \<open>Splitting off the busy part behind: the chunk \<open>i\<close> now ends after \<open>rbytes\<close>.\<close>

lemma FreeMemory_back_cond:
  assumes "c_addr (chunks m i) = addr" "unat addr + unat (c_size (chunks m i)) < 2 ^ 64"
    "rbytes \<le> c_size (chunks m i)"
  shows "(c_addr (chunks m i) + c_size (chunks m i) > addr + rbytes) = (rbytes < c_size (chunks m i))"
  using assms by (simp add: word_less_nat_alt word_le_nat_alt unat_add_exact)

lemma FreeMemory_back_refines:
  assumes r: "rep m (xs @ i # ys) (t # fl)"
    and a: "c_addr (chunks m i) = addr" "even addr" "even rbytes"
      "unat addr + unat (c_size (chunks m i)) < 2 ^ 64" "rbytes < c_size (chunks m i)"
    and e: "FreeMemory_back m i rbytes addr = (m', err)"
  shows "\<not> err" "rep m' (xs @ i # t # ys) fl" "acct m' = acct m"
    "regs m' xs = regs m xs" "regs m' ys = regs m ys"
    "reg m' t = Region (unat addr + unat rbytes) (unat (c_size (chunks m i)) - unat rbytes) False"
    "reg m' i = Region (unat addr) (unat rbytes) False"
    "c_addr (chunks m' i) = addr"
proof -
  note p = Pop_FreeChunk_rep [OF r]
  define m1 where "m1 = fst (MMap_Pop_FreeChunk m)"
  have p1: "MMap_Pop_FreeChunk m = (m1, Some t)" using p(1) by (simp add: m1_def prod_eq_iff)
  have d1: "c_addr (chunks m1 k) = c_addr (chunks m k)" "c_size (chunks m1 k) = c_size (chunks m k)" for k
    by (simp_all add: m1_def)
  have ti: "t \<noteq> i" and d: "distinct (xs @ t # i # ys)" using p(3) r by (auto simp: rep_def)
  define S where "S = c_size (chunks m i)"
  define M where "M = upd_chunk i (\<lambda>c. c\<lparr>c_size := c_size c - (S - rbytes)\<rparr>)
     (upd_chunk t (\<lambda>c. c\<lparr>c_size := S - rbytes\<rparr>) (upd_chunk t (\<lambda>c. c\<lparr>c_addr := addr + rbytes\<rparr>) m1))"
  from e FreeMemory_back_cond [of m i addr rbytes] a
  have m': "m' = MMapMgr_EnQByAddrAfter M t i" and err: "\<not> err"
    using ti by (auto simp: FreeMemory_back_def p1 M_def Let_def d1 S_def)
  have "rep M (xs @ i # ys) fl" using p(2) by (simp add: M_def m1_def)
  then have R: "rep m' (xs @ i # t # ys) fl"
    unfolding m' using p(3,4) by (intro EnQByAddrAfter_rep) auto
  have sz: "unat (S - rbytes) = unat S - unat rbytes"
    using a by (intro unat_sub_exact) (simp add: S_def word_less_nat_alt)
  show "\<not> err" "rep m' (xs @ i # t # ys) fl" "acct m' = acct m"
    using err R by (simp_all add: m' M_def m1_def)
  show "regs m' xs = regs m xs" "regs m' ys = regs m ys"
    using d by (auto simp: m' M_def region_defs d1)
  have "unat (addr + rbytes) = unat addr + unat rbytes"
    using a by (intro unat_add_exact) (simp add: word_less_nat_alt)
  then show "reg m' t = Region (unat addr + unat rbytes) (unat (c_size (chunks m i)) - unat rbytes) False"
    using ti a(2,3) by (simp add: region_of_def is_free_odd busy_base m' M_def sz flip: S_def)
  have ai: "c_addr (chunks m' i) = addr" "c_size (chunks m' i) = rbytes"
    using ti a(1) by (simp_all add: m' M_def d1 S_def)
  then show "c_addr (chunks m' i) = addr" by simp
  show "reg m' i = Region (unat addr) (unat rbytes) False"
    using a(2) by (simp add: region_of_def is_free_odd busy_base ai)
qed

lemma FreeMemory_back_error:
  assumes "rep m xs []" "c_addr (chunks m i) = addr" "unat addr + unat (c_size (chunks m i)) < 2 ^ 64"
    "rbytes < c_size (chunks m i)"
  shows "FreeMemory_back m i rbytes addr = (m, True)"
  using assms FreeMemory_back_cond [of m i addr rbytes]
  by (simp add: FreeMemory_back_def Pop_FreeChunk_empty)

lemma FreeMemory_back_none:
  assumes "c_addr (chunks m i) = addr" "unat addr + unat (c_size (chunks m i)) < 2 ^ 64"
    "rbytes = c_size (chunks m i)"
  shows "FreeMemory_back m i rbytes addr = (m, False)"
  using assms FreeMemory_back_cond [of m i addr rbytes] by (simp add: FreeMemory_back_def)

lemma FreeMemory_mark_refines:
  assumes "c_addr (chunks m i) = addr" "even addr"
  shows "rep (FreeMemory_mark m i rbytes addr) xs fl = rep m xs fl"
    "i \<notin> set zs \<Longrightarrow> regs (FreeMemory_mark m i rbytes addr) zs = regs m zs"
    "reg (FreeMemory_mark m i rbytes addr) i = Region (unat addr) (unat (c_size (chunks m i))) True"
proof -
  have "(addr OR 1) AND NOT 1 = addr" "odd (addr OR 1)"
    using assms(2) even_set_flag [of addr] even_plus1_clear_flag [of addr] by simp_all
  then show "reg (FreeMemory_mark m i rbytes addr) i = Region (unat addr) (unat (c_size (chunks m i))) True"
    using assms
    by (simp add: FreeMemory_mark_def Let_def region_of_def is_free_odd c_base_def MMAPCHUNK_ADDR_FREE_def)
qed (auto simp: FreeMemory_mark_def Let_def region_defs)

text \<open>The fields that neither the list operations nor \<open>FreeMemory\<close> change.\<close>

definition totals :: "MmapMgr \<Rightarrow> u64 \<times> u64 \<times> u64 \<times> u64 \<times> u64 \<times> u64" where
  "totals m = (mem_start m, mem_size m, mem_avail m, mem_busy m, high_mark m, high_mark_max m)"

lemma totals_acct: "acct m = acct m' \<Longrightarrow> totals m = totals m'"
  by (simp add: acct_def totals_def)

lemma FreeMemory_mark_totals: "totals (FreeMemory_mark m i rbytes addr) = totals m"
  by (simp add: FreeMemory_mark_def Let_def totals_def upd_chunk_def)

text \<open>
  \<open>FreeMemory_split\<close> is the part of \<open>MMapMgr_FreeMemory\<close> before the merge with the
  neighbours. With enough descriptors it leaves the three parts of the region; without, the
  second part is the rest of the busy region.
\<close>

definition FreeMemory_split :: "MmapMgr \<Rightarrow> nat \<Rightarrow> u64 \<Rightarrow> u64 \<Rightarrow> MmapMgr" where
  "FreeMemory_split m chunk rbytes addr =
     (let (m, freeError) =
            (if c_size (chunks m chunk) > rbytes then
               (let (m, e1) = FreeMemory_front m chunk addr;
                    (m, e2) = FreeMemory_back m chunk rbytes addr
                in (m, e1 \<or> e2))
             else (m, False))
      in if freeError then m else FreeMemory_mark m chunk rbytes addr)"

lemma FreeMemory_split_eq:
  "MMapMgr_FreeMemory m i len addr = MMapMgr_CombineNeighbors (FreeMemory_split m i (MMAP_ROUND_UP len) addr) i"
  by (simp add: MMapMgr_FreeMemory_def FreeMemory_split_def Let_def split: prod.splits)

text \<open>The hypotheses on a request to free: it lies inside the busy chunk \<open>i\<close>.\<close>

definition free_request :: "MmapMgr \<Rightarrow> nat \<Rightarrow> u64 \<Rightarrow> u64 \<Rightarrow> bool" where
  "free_request m i rbytes addr \<longleftrightarrow>
     \<not> is_free (chunks m i) \<and> even addr \<and> even rbytes \<and> 0 < unat rbytes \<and>
     unat (c_addr (chunks m i)) \<le> unat addr \<and>
     unat addr + unat rbytes \<le> unat (c_addr (chunks m i)) + unat (c_size (chunks m i)) \<and>
     unat (c_addr (chunks m i)) + unat (c_size (chunks m i)) < 2 ^ 64"

lemma FreeMemory_front_total:
  assumes r: "rep m (xs @ i # ys) fl" and q: "free_request m i rbytes addr"
    and e: "FreeMemory_front m i addr = (m1, e1)"
  shows "e1 \<and> m1 = m \<and> fl = [] \<and> front_part (reg m i) (unat addr) \<noteq> [] \<or>
    (\<not> e1 \<and> (\<exists>us fl1. rep m1 (xs @ us @ i # ys) fl1 \<and> acct m1 = acct m \<and> regs m1 xs = regs m xs \<and>
       regs m1 ys = regs m ys \<and> regs m1 us = front_part (reg m i) (unat addr) \<and>
       c_addr (chunks m1 i) = addr \<and>
       reg m1 i = Region (unat addr) (reg_end (reg m i) - unat addr) False \<and>
       length us + length fl1 = length fl))"
proof -
  have B: "c_base (chunks m i) = c_addr (chunks m i)" using q by (simp add: free_request_def busy_base)
  show ?thesis
  proof (cases "c_addr (chunks m i) < addr")
    case False
    then have "c_addr (chunks m i) = addr" using q by (simp add: free_request_def word_less_nat_alt word_unat_eq_iff)
    with e r q B show ?thesis
      by (intro disjI2 conjI exI [of _ "[]"] exI [of _ fl])
        (auto simp: FreeMemory_front_def front_part_def region_of_def free_request_def)
  next
    case True
    then have fp: "front_part (reg m i) (unat addr) =
        [Region (unat (c_base (chunks m i))) (unat addr - unat (c_base (chunks m i))) False]"
      using B q by (simp add: front_part_def word_less_nat_alt free_request_def)
    show ?thesis
    proof (cases fl)
      case Nil
      with r e True fp show ?thesis by (simp add: FreeMemory_front_error)
    next
      case (Cons t fl1)
      note f = FreeMemory_front_refines [OF r [unfolded Cons] _ True _ _ e]
      have "\<not> is_free (chunks m i)" "even addr"
        "unat addr \<le> unat (c_addr (chunks m i)) + unat (c_size (chunks m i))"
        using q by (auto simp: free_request_def)
      note f = f [OF this]
      show ?thesis
        by (intro disjI2 conjI exI [of _ "[t]"] exI [of _ fl1])
          (use f fp Cons in \<open>simp_all del: map_eq_conv\<close>)
    qed
  qed
qed

lemma FreeMemory_back_total:
  assumes r: "rep m (xs @ i # ys) fl" and q: "free_request m i rbytes addr" "c_addr (chunks m i) = addr"
    and e: "FreeMemory_back m i rbytes addr = (m1, e1)"
  shows "e1 \<and> m1 = m \<and> fl = [] \<and> back_part (reg m i) (unat addr + unat rbytes) \<noteq> [] \<or>
    (\<not> e1 \<and> (\<exists>vs fl1. rep m1 (xs @ i # vs @ ys) fl1 \<and> acct m1 = acct m \<and> regs m1 xs = regs m xs \<and>
       regs m1 ys = regs m ys \<and> regs m1 vs = back_part (reg m i) (unat addr + unat rbytes) \<and>
       c_addr (chunks m1 i) = addr \<and> reg m1 i = Region (unat addr) (unat rbytes) False \<and>
       length vs + length fl1 = length fl))"
proof -
  have B: "c_base (chunks m i) = addr" using q by (simp add: free_request_def busy_base)
  have n: "unat addr + unat (c_size (chunks m i)) < 2 ^ 64" "even addr" "even rbytes"
    "rbytes \<le> c_size (chunks m i)" "\<not> is_free (chunks m i)"
    using q by (auto simp: free_request_def word_le_nat_alt)
  show ?thesis
  proof (cases "rbytes < c_size (chunks m i)")
    case False
    with n have "rbytes = c_size (chunks m i)" by simp
    with FreeMemory_back_none [OF q(2) n(1)] e r q B n show ?thesis
      by (intro disjI2 conjI exI [of _ "[]"] exI [of _ fl])
        (auto simp: back_part_def region_of_def)
  next
    case True
    then have bp: "back_part (reg m i) (unat addr + unat rbytes) =
        [Region (unat addr + unat rbytes) (unat (c_size (chunks m i)) - unat rbytes) False]"
      using B n by (simp add: back_part_def word_less_nat_alt)
    show ?thesis
    proof (cases fl)
      case Nil
      with FreeMemory_back_error [OF _ q(2) n(1) True] r e bp show ?thesis by simp
    next
      case (Cons t fl1)
      note f = FreeMemory_back_refines [OF r [unfolded Cons] q(2) n(2,3,1) True e]
      show ?thesis
        by (intro disjI2 conjI exI [of _ "[t]"] exI [of _ fl1])
          (use f bp Cons in \<open>simp_all del: map_eq_conv\<close>)
    qed
  qed
qed

lemma FreeMemory_split_refines:
  assumes r: "rep m (xs @ i # ys) fl" and q: "free_request m i rbytes addr"
  defines "m' \<equiv> FreeMemory_split m i rbytes addr"
    and "fp \<equiv> front_part (reg m i) (unat addr)"
    and "bp \<equiv> back_part (reg m i) (unat addr + unat rbytes)"
  shows "\<exists>us vs fl'. rep m' (xs @ us @ i # vs @ ys) fl' \<and> totals m' = totals m \<and>
    regs m' xs = regs m xs \<and> regs m' ys = regs m ys \<and> length us + length vs + length fl' = length fl \<and>
    (if length fp + length bp \<le> length fl
     then regs m' us = fp \<and> reg m' i = Region (unat addr) (unat rbytes) True \<and> regs m' vs = bp
     else vs = [] \<and> (us = [] \<and> reg m' i = reg m i \<or>
       regs m' us = fp \<and> reg m' i = Region (unat addr) (reg_end (reg m i) - unat addr) False))"
proof (cases "c_size (chunks m i) > rbytes")
  case False
  with q have e: "c_size (chunks m i) = rbytes" "c_addr (chunks m i) = addr"
    by (auto simp: free_request_def word_less_nat_alt word_unat_eq_iff)
  with q have "fp = []" "bp = []" by (auto simp: fp_def bp_def front_part_def back_part_def free_request_def busy_base)
  moreover have "m' = FreeMemory_mark m i rbytes addr" using False by (simp add: m'_def FreeMemory_split_def)
  moreover have "i \<notin> set xs" "i \<notin> set ys" "even addr" using r q by (auto simp: rep_def free_request_def)
  ultimately show ?thesis
    using r e FreeMemory_mark_refines [OF e(2), where rbytes = rbytes]
    by (rule_tac exI [of _ "[]"], rule_tac exI [of _ "[]"], rule_tac exI [of _ fl])
      (simp add: FreeMemory_mark_totals del: map_eq_conv)
next
  case True
  obtain m1 e1 where f: "FreeMemory_front m i addr = (m1, e1)" by fastforce
  obtain m2 e2 where g: "FreeMemory_back m1 i rbytes addr = (m2, e2)" by fastforce
  have m': "m' = (if e1 \<or> e2 then m2 else FreeMemory_mark m2 i rbytes addr)"
    using True by (simp add: m'_def FreeMemory_split_def f g)
  from FreeMemory_front_total [OF r q f] show ?thesis
  proof (elim disjE conjE exE)
    assume "e1" and 1: "m1 = m" "fl = []" "front_part (reg m i) (unat addr) \<noteq> []"
    then have "m' = m" using g r by (auto simp: m' FreeMemory_back_def Pop_FreeChunk_empty split: if_splits)
    with 1 r show ?thesis by (intro exI [of _ "[]"]) (auto simp: fp_def)
  next
    fix us fl1
    assume "\<not> e1" and 1: "rep m1 (xs @ us @ i # ys) fl1" "acct m1 = acct m" "regs m1 xs = regs m xs"
      "regs m1 ys = regs m ys" "regs m1 us = front_part (reg m i) (unat addr)"
      "c_addr (chunks m1 i) = addr"
      "reg m1 i = Region (unat addr) (reg_end (reg m i) - unat addr) False"
      "length us + length fl1 = length fl"
    have q1: "free_request m1 i rbytes addr"
      using q 1(6,7) by (auto simp: free_request_def region_of_def busy_base)
    have bp: "back_part (reg m1 i) (unat addr + unat rbytes) = bp"
      using q by (auto simp: 1(7) bp_def back_part_def free_request_def busy_base)
    have l: "length us = length fp" using 1(5) unfolding fp_def by (metis length_map)
    have r1: "rep m1 ((xs @ us) @ i # ys) fl1" using 1(1) by simp
    from FreeMemory_back_total [OF r1 q1 1(6) g, unfolded bp] show ?thesis
    proof (elim disjE conjE exE)
      assume "e2" "m2 = m1" "fl1 = []" "bp \<noteq> []"
      then show ?thesis using 1 l
        by (intro exI [of _ us] exI [of _ "[]"])
          (auto simp: m' fp_def totals_acct [OF 1(2)] simp del: map_eq_conv)
    next
      fix vs fl2
      assume "\<not> e2" and 2: "rep m2 ((xs @ us) @ i # vs @ ys) fl2" "acct m2 = acct m1"
        "regs m2 (xs @ us) = regs m1 (xs @ us)" "regs m2 ys = regs m1 ys"
        "regs m2 vs = bp" "c_addr (chunks m2 i) = addr" "reg m2 i = Region (unat addr) (unat rbytes) False"
        "length vs + length fl2 = length fl1"
      have lv: "length vs = length bp" using 2(5) by (metis length_map)
      have ev: "even addr" using q by (simp add: free_request_def)
      have d: "i \<notin> set xs" "i \<notin> set us" "i \<notin> set vs" "i \<notin> set ys" using 2(1) by (auto simp: rep_def)
      have "m' = FreeMemory_mark m2 i rbytes addr" using \<open>\<not> e1\<close> \<open>\<not> e2\<close> by (simp add: m')
      moreover have "unat (c_size (chunks m2 i)) = unat rbytes" using 2(7) by (simp add: region_of_def)
      ultimately show ?thesis
        using 1 2 d l lv FreeMemory_mark_refines [OF 2(6) ev, where rbytes = rbytes]
          totals_acct [OF 1(2)] totals_acct [OF 2(2)]
        by (intro exI [of _ us] exI [of _ vs] exI [of _ fl2])
          (simp add: fp_def FreeMemory_mark_totals del: map_eq_conv)
    qed
  qed
qed

lemma FreeMemory_refines:
  assumes r: "rep m (xs @ i # ys) fl" and t: "tiles lo (regs m (xs @ i # ys)) hi" "hi < 2 ^ 64" "4096 dvd lo"
    and c: "coalesced (regs m (xs @ i # ys))" and b: "\<not> is_free (chunks m i)"
    and a: "4096 dvd unat addr" "4096 dvd unat rbytes" "0 < unat rbytes"
      "unat (c_base (chunks m i)) \<le> unat addr"
      "unat addr + unat rbytes \<le> unat (c_base (chunks m i)) + unat (c_size (chunks m i))"
    and e: "MMapMgr_FreeMemory m i rbytes addr = (m', j)"
  defines "fp \<equiv> front_part (reg m i) (unat addr)"
    and "bp \<equiv> back_part (reg m i) (unat addr + unat rbytes)"
  obtains xs' ys' fl' where "rep m' (xs' @ j # ys') fl'" "totals m' = totals m"
    "length xs' + length ys' + length fl' = length xs + length ys + length fl"
    "regs m' (xs' @ j # ys') = (if length fp + length bp \<le> length fl
       then carve True (regs m xs) (reg m i) (regs m ys) (unat addr) (unat rbytes)
       else regs m (xs @ i # ys))"
    "reg_base (reg m' j) \<le> unat addr" "unat addr + unat rbytes \<le> reg_end (reg m' j)"
proof -
  have "reg_end (reg m i) \<le> hi" using tiles_mem(2) [OF t(1), of "reg m i"] by simp
  then have q: "free_request m i rbytes addr"
    using a b t(2) page_even by (auto simp: free_request_def busy_base)
  define m1 where "m1 = FreeMemory_split m i rbytes addr"
  have e1: "MMapMgr_CombineNeighbors m1 i = (m', j)"
    using e a(2) by (simp add: FreeMemory_split_eq MMAP_ROUND_UP_page m1_def)
  obtain us vs fl1 where 1: "rep m1 (xs @ us @ i # vs @ ys) fl1" "totals m1 = totals m"
    "regs m1 xs = regs m xs" "regs m1 ys = regs m ys" "length us + length vs + length fl1 = length fl"
    "if length fp + length bp \<le> length fl
     then regs m1 us = fp \<and> reg m1 i = Region (unat addr) (unat rbytes) True \<and> regs m1 vs = bp
     else vs = [] \<and> (us = [] \<and> reg m1 i = reg m i \<or>
       regs m1 us = fp \<and> reg m1 i = Region (unat addr) (reg_end (reg m i) - unat addr) False)"
    using FreeMemory_split_refines [OF r q] unfolding m1_def fp_def bp_def by blast
  have r1: "rep m1 ((xs @ us) @ i # (vs @ ys)) fl1" using 1(1) by simp
  have al: "4096 dvd reg_base (reg m i)" "4096 dvd reg_len (reg m i)"
    using tiles_mem [OF t(1), of "reg m i"] t(3) by auto
  have t1: "tiles lo (regs m1 (xs @ us) @ reg m1 i # regs m1 (vs @ ys)) hi"
    and out: "combine (regs m1 (xs @ us)) (reg m1 i) (regs m1 (vs @ ys)) =
      (if length fp + length bp \<le> length fl
       then carve True (regs m xs) (reg m i) (regs m ys) (unat addr) (unat rbytes)
       else regs m (xs @ i # ys))"
    and cov: "reg_base (reg m1 i) \<le> unat addr" "unat addr + unat rbytes \<le> reg_end (reg m1 i)"
  proof -
    consider (ok) "length fp + length bp \<le> length fl" "regs m1 us = fp"
        "reg m1 i = Region (unat addr) (unat rbytes) True" "regs m1 vs = bp"
      | (same) "\<not> length fp + length bp \<le> length fl" "us = []" "vs = []" "reg m1 i = reg m i"
      | (front) "\<not> length fp + length bp \<le> length fl" "vs = []" "regs m1 us = fp"
        "reg m1 i = Region (unat addr) (reg_end (reg m i) - unat addr) False"
      using 1(6) by (auto split: if_splits simp del: map_eq_conv)
    then have "tiles lo (regs m1 (xs @ us) @ reg m1 i # regs m1 (vs @ ys)) hi \<and>
      combine (regs m1 (xs @ us)) (reg m1 i) (regs m1 (vs @ ys)) =
      (if length fp + length bp \<le> length fl
       then carve True (regs m xs) (reg m i) (regs m ys) (unat addr) (unat rbytes)
       else regs m (xs @ i # ys)) \<and>
      reg_base (reg m1 i) \<le> unat addr \<and> unat addr + unat rbytes \<le> reg_end (reg m1 i)"
    proof cases
      case ok
      have "tiles lo ((regs m xs @ fp) @ Region (unat addr) (unat rbytes) True # bp @ regs m ys) hi"
        unfolding fp_def bp_def
        by (rule carve_uncombined_tiles) (use t a in \<open>simp_all del: tiles_append\<close>)
      with ok 1(3,4) show ?thesis
        by (simp add: carve_def fp_def bp_def del: map_eq_conv tiles_append region_of_sel)
    next
      case same
      with t(1) c a 1(3,4) show ?thesis
        by (simp add: combine_coalesced_id del: map_eq_conv tiles_append)
    next
      case front
      have "tiles lo ((regs m xs @ fp) @ Region (unat addr) (reg_end (reg m i) - unat addr) False #
          back_part (reg m i) (unat addr + (reg_end (reg m i) - unat addr)) @ regs m ys) hi"
        unfolding fp_def
        by (rule carve_uncombined_tiles) (use t a al in \<open>auto simp del: tiles_append\<close>)
      moreover have "combine (regs m xs @ fp) (Region (unat addr) (reg_end (reg m i) - unat addr)
          (reg_free (reg m i))) (regs m ys) = regs m xs @ reg m i # regs m ys"
        unfolding fp_def by (rule combine_front) (use c a in simp_all)
      ultimately show ?thesis
        using front 1(3,4) a b
        by (simp add: back_part_def del: map_eq_conv tiles_append)
    qed
    then show "tiles lo (regs m1 (xs @ us) @ reg m1 i # regs m1 (vs @ ys)) hi"
      "combine (regs m1 (xs @ us)) (reg m1 i) (regs m1 (vs @ ys)) =
      (if length fp + length bp \<le> length fl
       then carve True (regs m xs) (reg m i) (regs m ys) (unat addr) (unat rbytes)
       else regs m (xs @ i # ys))"
      "reg_base (reg m1 i) \<le> unat addr" "unat addr + unat rbytes \<le> reg_end (reg m1 i)"
      by blast+
  qed
  obtain xs' ys' fl' where 2: "rep m' (xs' @ j # ys') fl'" "acct m' = acct m1"
    "regs m' xs' = fst (comb_prev (regs m1 (xs @ us)) (reg m1 i))"
    "regs m' (j # ys') = comb_next (snd (comb_prev (regs m1 (xs @ us)) (reg m1 i))) (regs m1 (vs @ ys))"
    "length xs' + length ys' + length fl' = length (xs @ us) + length (vs @ ys) + length fl1"
    by (rule CombineNeighbors_refines [OF r1 _ t(2) e1]) (use t1 in auto)
  have comb: "regs m' (xs' @ j # ys') = combine (regs m1 (xs @ us)) (reg m1 i) (regs m1 (vs @ ys))"
    unfolding combine_def map_append 2(3,4) by (simp add: case_prod_beta)
  have cov': "reg_base (reg m' j) \<le> reg_base (reg m1 i)" "reg_end (reg m1 i) \<le> reg_end (reg m' j)"
    by (rule combine_covers [OF t1, of _ "regs m' ys'"], use 2(4) in simp)+
  show thesis
    by (rule that [OF 2(1) _ _ comb [unfolded out]])
      (use 1(2,5) 2(5) cov cov' totals_acct [OF 2(2)] in auto)
qed

end
