(* ===== verification/MmapMalloc.thy ===== *)
theory MmapMalloc
  imports MmapRefine
begin

text \<open>
  The invariant of the mmap manager and the allocation half of its correctness: what
  \<open>MMap_Init\<close>, \<open>MMap_Malloc\<close> and \<open>MMap_Malloc_Addr\<close> of \<^verbatim>\<open>cnk/src/mmap.c\<close> do to the
  regions.
\<close>

section \<open>The invariant\<close>

text \<open>The lists that the pointers of a manager represent, read off by following them.\<close>

fun walk :: "nat \<Rightarrow> (nat \<Rightarrow> ptr) \<Rightarrow> ptr \<Rightarrow> nat list" where
  "walk 0 nx p = []"
| "walk (Suc k) nx p = (case p of None \<Rightarrow> [] | Some i \<Rightarrow> i # walk k nx (nx i))"

definition byaddr_list :: "MmapMgr \<Rightarrow> nat list" where
  "byaddr_list m = walk MMAP_MAX_ALLOCS (\<lambda>i. byaddr_next (chunks m i)) (ByAddr_anchor m)"

definition pool_list :: "MmapMgr \<Rightarrow> nat list" where
  "pool_list m = walk MMAP_MAX_ALLOCS (\<lambda>i. c_next (chunks m i)) (FreeChunk_anchor m)"

definition regions :: "MmapMgr \<Rightarrow> region list" where
  "regions m = regs m (byaddr_list m)"

definition mem_end :: "MmapMgr \<Rightarrow> nat" where
  "mem_end m = unat (mem_start m) + unat (mem_size m)"

definition wf_mgr :: "MmapMgr \<Rightarrow> nat list \<Rightarrow> nat list \<Rightarrow> bool" where
  "wf_mgr m xs fl \<longleftrightarrow> rep m xs fl \<and>
     tiles (unat (mem_start m)) (regs m xs) (mem_end m) \<and> coalesced (regs m xs) \<and>
     0 < unat (mem_start m) \<and> 4096 dvd unat (mem_start m) \<and> mem_end m < 2 ^ 64"

definition mmap_inv :: "MmapMgr \<Rightarrow> bool" where
  "mmap_inv m \<longleftrightarrow> wf_mgr m (byaddr_list m) (pool_list m)"

text \<open>The two totals are the sizes of the free and of the busy memory.\<close>

definition balanced :: "MmapMgr \<Rightarrow> bool" where
  "balanced m \<longleftrightarrow> unat (mem_avail m) = free_sum (regions m) \<and>
     unat (mem_busy m) + free_sum (regions m) = unat (mem_size m)"

lemma walk_lnk:
  "lnk h q xs None \<Longrightarrow> length xs \<le> k \<Longrightarrow> walk k (\<lambda>i. byaddr_next (h i)) (hdp xs None) = xs"
proof (induction xs arbitrary: q k)
  case Nil
  then show ?case by (cases k) simp_all
next
  case (Cons i xs)
  then show ?case by (cases k) auto
qed

lemma walk_chain:
  "chain h xs \<Longrightarrow> length xs \<le> k \<Longrightarrow> walk k (\<lambda>i. c_next (h i)) (hdp xs None) = xs"
proof (induction xs arbitrary: k)
  case Nil
  then show ?case by (cases k) simp_all
next
  case (Cons i xs)
  then show ?case by (cases k) auto
qed

lemma rep_lists:
  assumes "rep m xs fl"
  shows "byaddr_list m = xs" "pool_list m = fl"
  using assms rep_length [OF assms]
  by (auto simp: rep_defs byaddr_list_def pool_list_def walk_lnk walk_chain)

lemma wf_mgr_lists:
  assumes "wf_mgr m xs fl"
  shows "byaddr_list m = xs" "pool_list m = fl" "regions m = regs m xs"
  using assms by (auto simp: wf_mgr_def rep_lists regions_def)

lemma wf_mgr_inv: "wf_mgr m xs fl \<Longrightarrow> mmap_inv m"
  by (frule wf_mgr_lists(1), frule wf_mgr_lists(2)) (simp add: mmap_inv_def)

lemma regions_tiles:
  "mmap_inv m \<Longrightarrow> tiles (unat (mem_start m)) (regions m) (mem_end m)"
  by (simp add: mmap_inv_def wf_mgr_def regions_def)

section \<open>The walk\<close>

lemma find_chunk_list:
  "lnk (chunks m) q xs None \<Longrightarrow> find_chunk P m (hdp xs None) = Some (find (\<lambda>i. P (chunks m i)) xs)"
  by (induction xs arbitrary: q) (subst find_chunk.simps; auto)+

lemma find_chunk_rep:
  "rep m xs fl \<Longrightarrow> find_chunk P m (ByAddr_anchor m) = Some (find (\<lambda>i. P (chunks m i)) xs)"
  by (auto simp: rep_defs find_chunk_list)

lemma find_split:
  assumes "find P xs = Some i"
  obtains us vs where "xs = us @ i # vs" "P i" "\<forall>x\<in>set us. \<not> P x"
  using assms
proof (induction xs arbitrary: thesis)
  case (Cons x xs)
  show ?case
  proof (cases "P x")
    case True
    with Cons.prems show ?thesis by (intro Cons.prems(1) [of "[]" xs]) auto
  next
    case False
    with Cons.prems(2) obtain us vs where "xs = us @ i # vs" "P i" "\<forall>x\<in>set us. \<not> P x"
      by (auto intro: Cons.IH)
    with False show ?thesis by (intro Cons.prems(1) [of "x # us" vs]) auto
  qed
qed simp

section \<open>Taking memory\<close>

lemma addr_flag: "c_addr c = c_base c + (if is_free c then 1 else 0)"
proof (cases "is_free c")
  case True
  then have "odd (c_addr c)" by (simp add: is_free_odd)
  then have "even (c_addr c - 1)" by simp
  from even_plus1_clear_flag [OF this] True show ?thesis
    by (simp add: c_base_def MMAPCHUNK_ADDR_FREE_def)
qed (simp add: busy_base)

lemma base_even [simp]: "even (c_base c)"
  by (simp add: c_base_def MMAPCHUNK_ADDR_FREE_def even_and_iff)

lemma set_flag_base:
  assumes "even rb"
  shows "((c_addr c + rb) OR MMAPCHUNK_ADDR_FREE) AND NOT MMAPCHUNK_ADDR_FREE = c_base c + rb"
    "odd ((c_addr c + rb) OR MMAPCHUNK_ADDR_FREE)"
proof -
  have e: "even (c_base c + rb)" using assms by simp
  have "(c_addr c + rb) OR 1 = (c_base c + rb) + 1"
  proof (cases "is_free c")
    case True
    then have "c_addr c + rb = (c_base c + rb) OR 1"
      using addr_flag [of c] even_set_flag [OF e] by (simp add: algebra_simps)
    then have "(c_addr c + rb) OR 1 = (c_base c + rb) OR 1" by (simp add: or.assoc)
    with even_set_flag [OF e] show ?thesis by simp
  next
    case False
    then show ?thesis using even_set_flag [OF e] by (simp add: busy_base)
  qed
  then show "((c_addr c + rb) OR MMAPCHUNK_ADDR_FREE) AND NOT MMAPCHUNK_ADDR_FREE = c_base c + rb"
    "odd ((c_addr c + rb) OR MMAPCHUNK_ADDR_FREE)"
    using even_plus1_clear_flag [OF e] e by (simp_all add: MMAPCHUNK_ADDR_FREE_def)
qed

lemma split_chunk_refines:
  assumes r: "rep m (xs @ i # ys) fl" and n: "n \<notin> set (xs @ i # ys @ fl)" "n < MMAP_MAX_ALLOCS"
    and b: "even rb" "unat rb \<le> unat (c_size (chunks m i))"
      "unat (c_base (chunks m i)) + unat (c_size (chunks m i)) < 2 ^ 64"
  defines "m' \<equiv> split_chunk m i rb n"
    and "bp \<equiv> back_part (Region (unat (c_base (chunks m i))) (unat (c_size (chunks m i))) True)
                 (unat (c_base (chunks m i)) + unat rb)"
  shows "\<exists>vs fl'. rep m' (xs @ i # vs @ ys) fl' \<and> acct m' = acct m \<and> regs m' xs = regs m xs \<and>
    regs m' ys = regs m ys \<and> regs m' vs = bp \<and> c_addr (chunks m' i) = c_addr (chunks m i) \<and>
    c_size (chunks m' i) = rb \<and> length vs + length fl' = length fl + 1"
proof (cases "c_size (chunks m i) > rb")
  case False
  then have "c_size (chunks m i) = rb" "m' = MMap_Push_FreeChunk m n"
    using b by (auto simp: word_less_nat_alt word_unat_eq_iff m'_def split_chunk_def)
  moreover have "bp = []" using calculation by (simp add: bp_def back_part_def)
  moreover have "rep (MMap_Push_FreeChunk m n) (xs @ i # ys) (n # fl)"
    by (rule Push_FreeChunk_rep) (use r n in auto)
  ultimately show ?thesis
    by (intro exI [of _ "[]"] exI [of _ "n # fl"]) (simp add: region_defs)
next
  case True
  define M where "M = upd_chunk n (\<lambda>c. c\<lparr>c_addr := c_addr c OR MMAPCHUNK_ADDR_FREE\<rparr>)
    (upd_chunk i (\<lambda>c. c\<lparr>c_size := rb\<rparr>)
    (upd_chunk n (\<lambda>c. c\<lparr>c_size := c_size (chunks m i) - rb\<rparr>)
    (upd_chunk n (\<lambda>c. c\<lparr>c_addr := c_addr (chunks m i) + rb\<rparr>) m)))"
  have ni: "n \<noteq> i" using n by auto
  have m': "m' = MMapMgr_EnQByAddrAfter M n i"
    using True ni by (simp add: m'_def split_chunk_def M_def Let_def)
  have R: "rep m' (xs @ i # n # ys) fl"
    unfolding m' by (rule EnQByAddrAfter_rep) (use r n in \<open>auto simp: M_def\<close>)
  have "unat (c_base (chunks m i) + rb) = unat (c_base (chunks m i)) + unat rb"
    "unat (c_size (chunks m i) - rb) = unat (c_size (chunks m i)) - unat rb"
    using b by (auto intro: unat_add_exact unat_sub_exact)
  then have "reg m' n = Region (unat (c_base (chunks m i)) + unat rb) (unat (c_size (chunks m i)) - unat rb) True"
    using ni set_flag_base [OF b(1), of "chunks m i"]
    by (simp add: region_of_def c_base_def is_free_odd m' M_def)
  then have "regs m' [n] = bp" using True by (simp add: bp_def back_part_def word_less_nat_alt)
  moreover have "regs m' xs = regs m xs" "regs m' ys = regs m ys"
    using n R by (auto simp: m' M_def region_defs rep_def)
  ultimately show ?thesis
    using R ni
    by (intro exI [of _ "[n]"] exI [of _ fl]) (simp add: m' M_def)
qed

lemma take_chunk_refines:
  "rep (take_chunk m i) xs fl = rep m xs fl"
  "i \<notin> set zs \<Longrightarrow> regs (take_chunk m i) zs = regs m zs"
  "reg (take_chunk m i) i = Region (unat (c_base (chunks m i))) (unat (c_size (chunks m i))) False"
  "c_addr (chunks (take_chunk m i) i) = c_base (chunks m i)"
  "acct (take_chunk m i) = acct (m\<lparr>mem_avail := mem_avail m - c_size (chunks m i),
     mem_busy := mem_busy m + c_size (chunks m i)\<rparr>)"
  subgoal by (simp add: take_chunk_def Let_def)
  by (auto simp: take_chunk_def Let_def region_of_def c_base_def is_free_odd
      upd_chunk_def acct_def and.assoc MMAPCHUNK_ADDR_FREE_def even_and_iff)

text \<open>
  \<open>split_chunk\<close>, \<open>take_chunk\<close> and the merge, as both allocation routines run them on a
  chunk \<open>i\<close> that starts at the allocation; the memory in front is \<open>us\<close>.
\<close>

lemma allocate_refines:
  assumes r: "rep m (xs @ i # ys) fl" and n: "n \<notin> set (xs @ i # ys @ fl)" "n < MMAP_MAX_ALLOCS"
    and b: "even rb" "unat rb \<le> unat (c_size (chunks m i))"
    and t: "tiles lo (regs m xs @ Region (unat (c_base (chunks m i))) (unat rb) False #
        back_part (Region (unat (c_base (chunks m i))) (unat (c_size (chunks m i))) True)
          (unat (c_base (chunks m i)) + unat rb) @ regs m ys) hi" "hi < 2 ^ 64"
      "unat (c_base (chunks m i)) + unat (c_size (chunks m i)) \<le> hi"
    and e: "MMapMgr_CombineNeighbors (take_chunk (split_chunk m i rb n) i) i = (m', j)"
  obtains xs' fl' where "rep m' xs' fl'"
    "regs m' xs' = combine (regs m xs) (Region (unat (c_base (chunks m i))) (unat rb) False)
        (back_part (Region (unat (c_base (chunks m i))) (unat (c_size (chunks m i))) True)
          (unat (c_base (chunks m i)) + unat rb) @ regs m ys)"
    "acct m' = acct (m\<lparr>mem_avail := mem_avail m - rb, mem_busy := mem_busy m + rb\<rparr>)"
    "length xs' + length fl' = length xs + length ys + length fl + 2"
    "c_addr (chunks (take_chunk (split_chunk m i rb n) i) i) = c_base (chunks m i)"
proof -
  define bp where "bp = back_part (Region (unat (c_base (chunks m i))) (unat (c_size (chunks m i))) True)
          (unat (c_base (chunks m i)) + unat rb)"
  define m1 where "m1 = split_chunk m i rb n"
  obtain vs fl1 where 1: "rep m1 (xs @ i # vs @ ys) fl1" "acct m1 = acct m" "regs m1 xs = regs m xs"
    "regs m1 ys = regs m ys" "regs m1 vs = bp" "c_addr (chunks m1 i) = c_addr (chunks m i)"
    "c_size (chunks m1 i) = rb" "length vs + length fl1 = length fl + 1"
    using split_chunk_refines [OF r n b] t(2,3) unfolding m1_def bp_def by fastforce
  have b1: "c_base (chunks m1 i) = c_base (chunks m i)" using 1(6) by (simp add: c_base_def)
  have d: "i \<notin> set xs" "i \<notin> set vs" "i \<notin> set ys" using 1(1) by (auto simp: rep_def)
  define m2 where "m2 = take_chunk m1 i"
  have 2: "rep m2 (xs @ i # (vs @ ys)) fl1" "regs m2 xs = regs m xs" "regs m2 (vs @ ys) = bp @ regs m ys"
    "reg m2 i = Region (unat (c_base (chunks m i))) (unat rb) False"
    using 1 d by (simp_all add: m2_def take_chunk_refines b1 del: map_eq_conv)
  have "acct m2 = acct (m\<lparr>mem_avail := mem_avail m - rb, mem_busy := mem_busy m + rb\<rparr>)"
    using 1(2,7) by (simp add: m2_def take_chunk_refines) (simp add: acct_def)
  moreover have t2: "tiles lo (regs m2 (xs @ i # (vs @ ys))) hi"
    using t(1) 2(2-4) unfolding bp_def [symmetric] by (simp del: map_eq_conv tiles_append)
  moreover have "c_addr (chunks m2 i) = c_base (chunks m i)"
    by (simp add: m2_def take_chunk_refines b1)
  moreover obtain xs' fl' where "rep m' xs' fl'" "acct m' = acct m2"
    "regs m' xs' = combine (regs m2 xs) (reg m2 i) (regs m2 (vs @ ys))"
    "length xs' + length fl' = length xs + length (vs @ ys) + length fl1 + 1"
    by (rule CombineNeighbors_combine [OF 2(1) t2 t(2) e [folded m1_def m2_def]])
  ultimately show thesis
    using 1(8) 2(2-4)
    by (intro that [of xs' fl'])
      (simp_all add: m1_def m2_def del: map_eq_conv flip: bp_def)
qed

section \<open>\<open>MMap_Malloc\<close>\<close>

text \<open>The first free region that is large enough, with the regions on both sides of it.\<close>

fun first_fit :: "nat \<Rightarrow> region list \<Rightarrow> (region list \<times> region \<times> region list) option" where
  "first_fit n [] = None"
| "first_fit n (r # rs) =
     (if reg_free r \<and> n \<le> reg_len r then Some ([], r, rs)
      else (case first_fit n rs of None \<Rightarrow> None | Some (us, q, vs) \<Rightarrow> Some (r # us, q, vs)))"

lemma first_fit_SomeD:
  "first_fit n rs = Some (us, r, vs) \<Longrightarrow> rs = us @ r # vs \<and> reg_free r \<and> n \<le> reg_len r"
  by (induction rs arbitrary: us) (auto split: if_splits option.splits)

lemma first_fit_carve:
  assumes f: "first_fit n rs = Some (us, r, vs)" and t: "tiles lo rs hi" "4096 dvd lo" "4096 dvd n" "0 < n"
  defines "rs' \<equiv> carve False us r vs (reg_base r) n"
  shows "free_addrs rs' = free_addrs rs - {reg_base r..<reg_base r + n}"
    "free_sum rs' + n = free_sum rs" "{reg_base r..<reg_base r + n} \<subseteq> free_addrs rs"
    "4096 dvd reg_base r" "lo \<le> reg_base r" "reg_base r + n \<le> hi"
proof -
  note s = first_fit_SomeD [OF f]
  have t': "tiles lo (us @ r # vs) hi" using t(1) s by blast
  note r = tiles_mem [OF t', of r]
  show d: "4096 dvd reg_base r" "lo \<le> reg_base r" "reg_base r + n \<le> hi" using r t(2) s by auto
  note c = carve_busy [OF t' t(2) d(1) t(3,4)]
  show "free_addrs rs' = free_addrs rs - {reg_base r..<reg_base r + n}"
    "free_sum rs' + n = free_sum rs" "{reg_base r..<reg_base r + n} \<subseteq> free_addrs rs"
    unfolding rs'_def using c s by (auto simp del: free_addrs_simps free_sum_simps)
qed

lemma first_fit_find_None:
  "find (\<lambda>i. is_free (chunks m i) \<and> rb \<le> c_size (chunks m i)) xs = None \<Longrightarrow>
   first_fit (unat rb) (regs m xs) = None"
  by (induction xs) (auto simp: word_le_nat_alt split: if_splits)

lemma first_fit_find_Some:
  assumes "xs = us @ i # vs" "is_free (chunks m i) \<and> rb \<le> c_size (chunks m i)"
    "\<forall>x\<in>set us. \<not> (is_free (chunks m x) \<and> rb \<le> c_size (chunks m x))"
  shows "first_fit (unat rb) (regs m xs) = Some (regs m us, reg m i, regs m vs)"
  using assms(2,3) unfolding assms(1) by (induction us) (auto simp: word_le_nat_alt)

text \<open>When a request is granted.\<close>

definition malloc_grant :: "GuardView \<Rightarrow> MmapMgr \<Rightarrow> u64 \<Rightarrow> bool" where
  "malloc_grant g m rb \<longleftrightarrow> rb \<le> mem_avail m \<and> pool_list m \<noteq> [] \<and>
     (case first_fit (unat rb) (regions m) of
        None \<Rightarrow> False
      | Some (us, r, vs) \<Rightarrow> \<not> guard_conflict g (word_of_nat (reg_base r) + 1) rb)"

lemma wf_mgrD:
  assumes "wf_mgr m xs fl"
  shows "rep m xs fl" "tiles (unat (mem_start m)) (regs m xs) (mem_end m)" "coalesced (regs m xs)"
    "0 < unat (mem_start m)" "4096 dvd unat (mem_start m)" "mem_end m < 2 ^ 64"
  using assms by (auto simp: wf_mgr_def)

text \<open>A change that keeps the range, and whose regions are well formed again.\<close>

lemma wf_mgr_change:
  assumes "wf_mgr m xs fl" "rep m' xs' fl'" "mem_start m' = mem_start m" "mem_size m' = mem_size m"
    "tiles (unat (mem_start m)) (regs m' xs') (mem_end m)" "coalesced (regs m' xs')"
  shows "wf_mgr m' xs' fl'"
  using assms by (simp add: wf_mgr_def mem_end_def)

lemma wf_mgr_Push:
  assumes w: "wf_mgr m xs fl" and n: "n \<notin> set (xs @ fl)" "n < MMAP_MAX_ALLOCS"
  shows "\<exists>xs' fl'. wf_mgr (MMap_Push_FreeChunk m n) xs' fl' \<and>
    length xs' + length fl' = Suc (length xs + length fl) \<and>
    regs (MMap_Push_FreeChunk m n) xs' = regs m xs"
proof -
  note D = wf_mgrD [OF w]
  have "regs (MMap_Push_FreeChunk m n) xs = regs m xs" by (simp add: region_defs)
  moreover from this have "wf_mgr (MMap_Push_FreeChunk m n) xs (n # fl)"
    using D acct_eqD [of "MMap_Push_FreeChunk m n" m] Push_FreeChunk_rep [OF D(1) n]
    by (intro wf_mgr_change [OF w]) (auto simp del: map_eq_conv)
  ultimately show ?thesis by (intro exI [of _ xs] exI [of _ "n # fl"]) simp
qed

lemma MMapMgr_Malloc_refines:
  assumes w: "wf_mgr m xs fl" and n: "n \<notin> set (xs @ fl)" "n < MMAP_MAX_ALLOCS"
    and b: "4096 dvd unat rb" "0 < unat rb"
  shows "\<exists>m' a xs' fl'. MMapMgr_Malloc g m rb n = Some (m', a) \<and> wf_mgr m' xs' fl' \<and>
    length xs' + length fl' = length xs + length fl + 1 \<and>
    (case first_fit (unat rb) (regs m xs) of
       None \<Rightarrow> a = 0 \<and> regs m' xs' = regs m xs \<and> acct m' = acct m
     | Some (us, r, vs) \<Rightarrow>
         if guard_conflict g (word_of_nat (reg_base r) + 1) rb
         then a = 0 \<and> regs m' xs' = regs m xs \<and> acct m' = acct m
         else unat a = reg_base r \<and> regs m' xs' = carve False us r vs (reg_base r) (unat rb) \<and>
           acct m' = acct (m\<lparr>mem_avail := mem_avail m - rb, mem_busy := mem_busy m + rb\<rparr>))"
proof -
  note D = wf_mgrD [OF w]
  define P where "P = (\<lambda>i. is_free (chunks m i) \<and> rb \<le> c_size (chunks m i))"
  have f: "find_chunk (\<lambda>c. is_free c \<and> c_size c \<ge> rb) m (ByAddr_anchor m) = Some (find P xs)"
    by (simp add: find_chunk_rep [OF D(1)] P_def)
  note push = wf_mgr_Push [OF w n]
  show ?thesis
  proof (cases "find P xs")
    case None
    then have "first_fit (unat rb) (regs m xs) = None" unfolding P_def by (rule first_fit_find_None)
    with None push show ?thesis by (auto simp: MMapMgr_Malloc_def f simp del: map_eq_conv)
  next
    case (Some i)
    then obtain us vs where x: "xs = us @ i # vs" "P i" "\<forall>x\<in>set us. \<not> P x" by (rule find_split)
    then have ff: "first_fit (unat rb) (regs m xs) = Some (regs m us, reg m i, regs m vs)"
      unfolding P_def by (rule first_fit_find_Some)
    have ca: "c_addr (chunks m i) = c_base (chunks m i) + 1"
      using x(2) addr_flag [of "chunks m i"] by (simp add: P_def)
    show ?thesis
    proof (cases "guard_conflict g (c_addr (chunks m i)) rb")
      case True
      with push ff ca show ?thesis by (auto simp: MMapMgr_Malloc_def f Some simp del: map_eq_conv)
    next
      case False
      obtain m' j where e: "MMapMgr_CombineNeighbors (take_chunk (split_chunk m i rb n) i) i = (m', j)"
        by fastforce
      have R: "rep m (us @ i # vs) fl" and N: "n \<notin> set (us @ i # vs @ fl)" using D(1) n x(1) by auto
      have T: "tiles (unat (mem_start m)) (regs m us @ reg m i # regs m vs) (mem_end m)"
        using D(2) x(1) by simp
      have S: "unat rb \<le> unat (c_size (chunks m i))" and F: "reg_free (reg m i)"
        using x(2) by (auto simp: P_def word_le_nat_alt)
      have B: "unat (c_base (chunks m i)) + unat (c_size (chunks m i)) \<le> mem_end m"
        "4096 dvd unat (c_base (chunks m i))" "0 < unat (c_base (chunks m i))"
        using tiles_mem [OF T, of "reg m i"] D(4,5) by auto
      have rg: "Region (unat (c_base (chunks m i))) (unat (c_size (chunks m i))) True = reg m i"
        using F by (simp add: region_of_def)
      have fp: "front_part (reg m i) (unat (c_base (chunks m i))) = []" by (simp add: front_part_def)
      have U: "tiles (unat (mem_start m)) (regs m us @ Region (unat (c_base (chunks m i))) (unat rb) False #
        back_part (reg m i) (unat (c_base (chunks m i)) + unat rb) @ regs m vs) (mem_end m)"
        using carve_uncombined_tiles [OF T D(5) B(2) b(1) b(2), of False] S by (simp add: fp del: tiles_append)
      obtain xs' fl' where 1: "rep m' xs' fl'" "regs m' xs' = carve False (regs m us) (reg m i) (regs m vs)
          (unat (c_base (chunks m i))) (unat rb)"
        "acct m' = acct (m\<lparr>mem_avail := mem_avail m - rb, mem_busy := mem_busy m + rb\<rparr>)"
        "length xs' + length fl' = length us + length vs + length fl + 2"
        "c_addr (chunks (take_chunk (split_chunk m i rb n) i) i) = c_base (chunks m i)"
        by (rule allocate_refines [OF R N n(2) page_even [OF b(1)] S _ D(6) B(1) e, unfolded rg, OF U])
          (auto simp: carve_def fp simp del: map_eq_conv)
      have W: "wf_mgr m' xs' fl'"
        by (rule wf_mgr_change [OF w 1(1)])
          (use 1(2,3) T D x(1) S B(2) b in
            \<open>auto simp: acct_def intro!: carve_tiles carve_coalesced simp del: tiles_append map_eq_conv\<close>)
      have "MMapMgr_Malloc g m rb n = Some (m', c_base (chunks m i))"
        using False 1(5) by (simp add: MMapMgr_Malloc_def f Some e Let_def)
      with 1 W ff False ca x(1) show ?thesis
        by (intro exI [of _ m'] exI [of _ "c_base (chunks m i)"] exI [of _ xs'] exI [of _ fl'])
          (simp del: map_eq_conv)
    qed
  qed
qed

lemma raise_high_mark_simps [simp]:
  "rep (raise_high_mark m a n) xs fl = rep m xs fl"
  "chunks (raise_high_mark m a n) = chunks m"
  "ByAddr_anchor (raise_high_mark m a n) = ByAddr_anchor m"
  "mem_start (raise_high_mark m a n) = mem_start m" "mem_size (raise_high_mark m a n) = mem_size m"
  "mem_avail (raise_high_mark m a n) = mem_avail m" "mem_busy (raise_high_mark m a n) = mem_busy m"
  by (simp_all add: raise_high_mark_def Let_def)

lemma wf_raise_high_mark [simp]: "wf_mgr (raise_high_mark m a n) xs fl = wf_mgr m xs fl"
  by (simp add: wf_mgr_def mem_end_def)

lemma MMAP_ROUND_UP_facts:
  assumes "0 < b" "unat b + 4095 < 2 ^ 64"
  shows "4096 dvd unat (MMAP_ROUND_UP b)" "0 < unat (MMAP_ROUND_UP b)" "unat b \<le> unat (MMAP_ROUND_UP b)"
    "unat (MMAP_ROUND_UP b) < unat b + 4096"
proof -
  have "0 < unat b" using assms(1) by (simp add: word_less_nat_alt)
  then show "4096 dvd unat (MMAP_ROUND_UP b)" "0 < unat (MMAP_ROUND_UP b)"
    "unat b \<le> unat (MMAP_ROUND_UP b)" "unat (MMAP_ROUND_UP b) < unat b + 4096"
    unfolding unat_MMAP_ROUND_UP [OF assms(2)] by (simp_all add: div_greater_zero_iff)
qed

lemma Pop_cases:
  assumes w: "wf_mgr m xs fl"
  obtains (empty) "fl = []" "MMap_Pop_FreeChunk m = (m, None)"
  | (pop) n fl1 m1 where "fl = n # fl1" "MMap_Pop_FreeChunk m = (m1, Some n)" "wf_mgr m1 xs fl1"
      "regs m1 xs = regs m xs" "acct m1 = acct m" "n \<notin> set (xs @ fl1)" "n < MMAP_MAX_ALLOCS"
proof (cases fl)
  case Nil
  with wf_mgrD(1) [OF w] show thesis by (intro empty) (simp_all add: Pop_FreeChunk_empty)
next
  case (Cons n fl1)
  note D = wf_mgrD [OF w]
  note p = Pop_FreeChunk_rep [OF D(1) [unfolded Cons]]
  define m1 where "m1 = fst (MMap_Pop_FreeChunk m)"
  have a: "acct m1 = acct m" by (simp add: m1_def)
  have g: "regs m1 xs = regs m xs" by (simp add: m1_def region_defs)
  have "wf_mgr m1 xs fl1"
    by (rule wf_mgr_change [OF w p(2) [folded m1_def]]) (use D acct_eqD [OF a] g in \<open>simp_all del: map_eq_conv\<close>)
  with p(1,3,4) g a Cons show thesis by (intro pop [of n fl1 m1]) (auto simp: m1_def prod_eq_iff)
qed

text \<open>The accounting, when \<open>n\<close> bytes move from the free to the busy side.\<close>

lemma balanced_move:
  assumes b: "balanced m" and w: "wf_mgr m xs fl" "wf_mgr m' xs' fl'"
    and n: "free_sum (regs m' xs') + unat n = free_sum (regs m xs)"
    and a: "acct m' = acct (m\<lparr>mem_avail := mem_avail m - n, mem_busy := mem_busy m + n\<rparr>)"
  shows "balanced m'"
proof -
  have f: "mem_avail m' = mem_avail m - n" "mem_busy m' = mem_busy m + n" "mem_size m' = mem_size m"
    using a by (auto simp: acct_def)
  have "unat (mem_size m) < 2 ^ 64" using unsigned_less [of "mem_size m"] by simp
  moreover have g: "regions m = regs m xs" "regions m' = regs m' xs'"
    using w by (simp_all add: wf_mgr_lists(3) [OF w(1)] wf_mgr_lists(3) [OF w(2)])
  ultimately have "unat (mem_avail m - n) = unat (mem_avail m) - unat n"
    "unat (mem_busy m + n) = unat (mem_busy m) + unat n"
    using b n unfolding balanced_def g by (simp_all add: unat_sub_exact unat_add_exact)
  then show ?thesis
    using b n unfolding balanced_def f g by auto
qed

lemma balanced_same:
  assumes "balanced m" "wf_mgr m xs fl" "wf_mgr m' xs' fl'" "regs m' xs' = regs m xs" "acct m' = acct m"
  shows "balanced m'"
  using assms wf_mgr_lists(3) acct_eqD unfolding balanced_def by metis

lemma balanced_raise_high_mark [simp]: "balanced (raise_high_mark m a n) = balanced m"
  by (simp add: balanced_def regions_def byaddr_list_def)

lemma MMap_Malloc_refines:
  assumes w: "wf_mgr m xs fl" and b: "0 < bytes" "unat bytes + 4095 < 2 ^ 64"
  defines "rb \<equiv> MMAP_ROUND_UP bytes"
  shows "\<exists>m' a xs' fl'. MMap_Malloc g m bytes = Some (m', a) \<and> wf_mgr m' xs' fl' \<and>
    length xs' + length fl' = length xs + length fl \<and> (balanced m \<longrightarrow> balanced m') \<and>
    mem_start m' = mem_start m \<and> mem_size m' = mem_size m \<and>
    (if malloc_grant g m rb
     then (case the (first_fit (unat rb) (regs m xs)) of (us, r, vs) \<Rightarrow>
       unat a = reg_base r \<and> regs m' xs' = carve False us r vs (reg_base r) (unat rb))
     else a = 0 \<and> regs m' xs' = regs m xs)"
proof -
  note rf = MMAP_ROUND_UP_facts [OF b, folded rb_def]
  note L = wf_mgr_lists [OF w]
  show ?thesis
  proof (cases "rb \<le> mem_avail m")
    case False
    then show ?thesis
      using w by (auto simp: MMap_Malloc_def malloc_grant_def simp flip: rb_def)
  next
    case True
    from w show ?thesis
    proof (cases rule: Pop_cases)
      case empty
      then show ?thesis
        using w True L b(1)
        by (intro exI [of _ m] exI [of _ 0] exI [of _ xs] exI [of _ fl])
          (simp add: MMap_Malloc_def malloc_grant_def Let_def flip: rb_def)
    next
      case (pop n fl1 m1)
      note a1 = acct_eqD [OF pop(5)]
      from MMapMgr_Malloc_refines [OF pop(3,6,7) rf(1,2), of g]
      obtain m2 a xs' fl' where 2: "MMapMgr_Malloc g m1 rb n = Some (m2, a)" "wf_mgr m2 xs' fl'"
        "length xs' + length fl' = length xs + length fl1 + 1" and
        3: "case first_fit (unat rb) (regs m xs) of
          None \<Rightarrow> a = 0 \<and> regs m2 xs' = regs m xs \<and> acct m2 = acct m
        | Some (us, r, vs) \<Rightarrow>
          if guard_conflict g (word_of_nat (reg_base r) + 1) rb
          then a = 0 \<and> regs m2 xs' = regs m xs \<and> acct m2 = acct m
          else unat a = reg_base r \<and> regs m2 xs' = carve False us r vs (reg_base r) (unat rb) \<and>
           acct m2 = acct (m1\<lparr>mem_avail := mem_avail m1 - rb, mem_busy := mem_busy m1 + rb\<rparr>)"
        unfolding pop(4,5) by blast
      have e: "MMap_Malloc g m bytes = Some (raise_high_mark m2 a rb, a)"
        using True b(1) pop(2) 2(1) by (simp add: MMap_Malloc_def flip: rb_def)
      have "balanced m \<longrightarrow> balanced m2"
      proof
        assume B: "balanced m"
        consider "regs m2 xs' = regs m xs" "acct m2 = acct m"
          | us r vs where "first_fit (unat rb) (regs m xs) = Some (us, r, vs)"
            "regs m2 xs' = carve False us r vs (reg_base r) (unat rb)"
            "acct m2 = acct (m\<lparr>mem_avail := mem_avail m - rb, mem_busy := mem_busy m + rb\<rparr>)"
          using 3 pop(5) by (auto simp: acct_def split: option.splits if_splits simp del: map_eq_conv)
        then show "balanced m2"
        proof cases
          case 1
          then show ?thesis by (rule balanced_same [OF B w 2(2)])
        next
          case (2 us r vs)
          have "free_sum (regs m2 xs') + unat rb = free_sum (regs m xs)"
            unfolding 2(2) by (rule first_fit_carve(2) [OF 2(1) wf_mgrD(2,5) [OF w] rf(1,2)])
          then show ?thesis by (rule balanced_move [OF B w \<open>wf_mgr m2 xs' fl'\<close> _ 2(3)])
        qed
      qed
      moreover have "mem_start m2 = mem_start m \<and> mem_size m2 = mem_size m"
        using 3 a1 by (auto simp: acct_def split: option.splits if_splits)
      ultimately show ?thesis
        by (intro exI [of _ "raise_high_mark m2 a rb"] exI [of _ a] exI [of _ xs'] exI [of _ fl'])
          (use e 2 3 pop(1) L True in \<open>auto simp: malloc_grant_def split: option.splits if_splits simp del: map_eq_conv\<close>)
    qed
  qed
qed

end
