(* ===== verification/MmapInit.thy ===== *)
theory MmapInit
  imports MmapMalloc
begin

text \<open>
  \<open>MMap_Init\<close> of \<^verbatim>\<open>cnk/src/mmap.c\<close> establishes the invariant: one free region that is the
  whole range, with every other descriptor in the pool.
\<close>

section \<open>\<open>MMap_Init\<close>\<close>

text \<open>A manager in storage that has been cleared: no chunk is linked.\<close>

definition cleared :: "MmapMgr \<Rightarrow> bool" where
  "cleared m \<longleftrightarrow> FreeChunk_anchor m = None \<and> ByAddr_anchor m = None \<and>
     (\<forall>i < MMAP_MAX_ALLOCS. byaddr_next (chunks m i) = None \<and> byaddr_prev (chunks m i) = None)"

lemma fold_push:
  assumes "rep m [] fl" "set fl \<inter> set ks = {}" "distinct ks" "set ks \<subseteq> {..<MMAP_MAX_ALLOCS}"
  defines "m' \<equiv> fold (\<lambda>i m. MMap_Push_FreeChunk m i) ks m"
  shows "rep m' [] (rev ks @ fl) \<and> acct m' = acct m \<and>
    (\<forall>k. byaddr_next (chunks m' k) = byaddr_next (chunks m k) \<and>
         byaddr_prev (chunks m' k) = byaddr_prev (chunks m k))"
  using assms(1-4) unfolding m'_def
proof (induction ks arbitrary: m fl)
  case (Cons i ks)
  have "rep (MMap_Push_FreeChunk m i) [] (i # fl)" using Cons.prems by (intro Push_FreeChunk_rep) auto
  moreover have "byaddr_next (chunks (MMap_Push_FreeChunk m i) k) = byaddr_next (chunks m k)"
    "byaddr_prev (chunks (MMap_Push_FreeChunk m i) k) = byaddr_prev (chunks m k)" for k
    by (simp_all add: MMap_Push_FreeChunk_def Let_def)
  ultimately show ?case using Cons.IH [of "MMap_Push_FreeChunk m i" "i # fl"] Cons.prems by simp
qed auto

lemma Pop_FreeChunk_links:
  "byaddr_next (chunks (fst (MMap_Pop_FreeChunk m)) k) = byaddr_next (chunks m k)"
  "byaddr_prev (chunks (fst (MMap_Pop_FreeChunk m)) k) = byaddr_prev (chunks m k)"
  by (auto simp: MMap_Pop_FreeChunk_def Let_def split: option.splits)

lemma rep_single:
  assumes "rep m [] fl" "p \<notin> set fl" "p < MMAP_MAX_ALLOCS" "byaddr_next (chunks m p) = None"
    "byaddr_prev (chunks m p) = None"
  shows "rep (m\<lparr>ByAddr_anchor := Some p\<rparr>) [p] fl"
  using assms by (auto simp: rep_defs)

text \<open>The range is rounded inwards at the start and down in size, as the code does.\<close>

definition init_ok :: "u64 \<Rightarrow> u64 \<Rightarrow> bool" where
  "init_ok start bytes \<longleftrightarrow> 0 < unat start \<and> unat start + 4095 < 2 ^ 64 \<and> 4096 \<le> unat bytes \<and>
     unat (MMAP_ROUND_UP start) + unat (MMAP_ROUND_DN bytes) < 2 ^ 64"

lemma MMAP_ROUND_DN_facts:
  "4096 dvd unat (MMAP_ROUND_DN b)" "unat (MMAP_ROUND_DN b) \<le> unat b"
  "4096 \<le> unat b \<Longrightarrow> 0 < unat (MMAP_ROUND_DN b)"
proof -
  have "unat (MMAP_ROUND_DN b) = unat b div 4096 * 4096"
    using unat_clear_mask [of b 12] by (simp add: MMAP_ROUND_DN_def PAGESIZE_def flip: word_4095)
  then show "4096 dvd unat (MMAP_ROUND_DN b)" "unat (MMAP_ROUND_DN b) \<le> unat b"
    "4096 \<le> unat b \<Longrightarrow> 0 < unat (MMAP_ROUND_DN b)"
    by (simp_all add: div_greater_zero_iff)
qed

lemma MMap_Init_refines:
  assumes z: "cleared m" and n: "0 < n" "n \<le> MMAP_MAX_ALLOCS" and b: "init_ok start bytes"
  defines "m' \<equiv> MMap_Init_pool n m start bytes"
  shows "\<exists>xs' fl'. wf_mgr m' xs' fl' \<and> length xs' + length fl' = n \<and> balanced m' \<and>
    regs m' xs' = [Region (unat (MMAP_ROUND_UP start)) (unat (MMAP_ROUND_DN bytes)) True] \<and>
    mem_start m' = MMAP_ROUND_UP start \<and> mem_size m' = MMAP_ROUND_DN bytes"
proof -
  define S Z where "S = MMAP_ROUND_UP start" and "Z = MMAP_ROUND_DN bytes"
  have SZ: "4096 dvd unat S" "0 < unat S" "4096 dvd unat Z" "0 < unat Z" "unat S + unat Z < 2 ^ 64"
    using b MMAP_ROUND_UP_facts [of start] MMAP_ROUND_DN_facts [of bytes]
    by (auto simp: S_def Z_def init_ok_def word_less_nat_alt)
  have b0: "bytes \<noteq> 0" using b by (auto simp: init_ok_def)
  define m0 where "m0 = m\<lparr>mem_start := S, mem_size := Z, mem_avail := Z, mem_busy := 0, chunks_left := 0\<rparr>"
  define m1 where "m1 = fold (\<lambda>i m. MMap_Push_FreeChunk m i) [0..<n] m0"
  have "rep m0 [] []" using z by (simp add: m0_def rep_defs cleared_def)
  moreover have "set [0..<n] \<subseteq> {..<MMAP_MAX_ALLOCS}" using n(2) by auto
  ultimately have f: "rep m1 [] (rev [0..<n])" "acct m1 = acct m0"
    "\<And>k. byaddr_next (chunks m1 k) = byaddr_next (chunks m0 k)"
    "\<And>k. byaddr_prev (chunks m1 k) = byaddr_prev (chunks m0 k)"
    using fold_push [of m0 "[]" "[0..<n]"] by (auto simp: m1_def)
  define p where "p = n - 1"
  have nn: "rev [0..<n] = p # rev [0..<p]" using n(1) by (cases n) (simp_all add: p_def)
  have "rep m1 [] (p # rev [0..<p])" using f(1) nn by simp
  note pp = Pop_FreeChunk_rep [OF this]
  define m2 where "m2 = fst (MMap_Pop_FreeChunk m1)"
  have P: "MMap_Pop_FreeChunk m1 = (m2, Some p)" using pp(1) by (simp add: m2_def prod_eq_iff)
  have A2: "acct m2 = acct m0" using f(2) by (simp add: m2_def)
  define m3 where "m3 = (upd_chunk p (\<lambda>c. c\<lparr>c_size := Z\<rparr>) (upd_chunk p (\<lambda>c. c\<lparr>c_addr := S\<rparr>) m2))
    \<lparr>ByAddr_anchor := Some p\<rparr>"
  have r3: "rep m3 ([] @ p # []) (rev [0..<p])"
    unfolding m3_def append_Nil
    by (rule rep_single)
      (use pp(2-4) z n(2) f(3,4) in \<open>auto simp: m2_def Pop_FreeChunk_links m0_def cleared_def\<close>)
  have c3: "c_addr (chunks m3 p) = S" "c_size (chunks m3 p) = Z" by (simp_all add: m3_def)
  have eS: "even S" by (rule page_even [OF SZ(1)])
  have g3: "reg m3 p = Region (unat S) (unat Z) False" "\<not> is_free (chunks m3 p)" "c_base (chunks m3 p) = S"
    using c3 eS busy_base [of "chunks m3 p"] by (simp_all add: region_of_def is_free_odd)
  obtain m4 j where e: "MMapMgr_FreeMemory m3 p Z S = (m4, j)" by fastforce
  obtain xs' ys' fl' where 4: "rep m4 (xs' @ j # ys') fl'" "totals m4 = totals m3"
    "length xs' + length ys' + length fl' = length [] + length [] + length (rev [0..<p])"
    "regs m4 (xs' @ j # ys') = [Region (unat S) (unat Z) True]"
    by (rule FreeMemory_refines [OF r3 _ SZ(5,1) _ g3(2) SZ(1,3,4) _ _ e])
      (use SZ g3 c3(2) in \<open>auto simp: front_part_def back_part_def carve_def combine_def comb_prev_def simp del: map_append\<close>)
  have m': "m' = m4\<lparr>low_unmap := mem_start m4 + mem_size m4, high_unmap := mem_start m4\<rparr>"
    using b0 P e c3 acct_eqD(1,2) [OF A2]
    by (simp add: m'_def MMap_Init_pool_def Let_def m0_def m1_def m3_def flip: S_def Z_def)
  have g: "regs m' (xs' @ j # ys') = [Region (unat S) (unat Z) True]" using 4(4) by (simp add: m')
  have F: "mem_start m' = S" "mem_size m' = Z" "mem_avail m' = Z" "mem_busy m' = 0"
    using 4(2) acct_eqD [OF A2] by (simp_all add: m' totals_def m3_def m0_def)
  have W: "wf_mgr m' (xs' @ j # ys') fl'"
    using 4(1) SZ F unfolding wf_mgr_def g by (simp add: m' mem_end_def)
  moreover have "balanced m'"
    using F unfolding balanced_def wf_mgr_lists(3) [OF W] g by simp
  ultimately show ?thesis
    using g F 4(3) n(1) by (intro exI [of _ "xs' @ j # ys'"] exI [of _ fl']) (simp add: p_def S_def Z_def)
qed

end
