(* ===== verification/MmapFixed.thy ===== *)
theory MmapFixed
  imports MmapMalloc
begin

text \<open>
  Allocation at a fixed address, \<open>MMapMgr_Malloc_Addr\<close> and \<open>MMap_Malloc_Addr\<close> of
  \<^verbatim>\<open>cnk/src/mmap.c\<close>: the region that contains the request is split into at most three.
\<close>

section \<open>Carving out a fixed address\<close>

lemma Malloc_Addr_front_refines:
  assumes r: "rep m (xs @ i # ys) (t # fl)" and b: "is_free (chunks m i)"
    and a: "c_base (chunks m i) < addr" "even addr"
      "unat addr \<le> unat (c_base (chunks m i)) + unat (c_size (chunks m i))"
    and e: "Malloc_Addr_front m i addr = (m', err)"
  shows "\<not> err" "rep m' (xs @ t # i # ys) fl" "acct m' = acct m"
    "regs m' xs = regs m xs" "regs m' ys = regs m ys"
    "reg m' t = Region (unat (c_base (chunks m i))) (unat addr - unat (c_base (chunks m i))) True"
    "c_base (chunks m' i) = addr"
    "unat (c_size (chunks m' i)) = unat (c_base (chunks m i)) + unat (c_size (chunks m i)) - unat addr"
proof -
  note p = Pop_FreeChunk_rep [OF r]
  define m1 where "m1 = fst (MMap_Pop_FreeChunk m)"
  have p1: "MMap_Pop_FreeChunk m = (m1, Some t)" using p(1) by (simp add: m1_def prod_eq_iff)
  have d1: "c_addr (chunks m1 k) = c_addr (chunks m k)" "c_size (chunks m1 k) = c_size (chunks m k)"
    "c_base (chunks m1 k) = c_base (chunks m k)" for k
    by (simp_all add: m1_def c_base_def)
  have ti: "t \<noteq> i" and d: "distinct (xs @ t # i # ys)" using p(3) r by (auto simp: rep_def)
  define A where "A = c_base (chunks m i)"
  define M where "M = upd_chunk i (\<lambda>c. c\<lparr>c_size := c_size c - (addr - A)\<rparr>)
     (upd_chunk i (\<lambda>c. c\<lparr>c_addr := addr\<rparr>)
     (upd_chunk t (\<lambda>c. c\<lparr>c_size := addr - A\<rparr>) (upd_chunk t (\<lambda>c. c\<lparr>c_addr := c_addr (chunks m i)\<rparr>) m1)))"
  from e a(1) have m': "m' = MMapMgr_EnQByAddrBefore M t i" and err: "\<not> err"
    using ti by (auto simp: Malloc_Addr_front_def p1 M_def Let_def d1 A_def c_base_def)
  have "rep M (xs @ i # ys) fl" using p(2) by (simp add: M_def m1_def)
  then have R: "rep m' (xs @ t # i # ys) fl"
    unfolding m' using p(3,4) by (intro EnQByAddrBefore_rep) auto
  have sz: "unat (addr - A) = unat addr - unat A"
    using a(1) by (intro unat_sub_exact) (simp add: A_def word_less_nat_alt)
  show "\<not> err" "rep m' (xs @ t # i # ys) fl" "acct m' = acct m"
    using err R by (simp_all add: m' M_def m1_def)
  show "regs m' xs = regs m xs" "regs m' ys = regs m ys"
    using d by (auto simp: m' M_def region_defs d1)
  have "c_addr (chunks m' t) = c_addr (chunks m i)" "c_size (chunks m' t) = addr - A"
    using ti by (simp_all add: m' M_def)
  then show "reg m' t = Region (unat (c_base (chunks m i))) (unat addr - unat (c_base (chunks m i))) True"
    using b by (simp add: region_defs sz) (simp add: A_def c_base_def)
  have ai: "c_addr (chunks m' i) = addr" "c_size (chunks m' i) = c_size (chunks m i) - (addr - A)"
    using ti by (simp_all add: m' M_def d1)
  then show "c_base (chunks m' i) = addr"
    using a(2) busy_base [of "chunks m' i"] by (simp add: is_free_odd)
  show "unat (c_size (chunks m' i)) = unat (c_base (chunks m i)) + unat (c_size (chunks m i)) - unat addr"
    unfolding ai using a [folded A_def] sz
    by (subst unat_sub_exact) (auto simp: A_def word_less_nat_alt)
qed

text \<open>The region that contains \<open>[a, a + n)\<close>, with the regions on both sides of it.\<close>

fun containing :: "nat \<Rightarrow> nat \<Rightarrow> region list \<Rightarrow> (region list \<times> region \<times> region list) option" where
  "containing a n [] = None"
| "containing a n (r # rs) =
     (if reg_base r \<le> a \<and> a + n \<le> reg_end r then Some ([], r, rs)
      else (case containing a n rs of None \<Rightarrow> None | Some (us, q, vs) \<Rightarrow> Some (r # us, q, vs)))"

lemma containing_SomeD:
  "containing a n rs = Some (us, r, vs) \<Longrightarrow> rs = us @ r # vs \<and> reg_base r \<le> a \<and> a + n \<le> reg_end r"
  by (induction rs arbitrary: us) (auto split: if_splits option.splits)

lemma containing_unique:
  assumes "tiles lo (us @ r # vs) hi" "reg_base r \<le> a" "a + n \<le> reg_end r" "0 < n"
  shows "containing a n (us @ r # vs) = Some (us, r, vs)"
  using assms
proof (induction us arbitrary: lo)
  case (Cons q us)
  then have "reg_end q \<le> reg_base r" using tiles_mem(1) [of "reg_end q" "us @ r # vs" hi r] by auto
  with Cons show ?case by fastforce
qed simp

text \<open>The two tests of the walks, on addresses that do not wrap.\<close>

lemma exact_test:
  "c_base c = addr \<and> c_base c + c_size c - 1 = addr + rb - 1 \<longleftrightarrow> c_base c = addr \<and> c_size c = rb"
  by (auto simp: algebra_simps)

lemma unat_limit:
  assumes "0 < unat (s :: u64)" "unat b + unat s < 2 ^ 64"
  shows "unat (b + s - 1) = unat b + unat s - 1"
proof -
  have "unat (b + s) = unat b + unat s" using assms(2) by (intro unat_add_exact) simp
  then show ?thesis using assms(1) by (subst unat_sub_exact) auto
qed

lemma contain_test:
  assumes "0 < unat (c_size c)" "unat (c_base c) + unat (c_size c) < 2 ^ 64"
    "0 < unat rb" "unat addr + unat rb < 2 ^ 64"
  shows "c_base c \<le> addr \<and> c_base c + c_size c - 1 \<ge> addr + rb - 1 \<longleftrightarrow>
    reg_base (region_of c) \<le> unat addr \<and> unat addr + unat rb \<le> reg_end (region_of c)"
  using assms unat_limit [of "c_size c" "c_base c"] unat_limit [of rb addr]
  by (auto simp: word_le_nat_alt)

lemma containing_None:
  "\<forall>r\<in>set rs. \<not> (reg_base r \<le> a \<and> a + n \<le> reg_end r) \<Longrightarrow> containing a n rs = None"
  by (induction rs) auto

lemma MMapMgr_Malloc_Addr_exact:
  assumes w: "wf_mgr m xs fl" and n: "n \<notin> set (xs @ fl)" "n < MMAP_MAX_ALLOCS"
    and x: "xs = us @ i # vs" "c_base (chunks m i) = addr" "c_size (chunks m i) = rb"
    and e: "MMapMgr_CombineNeighbors (MMap_Push_FreeChunk
      (upd_chunk i (\<lambda>c. c\<lparr>c_addr := c_addr c AND NOT MMAPCHUNK_ADDR_FREE\<rparr>) m) n) i = (m', j)"
  shows "\<exists>xs' fl'. wf_mgr m' xs' fl' \<and> acct m' = acct m \<and>
    length xs' + length fl' = length xs + length fl + 1 \<and>
    regs m' xs' = (if is_free (chunks m i)
      then carve False (regs m us) (reg m i) (regs m vs) (unat addr) (unat rb) else regs m xs)"
proof -
  note D = wf_mgrD [OF w]
  define m1 where "m1 = MMap_Push_FreeChunk (upd_chunk i (\<lambda>c. c\<lparr>c_addr := c_addr c AND NOT MMAPCHUNK_ADDR_FREE\<rparr>) m) n"
  have r1: "rep m1 (us @ i # vs) (n # fl)"
    unfolding m1_def by (rule Push_FreeChunk_rep) (use D(1) n x(1) in auto)
  have d: "i \<notin> set us" "i \<notin> set vs" using D(1) x(1) by (auto simp: rep_def)
  have g: "regs m1 us = regs m us" "regs m1 vs = regs m vs"
    using d by (auto simp: m1_def region_defs)
  have A: "c_addr (chunks m1 i) = addr" "c_size (chunks m1 i) = rb" "even addr"
    using x base_even [of "chunks m i"] by (auto simp: m1_def c_base_def)
  then have gi: "reg m1 i = Region (unat addr) (unat rb) False"
    using busy_base [of "chunks m1 i"] by (simp add: region_of_def is_free_odd)
  have T: "tiles (unat (mem_start m)) (regs m us @ reg m i # regs m vs) (mem_end m)" using D(2) x(1) by simp
  moreover have "reg m i = Region (unat addr) (unat rb) (is_free (chunks m i))"
    using x by (simp add: region_of_def)
  ultimately have T1: "tiles (unat (mem_start m)) (regs m1 (us @ i # vs)) (mem_end m)"
    by (simp add: g gi del: map_eq_conv)
  obtain xs' fl' where 1: "rep m' xs' fl'" "acct m' = acct m1"
    "regs m' xs' = combine (regs m1 us) (reg m1 i) (regs m1 vs)"
    "length xs' + length fl' = length us + length vs + length (n # fl) + 1"
    by (rule CombineNeighbors_combine [OF r1 T1 D(6) e [folded m1_def]])
  have a1: "acct m' = acct m" using 1(2) by (simp add: m1_def)
  have c: "combine (regs m us) (Region (unat addr) (unat rb) False) (regs m vs) =
      (if is_free (chunks m i)
      then carve False (regs m us) (reg m i) (regs m vs) (unat addr) (unat rb) else regs m xs)"
  proof (cases "is_free (chunks m i)")
    case True
    then show ?thesis using x by (simp add: carve_def front_part_def back_part_def)
  next
    case False
    then have "Region (unat addr) (unat rb) False = reg m i" using x by (simp add: region_of_def)
    then show ?thesis using False D(3) x(1) by (simp add: combine_coalesced_id)
  qed
  have G: "regs m' xs' = (if is_free (chunks m i)
      then carve False (regs m us) (reg m i) (regs m vs) (unat addr) (unat rb) else regs m xs)"
    using 1(3) c by (simp add: g gi del: map_eq_conv)
  have "wf_mgr m' xs' fl'"
  proof (rule wf_mgr_change [OF w 1(1)])
    show "mem_start m' = mem_start m" "mem_size m' = mem_size m" using acct_eqD [OF a1] by auto
    show "tiles (unat (mem_start m)) (regs m' xs') (mem_end m)"
      unfolding 1(3) by (rule combine_tiles) (use T1 in simp)
    show "coalesced (regs m' xs')"
      unfolding 1(3) g by (rule combine_coalesced) (use D(3) x(1) in \<open>auto simp: coalesced_append\<close>)
  qed
  with a1 G 1(4) x(1) show ?thesis by (intro exI [of _ xs'] exI [of _ fl']) simp
qed

text \<open>A free chunk that contains the request: the front part, if any, takes a descriptor.\<close>

lemma Malloc_Addr_front_total:
  assumes r: "rep m (us @ i # vs) fl" and f: "is_free (chunks m i)" and ev: "even addr"
    and a: "unat (c_base (chunks m i)) \<le> unat addr"
      "unat addr \<le> unat (c_base (chunks m i)) + unat (c_size (chunks m i))"
    and e: "Malloc_Addr_front m i addr = (m1, err)"
  shows "err \<and> m1 = m \<and> fl = [] \<and> front_part (reg m i) (unat addr) \<noteq> [] \<or>
    \<not> err \<and> (\<exists>ps fl1. rep m1 (us @ ps @ i # vs) fl1 \<and> acct m1 = acct m \<and> set (ps @ fl1) \<subseteq> set fl \<and>
      length ps + length fl1 = length fl \<and> regs m1 us = regs m us \<and> regs m1 vs = regs m vs \<and>
      regs m1 ps = front_part (reg m i) (unat addr) \<and> c_base (chunks m1 i) = addr \<and>
      unat (c_size (chunks m1 i)) = reg_end (reg m i) - unat addr)"
proof (cases "c_base (chunks m i) < addr")
  case False
  then have "c_base (chunks m i) = addr" using a(1) by (simp add: word_less_nat_alt word_unat_eq_iff)
  with e r show ?thesis
    by (intro disjI2 conjI exI [of _ "[]"] exI [of _ fl]) (auto simp: Malloc_Addr_front_def front_part_def)
next
  case True
  then have fp: "front_part (reg m i) (unat addr) =
      [Region (unat (c_base (chunks m i))) (unat addr - unat (c_base (chunks m i))) True]"
    using f by (simp add: front_part_def word_less_nat_alt)
  show ?thesis
  proof (cases fl)
    case Nil
    with r e True fp show ?thesis by (simp add: Malloc_Addr_front_def Pop_FreeChunk_empty)
  next
    case (Cons t fl1)
    note g = Malloc_Addr_front_refines [OF r [unfolded Cons] f True ev a(2) e]
    show ?thesis
      by (intro disjI2 conjI exI [of _ "[t]"] exI [of _ fl1]) (use g fp Cons in \<open>auto simp del: map_eq_conv\<close>)
  qed
qed

lemma MMapMgr_Malloc_Addr_carve:
  assumes w: "wf_mgr m xs fl" and n: "n \<notin> set (xs @ fl)" "n < MMAP_MAX_ALLOCS"
    and x: "xs = us @ i # vs" "is_free (chunks m i)"
    and a: "4096 dvd unat addr" "4096 dvd unat rb" "0 < unat rb" "reg_base (reg m i) \<le> unat addr"
      "unat addr + unat rb \<le> reg_end (reg m i)"
    and r1: "rep m1 (us @ ps @ i # vs) fl1" "acct m1 = acct m" "set (ps @ fl1) \<subseteq> set fl"
      "length ps + length fl1 = length fl" "regs m1 us = regs m us" "regs m1 vs = regs m vs"
      "regs m1 ps = front_part (reg m i) (unat addr)" "c_base (chunks m1 i) = addr"
      "unat (c_size (chunks m1 i)) = reg_end (reg m i) - unat addr"
    and e: "MMapMgr_CombineNeighbors (take_chunk (split_chunk m1 i rb n) i) i = (m', j)"
  shows "\<exists>xs' fl'. wf_mgr m' xs' fl' \<and> length xs' + length fl' = length xs + length fl + 1 \<and>
    acct m' = acct (m\<lparr>mem_avail := mem_avail m - rb, mem_busy := mem_busy m + rb\<rparr>) \<and>
    regs m' xs' = carve False (regs m us) (reg m i) (regs m vs) (unat addr) (unat rb)"
proof -
  note D = wf_mgrD [OF w]
  have T: "tiles (unat (mem_start m)) (regs m us @ reg m i # regs m vs) (mem_end m)" using D(2) x(1) by simp
  have E: "reg_end (reg m i) \<le> mem_end m" using tiles_mem(2) [OF T, of "reg m i"] by simp
  have R: "rep m1 ((us @ ps) @ i # vs) fl1" using r1(1) by simp
  have N: "n \<notin> set ((us @ ps) @ i # vs @ fl1)" using n(1) x(1) r1(3) by auto
  have bp: "back_part (Region (unat (c_base (chunks m1 i))) (unat (c_size (chunks m1 i))) True)
      (unat (c_base (chunks m1 i)) + unat rb) = back_part (reg m i) (unat addr + unat rb)"
    using a(4,5) x(2) by (auto simp: back_part_def r1(8,9))
  have U: "tiles (unat (mem_start m)) (regs m1 (us @ ps) @ Region (unat (c_base (chunks m1 i))) (unat rb) False #
      back_part (reg m i) (unat addr + unat rb) @ regs m1 vs) (mem_end m)"
    using carve_uncombined_tiles [OF T D(5) a, of False]
    by (simp add: r1(5,6,7,8) del: tiles_append map_eq_conv)
  have S: "unat rb \<le> unat (c_size (chunks m1 i))"
    "unat (c_base (chunks m1 i)) + unat (c_size (chunks m1 i)) \<le> mem_end m"
    using a(4,5) E by (auto simp: r1(8,9))
  obtain xs' fl' where 1: "rep m' xs' fl'"
    "regs m' xs' = combine (regs m1 (us @ ps)) (Region (unat (c_base (chunks m1 i))) (unat rb) False)
        (back_part (reg m i) (unat addr + unat rb) @ regs m1 vs)"
    "acct m' = acct (m1\<lparr>mem_avail := mem_avail m1 - rb, mem_busy := mem_busy m1 + rb\<rparr>)"
    "length xs' + length fl' = length (us @ ps) + length vs + length fl1 + 2"
    by (rule allocate_refines [OF R N n(2) page_even [OF a(2)] S(1) _ D(6) S(2) e, unfolded bp, OF U])
  have G: "regs m' xs' = carve False (regs m us) (reg m i) (regs m vs) (unat addr) (unat rb)"
    unfolding 1(2) carve_def by (simp add: r1(5,6,7,8) del: map_eq_conv)
  have A: "acct m' = acct (m\<lparr>mem_avail := mem_avail m - rb, mem_busy := mem_busy m + rb\<rparr>)"
    using 1(3) r1(2) by (simp add: acct_def)
  have "wf_mgr m' xs' fl'"
  proof (rule wf_mgr_change [OF w 1(1)])
    show "mem_start m' = mem_start m" "mem_size m' = mem_size m" using A by (auto simp: acct_def)
    show "tiles (unat (mem_start m)) (regs m' xs') (mem_end m)"
      unfolding G by (rule carve_tiles [OF T D(5) a])
    show "coalesced (regs m' xs')"
      unfolding G by (rule carve_coalesced) (use D(3) x(1) in simp)
  qed
  with A G 1(4) r1(4) x(1) show ?thesis by (intro exI [of _ xs'] exI [of _ fl']) simp
qed

text \<open>
  The whole routine. The two columns of the last case are what the code does to the totals: it
  moves \<open>rb\<close> bytes from free to busy, except when the request is a whole free chunk. The
  descriptor \<open>n\<close> is lost when the pool is empty and a front part is needed.
\<close>

definition no_descriptor :: "nat list \<Rightarrow> region \<Rightarrow> nat \<Rightarrow> bool" where
  "no_descriptor fl r a \<longleftrightarrow> fl = [] \<and> front_part r a \<noteq> []"

lemma MMapMgr_Malloc_Addr_refines:
  assumes w: "wf_mgr m xs fl" and n: "n \<notin> set (xs @ fl)" "n < MMAP_MAX_ALLOCS"
    and a: "4096 dvd unat addr" "4096 dvd unat rb" "0 < unat rb" "unat addr + unat rb < 2 ^ 64"
  shows "\<exists>m' a' xs' fl'. MMapMgr_Malloc_Addr m rb n addr = Some (m', a') \<and> wf_mgr m' xs' fl' \<and>
    (case containing (unat addr) (unat rb) (regs m xs) of
       None \<Rightarrow> a' = 0 \<and> regs m' xs' = regs m xs \<and> acct m' = acct m \<and>
         length xs' + length fl' = length xs + length fl + 1
     | Some (us, r, vs) \<Rightarrow>
         if \<not> reg_free r then a' = addr \<and> regs m' xs' = regs m xs \<and> acct m' = acct m \<and>
           length xs' + length fl' = length xs + length fl + 1
         else if no_descriptor fl r (unat addr) then a' = 0 \<and> regs m' xs' = regs m xs \<and> acct m' = acct m \<and>
           length xs' + length fl' = length xs + length fl
         else a' = addr \<and> regs m' xs' = carve False us r vs (unat addr) (unat rb) \<and>
           length xs' + length fl' = length xs + length fl + 1 \<and>
           acct m' = acct (if reg_len r = unat rb then m
             else m\<lparr>mem_avail := mem_avail m - rb, mem_busy := mem_busy m + rb\<rparr>))"
proof -
  note D = wf_mgrD [OF w]
  note push = wf_mgr_Push [OF w n]
  define P where "P = (\<lambda>i. c_base (chunks m i) = addr \<and> c_size (chunks m i) = rb)"
  define Q where "Q = (\<lambda>i. reg_base (reg m i) \<le> unat addr \<and> unat addr + unat rb \<le> reg_end (reg m i))"
  have f1: "find_chunk (\<lambda>c. c_base c = addr \<and> c_base c + c_size c - 1 = addr + rb - 1) m (ByAddr_anchor m) =
      Some (find P xs)"
    by (simp only: find_chunk_rep [OF D(1)] P_def exact_test)
  have tm: "0 < unat (c_size (chunks m i))" "unat (c_base (chunks m i)) + unat (c_size (chunks m i)) < 2 ^ 64"
    if "i \<in> set xs" for i
    using tiles_mem [OF D(2), of "reg m i"] that D(6) by auto
  have f2: "find_chunk (\<lambda>c. c_base c \<le> addr \<and> c_base c + c_size c - 1 \<ge> addr + rb - 1) m (ByAddr_anchor m) =
      Some (find Q xs)"
    unfolding find_chunk_rep [OF D(1)] Q_def
    by (intro arg_cong [of _ _ Some] find_cong refl contain_test tm a)
  note df = MMapMgr_Malloc_Addr_def [of m rb n addr, unfolded Let_def f1 f2]
  show ?thesis
  proof (cases "find P xs")
    case (Some i)
    then obtain us vs where x: "xs = us @ i # vs" "P i" by (rule find_split)
    obtain m' j where e: "MMapMgr_CombineNeighbors (MMap_Push_FreeChunk
      (upd_chunk i (\<lambda>c. c\<lparr>c_addr := c_addr c AND NOT MMAPCHUNK_ADDR_FREE\<rparr>) m) n) i = (m', j)" by fastforce
    have c: "containing (unat addr) (unat rb) (regs m xs) = Some (regs m us, reg m i, regs m vs)"
      using D(2) x a unfolding x(1) map_append list.map
      by (intro containing_unique) (auto simp: P_def simp del: tiles_append)
    have l: "reg_len (reg m i) = unat rb" "\<not> no_descriptor fl (reg m i) (unat addr)"
      using x(2) by (auto simp: P_def no_descriptor_def front_part_def)
    have "MMapMgr_Malloc_Addr m rb n addr = Some (m', addr)"
      by (simp add: df Some e)
    moreover have "c_base (chunks m i) = addr" "c_size (chunks m i) = rb" using x(2) by (auto simp: P_def)
    note MMapMgr_Malloc_Addr_exact [OF w n x(1) this e]
    ultimately show ?thesis using c l by (cases "is_free (chunks m i)") (auto simp del: map_eq_conv)
  next
    case None
    note P = this
    show ?thesis
    proof (cases "find Q xs")
      case None
      then have "containing (unat addr) (unat rb) (regs m xs) = None"
        by (intro containing_None) (auto simp: find_None_iff Q_def)
      with push P None show ?thesis
        by (auto simp: df simp del: map_eq_conv)
    next
      case (Some i)
      then obtain us vs where x: "xs = us @ i # vs" "Q i" by (rule find_split)
      then have q: "reg_base (reg m i) \<le> unat addr" "unat addr + unat rb \<le> reg_end (reg m i)"
        by (auto simp: Q_def)
      have c: "containing (unat addr) (unat rb) (regs m xs) = Some (regs m us, reg m i, regs m vs)"
        using D(2) q a unfolding x(1) map_append list.map
        by (intro containing_unique) (auto simp del: tiles_append)
      show ?thesis
      proof (cases "is_free (chunks m i)")
        case False
        with push P Some c show ?thesis
          by (auto simp: df simp del: map_eq_conv)
      next
        case True
        obtain m1 err where e1: "Malloc_Addr_front m i addr = (m1, err)" by fastforce
        obtain m' j where e: "MMapMgr_CombineNeighbors (take_chunk (split_chunk m1 i rb n) i) i = (m', j)"
          by fastforce
        have R: "rep m (us @ i # vs) fl" using D(1) x(1) by simp
        have ns: "reg_len (reg m i) \<noteq> unat rb"
        proof
          assume "reg_len (reg m i) = unat rb"
          then have "P i" using q by (simp add: P_def word_unat_eq_iff)
          with P x(1) show False by (auto simp: find_None_iff)
        qed
        have E: "MMapMgr_Malloc_Addr m rb n addr = (if err then Some (m1, 0) else Some (m', addr))"
          using P Some True e1 e by (simp add: df)
        have q': "unat (c_base (chunks m i)) \<le> unat addr"
          "unat addr \<le> unat (c_base (chunks m i)) + unat (c_size (chunks m i))" using q by auto
        from Malloc_Addr_front_total [OF R True page_even [OF a(1)] q' e1] show ?thesis
        proof (elim disjE conjE exE)
          assume "err" "m1 = m" "fl = []" "front_part (reg m i) (unat addr) \<noteq> []"
          with E w c True show ?thesis
            by (intro exI [of _ m] exI [of _ 0] exI [of _ xs] exI [of _ fl])
              (simp add: no_descriptor_def del: map_eq_conv)
        next
          fix ps fl1
          assume "\<not> err" and 1: "rep m1 (us @ ps @ i # vs) fl1" "acct m1 = acct m" "set (ps @ fl1) \<subseteq> set fl"
            "length ps + length fl1 = length fl" "regs m1 us = regs m us" "regs m1 vs = regs m vs"
            "regs m1 ps = front_part (reg m i) (unat addr)" "c_base (chunks m1 i) = addr"
            "unat (c_size (chunks m1 i)) = reg_end (reg m i) - unat addr"
          have "\<not> no_descriptor fl (reg m i) (unat addr)" using 1(4,7) by (auto simp: no_descriptor_def)
          with MMapMgr_Malloc_Addr_carve [OF w n x(1) True a(1-3) q 1 e] E c True ns \<open>\<not> err\<close> show ?thesis
            by (auto simp del: map_eq_conv)
        qed
      qed
    qed
  qed
qed

end
