(* ===== verification/MmapFree.thy ===== *)
theory MmapFree
  imports MmapFixed
begin

text \<open>
  \<open>MMap_Free\<close> of \<^verbatim>\<open>cnk/src/mmap.c\<close>: the walk ends, it frees the request in the one region
  that contains it, and the high mark it leaves is the end of the highest busy region.
\<close>

section \<open>The highest busy address of a list of regions\<close>

fun busy_top :: "nat \<Rightarrow> region list \<Rightarrow> nat" where
  "busy_top lo [] = lo"
| "busy_top lo (r # rs) = busy_top (if reg_free r then lo else max lo (reg_end r)) rs"

lemma busy_top_append: "busy_top lo (xs @ ys) = busy_top (busy_top lo xs) ys"
  by (induction xs arbitrary: lo) auto

lemma busy_top_ge: "lo \<le> busy_top lo rs"
proof (induction rs arbitrary: lo)
  case (Cons r rs)
  show ?case using Cons.IH [of lo] Cons.IH [of "max lo (reg_end r)"] by auto
qed simp

text \<open>The first test of the loop body after a successful free: the chunk before the freed one.\<close>

lemma busy_top_freed:
  fixes a n :: nat
  assumes c: "coalesced (us @ r # vs)" and b: "\<not> reg_free r"
  defines "ws \<equiv> fst (comb_prev (us @ front_part r a) (Region a n True))"
  shows "(if ws = [] then busy_top lo us else max (busy_top lo us) (reg_end (last ws))) = busy_top lo ws"
proof (cases "front_part r a = []")
  case False
  then have ws: "ws = us @ front_part r a" and fp: "front_part r a = [Region (reg_base r) (a - reg_base r) False]"
    using b by (auto simp: ws_def comb_prev_def front_part_def split: if_splits)
  show ?thesis unfolding ws fp by (simp add: busy_top_append)
next
  case True
  show ?thesis
  proof (cases us rule: rev_cases)
    case Nil
    with True show ?thesis by (simp add: ws_def comb_prev_def)
  next
    case (snoc zs q)
    with c b have q: "reg_free q" "coalesced (zs @ [q])" by (auto simp: coalesced_append)
    with snoc True have ws: "ws = zs" by (simp add: ws_def comb_prev_def)
    show ?thesis
    proof (cases zs rule: rev_cases)
      case (snoc ys p)
      with q have "\<not> reg_free p" by (auto simp: coalesced_append)
      with snoc \<open>us = zs @ [q]\<close> q ws show ?thesis by (simp add: busy_top_append)
    qed (use ws snoc q in simp)
  qed
qed

section \<open>The walk\<close>

definition tally :: "u64 \<Rightarrow> MMapChunk \<Rightarrow> u64" where
  "tally hi c = (if is_free c then hi else max_mark hi c)"

lemma unat_max_mark: "unat (max_mark hi c) = max (unat hi) (unat (c_addr c + c_size c))"
  by (auto simp: max_mark_def Let_def word_less_nat_alt)

lemma unat_tally:
  assumes "unat (c_base c) + unat (c_size c) < 2 ^ 64"
  shows "unat (tally hi c) = (if is_free c then unat hi else max (unat hi) (reg_end (region_of c)))"
  using assms unat_add_exact [of "c_base c" "c_size c"] by (auto simp: tally_def unat_max_mark busy_base)

lemma fold_tally:
  assumes "\<forall>i\<in>set xs. unat (c_base (chunks m i)) + unat (c_size (chunks m i)) < 2 ^ 64"
  shows "unat (fold (\<lambda>i hi. tally hi (chunks m i)) xs hi) = busy_top (unat hi) (regs m xs)"
  using assms by (induction xs arbitrary: hi) (simp_all add: unat_tally)

definition free_test :: "u64 \<Rightarrow> u64 \<Rightarrow> MMapChunk \<Rightarrow> bool" where
  "free_test addr rlimit c \<longleftrightarrow> addr \<ge> c_base c \<and> rlimit \<le> c_base c + c_size c - 1"

lemma MMap_Free_step_skip:
  "\<not> free_test addr rlimit (chunks m i) \<Longrightarrow>
   MMap_Free_step addr rb rlimit m i hi = (m, i, tally hi (chunks m i))"
  by (auto simp: MMap_Free_step_def free_test_def tally_def Let_def)

lemma MMap_Free_loop_skip:
  assumes "lnk (chunks m) q us p" "\<forall>i\<in>set us. \<not> free_test addr rlimit (chunks m i)"
  shows "MMap_Free_loop addr rb rlimit m (hdp us p) hi =
    MMap_Free_loop addr rb rlimit m p (fold (\<lambda>i hi. tally hi (chunks m i)) us hi)"
  using assms
proof (induction us arbitrary: q hi)
  case (Cons i us)
  then show ?case
    by (subst MMap_Free_loop.simps) (auto simp: MMap_Free_step_skip)
qed simp

lemma MMap_Free_loop_end: "MMap_Free_loop addr rb rlimit m None hi = Some (m, hi)"
  by (subst MMap_Free_loop.simps) simp

text \<open>The test of the loop is that the chunk contains the request, rounded up to pages.\<close>

lemma round_up_contained:
  assumes "4096 dvd (a :: nat)" "4096 dvd e" "0 < n"
  shows "a + n \<le> e \<longleftrightarrow> a + (n + 4095) div 4096 * 4096 \<le> e"
proof -
  define q where "q = (n + 4095) div 4096"
  have "n + 4095 = q * 4096 + (n + 4095) mod 4096" "(n + 4095) mod 4096 < 4096"
    unfolding q_def by (rule div_mult_mod_eq [symmetric]) simp
  then have up: "n \<le> q * 4096" by linarith
  have dn: "q \<le> d" if "n \<le> 4096 * d" for d
  proof -
    have "q \<le> (4096 * d + 4095) div 4096" unfolding q_def using that by (intro div_le_mono) simp
    then show ?thesis by simp
  qed
  from assms obtain k l where kl: "a = 4096 * k" "e = 4096 * l" by (elim dvdE)
  have "4096 * k + n \<le> 4096 * l \<longleftrightarrow> 4096 * k + q * 4096 \<le> 4096 * l"
  proof
    assume "4096 * k + n \<le> 4096 * l"
    then have "n \<le> 4096 * (l - k)" "k \<le> l" by (simp_all add: diff_mult_distrib2)
    with dn [of "l - k"] show "4096 * k + q * 4096 \<le> 4096 * l" by linarith
  qed (use up in linarith)
  then show ?thesis unfolding q_def [symmetric] kl .
qed

lemma free_test_iff:
  assumes t: "tiles lo rs hi" "4096 dvd lo" "hi < 2 ^ 64" "region_of c \<in> set rs"
    and a: "4096 dvd unat addr" "0 < len" "unat len + 4095 < 2 ^ 64" "unat addr + unat (MMAP_ROUND_UP len) < 2 ^ 64"
  shows "free_test addr (addr + len - 1) c \<longleftrightarrow>
    reg_base (region_of c) \<le> unat addr \<and> unat addr + unat (MMAP_ROUND_UP len) \<le> reg_end (region_of c)"
proof -
  note m = tiles_mem [OF t(1,4)]
  have l: "0 < unat len" using a(2) by (simp add: word_less_nat_alt)
  have "unat addr + unat len < 2 ^ 64" using a(4) MMAP_ROUND_UP_facts(3) [OF a(2,3)] by simp
  then have "free_test addr (addr + len - 1) c \<longleftrightarrow>
    reg_base (region_of c) \<le> unat addr \<and> unat addr + unat len \<le> reg_end (region_of c)"
    unfolding free_test_def by (subst contain_test [symmetric]) (use m t(3) l in auto)
  also have "unat addr + unat len \<le> reg_end (region_of c) \<longleftrightarrow>
      unat addr + unat (MMAP_ROUND_UP len) \<le> reg_end (region_of c)"
    unfolding unat_MMAP_ROUND_UP [OF a(3)]
    by (rule round_up_contained) (use m t(2) a(1) l in \<open>auto intro: dvd_add\<close>)
  finally show ?thesis .
qed

section \<open>The chunk that contains the request\<close>

text \<open>The region of the chunk that a free returns has a unique place in the list.\<close>

lemma comb_next_Cons: obtains q qs where "comb_next r ys = q # qs"
  by (cases "comb_next r ys"; cases ys) (auto split: if_splits)

lemma place_unique:
  assumes "tiles lo (xs @ r # ys) hi" "xs @ r # ys = us @ q # vs" "0 < n"
    "reg_base r \<le> a" "a + n \<le> reg_end r" "reg_base q \<le> a" "a + n \<le> reg_end q"
  shows "xs = us" "r = q" "ys = vs"
proof -
  have "tiles lo (us @ q # vs) hi" using assms(1) unfolding assms(2) .
  from containing_unique [OF this assms(6,7,3)] containing_unique [OF assms(1,4,5,3)]
  show "xs = us" "r = q" "ys = vs" unfolding assms(2) by simp_all
qed

definition enough_descriptors :: "nat list \<Rightarrow> region \<Rightarrow> nat \<Rightarrow> nat \<Rightarrow> bool" where
  "enough_descriptors fl r a n \<longleftrightarrow> length (front_part r a) + length (back_part r (a + n)) \<le> length fl"

text \<open>The free of the request in the chunk \<open>i\<close>, with the totals that the loop adjusts before.\<close>

lemma FreeMemory_hit:
  assumes w: "wf_mgr m (us @ i # vs) fl" and b: "\<not> is_free (chunks m i)"
    and a: "4096 dvd unat addr" "4096 dvd unat rb" "0 < unat rb"
      "reg_base (reg m i) \<le> unat addr" "unat addr + unat rb \<le> reg_end (reg m i)"
    and e: "MMapMgr_FreeMemory (m\<lparr>mem_avail := mem_avail m + rb, mem_busy := mem_busy m - rb\<rparr>) i rb addr = (m', j)"
  obtains ws ys fl' where "wf_mgr m' (ws @ j # ys) fl'"
    "length ws + length ys + length fl' = length us + length vs + length fl"
    "regs m' ws = (if enough_descriptors fl (reg m i) (unat addr) (unat rb)
       then fst (comb_prev (regs m us @ front_part (reg m i) (unat addr)) (Region (unat addr) (unat rb) True))
       else regs m us)"
    "is_free (chunks m' j) = enough_descriptors fl (reg m i) (unat addr) (unat rb)"
    "\<not> enough_descriptors fl (reg m i) (unat addr) (unat rb) \<longrightarrow> reg m' j = reg m i"
    "regs m' (ws @ j # ys) = (if enough_descriptors fl (reg m i) (unat addr) (unat rb)
       then carve True (regs m us) (reg m i) (regs m vs) (unat addr) (unat rb) else regs m (us @ i # vs))"
    "reg_base (reg m' j) \<le> unat addr" "unat addr + unat rb \<le> reg_end (reg m' j)"
    "mem_start m' = mem_start m" "mem_size m' = mem_size m" "mem_avail m' = mem_avail m + rb" "mem_busy m' = mem_busy m - rb"
proof -
  define m0 where "m0 = m\<lparr>mem_avail := mem_avail m + rb, mem_busy := mem_busy m - rb\<rparr>"
  note D = wf_mgrD [OF w]
  have R: "rep m0 (us @ i # vs) fl" using D(1) by (simp add: m0_def)
  have g0: "chunks m0 = chunks m" by (simp add: m0_def)
  obtain ws ys fl' where 1: "rep m' (ws @ j # ys) fl'" "totals m' = totals m0"
    "length ws + length ys + length fl' = length us + length vs + length fl"
    "regs m' (ws @ j # ys) = (if enough_descriptors fl (reg m i) (unat addr) (unat rb)
       then carve True (regs m us) (reg m i) (regs m vs) (unat addr) (unat rb) else regs m (us @ i # vs))"
    "reg_base (reg m' j) \<le> unat addr" "unat addr + unat rb \<le> reg_end (reg m' j)"
    using FreeMemory_refines [OF R _ D(6,5) _ _ a(1-3) _ _ e [folded m0_def]] D(2,3) b a(4,5)
    unfolding g0 enough_descriptors_def by simp blast
  have T: "tiles (unat (mem_start m)) (regs m us @ reg m i # regs m vs) (mem_end m)"
    and C: "coalesced (regs m us @ reg m i # regs m vs)" using D(2,3) by simp_all
  have W: "wf_mgr m' (ws @ j # ys) fl'"
  proof (rule wf_mgr_change [OF w 1(1)])
    show "mem_start m' = mem_start m" "mem_size m' = mem_size m" using 1(2) by (auto simp: totals_def m0_def)
    show "tiles (unat (mem_start m)) (regs m' (ws @ j # ys)) (mem_end m)"
      unfolding 1(4) using carve_tiles [OF T D(5) a] D(2) by simp
    show "coalesced (regs m' (ws @ j # ys))"
      unfolding 1(4) using carve_coalesced [OF C] D(3) by simp
  qed
  let ?E = "enough_descriptors fl (reg m i) (unat addr) (unat rb)"
  let ?cp = "comb_prev (regs m us @ front_part (reg m i) (unat addr)) (Region (unat addr) (unat rb) True)"
  have T': "tiles (unat (mem_start m')) (regs m' ws @ reg m' j # regs m' ys) (mem_end m')"
    using wf_mgrD(2) [OF W] by simp
  have P: "regs m' ws = (if ?E then fst ?cp else regs m us) \<and> is_free (chunks m' j) = ?E \<and>
    (\<not> ?E \<longrightarrow> reg m' j = reg m i)"
  proof (cases ?E)
    case True
    obtain q qs where q: "comb_next (snd ?cp) (back_part (reg m i) (unat addr + unat rb) @ regs m vs) = q # qs"
      by (rule comb_next_Cons)
    note cov = combine_covers [OF carve_uncombined_tiles [OF T D(5) a] q]
    have "regs m' ws @ reg m' j # regs m' ys = fst ?cp @ q # qs"
      using 1(4) True q by (simp add: carve_def combine_def case_prod_beta)
    note pl = place_unique [OF T' this a(3) 1(5,6)]
    have "regs m' ws = fst ?cp" "reg m' j = q" using pl cov(1,2) by simp_all
    with cov(3) True show ?thesis by (metis region.sel(3) region_of_sel(3))
  next
    case False
    then have "regs m' ws @ reg m' j # regs m' ys = regs m us @ reg m i # regs m vs" using 1(4) by simp
    note pl = place_unique [OF T' this a(3) 1(5,6) a(4,5)]
    then show ?thesis using False b by (metis region_of_sel(3))
  qed
  show thesis
    by (rule that [OF W 1(3) _ _ _ 1(4,5,6)]) (use P 1(2) in \<open>auto simp: totals_def m0_def\<close>)
qed

lemma rep_prev:
  "rep m (ws @ j # ys) fl \<Longrightarrow> byaddr_prev (chunks m j) = lastp ws None \<and> byaddr_next (chunks m j) = hdp ys None"
  by (auto simp: rep_defs)

lemma wf_no_overflow:
  assumes "wf_mgr m xs fl" "i \<in> set xs"
  shows "unat (c_base (chunks m i)) + unat (c_size (chunks m i)) < 2 ^ 64" "0 < unat (c_size (chunks m i))"
  using tiles_mem [OF wf_mgrD(2) [OF assms(1)], of "reg m i"] wf_mgrD(6) [OF assms(1)] assms(2) by auto

text \<open>The mark after the chunk that contains the request.\<close>

lemma mark_after_hit:
  assumes w: "wf_mgr m (us @ i # vs) fl" and b: "\<not> is_free (chunks m i)"
    and W: "wf_mgr m' (ws @ j # ys) fl'"
    and g: "regs m' ws = (if E
       then fst (comb_prev (regs m us @ front_part (reg m i) a) (Region a n True)) else regs m us)"
      "is_free (chunks m' j) = E" "\<not> E \<longrightarrow> reg m' j = reg m i"
    and h: "unat hi = busy_top lo (regs m us)"
  shows "unat (tally (case byaddr_prev (chunks m' j) of None \<Rightarrow> hi | Some p \<Rightarrow> max_mark hi (chunks m' p)) (chunks m' j)) =
    busy_top lo (regs m' (ws @ [j]))"
proof -
  note D = wf_mgrD [OF W]
  have C: "coalesced (regs m us @ reg m i # regs m vs)" using wf_mgrD(3) [OF w] by simp
  define h1 where "h1 = (case byaddr_prev (chunks m' j) of None \<Rightarrow> hi | Some p \<Rightarrow> max_mark hi (chunks m' p))"
  have oj: "unat (c_base (chunks m' j)) + unat (c_size (chunks m' j)) < 2 ^ 64"
    using wf_no_overflow [OF W, of j] by simp
  have h1: "unat h1 = (if ws = [] then unat hi else max (unat hi) (unat (c_addr (chunks m' (last ws)) + c_size (chunks m' (last ws)))))"
    using rep_prev [OF D(1)] by (simp add: h1_def lastp_def unat_max_mark)
  have "unat (tally h1 (chunks m' j)) = busy_top lo (regs m' (ws @ [j]))"
  proof (cases E)
    case True
    have x: "regs m' ws = fst (comb_prev (regs m us @ front_part (reg m i) a) (Region a n True))"
      using g(1) True by simp
    have "unat h1 = (if ws = [] then busy_top lo (regs m us) else max (busy_top lo (regs m us)) (reg_end (last (regs m' ws))))"
    proof (cases ws rule: rev_cases)
      case (snoc zs p)
      have "\<not> is_free (chunks m' p)" using D(3) g(2) True snoc by (auto simp: coalesced_append)
      moreover have "unat (c_base (chunks m' p)) + unat (c_size (chunks m' p)) < 2 ^ 64"
        using wf_no_overflow [OF W, of p] snoc by simp
      ultimately show ?thesis
        using snoc h h1 unat_add_exact [of "c_base (chunks m' p)" "c_size (chunks m' p)"] by (simp add: busy_base)
    qed (use h h1 in simp)
    also have "\<dots> = busy_top lo (regs m' ws)"
      using busy_top_freed [OF C, of a n lo, folded x] b by simp
    finally show ?thesis using g(2) True by (simp add: tally_def busy_top_append)
  next
    case False
    have "unat h1 = (if ws = [] then unat hi else max (unat hi) (reg_end (last (regs m' ws)) + 1))
       \<and> (ws \<noteq> [] \<longrightarrow> reg_end (last (regs m' ws)) = reg_base (reg m' j))"
    proof (cases ws rule: rev_cases)
      case (snoc zs p)
      have f: "is_free (chunks m' p)" using D(3) g(2) False snoc by (auto simp: coalesced_append)
      have e: "reg_end (reg m' p) = reg_base (reg m' j)" using D(2) snoc by auto
      have "unat (c_addr (chunks m' p) + c_size (chunks m' p)) = reg_end (reg m' p) + 1"
      proof -
        have "unat (c_base (chunks m' p) + c_size (chunks m' p)) = reg_end (reg m' p)"
          using wf_no_overflow [OF W, of p] snoc by (simp add: unat_add_exact)
        moreover have "reg_end (reg m' p) + 1 < 2 ^ 64" using e oj wf_no_overflow(2) [OF W, of j] by simp
        ultimately have "unat (c_base (chunks m' p) + c_size (chunks m' p) + 1) = reg_end (reg m' p) + 1"
          by (subst unat_add_exact) auto
        then show ?thesis using addr_flag [of "chunks m' p"] f by (simp add: algebra_simps)
      qed
      with snoc h1 e show ?thesis by simp
    qed (use h1 in simp)
    then have "max (unat h1) (reg_end (reg m' j)) = max (unat hi) (reg_end (reg m' j))"
      using wf_no_overflow(2) [OF W, of j] by (auto split: if_splits)
    then show ?thesis
      using g h b False unat_tally [OF oj] by (simp add: busy_top_append del: map_eq_conv)
  qed
  then show ?thesis by (simp add: h1_def)
qed

section \<open>\<open>MMap_Free\<close>\<close>

lemma MMap_Free_loop_none:
  assumes r: "lnk (chunks m) q ys None" and n: "\<forall>k\<in>set ys. \<not> free_test addr rlimit (chunks m k)"
  shows "MMap_Free_loop addr rb rlimit m (hdp ys None) hi =
    Some (m, fold (\<lambda>i hi. tally hi (chunks m i)) ys hi)"
  using MMap_Free_loop_skip [OF r n] by (simp add: MMap_Free_loop_end)

lemma MMap_Free_step_hit:
  assumes "free_test addr rlimit (chunks m i)"
    "MMapMgr_FreeMemory (m\<lparr>mem_avail := mem_avail m + rb, mem_busy := mem_busy m - rb\<rparr>) i rb addr = (m', j)"
  shows "MMap_Free_step addr rb rlimit m i hi = (m', j,
    tally (case byaddr_prev (chunks m' j) of None \<Rightarrow> hi | Some p \<Rightarrow> max_mark hi (chunks m' p)) (chunks m' j))"
  using assms by (simp add: MMap_Free_step_def free_test_def tally_def Let_def)

text \<open>What a request to free has to satisfy: whole addresses and no wrap-around.\<close>

definition unmap_ok :: "u64 \<Rightarrow> u64 \<Rightarrow> bool" where
  "unmap_ok addr len \<longleftrightarrow> 4096 dvd unat addr \<and> 0 < len \<and> unat len + 4095 < 2 ^ 64 \<and>
     unat addr + unat (MMAP_ROUND_UP len) < 2 ^ 64"

lemma unmap_okD:
  assumes "unmap_ok addr len"
  shows "4096 dvd unat addr" "0 < len" "unat len + 4095 < 2 ^ 64"
    "unat addr + unat (MMAP_ROUND_UP len) < 2 ^ 64" "4096 dvd unat (MMAP_ROUND_UP len)" "0 < unat (MMAP_ROUND_UP len)"
  using assms MMAP_ROUND_UP_facts [of len] by (auto simp: unmap_ok_def)

lemma MMap_Free_outside:
  assumes w: "wf_mgr m xs fl" and u: "unmap_ok addr len"
    and c: "containing (unat addr) (unat (MMAP_ROUND_UP len)) (regs m xs) = None"
  shows "\<exists>m' hi. MMap_Free m addr len = Some (m', hi) \<and> wf_mgr m' xs fl \<and> regs m' xs = regs m xs \<and>
    acct m' = acct (m\<lparr>high_mark := hi\<rparr>) \<and> unat hi = busy_top (unat (mem_start m)) (regs m xs)"
proof -
  note D = wf_mgrD [OF w]
  have n: "\<forall>k\<in>set xs. \<not> free_test addr (addr + len - 1) (chunks m k)"
  proof
    fix k assume k: "k \<in> set xs"
    then obtain us vs where x: "xs = us @ k # vs" by (auto dest: split_list)
    show "\<not> free_test addr (addr + len - 1) (chunks m k)"
    proof
      assume "free_test addr (addr + len - 1) (chunks m k)"
      then have "reg_base (reg m k) \<le> unat addr" "unat addr + unat (MMAP_ROUND_UP len) \<le> reg_end (reg m k)"
        using free_test_iff [OF D(2,5,6) _ unmap_okD(1-4) [OF u], of "chunks m k"] k by auto
      with containing_unique [of "unat (mem_start m)" "regs m us" "reg m k" "regs m vs"] D(2) c
        unmap_okD(6) [OF u] show False by (auto simp: x simp del: tiles_append)
    qed
  qed
  define hi where "hi = fold (\<lambda>i hi. tally hi (chunks m i)) xs (mem_start m)"
  have "MMap_Free_loop addr (MMAP_ROUND_UP len) (addr + len - 1) m (ByAddr_anchor m) (mem_start m) = Some (m, hi)"
    using MMap_Free_loop_none [OF _ n, of None] D(1) by (simp add: hi_def rep_defs)
  moreover have "unat hi = busy_top (unat (mem_start m)) (regs m xs)"
    unfolding hi_def using wf_no_overflow(1) [OF w] by (intro fold_tally) auto
  ultimately show ?thesis
    using w by (intro exI [of _ "m\<lparr>high_mark := hi\<rparr>"] exI [of _ hi]) (auto simp: MMap_Free_def wf_mgr_def mem_end_def)
qed

lemma tiles_others:
  assumes "tiles lo (us @ r # vs) hi" "reg_base r \<le> a" "a + n \<le> reg_end r" "0 < n"
  shows "\<forall>q\<in>set us. reg_end q < a + n" "\<forall>q\<in>set vs. a < reg_base q"
proof -
  from assms(1) have "tiles lo us (reg_base r)" "tiles (reg_end r) vs hi" by auto
  then show "\<forall>q\<in>set us. reg_end q < a + n" "\<forall>q\<in>set vs. a < reg_base q"
    using assms(2-4) tiles_mem(1,2) by fastforce+
qed

text \<open>
  A request inside a busy region: it is freed when there are descriptors for the remaining
  parts, and the regions stay as they are otherwise. The totals are adjusted in both cases.
\<close>

lemma MMap_Free_inside:
  assumes w: "wf_mgr m xs fl" and u: "unmap_ok addr len"
    and c: "containing (unat addr) (unat (MMAP_ROUND_UP len)) (regs m xs) = Some (us, r, vs)" "\<not> reg_free r"
  defines "rb \<equiv> MMAP_ROUND_UP len"
  shows "\<exists>m' hi xs' fl'. MMap_Free m addr len = Some (m', hi) \<and> wf_mgr m' xs' fl' \<and>
    length xs' + length fl' = length xs + length fl \<and> high_mark m' = hi \<and>
    unat hi = busy_top (unat (mem_start m)) (regs m' xs') \<and>
    mem_start m' = mem_start m \<and> mem_size m' = mem_size m \<and>
    mem_avail m' = mem_avail m + rb \<and> mem_busy m' = mem_busy m - rb \<and>
    regs m' xs' = (if enough_descriptors fl r (unat addr) (unat rb)
      then carve True us r vs (unat addr) (unat rb) else regs m xs)"
proof -
  note D = wf_mgrD [OF w] and U = unmap_okD [OF u, folded rb_def]
  note cd = containing_SomeD [OF c(1)]
  from cd obtain is1 i is2 where x: "xs = is1 @ i # is2" "us = regs m is1" "r = reg m i" "vs = regs m is2"
    by (auto simp: map_eq_append_conv)
  have a: "reg_base (reg m i) \<le> unat addr" "unat addr + unat rb \<le> reg_end (reg m i)"
    using cd x by (auto simp: rb_def)
  have ti: "free_test addr (addr + len - 1) (chunks m k) \<longleftrightarrow>
      reg_base (reg m k) \<le> unat addr \<and> unat addr + unat rb \<le> reg_end (reg m k)" if "k \<in> set xs" for k
    unfolding rb_def by (rule free_test_iff [OF D(2,5,6) _ unmap_okD(1-4) [OF u]]) (use that in auto)
  obtain m' j where e: "MMapMgr_FreeMemory (m\<lparr>mem_avail := mem_avail m + rb, mem_busy := mem_busy m - rb\<rparr>) i rb addr = (m', j)"
    by fastforce
  have b: "\<not> is_free (chunks m i)" using c(2) x by simp
  obtain ws ys fl' where F: "wf_mgr m' (ws @ j # ys) fl'"
    "length ws + length ys + length fl' = length is1 + length is2 + length fl"
    "regs m' ws = (if enough_descriptors fl (reg m i) (unat addr) (unat rb)
       then fst (comb_prev (regs m is1 @ front_part (reg m i) (unat addr)) (Region (unat addr) (unat rb) True))
       else regs m is1)"
    "is_free (chunks m' j) = enough_descriptors fl (reg m i) (unat addr) (unat rb)"
    "\<not> enough_descriptors fl (reg m i) (unat addr) (unat rb) \<longrightarrow> reg m' j = reg m i"
    "regs m' (ws @ j # ys) = (if enough_descriptors fl (reg m i) (unat addr) (unat rb)
       then carve True (regs m is1) (reg m i) (regs m is2) (unat addr) (unat rb) else regs m (is1 @ i # is2))"
    "reg_base (reg m' j) \<le> unat addr" "unat addr + unat rb \<le> reg_end (reg m' j)"
    "mem_start m' = mem_start m" "mem_size m' = mem_size m" "mem_avail m' = mem_avail m + rb" "mem_busy m' = mem_busy m - rb"
    by (rule FreeMemory_hit [OF w [unfolded x(1)] b U(1,5,6) a e])
  define h1 where "h1 = fold (\<lambda>i hi. tally hi (chunks m i)) is1 (mem_start m)"
  have H1: "unat h1 = busy_top (unat (mem_start m)) (regs m is1)"
    unfolding h1_def using wf_no_overflow(1) [OF w] x(1) by (intro fold_tally) auto
  define h2 where "h2 = tally (case byaddr_prev (chunks m' j) of None \<Rightarrow> h1 | Some p \<Rightarrow> max_mark h1 (chunks m' p)) (chunks m' j)"
  have H2: "unat h2 = busy_top (unat (mem_start m)) (regs m' (ws @ [j]))"
    unfolding h2_def by (rule mark_after_hit [OF w [unfolded x(1)] b F(1,3,4,5) H1])
  define h3 where "h3 = fold (\<lambda>i hi. tally hi (chunks m' i)) ys h2"
  have "unat h3 = busy_top (unat h2) (regs m' ys)"
    unfolding h3_def using wf_no_overflow(1) [OF F(1)] by (intro fold_tally) auto
  then have H3: "unat h3 = busy_top (unat (mem_start m)) (regs m' (ws @ j # ys))"
    using H2 by (simp add: busy_top_append)
  have pre: "\<forall>k\<in>set is1. \<not> free_test addr (addr + len - 1) (chunks m k)"
    using tiles_others(1) [OF wf_mgrD(2) [OF w, unfolded x(1) map_append list.map] a U(6)] ti x(1) by fastforce
  have post: "\<forall>k\<in>set ys. \<not> free_test addr (addr + len - 1) (chunks m' k)"
    using tiles_others(2) [OF wf_mgrD(2) [OF F(1), unfolded map_append list.map] F(7,8) U(6)]
    by (fastforce simp: free_test_def word_le_nat_alt)
  have L: "lnk (chunks m) None is1 (Some i)" "ByAddr_anchor m = hdp is1 (Some i)"
    using D(1) x(1) by (auto simp: rep_defs hdp_append)
  have L': "lnk (chunks m') (Some j) ys None" "byaddr_next (chunks m' j) = hdp ys None"
    using wf_mgrD(1) [OF F(1)] by (auto simp: rep_defs)
  have "free_test addr (addr + len - 1) (chunks m i)" using ti x(1) a by simp
  note st = MMap_Free_step_hit [OF this e, of h1, folded h2_def]
  have "MMap_Free_loop addr rb (addr + len - 1) m (ByAddr_anchor m) (mem_start m) = Some (m', h3)"
    unfolding L(2) MMap_Free_loop_skip [OF L(1) pre] h1_def [symmetric]
    by (subst MMap_Free_loop.simps)
      (simp add: st L'(2) MMap_Free_loop_none [OF L'(1) post] h3_def)
  then have "MMap_Free m addr len = Some (m'\<lparr>high_mark := h3\<rparr>, h3)"
    by (simp add: MMap_Free_def rb_def)
  moreover have "wf_mgr (m'\<lparr>high_mark := h3\<rparr>) (ws @ j # ys) fl'"
    using F(1) by (simp add: wf_mgr_def mem_end_def)
  ultimately show ?thesis
    using F H3 x
    by (intro exI [of _ "m'\<lparr>high_mark := h3\<rparr>"] exI [of _ h3] exI [of _ "ws @ j # ys"] exI [of _ fl'])
      (simp del: map_eq_conv)
qed

end
