(* ===== verification/MmapSpec.thy ===== *)
theory MmapSpec
  imports MmapInit MmapFree
begin

text \<open>
  The contract of the mmap manager. The locale \<open>page_allocator\<close> is what a client of
  \<^verbatim>\<open>cnk/src/mmap.c\<close> relies on: a set of free addresses that allocation takes spans from
  and release returns them to. Its lemmas show that live allocations never overlap; its
  interpretation on \<open>MMap_Malloc\<close> and \<open>MMap_Free\<close> discharges the laws by the refinement.
\<close>

section \<open>The interface\<close>

text \<open>The addresses of an allocation of \<open>n\<close> bytes at \<open>a\<close>, in whole pages.\<close>

definition span :: "u64 \<Rightarrow> u64 \<Rightarrow> nat set" where
  "span a n = {unat a..<unat a + unat (MMAP_ROUND_UP n)}"

definition len_ok :: "u64 \<Rightarrow> bool" where
  "len_ok n \<longleftrightarrow> 0 < n \<and> unat n + 4095 < 2 ^ 64"

text \<open>A list of allocations of which no two overlap.\<close>

fun apart :: "(u64 \<times> u64) list \<Rightarrow> bool" where
  "apart [] \<longleftrightarrow> True"
| "apart (x # L) \<longleftrightarrow> (\<forall>y\<in>set L. span (fst x) (snd x) \<inter> span (fst y) (snd y) = {}) \<and> apart L"

lemma apart_middle:
  "apart (L1 @ x # L2) \<longleftrightarrow>
     apart (L1 @ L2) \<and> (\<forall>y\<in>set (L1 @ L2). span (fst x) (snd x) \<inter> span (fst y) (snd y) = {})"
  by (induction L1) auto

locale page_allocator =
  fixes inv :: "'s \<Rightarrow> bool"
    and avail :: "'s \<Rightarrow> nat set"
    and range :: "'s \<Rightarrow> nat set"
    and alloc :: "'g \<Rightarrow> 's \<Rightarrow> u64 \<Rightarrow> ('s \<times> u64) option"
    and release :: "'s \<Rightarrow> u64 \<Rightarrow> u64 \<Rightarrow> ('s \<times> u64) option"
  assumes avail_range: "inv s \<Longrightarrow> avail s \<subseteq> range s"
    and alloc_law: "inv s \<Longrightarrow> len_ok n \<Longrightarrow> \<exists>s' a. alloc g s n = Some (s', a) \<and> inv s' \<and> range s' = range s \<and>
      (if a = 0 then avail s' = avail s
       else 4096 dvd unat a \<and> span a n \<subseteq> avail s \<and> avail s' = avail s - span a n)"
    and release_law: "inv s \<Longrightarrow> len_ok n \<Longrightarrow> 4096 dvd unat a \<Longrightarrow> span a n \<subseteq> range s \<Longrightarrow>
      span a n \<inter> avail s = {} \<Longrightarrow> \<exists>s' h. release s a n = Some (s', h) \<and> inv s' \<and> range s' = range s \<and>
      (avail s' = avail s \<or> avail s' = avail s \<union> span a n)"
begin

text \<open>The allocations that a client holds: inside the range, not free, and apart from each other.\<close>

definition held :: "'s \<Rightarrow> (u64 \<times> u64) list \<Rightarrow> bool" where
  "held s L \<longleftrightarrow> inv s \<and> apart L \<and>
     (\<forall>x\<in>set L. len_ok (snd x) \<and> 4096 dvd unat (fst x) \<and>
        span (fst x) (snd x) \<subseteq> range s \<and> span (fst x) (snd x) \<inter> avail s = {})"

lemma held_alloc:
  assumes h: "held s L" and n: "len_ok n" and e: "alloc g s n = Some (s', a)"
  shows "held s' (if a = 0 then L else (a, n) # L)"
proof -
  from h have i: "inv s" by (simp add: held_def)
  from alloc_law [OF i n, of g] e have l: "inv s'" "range s' = range s"
    "if a = 0 then avail s' = avail s
     else 4096 dvd unat a \<and> span a n \<subseteq> avail s \<and> avail s' = avail s - span a n"
    by auto
  show ?thesis
  proof (cases "a = 0")
    case True
    then show ?thesis using h l by (simp add: held_def)
  next
    case False
    then show ?thesis using h l n avail_range [OF i] by (fastforce simp: held_def)
  qed
qed

lemma held_release:
  assumes h: "held s (L1 @ (a, n) # L2)"
  shows "\<exists>s' k. release s a n = Some (s', k) \<and> held s' (L1 @ L2)"
proof -
  from h have i: "inv s" and x: "len_ok n" "4096 dvd unat a" "span a n \<subseteq> range s" "span a n \<inter> avail s = {}"
    by (auto simp: held_def)
  from release_law [OF i x] obtain s' k where l: "release s a n = Some (s', k)" "inv s'" "range s' = range s"
    "avail s' = avail s \<or> avail s' = avail s \<union> span a n" by auto
  have "\<forall>y\<in>set (L1 @ L2). span a n \<inter> span (fst y) (snd y) = {}" "apart (L1 @ L2)"
    using h by (simp_all add: held_def apart_middle)
  moreover have "\<forall>y\<in>set (L1 @ L2). len_ok (snd y) \<and> 4096 dvd unat (fst y) \<and>
      span (fst y) (snd y) \<subseteq> range s \<and> span (fst y) (snd y) \<inter> avail s = {}"
    using h by (simp add: held_def)
  ultimately have "held s' (L1 @ L2)" unfolding held_def l(3) using l(2,4) by blast
  with l(1) show ?thesis by blast
qed

end

section \<open>The mmap manager is such an allocator\<close>

definition mmap_range :: "MmapMgr \<Rightarrow> nat set" where
  "mmap_range m = {unat (mem_start m)..<mem_end m}"

text \<open>A busy stretch of addresses lies in one region, because neighbours are merged.\<close>

lemma busy_stretch_contained:
  assumes "tiles lo rs hi" "coalesced rs" "0 < n" "{a..<a + n} \<subseteq> {lo..<hi}" "{a..<a + n} \<inter> free_addrs rs = {}"
  shows "\<exists>us r vs. containing a n rs = Some (us, r, vs) \<and> \<not> reg_free r"
  using assms
proof (induction rs arbitrary: lo)
  case (Cons r rs)
  then have t: "tiles (reg_end r) rs hi" and lo: "reg_base r = lo" by auto
  have a: "lo \<le> a" "a < hi" using Cons.prems(3,4) by force+
  show ?case
  proof (cases "a < reg_end r")
    case True
    with a lo have "a \<in> reg_addrs r" by (simp add: reg_addrs_def)
    with Cons.prems have b: "\<not> reg_free r" by force
    have "a + n \<le> reg_end r"
    proof (rule ccontr)
      assume "\<not> a + n \<le> reg_end r"
      with True have e: "reg_end r \<in> {a..<a + n}" by simp
      with Cons.prems(4) have "reg_end r < hi" by auto
      with t obtain q qs where q: "rs = q # qs" by (cases rs) auto
      with Cons.prems(1,2) b have "reg_free q" "reg_end r \<in> reg_addrs q"
        by (auto simp: reg_addrs_def)
      with q e Cons.prems(5) show False by auto
    qed
    with a lo b show ?thesis by simp
  next
    case False
    have "\<exists>us r vs. containing a n rs = Some (us, r, vs) \<and> \<not> reg_free r"
      by (rule Cons.IH [OF t]) (use Cons.prems False in auto)
    with False Cons.prems(3) show ?thesis by auto
  qed
qed auto

lemma mmap_invE:
  assumes "mmap_inv m"
  obtains xs fl where "wf_mgr m xs fl" "regions m = regs m xs" "pool_list m = fl"
  using assms by (auto simp: mmap_inv_def regions_def)

lemma mmap_alloc_law:
  assumes i: "mmap_inv m" and n: "len_ok n"
  shows "\<exists>m' a. MMap_Malloc g m n = Some (m', a) \<and> mmap_inv m' \<and> mmap_range m' = mmap_range m \<and>
    (if a = 0 then free_addrs (regions m') = free_addrs (regions m)
     else 4096 dvd unat a \<and> span a n \<subseteq> free_addrs (regions m) \<and>
       free_addrs (regions m') = free_addrs (regions m) - span a n)"
proof -
  from i obtain xs fl where w: "wf_mgr m xs fl" and g0: "regions m = regs m xs" by (rule mmap_invE)
  note nn = n [unfolded len_ok_def]
  let ?rb = "MMAP_ROUND_UP n"
  note rf = MMAP_ROUND_UP_facts [of n]
  from MMap_Malloc_refines [OF w, of n g] nn
  obtain m' a xs' fl' where 1: "MMap_Malloc g m n = Some (m', a)" "wf_mgr m' xs' fl'"
    "mem_start m' = mem_start m" "mem_size m' = mem_size m" and
    2: "if malloc_grant g m ?rb
     then (case the (first_fit (unat ?rb) (regs m xs)) of (us, r, vs) \<Rightarrow>
       unat a = reg_base r \<and> regs m' xs' = carve False us r vs (reg_base r) (unat ?rb))
     else a = 0 \<and> regs m' xs' = regs m xs" by auto
  have g1: "regions m' = regs m' xs'" "mmap_inv m'" using wf_mgr_lists(3) [OF 1(2)] wf_mgr_inv [OF 1(2)] by auto
  have R: "mmap_range m' = mmap_range m" using 1(3,4) by (simp add: mmap_range_def mem_end_def)
  show ?thesis
  proof (cases "malloc_grant g m ?rb")
    case False
    with 1(1) 2 g0 g1 R show ?thesis by (auto simp del: map_eq_conv)
  next
    case True
    then obtain us r vs where f: "first_fit (unat ?rb) (regs m xs) = Some (us, r, vs)"
      by (auto simp: malloc_grant_def g0 split: option.splits)
    note c = first_fit_carve [OF f wf_mgrD(2,5) [OF w], of] 
    have a: "unat a = reg_base r" "regs m' xs' = carve False us r vs (reg_base r) (unat ?rb)"
      using True 2 f by auto
    have "a \<noteq> 0" using a(1) c(5) rf nn wf_mgrD(4) [OF w] by auto
    then show ?thesis using 1(1) g0 g1 R a c rf nn by (auto simp: span_def simp del: map_eq_conv)
  qed
qed

lemma mmap_release_law:
  assumes i: "mmap_inv m" and n: "len_ok n" "4096 dvd unat a" "span a n \<subseteq> mmap_range m"
    "span a n \<inter> free_addrs (regions m) = {}"
  shows "\<exists>m' h. MMap_Free m a n = Some (m', h) \<and> mmap_inv m' \<and> mmap_range m' = mmap_range m \<and>
    (free_addrs (regions m') = free_addrs (regions m) \<or>
     free_addrs (regions m') = free_addrs (regions m) \<union> span a n)"
proof -
  from i obtain xs fl where w: "wf_mgr m xs fl" and g0: "regions m = regs m xs" by (rule mmap_invE)
  note D = wf_mgrD [OF w]
  let ?rb = "MMAP_ROUND_UP n"
  note rf = MMAP_ROUND_UP_facts [of n]
  have p: "0 < unat ?rb" "4096 dvd unat ?rb" using rf n(1) by (auto simp: len_ok_def)
  have "unat a + unat ?rb \<le> mem_end m" using n(3) p(1) by (force simp: span_def mmap_range_def)
  then have u: "unmap_ok a n" using n(1,2) D(6) by (simp add: unmap_ok_def len_ok_def)
  from busy_stretch_contained [OF D(2,3) p(1), of "unat a"] n(3,4) g0
  obtain us r vs where c: "containing (unat a) (unat ?rb) (regs m xs) = Some (us, r, vs)" "\<not> reg_free r"
    by (auto simp: span_def mmap_range_def)
  note cd = containing_SomeD [OF c(1)]
  from MMap_Free_inside [OF w u c] obtain m' hi xs' fl' where 1: "MMap_Free m a n = Some (m', hi)"
    "wf_mgr m' xs' fl'" "mem_start m' = mem_start m" "mem_size m' = mem_size m"
    "regs m' xs' = (if enough_descriptors fl r (unat a) (unat ?rb)
      then carve True us r vs (unat a) (unat ?rb) else regs m xs)" by blast
  have g1: "regions m' = regs m' xs'" "mmap_inv m'" using wf_mgr_lists(3) [OF 1(2)] wf_mgr_inv [OF 1(2)] by auto
  have "free_addrs (carve True us r vs (unat a) (unat ?rb)) = free_addrs (us @ r # vs) \<union> {unat a..<unat a + unat ?rb}"
    by (rule carve_free(1)) (use D(2,5) cd n(2) p c(2) in auto)
  then show ?thesis
    using 1 g0 g1 cd by (auto simp: mmap_range_def mem_end_def span_def simp del: map_eq_conv free_addrs_simps)
qed

interpretation mm: page_allocator mmap_inv "\<lambda>m. free_addrs (regions m)" mmap_range MMap_Malloc MMap_Free
proof
  show "free_addrs (regions m) \<subseteq> mmap_range m" if "mmap_inv m" for m
    using free_addrs_bounds [OF regions_tiles [OF that]] by (simp add: mmap_range_def)
qed (use mmap_alloc_law mmap_release_law in blast)+

text \<open>The accounting, when \<open>n\<close> bytes move back to the free side.\<close>

lemma balanced_back:
  assumes b: "balanced m" and n: "free_sum (regions m') = free_sum (regions m) + unat n"
    and a: "mem_size m' = mem_size m" "mem_avail m' = mem_avail m + n" "mem_busy m' = mem_busy m - n"
    and le: "free_sum (regions m') \<le> unat (mem_size m)"
  shows "balanced m'"
proof -
  have "unat (mem_size m) < 2 ^ 64" using unsigned_less [of "mem_size m"] by simp
  then have "unat (mem_avail m + n) = unat (mem_avail m) + unat n"
    "unat (mem_busy m - n) = unat (mem_busy m) - unat n"
    using b n le unfolding balanced_def by (simp_all add: unat_add_exact unat_sub_exact)
  then show ?thesis using b n le by (auto simp: balanced_def a)
qed

lemma free_sum_le_size: "mmap_inv m \<Longrightarrow> free_sum (regions m) \<le> unat (mem_size m)"
proof -
  assume i: "mmap_inv m"
  note t = regions_tiles [OF i]
  have "card (free_addrs (regions m)) \<le> card {unat (mem_start m)..<mem_end m}"
    by (rule card_mono) (use free_addrs_bounds [OF t] in auto)
  with free_sum_card [OF t] show ?thesis by (simp add: mem_end_def)
qed

section \<open>A small manager for examples\<close>

text \<open>Four pages of 0x110000 - 0x100000 are busy, the rest is free, and two descriptors are spare.\<close>

definition demo_chunk :: "ptr \<Rightarrow> ptr \<Rightarrow> ptr \<Rightarrow> u64 \<Rightarrow> u64 \<Rightarrow> MMapChunk" where
  "demo_chunk nx bn bp a s = \<lparr>c_next = nx, c_prev = None, byaddr_next = bn, byaddr_prev = bp, c_addr = a, c_size = s\<rparr>"

definition demo_mgr :: MmapMgr where
  "demo_mgr = \<lparr>mem_start = 0x100000, mem_size = 0x10000, mem_avail = 0xC000, mem_busy = 0x4000, chunks_left = 2,
     high_mark = 0x104000, high_mark_max = 0x104000, low_unmap = 0x110000, high_unmap = 0x100000,
     FreeChunk_anchor = Some 2, ByAddr_anchor = Some 0,
     chunks = (\<lambda>i. if i = 0 then demo_chunk None (Some 1) None 0x100000 0x4000
       else if i = 1 then demo_chunk None None (Some 0) 0x104001 0xC000
       else if i = 2 then demo_chunk (Some 3) None None 0 0
       else demo_chunk None None None 0 0)\<rparr>"

lemma demo_wf:
  "wf_mgr demo_mgr [0, 1] [2, 3]"
  "regs demo_mgr [0, 1] = [Region 0x100000 0x4000 False, Region 0x104000 0xC000 True]"
proof -
  have c: "c_base (chunks demo_mgr 0) = 0x100000" "c_base (chunks demo_mgr 1) = 0x104000" 
    "\<not> is_free (chunks demo_mgr 0)" "is_free (chunks demo_mgr 1)" 
    by (simp_all add: demo_mgr_def demo_chunk_def c_base_def is_free_def MMAPCHUNK_ADDR_FREE_def)
  show g: "regs demo_mgr [0, 1] = [Region 0x100000 0x4000 False, Region 0x104000 0xC000 True]"
    using c by (simp add: region_of_def) (simp add: demo_mgr_def demo_chunk_def)
  have "rep demo_mgr [0, 1] [2, 3]" by (simp add: rep_defs demo_mgr_def demo_chunk_def MMAP_MAX_ALLOCS_def)
  then show "wf_mgr demo_mgr [0, 1] [2, 3]" unfolding wf_mgr_def g
    by (simp add: mem_end_def) (simp add: demo_mgr_def dvd_def)
qed

lemma demo_facts:
  "mmap_inv demo_mgr" "regions demo_mgr = [Region 0x100000 0x4000 False, Region 0x104000 0xC000 True]"
  "pool_list demo_mgr = [2, 3]" "balanced demo_mgr" "mem_start demo_mgr = 0x100000" "mem_size demo_mgr = 0x10000"
  "mem_avail demo_mgr = 0xC000"
proof -
  show "mmap_inv demo_mgr" by (rule wf_mgr_inv [OF demo_wf(1)])
  show r: "regions demo_mgr = [Region 0x100000 0x4000 False, Region 0x104000 0xC000 True]"
    using wf_mgr_lists(3) [OF demo_wf(1)] demo_wf(2) by simp
  show "pool_list demo_mgr = [2, 3]" by (rule wf_mgr_lists(2) [OF demo_wf(1)])
  show "balanced demo_mgr" unfolding balanced_def r by (simp add: demo_mgr_def)
qed (simp_all add: demo_mgr_def)

definition demo_guard :: GuardView where
  "demo_guard = \<lparr>Guard_Enable = True, Guard_Start = 0x120000, Guard_Size = 0x1000, leader_r1 = 0x200000\<rparr>"

section \<open>Properties\<close>

text \<open>C2: \<open>MMap_Malloc\<close> on a well-formed manager returns. The request is granted exactly when the
  free total is large enough, a descriptor is left, and the first region that fits does not push
  the guard into the leader's stack; then the address is the base of that region, the pages were
  free and are the only ones taken. Otherwise NULL is returned and the regions are as before. The
  invariant and the accounting are kept.\<close>

theorem MMap_Malloc_correct:
  assumes "mmap_inv m" "len_ok bytes"
  shows "\<exists>m' a. MMap_Malloc g m bytes = Some (m', a) \<and> mmap_inv m' \<and> (balanced m \<longrightarrow> balanced m') \<and>
    (if malloc_grant g m (MMAP_ROUND_UP bytes)
     then a \<noteq> 0 \<and> (\<exists>us r vs. first_fit (unat (MMAP_ROUND_UP bytes)) (regions m) = Some (us, r, vs) \<and> unat a = reg_base r) \<and>
       span a bytes \<subseteq> free_addrs (regions m) \<and> free_addrs (regions m') = free_addrs (regions m) - span a bytes
     else a = 0 \<and> regions m' = regions m)"
proof -
  from assms(1) obtain xs fl where w: "wf_mgr m xs fl" and g0: "regions m = regs m xs" by (rule mmap_invE)
  from MMap_Malloc_refines [OF w, of bytes g] assms(2)
  obtain m' a xs' fl' where 1: "MMap_Malloc g m bytes = Some (m', a)" "wf_mgr m' xs' fl'" "balanced m \<longrightarrow> balanced m'"
    "if malloc_grant g m (MMAP_ROUND_UP bytes)
     then (case the (first_fit (unat (MMAP_ROUND_UP bytes)) (regs m xs)) of (us, r, vs) \<Rightarrow>
       unat a = reg_base r \<and> regs m' xs' = carve False us r vs (reg_base r) (unat (MMAP_ROUND_UP bytes)))
     else a = 0 \<and> regs m' xs' = regs m xs" by (auto simp: len_ok_def)
  from mmap_alloc_law [OF assms, of g] 1(1) have l: "mmap_inv m'" "a = 0 \<or> span a bytes \<subseteq> free_addrs (regions m) \<and>
       free_addrs (regions m') = free_addrs (regions m) - span a bytes" by (auto split: if_splits)
  have gr: "a \<noteq> 0 \<and> (\<exists>us r vs. first_fit (unat (MMAP_ROUND_UP bytes)) (regions m) = Some (us, r, vs) \<and> unat a = reg_base r)"
    if "malloc_grant g m (MMAP_ROUND_UP bytes)"
  proof -
    from that obtain us r vs where f: "first_fit (unat (MMAP_ROUND_UP bytes)) (regs m xs) = Some (us, r, vs)"
      by (auto simp: malloc_grant_def g0 split: option.splits)
    with 1(4) that have "unat a = reg_base r" by simp
    moreover have "0 < reg_base r"
      using tiles_mem(1) [OF wf_mgrD(2) [OF w], of r] first_fit_SomeD [OF f] wf_mgrD(4) [OF w] by auto
    ultimately show ?thesis using f g0 by auto
  qed
  show ?thesis
    by (intro exI [of _ m'] exI [of _ a]) (use 1 l gr g0 wf_mgr_lists(3) [OF 1(2)] in auto)
qed

theorem MMap_Malloc_correct_witness:
  "mmap_inv demo_mgr \<and> len_ok 8000 \<and> malloc_grant demo_guard demo_mgr (MMAP_ROUND_UP 8000) \<and>
   (\<exists>m' a. MMap_Malloc demo_guard demo_mgr 8000 = Some (m', a) \<and> unat a = 0x104000)"
proof -
  have rb: "MMAP_ROUND_UP 8000 = 8192" by code_simp
  have ok: "len_ok 8000" by (simp add: len_ok_def)
  have gr: "malloc_grant demo_guard demo_mgr (MMAP_ROUND_UP 8000)"
    unfolding malloc_grant_def rb demo_facts by (simp add: guard_conflict_def demo_guard_def)
  show ?thesis
    using MMap_Malloc_correct [OF demo_facts(1) ok, of demo_guard] gr ok demo_facts(1)
    unfolding rb demo_facts(2) by auto
qed

text \<open>C3: \<open>MMap_Free\<close> of pages inside a busy region returns. With descriptors for the parts that
  stay busy, exactly these pages become free and the region is split and merged accordingly;
  without, no region changes. The invariant is kept.\<close>

theorem MMap_Free_correct:
  assumes "mmap_inv m" "unmap_ok addr len"
    "containing (unat addr) (unat (MMAP_ROUND_UP len)) (regions m) = Some (us, r, vs)" "\<not> reg_free r"
  shows "\<exists>m' hi. MMap_Free m addr len = Some (m', hi) \<and> mmap_inv m' \<and>
    (if enough_descriptors (pool_list m) r (unat addr) (unat (MMAP_ROUND_UP len))
     then regions m' = carve True us r vs (unat addr) (unat (MMAP_ROUND_UP len)) \<and>
       free_addrs (regions m') = free_addrs (regions m) \<union> span addr len \<and> (balanced m \<longrightarrow> balanced m')
     else regions m' = regions m)"
proof -
  from assms(1) obtain xs fl where w: "wf_mgr m xs fl" and g0: "regions m = regs m xs" "pool_list m = fl"
    by (rule mmap_invE)
  let ?rb = "MMAP_ROUND_UP len"
  note U = unmap_okD [OF assms(2)]
  from MMap_Free_inside [OF w assms(2) assms(3) [unfolded g0] assms(4)]
  obtain m' hi xs' fl' where 1: "MMap_Free m addr len = Some (m', hi)" "wf_mgr m' xs' fl'"
    "mem_size m' = mem_size m" "mem_avail m' = mem_avail m + ?rb" "mem_busy m' = mem_busy m - ?rb"
    "regs m' xs' = (if enough_descriptors fl r (unat addr) (unat ?rb)
      then carve True us r vs (unat addr) (unat ?rb) else regs m xs)" by blast
  have g1: "regions m' = regs m' xs'" by (rule wf_mgr_lists(3) [OF 1(2)])
  note cd = containing_SomeD [OF assms(3)]
  have T: "tiles (unat (mem_start m)) (us @ r # vs) (mem_end m)" using regions_tiles [OF assms(1)] cd by simp
  note cf = carve_free [OF T wf_mgrD(5) [OF w] U(1,5,6) _ _ assms(4)]
  have B: "balanced m'" if "enough_descriptors fl r (unat addr) (unat ?rb)" "balanced m"
    by (rule balanced_back [OF that(2) _ 1(3-5)])
      (use that cf(2) cd 1(3,6) g1 free_sum_le_size [OF wf_mgr_inv [OF 1(2)]] in simp_all)
  show ?thesis
    by (intro exI [of _ m'] exI [of _ hi])
      (use 1(1,6) B cf(1) cd g0 g1 wf_mgr_inv [OF 1(2)] in \<open>auto simp: span_def simp del: free_addrs_simps\<close>)
qed

theorem MMap_Free_correct_witness:
  "\<exists>m' hi. mmap_inv demo_mgr \<and> unmap_ok 0x101000 5000 \<and>
   MMap_Free demo_mgr 0x101000 5000 = Some (m', hi) \<and>
   regions m' = [Region 0x100000 0x1000 False, Region 0x101000 0x2000 True, Region 0x103000 0x1000 False,
     Region 0x104000 0xC000 True]"
proof -
  have rb: "MMAP_ROUND_UP 5000 = 8192" by code_simp
  have ok: "unmap_ok 0x101000 5000" by (simp add: unmap_ok_def rb dvd_def)
  have c: "containing (unat (0x101000 :: u64)) (unat (MMAP_ROUND_UP 5000)) (regions demo_mgr) =
      Some ([], Region 0x100000 0x4000 False, [Region 0x104000 0xC000 True])"
    unfolding rb demo_facts by simp
  show ?thesis
    using MMap_Free_correct [OF demo_facts(1) ok c] ok demo_facts(1)
    unfolding rb demo_facts(3)
    by (simp add: enough_descriptors_def front_part_def back_part_def carve_def combine_def comb_prev_def) blast
qed

text \<open>C5: the high mark that \<open>MMap_Free\<close> stores, and hands to \<open>Guard_Adjust\<close>, is the end of the
  highest busy region that remains, or the start of the range when none does; this holds for a
  request in a busy region and for one outside the regions, which changes no region.\<close>

theorem MMap_Free_high_mark:
  assumes "mmap_inv m" "unmap_ok addr len"
    "case containing (unat addr) (unat (MMAP_ROUND_UP len)) (regions m) of
       None \<Rightarrow> True | Some (us, r, vs) \<Rightarrow> \<not> reg_free r"
  shows "\<exists>m' hi. MMap_Free m addr len = Some (m', hi) \<and> mmap_inv m' \<and> high_mark m' = hi \<and>
    unat hi = busy_top (unat (mem_start m)) (regions m')"
proof -
  from assms(1) obtain xs fl where w: "wf_mgr m xs fl" and g0: "regions m = regs m xs" by (rule mmap_invE)
  show ?thesis
  proof (cases "containing (unat addr) (unat (MMAP_ROUND_UP len)) (regs m xs)")
    case None
    from MMap_Free_outside [OF w assms(2) None] obtain m' hi where 1: "MMap_Free m addr len = Some (m', hi)"
      "wf_mgr m' xs fl" "regs m' xs = regs m xs" "acct m' = acct (m\<lparr>high_mark := hi\<rparr>)"
      "unat hi = busy_top (unat (mem_start m)) (regs m xs)" by blast
    then show ?thesis
      using wf_mgr_inv [OF 1(2)] wf_mgr_lists(3) [OF 1(2)] by (simp add: acct_def del: map_eq_conv)
  next
    case (Some c)
    obtain us r vs where c: "c = (us, r, vs)" by (cases c)
    with assms(3) Some g0 have b: "\<not> reg_free r" by simp
    from MMap_Free_inside [OF w assms(2) Some [unfolded c] b] obtain m' hi xs' fl' where
      1: "MMap_Free m addr len = Some (m', hi)" "wf_mgr m' xs' fl'" "high_mark m' = hi"
      "unat hi = busy_top (unat (mem_start m)) (regs m' xs')" by blast
    then show ?thesis using wf_mgr_inv [OF 1(2)] wf_mgr_lists(3) [OF 1(2)] by simp
  qed
qed

theorem MMap_Free_high_mark_witness:
  "\<exists>m' hi. MMap_Free demo_mgr 0x100000 0x4000 = Some (m', hi) \<and> mmap_inv m' \<and> high_mark m' = hi \<and>
     unat hi = busy_top 0x100000 (regions m')"
proof -
  have rb: "MMAP_ROUND_UP 0x4000 = 0x4000" by code_simp
  have ok: "unmap_ok 0x100000 0x4000" by (simp add: unmap_ok_def rb dvd_def)
  show ?thesis
    using MMap_Free_high_mark [OF demo_facts(1) ok] unfolding rb demo_facts by simp
qed

end
