(* ===== verification/MmapHistory.thy ===== *)
theory MmapHistory
  imports MmapSpec
begin

text \<open>
  Properties of whole uses of the mmap manager of \<^verbatim>\<open>cnk/src/mmap.c\<close>: initialisation, fixed
  allocation, allocation followed by release, and arbitrary histories of calls.
\<close>

section \<open>Initialisation\<close>

text \<open>C7: \<open>MMap_Init\<close> on cleared storage establishes the invariant: the whole range, rounded to
  pages, is one free region, the totals agree with it, and all descriptors but one are spare.\<close>

theorem MMap_Init_correct:
  assumes "cleared m" "init_ok start bytes"
  shows "mmap_inv (MMap_Init m start bytes) \<and> balanced (MMap_Init m start bytes) \<and>
    regions (MMap_Init m start bytes) = [Region (unat (MMAP_ROUND_UP start)) (unat (MMAP_ROUND_DN bytes)) True] \<and>
    length (pool_list (MMap_Init m start bytes)) = MMAP_MAX_ALLOCS - 1"
proof -
  from MMap_Init_refines [OF assms(1) _ _ assms(2), of MMAP_MAX_ALLOCS]
  obtain xs fl where 1: "wf_mgr (MMap_Init m start bytes) xs fl" "length xs + length fl = MMAP_MAX_ALLOCS"
    "balanced (MMap_Init m start bytes)"
    "regs (MMap_Init m start bytes) xs = [Region (unat (MMAP_ROUND_UP start)) (unat (MMAP_ROUND_DN bytes)) True]"
    unfolding MMap_Init_def by (auto simp: MMAP_MAX_ALLOCS_def)
  have "length xs = 1" using 1(4) by (metis length_map length_Cons list.size(3) One_nat_def)
  with 1 wf_mgr_inv [OF 1(1)] wf_mgr_lists [OF 1(1)] show ?thesis by simp
qed

definition zero_mgr :: MmapMgr where
  "zero_mgr = \<lparr>mem_start = 0, mem_size = 0, mem_avail = 0, mem_busy = 0, chunks_left = 0,
     high_mark = 0, high_mark_max = 0, low_unmap = 0, high_unmap = 0,
     FreeChunk_anchor = None, ByAddr_anchor = None, chunks = (\<lambda>_. demo_chunk None None None 0 0)\<rparr>"

lemma zero_mgr_cleared: "cleared zero_mgr"
  by (simp add: cleared_def zero_mgr_def demo_chunk_def)

lemma demo_init_ok: "init_ok 0xFF800 0x10FFF" "MMAP_ROUND_UP 0xFF800 = 0x100000" "MMAP_ROUND_DN 0x10FFF = 0x10000"
proof -
  show r: "MMAP_ROUND_UP 0xFF800 = 0x100000" "MMAP_ROUND_DN 0x10FFF = 0x10000" by code_simp+
  show "init_ok 0xFF800 0x10FFF" by (simp add: init_ok_def r)
qed

theorem MMap_Init_correct_witness:
  "cleared zero_mgr \<and> init_ok 0xFF800 0x10FFF \<and>
   regions (MMap_Init zero_mgr 0xFF800 0x10FFF) = [Region 0x100000 0x10000 True]"
  using MMap_Init_correct [OF zero_mgr_cleared demo_init_ok(1)] zero_mgr_cleared demo_init_ok by simp

section \<open>Allocation at a fixed address\<close>

definition fixed_ok :: "MmapMgr \<Rightarrow> u64 \<Rightarrow> u64 \<Rightarrow> bool" where
  "fixed_ok m bytes addr \<longleftrightarrow> 4096 dvd unat addr \<and> len_ok bytes \<and> unat (mem_start m) \<le> unat addr \<and>
     unat addr + unat bytes < mem_end m"

text \<open>When a fixed request is granted: the pool is not empty, one region contains the request,
  and if that region is free and starts earlier, a second descriptor is left.\<close>

definition fixed_grant :: "MmapMgr \<Rightarrow> u64 \<Rightarrow> u64 \<Rightarrow> bool" where
  "fixed_grant m bytes addr \<longleftrightarrow> pool_list m \<noteq> [] \<and>
     (case containing (unat addr) (unat (MMAP_ROUND_UP bytes)) (regions m) of
        None \<Rightarrow> False
      | Some (us, r, vs) \<Rightarrow> reg_free r \<longrightarrow> \<not> no_descriptor (tl (pool_list m)) r (unat addr))"

lemma fixed_ok_facts:
  assumes "mmap_inv m" "fixed_ok m bytes addr"
  shows "unat addr + unat (MMAP_ROUND_UP bytes) \<le> mem_end m" "mem_start m \<le> addr"
    "addr + bytes < mem_start m + mem_size m" "addr \<noteq> 0"
proof -
  from assms(1) obtain xs fl where w: "wf_mgr m xs fl" by (rule mmap_invE)
  note D = wf_mgrD [OF w]
  have l: "0 < unat bytes" "unat bytes + 4095 < 2 ^ 64" using assms(2) by (auto simp: fixed_ok_def len_ok_def word_less_nat_alt)
  have "4096 dvd mem_end m" using tiles_dvd [OF D(2,5)] .
  then show "unat addr + unat (MMAP_ROUND_UP bytes) \<le> mem_end m"
    using assms(2) round_up_contained [of "unat addr" "mem_end m" "unat bytes"] l
    by (simp add: unat_MMAP_ROUND_UP fixed_ok_def)
  show "mem_start m \<le> addr" "addr \<noteq> 0" using assms(2) D(4) by (auto simp: fixed_ok_def word_le_nat_alt)
  have "unat (addr + bytes) = unat addr + unat bytes" "unat (mem_start m + mem_size m) = mem_end m"
    using assms(2) D(6) by (auto intro!: unat_add_exact simp: fixed_ok_def mem_end_def)
  then show "addr + bytes < mem_start m + mem_size m"
    using assms(2) by (simp add: fixed_ok_def word_less_nat_alt)
qed

text \<open>C6: \<open>MMap_Malloc_Addr\<close> inside the managed range returns the requested address or NULL. Granted
  pages that were free are the only ones taken; a request inside a busy region is granted without
  a change. A refused request leaves the regions as they were. The invariant is kept.\<close>

theorem MMap_Malloc_Addr_correct:
  assumes "mmap_inv m" "fixed_ok m bytes addr"
  shows "\<exists>m' a. MMap_Malloc_Addr tstart tsize dsize m bytes addr = Some (m', a) \<and> mmap_inv m' \<and>
    (if fixed_grant m bytes addr
     then a = addr \<and> free_addrs (regions m') = free_addrs (regions m) - span addr bytes
     else a = 0 \<and> regions m' = regions m)"
proof -
  from assms(1) obtain xs fl where w: "wf_mgr m xs fl" and g0: "regions m = regs m xs" "pool_list m = fl"
    by (rule mmap_invE)
  let ?rb = "MMAP_ROUND_UP bytes"
  note D = wf_mgrD [OF w] and F = fixed_ok_facts [OF assms]
  have rf: "4096 dvd unat ?rb" "0 < unat ?rb" "4096 dvd unat addr" "unat addr + unat ?rb < 2 ^ 64"
    using assms(2) MMAP_ROUND_UP_facts [of bytes] F(1) D(6) by (auto simp: fixed_ok_def len_ok_def)
  from w show ?thesis
  proof (cases rule: Pop_cases)
    case empty
    then show ?thesis
      using F assms(1) g0 by (simp add: MMap_Malloc_Addr_def fixed_grant_def Let_def)
  next
    case (pop n fl1 m1)
    note R = MMapMgr_Malloc_Addr_refines [OF pop(3,6,7) rf(3,1,2,4), unfolded pop(4)]
    have e: "MMap_Malloc_Addr tstart tsize dsize m bytes addr = Some (raise_high_mark m2 a ?rb, a) \<and>
        mmap_inv (raise_high_mark m2 a ?rb) \<and> regions (raise_high_mark m2 a ?rb) = regs m2 xs'"
      if "MMapMgr_Malloc_Addr m1 ?rb n addr = Some (m2, a)" "wf_mgr m2 xs' fl'" for m2 a xs' fl'
    proof -
      have W: "wf_mgr (raise_high_mark m2 a ?rb) xs' fl'" using that(2) by simp
      show ?thesis
        using F(2,3) pop(2) that(1) wf_mgr_lists(3) [OF W] wf_mgr_inv [OF W]
        by (simp add: MMap_Malloc_Addr_def Let_def)
    qed
    show ?thesis
    proof (cases "containing (unat addr) (unat ?rb) (regs m xs)")
      case None
      from R [unfolded None option.case] e obtain m2 where
        "MMap_Malloc_Addr tstart tsize dsize m bytes addr = Some (m2, 0)" "mmap_inv m2" "regions m2 = regs m xs"
        by metis
      with None g0 pop(1) show ?thesis by (simp add: fixed_grant_def del: map_eq_conv)
    next
      case (Some c)
      obtain us r vs where c: "c = (us, r, vs)" by (cases c)
      note cd = containing_SomeD [OF Some [unfolded c]]
      have T: "tiles (unat (mem_start m)) (us @ r # vs) (mem_end m)" using D(2) cd by simp
      have free: "free_addrs (carve False us r vs (unat addr) (unat ?rb)) = free_addrs (regions m) - span addr bytes"
        if "reg_free r"
        using carve_busy(1) [OF T D(5) rf(3,1,2) _ _ that] cd g0 by (simp add: span_def del: free_addrs_simps)
      have busy: "free_addrs (regions m) \<inter> span addr bytes = {}" if "\<not> reg_free r"
        using tiles_disjoint_mid [OF T] cd that g0 by (auto simp: span_def reg_addrs_def)
      have grant: "fixed_grant m bytes addr \<longleftrightarrow> (reg_free r \<longrightarrow> \<not> no_descriptor fl1 r (unat addr))"
        using Some c g0 pop(1) by (simp add: fixed_grant_def)
      from R [unfolded Some c option.case prod.case] obtain m2 a xs' fl' where
        2: "MMapMgr_Malloc_Addr m1 ?rb n addr = Some (m2, a)" "wf_mgr m2 xs' fl'" and
        3: "if \<not> reg_free r then a = addr \<and> regs m2 xs' = regs m xs \<and> acct m2 = acct m1 \<and>
            length xs' + length fl' = length xs + length fl1 + 1
          else if no_descriptor fl1 r (unat addr) then a = 0 \<and> regs m2 xs' = regs m xs \<and> acct m2 = acct m1 \<and>
            length xs' + length fl' = length xs + length fl1
          else a = addr \<and> regs m2 xs' = carve False us r vs (unat addr) (unat ?rb) \<and>
            length xs' + length fl' = length xs + length fl1 + 1 \<and>
            acct m2 = acct (if reg_len r = unat ?rb then m1
              else m1\<lparr>mem_avail := mem_avail m1 - ?rb, mem_busy := mem_busy m1 + ?rb\<rparr>)" by blast
      note ee = e [OF 2]
      have "if fixed_grant m bytes addr
        then a = addr \<and> free_addrs (regs m2 xs') = free_addrs (regions m) - span addr bytes
        else a = 0 \<and> regs m2 xs' = regions m"
        using 3 free busy unfolding grant g0 by (cases "reg_free r") (auto simp del: map_eq_conv)
      with ee show ?thesis by metis
    qed
  qed
qed

theorem MMap_Malloc_Addr_correct_witness:
  "mmap_inv demo_mgr \<and> fixed_ok demo_mgr 0x1000 0x105000 \<and> fixed_grant demo_mgr 0x1000 0x105000 \<and>
   (\<exists>m'. MMap_Malloc_Addr 0x1000000 0x100000 0x100000 demo_mgr 0x1000 0x105000 = Some (m', 0x105000) \<and> mmap_inv m')"
proof -
  have rb: "MMAP_ROUND_UP 0x1000 = 0x1000" by code_simp
  have ok: "fixed_ok demo_mgr 0x1000 0x105000"
    by (simp add: fixed_ok_def len_ok_def mem_end_def demo_facts dvd_def)
  have gr: "fixed_grant demo_mgr 0x1000 0x105000"
    unfolding fixed_grant_def rb demo_facts by (simp add: no_descriptor_def)
  show ?thesis
    using MMap_Malloc_Addr_correct [OF demo_facts(1) ok, where tstart = "0x1000000" and tsize = "0x100000" and dsize = "0x100000"] ok gr demo_facts(1) by auto
qed

section \<open>A request that fits\<close>

definition no_guard :: GuardView where
  "no_guard = \<lparr>Guard_Enable = False, Guard_Start = 0, Guard_Size = 0, leader_r1 = 0\<rparr>"

lemma MMap_Malloc_fits:
  assumes w: "wf_mgr m xs fl" and b: "balanced m" and p: "fl \<noteq> []" and n: "len_ok n"
    and f: "first_fit (unat (MMAP_ROUND_UP n)) (regs m xs) = Some (us, r, vs)" and g: "\<not> Guard_Enable g"
  shows "\<exists>m' a xs' fl'. MMap_Malloc g m n = Some (m', a) \<and> a \<noteq> 0 \<and> wf_mgr m' xs' fl' \<and> balanced m' \<and>
    length xs' + length fl' = length xs + length fl \<and> unat a = reg_base r \<and>
    regs m' xs' = carve False us r vs (reg_base r) (unat (MMAP_ROUND_UP n))"
proof -
  note s = first_fit_SomeD [OF f] and L = wf_mgr_lists [OF w]
  have "unat (MMAP_ROUND_UP n) \<le> unat (mem_avail m)" using b s L(3) by (simp add: balanced_def)
  then have gr: "malloc_grant g m (MMAP_ROUND_UP n)"
    using p L f g by (simp add: malloc_grant_def guard_conflict_def word_le_nat_alt)
  from MMap_Malloc_refines [OF w, of n g] n gr f b
  obtain m' a xs' fl' where 1: "MMap_Malloc g m n = Some (m', a)" "wf_mgr m' xs' fl'" "balanced m'"
    "length xs' + length fl' = length xs + length fl" "unat a = reg_base r"
    "regs m' xs' = carve False us r vs (reg_base r) (unat (MMAP_ROUND_UP n))"
    by (auto simp: len_ok_def)
  moreover have "0 < reg_base r"
    using tiles_mem(1) [OF wf_mgrD(2) [OF w], of r] s wf_mgrD(4) [OF w] by auto
  ultimately show ?thesis by fastforce
qed

section \<open>Histories of calls\<close>

text \<open>
  The states a manager reaches by any sequence of \<open>mmap\<close> and \<open>munmap\<close> calls of one process,
  with the allocations the process holds. A process frees what it was given; the calls run one at a
  time because each holds \<open>MMapLock\<close>.
\<close>

inductive mmap_run :: "MmapMgr \<Rightarrow> (u64 \<times> u64) list \<Rightarrow> bool" where
  init: "cleared m \<Longrightarrow> init_ok start bytes \<Longrightarrow> mmap_run (MMap_Init m start bytes) []"
| mmap: "mmap_run m L \<Longrightarrow> len_ok n \<Longrightarrow> MMap_Malloc g m n = Some (m', a) \<Longrightarrow>
    mmap_run m' (if a = 0 then L else (a, n) # L)"
| munmap: "mmap_run m (L1 @ (a, n) # L2) \<Longrightarrow> MMap_Free m a n = Some (m', h) \<Longrightarrow> mmap_run m' (L1 @ L2)"

lemma mmap_init_inv: "cleared m \<Longrightarrow> init_ok start bytes \<Longrightarrow> mmap_inv (MMap_Init m start bytes)"
  using MMap_Init_refines [of m MMAP_MAX_ALLOCS start bytes]
  by (auto simp: MMap_Init_def MMAP_MAX_ALLOCS_def intro: wf_mgr_inv)

lemma mmap_run_held: "mmap_run m L \<Longrightarrow> mm.held m L"
proof (induction rule: mmap_run.induct)
  case (init m start bytes)
  then show ?case by (simp add: mm.held_def mmap_init_inv)
next
  case (mmap m L n g m' a)
  then show ?case by (intro mm.held_alloc)
next
  case (munmap m L1 a n L2 m' h)
  from mm.held_release [OF munmap.IH] munmap.hyps show ?case by auto
qed



section \<open>Allocation followed by release\<close>

text \<open>A merged tiling is determined by its free addresses.\<close>

lemma free_addrs_region:
  assumes "tiles lo (us @ r # vs) hi" "x \<in> reg_addrs r"
  shows "x \<in> free_addrs (us @ r # vs) \<longleftrightarrow> reg_free r"
  using tiles_disjoint_mid [OF assms(1)] assms(2) by auto

lemma end_le_of_same_free:
  assumes t: "tiles lo (r # rs) hi" "coalesced (r # rs)" and t': "tiles lo (q # qs) hi"
    and f: "free_addrs (r # rs) = free_addrs (q # qs)" "reg_free r = reg_free q"
  shows "reg_end q \<le> reg_end r"
proof (rule ccontr)
  assume n: "\<not> reg_end q \<le> reg_end r"
  have "reg_end q \<le> hi" using tiles_mem(2) [OF t', of q] by simp
  with n t obtain p ps where p: "rs = p # ps" by (cases rs) auto
  with t have "reg_free p \<noteq> reg_free r" and m: "reg_end r \<in> reg_addrs p" by (auto simp: reg_addrs_def)
  moreover have "reg_end r \<in> free_addrs ([r] @ p # ps) \<longleftrightarrow> reg_free p"
    by (rule free_addrs_region [OF _ m]) (use t p in auto)
  moreover have "reg_end r \<in> free_addrs ([] @ q # qs) \<longleftrightarrow> reg_free q"
    by (rule free_addrs_region [where lo = lo and hi = hi]) (use t t' n in \<open>auto simp: reg_addrs_def\<close>)
  ultimately show False using f p by (simp del: free_addrs_simps)
qed

lemma tiles_canonical:
  assumes "tiles lo rs hi" "coalesced rs" "tiles lo qs hi" "coalesced qs" "free_addrs rs = free_addrs qs"
  shows "rs = qs"
  using assms
proof (induction rs arbitrary: lo qs)
  case Nil
  then show ?case by (cases qs) (auto dest: tiles_le)
next
  case (Cons r rs)
  then obtain q qs' where q: "qs = q # qs'" by (cases qs) (auto dest: tiles_le)
  have b: "reg_base r = lo" "reg_base q = lo" "0 < reg_len r" "0 < reg_len q" using Cons.prems q by auto
  have "lo \<in> free_addrs ([] @ r # rs) \<longleftrightarrow> reg_free r" "lo \<in> free_addrs ([] @ q # qs') \<longleftrightarrow> reg_free q"
    by (rule free_addrs_region [where lo = lo and hi = hi]; use Cons.prems q b in \<open>auto simp: reg_addrs_def\<close>)+
  then have fr: "reg_free r = reg_free q" using Cons.prems(5) q by (simp del: free_addrs_simps)
  note pr = Cons.prems [unfolded q]
  have "reg_end q \<le> reg_end r" by (rule end_le_of_same_free [OF pr(1,2,3,5) fr])
  moreover have "reg_end r \<le> reg_end q"
    by (rule end_le_of_same_free [OF pr(3,4,1) pr(5) [symmetric] fr [symmetric]])
  ultimately have e: "reg_end r = reg_end q" "r = q" using b fr by (auto intro: region.expand)
  have t: "tiles (reg_end r) rs hi" "tiles (reg_end r) qs' hi" using Cons.prems q e by auto
  have "reg_addrs r \<inter> free_addrs rs = {}" "reg_addrs r \<inter> free_addrs qs' = {}"
    using free_addrs_bounds [OF t(1)] free_addrs_bounds [OF t(2)] by (force simp: reg_addrs_def)+
  then have "free_addrs rs = free_addrs qs'" using pr(5) e(2) by (cases "reg_free r") (simp_all, blast)
  with Cons.IH [OF t(1) _ t(2)] Cons.prems q e show ?case by auto
qed

text \<open>
  The region that an allocation at the start of the free region \<open>r\<close> ends up in, and the
  descriptors that its release needs: as many as the merge gave back.
\<close>

lemma release_descriptors:
  assumes t: "tiles lo (us @ r # vs) hi" "4096 dvd lo" "4096 dvd n" "0 < n" "n \<le> reg_len r"
    and c: "coalesced (us @ r # vs)" "reg_free r"
    and l: "length fl + length (carve False us r vs (reg_base r) n) = length (us @ r # vs) + k" "0 < k"
  shows "\<exists>us' r' vs'. containing (reg_base r) n (carve False us r vs (reg_base r) n) = Some (us', r', vs') \<and>
    \<not> reg_free r' \<and> enough_descriptors fl r' (reg_base r) n"
proof -
  let ?bp = "back_part r (reg_base r + n)"
  let ?a = "reg_base r"
  have fp: "front_part r ?a = []" by (simp add: front_part_def)
  have T: "tiles lo (carve False us r vs ?a n) hi"
    by (rule carve_tiles) (use t tiles_mem(5) [OF t(1), of r] in auto)
  have lb: "length ?bp \<le> 1" by (simp add: back_part_def)
  have cv: "carve False us r vs ?a n = combine us (Region ?a n False) (?bp @ vs)" by (simp add: carve_def fp)
  have con: "containing ?a n (xs @ q # ys) = Some (xs, q, ys)"
    if "carve False us r vs ?a n = xs @ q # ys" "reg_base q \<le> ?a" "?a + n \<le> reg_end q" for xs q ys
    using T that t(4) by (intro containing_unique [of lo _ _ _ hi]) auto
  have le: "length (front_part q ?a) \<le> 1" "length (back_part q e) \<le> 1" for q e
    by (simp_all add: front_part_def back_part_def)
  have fin: ?thesis if "carve False us r vs ?a n = xs @ q # ys" "reg_base q \<le> ?a" "?a + n \<le> reg_end q"
    "\<not> reg_free q" "length (front_part q ?a) + length (back_part q (?a + n)) \<le> length fl" for xs q ys
    using con [OF that(1-3)] that by (simp add: enough_descriptors_def)
  show ?thesis
  proof (cases us "?bp @ vs" "Region ?a n False" rule: combine_cases)
    case (both xs' p s ys')
    have e: "reg_base p + reg_len p = ?a" using t(1) both(1) by auto
    have "length ?bp + length vs = Suc (length ys')" using both(2) by (metis length_append length_Cons)
    with both l lb have "length (front_part q ?a) + length (back_part q e) \<le> length fl" for q e
      unfolding cv using le(1) [of q] le(2) [of q e] by simp
    with e show ?thesis by (intro fin [OF trans [OF cv both(5)]]) simp_all
  next
    case (prev xs' p)
    have e: "reg_base p + reg_len p = ?a" using t(1) prev(1) by auto
    have "length (front_part q ?a) \<le> length fl" for q
      using le(1) [of q] prev l lb unfolding cv by simp
    with e show ?thesis by (intro fin [OF trans [OF cv prev(4)]]) (simp_all add: back_part_def)
  next
    case (nxt s ys')
    have "length ?bp + length vs = Suc (length ys')" using nxt(1) by (metis length_append length_Cons)
    then have "length (back_part q e) \<le> length fl" for q e
      using le(2) [of q e] nxt l lb unfolding cv by simp
    then show ?thesis by (intro fin [OF trans [OF cv nxt(4)]]) (simp_all add: front_part_def)
  next
    case none
    then show ?thesis by (intro fin [OF trans [OF cv none(3)]]) (simp_all add: front_part_def back_part_def)
  qed
qed

text \<open>C4: releasing what \<open>MMap_Malloc\<close> has just granted restores the regions exactly. The
  descriptors this needs are always there, however few are left.\<close>

theorem malloc_free_roundtrip:
  assumes "mmap_inv m" "len_ok n" "MMap_Malloc g m n = Some (m1, a)" "a \<noteq> 0"
  shows "\<exists>m2 h. MMap_Free m1 a n = Some (m2, h) \<and> mmap_inv m2 \<and> regions m2 = regions m"
proof -
  from assms(1) obtain xs fl where w: "wf_mgr m xs fl" and g0: "regions m = regs m xs" "pool_list m = fl"
    by (rule mmap_invE)
  let ?rb = "MMAP_ROUND_UP n"
  note D = wf_mgrD [OF w]
  have rf: "4096 dvd unat ?rb" "0 < unat ?rb" using MMAP_ROUND_UP_facts [of n] assms(2) by (auto simp: len_ok_def)
  from MMap_Malloc_refines [OF w, of n g] assms(2-4)
  obtain xs1 fl1 where 1: "wf_mgr m1 xs1 fl1" "length xs1 + length fl1 = length xs + length fl"
    "mem_start m1 = mem_start m" "mem_size m1 = mem_size m"
    and gr: "malloc_grant g m ?rb" and
    2: "case the (first_fit (unat ?rb) (regs m xs)) of (us, r, vs) \<Rightarrow>
       unat a = reg_base r \<and> regs m1 xs1 = carve False us r vs (reg_base r) (unat ?rb)"
    by (auto simp: len_ok_def split: if_splits)
  from gr obtain us r vs where f: "first_fit (unat ?rb) (regs m xs) = Some (us, r, vs)" and p: "fl \<noteq> []"
    by (auto simp: malloc_grant_def g0 split: option.splits)
  note s = first_fit_SomeD [OF f] and fc = first_fit_carve [OF f D(2,5) rf]
  have a: "unat a = reg_base r" "regs m1 xs1 = carve False us r vs (reg_base r) (unat ?rb)" using 2 f by auto
  have len: "length (regs m xs) = length (us @ r # vs)" using s by simp
  have "length fl1 + length (carve False us r vs (reg_base r) (unat ?rb)) = length (us @ r # vs) + length fl"
    using 1(2) a(2) len by (metis add.commute length_map)
  moreover have "tiles (unat (mem_start m)) (us @ r # vs) (mem_end m)" "coalesced (us @ r # vs)"
    using D(2,3) s by auto
  ultimately obtain us' r' vs' where c: "containing (unat a) (unat ?rb) (regs m1 xs1) = Some (us', r', vs')"
    "\<not> reg_free r'" "enough_descriptors fl1 r' (unat a) (unat ?rb)"
    using release_descriptors [of "unat (mem_start m)" us r vs "mem_end m" "unat ?rb" fl1 "length fl"] D(5) rf s p a
    by auto
  have u: "unmap_ok a n" using assms(2) D(6) fc(4,6) a(1) by (simp add: unmap_ok_def len_ok_def)
  from MMap_Free_inside [OF 1(1) u c(1,2)] c(3) obtain m2 h xs2 fl2 where
    3: "MMap_Free m1 a n = Some (m2, h)" "wf_mgr m2 xs2 fl2" "mem_start m2 = mem_start m1" "mem_size m2 = mem_size m1"
    "regs m2 xs2 = carve True us' r' vs' (unat a) (unat ?rb)" by auto
  note cd = containing_SomeD [OF c(1)]
  have T1: "tiles (unat (mem_start m1)) (us' @ r' # vs') (mem_end m1)" using wf_mgrD(2) [OF 1(1)] cd by simp
  have "free_addrs (regs m2 xs2) = free_addrs (us' @ r' # vs') \<union> {unat a..<unat a + unat ?rb}"
    unfolding 3(5) by (rule carve_free(1) [OF T1]) (use wf_mgrD(5) [OF 1(1)] fc(4) a(1) rf cd c(2) in auto)
  also have "\<dots> = free_addrs (regs m xs)" using cd a fc(1,3) by (auto simp del: free_addrs_simps)
  finally have "regs m2 xs2 = regs m xs"
    using tiles_canonical wf_mgrD(2,3) [OF 3(2)] D(2,3) 3(3,4) 1(3,4) by (metis mem_end_def)
  then show ?thesis using 3(1) wf_mgr_inv [OF 3(2)] wf_mgr_lists(3) [OF 3(2)] g0 by (simp del: map_eq_conv)
qed

theorem malloc_free_roundtrip_witness:
  "\<exists>m1 a m2 h. MMap_Malloc demo_guard demo_mgr 8000 = Some (m1, a) \<and> a \<noteq> 0 \<and>
     MMap_Free m1 a 8000 = Some (m2, h) \<and> regions m2 = regions demo_mgr"
proof -
  have rb: "MMAP_ROUND_UP 8000 = 8192" by code_simp
  have ok: "len_ok 8000" by (simp add: len_ok_def)
  have gr: "malloc_grant demo_guard demo_mgr (MMAP_ROUND_UP 8000)"
    unfolding malloc_grant_def rb demo_facts by (simp add: guard_conflict_def demo_guard_def)
  obtain m1 a where "MMap_Malloc demo_guard demo_mgr 8000 = Some (m1, a)" "unat a = 0x104000"
    using MMap_Malloc_refines [OF demo_wf(1), of 8000 demo_guard] gr unfolding demo_wf(2) rb by auto
  moreover from this have "a \<noteq> 0" by auto
  ultimately show ?thesis using malloc_free_roundtrip [OF demo_facts(1) ok] by blast
qed

end
