(* ===== verification/CnkAtomic.thy ===== *)
theory CnkAtomic
  imports CnkPrelude
begin

text \<open>
  The atomic operations of \<^verbatim>\<open>cnk/src/atomicops.h\<close>. The first part gives what each operation
  does as one atomic step: the value it returns and the value it leaves. The second part is the
  loop that all of them share, on the instructions \<open>lwarx\<close> and \<open>stwcx.\<close>: a load that takes a
  reservation, and a store that succeeds only while the reservation is still held. Threads are
  interleaved at this granularity, and the loop is shown to be atomic.
\<close>

section \<open>The operations\<close>

text \<open>One round of a loop: the value to store, or None when the operation returns without a store.\<close>

definition fetch_and_add :: "u32 \<Rightarrow> u32 \<Rightarrow> u32 option" where
  "fetch_and_add value old_val = Some (old_val + value)"

definition fetch_and_sub :: "u32 \<Rightarrow> u32 \<Rightarrow> u32 option" where
  "fetch_and_sub value old_val = Some (old_val - value)"

definition fetch_and_or :: "u32 \<Rightarrow> u32 \<Rightarrow> u32 option" where
  "fetch_and_or msk old_val = Some (old_val OR msk)"

definition fetch_and_and :: "u32 \<Rightarrow> u32 \<Rightarrow> u32 option" where
  "fetch_and_and msk old_val = Some (old_val AND msk)"

definition test_and_set :: "u32 \<Rightarrow> u32 \<Rightarrow> u32 option" where
  "test_and_set msk old_val = (if old_val AND msk \<noteq> 0 then None else Some (old_val OR msk))"

definition compare_and_swap :: "u32 \<Rightarrow> u32 \<Rightarrow> u32 \<Rightarrow> u32 option" where
  "compare_and_swap OldValue NewValue old_val = (if OldValue \<noteq> old_val then None else Some NewValue)"

definition fetch_and_or64 :: "u64 \<Rightarrow> u64 \<Rightarrow> u64 option" where
  "fetch_and_or64 msk old_val = Some (old_val OR msk)"

definition fetch_and_and64 :: "u64 \<Rightarrow> u64 \<Rightarrow> u64 option" where
  "fetch_and_and64 msk old_val = Some (old_val AND msk)"

definition fetch_and_add64 :: "u64 \<Rightarrow> u64 \<Rightarrow> u64 option" where
  "fetch_and_add64 value old_val = Some (old_val + value)"

definition fetch_and_sub64 :: "u64 \<Rightarrow> u64 \<Rightarrow> u64 option" where
  "fetch_and_sub64 value old_val = Some (old_val - value)"

text \<open>The 32-bit operations, as the calls that a thread can make.\<close>

datatype atomic_op =
    Fetch_add u32 | Fetch_sub u32 | Fetch_or u32 | Fetch_and u32 | Test_set u32 | Compare_swap u32 u32

fun atomic_body :: "atomic_op \<Rightarrow> u32 \<Rightarrow> u32 option" where
  "atomic_body (Fetch_add v) = fetch_and_add v"
| "atomic_body (Fetch_sub v) = fetch_and_sub v"
| "atomic_body (Fetch_or v) = fetch_and_or v"
| "atomic_body (Fetch_and v) = fetch_and_and v"
| "atomic_body (Test_set v) = test_and_set v"
| "atomic_body (Compare_swap v w) = compare_and_swap v w"

section \<open>The loop on load-reserved and store-conditional\<close>

text \<open>A word in memory, with the threads whose reservation on it is valid.\<close>

record 'a cell =
  atom :: 'a
  reserved :: "nat set"

text \<open>Where a thread is: before the load, between load and store, or returned with the old value.\<close>

datatype 'a rmw_pc = Start | Loaded 'a | Done 'a

definition LoadReserved :: "nat \<Rightarrow> 'a cell \<Rightarrow> 'a \<times> 'a cell" where
  "LoadReserved t c = (atom c, c\<lparr>reserved := insert t (reserved c)\<rparr>)"

definition StoreConditional :: "nat \<Rightarrow> 'a \<Rightarrow> 'a cell \<Rightarrow> bool \<times> 'a cell" where
  "StoreConditional t v c =
     (if t \<in> reserved c then (True, \<lparr>atom = v, reserved = {}\<rparr>) else (False, c))"

text \<open>
  The state is the word, the place of every thread and the order in which stores succeeded, with
  the old values they returned. A reservation may be lost at any time, by an interrupt for instance.
\<close>

type_synonym 'a rmw_state = "'a cell \<times> (nat \<Rightarrow> 'a rmw_pc) \<times> (nat \<times> 'a) list"

inductive rmw_step :: "(nat \<Rightarrow> 'a \<Rightarrow> 'a option) \<Rightarrow> 'a rmw_state \<Rightarrow> 'a rmw_state \<Rightarrow> bool"
  for body :: "nat \<Rightarrow> 'a \<Rightarrow> 'a option" where
  load: "pc t = Start \<Longrightarrow> LoadReserved t c = (v, c') \<Longrightarrow>
    rmw_step body (c, pc, l) (c', pc(t := Loaded v), l)"
| quit: "pc t = Loaded v \<Longrightarrow> body t v = None \<Longrightarrow>
    rmw_step body (c, pc, l) (c, pc(t := Done v), l)"
| store: "pc t = Loaded v \<Longrightarrow> body t v = Some w \<Longrightarrow> StoreConditional t w c = (True, c') \<Longrightarrow>
    rmw_step body (c, pc, l) (c', pc(t := Done v), l @ [(t, v)])"
| retry: "pc t = Loaded v \<Longrightarrow> body t v = Some w \<Longrightarrow> StoreConditional t w c = (False, c') \<Longrightarrow>
    rmw_step body (c, pc, l) (c', pc(t := Start), l)"
| lose: "rmw_step body (c, pc, l) (c\<lparr>reserved := reserved c - {t}\<rparr>, pc, l)"

text \<open>The operations run one after the other, in the order of the list, without interruption.\<close>

fun replay :: "(nat \<Rightarrow> 'a \<Rightarrow> 'a option) \<Rightarrow> 'a \<Rightarrow> (nat \<times> 'a) list \<Rightarrow> 'a option" where
  "replay body v [] = Some v"
| "replay body v ((t, old) # l) =
     (if old = v then (case body t v of None \<Rightarrow> None | Some w \<Rightarrow> replay body w l) else None)"

lemma replay_append:
  "replay body v (l @ l') = (case replay body v l of None \<Rightarrow> None | Some w \<Rightarrow> replay body w l')"
  by (induction body v l rule: replay.induct) (auto split: option.splits)

definition rmw_inv :: "(nat \<Rightarrow> 'a \<Rightarrow> 'a option) \<Rightarrow> 'a \<Rightarrow> 'a rmw_state \<Rightarrow> bool" where
  "rmw_inv body v0 = (\<lambda>(c, pc, l).
     (\<forall>t\<in>reserved c. \<forall>v. pc t = Loaded v \<longrightarrow> v = atom c) \<and>
     replay body v0 l = Some (atom c) \<and> distinct (map fst l) \<and>
     (\<forall>t v. (t, v) \<in> set l \<longleftrightarrow> pc t = Done v \<and> body t v \<noteq> None))"

lemma rmw_inv_step: "rmw_step body s s' \<Longrightarrow> rmw_inv body v0 s \<Longrightarrow> rmw_inv body v0 s'"
proof (induction rule: rmw_step.induct)
  case (load pc t c v c' l)
  then show ?case by (auto simp: rmw_inv_def LoadReserved_def)
next
  case (quit pc t v c l)
  then show ?case by (auto simp: rmw_inv_def)
next
  case (store pc t v w c c' l)
  then have t: "t \<in> reserved c" and c': "c' = \<lparr>atom = w, reserved = {}\<rparr>"
    by (auto simp: StoreConditional_def split: if_splits)
  from store t have "v = atom c" "t \<notin> fst ` set l" by (auto simp: rmw_inv_def)
  with store c' show ?case by (auto simp: rmw_inv_def replay_append)
next
  case (retry pc t v w c c' l)
  then show ?case by (auto simp: rmw_inv_def StoreConditional_def split: if_splits)
next
  case (lose c pc l t)
  then show ?case by (auto simp: rmw_inv_def)
qed

definition rmw_init :: "'a \<Rightarrow> 'a rmw_state" where
  "rmw_init v0 = (\<lparr>atom = v0, reserved = {}\<rparr>, \<lambda>_. Start, [])"

lemma rmw_inv_reachable: "(rmw_step body)\<^sup>*\<^sup>* (rmw_init v0) s \<Longrightarrow> rmw_inv body v0 s"
proof (induction rule: rtranclp_induct)
  case base
  show ?case by (simp add: rmw_init_def rmw_inv_def)
next
  case (step s s')
  then show ?case by (blast intro: rmw_inv_step)
qed

text \<open>C15: the loops on load-reserved and store-conditional are atomic. However the threads are
  interleaved, each running one of the operations, the word is what the operations give when they
  run one after the other in the order of their stores, each thread stores at most once, and a
  thread that has returned \<open>v\<close> has a store in this order exactly when its operation stores on
  \<open>v\<close>.\<close>

theorem atomic_ops_linearizable:
  assumes "(rmw_step (\<lambda>t. atomic_body (ops t)))\<^sup>*\<^sup>* (rmw_init v0) (c, pc, l)"
  shows "replay (\<lambda>t. atomic_body (ops t)) v0 l = Some (atom c) \<and> distinct (map fst l) \<and>
    (\<forall>t v. pc t = Done v \<longrightarrow> (atomic_body (ops t) v \<noteq> None \<longleftrightarrow> (t, v) \<in> set l))"
  using rmw_inv_reachable [OF assms] by (simp add: rmw_inv_def)

text \<open>Two threads: thread 1 takes a ticket between the load and the store of thread 0, which retries.\<close>

theorem atomic_ops_linearizable_witness:
  "\<exists>c pc l. (rmw_step (\<lambda>t. atomic_body (Fetch_add 1)))\<^sup>*\<^sup>* (rmw_init 7) (c, pc, l) \<and>
    pc 0 = Done 8 \<and> pc 1 = Done 7 \<and> atom c = 9 \<and> replay (\<lambda>t. atomic_body (Fetch_add 1)) 7 l = Some 9"
proof -
  let ?b = "\<lambda>t. atomic_body (Fetch_add 1)"
  let ?p = "\<lambda>_. Start"
  have "rmw_step ?b (rmw_init 7) (\<lparr>atom = 7, reserved = {0}\<rparr>, ?p(0 := Loaded 7), [])"
    unfolding rmw_init_def by (rule rmw_step.load) (simp_all add: LoadReserved_def)
  moreover have "rmw_step ?b (\<lparr>atom = 7, reserved = {0}\<rparr>, ?p(0 := Loaded 7), [])
      (\<lparr>atom = 7, reserved = {1, 0}\<rparr>, ?p(0 := Loaded 7, 1 := Loaded 7), [])"
    by (rule rmw_step.load) (simp_all add: LoadReserved_def)
  moreover have "rmw_step ?b (\<lparr>atom = 7, reserved = {1, 0}\<rparr>, ?p(0 := Loaded 7, 1 := Loaded 7), [])
      (\<lparr>atom = 8, reserved = {}\<rparr>, ?p(0 := Loaded 7, 1 := Loaded 7, 1 := Done 7), [] @ [(1, 7)])"
    by (rule rmw_step.store [where w = 8]) (simp_all add: StoreConditional_def fetch_and_add_def)
  moreover have "rmw_step ?b (\<lparr>atom = 8, reserved = {}\<rparr>, ?p(0 := Loaded 7, 1 := Loaded 7, 1 := Done 7), [] @ [(1, 7)])
      (\<lparr>atom = 8, reserved = {}\<rparr>, ?p(0 := Loaded 7, 1 := Loaded 7, 1 := Done 7, 0 := Start), [] @ [(1, 7)])"
    by (rule rmw_step.retry [where w = 8]) (simp_all add: StoreConditional_def fetch_and_add_def)
  moreover have "rmw_step ?b (\<lparr>atom = 8, reserved = {}\<rparr>, ?p(0 := Loaded 7, 1 := Loaded 7, 1 := Done 7, 0 := Start), [] @ [(1, 7)])
      (\<lparr>atom = 8, reserved = {0}\<rparr>, ?p(0 := Loaded 7, 1 := Loaded 7, 1 := Done 7, 0 := Start, 0 := Loaded 8), [] @ [(1, 7)])"
    by (rule rmw_step.load) (simp_all add: LoadReserved_def)
  moreover have "rmw_step ?b (\<lparr>atom = 8, reserved = {0}\<rparr>, ?p(0 := Loaded 7, 1 := Loaded 7, 1 := Done 7, 0 := Start, 0 := Loaded 8), [] @ [(1, 7)])
      (\<lparr>atom = 9, reserved = {}\<rparr>, ?p(0 := Loaded 7, 1 := Loaded 7, 1 := Done 7, 0 := Start, 0 := Loaded 8, 0 := Done 8), ([] @ [(1, 7)]) @ [(0, 8)])"
    by (rule rmw_step.store [where w = 9]) (simp_all add: StoreConditional_def fetch_and_add_def)
  ultimately have r: "(rmw_step ?b)\<^sup>*\<^sup>* (rmw_init 7)
      (\<lparr>atom = 9, reserved = {}\<rparr>, ?p(0 := Loaded 7, 1 := Loaded 7, 1 := Done 7, 0 := Start, 0 := Loaded 8, 0 := Done 8), ([] @ [(1, 7)]) @ [(0, 8)])"
    by (meson rtranclp.rtrancl_refl rtranclp.rtrancl_into_rtrancl)
  note a = atomic_ops_linearizable [where ops = "\<lambda>_. Fetch_add 1", OF r]
  show ?thesis by (intro exI conjI, rule r) (use a in simp_all)
qed

end
