(* ===== verification/CnkLock.thy ===== *)
theory CnkLock
  imports CnkAtomic
begin

text \<open>
  The kernel lock and the barrier of \<^verbatim>\<open>cnk/src/lock.c\<close>. The hardware threads are interleaved:
  each step is one access to the lock word, where an operation of \<open>CnkAtomic\<close> counts as one access
  because its loop is atomic. The priorities that the code sets while spinning and \<open>isync\<close> and
  \<open>msync\<close> have no effect on the values and are not modelled.
\<close>

section \<open>\<open>Kernel_Lock\<close>, \<open>Kernel_Lock_WithTimeout\<close> and \<open>Kernel_Unlock\<close>\<close>

text \<open>
  Where a thread is. \<open>Trying\<close> and \<open>Spinning\<close> carry the arguments of the call with a timeout: the
  time the call started, the number of cycles it may take, and the counter \<open>check_frequency\<close>;
  they are None in \<open>Kernel_Lock\<close>.
\<close>

record timeout =
  startTime :: u64
  timeout_cycles :: u64
  check_frequency :: u64

datatype lock_pc =
    Outside
  | Trying "timeout option"
  | Spinning "timeout option"
  | Holding
  | Failed

text \<open>The value that marks the lock as taken by the hardware thread \<open>t\<close>.\<close>

definition my_unique_index :: "nat \<Rightarrow> u32" where
  "my_unique_index t = word_of_nat t + 1"

definition lock_call :: "(u64 \<times> u64) option \<Rightarrow> lock_pc" where
  "lock_call args = Trying (case args of None \<Rightarrow> None
     | Some (now, cycles) \<Rightarrow> Some \<lparr>startTime = now, timeout_cycles = cycles, check_frequency = 1000\<rparr>)"

text \<open>The call to \<open>compare_and_swap\<close>: the lock word and the place after it.\<close>

definition lock_try :: "nat \<Rightarrow> timeout option \<Rightarrow> u32 \<Rightarrow> u32 \<times> lock_pc" where
  "lock_try t to w =
     (case compare_and_swap 0 (my_unique_index t) w of
        Some w' \<Rightarrow> (w', Holding)
      | None \<Rightarrow> (w, Spinning to))"

text \<open>
  One evaluation of the condition of the inner loop, and of its body when the lock is taken:
  \<open>now\<close> is what \<open>GetTimeBase\<close> would return.
\<close>

definition lock_spin :: "timeout option \<Rightarrow> u32 \<Rightarrow> u64 \<Rightarrow> lock_pc" where
  "lock_spin to w now =
     (if w = 0 then Trying to
      else (case to of
              None \<Rightarrow> Spinning None
            | Some o' \<Rightarrow>
                if check_frequency o' = 0 then
                  (if now - startTime o' > timeout_cycles o' then Failed
                   else Spinning (Some (o'\<lparr>check_frequency := 1000\<rparr>)))
                else Spinning (Some (o'\<lparr>check_frequency := check_frequency o' - 1\<rparr>))))"

text \<open>The hardware threads of a node: \<open>CONFIG_HWTHREADS_PER_CORE\<close> on each of \<open>CONFIG_MAX_CORES\<close>.\<close>

definition NUM_HWTHREADS :: nat where
  "NUM_HWTHREADS = 4 * 17"

text \<open>The lock word, the place of every thread, and the time base.\<close>

type_synonym lock_state = "u32 \<times> (nat \<Rightarrow> lock_pc) \<times> u64"

inductive lock_step :: "lock_state \<Rightarrow> lock_state \<Rightarrow> bool" where
  call: "pc t = Outside \<or> pc t = Failed \<Longrightarrow> t < NUM_HWTHREADS \<Longrightarrow> lock_step (w, pc, now) (w, pc(t := lock_call args), now)"
| cas: "pc t = Trying to \<Longrightarrow> lock_try t to w = (w', p) \<Longrightarrow> lock_step (w, pc, now) (w', pc(t := p), now)"
| spin: "pc t = Spinning to \<Longrightarrow> lock_step (w, pc, now) (w, pc(t := lock_spin to w now), now)"
| unlock: "pc t = Holding \<Longrightarrow> lock_step (w, pc, now) (0, pc(t := Outside), now)"
| tick: "lock_step (w, pc, now) (w, pc, now + 1)"

definition lock_init :: lock_state where
  "lock_init = (0, \<lambda>_. Outside, 0)"

text \<open>The lock word is the index of the thread that holds the lock, or 0.\<close>

definition lock_inv :: "lock_state \<Rightarrow> bool" where
  "lock_inv = (\<lambda>(w, pc, now).
     (\<forall>t. pc t \<noteq> Outside \<longrightarrow> t < NUM_HWTHREADS) \<and>
     (\<forall>t. pc t = Holding \<longrightarrow> w = my_unique_index t) \<and>
     (w \<noteq> 0 \<longrightarrow> (\<exists>t. pc t = Holding)))"

lemma my_unique_index_unat: "t < NUM_HWTHREADS \<Longrightarrow> unat (my_unique_index t) = t + 1"
proof -
  assume t: "t < NUM_HWTHREADS"
  have "unat (word_of_nat t :: u32) = t"
    using t by (simp add: unat_of_nat NUM_HWTHREADS_def)
  then show ?thesis
    using t unfolding my_unique_index_def by (subst unat_add_exact) (simp_all add: NUM_HWTHREADS_def)
qed

lemma my_unique_index_inj:
  "t < NUM_HWTHREADS \<Longrightarrow> u < NUM_HWTHREADS \<Longrightarrow> my_unique_index t = my_unique_index u \<Longrightarrow> t = u"
  by (drule arg_cong [of _ _ unat]) (simp add: my_unique_index_unat)

lemma my_unique_index_nonzero: "t < NUM_HWTHREADS \<Longrightarrow> my_unique_index t \<noteq> 0"
  by (rule notI, drule arg_cong [of _ _ unat]) (simp add: my_unique_index_unat)

text \<open>A step of a thread that neither takes nor releases the lock.\<close>

lemma lock_inv_move:
  assumes i: "lock_inv (w, pc, now)" and p: "pc t \<noteq> Holding" "p \<noteq> Holding" "t < NUM_HWTHREADS"
  shows "lock_inv (w, pc(t := p), now')"
proof -
  have "\<exists>u. (pc(t := p)) u = Holding" if "w \<noteq> 0"
  proof -
    from i that obtain u where u: "pc u = Holding" by (auto simp: lock_inv_def)
    with p(1) have "u \<noteq> t" by auto
    with u have "(pc(t := p)) u = Holding" by simp
    then show ?thesis ..
  qed
  with i p show ?thesis by (simp add: lock_inv_def)
qed

lemma lock_inv_index: "lock_inv (w, pc, now) \<Longrightarrow> pc t \<noteq> Outside \<Longrightarrow> t < NUM_HWTHREADS"
  by (simp add: lock_inv_def)

lemma lock_inv_word: "lock_inv (w, pc, now) \<Longrightarrow> pc t = Holding \<Longrightarrow> w = my_unique_index t"
  by (simp add: lock_inv_def)

lemma lock_inv_unique:
  assumes i: "lock_inv (w, pc, now)" and h: "pc t = Holding" "pc u = Holding"
  shows "t = u"
proof -
  have "my_unique_index t = my_unique_index u"
    using lock_inv_word [OF i h(1)] lock_inv_word [OF i h(2)] by simp
  then show ?thesis using my_unique_index_inj lock_inv_index [OF i] h by simp
qed

lemma lock_inv_step: "lock_step s s' \<Longrightarrow> lock_inv s \<Longrightarrow> lock_inv s'"
proof (induction rule: lock_step.induct)
  case (call pc t w now args)
  then show ?case by (intro lock_inv_move) (auto simp: lock_call_def)
next
  case (cas pc t to w w' p now)
  then have t: "t < NUM_HWTHREADS" by (auto intro: lock_inv_index)
  show ?case
  proof (cases "w = 0")
    case True
    then have e: "w' = my_unique_index t" "p = Holding"
      using cas by (auto simp: lock_try_def compare_and_swap_def)
    have "pc u \<noteq> Holding" for u
      using cas True my_unique_index_nonzero [of u] by (auto simp: lock_inv_def)
    with cas e t show ?thesis by (simp add: lock_inv_def)
  next
    case False
    then have "w' = w" "p = Spinning to"
      using cas by (auto simp: lock_try_def compare_and_swap_def)
    with cas t show ?thesis by (auto intro!: lock_inv_move)
  qed
next
  case (spin pc t to w now)
  have "lock_spin to w now \<noteq> Holding" by (simp add: lock_spin_def split: option.splits)
  moreover have "t < NUM_HWTHREADS" using spin by (auto intro: lock_inv_index)
  ultimately show ?case using spin by (intro lock_inv_move) auto
next
  case (unlock pc t w now)
  have "u = t" if "pc u = Holding" for u by (rule lock_inv_unique [OF unlock(2) that unlock(1)])
  then have "(pc(t := Outside)) u \<noteq> Holding" for u by auto
  with unlock(2) show ?case by (simp add: lock_inv_def)
next
  case (tick w pc now)
  then show ?case by (simp add: lock_inv_def)
qed

lemma lock_inv_reachable: "lock_step\<^sup>*\<^sup>* lock_init s \<Longrightarrow> lock_inv s"
proof (induction rule: rtranclp_induct)
  case base
  show ?case by (simp add: lock_init_def lock_inv_def)
next
  case (step s s')
  then show ?case by (blast intro: lock_inv_step)
qed

text \<open>C11: at most one hardware thread holds the kernel lock, whichever of the two calls it used,
  and the lock word is the index of the holder, or 0 when there is none.\<close>

theorem Kernel_Lock_mutex:
  assumes "lock_step\<^sup>*\<^sup>* lock_init (w, pc, now)"
  shows "(\<forall>t u. pc t = Holding \<and> pc u = Holding \<longrightarrow> t = u) \<and>
    (w = 0 \<longleftrightarrow> (\<forall>t. pc t \<noteq> Holding)) \<and> (\<forall>t. pc t = Holding \<longrightarrow> w = my_unique_index t)"
proof -
  note i = lock_inv_reachable [OF assms]
  have "w \<noteq> 0" if "pc t = Holding" for t
    using i that my_unique_index_nonzero lock_inv_index [OF i, of t] by (auto simp: lock_inv_def)
  moreover have "w \<noteq> 0 \<longrightarrow> (\<exists>t. pc t = Holding)" "\<forall>t. pc t = Holding \<longrightarrow> w = my_unique_index t"
    using i by (simp_all add: lock_inv_def)
  ultimately show ?thesis using lock_inv_unique [OF i] by blast
qed

theorem Kernel_Lock_mutex_witness:
  "\<exists>pc. lock_step\<^sup>*\<^sup>* lock_init (my_unique_index 3, pc, 0) \<and> pc 3 = Holding \<and> pc 5 = Spinning None \<and>
     (\<forall>u. pc u = Holding \<longrightarrow> u = 3)"
proof -
  let ?o = "\<lambda>_. Outside"
  have "lock_step lock_init (0, ?o(3 := lock_call None), 0)"
    unfolding lock_init_def by (rule lock_step.call) (simp_all add: NUM_HWTHREADS_def)
  moreover have "lock_step (0, ?o(3 := lock_call None), 0) (0, ?o(3 := lock_call None, 5 := lock_call None), 0)"
    by (rule lock_step.call) (simp_all add: NUM_HWTHREADS_def)
  moreover have "lock_step (0, ?o(3 := lock_call None, 5 := lock_call None), 0)
      (my_unique_index 3, ?o(3 := lock_call None, 5 := lock_call None, 3 := Holding), 0)"
    by (rule lock_step.cas [where to = None]) (simp_all add: lock_call_def lock_try_def compare_and_swap_def)
  moreover have "lock_step (my_unique_index 3, ?o(3 := lock_call None, 5 := lock_call None, 3 := Holding), 0)
      (my_unique_index 3, ?o(3 := lock_call None, 5 := lock_call None, 3 := Holding, 5 := Spinning None), 0)"
    by (rule lock_step.cas [where to = None])
      (simp_all add: lock_call_def lock_try_def compare_and_swap_def my_unique_index_nonzero NUM_HWTHREADS_def
        my_unique_index_nonzero [symmetric])
  ultimately have r: "lock_step\<^sup>*\<^sup>* lock_init
      (my_unique_index 3, ?o(3 := lock_call None, 5 := lock_call None, 3 := Holding, 5 := Spinning None), 0)"
    by (meson rtranclp.rtrancl_refl rtranclp.rtrancl_into_rtrancl)
  note m = Kernel_Lock_mutex [OF r]
  show ?thesis by (intro exI conjI, rule r) (use m in auto)
qed



end
