(* ===== verification/CnkBarrier.thy ===== *)
theory CnkBarrier
  imports CnkLock
begin

text \<open>
  The barrier of \<^verbatim>\<open>cnk/src/lock.c\<close>: one word with the generation in the upper half and the number
  of arrived threads in the lower half. The threads are interleaved; the arrival, a loop on
  load-reserved and store-conditional, is one step, and so is each look at the word while waiting.
\<close>

section \<open>The code\<close>

text \<open>The new lock word and the generation that the thread will wait to end.\<close>

definition barrier_arrive :: "u32 \<Rightarrow> u32 \<Rightarrow> u32 \<times> u32" where
  "barrier_arrive rendezvous_num w =
     (let tmp_val = w + 1;
          generation = drop_bit 16 tmp_val
      in (if tmp_val AND 0xffff = rendezvous_num then push_bit 16 (generation + 1) else tmp_val, generation))"

definition barrier_wait :: "u32 \<Rightarrow> u32 \<Rightarrow> bool" where
  "barrier_wait w generation \<longleftrightarrow> drop_bit 16 w = generation"

datatype barrier_pc = Away | Waiting u32

text \<open>
  The word and the place of every thread, with two counters per thread that the code does not
  have: how often it has entered the barrier and how often it has left it.
\<close>

record barrier_state =
  word :: u32
  place :: "nat \<Rightarrow> barrier_pc"
  entered :: "nat \<Rightarrow> nat"
  passed :: "nat \<Rightarrow> nat"

inductive Kernel_Barrier_Internal :: "nat \<Rightarrow> barrier_state \<Rightarrow> barrier_state \<Rightarrow> bool" for n where
  arrive: "t < n \<Longrightarrow> place s t = Away \<Longrightarrow> barrier_arrive (word_of_nat n) (word s) = (w, g) \<Longrightarrow>
    Kernel_Barrier_Internal n s
      (s\<lparr>word := w, place := (place s)(t := Waiting g), entered := (entered s)(t := entered s t + 1)\<rparr>)"
| spin: "t < n \<Longrightarrow> place s t = Waiting g \<Longrightarrow> barrier_wait (word s) g \<Longrightarrow> Kernel_Barrier_Internal n s s"
| leave: "t < n \<Longrightarrow> place s t = Waiting g \<Longrightarrow> \<not> barrier_wait (word s) g \<Longrightarrow>
    Kernel_Barrier_Internal n s (s\<lparr>place := (place s)(t := Away), passed := (passed s)(t := passed s t + 1)\<rparr>)"

definition barrier_init :: barrier_state where
  "barrier_init = \<lparr>word = 0, place = (\<lambda>_. Away), entered = (\<lambda>_. 0), passed = (\<lambda>_. 0)\<rparr>"

subsection \<open>\<open>Kernel_Barrier\<close>: which word, and how many threads\<close>

datatype BarrierScope_t =
    Barrier_HwthreadsInNode
  | Barrier_AppHwthreadsInNode
  | Barrier_HwthreadsInCore
  | Barrier_HwthreadsInProcess
  | Barrier_ProcessLeadersInNode
  | Barrier_ProcessLeadersInApp
  | Barrier_AppLeadersInNode
  | Barrier_HwthreadsInScheduler
  | Barrier_HwthreadsInApp
  | Barrier_AppLeaderAndAgents
  | Barrier_AppAgents

text \<open>The lock words, and the fields of the node, of the process and of the job of the caller that are read.\<close>

datatype Lock_Atomic_t =
    nodeBarrier
  | processBarrier
  | coreBarrier
  | appBarrier nat
  | agentAndAppLeaderBarrier
  | agentBarrier

record barrier_view =
  NumCoresEnabled :: u32
  ProcessLeaders :: u64
  AppLeaders :: u64
  AppAgents :: u64
  HWThread_Count :: u32
  AppStateIndex :: nat
  Active_Processes :: u32
  Active_Cores :: u32

definition popcnt64 :: "u64 \<Rightarrow> u32" where
  "popcnt64 v = word_of_nat (length (filter (bit v) [0..<64]))"

fun Kernel_Barrier_select :: "barrier_view \<Rightarrow> BarrierScope_t \<Rightarrow> Lock_Atomic_t \<times> u32" where
  "Kernel_Barrier_select v Barrier_HwthreadsInNode = (nodeBarrier, 4 * NumCoresEnabled v)"
| "Kernel_Barrier_select v Barrier_HwthreadsInScheduler = (nodeBarrier, min (4 * 17 - 2) (4 * NumCoresEnabled v))"
| "Kernel_Barrier_select v Barrier_AppHwthreadsInNode =
     (nodeBarrier, (if 16 < NumCoresEnabled v then 16 else NumCoresEnabled v) * 4)"
| "Kernel_Barrier_select v Barrier_HwthreadsInProcess = (processBarrier, HWThread_Count v)"
| "Kernel_Barrier_select v Barrier_HwthreadsInCore = (coreBarrier, 4)"
| "Kernel_Barrier_select v Barrier_ProcessLeadersInNode = (nodeBarrier, popcnt64 (ProcessLeaders v))"
| "Kernel_Barrier_select v Barrier_ProcessLeadersInApp = (appBarrier (AppStateIndex v), Active_Processes v)"
| "Kernel_Barrier_select v Barrier_AppLeadersInNode = (nodeBarrier, popcnt64 (AppLeaders v))"
| "Kernel_Barrier_select v Barrier_HwthreadsInApp = (appBarrier (AppStateIndex v), Active_Cores v * 4)"
| "Kernel_Barrier_select v Barrier_AppLeaderAndAgents = (agentAndAppLeaderBarrier, popcnt64 (AppAgents v) + 1)"
| "Kernel_Barrier_select v Barrier_AppAgents = (agentBarrier, popcnt64 (AppAgents v))"

text \<open>The assertion; then the threads of the scope meet at the word with \<^const>\<open>Kernel_Barrier_Internal\<close>.\<close>

definition Kernel_Barrier :: "barrier_view \<Rightarrow> BarrierScope_t \<Rightarrow> (Lock_Atomic_t \<times> u32) option" where
  "Kernel_Barrier v scope =
     (let (pLock, num) = Kernel_Barrier_select v scope in if num \<noteq> 0 then Some (pLock, num) else None)"

section \<open>The word\<close>

lemma unat_low_half: "unat (w AND 0xffff) = unat w mod 65536" for w :: u32
proof -
  have "w AND 0xffff = take_bit 16 w" by (simp add: take_bit_eq_mask mask_eq_exp_minus_1)
  then show ?thesis by (simp add: unsigned_take_bit_eq) (simp add: take_bit_eq_mod)
qed

lemma unat_high_half: "unat (drop_bit 16 w) = unat w div 65536" for w :: u32
  using unat_drop_bit_eq [of 16 w] by (simp only: drop_bit_eq_div) simp

lemma unat_next_generation:
  assumes "unat g < 65536"
  shows "unat (push_bit 16 (g + 1) :: u32) = (unat g + 1) mod 65536 * 65536"
proof -
  have g: "unat (g + 1) = unat g + 1" using assms by (subst unat_add_exact) simp_all
  have "unat (push_bit 16 (g + 1)) = unat (g + 1) * 65536 mod 2 ^ 32"
    unfolding push_bit_eq_mult unat_word_ariths(2) by simp
  also have "\<dots> = (unat g + 1) mod 65536 * 65536" 
    unfolding g using mod_mult_mult2 [of "unat g + 1" 65536 65536] by simp
  finally show ?thesis .
qed

lemma barrier_arrive_unat:
  assumes w: "unat w = e * 65536 + c" "e < 65536" "c < n" "n < 65536"
    and a: "barrier_arrive (word_of_nat n) w = (w', g)"
  shows "unat g = e" "unat w' = (if c + 1 = n then (e + 1) mod 65536 * 65536 else e * 65536 + (c + 1))"
proof -
  have s: "unat (w + 1) = e * 65536 + (c + 1)" using w by (subst unat_add_exact) simp_all
  have g: "g = drop_bit 16 (w + 1)" using a by (simp add: barrier_arrive_def Let_def)
  show u: "unat g = e" unfolding g unat_high_half s using w by simp
  have "unat ((w + 1) AND 0xffff) = c + 1" unfolding unat_low_half s using w by simp
  moreover have "unat (word_of_nat n :: u32) = n" using w by (simp add: unat_of_nat)
  ultimately have "((w + 1) AND 0xffff = word_of_nat n) = (c + 1 = n)" by (simp add: word_unat_eq_iff)
  then have "w' = (if c + 1 = n then push_bit 16 (g + 1) else w + 1)"
    using a by (auto simp: barrier_arrive_def Let_def)
  then show "unat w' = (if c + 1 = n then (e + 1) mod 65536 * 65536 else e * 65536 + (c + 1))"
    using unat_next_generation [of g] u w s by simp
qed

section \<open>The invariant\<close>

text \<open>
  After \<open>E\<close> completed rounds every thread has entered \<open>E\<close> or \<open>E + 1\<close> times; those that have
  entered \<open>E + 1\<close> times wait for generation \<open>E\<close> to end and are counted in the lower half.
\<close>

definition barrier_place :: "nat \<Rightarrow> barrier_pc \<Rightarrow> nat \<Rightarrow> nat \<Rightarrow> bool" where
  "barrier_place E p a q \<longleftrightarrow>
     (p = Away \<and> a = E \<and> q = E)
   \<or> (\<exists>g. p = Waiting g \<and> q + 1 = a \<and> (a = E + 1 \<or> a = E) \<and> unat g = q mod 65536)"

definition barrier_round :: "nat \<Rightarrow> nat \<Rightarrow> barrier_state \<Rightarrow> bool" where
  "barrier_round n E s \<longleftrightarrow>
     card {t. t < n \<and> entered s t = E + 1} < n
   \<and> unat (word s) = E mod 65536 * 65536 + card {t. t < n \<and> entered s t = E + 1}
   \<and> (\<forall>t < n. barrier_place E (place s t) (entered s t) (passed s t))"

definition barrier_inv :: "nat \<Rightarrow> barrier_state \<Rightarrow> bool" where
  "barrier_inv n s \<longleftrightarrow> (\<exists>E. barrier_round n E s)"

lemma barrier_inv_init: "0 < n \<Longrightarrow> barrier_inv n barrier_init"
  by (auto simp: barrier_inv_def barrier_round_def barrier_place_def barrier_init_def intro!: exI [of _ 0])

lemma barrier_place_waits:
  assumes "barrier_place E (Waiting g) a q" "unat w = E mod 65536 * 65536 + c" "c < 65536"
  shows "barrier_wait w g \<longleftrightarrow> a = E + 1"
proof -
  have "unat (drop_bit 16 w) = E mod 65536" unfolding unat_high_half assms(2) using assms(3) by simp
  then have "barrier_wait w g \<longleftrightarrow> E mod 65536 = q mod 65536"
    using assms(1) by (auto simp: barrier_wait_def barrier_place_def word_unat_eq_iff)
  moreover have "Suc q mod 65536 \<noteq> q mod 65536" by (simp add: mod_Suc)
  ultimately show ?thesis using assms(1) by (auto simp: barrier_place_def)
qed

lemma barrier_round_waits:
  assumes "barrier_round n E s" "n < 65536" "t < n" "place s t = Waiting g"
  shows "barrier_wait (word s) g \<longleftrightarrow> entered s t = E + 1"
proof (rule barrier_place_waits)
  show "barrier_place E (Waiting g) (entered s t) (passed s t)"
    using assms(1,3,4) unfolding barrier_round_def by metis
  show "unat (word s) = E mod 65536 * 65536 + card {t. t < n \<and> entered s t = E + 1}"
    using assms(1) by (simp add: barrier_round_def)
  show "card {t. t < n \<and> entered s t = E + 1} < 65536"
    using assms(1,2) by (simp add: barrier_round_def)
qed

lemma barrier_inv_arrive:
  assumes i: "barrier_round n E s" and n: "n < 65536" and t: "t < n" "place s t = Away"
    and a: "barrier_arrive (word_of_nat n) (word s) = (w, g)"
  shows "barrier_inv n
    (s\<lparr>word := w, place := (place s)(t := Waiting g), entered := (entered s)(t := entered s t + 1)\<rparr>)"
    (is "barrier_inv n ?s")
proof -
  let ?C = "\<lambda>s. {u. u < n \<and> entered s u = E + 1}"
  have r: "card (?C s) < n" "unat (word s) = E mod 65536 * 65536 + card (?C s)"
    "\<And>u. u < n \<Longrightarrow> barrier_place E (place s u) (entered s u) (passed s u)"
    using i by (simp_all add: barrier_round_def)
  have e: "entered s t = E" "passed s t = E" using r(3) [OF t(1)] t(2) by (simp_all add: barrier_place_def)
  note u = barrier_arrive_unat [OF r(2) _ r(1) n a]
  have "?C ?s = insert t (?C s)" using t e by auto
  then have c: "card (?C ?s) = card (?C s) + 1" using e by simp
  have p: "barrier_place E (place ?s v) (entered ?s v) (passed ?s v)" if "v < n" for v
    using r(3) [OF that] e u(1) by (auto simp: barrier_place_def)
  show ?thesis
  proof (cases "card (?C s) + 1 = n")
    case False
    then have "barrier_round n E ?s" unfolding barrier_round_def c using r(1) u(2) p by auto
    then show ?thesis by (auto simp: barrier_inv_def)
  next
    case True
    have "?C ?s = {..<n}" using True c by (intro card_subset_eq) auto
    then have all: "entered ?s v = E + 1" if "v < n" for v using that by blast
    have q: "barrier_place (E + 1) (place ?s v) (entered ?s v) (passed ?s v)" if "v < n" for v
      using p [OF that] all [OF that] by (auto simp: barrier_place_def)
    have none: "{v. v < n \<and> entered ?s v = E + 1 + 1} = {}" using all by force
    have "barrier_round n (E + 1) ?s"
      unfolding barrier_round_def none using t q u(2) True by (auto simp: mod_simps)
    then show ?thesis by (auto simp: barrier_inv_def)
  qed
qed

lemma barrier_inv_step:
  assumes "Kernel_Barrier_Internal n s s'" "barrier_inv n s" "n < 65536"
  shows "barrier_inv n s'"
  using assms
proof (induction rule: Kernel_Barrier_Internal.induct)
  case (arrive t s w g)
  then show ?case using barrier_inv_arrive by (auto simp: barrier_inv_def)
next
  case (leave t s g)
  then obtain E where r: "barrier_round n E s" by (auto simp: barrier_inv_def)
  then have "entered s t \<noteq> E + 1"
    using barrier_round_waits [OF r] leave by simp
  moreover have p: "\<forall>u < n. barrier_place E (place s u) (entered s u) (passed s u)"
    using r by (simp add: barrier_round_def)
  ultimately have "barrier_place E Away (entered s t) (passed s t + 1)"
    using leave(1,2) by (auto simp: barrier_place_def)
  then have "barrier_round n E (s\<lparr>place := (place s)(t := Away), passed := (passed s)(t := passed s t + 1)\<rparr>)"
    using r p by (simp add: barrier_round_def)
  then show ?case by (auto simp: barrier_inv_def)
qed

lemma barrier_inv_reachable:
  "(Kernel_Barrier_Internal n)\<^sup>*\<^sup>* barrier_init s \<Longrightarrow> 0 < n \<Longrightarrow> n < 65536 \<Longrightarrow> barrier_inv n s"
  by (induction rule: rtranclp_induct) (auto intro: barrier_inv_init barrier_inv_step)

section \<open>What the barrier promises\<close>

text \<open>C12: no thread leaves the barrier for the k-th time before every thread has entered it k
  times, and none enters more than one round ahead: in every reachable state of \<open>n\<close> threads, with
  the 16-bit generation free to wrap around, what one has passed every other has entered.\<close>
theorem Kernel_Barrier_separates:
  assumes "(Kernel_Barrier_Internal n)\<^sup>*\<^sup>* barrier_init s" "n < 65536" "t < n" "u < n"
  shows "passed s t \<le> entered s u \<and> entered s u \<le> passed s t + 2 \<and> entered s u \<le> entered s t + 1"
proof -
  obtain E where "barrier_round n E s"
    using barrier_inv_reachable [OF assms(1)] assms(2,3) by (auto simp: barrier_inv_def)
  then have "barrier_place E (place s t) (entered s t) (passed s t)"
    "barrier_place E (place s u) (entered s u) (passed s u)"
    using assms(3,4) by (auto simp: barrier_round_def)
  then show ?thesis by (auto simp: barrier_place_def)
qed

theorem Kernel_Barrier_separates_witness: "passed barrier_init 0 \<le> entered barrier_init 1 \<and>
    entered barrier_init 1 \<le> passed barrier_init 0 + 2 \<and> entered barrier_init 1 \<le> entered barrier_init 0 + 1"
  by (rule Kernel_Barrier_separates [of 2]) simp_all

text \<open>C13: the barrier does not get stuck. Whenever all threads are waiting in it, one of them sees
  a new generation, so that a state in which nobody can enter or leave is never reached.\<close>
theorem Kernel_Barrier_releases:
  assumes "(Kernel_Barrier_Internal n)\<^sup>*\<^sup>* barrier_init s" "n < 65536" "0 < n"
    "\<forall>t < n. place s t \<noteq> Away"
  shows "\<exists>t g. t < n \<and> place s t = Waiting g \<and> \<not> barrier_wait (word s) g"
proof -
  obtain E where r: "barrier_round n E s"
    using barrier_inv_reachable [OF assms(1)] assms(2,3) by (auto simp: barrier_inv_def)
  have "\<not> (\<forall>t < n. entered s t = E + 1)"
  proof
    assume "\<forall>t < n. entered s t = E + 1"
    then have "{t. t < n \<and> entered s t = E + 1} = {..<n}" by auto
    then show False using r by (simp add: barrier_round_def)
  qed
  then obtain t g where t: "t < n" "entered s t \<noteq> E + 1" "place s t = Waiting g"
    using assms(4) by (metis barrier_pc.exhaust)
  then have "\<not> barrier_wait (word s) g"
    using barrier_round_waits [OF r] assms(2) by simp
  then show ?thesis using t by blast
qed

theorem Kernel_Barrier_releases_witness:
  "\<exists>t g. t < 1 \<and> place (barrier_init\<lparr>word := 65536, place := (\<lambda>_. Away)(0 := Waiting 0), entered := (\<lambda>_. 0)(0 := 1)\<rparr>) t
     = Waiting g \<and> \<not> barrier_wait 65536 g"
proof -
  let ?s = "barrier_init\<lparr>word := 65536, place := (\<lambda>_. Away)(0 := Waiting 0), entered := (\<lambda>_. 0)(0 := 1)\<rparr>"
  have "(Kernel_Barrier_Internal 1)\<^sup>*\<^sup>* barrier_init ?s"
    using arrive [of 0 1 barrier_init 65536 0]
    by (auto simp: barrier_init_def barrier_arrive_def intro!: r_into_rtranclp)
  from Kernel_Barrier_releases [OF this] show ?thesis by simp
qed

section \<open>Every scope fits the word\<close>

text \<open>What the node guarantees of the counts: at most 17 cores with 4 hardware threads each.\<close>

definition barrier_view_ok :: "barrier_view \<Rightarrow> bool" where
  "barrier_view_ok v \<longleftrightarrow> NumCoresEnabled v \<le> 17 \<and> HWThread_Count v \<le> 68 \<and> Active_Processes v \<le> 68 \<and> Active_Cores v \<le> 17"

lemma popcnt64_le: "popcnt64 v \<le> 64"
proof -
  have "length (filter (bit v) [0..<64]) \<le> 64" using length_filter_le [of "bit v" "[0..<64]"] by simp
  then show ?thesis by (simp add: popcnt64_def word_le_nat_alt unat_of_nat)
qed

lemma word_quadruple_le: "c \<le> 17 \<Longrightarrow> 4 * c \<le> (68 :: u32)"
  by (simp add: word_le_nat_alt unat_word_ariths)



end
