(* ===== verification/CnkSched.thy ===== *)
theory CnkSched
  imports CnkLock "HOL-Library.Multiset"
begin

text \<open>
  The scheduler of a hardware thread: the order of its slots by priority
  (\<^verbatim>\<open>KThread_refreshPriorityData\<close> of \<^verbatim>\<open>cnk/src/kthread.c\<close>) and the choice of the thread that runs
  next with the round robin among equals (\<^verbatim>\<open>Scheduler\<close> of \<^verbatim>\<open>cnk/src/sched.c\<close>). The state of the
  node that the thread theories share is declared here.
\<close>

section \<open>The state of the node\<close>

definition CONFIG_AFFIN_SLOTS_PER_HWTHREAD :: nat where
  "CONFIG_AFFIN_SLOTS_PER_HWTHREAD = 5"

definition CONFIG_SCHED_KERNEL_SLOT_INDEX :: nat where
  "CONFIG_SCHED_KERNEL_SLOT_INDEX = CONFIG_AFFIN_SLOTS_PER_HWTHREAD"

definition SCHED_STATE_RUN :: u32 where "SCHED_STATE_RUN = 0"
definition SCHED_STATE_FREE :: u32 where "SCHED_STATE_FREE = 0x1"
definition SCHED_STATE_SLEEP :: u32 where "SCHED_STATE_SLEEP = 0x2"
definition SCHED_STATE_FUTEX :: u32 where "SCHED_STATE_FUTEX = 0x4"
definition SCHED_STATE_RESET :: u32 where "SCHED_STATE_RESET = 0x8"
definition SCHED_STATE_HOLD :: u32 where "SCHED_STATE_HOLD = 0x10"
definition SCHED_STATE_APPEXIT :: u32 where "SCHED_STATE_APPEXIT = 0x20"
definition SCHED_STATE_POOF :: u32 where "SCHED_STATE_POOF = 0x40"
definition SCHED_STATE_SUSPEND :: u32 where "SCHED_STATE_SUSPEND = 0x80"
definition SCHED_STATE_FLOCK :: u32 where "SCHED_STATE_FLOCK = 0x100"
definition SCHED_STATE_RESERVED :: u32 where "SCHED_STATE_RESERVED = 0x200"

lemmas sched_state_defs =
  SCHED_STATE_RUN_def SCHED_STATE_FREE_def SCHED_STATE_SLEEP_def SCHED_STATE_FUTEX_def SCHED_STATE_RESET_def
  SCHED_STATE_HOLD_def SCHED_STATE_APPEXIT_def SCHED_STATE_POOF_def SCHED_STATE_SUSPEND_def
  SCHED_STATE_FLOCK_def SCHED_STATE_RESERVED_def

text \<open>
  Threads, hardware threads and processes are numbers. \<open>MigrationData\<close> is \<open>None\<close> for the value 0
  of the code's double word and otherwise the target hardware thread and slot.
\<close>

record KThread =
  State :: u32
  ProcessorID :: nat
  Priority :: u32
  Policy :: u32
  SlotIndex :: nat
  pHWThread :: nat
  pAppProc :: ptr
  Pending :: u64
  SchedulerDivert :: u64
  SigInfoSigno :: u32
  MigrationData :: "(nat \<times> nat) option"
  isProcessLeader :: bool

record HWThreadState =
  SchedSlot :: "nat list"
  SchedOrderEntry :: "u8 list"
  pCurrentThread :: nat
  priorityRefreshPending :: bool
  suspended :: bool
  pCommThread :: ptr
  SlotsAllocated :: u64
  SPIinfo :: u64

section \<open>The order of the slots\<close>

text \<open>The priority in the upper half and the slot in the lower half.\<close>

definition priorityList :: "(nat \<Rightarrow> KThread) \<Rightarrow> HWThreadState \<Rightarrow> u64 list" where
  "priorityList kthr h =
     map (\<lambda>index. push_bit 32 (scast (Priority (kthr (SchedSlot h ! index)))) + word_of_nat index)
       [0..<CONFIG_AFFIN_SLOTS_PER_HWTHREAD]"

text \<open>The inner loop of the insertion sort: \<open>index2\<close> runs down to the place of \<open>cur_val\<close>.\<close>

fun insertion_loop :: "u64 list \<Rightarrow> u64 \<Rightarrow> nat \<Rightarrow> u64 list" where
  "insertion_loop xs cur_val 0 = xs[0 := cur_val]"
| "insertion_loop xs cur_val (Suc i) =
     (let temp_val = xs ! i in
      if temp_val < cur_val then insertion_loop (xs[Suc i := temp_val]) cur_val i
      else xs[Suc i := cur_val])"

definition insertion_step :: "nat \<Rightarrow> u64 \<times> u64 list \<Rightarrow> u64 \<times> u64 list" where
  "insertion_step index = (\<lambda>(prev_val, xs).
     (let cur_val = xs ! index in
      if prev_val < cur_val then (prev_val, insertion_loop (xs[index := prev_val]) cur_val (index - 1))
      else (cur_val, xs)))"

definition insertion_sort :: "u64 list \<Rightarrow> u64 list" where
  "insertion_sort xs = snd (fold insertion_step [1..<length xs] (xs ! 0, xs))"

text \<open>The bytes of the order: the slot in the low nibble, the number of the priority in the high one.\<close>

fun order_entries :: "u32 \<Rightarrow> u32 \<Rightarrow> u64 list \<Rightarrow> u8 list" where
  "order_entries prevPriority relativePriority [] = []"
| "order_entries prevPriority relativePriority (v # vs) =
     (let curPriority = ucast (drop_bit 32 v);
          relativePriority = (if prevPriority \<noteq> curPriority then relativePriority + 0x10 else relativePriority)
      in ucast ((v AND 0x0F) + ucast relativePriority) # order_entries curPriority relativePriority vs)"

definition KThread_refreshPriorityData :: "(nat \<Rightarrow> KThread) \<Rightarrow> HWThreadState \<Rightarrow> HWThreadState" where
  "KThread_refreshPriorityData kthr h =
     (let xs = insertion_sort (priorityList kthr h);
          loc = order_entries (ucast (drop_bit 32 (xs ! 0))) 0 xs @ [0, 0, 0]
      in if SchedOrderEntry h \<noteq> loc then h\<lparr>SchedOrderEntry := loc\<rparr> else h)"

section \<open>The choice of the next thread\<close>

definition order_slot :: "u8 \<Rightarrow> nat" where
  "order_slot e = unat (e AND 0xF)"

definition order_group :: "u8 \<Rightarrow> u8" where
  "order_group e = e AND 0xF0"

function round_robin :: "nat \<Rightarrow> u8 \<Rightarrow> u8 list \<Rightarrow> nat \<Rightarrow> u8 list" where
  "round_robin slotIndex priorityGroup temp rrobin =
     (if rrobin < CONFIG_AFFIN_SLOTS_PER_HWTHREAD \<and> priorityGroup = order_group (temp ! rrobin) then
        round_robin slotIndex priorityGroup
          (temp[rrobin - 1 := temp ! rrobin, rrobin := word_of_nat slotIndex + priorityGroup]) (rrobin + 1)
      else temp)"
  by pat_completeness auto

termination
  by (relation "measure (\<lambda>(_, _, _, rrobin). CONFIG_AFFIN_SLOTS_PER_HWTHREAD - rrobin)") auto

declare round_robin.simps [simp del]

text \<open>
  One pass over the order: the slot that is dispatched and the order afterwards, or nothing when
  no slot holds a runnable thread and the hardware thread waits.
\<close>

definition dispatch :: "(nat \<Rightarrow> bool) \<Rightarrow> u8 list \<Rightarrow> (nat \<times> u8 list) option" where
  "dispatch run order =
     (case find (\<lambda>thread_select. run (order_slot (order ! thread_select))) [0..<CONFIG_AFFIN_SLOTS_PER_HWTHREAD] of
        None \<Rightarrow> None
      | Some thread_select \<Rightarrow>
          (let slotIndex = order_slot (order ! thread_select);
               priorityGroup = order_group (order ! thread_select)
           in Some (slotIndex, round_robin slotIndex priorityGroup order (thread_select + 1))))"

datatype sched_outcome = Launch nat | Wait | ProcessExit u32

definition SCHED_DIVERT_TOOL :: u64 where "SCHED_DIVERT_TOOL = 1"
definition SCHED_DIVERT_TERMINATE :: u64 where "SCHED_DIVERT_TERMINATE = 2"
definition SCHED_DIVERT_COREDUMP :: u64 where "SCHED_DIVERT_COREDUMP = 4"

text \<open>
  The diversions of the thread that enters the scheduler: the code left for a signal that ends
  the process, and the thread with its flags cleared.
\<close>

definition Scheduler_divert :: "KThread \<Rightarrow> KThread \<times> u32 option" where
  "Scheduler_divert k =
     (let k = (if SchedulerDivert k AND SCHED_DIVERT_TOOL \<noteq> 0
               then k\<lparr>SchedulerDivert := SchedulerDivert k AND NOT SCHED_DIVERT_TOOL\<rparr> else k)
      in if SchedulerDivert k AND (SCHED_DIVERT_TERMINATE OR SCHED_DIVERT_COREDUMP) \<noteq> 0
         then (k\<lparr>SchedulerDivert := SchedulerDivert k AND NOT (SCHED_DIVERT_TERMINATE OR SCHED_DIVERT_COREDUMP)\<rparr>,
               Some (SigInfoSigno k AND 0x7F))
         else (k, None))"

definition Scheduler :: "(nat \<Rightarrow> KThread) \<Rightarrow> HWThreadState \<Rightarrow> (nat \<Rightarrow> KThread) \<times> HWThreadState \<times> sched_outcome" where
  "Scheduler kthr h =
     (case Scheduler_divert (kthr (pCurrentThread h)) of
        (k, Some sig) \<Rightarrow> (kthr(pCurrentThread h := k), h, ProcessExit sig)
      | (k, None) \<Rightarrow>
          (let kthr = kthr(pCurrentThread h := k);
               h = h\<lparr>pCurrentThread := SchedSlot h ! CONFIG_SCHED_KERNEL_SLOT_INDEX\<rparr>;
               h = (if priorityRefreshPending h
                    then KThread_refreshPriorityData kthr (h\<lparr>priorityRefreshPending := False\<rparr>) else h)
           in case dispatch (\<lambda>s. State (kthr (SchedSlot h ! s)) = SCHED_STATE_RUN) (SchedOrderEntry h) of
                None \<Rightarrow> (kthr, h, Wait)
              | Some (slot, order) \<Rightarrow>
                  (kthr, h\<lparr>SchedOrderEntry := order, pCurrentThread := SchedSlot h ! slot\<rparr>,
                   Launch (SchedSlot h ! slot))))"

section \<open>The insertion sort\<close>

lemma insertion_loop_insort:
  "insertion_loop (rev ys @ x # zs) cur (length ys) = rev (insort cur ys) @ zs"
proof (induction ys arbitrary: x zs)
  case Nil
  then show ?case by simp
next
  case (Cons y ys)
  then show ?case by (auto simp: nth_append list_update_append)
qed

lemma insertion_step_insort:
  assumes "ys \<noteq> []"
  shows "insertion_step (length ys) (hd ys, rev ys @ z # zs) =
    (hd (insort z ys), rev (insort z ys) @ zs)"
proof -
  obtain p ps where "ys = p # ps" using assms by (cases ys) auto
  then show ?thesis
    using insertion_loop_insort [of ps p "p # zs" z]
    by (auto simp: insertion_step_def nth_append list_update_append)
qed

lemma insertion_steps_insort:
  "ys \<noteq> [] \<Longrightarrow> fold insertion_step [length ys..<length ys + length zs] (hd ys, rev ys @ zs) =
     (hd (fold insort zs ys), rev (fold insort zs ys))"
proof (induction zs arbitrary: ys)
  case Nil
  then show ?case by simp
next
  case (Cons z zs)
  have ne: "insort z ys \<noteq> []" by (metis insort_not_Nil)
  have "[length ys..<length ys + length (z # zs)] =
      length ys # [length (insort z ys)..<length (insort z ys) + length zs]"
    using upt_conv_Cons [of "length ys" "length ys + length (z # zs)"] by (simp del: upt_Suc)
  with Cons.IH [OF ne] Cons.prems show ?case
    by (simp add: insertion_step_insort del: upt_Suc)
qed

lemma sorted_fold_insort: "sorted ys \<Longrightarrow> sorted (fold insort zs ys)"
  by (induction zs arbitrary: ys) (simp_all add: sorted_insort)

lemma mset_fold_insort: "mset (fold insort zs ys) = mset zs + mset ys"
  by (induction zs arbitrary: ys) simp_all

lemma insertion_sort_sort:
  assumes "xs \<noteq> []"
  shows "insertion_sort xs = rev (sort xs)"
proof -
  obtain y zs where xs: "xs = y # zs" using assms by (cases xs) auto
  have "sort xs = fold insort zs [y]"
    by (rule properties_for_sort) (simp_all add: mset_fold_insort sorted_fold_insort xs)
  with insertion_steps_insort [of "[y]" zs] show ?thesis
    by (simp add: insertion_sort_def xs)
qed

section \<open>The order that the refresh computes\<close>

text \<open>
  An order of the five slots: every slot occurs once, a slot never comes before one of higher
  priority, and two slots carry the same group exactly when their priorities are equal.
\<close>

definition before :: "(nat \<Rightarrow> nat) \<Rightarrow> u8 \<Rightarrow> u8 \<Rightarrow> bool" where
  "before prio e f \<longleftrightarrow> prio (order_slot f) \<le> prio (order_slot e) \<and>
     (order_group e = order_group f \<longleftrightarrow> prio (order_slot e) = prio (order_slot f))"

definition sched_order_ok :: "(nat \<Rightarrow> nat) \<Rightarrow> u8 list \<Rightarrow> bool" where
  "sched_order_ok prio order \<longleftrightarrow> length order = 8 \<and>
     mset (map order_slot (take 5 order)) = mset [0..<5] \<and> sorted_wrt (before prio) (take 5 order)"

definition slot_prio :: "(nat \<Rightarrow> KThread) \<Rightarrow> HWThreadState \<Rightarrow> nat \<Rightarrow> nat" where
  "slot_prio kthr h s = unat (Priority (kthr (SchedSlot h ! s)))"

subsection \<open>The packed values\<close>

lemma unat_less_pow: "unat w < 2 ^ LENGTH('a)" for w :: "'a::len word"
  by (rule unsigned_less)

lemma unat_low_nibble: "unat (v AND 0xF) = unat v mod 16" for v :: "'a::len word"
proof -
  have "(0xF :: 'a word) = mask 4" by (simp add: mask_eq_exp_minus_1)
  then have "v AND 0xF = take_bit 4 v" by (simp add: take_bit_eq_mask)
  then show ?thesis by (simp only: unsigned_take_bit_eq) (simp add: take_bit_eq_mod)
qed

lemma unat_group: "unat (order_group e) = unat e div 16 * 16"
proof -
  have "order_group e = e AND NOT (mask 4)"
    unfolding order_group_def by (rule arg_cong [of _ _ "\<lambda>m. e AND m"]) (simp add: mask_eq_exp_minus_1)
  then show ?thesis using unat_clear_mask [of e 4] by simp
qed

lemma order_slot_unat: "order_slot e = unat e mod 16"
  by (simp add: order_slot_def unat_low_nibble)

lemma entry_parts: "word_of_nat (order_slot e) + order_group e = e"
proof -
  have "unat (word_of_nat (order_slot e) + order_group e) = unat e"
    using mod_mult_div_eq [of "unat e" 16] unat_less_pow [of e]
    by (subst unat_add_exact) (simp_all add: unat_of_nat order_slot_unat unat_group ac_simps)
  then show ?thesis by (simp only: word_unat_eq_iff)
qed

lemma unat_packed:
  fixes p :: u32
  assumes "i < 16"
  shows "unat (push_bit 32 (scast p) + word_of_nat i :: u64) = unat p * 2 ^ 32 + i"
proof -
  have "push_bit 32 (scast p) = (push_bit 32 (ucast p) :: u64)"
    by (rule bit_word_eqI) (auto simp: bit_simps)
  moreover have "unat (push_bit 32 (ucast p) :: u64) = unat p * 2 ^ 32"
    using unat_less_pow [of p]
    by (simp add: push_bit_eq_mult unat_word_ariths unsigned_ucast_eq take_bit_eq_mod unat_power_of_2)
  ultimately show ?thesis
    using assms unat_less_pow [of p] by (subst unat_add_exact) (simp_all add: unat_of_nat)
qed

definition packed_prio :: "u64 \<Rightarrow> u32" where
  "packed_prio v = ucast (drop_bit 32 v)"

lemma unat_packed_prio: "unat (packed_prio v) = unat v div 2 ^ 32"
proof -
  have "unat v div 2 ^ 32 < 2 ^ 32" using unat_less_pow [of v] by (simp add: less_mult_imp_div_less)
  then show ?thesis
    by (simp add: packed_prio_def unsigned_ucast_eq unat_div drop_bit_eq_div take_bit_eq_mod)
qed

subsection \<open>The entries\<close>

definition entry :: "u64 \<Rightarrow> u32 \<Rightarrow> u8" where
  "entry v rel = ucast ((v AND 0x0F) + ucast rel)"

lemma unat_entry:
  assumes "unat rel = 16 * r" "r < 16"
  shows "unat (entry v rel) = unat v mod 16 + 16 * r"
proof -
  have "unat v mod 16 < 16" by simp
  with assms have "unat v mod 16 + 16 * r < 256" by linarith
  moreover have "unat (ucast rel :: u64) = 16 * r"
    using assms unat_less_pow [of rel] by (simp add: unsigned_ucast_eq take_bit_eq_mod)
  moreover from calculation have "unat ((v AND 0x0F) + ucast rel) = unat v mod 16 + 16 * r"
    by (subst unat_add_exact) (simp_all add: unat_low_nibble)
  ultimately show ?thesis by (simp add: entry_def unsigned_ucast_eq take_bit_eq_mod)
qed

lemma entry_slot_group:
  assumes "unat rel = 16 * r" "r < 16"
  shows "order_slot (entry v rel) = unat v mod 16" "unat (order_group (entry v rel)) = 16 * r"
  using unat_entry [OF assms, of v] by (simp_all add: order_slot_unat unat_group)

lemma order_entries_Cons:
  "order_entries prev rel (v # vs) =
     (let rel' = (if prev \<noteq> packed_prio v then rel + 0x10 else rel)
      in entry v rel' # order_entries (packed_prio v) rel' vs)"
  by (simp add: Let_def entry_def packed_prio_def)

lemma length_order_entries [simp]: "length (order_entries prev rel vs) = length vs"
  by (induction vs arbitrary: prev rel) (simp_all add: Let_def)

text \<open>
  Along values that descend, the group grows exactly where the priority changes: the groups of
  later entries are above the one before the list unless the priority is still the same.
\<close>

lemma order_entries_groups:
  assumes "sorted_wrt (\<lambda>v w. packed_prio w \<le> packed_prio v) vs" "\<forall>v\<in>set vs. packed_prio v \<le> prev"
    "unat rel = 16 * r" "r + length vs < 16"
  shows "(\<forall>(e, v)\<in>set (zip (order_entries prev rel vs) vs). order_slot e = unat v mod 16 \<and>
      16 * r \<le> unat (order_group e) \<and> (unat (order_group e) = 16 * r \<longleftrightarrow> packed_prio v = prev)) \<and>
    sorted_wrt (\<lambda>(e, v) (f, w). order_group e = order_group f \<longleftrightarrow> packed_prio v = packed_prio w)
      (zip (order_entries prev rel vs) vs)"
  using assms
proof (induction vs arbitrary: prev rel r)
  case Nil
  then show ?case by simp
next
  case (Cons v vs)
  define rel' where "rel' = (if prev \<noteq> packed_prio v then rel + 0x10 else rel)"
  define r' where "r' = (if prev \<noteq> packed_prio v then r + 1 else r)"
  have r': "unat rel' = 16 * r'" "r' + length vs < 16"
    using Cons.prems unfolding rel'_def r'_def by (auto simp: unat_add_exact)
  let ?z = "zip (order_entries (packed_prio v) rel' vs) vs"
  have IH: "\<forall>(e, w)\<in>set ?z. order_slot e = unat w mod 16 \<and> 16 * r' \<le> unat (order_group e) \<and>
        (unat (order_group e) = 16 * r' \<longleftrightarrow> packed_prio w = packed_prio v)"
      "sorted_wrt (\<lambda>(e, v) (f, w). order_group e = order_group f \<longleftrightarrow> packed_prio v = packed_prio w) ?z"
    using Cons.IH [of "packed_prio v" rel' r'] Cons.prems r' by auto
  have z: "zip (order_entries prev rel (v # vs)) (v # vs) = (entry v rel', v) # ?z"
    unfolding order_entries_Cons rel'_def by (simp add: Let_def)
  have e: "order_slot (entry v rel') = unat v mod 16" "unat (order_group (entry v rel')) = 16 * r'"
    using entry_slot_group [of rel' r' v] r' by auto
  have below: "packed_prio w \<le> packed_prio v \<and> packed_prio v \<le> prev" if "(f, w) \<in> set ?z" for f w
    using that Cons.prems(1,2) by (auto dest: set_zip_rightD)
  have 1: "16 * r \<le> unat (order_group f) \<and> (unat (order_group f) = 16 * r \<longleftrightarrow> packed_prio w = prev)"
    if m: "(f, w) \<in> set ?z" for f w
  proof -
    have "16 * r' \<le> unat (order_group f)" "unat (order_group f) = 16 * r' \<longleftrightarrow> packed_prio w = packed_prio v"
      using IH(1) m by auto
    moreover have "packed_prio w \<noteq> prev" if "prev \<noteq> packed_prio v"
      using below [OF m] that by auto
    ultimately show ?thesis by (auto simp: r'_def split: if_splits)
  qed
  have 2: "order_group (entry v rel') = order_group f \<longleftrightarrow> packed_prio v = packed_prio w"
    if m: "(f, w) \<in> set ?z" for f w
  proof -
    have "unat (order_group f) = 16 * r' \<longleftrightarrow> packed_prio w = packed_prio v" using IH(1) m by auto
    then show ?thesis unfolding word_unat_eq_iff [of "order_group _"] e(2) by (simp only: eq_commute)
  qed
  have 3: "16 * r \<le> unat (order_group (entry v rel')) \<and>
      (unat (order_group (entry v rel')) = 16 * r \<longleftrightarrow> packed_prio v = prev)"
    unfolding e(2) r'_def by auto
  have 4: "\<forall>(f, w)\<in>set ?z. order_slot f = unat w mod 16 \<and> 16 * r \<le> unat (order_group f) \<and>
      (unat (order_group f) = 16 * r \<longleftrightarrow> packed_prio w = prev)"
    using IH(1) 1 by blast
  have 5: "\<forall>y\<in>set ?z. case y of (f, w) \<Rightarrow> order_group (entry v rel') = order_group f \<longleftrightarrow> packed_prio v = packed_prio w"
    using 2 by blast
  show ?case
    unfolding z using 3 4 5 e(1) IH(2) by (simp only: list.set ball_simps sorted_wrt.simps split_conv simp_thms)
qed

subsection \<open>The refreshed order\<close>

lemma priorityList_member:
  assumes "v \<in> set (priorityList kthr h)"
  shows "packed_prio v = Priority (kthr (SchedSlot h ! (unat v mod 16)))"
proof -
  obtain i where i: "i < 5" "v = push_bit 32 (scast (Priority (kthr (SchedSlot h ! i)))) + word_of_nat i"
    using assms by (auto simp: priorityList_def CONFIG_AFFIN_SLOTS_PER_HWTHREAD_def)
  have v: "unat v = unat (Priority (kthr (SchedSlot h ! i))) * 2 ^ 32 + i"
    using i by (simp add: unat_packed)
  have "unat v mod 16 = i" "unat v div 2 ^ 32 = unat (Priority (kthr (SchedSlot h ! i)))"
    using i(1) unfolding v by (auto simp: mod_add_eq [symmetric] mod_mult_eq [symmetric])
  then show ?thesis by (simp only: word_unat_eq_iff unat_packed_prio)
qed

lemma priorityList_slots: "map (\<lambda>v. unat v mod 16) (priorityList kthr h) = [0..<5]"
proof -
  have "unat (push_bit 32 (scast p) + word_of_nat i :: u64) mod 16 = i" if "i < 5" for p :: u32 and i
    using that by (simp add: unat_packed mod_add_eq [symmetric] mod_mult_eq [symmetric])
  then show ?thesis
    by (intro nth_equalityI) (simp_all add: priorityList_def CONFIG_AFFIN_SLOTS_PER_HWTHREAD_def)
qed

lemma packed_prio_mono: "v \<le> w \<Longrightarrow> packed_prio v \<le> packed_prio w"
  by (simp add: word_le_nat_alt unat_packed_prio div_le_mono)

text \<open>The values in the order of the sort.\<close>

lemma refreshed_values:
  fixes kthr h
  defines "vs \<equiv> insertion_sort (priorityList kthr h)"
  shows "length vs = 5" "set vs = set (priorityList kthr h)"
    "mset (map (\<lambda>v. unat v mod 16) vs) = mset [0..<5]"
    "sorted_wrt (\<lambda>v w. packed_prio w \<le> packed_prio v) vs"
proof -
  let ?xs = "priorityList kthr h"
  have l: "length ?xs = 5" by (simp add: priorityList_def CONFIG_AFFIN_SLOTS_PER_HWTHREAD_def)
  have vs: "vs = rev (sort ?xs)"
    unfolding vs_def by (rule insertion_sort_sort) (use l in auto)
  show "length vs = 5" "set vs = set ?xs" using l by (simp_all add: vs)
  have "mset (map (\<lambda>v. unat v mod 16) vs) = mset (map (\<lambda>v. unat v mod 16) ?xs)" by (simp add: vs)
  then show "mset (map (\<lambda>v. unat v mod 16) vs) = mset [0..<5]" by (simp only: priorityList_slots)
  have "sorted_wrt (\<lambda>v w. w \<le> v) vs"
    unfolding vs sorted_wrt_rev by simp
  then show "sorted_wrt (\<lambda>v w. packed_prio w \<le> packed_prio v) vs"
    by (rule sorted_wrt_mono_rel [rotated]) (simp add: packed_prio_mono)
qed

lemma refresh_fields:
  "SchedSlot (KThread_refreshPriorityData kthr h) = SchedSlot h"
  "pCurrentThread (KThread_refreshPriorityData kthr h) = pCurrentThread h"
  "SPIinfo (KThread_refreshPriorityData kthr h) = SPIinfo h"
  "slot_prio kthr (KThread_refreshPriorityData kthr h) = slot_prio kthr h"
  by (simp_all add: KThread_refreshPriorityData_def slot_prio_def Let_def fun_eq_iff)

lemma refresh_order_ok:
  "sched_order_ok (slot_prio kthr h) (SchedOrderEntry (KThread_refreshPriorityData kthr h))"
proof -
  define vs where "vs = insertion_sort (priorityList kthr h)"
  define es where "es = order_entries (packed_prio (vs ! 0)) 0 vs"
  note vs = refreshed_values [of kthr h, folded vs_def]
  have le: "packed_prio (vs ! j) \<le> packed_prio (vs ! i)" if "i \<le> j" "j < 5" for i j
    using vs(4) that vs(1) by (cases "i = j") (auto simp: sorted_wrt_iff_nth_less)
  have "\<forall>v\<in>set vs. packed_prio v \<le> packed_prio (vs ! 0)"
    using le vs(1) by (auto simp: in_set_conv_nth)
  from order_entries_groups [of vs "packed_prio (vs ! 0)" 0 0, OF vs(4) this, folded es_def] vs(1)
  have es: "\<forall>(e, v)\<in>set (zip es vs). order_slot e = unat v mod 16"
      "sorted_wrt (\<lambda>(e, v) (f, w). order_group e = order_group f \<longleftrightarrow> packed_prio v = packed_prio w) (zip es vs)"
    by auto
  have l: "length es = 5" by (simp add: es_def vs(1))
  have slot: "order_slot (es ! i) = unat (vs ! i) mod 16" if "i < 5" for i
    using es(1) that l vs(1) by (force simp: set_zip)
  have prio: "slot_prio kthr h (order_slot (es ! i)) = unat (packed_prio (vs ! i))" if "i < 5" for i
    using priorityList_member [of "vs ! i" kthr h] that vs(1,2) slot [OF that] nth_mem [of i vs]
    by (simp add: slot_prio_def)
  have "before (slot_prio kthr h) (es ! i) (es ! j)" if "i < j" "j < 5" for i j
  proof -
    have "order_group (es ! i) = order_group (es ! j) \<longleftrightarrow> packed_prio (vs ! i) = packed_prio (vs ! j)"
      using es(2) that l vs(1) by (auto simp: sorted_wrt_iff_nth_less)
    then show ?thesis
      using that le [of i j] by (simp add: before_def prio word_le_nat_alt word_unat_eq_iff [of "packed_prio _"])
  qed
  then have "sorted_wrt (before (slot_prio kthr h)) es"
    using l by (simp add: sorted_wrt_iff_nth_less)
  moreover have "map order_slot es = map (\<lambda>v. unat v mod 16) vs"
    by (rule nth_equalityI) (use l vs(1) slot in auto)
  moreover have "SchedOrderEntry (KThread_refreshPriorityData kthr h) = es @ [0, 0, 0]"
    by (simp add: KThread_refreshPriorityData_def Let_def es_def vs_def packed_prio_def)
  ultimately show ?thesis using l vs(3) by (simp add: sched_order_ok_def)
qed

section \<open>The dispatch\<close>

lemma round_robin_rotate:
  "length A + length D = 4 \<Longrightarrow>
   round_robin (order_slot e) (order_group e) (A @ e # D @ Z) (length A + 1) =
     A @ takeWhile (\<lambda>f. order_group f = order_group e) D @ e # dropWhile (\<lambda>f. order_group f = order_group e) D @ Z"
proof (induction D arbitrary: A)
  case Nil
  then show ?case
    by (simp add: round_robin.simps CONFIG_AFFIN_SLOTS_PER_HWTHREAD_def)
next
  case (Cons f D)
  have nth: "(A @ e # (f # D) @ Z) ! (length A + 1) = f" by (simp add: nth_append)
  have upd: "(A @ e # (f # D) @ Z)[length A + 1 - 1 := f, length A + 1 := word_of_nat (order_slot e) + order_group e]
      = (A @ [f]) @ e # D @ Z"
    by (simp add: list_update_append entry_parts)
  show ?case
  proof (cases "order_group f = order_group e")
    case True
    have "round_robin (order_slot e) (order_group e) (A @ e # (f # D) @ Z) (length A + 1) =
        round_robin (order_slot e) (order_group e) ((A @ [f]) @ e # D @ Z) (length (A @ [f]) + 1)"
      by (subst round_robin.simps, unfold nth upd)
        (use Cons.prems True in \<open>simp add: CONFIG_AFFIN_SLOTS_PER_HWTHREAD_def\<close>)
    also have "\<dots> = (A @ [f]) @ takeWhile (\<lambda>f. order_group f = order_group e) D @ e #
        dropWhile (\<lambda>f. order_group f = order_group e) D @ Z"
      by (rule Cons.IH) (use Cons.prems in simp)
    finally show ?thesis using True by simp
  next
    case False
    then show ?thesis
      by (subst round_robin.simps, unfold nth) simp
  qed
qed

lemma dispatch_None:
  "dispatch run order = None \<longleftrightarrow> (\<forall>i<5. \<not> run (order_slot (order ! i)))"
  by (auto simp: dispatch_def Let_def find_None_iff find_Some_iff CONFIG_AFFIN_SLOTS_PER_HWTHREAD_def split: option.splits)

lemma dispatch_Some:
  assumes l: "length order = 8" and d: "dispatch run order = Some (s, order')"
  obtains A e B C Z where
    "order = A @ e # B @ C @ Z" "length A + length B + length C = 4" "s = order_slot e" "run s"
    "\<forall>f\<in>set A. \<not> run (order_slot f)" "\<forall>f\<in>set B. order_group f = order_group e"
    "C \<noteq> [] \<longrightarrow> order_group (hd C) \<noteq> order_group e" "order' = A @ B @ e # C @ Z"
proof -
  obtain i where i: "i < 5" "run (order_slot (order ! i))" "\<forall>j<i. \<not> run (order_slot (order ! j))"
      "s = order_slot (order ! i)"
      "order' = round_robin (order_slot (order ! i)) (order_group (order ! i)) order (i + 1)"
    using d by (auto simp: dispatch_def Let_def find_Some_iff CONFIG_AFFIN_SLOTS_PER_HWTHREAD_def
        split: option.splits)
  define e where "e = order ! i"
  let ?same = "\<lambda>f. order_group f = order_group e"
  define A where "A = take i order"
  define D where "D = take (4 - i) (drop (Suc i) order)"
  define Z where "Z = drop 5 order"
  have "drop (4 - i) (drop (Suc i) order) = Z" using i(1) by (simp add: Z_def)
  then have "drop (Suc i) order = D @ Z" unfolding D_def by (metis append_take_drop_id)
  then have o: "order = A @ e # D @ Z"
    using id_take_nth_drop [of i order] i(1) l by (simp add: A_def e_def)
  have len: "length A + length D = 4" "length A = i" using i(1) l by (simp_all add: A_def D_def)
  have "order' = round_robin (order_slot e) (order_group e) order (length A + 1)"
    by (simp only: i(5) e_def len(2))
  also have "\<dots> = A @ takeWhile ?same D @ e # dropWhile ?same D @ Z"
    by (subst o) (rule round_robin_rotate [OF len(1)])
  finally have 1: "order' = A @ takeWhile ?same D @ e # dropWhile ?same D @ Z" .
  have 2: "\<forall>f\<in>set A. \<not> run (order_slot f)"
    using i(1,3) l by (auto simp: A_def in_set_conv_nth)
  have 3: "order = A @ e # takeWhile ?same D @ dropWhile ?same D @ Z"
    unfolding append_assoc [symmetric, of "takeWhile ?same D"] takeWhile_dropWhile_id by (rule o)
  have 4: "length A + length (takeWhile ?same D) + length (dropWhile ?same D) = 4"
    using len(1) by (metis add.assoc length_append takeWhile_dropWhile_id)
  have 5: "s = order_slot e" "run s" using i(2,4) by (simp_all only: e_def)
  have 6: "\<forall>f\<in>set (takeWhile ?same D). order_group f = order_group e" by (auto dest: set_takeWhileD)
  have 7: "dropWhile ?same D \<noteq> [] \<longrightarrow> order_group (hd (dropWhile ?same D)) \<noteq> order_group e"
    using hd_dropWhile [of ?same D] by blast
  show ?thesis by (rule that [OF 3 4 5 2 6 7 1])
qed

end
