(* ===== verification/CnkSchedSpec.thy ===== *)
theory CnkSchedSpec
  imports CnkSched
begin

text \<open>
  What the scheduler of a hardware thread promises: the contract of a dispatcher by priority with
  turns among equals, as a locale, met by the dispatch of \<^verbatim>\<open>cnk/src/sched.c\<close>; the thread that runs
  is a runnable one of the highest priority; and no thread of that priority is passed over for
  ever.
\<close>

section \<open>The contract\<close>

text \<open>The threads that a dispatcher picks when \<open>runs\<close> are the sets of runnable threads it meets.\<close>

fun picks :: "(('t \<Rightarrow> bool) \<Rightarrow> 's \<Rightarrow> ('t \<times> 's) option) \<Rightarrow> ('t \<Rightarrow> bool) list \<Rightarrow> 's \<Rightarrow> 't list" where
  "picks pick [] s = []"
| "picks pick (run # runs) s =
     (case pick run s of None \<Rightarrow> picks pick runs s | Some (t, s') \<Rightarrow> t # picks pick runs s')"

locale priority_dispatcher =
  fixes valid :: "('t \<Rightarrow> nat) \<Rightarrow> 's \<Rightarrow> bool"
    and pick :: "('t \<Rightarrow> bool) \<Rightarrow> 's \<Rightarrow> ('t \<times> 's) option"
    and threads :: "'t set"
    and rank :: "'s \<Rightarrow> 't \<Rightarrow> nat"
  assumes keeps: "valid prio s \<Longrightarrow> pick run s = Some (t, s') \<Longrightarrow> valid prio s'"
    and sound: "valid prio s \<Longrightarrow> pick run s = Some (t, s') \<Longrightarrow>
      t \<in> threads \<and> run t \<and> (\<forall>u\<in>threads. run u \<longrightarrow> prio u \<le> prio t)"
    and complete: "valid prio s \<Longrightarrow> pick run s = None \<Longrightarrow> u \<in> threads \<Longrightarrow> \<not> run u"
    and turn: "valid prio s \<Longrightarrow> pick run s = Some (t, s') \<Longrightarrow> u \<in> threads \<Longrightarrow> run u \<Longrightarrow> u \<noteq> t \<Longrightarrow>
      prio u = prio t \<Longrightarrow> rank s' u < rank s u"
begin

text \<open>A thread that stays runnable, with none above it, is picked after at most \<open>rank\<close> others.\<close>

lemma served:
  assumes "valid prio s" "u \<in> threads"
    "\<forall>run\<in>set runs. run u \<and> (\<forall>v\<in>threads. run v \<longrightarrow> prio v \<le> prio u)" "rank s u < length runs"
  shows "u \<in> set (picks pick runs s)"
  using assms
proof (induction runs arbitrary: s)
  case Nil
  then show ?case by simp
next
  case (Cons run runs)
  have run: "run u" "\<forall>v\<in>threads. run v \<longrightarrow> prio v \<le> prio u" using Cons.prems by auto
  show ?case
  proof (cases "pick run s")
    case None
    then show ?thesis using complete [OF Cons.prems(1) None Cons.prems(2)] run by simp
  next
    case (Some ts)
    obtain t s' where p: "pick run s = Some (t, s')" using Some by (cases ts) auto
    note t = sound [OF Cons.prems(1) p]
    show ?thesis
    proof (cases "u = t")
      case False
      have "prio u = prio t" using t run Cons.prems(2) by (auto intro: order.antisym)
      then have "rank s' u < rank s u" using turn [OF Cons.prems(1) p Cons.prems(2) run(1) False] by simp
      then have "u \<in> set (picks pick runs s')"
        using Cons.prems by (intro Cons.IH keeps [OF Cons.prems(1) p]) auto
      then show ?thesis by (simp add: p)
    qed (simp add: p)
  qed
qed

end

section \<open>The dispatch of the code\<close>

text \<open>How many slots come before a slot.\<close>

definition order_rank :: "u8 list \<Rightarrow> nat \<Rightarrow> nat" where
  "order_rank order s = length (takeWhile (\<lambda>e. order_slot e \<noteq> s) (take 5 order))"

lemma order_slots:
  assumes "sched_order_ok prio order"
  shows "order_slot ` set (take 5 order) = {0..<5}" "distinct (map order_slot (take 5 order))"
proof -
  have m: "mset (map order_slot (take 5 order)) = mset [0..<5]" using assms by (simp add: sched_order_ok_def)
  from mset_eq_setD [OF m] show "order_slot ` set (take 5 order) = {0..<5}" by simp
  from mset_eq_imp_distinct_iff [OF m] show "distinct (map order_slot (take 5 order))" by simp
qed

lemma length_takeWhile_less: "x \<in> set xs \<Longrightarrow> \<not> P x \<Longrightarrow> length (takeWhile P xs) < length xs"
  by (induction xs) auto

lemma order_rank_less: "sched_order_ok prio order \<Longrightarrow> s < 5 \<Longrightarrow> order_rank order s < 5"
proof -
  assume ok: "sched_order_ok prio order" and "s < 5"
  then have "s \<in> order_slot ` set (take 5 order)" using order_slots(1) [OF ok] by simp
  then obtain e where "e \<in> set (take 5 order)" "order_slot e = s" by auto
  then have "order_rank order s < length (take 5 order)"
    unfolding order_rank_def by (intro length_takeWhile_less) auto
  then show ?thesis by simp
qed

lemma before_same: "before prio e f \<Longrightarrow> order_group f = order_group e \<Longrightarrow> prio (order_slot f) = prio (order_slot e)"
  by (auto simp: before_def)

text \<open>The order as the dispatch finds it and leaves it.\<close>

lemma dispatch_split:
  assumes ok: "sched_order_ok prio order" and d: "dispatch run order = Some (s, order')"
  obtains A e B C where
    "take 5 order = A @ e # B @ C" "take 5 order' = A @ B @ e # C" "length order' = 8" "s = order_slot e" "run s"
    "\<forall>f\<in>set A. \<not> run (order_slot f)" "\<forall>f\<in>set B. prio (order_slot f) = prio s"
    "\<forall>f\<in>set C. prio (order_slot f) < prio s" "\<forall>f\<in>set A. before prio f e"
proof -
  have l: "length order = 8" using ok by (simp add: sched_order_ok_def)
  obtain A e B C Z where s: "order = A @ e # B @ C @ Z" "length A + length B + length C = 4" "s = order_slot e" "run s"
    "\<forall>f\<in>set A. \<not> run (order_slot f)" "\<forall>f\<in>set B. order_group f = order_group e"
    "C \<noteq> [] \<longrightarrow> order_group (hd C) \<noteq> order_group e" "order' = A @ B @ e # C @ Z"
    by (rule dispatch_Some [OF l d])
  have p: "length xs = 5 \<Longrightarrow> take 5 (xs @ Z) = xs" for xs by simp
  have t: "take 5 order = A @ e # B @ C" "take 5 order' = A @ B @ e # C"
    using p [of "A @ e # B @ C"] p [of "A @ B @ e # C"] s(1,2,8) by (simp_all del: take_append)
  have w: "sorted_wrt (before prio) (A @ e # B @ C)" using ok t(1) by (simp add: sched_order_ok_def)
  have "\<forall>f\<in>set B. prio (order_slot f) = prio s"
    using w s(3,6) before_same by (fastforce simp: sorted_wrt_append)
  moreover have "\<forall>f\<in>set C. prio (order_slot f) < prio s"
  proof (cases C)
    case (Cons c cs)
    have "before prio e c" "\<forall>f\<in>set cs. before prio c f" using w Cons by (auto simp: sorted_wrt_append)
    moreover have "order_group c \<noteq> order_group e" using s(7) Cons by simp
    ultimately show ?thesis unfolding s(3) Cons by (auto simp: before_def)
  qed simp
  moreover have "\<forall>f\<in>set A. before prio f e" using w by (auto simp: sorted_wrt_append)
  ultimately show ?thesis using that t s(3,4,5) s(1,8) l by auto
qed

lemma dispatch_keeps:
  assumes ok: "sched_order_ok prio order" and d: "dispatch run order = Some (s, order')"
  shows "sched_order_ok prio order'"
proof (rule dispatch_split [OF ok d])
  fix A e B C
  assume *: "take 5 order = A @ e # B @ C" "take 5 order' = A @ B @ e # C" "length order' = 8" "s = order_slot e"
    "\<forall>f\<in>set B. prio (order_slot f) = prio s"
  have w: "sorted_wrt (before prio) (A @ e # B @ C)" "mset (map order_slot (A @ e # B @ C)) = mset [0..<5]"
    using ok *(1) by (auto simp: sched_order_ok_def)
  have "before prio f e" if "f \<in> set B" for f
  proof -
    have "before prio e f" using w(1) that by (simp add: sorted_wrt_append)
    then show ?thesis using *(4,5) that by (auto simp: before_def)
  qed
  then have "sorted_wrt (before prio) (A @ B @ e # C)" using w(1) by (auto simp: sorted_wrt_append)
  moreover have "mset (map order_slot (A @ B @ e # C)) = mset [0..<5]" using w(2) by (simp add: ac_simps)
  ultimately show ?thesis using *(2,3) by (simp add: sched_order_ok_def)
qed

lemma dispatch_sound:
  assumes ok: "sched_order_ok prio order" and d: "dispatch run order = Some (s, order')"
  shows "s \<in> {0..<5} \<and> run s \<and> (\<forall>u\<in>{0..<5}. run u \<longrightarrow> prio u \<le> prio s)"
proof (rule dispatch_split [OF ok d])
  fix A e B C
  assume *: "take 5 order = A @ e # B @ C" "s = order_slot e" "run s" "\<forall>f\<in>set A. \<not> run (order_slot f)"
    "\<forall>f\<in>set B. prio (order_slot f) = prio s" "\<forall>f\<in>set C. prio (order_slot f) < prio s"
  have u: "{0..<5} = order_slot ` set (A @ e # B @ C)" using order_slots(1) [OF ok] *(1) by simp
  show ?thesis unfolding u using * by (auto simp: less_imp_le)
qed

lemma dispatch_turn:
  assumes ok: "sched_order_ok prio order" and d: "dispatch run order = Some (s, order')"
    and u: "u \<in> {0..<5}" "run u" "u \<noteq> s" "prio u = prio s"
  shows "order_rank order' u < order_rank order u"
proof (rule dispatch_split [OF ok d])
  fix A e B C
  assume *: "take 5 order = A @ e # B @ C" "take 5 order' = A @ B @ e # C" "s = order_slot e"
    "\<forall>f\<in>set A. \<not> run (order_slot f)" "\<forall>f\<in>set C. prio (order_slot f) < prio s"
  have "u \<in> order_slot ` set (A @ e # B @ C)" using order_slots(1) [OF ok] *(1) u(1) by simp
  then obtain f where f: "f \<in> set (A @ e # B @ C)" "u = order_slot f" by auto
  with * u have "f \<in> set B" by auto
  then have "takeWhile (\<lambda>e. order_slot e \<noteq> u) (B @ X) = takeWhile (\<lambda>e. order_slot e \<noteq> u) B" for X
    using f(2) by (intro takeWhile_append1) auto
  moreover have "\<forall>g\<in>set A. order_slot g \<noteq> u" using * u(2) by auto
  ultimately show ?thesis using u(3) *(3) by (simp add: order_rank_def *(1,2) takeWhile_append2)
qed

lemma dispatch_complete:
  assumes ok: "sched_order_ok prio order" and d: "dispatch run order = None" and u: "u \<in> {0..<5}"
  shows "\<not> run u"
proof -
  have "u \<in> order_slot ` set (take 5 order)" using order_slots(1) [OF ok] u by simp
  then obtain f where "f \<in> set (take 5 order)" "u = order_slot f" by auto
  with d show ?thesis by (auto simp: dispatch_None in_set_conv_nth)
qed

interpretation rr: priority_dispatcher sched_order_ok dispatch "{0..<5}" order_rank
proof
qed (rule dispatch_keeps dispatch_sound dispatch_complete dispatch_turn; assumption)+

section \<open>What the scheduler promises\<close>

lemma Scheduler_divert_fields:
  assumes "Scheduler_divert k = (k', d)"
  shows "State k' = State k" "Priority k' = Priority k"
    "d \<noteq> None \<Longrightarrow> SchedulerDivert k AND (SCHED_DIVERT_TERMINATE OR SCHED_DIVERT_COREDUMP) \<noteq> 0"
proof -
  have "x AND NOT SCHED_DIVERT_TOOL AND (SCHED_DIVERT_TERMINATE OR SCHED_DIVERT_COREDUMP) =
      x AND (SCHED_DIVERT_TERMINATE OR SCHED_DIVERT_COREDUMP)" for x
    by (simp add: SCHED_DIVERT_TOOL_def SCHED_DIVERT_TERMINATE_def SCHED_DIVERT_COREDUMP_def and.assoc)
  then show "State k' = State k" "Priority k' = Priority k"
    "d \<noteq> None \<Longrightarrow> SchedulerDivert k AND (SCHED_DIVERT_TERMINATE OR SCHED_DIVERT_COREDUMP) \<noteq> 0"
    using assms by (auto simp: Scheduler_divert_def Let_def and.assoc split: if_splits)
qed

text \<open>C23: the order that \<open>KThread_refreshPriorityData\<close> computes lists every affinity slot of the hardware
  thread once, never lists a slot before one of higher priority, and gives two slots the same
  group number exactly when their threads have the same priority.\<close>

theorem refreshPriorityData_orders:
  "let order = SchedOrderEntry (KThread_refreshPriorityData kthr h);
       prio = (\<lambda>i. Priority (kthr (SchedSlot h ! order_slot (order ! i))))
   in length order = 8 \<and> order_slot ` set (take 5 order) = {0..<5} \<and> distinct (map order_slot (take 5 order)) \<and>
     (\<forall>i j. i < j \<and> j < 5 \<longrightarrow> prio j \<le> prio i \<and> (order_group (order ! i) = order_group (order ! j) \<longleftrightarrow> prio i = prio j))"
proof -
  define order where "order = SchedOrderEntry (KThread_refreshPriorityData kthr h)"
  have ok: "sched_order_ok (slot_prio kthr h) order" unfolding order_def by (rule refresh_order_ok)
  have "before (slot_prio kthr h) (order ! i) (order ! j)" if "i < j" "j < 5" for i j
    using ok that by (auto simp: sched_order_ok_def sorted_wrt_iff_nth_less)
  with ok order_slots [OF ok] show ?thesis
    unfolding Let_def order_def [symmetric]
    by (auto simp: sched_order_ok_def before_def slot_prio_def word_le_nat_alt word_unat_eq_iff)
qed

definition demo_kthr :: "nat \<Rightarrow> KThread" where
  "demo_kthr i = \<lparr>State = (if i = 2 then SCHED_STATE_FUTEX else SCHED_STATE_RUN), ProcessorID = 0,
     Priority = [5, 9, 9, 2, 9, 0] ! i, Policy = 0, SlotIndex = i, pHWThread = 0, pAppProc = None, Pending = 0,
     SchedulerDivert = 0, SigInfoSigno = 0, MigrationData = None, isProcessLeader = False\<rparr>"

definition demo_hwt :: HWThreadState where
  "demo_hwt = \<lparr>SchedSlot = [0, 1, 2, 3, 4, 5], SchedOrderEntry = [0, 0, 0, 0, 0, 0, 0, 0], pCurrentThread = 0,
     priorityRefreshPending = True, suspended = False, pCommThread = None, SlotsAllocated = 5, SPIinfo = 0\<rparr>"

lemma demo_order: "SchedOrderEntry (KThread_refreshPriorityData demo_kthr demo_hwt) = [0x04, 0x02, 0x01, 0x10, 0x23, 0, 0, 0]"
  by code_simp

theorem refreshPriorityData_orders_witness:
  "let order = [0x04, 0x02, 0x01, 0x10, 0x23, 0, 0, 0];
       prio = (\<lambda>i. Priority (demo_kthr (SchedSlot demo_hwt ! order_slot (order ! i))))
   in order = SchedOrderEntry (KThread_refreshPriorityData demo_kthr demo_hwt) \<and> prio 3 \<le> prio 2 \<and>
     (order_group (order ! 2) = order_group (order ! 3) \<longleftrightarrow> prio 2 = prio 3)"
proof -
  let ?order = "[0x04, 0x02, 0x01, 0x10, 0x23, 0, 0, 0] :: u8 list"
  let ?prio = "\<lambda>i. Priority (demo_kthr (SchedSlot demo_hwt ! order_slot (?order ! i)))"
  have "\<forall>i j. i < j \<and> j < 5 \<longrightarrow>
      ?prio j \<le> ?prio i \<and> (order_group (?order ! i) = order_group (?order ! j) \<longleftrightarrow> ?prio i = ?prio j)"
    using refreshPriorityData_orders [of demo_kthr demo_hwt] unfolding demo_order Let_def by blast
  from this [rule_format, of 2 3] show ?thesis by (simp only: demo_order Let_def) simp
qed

text \<open>C24: from an order of the slots by their priorities, or with a refresh of it pending, \<open>Scheduler\<close>
  launches a runnable thread of one of the hardware thread's slots that no runnable thread of
  them exceeds in priority; it waits exactly when none of them is runnable; and it leaves an
  order of the slots by their priorities.\<close>

theorem Scheduler_launches_best:
  assumes "Scheduler kthr h = (kthr', h', out)"
    and "priorityRefreshPending h \<or> sched_order_ok (slot_prio kthr h) (SchedOrderEntry h)"
  shows "(case out of
      Launch k \<Rightarrow> pCurrentThread h' = k \<and> State (kthr' k) = SCHED_STATE_RUN \<and>
        (\<exists>s<5. k = SchedSlot h ! s \<and> (\<forall>u<5. State (kthr' (SchedSlot h ! u)) = SCHED_STATE_RUN \<longrightarrow>
           Priority (kthr' (SchedSlot h ! u)) \<le> Priority (kthr' k))) \<and>
        sched_order_ok (slot_prio kthr' h') (SchedOrderEntry h')
    | Wait \<Rightarrow> (\<forall>u<5. State (kthr' (SchedSlot h ! u)) \<noteq> SCHED_STATE_RUN) \<and>
        sched_order_ok (slot_prio kthr' h') (SchedOrderEntry h')
    | ProcessExit sig \<Rightarrow> SchedulerDivert (kthr (pCurrentThread h)) AND (SCHED_DIVERT_TERMINATE OR SCHED_DIVERT_COREDUMP) \<noteq> 0)"
proof -
  obtain k d where k: "Scheduler_divert (kthr (pCurrentThread h)) = (k, d)" by fastforce
  note kf = Scheduler_divert_fields [OF k]
  show ?thesis
  proof (cases d)
    case (Some sig)
    with assms(1) k kf(3) show ?thesis by (auto simp: Scheduler_def)
  next
    case None
    define K where "K = kthr(pCurrentThread h := k)"
    define h1 where "h1 = h\<lparr>pCurrentThread := SchedSlot h ! CONFIG_SCHED_KERNEL_SLOT_INDEX\<rparr>"
    define h2 where "h2 = (if priorityRefreshPending h1
      then KThread_refreshPriorityData K (h1\<lparr>priorityRefreshPending := False\<rparr>) else h1)"
    let ?run = "\<lambda>s. State (K (SchedSlot h2 ! s)) = SCHED_STATE_RUN"
    have S: "Scheduler kthr h = (case dispatch ?run (SchedOrderEntry h2) of
        None \<Rightarrow> (K, h2, Wait)
      | Some (slot, order) \<Rightarrow> (K,
          h2\<lparr>SchedOrderEntry := order, pCurrentThread := SchedSlot h2 ! slot\<rparr>, Launch (SchedSlot h2 ! slot)))"
      unfolding Scheduler_def k None h2_def h1_def K_def by (simp add: Let_def)
    have slots: "SchedSlot h2 = SchedSlot h" by (simp add: h2_def h1_def refresh_fields)
    have prio: "slot_prio K g = slot_prio K h" "slot_prio K h = slot_prio kthr h"
      if "SchedSlot g = SchedSlot h" for g
      using kf(2) that by (simp_all add: K_def slot_prio_def fun_eq_iff)
    have ok: "sched_order_ok (slot_prio K h) (SchedOrderEntry h2)"
    proof (cases "priorityRefreshPending h")
      case True
      with refresh_order_ok [of K "h1\<lparr>priorityRefreshPending := False\<rparr>"]
        prio(1) [of "h1\<lparr>priorityRefreshPending := False\<rparr>"]
      show ?thesis by (simp add: h2_def h1_def)
    next
      case False
      with assms(2) prio(2) [of h] show ?thesis by (simp add: h2_def h1_def)
    qed
    show ?thesis
    proof (cases "dispatch ?run (SchedOrderEntry h2)")
      case None
      with assms(1) S have "kthr' = K" "h' = h2" "out = Wait" by auto
      with rr.complete [OF ok None] ok slots prio(1) [OF slots] show ?thesis by simp
    next
      case (Some so)
      then obtain s order where d: "dispatch ?run (SchedOrderEntry h2) = Some (s, order)" by (cases so) auto
      with assms(1) S have e: "kthr' = K" "out = Launch (SchedSlot h2 ! s)"
          "h' = h2\<lparr>SchedOrderEntry := order, pCurrentThread := SchedSlot h2 ! s\<rparr>" by auto
      have "slot_prio K h' = slot_prio K h" by (rule prio(1)) (simp add: e slots)
      moreover have "\<forall>u<5. State (K (SchedSlot h ! u)) = SCHED_STATE_RUN \<longrightarrow>
          Priority (K (SchedSlot h ! u)) \<le> Priority (K (SchedSlot h ! s))"
        using rr.sound [OF ok d] slots by (simp add: slot_prio_def word_le_nat_alt)
      ultimately show ?thesis
        using rr.sound [OF ok d] rr.keeps [OF ok d] slots by (auto simp: e)
    qed
  qed
qed

lemma demo_Scheduler: "snd (snd (Scheduler demo_kthr demo_hwt)) = Launch 4"
  by code_simp

theorem Scheduler_launches_best_witness:
  "\<exists>kthr' h'. Scheduler demo_kthr demo_hwt = (kthr', h', Launch 4) \<and>
     (\<forall>u<5. State (kthr' (SchedSlot demo_hwt ! u)) = SCHED_STATE_RUN \<longrightarrow>
        Priority (kthr' (SchedSlot demo_hwt ! u)) \<le> Priority (kthr' 4))"
proof -
  obtain kthr' h' where "Scheduler demo_kthr demo_hwt = (kthr', h', Launch 4)"
    using demo_Scheduler by (metis prod.collapse)
  with Scheduler_launches_best [OF this] show ?thesis by (auto simp: demo_hwt_def)
qed

text \<open>C25: with the turns that the round robin gives, a thread that stays runnable and is never below
  a runnable thread is dispatched within five dispatches, whatever the other slots do.\<close>

theorem dispatch_serves_equals:
  assumes "sched_order_ok prio order" "s < 5" "5 \<le> length runs"
    and "\<forall>run\<in>set runs. run s \<and> (\<forall>u<5. run u \<longrightarrow> prio u \<le> prio s)"
  shows "s \<in> set (picks dispatch runs order)"
  using assms order_rank_less [OF assms(1,2)] by (intro rr.served [OF assms(1)]) auto

theorem dispatch_serves_equals_witness:
  "1 \<in> set (picks dispatch (replicate 5 (\<lambda>s. s \<noteq> 2)) [0x04, 0x02, 0x01, 0x10, 0x23, 0, 0, 0])"
proof -
  have "sched_order_ok (slot_prio demo_kthr demo_hwt) [0x04, 0x02, 0x01, 0x10, 0x23, 0, 0, 0]"
    using refresh_order_ok [of demo_kthr demo_hwt] by (simp only: demo_order)
  moreover have "\<forall>u<5. slot_prio demo_kthr demo_hwt u \<le> slot_prio demo_kthr demo_hwt 1"
    by code_simp
  ultimately show ?thesis
    by (intro dispatch_serves_equals [of "slot_prio demo_kthr demo_hwt"]) auto
qed

end
