(* ===== verification/CnkThread.thy ===== *)
theory CnkThread
  imports CnkSchedSpec
begin

text \<open>
  The life of a software thread on a node: blocking and unblocking with the counts of runnable and
  existing threads that the kernel publishes (\<^verbatim>\<open>cnk/src/sched.c\<close>), the allocation of a thread
  (\<^verbatim>\<open>cnk/src/ProcessSetup.cc\<close>), its exit (\<^verbatim>\<open>cnk/src/AppCleanup.cc\<close>), its priority and its migration
  to another hardware thread (\<^verbatim>\<open>cnk/src/kthread.c\<close>), with the requests that hardware threads send
  each other (\<^verbatim>\<open>cnk/src/core2core.c\<close>).
\<close>

section \<open>The node\<close>

definition NUM_KTHREADS :: nat where
  "NUM_KTHREADS = 6 * 4 * 17"

datatype ProcessState =
    ProcessState_Free
  | ProcessState_ExitPending
  | ProcessState_Active
  | ProcessState_RankInactive
  | ProcessState_AgentInactive
  | ProcessState_Started

datatype ThreadModel_t = CONFIG_THREAD_MODEL_LTM | CONFIG_THREAD_MODEL_BGP | CONFIG_THREAD_MODEL_ETA

datatype layout_t = CONFIG_SCHED_BREADTH_LAYOUT | CONFIG_SCHED_DEPTH_LAYOUT

record HwtRecycleList_Mgr =
  threadLayout_count :: u64
  layout_type :: layout_t
  indexHead :: u32
  indexTail :: u32
  hwtindex :: "nat list"

record AppProcess =
  HwtRecycleListMgr :: HwtRecycleList_Mgr
  ProcState :: ProcessState
  ProcessLeader_ProcessorID :: nat
  ProcessLeader_KThread :: nat
  HwthreadMask :: u64
  HWThread_Count :: nat
  ThreadModel :: ThreadModel_t

text \<open>The requests between hardware threads, with their parameters.\<close>

datatype ipi =
    IPI_handler_run_scheduler ptr u32
  | IPI_handler_block_thread nat u32
  | IPI_handler_setaffinity nat
  | IPI_handler_complete_migration nat
  | IPI_handler_changepolicy nat u32 u32

text \<open>
  \<open>hwtProcess\<close> is the process that owns a hardware thread. \<open>ipi_message\<close> holds the requests that
  were sent and not yet taken, with their targets. \<open>exited\<close> marks the hardware threads that have
  gone into \<open>App_Exit\<close> or \<open>App_AgentExit\<close>, which do not return.
\<close>

record Node =
  KThreads :: "nat \<Rightarrow> KThread"
  HWThreads :: "nat \<Rightarrow> HWThreadState"
  Processes :: "nat \<Rightarrow> AppProcess"
  hwtProcess :: "nat \<Rightarrow> ptr"
  ipi_message :: "(nat \<times> ipi) list"
  exited :: "nat \<Rightarrow> bool"

definition upd_kthread :: "nat \<Rightarrow> (KThread \<Rightarrow> KThread) \<Rightarrow> Node \<Rightarrow> Node" where
  "upd_kthread k f n = n\<lparr>KThreads := (KThreads n)(k := f (KThreads n k))\<rparr>"

definition upd_hwthread :: "nat \<Rightarrow> (HWThreadState \<Rightarrow> HWThreadState) \<Rightarrow> Node \<Rightarrow> Node" where
  "upd_hwthread p f n = n\<lparr>HWThreads := (HWThreads n)(p := f (HWThreads n p))\<rparr>"

definition upd_process :: "nat \<Rightarrow> (AppProcess \<Rightarrow> AppProcess) \<Rightarrow> Node \<Rightarrow> Node" where
  "upd_process a f n = n\<lparr>Processes := (Processes n)(a := f (Processes n a))\<rparr>"

definition IPI_DeliverInterrupt :: "nat \<Rightarrow> ipi \<Rightarrow> Node \<Rightarrow> Node" where
  "IPI_DeliverInterrupt processorID m n =
     (if processorID < NUM_HWTHREADS then n\<lparr>ipi_message := ipi_message n @ [(processorID, m)]\<rparr> else n)"

section \<open>Blocking and unblocking\<close>

definition SPRG_SPIinfo_Runnable :: nat where "SPRG_SPIinfo_Runnable = 24"
definition SPRG_SPIinfo_NumThds :: nat where "SPRG_SPIinfo_NumThds = 16"

definition spi_add :: "nat \<Rightarrow> nat \<Rightarrow> Node \<Rightarrow> Node" where
  "spi_add b p = upd_hwthread p (\<lambda>h. h\<lparr>SPIinfo := SPIinfo h + push_bit b 1\<rparr>)"

definition spi_sub :: "nat \<Rightarrow> nat \<Rightarrow> Node \<Rightarrow> Node" where
  "spi_sub b p = upd_hwthread p (\<lambda>h. h\<lparr>SPIinfo := SPIinfo h - push_bit b 1\<rparr>)"

text \<open>\<open>me\<close> is the hardware thread that executes the code.\<close>

definition Sched_Block :: "nat \<Rightarrow> nat \<Rightarrow> u32 \<Rightarrow> Node \<Rightarrow> Node" where
  "Sched_Block me pKThr block_state n =
     (if pHWThread (KThreads n pKThr) = me then
        (if block_state \<noteq> 0 then
           (let n = (if State (KThreads n pKThr) = SCHED_STATE_RUN then spi_sub SPRG_SPIinfo_Runnable me n else n);
                n = (if block_state = SCHED_STATE_RESET then spi_sub SPRG_SPIinfo_NumThds me n else n)
            in upd_kthread pKThr (\<lambda>k. k\<lparr>State := State k OR block_state\<rparr>) n)
         else n)
      else IPI_DeliverInterrupt (ProcessorID (KThreads n pKThr)) (IPI_handler_block_thread pKThr block_state) n)"

text \<open>The first start of the leader of a process: the process may have to leave at once.\<close>

definition start_leader :: "nat \<Rightarrow> nat \<Rightarrow> Node \<Rightarrow> Node" where
  "start_leader me pKThr n =
     (case pAppProc (KThreads n pKThr) of
        None \<Rightarrow> n
      | Some a \<Rightarrow>
      if ProcessLeader_KThread (Processes n a) = pKThr then
        (case ProcState (Processes n a) of
           ProcessState_RankInactive \<Rightarrow>
             (upd_process a (\<lambda>p. p\<lparr>ProcState := ProcessState_ExitPending\<rparr>) n)\<lparr>exited := (exited n)(me := True)\<rparr>
         | ProcessState_AgentInactive \<Rightarrow>
             (upd_process a (\<lambda>p. p\<lparr>ProcState := ProcessState_ExitPending\<rparr>) n)\<lparr>exited := (exited n)(me := True)\<rparr>
         | ProcessState_Active \<Rightarrow> upd_process a (\<lambda>p. p\<lparr>ProcState := ProcessState_Started\<rparr>) n
         | _ \<Rightarrow> n)
      else n)"

definition Sched_Unblock :: "nat \<Rightarrow> nat \<Rightarrow> u32 \<Rightarrow> Node \<Rightarrow> Node" where
  "Sched_Unblock me pKThr unblock_state n =
     (if unblock_state = 0 then n
      else if pHWThread (KThreads n pKThr) = me then
        (let n = (if unblock_state = SCHED_STATE_RESET
                  then start_leader me pKThr (spi_add SPRG_SPIinfo_NumThds me n)
                  else if unblock_state = SCHED_STATE_SUSPEND
                  then upd_hwthread me (\<lambda>h. h\<lparr>suspended := False\<rparr>) n
                  else n)
         in if exited n me then n
            else
              (let prevState = State (KThreads n pKThr);
                   n = upd_kthread pKThr (\<lambda>k. k\<lparr>State := State k AND NOT unblock_state\<rparr>) n
               in if prevState \<noteq> SCHED_STATE_RUN \<and> State (KThreads n pKThr) = SCHED_STATE_RUN
                  then spi_add SPRG_SPIinfo_Runnable me n else n))
      else IPI_DeliverInterrupt (ProcessorID (KThreads n pKThr)) (IPI_handler_run_scheduler (Some pKThr) unblock_state) n)"

definition KThread_CompleteAppSibling :: "nat \<Rightarrow> nat \<Rightarrow> Node \<Rightarrow> Node" where
  "KThread_CompleteAppSibling me pKThr = Sched_Unblock me pKThr SCHED_STATE_RESET"

definition Sched_BlockForExit :: "nat \<Rightarrow> Node \<Rightarrow> Node" where
  "Sched_BlockForExit me n =
     fold (\<lambda>slot n.
         let kthread = SchedSlot (HWThreads n me) ! slot in
         if pAppProc (KThreads n kthread) = hwtProcess n me
         then upd_kthread kthread (\<lambda>k. k\<lparr>State := State k OR SCHED_STATE_APPEXIT\<rparr>) n else n)
       [0..<CONFIG_SCHED_KERNEL_SLOT_INDEX] n"

text \<open>The threads of a hardware thread at the start of a job.\<close>

definition KThread_InitHwThread :: "nat \<Rightarrow> Node \<Rightarrow> Node" where
  "KThread_InitHwThread me n =
     (let slots = map (\<lambda>slot. slot + me * 6) [0..<6];
          n = fold (\<lambda>slot. upd_kthread (slot + me * 6) (\<lambda>_.
              \<lparr>State = (if slot = CONFIG_SCHED_KERNEL_SLOT_INDEX then SCHED_STATE_RUN else SCHED_STATE_FREE),
               ProcessorID = me, Priority = (if slot = 0 then 2 else 0), Policy = 0, SlotIndex = slot, pHWThread = me,
               pAppProc = None, Pending = 0, SchedulerDivert = 0, SigInfoSigno = 0, MigrationData = None,
               isProcessLeader = False\<rparr>)) [0..<6] n;
          n = upd_hwthread me (\<lambda>h. h\<lparr>SchedSlot := slots, pCommThread := None, SlotsAllocated := 0, suspended := False\<rparr>) n
      in upd_hwthread me (\<lambda>h. (KThread_refreshPriorityData (KThreads n) h)\<lparr>priorityRefreshPending := False\<rparr>) n)"

definition Sched_Reset :: "nat \<Rightarrow> Node \<Rightarrow> Node" where
  "Sched_Reset me n =
     upd_hwthread me (\<lambda>h. h\<lparr>SPIinfo := SPIinfo h AND
         NOT (push_bit SPRG_SPIinfo_NumThds 0xFF OR push_bit SPRG_SPIinfo_Runnable 0xFF)\<rparr>)
       (KThread_InitHwThread me n)"

section \<open>Allocation and exit\<close>

definition HWTLISTMGRENTRIES :: nat where "HWTLISTMGRENTRIES = 17 * 4 * 6"

definition incrementSlotAllocatedCount :: "nat \<Rightarrow> Node \<Rightarrow> Node" where
  "incrementSlotAllocatedCount p = upd_hwthread p (\<lambda>h. h\<lparr>SlotsAllocated := SlotsAllocated h + 1\<rparr>)"

definition decrementSlotAllocatedCount :: "nat \<Rightarrow> Node \<Rightarrow> Node" where
  "decrementSlotAllocatedCount p =
     upd_hwthread p (\<lambda>h. if SlotsAllocated h = 0 then h else h\<lparr>SlotsAllocated := SlotsAllocated h - 1\<rparr>)"

text \<open>How many slots a process may use on a hardware thread, and the first of them that is free.\<close>

definition affinity_slots :: "Node \<Rightarrow> nat \<Rightarrow> nat \<Rightarrow> nat" where
  "affinity_slots n a p =
     (if ThreadModel (Processes n a) = CONFIG_THREAD_MODEL_BGP
      then (if pCommThread (HWThreads n p) \<noteq> None then 2 else 1)
      else CONFIG_AFFIN_SLOTS_PER_HWTHREAD)"

definition free_slot :: "Node \<Rightarrow> nat \<Rightarrow> nat \<Rightarrow> nat option" where
  "free_slot n a p =
     (if SlotsAllocated (HWThreads n p) < word_of_nat (affinity_slots n a p) then
        find (\<lambda>sched_slot.
            let oldState = State (KThreads n (SchedSlot (HWThreads n p) ! sched_slot))
            in oldState AND SCHED_STATE_FREE \<noteq> 0 \<and> oldState AND SCHED_STATE_RESERVED = 0)
          [0..<affinity_slots n a p]
      else None)"

definition GrabFreeKThread :: "nat \<Rightarrow> nat \<Rightarrow> Node \<Rightarrow> Node \<times> ptr" where
  "GrabFreeKThread a processorID n =
     (case free_slot n a processorID of
        None \<Rightarrow> (n, None)
      | Some sched_slot \<Rightarrow>
          (let pKThr = SchedSlot (HWThreads n processorID) ! sched_slot;
               n = upd_kthread pKThr (\<lambda>k. k\<lparr>State := (State k AND NOT SCHED_STATE_FREE) OR SCHED_STATE_RESET\<rparr>) n
           in (incrementSlotAllocatedCount (ProcessorID (KThreads n pKThr)) n, Some pKThr)))"

text \<open>The search order: hardware thread number \<open>thread_counter\<close> of a process.\<close>

definition layout_processorID :: "layout_t \<Rightarrow> nat \<Rightarrow> nat \<Rightarrow> nat \<Rightarrow> nat" where
  "layout_processorID layout hwt_count leader thread_counter =
     (let scoped_counter = thread_counter mod hwt_count in
      if hwt_count \<le> 4 \<or> layout = CONFIG_SCHED_DEPTH_LAYOUT then
        (let processorID = scoped_counter + leader in
         if hwt_count \<ge> 4 then
           (if scoped_counter mod 4 = 1 then processorID + 1
            else if scoped_counter mod 4 = 2 then processorID - 1
            else processorID)
         else processorID)
      else
        (let core_cycle = hwt_count div 4;
             processorID = (thread_counter mod core_cycle) * 4 + (thread_counter mod hwt_count) div core_cycle + leader
         in if scoped_counter \<ge> hwt_count div 4 \<and> scoped_counter < hwt_count div 2 then processorID + 1
            else if scoped_counter \<ge> hwt_count div 2 \<and> scoped_counter < hwt_count div 2 + hwt_count div 4
            then processorID - 1
            else processorID))"

definition pop_recycled :: "nat \<Rightarrow> Node \<Rightarrow> Node \<times> nat" where
  "pop_recycled a n =
     (let mgr = HwtRecycleListMgr (Processes n a) in
      (upd_process a (\<lambda>p. p\<lparr>HwtRecycleListMgr := mgr\<lparr>indexHead := indexHead mgr + 1\<rparr>\<rparr>) n,
       hwtindex mgr ! (unat (indexHead mgr) mod HWTLISTMGRENTRIES)))"

lemma GrabFreeKThread_process: "GrabFreeKThread a p n = (n', k) \<Longrightarrow> Processes n' = Processes n"
  by (auto simp: GrabFreeKThread_def incrementSlotAllocatedCount_def upd_hwthread_def upd_kthread_def Let_def
      split: option.splits)

text \<open>The hardware threads on the recycle list, oldest first, until one of them yields a thread.\<close>

function recycle_loop :: "nat \<Rightarrow> Node \<Rightarrow> Node \<times> ptr" where
  "recycle_loop a n =
     (if indexTail (HwtRecycleListMgr (Processes n a)) > indexHead (HwtRecycleListMgr (Processes n a)) then
        (case pop_recycled a n of (n', processorID) \<Rightarrow>
          (case GrabFreeKThread a processorID n' of
             (n'', Some k) \<Rightarrow> (n'', Some k)
           | (n'', None) \<Rightarrow> recycle_loop a n''))
      else (n, None))"
  by pat_completeness auto

definition recycle_left :: "nat \<Rightarrow> Node \<Rightarrow> nat" where
  "recycle_left a n =
     unat (indexTail (HwtRecycleListMgr (Processes n a))) - unat (indexHead (HwtRecycleListMgr (Processes n a)))"

lemma recycle_left_decreases:
  assumes "indexTail (HwtRecycleListMgr (Processes n a)) > indexHead (HwtRecycleListMgr (Processes n a))"
    and "pop_recycled a n = (n', p)" "GrabFreeKThread a p n' = (n'', k)"
  shows "recycle_left a n'' < recycle_left a n"
proof -
  let ?m = "HwtRecycleListMgr (Processes n a)"
  have lt: "unat (indexHead ?m) < unat (indexTail ?m)" using assms(1) by (simp add: word_less_nat_alt)
  have "unat (indexHead ?m + 1) = unat (indexHead ?m) + 1"
    using lt unat_less_pow [of "indexTail ?m"] by (subst unat_add_exact) simp_all
  with lt assms(2) GrabFreeKThread_process [OF assms(3)] show ?thesis
    by (auto simp: recycle_left_def pop_recycled_def upd_process_def Let_def)
qed

termination recycle_loop
  by (relation "measure (\<lambda>(a, n). recycle_left a n)") (auto intro: recycle_left_decreases [OF _ sym sym])

declare recycle_loop.simps [simp del]

fun layout_loop :: "nat \<Rightarrow> nat \<Rightarrow> Node \<Rightarrow> Node \<times> ptr" where
  "layout_loop a 0 n = (n, None)"
| "layout_loop a (Suc loops) n =
     (let proc = Processes n a; mgr = HwtRecycleListMgr proc; thread_counter = threadLayout_count mgr;
          n = upd_process a (\<lambda>p. p\<lparr>HwtRecycleListMgr := mgr\<lparr>threadLayout_count := thread_counter + 1\<rparr>\<rparr>) n;
          processorID = layout_processorID (layout_type mgr) (HWThread_Count proc)
            (ProcessLeader_ProcessorID proc) (unat thread_counter)
      in case GrabFreeKThread a processorID n of
           (n, Some k) \<Rightarrow> (n, Some k)
         | (n, None) \<Rightarrow> layout_loop a loops n)"

definition Process_GetAvailableKThread :: "nat \<Rightarrow> Node \<Rightarrow> Node \<times> ptr" where
  "Process_GetAvailableKThread a n =
     (case recycle_loop a n of
        (n, Some k) \<Rightarrow> (n, Some k)
      | (n, None) \<Rightarrow> layout_loop a (HWThread_Count (Processes n a)) n)"

definition Process_MakeHwThreadAvail :: "nat \<Rightarrow> nat \<Rightarrow> Node \<Rightarrow> Node" where
  "Process_MakeHwThreadAvail a processorID n =
     (let mgr = HwtRecycleListMgr (Processes n a);
          n = upd_process a (\<lambda>p. p\<lparr>HwtRecycleListMgr :=
                mgr\<lparr>hwtindex := (hwtindex mgr)[unat (indexTail mgr) mod HWTLISTMGRENTRIES := processorID],
                    indexTail := indexTail mgr + 1\<rparr>\<rparr>) n
      in decrementSlotAllocatedCount processorID n)"

text \<open>
  The exit of a thread, up to the call of the scheduler; \<open>hwtProc\<close> is the process that owns the
  hardware thread.
\<close>

definition App_ThreadExit :: "nat \<Rightarrow> nat \<Rightarrow> nat \<Rightarrow> Node \<Rightarrow> Node" where
  "App_ThreadExit me hwtProc kthread n =
     (let n = (if Some hwtProc \<noteq> pAppProc (KThreads n kthread)
               then upd_kthread kthread (\<lambda>k. k\<lparr>pAppProc := Some hwtProc\<rparr>) n else n);
          n = Sched_Unblock me kthread (State (KThreads n kthread) AND NOT SCHED_STATE_SUSPEND) n;
          n = Sched_Block me kthread SCHED_STATE_RESET n;
          n = upd_kthread kthread (\<lambda>k. k\<lparr>State := (State k AND SCHED_STATE_SUSPEND) OR SCHED_STATE_FREE\<rparr>) n
      in Process_MakeHwThreadAvail hwtProc me n)"

section \<open>Priority and policy\<close>

definition KTHR_PENDING_MIGRATE :: u64 where "KTHR_PENDING_MIGRATE = 0x2"
definition KTHR_PENDING_YIELD :: u64 where "KTHR_PENDING_YIELD = 0x4"

text \<open>\<open>SCHED_COMM\<close> is the system's \<open>SCHED_RR\<close>.\<close>

definition SCHED_COMM :: u32 where "SCHED_COMM = 2"

text \<open>The current thread goes through the scheduler before it returns to the application.\<close>

definition pend_yield :: "nat \<Rightarrow> Node \<Rightarrow> Node" where
  "pend_yield me n =
     (let cur = pCurrentThread (HWThreads n me) in
      if SlotIndex (KThreads n cur) \<noteq> CONFIG_SCHED_KERNEL_SLOT_INDEX
      then upd_kthread cur (\<lambda>k. k\<lparr>Pending := Pending k OR KTHR_PENDING_YIELD\<rparr>) n else n)"

definition KThread_ChangePriority :: "nat \<Rightarrow> nat \<Rightarrow> u32 \<Rightarrow> Node \<Rightarrow> Node" where
  "KThread_ChangePriority me pKThread newPriority n =
     (if Priority (KThreads n pKThread) \<noteq> newPriority then
        (let n = upd_kthread pKThread (\<lambda>k. k\<lparr>Priority := newPriority\<rparr>) n;
             n = upd_hwthread (pHWThread (KThreads n pKThread)) (\<lambda>h. h\<lparr>priorityRefreshPending := True\<rparr>) n;
             target_hwtindex = ProcessorID (KThreads n pKThread)
         in if target_hwtindex = me then pend_yield me n
            else IPI_DeliverInterrupt target_hwtindex (IPI_handler_run_scheduler None 0) n)
      else n)"

definition KThread_ChangePolicy :: "nat \<Rightarrow> nat \<Rightarrow> u32 \<Rightarrow> u32 \<Rightarrow> Node \<Rightarrow> Node" where
  "KThread_ChangePolicy me pKThread newPolicy newPriority n =
     (if me \<noteq> pHWThread (KThreads n pKThread)
      then IPI_DeliverInterrupt (ProcessorID (KThreads n pKThread)) (IPI_handler_changepolicy pKThread newPolicy newPriority) n
      else
        (let n = (if newPolicy = SCHED_COMM then upd_hwthread me (\<lambda>h. h\<lparr>pCommThread := Some pKThread\<rparr>) n else n);
             n = upd_kthread pKThread (\<lambda>k. k\<lparr>Policy := newPolicy\<rparr>) n
         in KThread_ChangePriority me pKThread newPriority n))"

section \<open>Migration\<close>

definition KThread_ReserveForMigration :: "nat \<Rightarrow> nat \<Rightarrow> Node \<Rightarrow> Node \<times> nat option" where
  "KThread_ReserveForMigration a hwthread_index n =
     (case free_slot n a hwthread_index of
        None \<Rightarrow> (n, None)
      | Some sched_slot \<Rightarrow>
          (let n = upd_kthread (SchedSlot (HWThreads n hwthread_index) ! sched_slot)
                     (\<lambda>k. k\<lparr>State := State k OR SCHED_STATE_RESERVED\<rparr>) n
           in (incrementSlotAllocatedCount hwthread_index n, Some sched_slot)))"

definition KThread_ReleaseForMigration :: "nat \<Rightarrow> nat \<Rightarrow> Node \<Rightarrow> Node" where
  "KThread_ReleaseForMigration hwthread_index reserved_slot n =
     (let k = SchedSlot (HWThreads n hwthread_index) ! reserved_slot in
      if State (KThreads n k) AND SCHED_STATE_RESERVED = 0 then n
      else decrementSlotAllocatedCount hwthread_index
             (upd_kthread k (\<lambda>k. k\<lparr>State := State k AND NOT SCHED_STATE_RESERVED\<rparr>) n))"

definition KThread_SetMigrationTarget :: "nat \<Rightarrow> nat \<Rightarrow> nat \<Rightarrow> Node \<Rightarrow> Node option" where
  "KThread_SetMigrationTarget kthread hwthread_index reserved_slot n =
     (if MigrationData (KThreads n kthread) = None
      then Some (upd_kthread kthread (\<lambda>k. k\<lparr>MigrationData := Some (hwthread_index, reserved_slot)\<rparr>) n)
      else None)"

text \<open>
  The move of a thread away from the hardware thread that runs the code: its place is exchanged
  with the reserved thread of the target, whose slot it takes only when the migration is completed
  there. The assertions of the code fail with \<open>None\<close>.
\<close>

definition exchange_places :: "nat \<Rightarrow> nat \<Rightarrow> nat \<Rightarrow> Node \<Rightarrow> Node" where
  "exchange_places me pKThr pNewKThread n =
     (let old = KThreads n pKThr; new = KThreads n pNewKThread;
          n = upd_kthread pKThr (\<lambda>k. k\<lparr>ProcessorID := ProcessorID new, SlotIndex := SlotIndex new,
                                    pHWThread := pHWThread new\<rparr>) n
      in upd_kthread pNewKThread (\<lambda>k. k\<lparr>ProcessorID := ProcessorID old, SlotIndex := SlotIndex old,
                                    pHWThread := pHWThread old, pAppProc := hwtProcess n me\<rparr>) n)"

definition KThread_MoveToHwThread :: "nat \<Rightarrow> nat \<Rightarrow> Node \<Rightarrow> Node option" where
  "KThread_MoveToHwThread me pKThr n =
     (case MigrationData (KThreads n pKThr) of
        None \<Rightarrow> None
      | Some (new_hwthread, new_slot) \<Rightarrow>
          if new_hwthread = me then Some (upd_kthread pKThr (\<lambda>k. k\<lparr>MigrationData := None\<rparr>) n)
          else
            (let pNewKThread = SchedSlot (HWThreads n new_hwthread) ! new_slot in
             if ProcessorID (KThreads n pKThr) \<noteq> me \<or> State (KThreads n pNewKThread) AND SCHED_STATE_RESERVED = 0 then None
             else
               (let n = Sched_Block me pKThr SCHED_STATE_RESET n;
                    n = exchange_places me pKThr pNewKThread n;
                    n = (if Policy (KThreads n pKThr) = SCHED_COMM
                         then upd_hwthread (pHWThread (KThreads n pNewKThread)) (\<lambda>h. h\<lparr>pCommThread := None\<rparr>) n else n);
                    n = upd_hwthread me (\<lambda>h. h\<lparr>SchedSlot := (SchedSlot h)[SlotIndex (KThreads n pNewKThread) := pNewKThread]\<rparr>) n;
                    n = upd_hwthread me (KThread_refreshPriorityData (KThreads n)) n
                in if pKThr = pCurrentThread (HWThreads n me)
                   then Some (upd_kthread pKThr (\<lambda>k. k\<lparr>Pending := Pending k OR KTHR_PENDING_MIGRATE\<rparr>) n)
                   else Some (IPI_DeliverInterrupt (ProcessorID (KThreads n pKThr)) (IPI_handler_complete_migration pKThr) n))))"

text \<open>The current thread leaves; the call of the scheduler follows.\<close>

definition KThread_MigrateSelf :: "nat \<Rightarrow> nat \<Rightarrow> Node \<Rightarrow> Node" where
  "KThread_MigrateSelf me kthr n =
     IPI_DeliverInterrupt (ProcessorID (KThreads n kthr)) (IPI_handler_complete_migration kthr)
       (upd_hwthread me (\<lambda>h. h\<lparr>pCurrentThread := SchedSlot h ! CONFIG_SCHED_KERNEL_SLOT_INDEX\<rparr>) n)"

text \<open>
  The arrival on the target: the thread takes its slot, the thread that gave it up is free again
  on the hardware thread where the migration began. The memory map of a remote process is not
  modelled.
\<close>

definition KThread_CompleteMigration :: "nat \<Rightarrow> nat \<Rightarrow> Node \<Rightarrow> Node option" where
  "KThread_CompleteMigration me newKThread n =
     (let remoteThreadMigration = (pAppProc (KThreads n newKThread) \<noteq> hwtProcess n me);
          slot = SlotIndex (KThreads n newKThread);
          originalKThread = SchedSlot (HWThreads n me) ! slot;
          n = upd_hwthread me (\<lambda>h. h\<lparr>SchedSlot := (SchedSlot h)[slot := newKThread]\<rparr>) n;
          n = (if Policy (KThreads n newKThread) = SCHED_COMM
               then upd_hwthread me (\<lambda>h. h\<lparr>pCommThread := Some newKThread\<rparr>) n else n);
          originalProcessorID = ProcessorID (KThreads n originalKThread);
          appExitMask = (if remoteThreadMigration then SCHED_STATE_APPEXIT else 0)
      in if State (KThreads n originalKThread) AND SCHED_STATE_RESERVED = 0 then None
         else
           (let n = upd_kthread originalKThread (\<lambda>k. k\<lparr>State := State k AND NOT (SCHED_STATE_RESERVED OR appExitMask)\<rparr>) n;
                n = (case pAppProc (KThreads n originalKThread) of
                       None \<Rightarrow> n | Some a \<Rightarrow> Process_MakeHwThreadAvail a originalProcessorID n);
                n = (if remoteThreadMigration then Sched_Unblock me newKThread SCHED_STATE_APPEXIT n else n);
                n = Sched_Unblock me newKThread SCHED_STATE_RESET n;
                n = upd_hwthread me (\<lambda>h. h\<lparr>priorityRefreshPending := True\<rparr>) n;
                cur = pCurrentThread (HWThreads n me);
                n = (if SlotIndex (KThreads n cur) \<noteq> CONFIG_SCHED_KERNEL_SLOT_INDEX \<and>
                        Priority (KThreads n cur) <s Priority (KThreads n newKThread)
                     then upd_kthread cur (\<lambda>k. k\<lparr>Pending := Pending k OR KTHR_PENDING_YIELD\<rparr>) n else n)
            in Some (upd_kthread newKThread (\<lambda>k. k\<lparr>MigrationData := None\<rparr>) n)))"

datatype errno = ESRCH | EINVAL

text \<open>
  The system call: \<open>targetKThread\<close> is the thread of the given number, \<open>hwthread\<close> the first
  processor in the given set, and \<open>copy_ok\<close> says whether the memory map of the process can be
  copied to the core of another process.
\<close>

definition hwthread_in_mask :: "u64 \<Rightarrow> nat \<Rightarrow> bool" where
  "hwthread_in_mask msk i = bit msk (63 - i)"

definition sc_sched_setaffinity ::
  "nat \<Rightarrow> nat \<Rightarrow> bool \<Rightarrow> ptr \<Rightarrow> nat option \<Rightarrow> Node \<Rightarrow> (Node \<times> errno option) option" where
  "sc_sched_setaffinity me a copy_ok target hwthread n =
     (case target of
        None \<Rightarrow> Some (n, Some ESRCH)
      | Some k \<Rightarrow>
          if isProcessLeader (KThreads n k) then Some (n, Some EINVAL)
          else (case hwthread of
             None \<Rightarrow> Some (n, Some EINVAL)
           | Some q \<Rightarrow>
               (let proc = Processes n a; remote = \<not> hwthread_in_mask (HwthreadMask proc) q in
                if remote \<and> ThreadModel proc \<noteq> CONFIG_THREAD_MODEL_ETA then Some (n, Some EINVAL)
                else if ProcessorID (KThreads n k) = q then
                  Some (if HWThread_Count proc = 2
                        then upd_process a (\<lambda>p. p\<lparr>HwtRecycleListMgr := (HwtRecycleListMgr p)\<lparr>threadLayout_count := 1\<rparr>\<rparr>) n
                        else n, None)
                else (case KThread_ReserveForMigration a q n of
                   (n, None) \<Rightarrow> Some (n, Some EINVAL)
                 | (n, Some slot) \<Rightarrow>
                     (case KThread_SetMigrationTarget k q slot n of
                        None \<Rightarrow> Some (KThread_ReleaseForMigration q slot n, Some EINVAL)
                      | Some n \<Rightarrow>
                          if remote \<and> (HWThread_Count proc > 2 \<or> ProcessorID (KThreads n k) div 4 \<noteq> q div 4) \<and> \<not> copy_ok
                          then Some (KThread_ReleaseForMigration q slot n, Some EINVAL)
                          else if ProcessorID (KThreads n k) = me
                          then map_option (\<lambda>n. (n, None)) (KThread_MoveToHwThread me k n)
                          else Some (IPI_DeliverInterrupt (ProcessorID (KThreads n k)) (IPI_handler_setaffinity k) n, None))))))"

section \<open>The handlers of the requests\<close>

definition IsProcessActive :: "Node \<Rightarrow> nat \<Rightarrow> bool" where
  "IsProcessActive n k =
     (case pAppProc (KThreads n k) of
        None \<Rightarrow> False
      | Some a \<Rightarrow> ProcState (Processes n a) \<notin> {ProcessState_Free, ProcessState_ExitPending})"

fun IPI_handler :: "nat \<Rightarrow> ipi \<Rightarrow> Node \<Rightarrow> Node option" where
  "IPI_handler me (IPI_handler_run_scheduler kthread unblock_state) n =
     (case kthread of
        None \<Rightarrow> Some (pend_yield me n)
      | Some k \<Rightarrow>
          if \<not> IsProcessActive n k then Some n
          else
            (let n = pend_yield me n
             in Some (if unblock_state \<noteq> 0 then Sched_Unblock me k unblock_state n else n)))"
| "IPI_handler me (IPI_handler_block_thread k new_state) n =
     (if \<not> IsProcessActive n k then Some n
      else
        (let n = pend_yield me n
         in Some (if new_state \<noteq> 0 then Sched_Block me k new_state n else n)))"
| "IPI_handler me (IPI_handler_setaffinity k) n =
     (if \<not> IsProcessActive n k then Some n else KThread_MoveToHwThread me k n)"
| "IPI_handler me (IPI_handler_complete_migration k) n =
     (if \<not> IsProcessActive n k then Some n else KThread_CompleteMigration me k n)"
| "IPI_handler me (IPI_handler_changepolicy k newPolicy newPriority) n =
     (if \<not> IsProcessActive n k then Some n else Some (KThread_ChangePolicy me k newPolicy newPriority n))"

end
