(* ===== verification/CnkAlloc.thy ===== *)
theory CnkAlloc
  imports CnkThread
begin

text \<open>
  The allocation of a thread for \<^verbatim>\<open>clone\<close>: the search visits every hardware thread of the process,
  so it fails only when none of them has a free slot.
\<close>

section \<open>The search order\<close>

text \<open>Inside a core the hardware threads are taken in the order 0, 2, 1, 3.\<close>

definition evens_first :: "nat \<Rightarrow> nat" where
  "evens_first t = (if t = 1 then 2 else if t = 2 then 1 else t)"

lemma evens_first_less: "t < 4 \<Longrightarrow> evens_first t < 4"
  by (simp add: evens_first_def)

lemma evens_first_twice: "evens_first (evens_first t) = t"
  by (simp add: evens_first_def)

lemma less_4_cases:
  assumes "t < (4 :: nat)"
  obtains "t = 0" | "t = 1" | "t = 2" | "t = 3"
  using assms by linarith

lemma layout_depth:
  assumes "4 \<le> c"
  shows "layout_processorID CONFIG_SCHED_DEPTH_LAYOUT c l i =
    l + 4 * (i mod c div 4) + evens_first (i mod c mod 4)"
proof -
  define q r where "q = i mod c div 4" and "r = i mod c mod 4"
  have s: "i mod c = 4 * q + r" "r < 4" by (simp_all add: q_def r_def)
  have "layout_processorID CONFIG_SCHED_DEPTH_LAYOUT c l i =
      (if r = 1 then i mod c + l + 1 else if r = 2 then i mod c + l - 1 else i mod c + l)"
    using assms by (simp add: layout_processorID_def Let_def r_def)
  also have "\<dots> = l + 4 * q + evens_first r"
    unfolding s(1) using s(2) by (cases rule: less_4_cases) (simp_all add: evens_first_def)
  finally show ?thesis by (simp only: q_def r_def)
qed

lemma layout_breadth:
  assumes "c = 4 * d" "1 < d"
  shows "layout_processorID CONFIG_SCHED_BREADTH_LAYOUT c l i =
    l + 4 * (i mod c mod d) + evens_first (i mod c div d)"
proof -
  define q t where "q = i mod c mod d" and "t = i mod c div d"
  have "i mod c < 4 * d" using assms by simp
  then have t: "t < 4" by (simp add: t_def less_mult_imp_div_less)
  have s: "i mod c = d * t + q" "q < d" using assms by (simp_all add: q_def t_def)
  have m: "i mod d = q" using assms by (simp add: q_def mod_mod_cancel)
  have "layout_processorID CONFIG_SCHED_BREADTH_LAYOUT c l i =
      (if d \<le> d * t + q \<and> d * t + q < 2 * d then q * 4 + t + l + 1
       else if 2 * d \<le> d * t + q \<and> d * t + q < 2 * d + d then q * 4 + t + l - 1 else q * 4 + t + l)"
    using assms unfolding layout_processorID_def Let_def s(1) [symmetric] by (simp add: m t_def)
  also have "\<dots> = l + 4 * q + evens_first t"
    using t s(2) by (cases rule: less_4_cases) (auto simp: evens_first_def)
  finally show ?thesis by (simp only: q_def t_def)
qed

text \<open>A pass of as many steps as the process has hardware threads meets each of them.\<close>

definition counts_ok :: "nat \<Rightarrow> bool" where
  "counts_ok c \<longleftrightarrow> c = 1 \<or> c = 2 \<or> 4 dvd c \<and> 0 < c"

lemma layout_small: "c < 4 \<Longrightarrow> layout_processorID layout c l i = l + i mod c"
  by (simp add: layout_processorID_def Let_def)

lemma layout_four: "layout_processorID layout 4 l i = layout_processorID CONFIG_SCHED_DEPTH_LAYOUT 4 l i"
  by (simp add: layout_processorID_def Let_def)

text \<open>For a hardware thread of the process, the count at which it is tried.\<close>

lemma layout_onto_depth:
  assumes c: "c = 4 * d" "j < c"
  shows "\<exists>s<c. \<forall>i. i mod c = s \<longrightarrow> layout_processorID CONFIG_SCHED_DEPTH_LAYOUT c l i = l + j"
proof -
  let ?s = "4 * (j div 4) + evens_first (j mod 4)"
  have e: "evens_first (j mod 4) < 4" by (simp add: evens_first_less)
  have "j div 4 < d" using c by (simp add: less_mult_imp_div_less mult.commute)
  then have "?s < c" "4 \<le> c" using e c by linarith+
  moreover have "layout_processorID CONFIG_SCHED_DEPTH_LAYOUT c l i = l + j" if "i mod c = ?s" for i
  proof -
    have "layout_processorID CONFIG_SCHED_DEPTH_LAYOUT c l i = l + 4 * (j div 4) + j mod 4"
      unfolding layout_depth [OF \<open>4 \<le> c\<close>] that using e by (simp add: evens_first_twice)
    then show ?thesis by simp
  qed
  ultimately show ?thesis by blast
qed

lemma layout_onto_breadth:
  assumes c: "c = 4 * d" "1 < d" "j < c"
  shows "\<exists>s<c. \<forall>i. i mod c = s \<longrightarrow> layout_processorID CONFIG_SCHED_BREADTH_LAYOUT c l i = l + j"
proof -
  let ?s = "d * evens_first (j mod 4) + j div 4"
  have e: "evens_first (j mod 4) \<le> 3" using evens_first_less [of "j mod 4"] by simp
  have q: "j div 4 < d" using c by (simp add: less_mult_imp_div_less mult.commute)
  have "d * evens_first (j mod 4) \<le> d * 3" using e by (rule mult_le_mono2)
  then have "?s < c" using q c(1) by linarith
  moreover have "layout_processorID CONFIG_SCHED_BREADTH_LAYOUT c l i = l + j" if "i mod c = ?s" for i
  proof -
    have "layout_processorID CONFIG_SCHED_BREADTH_LAYOUT c l i = l + 4 * (j div 4) + j mod 4"
      unfolding layout_breadth [OF c(1,2)] that using q by (simp add: evens_first_twice)
    then show ?thesis by simp
  qed
  ultimately show ?thesis by blast
qed

lemma layout_onto:
  assumes c: "counts_ok c" and j: "j < c"
  shows "\<exists>s<c. \<forall>i. i mod c = s \<longrightarrow> layout_processorID layout c l i = l + j"
proof (cases "c < 4")
  case True
  then show ?thesis using j by (intro exI [of _ j]) (simp add: layout_small)
next
  case False
  then have "4 dvd c" using c by (auto simp: counts_ok_def)
  then obtain d where d: "c = 4 * d" by (rule dvdE)
  show ?thesis
  proof (cases "c = 4")
    case True
    have "layout_processorID layout 4 l i = layout_processorID CONFIG_SCHED_DEPTH_LAYOUT 4 l i" for i
      by (rule layout_four)
    with layout_onto_depth [OF d j, of l] True show ?thesis by simp
  next
    case False
    with d \<open>\<not> c < 4\<close> have "1 < d" by simp
    then show ?thesis
      using layout_onto_depth [OF d j, of l] layout_onto_breadth [OF d _ j, of l] by (cases layout) simp_all
  qed
qed

text \<open>A window of \<open>c\<close> numbers has every remainder.\<close>

lemma window_mod:
  assumes "t < (c :: nat)"
  shows "\<exists>i. b \<le> i \<and> i < b + c \<and> i mod c = t"
proof -
  let ?i = "b + (t + c - b mod c) mod c"
  have "b mod c < c" using assms by simp
  have "?i mod c = (b mod c + (t + c - b mod c)) mod c"
    by (metis mod_add_left_eq mod_add_right_eq)
  also have "b mod c + (t + c - b mod c) = t + c" using \<open>b mod c < c\<close> by linarith
  also have "(t + c) mod c = t" using assms by simp
  finally have "?i mod c = t" .
  moreover have "b \<le> ?i" "?i < b + c" using assms by simp_all
  ultimately show ?thesis by blast
qed

section \<open>The search\<close>

text \<open>What the search needs of the counter: it does not wrap around during the pass.\<close>

lemma GrabFreeKThread_None: "GrabFreeKThread a p n = (n', None) \<longleftrightarrow> n' = n \<and> free_slot n a p = None"
  by (auto simp: GrabFreeKThread_def Let_def split: option.splits)

definition same_threads :: "Node \<Rightarrow> Node \<Rightarrow> bool" where
  "same_threads n n' \<longleftrightarrow> KThreads n' = KThreads n \<and> HWThreads n' = HWThreads n \<and>
     (\<forall>a. ThreadModel (Processes n' a) = ThreadModel (Processes n a) \<and>
       HWThread_Count (Processes n' a) = HWThread_Count (Processes n a) \<and>
       ProcessLeader_ProcessorID (Processes n' a) = ProcessLeader_ProcessorID (Processes n a) \<and>
       layout_type (HwtRecycleListMgr (Processes n' a)) = layout_type (HwtRecycleListMgr (Processes n a)))"

lemma same_threads_free_slot: "same_threads n n' \<Longrightarrow> free_slot n' a p = free_slot n a p"
  by (simp add: same_threads_def free_slot_def affinity_slots_def Let_def)

lemma same_threads_refl: "same_threads n n"
  by (simp add: same_threads_def)

lemma same_threads_trans: "same_threads n n' \<Longrightarrow> same_threads n' n'' \<Longrightarrow> same_threads n n''"
  by (simp add: same_threads_def)

lemma layout_loop_None:
  assumes "layout_loop a loops n = (n', None)"
    "unat (threadLayout_count (HwtRecycleListMgr (Processes n a))) + loops < 2 ^ 64"
  shows "\<forall>i. unat (threadLayout_count (HwtRecycleListMgr (Processes n a))) \<le> i \<and>
      i < unat (threadLayout_count (HwtRecycleListMgr (Processes n a))) + loops \<longrightarrow>
    free_slot n a (layout_processorID (layout_type (HwtRecycleListMgr (Processes n a))) (HWThread_Count (Processes n a))
      (ProcessLeader_ProcessorID (Processes n a)) i) = None"
  using assms
proof (induction loops arbitrary: n)
  case 0
  then show ?case by auto
next
  case (Suc loops)
  let ?proc = "Processes n a"
  let ?mgr = "HwtRecycleListMgr ?proc"
  let ?c = "threadLayout_count ?mgr"
  define n1 where "n1 = upd_process a (\<lambda>p. p\<lparr>HwtRecycleListMgr := ?mgr\<lparr>threadLayout_count := ?c + 1\<rparr>\<rparr>) n"
  let ?at = "layout_processorID (layout_type ?mgr) (HWThread_Count ?proc) (ProcessLeader_ProcessorID ?proc)"
  have same: "same_threads n n1" by (simp add: n1_def same_threads_def upd_process_def)
  have c1: "unat (threadLayout_count (HwtRecycleListMgr (Processes n1 a))) = unat ?c + 1"
    using Suc.prems(2) by (simp add: n1_def upd_process_def unat_add_exact)
  obtain n2 k where g: "GrabFreeKThread a (?at (unat ?c)) n1 = (n2, k)" by fastforce
  have "layout_loop a (Suc loops) n = (case k of Some _ \<Rightarrow> (n2, k) | None \<Rightarrow> layout_loop a loops n2)"
    unfolding layout_loop.simps Let_def using g by (simp add: n1_def split: option.splits)
  with Suc.prems(1) g have "k = None" "layout_loop a loops n1 = (n', None)" and f: "free_slot n1 a (?at (unat ?c)) = None"
    by (auto simp: GrabFreeKThread_None split: option.splits)
  then have IH: "\<forall>i. unat ?c + 1 \<le> i \<and> i < unat ?c + 1 + loops \<longrightarrow>
      free_slot n1 a (layout_processorID (layout_type (HwtRecycleListMgr (Processes n1 a)))
        (HWThread_Count (Processes n1 a)) (ProcessLeader_ProcessorID (Processes n1 a)) i) = None"
    using Suc.IH [of n1] Suc.prems(2) c1 by simp
  have fs: "free_slot n1 a p = free_slot n a p" for p by (rule same_threads_free_slot [OF same])
  have eq: "layout_type (HwtRecycleListMgr (Processes n1 a)) = layout_type ?mgr"
      "HWThread_Count (Processes n1 a) = HWThread_Count ?proc"
      "ProcessLeader_ProcessorID (Processes n1 a) = ProcessLeader_ProcessorID ?proc"
    using same by (simp_all add: same_threads_def)
  show ?case
  proof (intro allI impI)
    fix i assume "unat ?c \<le> i \<and> i < unat ?c + Suc loops"
    then consider "i = unat ?c" | "unat ?c + 1 \<le> i" "i < unat ?c + 1 + loops" by linarith
    then show "free_slot n a (?at i) = None"
      using IH f unfolding fs eq by cases auto
  qed
qed

lemma recycle_loop_None:
  "recycle_loop a n = (n', None) \<Longrightarrow> same_threads n n' \<and>
     threadLayout_count (HwtRecycleListMgr (Processes n' a)) = threadLayout_count (HwtRecycleListMgr (Processes n a))"
proof (induction a n rule: recycle_loop.induct)
  case (1 a n)
  show ?case
  proof (cases "indexHead (HwtRecycleListMgr (Processes n a)) < indexTail (HwtRecycleListMgr (Processes n a))")
    case True
    obtain n1 p where p: "pop_recycled a n = (n1, p)" by fastforce
    obtain n2 k where g: "GrabFreeKThread a p n1 = (n2, k)" by fastforce
    have k: "k = None" using 1(2) True p g
      by (cases k) (simp_all add: recycle_loop.simps [of a n])
    with g have n2: "n2 = n1" by (simp add: GrabFreeKThread_None)
    have "same_threads n n1 \<and>
        threadLayout_count (HwtRecycleListMgr (Processes n1 a)) = threadLayout_count (HwtRecycleListMgr (Processes n a))"
      using p by (auto simp: pop_recycled_def upd_process_def same_threads_def Let_def)
    moreover have "recycle_loop a n2 = (n', None)"
      using 1(2) True p g k by (simp add: recycle_loop.simps [of a n])
    from 1(1) [OF True p [symmetric] g [symmetric] k this]
    have "same_threads n1 n' \<and>
        threadLayout_count (HwtRecycleListMgr (Processes n' a)) = threadLayout_count (HwtRecycleListMgr (Processes n1 a))"
      by (simp add: n2)
    ultimately show ?thesis by (auto intro: same_threads_trans)
  next
    case False
    with 1(2) show ?thesis by (simp add: recycle_loop.simps [of a n] same_threads_refl)
  qed
qed

text \<open>A thread that was grabbed: it was free and not reserved, and only its state is changed.\<close>

definition grabbed :: "Node \<Rightarrow> nat \<Rightarrow> Node \<Rightarrow> bool" where
  "grabbed n k n' \<longleftrightarrow> State (KThreads n k) AND SCHED_STATE_FREE \<noteq> 0 \<and> State (KThreads n k) AND SCHED_STATE_RESERVED = 0 \<and>
     KThreads n' = (KThreads n)(k := (KThreads n k)\<lparr>State := (State (KThreads n k) AND NOT SCHED_STATE_FREE) OR SCHED_STATE_RESET\<rparr>)"

lemma GrabFreeKThread_Some: "GrabFreeKThread a p n = (n', Some k) \<Longrightarrow> grabbed n k n'"
  by (auto simp: GrabFreeKThread_def grabbed_def free_slot_def Let_def find_Some_iff upd_kthread_def
      incrementSlotAllocatedCount_def upd_hwthread_def split: option.splits if_splits)

lemma grabbed_same: "same_threads n n1 \<Longrightarrow> grabbed n1 k n' \<Longrightarrow> grabbed n k n'"
  by (simp add: grabbed_def same_threads_def)

lemma recycle_loop_Some: "recycle_loop a n = (n', Some k) \<Longrightarrow> grabbed n k n'"
proof (induction a n rule: recycle_loop.induct)
  case (1 a n)
  have lt: "indexHead (HwtRecycleListMgr (Processes n a)) < indexTail (HwtRecycleListMgr (Processes n a))"
    using 1(2) by (simp add: recycle_loop.simps [of a n] split: if_splits)
  obtain n1 p where p: "pop_recycled a n = (n1, p)" by fastforce
  obtain n2 k' where g: "GrabFreeKThread a p n1 = (n2, k')" by fastforce
  have s: "same_threads n n1"
    using p by (auto simp: pop_recycled_def upd_process_def same_threads_def Let_def)
  have "grabbed n1 k n'"
  proof (cases k')
    case None
    with 1(2) lt p g have "recycle_loop a n2 = (n', Some k)" by (simp add: recycle_loop.simps [of a n])
    with 1(1) [OF lt p [symmetric] g [symmetric] None] g None show ?thesis
      by (simp add: GrabFreeKThread_None)
  next
    case (Some k'')
    with 1(2) lt p g show ?thesis
      by (auto simp: recycle_loop.simps [of a n] intro: GrabFreeKThread_Some)
  qed
  then show ?case by (rule grabbed_same [OF s])
qed

lemma layout_loop_Some: "layout_loop a loops n = (n', Some k) \<Longrightarrow> grabbed n k n'"
proof (induction loops arbitrary: n)
  case (Suc loops)
  let ?mgr = "HwtRecycleListMgr (Processes n a)"
  define n1 where "n1 = upd_process a (\<lambda>p. p\<lparr>HwtRecycleListMgr := ?mgr\<lparr>threadLayout_count := threadLayout_count ?mgr + 1\<rparr>\<rparr>) n"
  let ?p = "layout_processorID (layout_type ?mgr) (HWThread_Count (Processes n a))
      (ProcessLeader_ProcessorID (Processes n a)) (unat (threadLayout_count ?mgr))"
  have s: "same_threads n n1" by (simp add: n1_def same_threads_def upd_process_def)
  obtain n2 k' where g: "GrabFreeKThread a ?p n1 = (n2, k')" by fastforce
  have "layout_loop a (Suc loops) n = (case k' of Some _ \<Rightarrow> (n2, k') | None \<Rightarrow> layout_loop a loops n2)"
    unfolding layout_loop.simps Let_def using g by (simp add: n1_def split: option.splits)
  with Suc g have "grabbed n1 k n'"
    by (cases k') (auto simp: GrabFreeKThread_None intro: GrabFreeKThread_Some)
  then show ?case by (rule grabbed_same [OF s])
qed simp


text \<open>A process with the four hardware threads of a core, whose third one has a free slot.\<close>

definition demo_process :: AppProcess where
  "demo_process = \<lparr>HwtRecycleListMgr = \<lparr>threadLayout_count = 3, layout_type = CONFIG_SCHED_BREADTH_LAYOUT,
       indexHead = 0, indexTail = 1, hwtindex = [1]\<rparr>,
     ProcState = ProcessState_Started, ProcessLeader_ProcessorID = 0, ProcessLeader_KThread = 0, HwthreadMask = 0,
     HWThread_Count = 4, ThreadModel = CONFIG_THREAD_MODEL_LTM\<rparr>"

definition demo_node :: Node where
  "demo_node = \<lparr>KThreads = (\<lambda>k. (demo_kthr 0)\<lparr>State := if k div 6 = 2 then SCHED_STATE_FREE else SCHED_STATE_RUN,
       ProcessorID := k div 6, pHWThread := k div 6, SlotIndex := k mod 6\<rparr>),
     HWThreads = (\<lambda>p. demo_hwt\<lparr>SchedSlot := map (\<lambda>s. s + p * 6) [0, 1, 2, 3, 4, 5],
       SlotsAllocated := if p = 2 then 0 else 5\<rparr>),
     Processes = (\<lambda>_. demo_process), hwtProcess = (\<lambda>_. Some 0), ipi_message = [], exited = (\<lambda>_. False)\<rparr>"

lemma demo_allocation: "snd (Process_GetAvailableKThread 0 demo_node) = Some 12"
  by code_simp


end
