(* ===== verification/CnkCounts.thy ===== *)
theory CnkCounts
  imports CnkAlloc
begin

text \<open>
  The counts that the kernel publishes in a register of every hardware thread: the number of its
  runnable threads and the number of its threads. They agree with the states of the threads
  through every interleaving of blocking, unblocking, creation, exit and migration.
\<close>

section \<open>The two bytes of the register\<close>

definition spi_field :: "nat \<Rightarrow> HWThreadState \<Rightarrow> nat" where
  "spi_field b h = unat (SPIinfo h) div 2 ^ b mod 256"

abbreviation spi_runnable :: "HWThreadState \<Rightarrow> nat" where
  "spi_runnable \<equiv> spi_field SPRG_SPIinfo_Runnable"

abbreviation spi_numthds :: "HWThreadState \<Rightarrow> nat" where
  "spi_numthds \<equiv> spi_field SPRG_SPIinfo_NumThds"

text \<open>The bytes as digits of a number.\<close>

lemma byte_dec: "y mod 256 \<noteq> 0 \<Longrightarrow> (y - 1) mod 256 = y mod 256 - 1 \<and> (y - 1) div 256 = y div 256"
  for y :: nat
proof -
  assume n: "y mod 256 \<noteq> 0"
  have "y - 1 = 256 * (y div 256) + (y mod 256 - 1)" using n mult_div_mod_eq [of 256 y] by linarith
  moreover have "y mod 256 - 1 < 256" by (simp add: less_imp_diff_less)
  ultimately show ?thesis by simp
qed

lemma byte_inc: "y mod 256 < 255 \<Longrightarrow> (y + 1) mod 256 = y mod 256 + 1 \<and> (y + 1) div 256 = y div 256"
  for y :: nat
  by (simp add: mod_Suc div_Suc)

lemma spi_fields:
  "spi_numthds h = unat (SPIinfo h) div 65536 mod 256"
  "spi_runnable h = unat (SPIinfo h) div 65536 div 256 mod 256"
  by (simp_all add: spi_field_def SPRG_SPIinfo_NumThds_def SPRG_SPIinfo_Runnable_def flip: div_mult2_eq)

lemma spi_dec_numthds:
  assumes "spi_numthds h \<noteq> 0" "SPIinfo h' = SPIinfo h - 65536"
  shows "spi_numthds h' = spi_numthds h - 1" "spi_runnable h' = spi_runnable h"
proof -
  let ?x = "unat (SPIinfo h)"
  have "?x div 65536 \<noteq> 0" using assms(1) by (intro notI) (simp add: spi_fields)
  then have "unat (SPIinfo h') = ?x - 65536" unfolding assms(2) by (subst unat_sub_exact) auto
  then have "unat (SPIinfo h') div 65536 = ?x div 65536 - 1" by simp
  with byte_dec [of "?x div 65536"] assms(1) show "spi_numthds h' = spi_numthds h - 1" "spi_runnable h' = spi_runnable h"
    by (simp_all add: spi_fields)
qed

lemma spi_dec_runnable:
  assumes "spi_runnable h \<noteq> 0" "SPIinfo h' = SPIinfo h - 16777216"
  shows "spi_numthds h' = spi_numthds h" "spi_runnable h' = spi_runnable h - 1"
proof -
  let ?x = "unat (SPIinfo h)"
  have "?x div 65536 div 256 \<noteq> 0" using assms(1) by (intro notI) (simp add: spi_fields)
  then have ge: "16777216 \<le> ?x" by (simp flip: div_mult2_eq)
  then have "unat (SPIinfo h') = ?x - 16777216" unfolding assms(2) by (subst unat_sub_exact) auto
  then have e: "unat (SPIinfo h') div 65536 = ?x div 65536 - 256" using ge by simp
  have "256 \<le> ?x div 65536" using ge by simp
  then have "(?x div 65536 - 256) mod 256 = ?x div 65536 mod 256" "(?x div 65536 - 256) div 256 = ?x div 65536 div 256 - 1"
    by (simp_all add: le_mod_geq [symmetric])
  with e byte_dec [of "?x div 65536 div 256"] assms(1)
  show "spi_numthds h' = spi_numthds h" "spi_runnable h' = spi_runnable h - 1"
    by (simp_all add: spi_fields)
qed

text \<open>A byte below its largest value leaves room for one more.\<close>

lemma spi_inc_numthds:
  assumes "spi_numthds h < 255" "SPIinfo h' = SPIinfo h + 65536"
  shows "spi_numthds h' = spi_numthds h + 1" "spi_runnable h' = spi_runnable h"
proof -
  let ?x = "unat (SPIinfo h)"
  have x: "?x < 18446744073709551616" using unat_less_pow [of "SPIinfo h"] by simp
  have "?x + 65536 < 18446744073709551616"
  proof (rule ccontr)
    assume "\<not> ?thesis"
    then have "?x div 65536 = 281474976710655" using x by (intro div_nat_eqI) simp_all
    with assms(1) show False by (simp add: spi_fields)
  qed
  then have "unat (SPIinfo h') = ?x + 65536" unfolding assms(2) by (subst unat_add_exact) auto
  then have "unat (SPIinfo h') div 65536 = ?x div 65536 + 1" by simp
  with byte_inc [of "?x div 65536"] assms(1)
  show "spi_numthds h' = spi_numthds h + 1" "spi_runnable h' = spi_runnable h"
    by (simp_all add: spi_fields)
qed

lemma spi_inc_runnable:
  assumes "spi_runnable h < 255" "SPIinfo h' = SPIinfo h + 16777216"
  shows "spi_numthds h' = spi_numthds h" "spi_runnable h' = spi_runnable h + 1"
proof -
  let ?x = "unat (SPIinfo h)"
  have x: "?x < 18446744073709551616" using unat_less_pow [of "SPIinfo h"] by simp
  have "?x + 16777216 < 18446744073709551616"
  proof (rule ccontr)
    assume "\<not> ?thesis"
    then have "?x div 16777216 = 1099511627775" using x by (intro div_nat_eqI) simp_all
    with assms(1) show False by (simp add: spi_fields flip: div_mult2_eq)
  qed
  then have "unat (SPIinfo h') = ?x + 16777216" unfolding assms(2) by (subst unat_add_exact) auto
  then have "unat (SPIinfo h') div 65536 = ?x div 65536 + 256" by simp
  then have 1: "unat (SPIinfo h') div 65536 mod 256 = ?x div 65536 mod 256"
    and 2: "unat (SPIinfo h') div 65536 div 256 = ?x div 65536 div 256 + 1"
    by simp_all
  show "spi_numthds h' = spi_numthds h" unfolding spi_fields by (rule 1)
  show "spi_runnable h' = spi_runnable h + 1"
    unfolding spi_fields 2 using byte_inc [of "?x div 65536 div 256"] assms(1) [unfolded spi_fields] by blast
qed

section \<open>The threads of a hardware thread\<close>

definition active :: "u32 \<Rightarrow> bool" where
  "active st \<longleftrightarrow> \<not> bit st 0 \<and> \<not> bit st 3"

definition threads_of :: "Node \<Rightarrow> nat \<Rightarrow> nat set" where
  "threads_of n p = {k. k < NUM_KTHREADS \<and> pHWThread (KThreads n k) = p \<and> SlotIndex (KThreads n k) < CONFIG_SCHED_KERNEL_SLOT_INDEX}"

definition runnable_of :: "Node \<Rightarrow> nat \<Rightarrow> nat set" where
  "runnable_of n p = {k \<in> threads_of n p. State (KThreads n k) = SCHED_STATE_RUN}"

definition active_of :: "Node \<Rightarrow> nat \<Rightarrow> nat set" where
  "active_of n p = {k \<in> threads_of n p. active (State (KThreads n k))}"

text \<open>The published counts of a hardware thread are right.\<close>

definition counted :: "Node \<Rightarrow> nat \<Rightarrow> bool" where
  "counted n p \<longleftrightarrow> spi_runnable (HWThreads n p) = card (runnable_of n p) \<and>
     spi_numthds (HWThreads n p) = card (active_of n p)"

text \<open>No two threads have the same place.\<close>

definition placed :: "Node \<Rightarrow> bool" where
  "placed n \<longleftrightarrow> inj_on (\<lambda>k. (pHWThread (KThreads n k), SlotIndex (KThreads n k))) {..<NUM_KTHREADS}"

lemma finite_threads_of [simp]: "finite (threads_of n p)"
  by (simp add: threads_of_def)

lemma finite_counted [simp]: "finite (runnable_of n p)" "finite (active_of n p)"
  by (simp_all add: runnable_of_def active_of_def)

lemma card_threads_of: "placed n \<Longrightarrow> card (threads_of n p) \<le> 5"
proof -
  assume p: "placed n"
  have "inj_on (\<lambda>k. SlotIndex (KThreads n k)) (threads_of n p)"
    using p by (auto simp: placed_def threads_of_def inj_on_def)
  moreover have "(\<lambda>k. SlotIndex (KThreads n k)) ` threads_of n p \<subseteq> {..<5}"
    by (auto simp: threads_of_def CONFIG_SCHED_KERNEL_SLOT_INDEX_def CONFIG_AFFIN_SLOTS_PER_HWTHREAD_def)
  ultimately have "card (threads_of n p) \<le> card {..<5 :: nat}"
    by (metis card_image card_mono finite_lessThan)
  then show ?thesis by simp
qed

lemma counts_small:
  assumes "placed n"
  shows "card (runnable_of n p) \<le> 5" "card (active_of n p) \<le> 5"
  using card_threads_of [OF assms, of p] card_mono [OF finite_threads_of, of "runnable_of n p" n p]
    card_mono [OF finite_threads_of, of "active_of n p" n p]
  by (auto simp: runnable_of_def active_of_def)

text \<open>An operation that changes the state of one thread only.\<close>

definition only :: "nat \<Rightarrow> Node \<Rightarrow> Node \<Rightarrow> bool" where
  "only k n n' \<longleftrightarrow> (\<forall>j. pHWThread (KThreads n' j) = pHWThread (KThreads n j) \<and>
     SlotIndex (KThreads n' j) = SlotIndex (KThreads n j) \<and> (j \<noteq> k \<longrightarrow> State (KThreads n' j) = State (KThreads n j)))"

lemma only_threads_of: "only k n n' \<Longrightarrow> threads_of n' p = threads_of n p"
  by (simp add: only_def threads_of_def)

lemma only_placed: "only k n n' \<Longrightarrow> placed n' = placed n"
  by (simp add: only_def placed_def)

lemma card_one_changed:
  assumes "finite A" "finite B" "A - {k} = B - {k}"
  shows "card B + of_bool (k \<in> A) = card A + of_bool (k \<in> B)"
proof -
  have "card S = card (S - {k}) + of_bool (k \<in> S)" if "finite S" for S
    using card.remove [OF that, of k] by (cases "k \<in> S") auto
  from this [OF assms(1)] this [OF assms(2)] show ?thesis unfolding assms(3) by linarith
qed

lemma only_runnable:
  assumes "only k n n'"
  shows "card (runnable_of n' p) + of_bool (k \<in> runnable_of n p) = card (runnable_of n p) + of_bool (k \<in> runnable_of n' p)"
  by (rule card_one_changed) (use assms in \<open>auto simp: runnable_of_def threads_of_def only_def\<close>)

lemma only_active:
  assumes "only k n n'"
  shows "card (active_of n' p) + of_bool (k \<in> active_of n p) = card (active_of n p) + of_bool (k \<in> active_of n' p)"
  by (rule card_one_changed) (use assms in \<open>auto simp: active_of_def threads_of_def only_def\<close>)

text \<open>It suffices to look at that thread: a hardware thread that is not its own is not concerned.\<close>

lemma counted_only:
  assumes "only k n n'" "counted n p"
    and "spi_runnable (HWThreads n' p) + of_bool (k \<in> runnable_of n p) = spi_runnable (HWThreads n p) + of_bool (k \<in> runnable_of n' p)"
    and "spi_numthds (HWThreads n' p) + of_bool (k \<in> active_of n p) = spi_numthds (HWThreads n p) + of_bool (k \<in> active_of n' p)"
  shows "counted n' p"
  using assms only_runnable [OF assms(1), of p] only_active [OF assms(1), of p] by (simp add: counted_def)

lemma counted_elsewhere:
  assumes "only k n n'" "counted n p" "pHWThread (KThreads n k) \<noteq> p" "HWThreads n' p = HWThreads n p"
  shows "counted n' p"
proof (rule counted_only [OF assms(1,2)])
  have "k \<notin> threads_of n p" using assms(3) by (simp add: threads_of_def)
  then have "k \<notin> runnable_of n p" "k \<notin> runnable_of n' p" "k \<notin> active_of n p" "k \<notin> active_of n' p"
    using only_threads_of [OF assms(1)] by (simp_all add: runnable_of_def active_of_def)
  with assms(4) show
    "spi_runnable (HWThreads n' p) + of_bool (k \<in> runnable_of n p) = spi_runnable (HWThreads n p) + of_bool (k \<in> runnable_of n' p)"
    "spi_numthds (HWThreads n' p) + of_bool (k \<in> active_of n p) = spi_numthds (HWThreads n p) + of_bool (k \<in> active_of n' p)"
    by simp_all
qed

section \<open>Blocking and unblocking keep the counts\<close>

subsection \<open>What the updates change\<close>

lemma upd_simps [simp]:
  "KThreads (upd_kthread k f n) = (KThreads n)(k := f (KThreads n k))" "HWThreads (upd_kthread k f n) = HWThreads n"
  "Processes (upd_kthread k f n) = Processes n" "exited (upd_kthread k f n) = exited n"
  "ipi_message (upd_kthread k f n) = ipi_message n" "hwtProcess (upd_kthread k f n) = hwtProcess n"
  "HWThreads (upd_hwthread p g n) = (HWThreads n)(p := g (HWThreads n p))" "KThreads (upd_hwthread p g n) = KThreads n"
  "Processes (upd_hwthread p g n) = Processes n" "exited (upd_hwthread p g n) = exited n"
  "ipi_message (upd_hwthread p g n) = ipi_message n" "hwtProcess (upd_hwthread p g n) = hwtProcess n"
  "KThreads (upd_process a h n) = KThreads n" "HWThreads (upd_process a h n) = HWThreads n"
  "exited (upd_process a h n) = exited n" "ipi_message (upd_process a h n) = ipi_message n"
  "hwtProcess (upd_process a h n) = hwtProcess n"
  by (simp_all add: upd_kthread_def upd_hwthread_def upd_process_def)

lemma IPI_DeliverInterrupt_simps [simp]:
  "KThreads (IPI_DeliverInterrupt p m n) = KThreads n" "HWThreads (IPI_DeliverInterrupt p m n) = HWThreads n"
  "exited (IPI_DeliverInterrupt p m n) = exited n" "Processes (IPI_DeliverInterrupt p m n) = Processes n"
  "hwtProcess (IPI_DeliverInterrupt p m n) = hwtProcess n"
  by (simp_all add: IPI_DeliverInterrupt_def)

lemma start_leader_simps [simp]:
  "KThreads (start_leader me k n) = KThreads n" "HWThreads (start_leader me k n) = HWThreads n"
  "hwtProcess (start_leader me k n) = hwtProcess n"
  by (simp_all add: start_leader_def split: option.splits ProcessState.splits)

lemma start_leader_mono: "exited n p \<Longrightarrow> exited (start_leader me k n) p"
  by (auto simp: start_leader_def split: option.splits ProcessState.splits)

lemma spi_change_simps [simp]:
  "KThreads (spi_add b p n) = KThreads n" "KThreads (spi_sub b p n) = KThreads n"
  "exited (spi_add b p n) = exited n" "exited (spi_sub b p n) = exited n"
  "q \<noteq> p \<Longrightarrow> HWThreads (spi_add b p n) q = HWThreads n q" "q \<noteq> p \<Longrightarrow> HWThreads (spi_sub b p n) q = HWThreads n q"
  by (simp_all add: spi_add_def spi_sub_def)

lemma spi_sub_runnable:
  "spi_runnable (HWThreads n p) \<noteq> 0 \<Longrightarrow>
     spi_runnable (HWThreads (spi_sub SPRG_SPIinfo_Runnable p n) p) = spi_runnable (HWThreads n p) - 1 \<and>
     spi_numthds (HWThreads (spi_sub SPRG_SPIinfo_Runnable p n) p) = spi_numthds (HWThreads n p)"
  using spi_dec_runnable [of "HWThreads n p" "HWThreads (spi_sub SPRG_SPIinfo_Runnable p n) p"]
  by (simp add: spi_sub_def SPRG_SPIinfo_Runnable_def)

lemma spi_sub_numthds:
  "spi_numthds (HWThreads n p) \<noteq> 0 \<Longrightarrow>
     spi_numthds (HWThreads (spi_sub SPRG_SPIinfo_NumThds p n) p) = spi_numthds (HWThreads n p) - 1 \<and>
     spi_runnable (HWThreads (spi_sub SPRG_SPIinfo_NumThds p n) p) = spi_runnable (HWThreads n p)"
  using spi_dec_numthds [of "HWThreads n p" "HWThreads (spi_sub SPRG_SPIinfo_NumThds p n) p"]
  by (simp add: spi_sub_def SPRG_SPIinfo_NumThds_def)

lemma spi_add_runnable:
  "spi_runnable (HWThreads n p) < 255 \<Longrightarrow>
     spi_runnable (HWThreads (spi_add SPRG_SPIinfo_Runnable p n) p) = spi_runnable (HWThreads n p) + 1 \<and>
     spi_numthds (HWThreads (spi_add SPRG_SPIinfo_Runnable p n) p) = spi_numthds (HWThreads n p)"
  using spi_inc_runnable [of "HWThreads n p" "HWThreads (spi_add SPRG_SPIinfo_Runnable p n) p"]
  by (simp add: spi_add_def SPRG_SPIinfo_Runnable_def)

lemma spi_add_numthds:
  "spi_numthds (HWThreads n p) < 255 \<Longrightarrow>
     spi_numthds (HWThreads (spi_add SPRG_SPIinfo_NumThds p n) p) = spi_numthds (HWThreads n p) + 1 \<and>
     spi_runnable (HWThreads (spi_add SPRG_SPIinfo_NumThds p n) p) = spi_runnable (HWThreads n p)"
  using spi_inc_numthds [of "HWThreads n p" "HWThreads (spi_add SPRG_SPIinfo_NumThds p n) p"]
  by (simp add: spi_add_def SPRG_SPIinfo_NumThds_def)

lemma spi_field_suspended [simp]: "spi_field b (h\<lparr>suspended := x\<rparr>) = spi_field b h"
  by (simp add: spi_field_def)

subsection \<open>The states\<close>

text \<open>Reasons to block that neither say that the thread does not exist nor reserve it.\<close>

definition plain :: "u32 \<Rightarrow> bool" where
  "plain b \<longleftrightarrow> \<not> bit b 0 \<and> \<not> bit b 3 \<and> \<not> bit b 9"

lemma flag_bits:
  "st AND SCHED_STATE_FREE \<noteq> 0 \<longleftrightarrow> bit st 0" "st AND SCHED_STATE_RESERVED \<noteq> 0 \<longleftrightarrow> bit st 9"
  "st AND SCHED_STATE_FREE = 0 \<longleftrightarrow> \<not> bit st 0" "st AND SCHED_STATE_RESERVED = 0 \<longleftrightarrow> \<not> bit st 9"
  using and_exp_eq_0_iff_not_bit [of st 0] and_exp_eq_0_iff_not_bit [of st 9]
  by (simp_all add: SCHED_STATE_FREE_def SCHED_STATE_RESERVED_def)

lemma bit_flags:
  "bit SCHED_STATE_RESET i \<longleftrightarrow> i = 3" "bit SCHED_STATE_FREE i \<longleftrightarrow> i = 0" "bit SCHED_STATE_RESERVED i \<longleftrightarrow> i = 9"
  "bit SCHED_STATE_APPEXIT i \<longleftrightarrow> i = 5" "bit SCHED_STATE_SUSPEND i \<longleftrightarrow> i = 7"
proof -
  have b: "bit (2 ^ m :: u32) i \<longleftrightarrow> i = m" if "m < 32" for m using that by (auto simp: bit_simps)
  show "bit SCHED_STATE_RESET i \<longleftrightarrow> i = 3" using b [of 3] by (simp add: SCHED_STATE_RESET_def)
  show "bit SCHED_STATE_FREE i \<longleftrightarrow> i = 0" using b [of 0] by (simp add: SCHED_STATE_FREE_def)
  show "bit SCHED_STATE_RESERVED i \<longleftrightarrow> i = 9" using b [of 9] by (simp add: SCHED_STATE_RESERVED_def)
  show "bit SCHED_STATE_APPEXIT i \<longleftrightarrow> i = 5" using b [of 5] by (simp add: SCHED_STATE_APPEXIT_def)
  show "bit SCHED_STATE_SUSPEND i \<longleftrightarrow> i = 7" using b [of 7] by (simp add: SCHED_STATE_SUSPEND_def)
qed

lemma active_RUN: "active SCHED_STATE_RUN"
  by (simp add: active_def SCHED_STATE_RUN_def)

lemma or_not_RUN: "b \<noteq> 0 \<Longrightarrow> st OR b \<noteq> SCHED_STATE_RUN"
  by (simp add: SCHED_STATE_RUN_def or_eq_0_iff)

text \<open>Requests that the counts follow, for a thread in state \<open>st\<close>.\<close>

definition block_ok :: "u32 \<Rightarrow> u32 \<Rightarrow> bool" where
  "block_ok st b \<longleftrightarrow> plain b \<or> b = SCHED_STATE_RESET \<and> active st"

definition unblock_ok :: "u32 \<Rightarrow> u32 \<Rightarrow> bool" where
  "unblock_ok st u \<longleftrightarrow> plain u \<or> u = SCHED_STATE_RESET \<and> bit st 3 \<and> \<not> bit st 0"

lemma Sched_Block_only: "only k n (Sched_Block me k b n)"
  by (simp add: only_def Sched_Block_def Let_def)

lemma Sched_Block_elsewhere: "p \<noteq> me \<Longrightarrow> HWThreads (Sched_Block me k b n) p = HWThreads n p"
  by (simp add: Sched_Block_def Let_def)

lemma in_counts:
  assumes "k < NUM_KTHREADS" "SlotIndex (KThreads n k) < CONFIG_SCHED_KERNEL_SLOT_INDEX" "pHWThread (KThreads n k) = p"
  shows "k \<in> runnable_of n p \<longleftrightarrow> State (KThreads n k) = SCHED_STATE_RUN" "k \<in> active_of n p \<longleftrightarrow> active (State (KThreads n k))"
  using assms by (simp_all add: runnable_of_def active_of_def threads_of_def)

lemma counted_nonzero:
  assumes "counted n p" "k \<in> runnable_of n p"
  shows "spi_runnable (HWThreads n p) \<noteq> 0"
  using assms card_gt_0_iff [of "runnable_of n p"] by (auto simp: counted_def)

lemma counted_nonzero_active:
  assumes "counted n p" "k \<in> active_of n p"
  shows "spi_numthds (HWThreads n p) \<noteq> 0"
  using assms card_gt_0_iff [of "active_of n p"] by (auto simp: counted_def)

lemma Sched_Block_counted:
  assumes c: "counted n p" and k: "k < NUM_KTHREADS" "SlotIndex (KThreads n k) < CONFIG_SCHED_KERNEL_SLOT_INDEX"
    and ok: "block_ok (State (KThreads n k)) b"
  shows "counted (Sched_Block me k b n) p"
proof (cases "pHWThread (KThreads n k) = me \<and> b \<noteq> 0")
  case False
  then have "KThreads (Sched_Block me k b n) = KThreads n" "HWThreads (Sched_Block me k b n) = HWThreads n"
    by (auto simp: Sched_Block_def)
  with c show ?thesis by (simp add: counted_def runnable_of_def active_of_def threads_of_def)
next
  case local: True
  show ?thesis
  proof (cases "p = me")
    case False
    with local show ?thesis
      by (intro counted_elsewhere [OF Sched_Block_only c]) (auto simp: Sched_Block_elsewhere)
  next
    case True
    define n1 where "n1 = (if State (KThreads n k) = SCHED_STATE_RUN then spi_sub SPRG_SPIinfo_Runnable me n else n)"
    define n2 where "n2 = (if b = SCHED_STATE_RESET then spi_sub SPRG_SPIinfo_NumThds me n1 else n1)"
    let ?n' = "Sched_Block me k b n"
    have n': "?n' = upd_kthread k (\<lambda>k. k\<lparr>State := State k OR b\<rparr>) n2"
      unfolding Sched_Block_def n2_def n1_def using local by (simp add: Let_def)
    have same: "KThreads n2 = KThreads n" "KThreads n1 = KThreads n" by (simp_all add: n2_def n1_def)
    have here: "pHWThread (KThreads n k) = p" using local True by simp
    note old = in_counts [OF k here]
    have kt: "KThreads ?n' k = (KThreads n k)\<lparr>State := State (KThreads n k) OR b\<rparr>" by (simp add: n' same)
    have hw: "HWThreads ?n' = HWThreads n2" by (simp add: n')
    have new: "k \<notin> runnable_of ?n' p" "k \<in> active_of ?n' p \<longleftrightarrow> active (State (KThreads n k) OR b)"
      using in_counts [of k ?n' p] k here local or_not_RUN [of b] by (simp_all add: kt)
    have 1: "spi_runnable (HWThreads n1 p) + of_bool (k \<in> runnable_of n p) = spi_runnable (HWThreads n p)"
        "spi_numthds (HWThreads n1 p) = spi_numthds (HWThreads n p)"
      using spi_sub_runnable [of n p] counted_nonzero [OF c, of k] old(1) True by (auto simp: n1_def)
    have 2: "spi_numthds (HWThreads n2 p) + of_bool (b = SCHED_STATE_RESET) = spi_numthds (HWThreads n p)"
        "spi_runnable (HWThreads n2 p) = spi_runnable (HWThreads n1 p)"
    proof -
      have "spi_numthds (HWThreads n1 p) \<noteq> 0" if "b = SCHED_STATE_RESET"
      proof -
        have "active (State (KThreads n k))" using ok that by (auto simp: block_ok_def plain_def bit_flags)
        with counted_nonzero_active [OF c, of k] old(2) 1(2) show ?thesis by simp
      qed
      with spi_sub_numthds [of n1 p] 1(2) True
      show "spi_numthds (HWThreads n2 p) + of_bool (b = SCHED_STATE_RESET) = spi_numthds (HWThreads n p)"
        "spi_runnable (HWThreads n2 p) = spi_runnable (HWThreads n1 p)"
        by (auto simp: n2_def)
    qed
    have "of_bool (active (State (KThreads n k))) =
        of_bool (active (State (KThreads n k) OR b)) + (of_bool (b = SCHED_STATE_RESET) :: nat)"
      using ok by (auto simp: block_ok_def plain_def active_def bit_or_iff bit_flags)
    then show ?thesis
      using 1 2 new old by (intro counted_only [OF Sched_Block_only c]) (simp_all add: hw)
  qed
qed

lemma Sched_Unblock_only: "only k n (Sched_Unblock me k u n)"
  by (simp add: only_def Sched_Unblock_def Let_def)

lemma Sched_Unblock_elsewhere: "p \<noteq> me \<Longrightarrow> HWThreads (Sched_Unblock me k u n) p = HWThreads n p"
  by (simp add: Sched_Unblock_def Let_def)

text \<open>The thread counts again before its state is changed.\<close>

definition Sched_Unblock_start :: "nat \<Rightarrow> nat \<Rightarrow> u32 \<Rightarrow> Node \<Rightarrow> Node" where
  "Sched_Unblock_start me k u n =
     (if u = SCHED_STATE_RESET then start_leader me k (spi_add SPRG_SPIinfo_NumThds me n)
      else if u = SCHED_STATE_SUSPEND then upd_hwthread me (\<lambda>h. h\<lparr>suspended := False\<rparr>) n
      else n)"

lemma Sched_Unblock_start_simps [simp]: "KThreads (Sched_Unblock_start me k u n) = KThreads n"
  by (simp add: Sched_Unblock_start_def)

lemma Sched_Unblock_local:
  assumes "pHWThread (KThreads n k) = me" "u \<noteq> 0" "\<not> exited (Sched_Unblock me k u n) me"
  defines "n1 \<equiv> Sched_Unblock_start me k u n"
  shows "Sched_Unblock me k u n =
    (let n2 = upd_kthread k (\<lambda>k. k\<lparr>State := State k AND NOT u\<rparr>) n1
     in if State (KThreads n k) \<noteq> SCHED_STATE_RUN \<and> State (KThreads n k) AND NOT u = SCHED_STATE_RUN
        then spi_add SPRG_SPIinfo_Runnable me n2 else n2)"
proof -
  have e: "Sched_Unblock me k u n =
      (if exited n1 me then n1
       else let n2 = upd_kthread k (\<lambda>k. k\<lparr>State := State k AND NOT u\<rparr>) n1
         in if State (KThreads n1 k) \<noteq> SCHED_STATE_RUN \<and> State (KThreads n2 k) = SCHED_STATE_RUN
            then spi_add SPRG_SPIinfo_Runnable me n2 else n2)"
    using assms(1,2) by (simp add: Sched_Unblock_def n1_def Sched_Unblock_start_def Let_def)
  then have "\<not> exited n1 me" using assms(3) by auto
  with e show ?thesis by (simp add: n1_def Let_def)
qed

lemma Sched_Unblock_counted:
  assumes c: "counted n p" and pl: "placed n"
    and k: "k < NUM_KTHREADS" "SlotIndex (KThreads n k) < CONFIG_SCHED_KERNEL_SLOT_INDEX"
    and ok: "unblock_ok (State (KThreads n k)) u" and ex: "\<not> exited (Sched_Unblock me k u n) p"
  shows "counted (Sched_Unblock me k u n) p"
proof (cases "pHWThread (KThreads n k) = me \<and> u \<noteq> 0")
  case False
  then have "KThreads (Sched_Unblock me k u n) = KThreads n" "HWThreads (Sched_Unblock me k u n) = HWThreads n"
    by (auto simp: Sched_Unblock_def)
  with c show ?thesis by (simp add: counted_def runnable_of_def active_of_def threads_of_def)
next
  case local: True
  show ?thesis
  proof (cases "p = me")
    case False
    with local show ?thesis
      by (intro counted_elsewhere [OF Sched_Unblock_only c]) (auto simp: Sched_Unblock_elsewhere)
  next
    case True
    let ?n' = "Sched_Unblock me k u n"
    let ?st = "State (KThreads n k)"
    define n1 where "n1 = Sched_Unblock_start me k u n"
    define n2 where "n2 = upd_kthread k (\<lambda>k. k\<lparr>State := State k AND NOT u\<rparr>) n1"
    define awake where "awake \<longleftrightarrow> ?st \<noteq> SCHED_STATE_RUN \<and> ?st AND NOT u = SCHED_STATE_RUN"
    have n': "?n' = (if awake then spi_add SPRG_SPIinfo_Runnable me n2 else n2)"
      using Sched_Unblock_local [of n k me u] local ex True by (simp add: n2_def n1_def awake_def Let_def)
    have here: "pHWThread (KThreads n k) = p" using local True by simp
    have kt: "KThreads ?n' k = (KThreads n k)\<lparr>State := ?st AND NOT u\<rparr>" by (simp add: n' n2_def n1_def)
    note old = in_counts [OF k here]
    have new: "k \<in> runnable_of ?n' p \<longleftrightarrow> ?st AND NOT u = SCHED_STATE_RUN" "k \<in> active_of ?n' p \<longleftrightarrow> active (?st AND NOT u)"
      using in_counts [of k ?n' p] k here by (simp_all add: kt)
    have small: "spi_runnable (HWThreads n p) \<le> 5" "spi_numthds (HWThreads n p) \<le> 5"
      using counts_small [OF pl] c by (simp_all add: counted_def)
    have 1: "spi_numthds (HWThreads n2 p) = spi_numthds (HWThreads n p) + of_bool (u = SCHED_STATE_RESET)"
        "spi_runnable (HWThreads n2 p) = spi_runnable (HWThreads n p)"
      using spi_add_numthds [of n p] small True by (auto simp: n2_def n1_def Sched_Unblock_start_def)
    have 2: "spi_runnable (HWThreads ?n' p) = spi_runnable (HWThreads n2 p) + of_bool awake"
        "spi_numthds (HWThreads ?n' p) = spi_numthds (HWThreads n2 p)"
      unfolding n' using spi_add_runnable [of n2 p] 1 small True by auto
    have "?st = SCHED_STATE_RUN \<Longrightarrow> ?st AND NOT u = SCHED_STATE_RUN" by (simp add: SCHED_STATE_RUN_def)
    then have "of_bool (?st = SCHED_STATE_RUN) + of_bool awake = (of_bool (?st AND NOT u = SCHED_STATE_RUN) :: nat)"
      by (auto simp: awake_def)
    moreover have "of_bool (active ?st) + of_bool (u = SCHED_STATE_RESET) = (of_bool (active (?st AND NOT u)) :: nat)"
      using ok by (auto simp: unblock_ok_def plain_def active_def bit_and_iff bit_not_iff bit_flags)
    ultimately show ?thesis
      using 1 2 new old by (intro counted_only [OF Sched_Unblock_only c]) simp_all
  qed
qed

section \<open>The invariant\<close>

definition app_thread :: "Node \<Rightarrow> nat \<Rightarrow> bool" where
  "app_thread n k \<longleftrightarrow> k < NUM_KTHREADS \<and> SlotIndex (KThreads n k) < CONFIG_SCHED_KERNEL_SLOT_INDEX"

text \<open>
  Beside the counts: places are unique and known twice, slots hold threads of applications, a
  reserved thread is free, and migrations have targets.
\<close>

definition slots_ok :: "Node \<Rightarrow> bool" where
  "slots_ok n \<longleftrightarrow> (\<forall>p<NUM_HWTHREADS. length (SchedSlot (HWThreads n p)) = 6 \<and>
     (\<forall>s<CONFIG_SCHED_KERNEL_SLOT_INDEX. app_thread n (SchedSlot (HWThreads n p) ! s)))"

definition threads_ok :: "Node \<Rightarrow> bool" where
  "threads_ok n \<longleftrightarrow> (\<forall>k<NUM_KTHREADS. ProcessorID (KThreads n k) = pHWThread (KThreads n k) \<and>
     (bit (State (KThreads n k)) 9 \<longrightarrow> bit (State (KThreads n k)) 0) \<and>
     (\<forall>q s. MigrationData (KThreads n k) = Some (q, s) \<longrightarrow> q < NUM_HWTHREADS \<and> s < CONFIG_SCHED_KERNEL_SLOT_INDEX))"

definition thread_inv :: "Node \<Rightarrow> bool" where
  "thread_inv n \<longleftrightarrow> placed n \<and> slots_ok n \<and> threads_ok n \<and> (\<forall>p<NUM_HWTHREADS. \<not> exited n p \<longrightarrow> counted n p)"

text \<open>Operations that leave states, places, slots and counts alone.\<close>

definition quiet :: "Node \<Rightarrow> Node \<Rightarrow> bool" where
  "quiet n n' \<longleftrightarrow> (\<forall>k. pHWThread (KThreads n' k) = pHWThread (KThreads n k) \<and> SlotIndex (KThreads n' k) = SlotIndex (KThreads n k) \<and>
       ProcessorID (KThreads n' k) = ProcessorID (KThreads n k) \<and> State (KThreads n' k) = State (KThreads n k) \<and>
       MigrationData (KThreads n' k) \<in> {MigrationData (KThreads n k), None}) \<and>
     (\<forall>p. SchedSlot (HWThreads n' p) = SchedSlot (HWThreads n p) \<and> SPIinfo (HWThreads n' p) = SPIinfo (HWThreads n p) \<and>
       (exited n p \<longrightarrow> exited n' p))"

lemma quiet_inv: "quiet n n' \<Longrightarrow> thread_inv n \<Longrightarrow> thread_inv n'"
proof -
  assume q: "quiet n n'" and i: "thread_inv n"
  have "placed n'" using i q by (simp add: thread_inv_def placed_def quiet_def)
  moreover have "slots_ok n'" using i q by (simp add: thread_inv_def slots_ok_def app_thread_def quiet_def)
  moreover have "threads_ok n'"
  proof -
    have "MigrationData (KThreads n' k) = Some x \<Longrightarrow> MigrationData (KThreads n k) = Some x" for k x
      using q by (auto simp: quiet_def) (metis option.distinct(1))
    then show ?thesis using i q by (auto simp: thread_inv_def threads_ok_def quiet_def)
  qed
  moreover have "counted n' p \<longleftrightarrow> counted n p" for p
    using q by (simp add: counted_def runnable_of_def active_of_def threads_of_def quiet_def spi_field_def)
  moreover have "exited n p \<longrightarrow> exited n' p" for p using q by (simp add: quiet_def)
  ultimately show ?thesis using i by (auto simp: thread_inv_def)
qed


text \<open>Operations that change the state of one thread.\<close>

lemma state_change_inv:
  assumes i: "thread_inv n" and o: "only k n n'"
    and s: "\<And>p. SchedSlot (HWThreads n' p) = SchedSlot (HWThreads n p)" "\<And>p. exited n p \<Longrightarrow> exited n' p"
    and t: "\<And>j. ProcessorID (KThreads n' j) = ProcessorID (KThreads n j)"
      "\<And>j. MigrationData (KThreads n' j) = MigrationData (KThreads n j)"
    and r: "bit (State (KThreads n' k)) 9 \<longrightarrow> bit (State (KThreads n' k)) 0"
    and c: "\<And>p. p < NUM_HWTHREADS \<Longrightarrow> \<not> exited n' p \<Longrightarrow> counted n p \<Longrightarrow> counted n' p"
  shows "thread_inv n'"
proof -
  have "placed n'" using i only_placed [OF o] by (simp add: thread_inv_def)
  moreover have "slots_ok n'" using i s o by (simp add: thread_inv_def slots_ok_def app_thread_def only_def)
  moreover have "threads_ok n'"
  proof -
    have "bit (State (KThreads n' j)) 9 \<longrightarrow> bit (State (KThreads n' j)) 0" if "j < NUM_KTHREADS" for j
      using that i r o by (cases "j = k") (auto simp: thread_inv_def threads_ok_def only_def)
    then show ?thesis using i t o by (simp add: thread_inv_def threads_ok_def only_def)
  qed
  ultimately show ?thesis using i c s(2) by (auto simp: thread_inv_def)
qed

lemma app_threadD: "app_thread n k \<Longrightarrow> k < NUM_KTHREADS" "app_thread n k \<Longrightarrow> SlotIndex (KThreads n k) < CONFIG_SCHED_KERNEL_SLOT_INDEX"
  by (simp_all add: app_thread_def)

lemma thread_invD:
  assumes "thread_inv n"
  shows "placed n" "slots_ok n" "threads_ok n" "p < NUM_HWTHREADS \<Longrightarrow> \<not> exited n p \<Longrightarrow> counted n p"
  using assms by (simp_all add: thread_inv_def)

lemma reserved_free: "thread_inv n \<Longrightarrow> k < NUM_KTHREADS \<Longrightarrow> bit (State (KThreads n k)) 9 \<Longrightarrow> bit (State (KThreads n k)) 0"
  by (simp add: thread_inv_def threads_ok_def)

lemma Sched_Block_inv:
  assumes i: "thread_inv n" and k: "app_thread n k" and ok: "block_ok (State (KThreads n k)) b"
  shows "thread_inv (Sched_Block me k b n)"
proof (rule state_change_inv [OF i Sched_Block_only])
  show "bit (State (KThreads (Sched_Block me k b n) k)) 9 \<longrightarrow> bit (State (KThreads (Sched_Block me k b n) k)) 0"
    using ok reserved_free [OF i app_threadD(1) [OF k]]
    by (auto simp: Sched_Block_def Let_def block_ok_def plain_def bit_or_iff bit_flags)
  show "counted (Sched_Block me k b n) p" if "counted n p" for p
    by (rule Sched_Block_counted [OF that app_threadD [OF k] ok])
qed (simp_all add: Sched_Block_def Let_def spi_sub_def)

lemma Sched_Unblock_fields:
  "State (KThreads (Sched_Unblock me k u n) k) = State (KThreads n k) \<or>
     State (KThreads (Sched_Unblock me k u n) k) = State (KThreads n k) AND NOT u"
  "SchedSlot (HWThreads (Sched_Unblock me k u n) p) = SchedSlot (HWThreads n p)"
  "exited n p \<Longrightarrow> exited (Sched_Unblock me k u n) p"
  "ProcessorID (KThreads (Sched_Unblock me k u n) j) = ProcessorID (KThreads n j)"
  "MigrationData (KThreads (Sched_Unblock me k u n) j) = MigrationData (KThreads n j)"
  "hwtProcess (Sched_Unblock me k u n) = hwtProcess n"
  by (simp_all add: Sched_Unblock_def Let_def spi_add_def start_leader_mono)

lemma Sched_Unblock_inv:
  assumes i: "thread_inv n" and k: "app_thread n k" and ok: "unblock_ok (State (KThreads n k)) u"
  shows "thread_inv (Sched_Unblock me k u n)"
proof (rule state_change_inv [OF i Sched_Unblock_only])
  have "bit (State (KThreads n k)) 9 \<longrightarrow> bit (State (KThreads n k)) 0"
    using reserved_free [OF i app_threadD(1) [OF k]] by blast
  moreover have "\<not> bit u 0 \<and> \<not> bit u 9" using ok by (auto simp: unblock_ok_def plain_def bit_flags)
  ultimately show "bit (State (KThreads (Sched_Unblock me k u n) k)) 9 \<longrightarrow> bit (State (KThreads (Sched_Unblock me k u n) k)) 0"
    using Sched_Unblock_fields(1) [of me k u n] by (auto simp: bit_and_iff bit_not_iff)
  show "counted (Sched_Unblock me k u n) p" if "counted n p" "\<not> exited (Sched_Unblock me k u n) p" for p
    by (rule Sched_Unblock_counted [OF that(1) thread_invD(1) [OF i] app_threadD [OF k] ok that(2)])
qed (simp_all add: Sched_Unblock_fields)

end
