(* ===== verification/CnkMigrate.thy ===== *)
theory CnkMigrate
  imports CnkCounts
begin

text \<open>
  The steps of the hardware threads of a node as a relation, and the properties that hold in every
  order of them: the published counts, and what a migration does from its request to its
  completion.
\<close>

section \<open>One step at a time\<close>

text \<open>A thread that is neither counted before nor after the change of its state.\<close>

lemma inactive_change_inv:
  assumes i: "thread_inv n" and old: "\<not> active (State (KThreads n k))" and new: "\<not> active st"
    and r: "bit st 9 \<longrightarrow> bit st 0"
  shows "thread_inv (upd_kthread k (\<lambda>k. k\<lparr>State := st\<rparr>) n)"
proof (rule state_change_inv [OF i])
  show o: "only k n (upd_kthread k (\<lambda>k. k\<lparr>State := st\<rparr>) n)" by (simp add: only_def)
  have "st \<noteq> SCHED_STATE_RUN" "State (KThreads n k) \<noteq> SCHED_STATE_RUN" using old new active_RUN by auto
  then show "counted (upd_kthread k (\<lambda>k. k\<lparr>State := st\<rparr>) n) p" if "counted n p" for p
    by (intro counted_only [OF o that]) (use old new in \<open>simp_all add: runnable_of_def active_of_def\<close>)
qed (use r in simp_all)

lemma upd_state_const:
  "upd_kthread k (\<lambda>k. k\<lparr>State := f (State k)\<rparr>) n = upd_kthread k (\<lambda>k'. k'\<lparr>State := f (State (KThreads n k))\<rparr>) n"
  by (simp add: upd_kthread_def)

lemma quiet_upd_kthread:
  "(\<And>t. pHWThread (f t) = pHWThread t \<and> SlotIndex (f t) = SlotIndex t \<and> ProcessorID (f t) = ProcessorID t \<and>
      State (f t) = State t \<and> MigrationData (f t) \<in> {MigrationData t, None}) \<Longrightarrow> quiet n (upd_kthread k f n)"
  by (simp add: quiet_def)

lemma quiet_upd_hwthread:
  "(\<And>h. SchedSlot (g h) = SchedSlot h \<and> SPIinfo (g h) = SPIinfo h) \<Longrightarrow> quiet n (upd_hwthread p g n)"
  by (simp add: quiet_def)

lemma quiet_process: "quiet n (upd_process a f n)"
  by (simp add: quiet_def)

lemma quiet_deliver: "quiet n (IPI_DeliverInterrupt p m n)"
  by (simp add: quiet_def)

lemma quiet_refl: "quiet n n"
  by (simp add: quiet_def)

lemmas quiet_rules = quiet_upd_kthread quiet_upd_hwthread quiet_process quiet_deliver quiet_refl

lemma quiet_pend_yield: "quiet n (pend_yield me n)"
  unfolding pend_yield_def Let_def by (auto intro!: quiet_rules)

lemma ChangePriority_inv: "thread_inv n \<Longrightarrow> thread_inv (KThread_ChangePriority me k pr n)"
  unfolding KThread_ChangePriority_def Let_def
  by (auto intro!: quiet_inv [OF quiet_pend_yield] quiet_inv [OF quiet_deliver] quiet_inv [OF quiet_upd_kthread]
      quiet_inv [OF quiet_upd_hwthread])

lemma ChangePolicy_inv: "thread_inv n \<Longrightarrow> thread_inv (KThread_ChangePolicy me k po pr n)"
  unfolding KThread_ChangePolicy_def Let_def
  by (auto intro!: ChangePriority_inv quiet_inv [OF quiet_deliver] quiet_inv [OF quiet_upd_kthread]
      quiet_inv [OF quiet_upd_hwthread])

lemma MigrateSelf_inv: "thread_inv n \<Longrightarrow> thread_inv (KThread_MigrateSelf me k n)"
  unfolding KThread_MigrateSelf_def by (auto intro!: quiet_inv [OF quiet_deliver] quiet_inv [OF quiet_upd_hwthread])

lemma quiet_avail: "quiet n (Process_MakeHwThreadAvail a p n)"
  by (simp add: Process_MakeHwThreadAvail_def decrementSlotAllocatedCount_def quiet_def Let_def)

subsection \<open>Allocation\<close>

lemma Grab_frame: "GrabFreeKThread a p n = (n', r) \<Longrightarrow>
    (\<forall>q. SchedSlot (HWThreads n' q) = SchedSlot (HWThreads n q) \<and> SPIinfo (HWThreads n' q) = SPIinfo (HWThreads n q)) \<and>
    exited n' = exited n"
  by (auto simp: GrabFreeKThread_def incrementSlotAllocatedCount_def Let_def split: option.splits)

lemma Grab_inv:
  assumes i: "thread_inv n" and g: "GrabFreeKThread a p n = (n', r)"
  shows "thread_inv n'"
proof (cases r)
  case None
  with g i show ?thesis by (simp add: GrabFreeKThread_None)
next
  case (Some k)
  let ?st = "(State (KThreads n k) AND NOT SCHED_STATE_FREE) OR SCHED_STATE_RESET"
  have gr: "grabbed n k n'" using g Some by (auto intro: GrabFreeKThread_Some)
  then have "bit (State (KThreads n k)) 0" "\<not> bit (State (KThreads n k)) 9"
    by (auto simp: grabbed_def flag_bits)
  then have "thread_inv (upd_kthread k (\<lambda>k. k\<lparr>State := ?st\<rparr>) n)"
    by (intro inactive_change_inv [OF i]) (auto simp: active_def bit_or_iff bit_and_iff bit_not_iff bit_flags)
  moreover have "quiet (upd_kthread k (\<lambda>k. k\<lparr>State := ?st\<rparr>) n) n'"
    using gr Grab_frame [OF g] by (simp add: quiet_def grabbed_def)
  ultimately show ?thesis by (rule quiet_inv [rotated])
qed

lemma recycle_loop_inv: "thread_inv n \<Longrightarrow> recycle_loop a n = (n', r) \<Longrightarrow> thread_inv n'"
proof (induction a n rule: recycle_loop.induct)
  case (1 a n)
  show ?case
  proof (cases "indexHead (HwtRecycleListMgr (Processes n a)) < indexTail (HwtRecycleListMgr (Processes n a))")
    case True
    obtain n1 p where p: "pop_recycled a n = (n1, p)" by fastforce
    obtain n2 k where g: "GrabFreeKThread a p n1 = (n2, k)" by fastforce
    have "thread_inv n1" using p 1(2) by (auto simp: pop_recycled_def Let_def intro: quiet_inv [OF quiet_process])
    then have "thread_inv n2" using g by (rule Grab_inv)
    with 1 True p g show ?thesis by (cases k) (auto simp: recycle_loop.simps [of a n])
  next
    case False
    with 1(2,3) show ?thesis by (simp add: recycle_loop.simps [of a n])
  qed
qed

lemma layout_loop_inv: "thread_inv n \<Longrightarrow> layout_loop a loops n = (n', r) \<Longrightarrow> thread_inv n'"
proof (induction loops arbitrary: n)
  case (Suc loops)
  let ?mgr = "HwtRecycleListMgr (Processes n a)"
  define n1 where "n1 = upd_process a (\<lambda>p. p\<lparr>HwtRecycleListMgr := ?mgr\<lparr>threadLayout_count := threadLayout_count ?mgr + 1\<rparr>\<rparr>) n"
  let ?p = "layout_processorID (layout_type ?mgr) (HWThread_Count (Processes n a))
      (ProcessLeader_ProcessorID (Processes n a)) (unat (threadLayout_count ?mgr))"
  obtain n2 k where g: "GrabFreeKThread a ?p n1 = (n2, k)" by fastforce
  have "layout_loop a (Suc loops) n = (case k of Some _ \<Rightarrow> (n2, k) | None \<Rightarrow> layout_loop a loops n2)"
    unfolding layout_loop.simps Let_def using g by (simp add: n1_def split: option.splits)
  moreover have "thread_inv n2" unfolding n1_def
    by (rule Grab_inv [OF _ g]) (simp add: n1_def quiet_inv [OF quiet_process Suc.prems(1)])
  ultimately show ?case using Suc by (cases k) auto
qed simp

lemma GetAvailableKThread_inv:
  assumes i: "thread_inv n" and g: "Process_GetAvailableKThread a n = (n', r)"
  shows "thread_inv n'"
proof -
  obtain n1 k where r: "recycle_loop a n = (n1, k)" by fastforce
  note i1 = recycle_loop_inv [OF i r]
  show ?thesis
  proof (cases k)
    case None
    with g r have "layout_loop a (HWThread_Count (Processes n1 a)) n1 = (n', r)"
      by (simp add: Process_GetAvailableKThread_def)
    with i1 show ?thesis by (rule layout_loop_inv)
  next
    case (Some j)
    with g r i1 show ?thesis by (simp add: Process_GetAvailableKThread_def)
  qed
qed

subsection \<open>Exit\<close>

lemma ThreadExit_inv:
  assumes i: "thread_inv n" and k: "app_thread n k" and h: "pHWThread (KThreads n k) = me"
    and act: "active (State (KThreads n k))"
  shows "thread_inv (App_ThreadExit me a k n)"
proof -
  define n1 where "n1 = (if Some a \<noteq> pAppProc (KThreads n k) then upd_kthread k (\<lambda>k. k\<lparr>pAppProc := Some a\<rparr>) n else n)"
  let ?u = "State (KThreads n k) AND NOT SCHED_STATE_SUSPEND"
  define n2 where "n2 = Sched_Unblock me k ?u n1"
  define n3 where "n3 = Sched_Block me k SCHED_STATE_RESET n2"
  have q1: "quiet n n1" by (auto simp: n1_def quiet_def)
  have i1: "thread_inv n1" by (rule quiet_inv [OF q1 i])
  have k1: "app_thread n1 k" "State (KThreads n1 k) = State (KThreads n k)" "pHWThread (KThreads n1 k) = me"
    using q1 k h by (simp_all add: quiet_def app_thread_def)
  have nr: "\<not> bit (State (KThreads n k)) 9"
    using reserved_free [OF i app_threadD(1) [OF k]] act by (auto simp: active_def)
  have "plain ?u" using act nr by (simp add: plain_def active_def bit_and_iff)
  then have i2: "thread_inv n2" unfolding n2_def by (intro Sched_Unblock_inv [OF i1 k1(1)]) (simp add: unblock_ok_def)
  have k2: "app_thread n2 k" "pHWThread (KThreads n2 k) = me"
    using Sched_Unblock_only [of k n1 me ?u] k1 by (simp_all add: n2_def only_def app_thread_def)
  have a2: "active (State (KThreads n2 k))"
    using Sched_Unblock_fields(1) [of me k ?u n1] act k1(2) by (auto simp: n2_def active_def bit_and_iff)
  have i3: "thread_inv n3" unfolding n3_def
    by (intro Sched_Block_inv [OF i2 k2(1)]) (simp add: block_ok_def a2)
  have "State (KThreads n3 k) = State (KThreads n2 k) OR SCHED_STATE_RESET"
    using k2(2) by (simp add: n3_def Sched_Block_def Let_def SCHED_STATE_RESET_def)
  then have "\<not> active (State (KThreads n3 k))" by (simp add: active_def bit_or_iff bit_flags)
  then have "thread_inv (upd_kthread k (\<lambda>k. k\<lparr>State := (State k AND SCHED_STATE_SUSPEND) OR SCHED_STATE_FREE\<rparr>) n3)"
    unfolding upd_state_const [of k "\<lambda>st. (st AND SCHED_STATE_SUSPEND) OR SCHED_STATE_FREE"]
    by (intro inactive_change_inv [OF i3]) (simp_all add: active_def bit_or_iff bit_and_iff bit_flags)
  then have "thread_inv (Process_MakeHwThreadAvail a me
      (upd_kthread k (\<lambda>k. k\<lparr>State := (State k AND SCHED_STATE_SUSPEND) OR SCHED_STATE_FREE\<rparr>) n3))"
    by (rule quiet_inv [OF quiet_avail])
  moreover have "App_ThreadExit me a k n = Process_MakeHwThreadAvail a me
      (upd_kthread k (\<lambda>k. k\<lparr>State := (State k AND SCHED_STATE_SUSPEND) OR SCHED_STATE_FREE\<rparr>) n3)"
    unfolding App_ThreadExit_def Let_def n1_def [symmetric] k1(2) by (simp only: n2_def n3_def)
  ultimately show ?thesis by simp
qed

subsection \<open>Migration\<close>

lemma free_slotD:
  assumes "free_slot n a q = Some s"
  shows "s < 5" "bit (State (KThreads n (SchedSlot (HWThreads n q) ! s))) 0" "\<not> bit (State (KThreads n (SchedSlot (HWThreads n q) ! s))) 9"
  using assms
  by (auto simp: free_slot_def find_Some_iff Let_def flag_bits affinity_slots_def CONFIG_AFFIN_SLOTS_PER_HWTHREAD_def
      split: if_splits)

lemma Reserve_inv:
  assumes i: "thread_inv n" and r: "KThread_ReserveForMigration a q n = (n', res)"
  shows "thread_inv n'"
proof (cases "free_slot n a q")
  case None
  with r i show ?thesis by (simp add: KThread_ReserveForMigration_def)
next
  case (Some s)
  let ?k = "SchedSlot (HWThreads n q) ! s"
  have "thread_inv (upd_kthread ?k (\<lambda>k. k\<lparr>State := State k OR SCHED_STATE_RESERVED\<rparr>) n)"
    unfolding upd_state_const [of ?k "\<lambda>st. st OR SCHED_STATE_RESERVED"]
    by (intro inactive_change_inv [OF i]) (use free_slotD [OF Some] in \<open>auto simp: active_def bit_or_iff\<close>)
  then have "thread_inv (incrementSlotAllocatedCount q (upd_kthread ?k (\<lambda>k. k\<lparr>State := State k OR SCHED_STATE_RESERVED\<rparr>) n))"
    unfolding incrementSlotAllocatedCount_def by (rule quiet_inv [OF quiet_upd_hwthread, rotated]) simp
  with r Some show ?thesis by (simp add: KThread_ReserveForMigration_def Let_def)
qed

lemma Release_inv:
  assumes i: "thread_inv n" and k: "SchedSlot (HWThreads n q) ! s < NUM_KTHREADS"
  shows "thread_inv (KThread_ReleaseForMigration q s n)"
proof (cases "State (KThreads n (SchedSlot (HWThreads n q) ! s)) AND SCHED_STATE_RESERVED = 0")
  case True
  then show ?thesis using i by (simp add: KThread_ReleaseForMigration_def Let_def)
next
  case False
  let ?k = "SchedSlot (HWThreads n q) ! s"
  have "bit (State (KThreads n ?k)) 0" using reserved_free [OF i k] False by (simp add: flag_bits)
  then have "thread_inv (upd_kthread ?k (\<lambda>k. k\<lparr>State := State k AND NOT SCHED_STATE_RESERVED\<rparr>) n)"
    unfolding upd_state_const [of ?k "\<lambda>st. st AND NOT SCHED_STATE_RESERVED"]
    by (intro inactive_change_inv [OF i]) (auto simp: active_def bit_and_iff bit_not_iff bit_flags)
  then have "thread_inv (decrementSlotAllocatedCount q
      (upd_kthread ?k (\<lambda>k. k\<lparr>State := State k AND NOT SCHED_STATE_RESERVED\<rparr>) n))"
    unfolding decrementSlotAllocatedCount_def by (rule quiet_inv [OF quiet_upd_hwthread, rotated]) simp
  with False show ?thesis by (simp add: KThread_ReleaseForMigration_def Let_def)
qed

lemma SetMigrationTarget_inv:
  assumes i: "thread_inv n" and t: "KThread_SetMigrationTarget k q s n = Some n'" "q < NUM_HWTHREADS" "s < 5"
  shows "thread_inv n'"
proof -
  have n': "n' = upd_kthread k (\<lambda>k. k\<lparr>MigrationData := Some (q, s)\<rparr>) n"
    using t(1) by (simp add: KThread_SetMigrationTarget_def split: if_splits)
  have f: "pHWThread (KThreads n' j) = pHWThread (KThreads n j)" "SlotIndex (KThreads n' j) = SlotIndex (KThreads n j)"
      "State (KThreads n' j) = State (KThreads n j)" "HWThreads n' = HWThreads n" for j
    by (simp_all add: n')
  have "placed n'" "slots_ok n'" "counted n' p = counted n p" for p
    using i by (simp_all add: f thread_inv_def placed_def slots_ok_def app_thread_def counted_def runnable_of_def
        active_of_def threads_of_def)
  moreover have "threads_ok n'"
    using i t(2,3) by (simp add: n' thread_inv_def threads_ok_def CONFIG_SCHED_KERNEL_SLOT_INDEX_def
        CONFIG_AFFIN_SLOTS_PER_HWTHREAD_def)
  ultimately show ?thesis using i by (simp add: thread_inv_def n')
qed

lemma nth_update_if: "xs[i := x] ! j = (if i = j \<and> i < length xs then x else xs ! j)"
  by (cases "i < length xs") (auto simp: nth_list_update list_update_beyond not_less)

lemma slot_update_inv:
  assumes i: "thread_inv n" and k: "app_thread n k"
  shows "thread_inv (upd_hwthread p (\<lambda>h. h\<lparr>SchedSlot := (SchedSlot h)[s := k]\<rparr>) n)"
proof -
  let ?n = "upd_hwthread p (\<lambda>h. h\<lparr>SchedSlot := (SchedSlot h)[s := k]\<rparr>) n"
  have "placed ?n" "threads_ok ?n" "counted ?n q = counted n q" for q
    using i by (simp_all add: thread_inv_def placed_def threads_ok_def counted_def runnable_of_def active_of_def
        threads_of_def spi_field_def)
  moreover have "slots_ok ?n"
    using i k by (auto simp: thread_inv_def slots_ok_def app_thread_def nth_update_if)
  ultimately show ?thesis using i by (simp add: thread_inv_def)
qed

lemma inj_on_swap:
  assumes "inj_on f A" "a \<in> A" "b \<in> A"
  shows "inj_on (f(a := f b, b := f a)) A"
  using assms by (auto simp: inj_on_def)

text \<open>Two threads that are not counted change places.\<close>

lemma exchange_inv:
  assumes i: "thread_inv n" and k: "app_thread n k" "app_thread n j" "k \<noteq> j"
    and s: "\<not> active (State (KThreads n k))" "\<not> active (State (KThreads n j))"
  shows "thread_inv (exchange_places me k j n)"
proof -
  let ?n = "exchange_places me k j n"
  let ?place = "\<lambda>n k. (pHWThread (KThreads n k), SlotIndex (KThreads n k))"
  have kt: "KThreads ?n x = (if x = k then (KThreads n k)\<lparr>ProcessorID := ProcessorID (KThreads n j),
          SlotIndex := SlotIndex (KThreads n j), pHWThread := pHWThread (KThreads n j)\<rparr>
      else if x = j then (KThreads n j)\<lparr>ProcessorID := ProcessorID (KThreads n k), SlotIndex := SlotIndex (KThreads n k),
          pHWThread := pHWThread (KThreads n k), pAppProc := hwtProcess n me\<rparr> else KThreads n x)" for x
    using k(3) by (simp add: exchange_places_def Let_def)
  have hw: "HWThreads ?n = HWThreads n" "exited ?n = exited n" by (simp_all add: exchange_places_def Let_def)
  have "?place ?n = (?place n)(k := ?place n j, j := ?place n k)" using k(3) by (auto simp: kt)
  then have "placed ?n"
    using i k inj_on_swap [of "?place n" "{..<NUM_KTHREADS}" k j] by (simp add: thread_inv_def placed_def app_thread_def)
  moreover have "slots_ok ?n" using i k by (auto simp: thread_inv_def slots_ok_def app_thread_def kt hw)
  moreover have "threads_ok ?n" using i k by (auto simp: thread_inv_def threads_ok_def app_thread_def kt)
  moreover have "counted ?n p = counted n p" for p
  proof -
    have "State (KThreads n k) \<noteq> SCHED_STATE_RUN" "State (KThreads n j) \<noteq> SCHED_STATE_RUN" using s active_RUN by auto
    then have "runnable_of ?n p = runnable_of n p" "active_of ?n p = active_of n p"
      using s by (auto simp: runnable_of_def active_of_def threads_of_def kt split: if_splits)
    then show ?thesis by (simp add: counted_def hw)
  qed
  ultimately show ?thesis using i by (simp add: thread_inv_def hw)
qed

lemma app_thread_only: "only k n n' \<Longrightarrow> app_thread n' j = app_thread n j"
  by (simp add: only_def app_thread_def)

lemma slot_app_thread:
  "thread_inv n \<Longrightarrow> p < NUM_HWTHREADS \<Longrightarrow> s < CONFIG_SCHED_KERNEL_SLOT_INDEX \<Longrightarrow> app_thread n (SchedSlot (HWThreads n p) ! s)"
  by (simp add: thread_inv_def slots_ok_def)

lemma Move_inv:
  assumes i: "thread_inv n" and k: "app_thread n k" and act: "active (State (KThreads n k))"
    and m: "KThread_MoveToHwThread me k n = Some n'"
  shows "thread_inv n'"
proof -
  obtain q s where t: "MigrationData (KThreads n k) = Some (q, s)"
    using m by (auto simp: KThread_MoveToHwThread_def split: option.splits)
  show ?thesis
  proof (cases "q = me")
    case True
    with m t have "n' = upd_kthread k (\<lambda>k. k\<lparr>MigrationData := None\<rparr>) n" by (simp add: KThread_MoveToHwThread_def)
    then show ?thesis by (auto intro: quiet_inv [OF quiet_upd_kthread i])
  next
    case False
    define j where "j = SchedSlot (HWThreads n q) ! s"
    have qs: "q < NUM_HWTHREADS" "s < CONFIG_SCHED_KERNEL_SLOT_INDEX"
      using thread_invD(3) [OF i] t app_threadD(1) [OF k] by (auto simp: threads_ok_def)
    have j: "app_thread n j" unfolding j_def by (rule slot_app_thread [OF i qs])
    have c: "ProcessorID (KThreads n k) = me" "bit (State (KThreads n j)) 9"
      using m t False by (auto simp: KThread_MoveToHwThread_def j_def flag_bits Let_def split: if_splits)
    have jf: "bit (State (KThreads n j)) 0" by (rule reserved_free [OF i app_threadD(1) [OF j] c(2)])
    have kj: "k \<noteq> j" using act jf by (auto simp: active_def)
    have home: "pHWThread (KThreads n k) = me"
      using c(1) thread_invD(3) [OF i] app_threadD(1) [OF k] by (simp add: threads_ok_def)
    define n1 where "n1 = Sched_Block me k SCHED_STATE_RESET n"
    define n2 where "n2 = exchange_places me k j n1"
    define n3 where "n3 = (if Policy (KThreads n2 k) = SCHED_COMM
        then upd_hwthread (pHWThread (KThreads n2 j)) (\<lambda>h. h\<lparr>pCommThread := None\<rparr>) n2 else n2)"
    define n4 where "n4 = upd_hwthread me (\<lambda>h. h\<lparr>SchedSlot := (SchedSlot h)[SlotIndex (KThreads n3 j) := j]\<rparr>) n3"
    define n5 where "n5 = upd_hwthread me (KThread_refreshPriorityData (KThreads n4)) n4"
    have i1: "thread_inv n1" unfolding n1_def by (rule Sched_Block_inv [OF i k]) (simp add: block_ok_def act)
    have o1: "only k n n1" unfolding n1_def by (rule Sched_Block_only)
    have "State (KThreads n1 k) = State (KThreads n k) OR SCHED_STATE_RESET"
      using home by (simp add: n1_def Sched_Block_def Let_def SCHED_STATE_RESET_def)
    then have s1: "\<not> active (State (KThreads n1 k))" "\<not> active (State (KThreads n1 j))"
      using o1 kj jf by (simp_all add: active_def bit_or_iff bit_flags only_def)
    have i2: "thread_inv n2" unfolding n2_def
      by (rule exchange_inv [OF i1 _ _ kj s1]) (simp_all add: app_thread_only [OF o1] k j)
    have i3: "thread_inv n3" unfolding n3_def using i2 by (auto intro: quiet_inv [OF quiet_upd_hwthread])
    have "app_thread n3 j"
      using k j o1 kj by (simp add: n3_def n2_def exchange_places_def app_thread_def only_def Let_def)
    then have i4: "thread_inv n4" unfolding n4_def by (rule slot_update_inv [OF i3])
    have i5: "thread_inv n5" unfolding n5_def
      by (rule quiet_inv [OF quiet_upd_hwthread i4]) (simp add: refresh_fields)
    have "n' = (if k = pCurrentThread (HWThreads n5 me)
        then upd_kthread k (\<lambda>k. k\<lparr>Pending := Pending k OR KTHR_PENDING_MIGRATE\<rparr>) n5
        else IPI_DeliverInterrupt (ProcessorID (KThreads n5 k)) (IPI_handler_complete_migration k) n5)"
      using m False c unfolding KThread_MoveToHwThread_def t option.case prod.case Let_def j_def [symmetric]
        n1_def [symmetric] n2_def [symmetric] n3_def [symmetric] n4_def [symmetric] n5_def [symmetric]
      by (simp add: flag_bits split: if_splits)
    then show ?thesis
      by (auto intro: quiet_inv [OF quiet_upd_kthread i5] quiet_inv [OF quiet_deliver i5])
  qed
qed

lemma Complete_inv:
  assumes i: "thread_inv n" and me: "me < NUM_HWTHREADS" and k: "app_thread n k"
    and st: "bit (State (KThreads n k)) 3" "\<not> bit (State (KThreads n k)) 0"
    and m: "KThread_CompleteMigration me k n = Some n'"
  shows "thread_inv n'"
proof -
  define remote where "remote \<longleftrightarrow> pAppProc (KThreads n k) \<noteq> hwtProcess n me"
  define j where "j = SchedSlot (HWThreads n me) ! SlotIndex (KThreads n k)"
  define mk where "mk = SCHED_STATE_RESERVED OR (if remote then SCHED_STATE_APPEXIT else 0)"
  define n1 where "n1 = upd_hwthread me (\<lambda>h. h\<lparr>SchedSlot := (SchedSlot h)[SlotIndex (KThreads n k) := k]\<rparr>) n"
  define n2 where "n2 = (if Policy (KThreads n1 k) = SCHED_COMM then upd_hwthread me (\<lambda>h. h\<lparr>pCommThread := Some k\<rparr>) n1 else n1)"
  define n3 where "n3 = upd_kthread j (\<lambda>k. k\<lparr>State := State k AND NOT mk\<rparr>) n2"
  define n4 where "n4 = (case pAppProc (KThreads n3 j) of None \<Rightarrow> n3
      | Some a \<Rightarrow> Process_MakeHwThreadAvail a (ProcessorID (KThreads n2 j)) n3)"
  define n5 where "n5 = (if remote then Sched_Unblock me k SCHED_STATE_APPEXIT n4 else n4)"
  define n6 where "n6 = Sched_Unblock me k SCHED_STATE_RESET n5"
  define n7 where "n7 = upd_hwthread me (\<lambda>h. h\<lparr>priorityRefreshPending := True\<rparr>) n6"
  have i2: "thread_inv n2" unfolding n2_def n1_def
    using slot_update_inv [OF i k] by (auto intro: quiet_inv [OF quiet_upd_hwthread])
  have kt2: "KThreads n2 = KThreads n" by (simp add: n2_def n1_def)
  have j9: "bit (State (KThreads n j)) 9"
    using m kt2 by (auto simp: KThread_CompleteMigration_def j_def flag_bits Let_def split: if_splits)
  have jA: "app_thread n j" unfolding j_def by (rule slot_app_thread [OF i me app_threadD(2) [OF k]])
  have jf: "bit (State (KThreads n j)) 0" by (rule reserved_free [OF i app_threadD(1) [OF jA] j9])
  have kj: "k \<noteq> j" using st jf by auto
  have i3: "thread_inv n3" unfolding n3_def upd_state_const [of j "\<lambda>st. st AND NOT mk"] kt2
    by (rule inactive_change_inv [OF i2])
      (use jf in \<open>auto simp: kt2 active_def mk_def bit_and_iff bit_not_iff bit_or_iff bit_flags\<close>)
  have i4: "thread_inv n4" unfolding n4_def using i3 by (auto intro: quiet_inv [OF quiet_avail] split: option.splits)
  have k4: "app_thread n4 k" "State (KThreads n4 k) = State (KThreads n k)"
    using k kj by (simp_all add: n4_def n3_def kt2 app_thread_def Process_MakeHwThreadAvail_def
        decrementSlotAllocatedCount_def Let_def split: option.splits)
  have "plain SCHED_STATE_APPEXIT" by (simp add: plain_def bit_flags)
  then have i5: "thread_inv n5" unfolding n5_def
    using i4 Sched_Unblock_inv [OF i4 k4(1)] by (simp add: unblock_ok_def)
  have k5: "app_thread n5 k" "bit (State (KThreads n5 k)) 3 \<and> \<not> bit (State (KThreads n5 k)) 0"
    using k4 st app_thread_only [OF Sched_Unblock_only] Sched_Unblock_fields(1) [of me k SCHED_STATE_APPEXIT n4]
    by (auto simp: n5_def bit_and_iff bit_not_iff bit_flags)
  have i6: "thread_inv n6" unfolding n6_def by (rule Sched_Unblock_inv [OF i5 k5(1)]) (use k5(2) in \<open>simp add: unblock_ok_def\<close>)
  have i7: "thread_inv n7" unfolding n7_def by (rule quiet_inv [OF quiet_upd_hwthread i6]) simp
  define n8 where "n8 = (if SlotIndex (KThreads n7 (pCurrentThread (HWThreads n7 me))) \<noteq> CONFIG_SCHED_KERNEL_SLOT_INDEX \<and>
        Priority (KThreads n7 (pCurrentThread (HWThreads n7 me))) <s Priority (KThreads n7 k)
      then upd_kthread (pCurrentThread (HWThreads n7 me)) (\<lambda>k. k\<lparr>Pending := Pending k OR KTHR_PENDING_YIELD\<rparr>) n7 else n7)"
  have i8: "thread_inv n8" unfolding n8_def using i7 by (auto intro: quiet_inv [OF quiet_upd_kthread])
  have "n' = upd_kthread k (\<lambda>k. k\<lparr>MigrationData := None\<rparr>) n8"
    using m j9 unfolding KThread_CompleteMigration_def Let_def remote_def [symmetric] j_def [symmetric]
      n1_def [symmetric] n2_def [symmetric] mk_def [symmetric] n3_def [symmetric] n4_def [symmetric] n5_def [symmetric]
      n6_def [symmetric] n7_def [symmetric] n8_def [symmetric]
    by (simp add: kt2 flag_bits split: if_splits)
  moreover have "thread_inv (upd_kthread k (\<lambda>k. k\<lparr>MigrationData := None\<rparr>) n8)"
    by (rule quiet_inv [OF quiet_upd_kthread i8]) simp
  ultimately show ?thesis by simp
qed

subsection \<open>The system call and the requests\<close>

lemma setaffinity_inv:
  assumes i: "thread_inv n" and k: "\<And>k. target = Some k \<Longrightarrow> app_thread n k \<and> active (State (KThreads n k))"
    and q: "\<And>q. hwthread = Some q \<Longrightarrow> q < NUM_HWTHREADS"
    and r: "sc_sched_setaffinity me a ok target hwthread n = Some (n', e)"
  shows "thread_inv n'"
proof (cases "e = Some ESRCH \<or> n' = n")
  case True
  then show ?thesis using i r
    by (auto simp: sc_sched_setaffinity_def Let_def split: option.splits if_splits prod.splits)
next
  case changed: False
  then obtain k q where kq: "target = Some k" "hwthread = Some q"
    using r by (auto simp: sc_sched_setaffinity_def split: option.splits if_splits)
  have k0: "app_thread n k" "active (State (KThreads n k))" using k [OF kq(1)] by auto
  obtain n1 res where r1: "KThread_ReserveForMigration a q n = (n1, res)" by fastforce
  have i1: "thread_inv n1" by (rule Reserve_inv [OF i r1])
  show ?thesis
  proof (cases "ProcessorID (KThreads n k) = q")
    case True
    then show ?thesis using r changed kq i
      by (auto simp: sc_sched_setaffinity_def Let_def intro: quiet_inv [OF quiet_process] split: if_splits)
  next
    case False
    show ?thesis
    proof (cases res)
      case None
      then show ?thesis using r changed kq False r1 i1 by (auto simp: sc_sched_setaffinity_def Let_def split: if_splits)
    next
      case (Some s)
      let ?j = "SchedSlot (HWThreads n q) ! s"
      have fs: "free_slot n a q = Some s"
        using r1 Some by (auto simp: KThread_ReserveForMigration_def Let_def split: option.splits)
      have o1: "only ?j n n1"
        using r1 fs by (auto simp: KThread_ReserveForMigration_def incrementSlotAllocatedCount_def only_def Let_def)
      have "k \<noteq> ?j" using free_slotD(2) [OF fs] k0(2) by (auto simp: active_def)
      then have k1: "app_thread n1 k" "active (State (KThreads n1 k))"
        using o1 k0 by (auto simp: app_thread_only [OF o1] only_def)
      have slot: "s < CONFIG_SCHED_KERNEL_SLOT_INDEX"
        using free_slotD(1) [OF fs] by (simp add: CONFIG_SCHED_KERNEL_SLOT_INDEX_def CONFIG_AFFIN_SLOTS_PER_HWTHREAD_def)
      have rel: "thread_inv (KThread_ReleaseForMigration q s m)" if "thread_inv m" for m
        using Release_inv [OF that] slot_app_thread [OF that q [OF kq(2)] slot] by (simp add: app_thread_def)
      show ?thesis
      proof (cases "KThread_SetMigrationTarget k q s n1")
        case None
        then show ?thesis using r changed kq False r1 Some rel [OF i1]
          by (auto simp: sc_sched_setaffinity_def Let_def split: if_splits)
      next
        case n2: (Some n2)
        have i2: "thread_inv n2"
          by (rule SetMigrationTarget_inv [OF i1 n2 q [OF kq(2)] free_slotD(1) [OF fs]])
        have k2: "app_thread n2 k" "active (State (KThreads n2 k))"
          using n2 k1 by (auto simp: KThread_SetMigrationTarget_def app_thread_def split: if_splits)
        show ?thesis using r changed kq False r1 Some n2 rel [OF i2] Move_inv [OF i2 k2] quiet_inv [OF quiet_deliver i2]
          by (auto simp: sc_sched_setaffinity_def Let_def split: if_splits)
      qed
    qed
  qed
qed

text \<open>A request finds its thread in a state that it was made for.\<close>

fun request_ok :: "Node \<Rightarrow> ipi \<Rightarrow> bool" where
  "request_ok n (IPI_handler_run_scheduler None u) = True"
| "request_ok n (IPI_handler_run_scheduler (Some k) u) = (app_thread n k \<and> unblock_ok (State (KThreads n k)) u)"
| "request_ok n (IPI_handler_block_thread k b) = (app_thread n k \<and> plain b)"
| "request_ok n (IPI_handler_setaffinity k) = (app_thread n k \<and> active (State (KThreads n k)))"
| "request_ok n (IPI_handler_complete_migration k) =
     (app_thread n k \<and> bit (State (KThreads n k)) 3 \<and> \<not> bit (State (KThreads n k)) 0)"
| "request_ok n (IPI_handler_changepolicy k po pr) = True"

lemma pend_yield_state [simp]:
  "app_thread (pend_yield me n) k = app_thread n k" "State (KThreads (pend_yield me n) k) = State (KThreads n k)"
  using quiet_pend_yield [of n me] by (simp_all add: quiet_def app_thread_def)

lemma IPI_handler_inv:
  assumes i: "thread_inv n" and me: "me < NUM_HWTHREADS" and ok: "request_ok n m" and h: "IPI_handler me m n = Some n'"
  shows "thread_inv n'"
proof -
  note y = quiet_inv [OF quiet_pend_yield i, of me]
  show ?thesis
  proof (cases m)
    case (IPI_handler_run_scheduler kp u)
    then show ?thesis using h ok i y Sched_Unblock_inv [OF y]
      by (cases kp) (auto simp: Let_def split: if_splits)
  next
    case (IPI_handler_block_thread k b)
    then show ?thesis using h ok i y Sched_Block_inv [OF y, of k b me]
      by (auto simp: Let_def block_ok_def split: if_splits)
  next
    case (IPI_handler_setaffinity k)
    then show ?thesis using h ok i by (auto intro: Move_inv split: if_splits)
  next
    case (IPI_handler_complete_migration k)
    then show ?thesis using h ok i me by (auto intro: Complete_inv split: if_splits)
  next
    case (IPI_handler_changepolicy k po pr)
    then show ?thesis using h i by (auto intro: ChangePolicy_inv split: if_splits)
  qed
qed

end
