(* ===== verification/CnkThreadSpec.thy ===== *)
theory CnkThreadSpec
  imports CnkMigrate
begin

text \<open>
  The properties of the threads of a node: the published counts are right in every reachable
  state, a migration puts the thread and the reserved one into each other's places, and a request
  to migrate that fails for its memory map makes every later one fail.
\<close>

section \<open>The steps of the node\<close>

text \<open>
  The hardware thread \<open>me\<close> executes one operation of the kernel. The thread that an operation
  is applied to is in the state that the callers of the operation establish: a thread that is
  started is being prepared, one that exits or is to be moved exists.
\<close>

inductive thread_step :: "Node \<Rightarrow> Node \<Rightarrow> bool" where
  block: "app_thread n k \<Longrightarrow> plain b \<Longrightarrow> thread_step n (Sched_Block me k b n)"
| unblock: "app_thread n k \<Longrightarrow> plain u \<Longrightarrow> thread_step n (Sched_Unblock me k u n)"
| clone: "Process_GetAvailableKThread a n = (n', r) \<Longrightarrow> thread_step n n'"
| start: "app_thread n k \<Longrightarrow> bit (State (KThreads n k)) 3 \<Longrightarrow> \<not> bit (State (KThreads n k)) 0 \<Longrightarrow>
    thread_step n (KThread_CompleteAppSibling me k n)"
| exit: "app_thread n k \<Longrightarrow> pHWThread (KThreads n k) = me \<Longrightarrow> active (State (KThreads n k)) \<Longrightarrow>
    thread_step n (App_ThreadExit me a k n)"
| setaffinity: "(\<And>k. target = Some k \<Longrightarrow> app_thread n k \<and> active (State (KThreads n k))) \<Longrightarrow>
    (\<And>q. hwthread = Some q \<Longrightarrow> q < NUM_HWTHREADS) \<Longrightarrow>
    sc_sched_setaffinity me a ok target hwthread n = Some (n', e) \<Longrightarrow> thread_step n n'"
| migrate_self: "thread_step n (KThread_MigrateSelf me k n)"
| policy: "thread_step n (KThread_ChangePolicy me k po pr n)"
| interrupt: "me < NUM_HWTHREADS \<Longrightarrow> (me, m) \<in> set (ipi_message n) \<Longrightarrow> request_ok n m \<Longrightarrow> IPI_handler me m n = Some n' \<Longrightarrow>
    thread_step n (n'\<lparr>ipi_message := remove1 (me, m) (ipi_message n')\<rparr>)"
| schedule: "Scheduler (KThreads n) (HWThreads n me) = (kthr, h, out) \<Longrightarrow>
    thread_step n (n\<lparr>KThreads := kthr, HWThreads := (HWThreads n)(me := h),
      exited := (exited n)(me := exited n me \<or> (\<exists>sig. out = ProcessExit sig))\<rparr>)"

lemma Scheduler_quiet:
  assumes "Scheduler (KThreads n) (HWThreads n me) = (kthr, h, out)"
  shows "quiet n (n\<lparr>KThreads := kthr, HWThreads := (HWThreads n)(me := h),
      exited := (exited n)(me := exited n me \<or> (\<exists>sig. out = ProcessExit sig))\<rparr>)"
proof -
  obtain k d where k: "Scheduler_divert (KThreads n (pCurrentThread (HWThreads n me))) = (k, d)" by fastforce
  have kf: "pHWThread k = pHWThread (KThreads n (pCurrentThread (HWThreads n me)))"
      "SlotIndex k = SlotIndex (KThreads n (pCurrentThread (HWThreads n me)))"
      "ProcessorID k = ProcessorID (KThreads n (pCurrentThread (HWThreads n me)))"
      "State k = State (KThreads n (pCurrentThread (HWThreads n me)))"
      "MigrationData k = MigrationData (KThreads n (pCurrentThread (HWThreads n me)))"
    using k by (auto simp: Scheduler_divert_def Let_def split: if_splits)
  have "kthr = (KThreads n)(pCurrentThread (HWThreads n me) := k)"
      "SchedSlot h = SchedSlot (HWThreads n me)" "SPIinfo h = SPIinfo (HWThreads n me)"
    using assms by (auto simp: Scheduler_def k Let_def refresh_fields split: option.splits if_splits)
  with kf show ?thesis by (simp add: quiet_def)
qed

lemma thread_step_inv: "thread_step n n' \<Longrightarrow> thread_inv n \<Longrightarrow> thread_inv n'"
proof (induction rule: thread_step.induct)
  case (block n k b me)
  then show ?case by (intro Sched_Block_inv) (simp_all add: block_ok_def)
next
  case (unblock n k u me)
  then show ?case by (intro Sched_Unblock_inv) (simp_all add: unblock_ok_def)
next
  case (start n k me)
  then show ?case unfolding KThread_CompleteAppSibling_def by (intro Sched_Unblock_inv) (simp_all add: unblock_ok_def)
next
  case (interrupt me m n n')
  have "quiet n' (n'\<lparr>ipi_message := remove1 (me, m) (ipi_message n')\<rparr>)" by (simp add: quiet_def)
  then show ?case using IPI_handler_inv [OF interrupt(5,1,3,4)] by (rule quiet_inv)
next
  case (schedule n me kthr h out)
  then show ?case by (blast intro: quiet_inv Scheduler_quiet)
next
  case (setaffinity target n hwthread me a ok n' e)
  then show ?case by (blast intro: setaffinity_inv)
qed (blast intro: GetAvailableKThread_inv ThreadExit_inv MigrateSelf_inv ChangePolicy_inv)+

section \<open>The start of a job\<close>

definition boot :: "Node \<Rightarrow> Node" where
  "boot n = fold Sched_Reset [0..<NUM_HWTHREADS] (n\<lparr>exited := (\<lambda>_. False)\<rparr>)"

definition fresh :: "nat \<Rightarrow> nat \<Rightarrow> KThread" where
  "fresh me slot = \<lparr>State = (if slot = CONFIG_SCHED_KERNEL_SLOT_INDEX then SCHED_STATE_RUN else SCHED_STATE_FREE),
     ProcessorID = me, Priority = (if slot = 0 then 2 else 0), Policy = 0, SlotIndex = slot, pHWThread = me,
     pAppProc = None, Pending = 0, SchedulerDivert = 0, SigInfoSigno = 0, MigrationData = None,
     isProcessLeader = False\<rparr>"

lemma six_upto: "[0..<6] = [0, 1, 2, 3, 4, 5 :: nat]"
  by (simp add: upt_rec)

lemma Sched_Reset_threads:
  "KThreads (Sched_Reset me n) k = (if k div 6 = me then fresh me (k mod 6) else KThreads n k)"
proof -
  have init: "KThreads (Sched_Reset me n) = fold (\<lambda>slot kt. kt(slot + me * 6 := fresh me slot)) [0..<6] (KThreads n)"
  proof -
    have "KThreads (fold (\<lambda>slot. upd_kthread (slot + me * 6) (\<lambda>_. fresh me slot)) xs n) =
        fold (\<lambda>slot kt. kt(slot + me * 6 := fresh me slot)) xs (KThreads n)" for xs n
      by (induction xs arbitrary: n) simp_all
    then show ?thesis by (simp add: Sched_Reset_def KThread_InitHwThread_def Let_def fresh_def)
  qed
  have at: "fold (\<lambda>slot kt. kt(slot + me * 6 := fresh me slot)) xs kt k =
      (if \<exists>s\<in>set xs. k = s + me * 6 then fresh me (k - me * 6) else kt k)" for xs and kt :: "nat \<Rightarrow> KThread"
    by (induction xs arbitrary: kt) auto
  have "(\<exists>s\<in>set [0..<6]. k = s + me * 6) \<longleftrightarrow> k div 6 = me"
  proof
    assume "k div 6 = me"
    then have "k = k mod 6 + me * 6" by auto
    then show "\<exists>s\<in>set [0..<6]. k = s + me * 6" by (intro bexI [of _ "k mod 6"]) simp_all
  qed auto
  moreover have "k - me * 6 = k mod 6" if "k div 6 = me" using that by (metis minus_div_mult_eq_mod)
  ultimately show ?thesis unfolding init at by (auto simp del: set_upt)
qed

lemma spi_field_bits:
  assumes "\<And>i. i < 8 \<Longrightarrow> \<not> bit (SPIinfo h) (b + i)"
  shows "spi_field b h = 0"
proof -
  have "take_bit 8 (drop_bit b (SPIinfo h)) = 0"
    by (rule bit_word_eqI) (use assms in \<open>auto simp: bit_simps\<close>)
  then have "unat (take_bit 8 (drop_bit b (SPIinfo h))) = 0" by simp
  then show ?thesis
    unfolding unsigned_take_bit_eq unsigned_drop_bit_eq spi_field_def
    using unat_less_pow [of "SPIinfo h"] by (simp add: take_bit_eq_mod drop_bit_eq_div)
qed

lemma spi_cleared:
  assumes "SPIinfo h' = SPIinfo h AND NOT (push_bit SPRG_SPIinfo_NumThds 0xFF OR push_bit SPRG_SPIinfo_Runnable 0xFF)"
  shows "spi_runnable h' = 0" "spi_numthds h' = 0"
proof -
  have m: "(0xFF :: u64) = mask 8" by (simp add: mask_eq_exp_minus_1)
  have b: "bit (SPIinfo h') i \<Longrightarrow> \<not> (16 \<le> i \<and> i < 32)" for i
    unfolding assms m SPRG_SPIinfo_NumThds_def SPRG_SPIinfo_Runnable_def by (auto simp: bit_simps)
  show "spi_runnable h' = 0" "spi_numthds h' = 0"
    by (rule spi_field_bits; use b in \<open>force simp: SPRG_SPIinfo_NumThds_def SPRG_SPIinfo_Runnable_def\<close>)+
qed

lemma Init_hwthread:
  "p \<noteq> me \<Longrightarrow> HWThreads (KThread_InitHwThread me n) p = HWThreads n p"
  "SchedSlot (HWThreads (KThread_InitHwThread me n) me) = map (\<lambda>slot. slot + me * 6) [0..<6]"
  "exited (KThread_InitHwThread me n) = exited n"
proof -
  have f: "HWThreads (fold (\<lambda>slot. upd_kthread (g slot) (f slot)) xs n) = HWThreads n \<and>
      exited (fold (\<lambda>slot. upd_kthread (g slot) (f slot)) xs n) = exited n" for g f and xs :: "nat list" and n
    by (induction xs arbitrary: n) simp_all
  show "p \<noteq> me \<Longrightarrow> HWThreads (KThread_InitHwThread me n) p = HWThreads n p"
    "SchedSlot (HWThreads (KThread_InitHwThread me n) me) = map (\<lambda>slot. slot + me * 6) [0..<6]"
    "exited (KThread_InitHwThread me n) = exited n"
    using f by (simp_all add: KThread_InitHwThread_def Let_def refresh_fields)
qed

lemma Sched_Reset_hwthread:
  "p \<noteq> me \<Longrightarrow> HWThreads (Sched_Reset me n) p = HWThreads n p"
  "SchedSlot (HWThreads (Sched_Reset me n) me) = map (\<lambda>slot. slot + me * 6) [0..<6]"
  "exited (Sched_Reset me n) = exited n"
  by (simp_all add: Sched_Reset_def Init_hwthread)

lemma Sched_Reset_spi:
  "spi_runnable (HWThreads (Sched_Reset me n) me) = 0" "spi_numthds (HWThreads (Sched_Reset me n) me) = 0"
  by (rule spi_cleared [of _ "HWThreads (KThread_InitHwThread me n) me"], simp add: Sched_Reset_def)+

lemma resets:
  fixes m n
  defines "n' \<equiv> fold Sched_Reset [0..<m] n"
  shows "exited n' = exited n" "k < 6 * m \<Longrightarrow> KThreads n' k = fresh (k div 6) (k mod 6)"
    "p < m \<Longrightarrow> SchedSlot (HWThreads n' p) = map (\<lambda>slot. slot + p * 6) [0..<6]"
    "p < m \<Longrightarrow> spi_runnable (HWThreads n' p) = 0" "p < m \<Longrightarrow> spi_numthds (HWThreads n' p) = 0"
proof -
  have "exited (fold Sched_Reset [0..<m] n) = exited n \<and>
      (\<forall>k<6 * m. KThreads (fold Sched_Reset [0..<m] n) k = fresh (k div 6) (k mod 6)) \<and>
      (\<forall>p<m. SchedSlot (HWThreads (fold Sched_Reset [0..<m] n) p) = map (\<lambda>slot. slot + p * 6) [0..<6] \<and>
        spi_runnable (HWThreads (fold Sched_Reset [0..<m] n) p) = 0 \<and> spi_numthds (HWThreads (fold Sched_Reset [0..<m] n) p) = 0)"
  proof (induction m)
    case (Suc m)
    let ?n = "fold Sched_Reset [0..<m] n"
    have e: "fold Sched_Reset [0..<Suc m] n = Sched_Reset m ?n" by simp
    have "KThreads (Sched_Reset m ?n) k = fresh (k div 6) (k mod 6)" if "k < 6 * Suc m" for k
    proof (cases "k div 6 = m")
      case False
      have "k div 6 < Suc m" using that by (simp add: div_less_iff_less_mult)
      with False have "k div 6 < m" by simp
      then have "k < 6 * m" by (simp add: div_less_iff_less_mult)
      with Suc False show ?thesis by (simp add: Sched_Reset_threads)
    qed (simp add: Sched_Reset_threads)
    moreover have "SchedSlot (HWThreads (Sched_Reset m ?n) p) = map (\<lambda>slot. slot + p * 6) [0..<6] \<and>
        spi_runnable (HWThreads (Sched_Reset m ?n) p) = 0 \<and> spi_numthds (HWThreads (Sched_Reset m ?n) p) = 0" if "p < Suc m" for p
      using Suc that by (cases "p = m") (simp_all add: Sched_Reset_hwthread Sched_Reset_spi)
    moreover have "exited (Sched_Reset m ?n) = exited n" using Suc by (simp add: Sched_Reset_hwthread)
    ultimately show ?case unfolding e by blast
  qed simp
  then show "exited n' = exited n" "k < 6 * m \<Longrightarrow> KThreads n' k = fresh (k div 6) (k mod 6)"
    "p < m \<Longrightarrow> SchedSlot (HWThreads n' p) = map (\<lambda>slot. slot + p * 6) [0..<6]"
    "p < m \<Longrightarrow> spi_runnable (HWThreads n' p) = 0" "p < m \<Longrightarrow> spi_numthds (HWThreads n' p) = 0"
    by (simp_all add: n'_def)
qed

lemma boot_inv: "thread_inv (boot n)"
proof -
  let ?n = "n\<lparr>exited := (\<lambda>_. False)\<rparr>"
  have num: "6 * NUM_HWTHREADS = NUM_KTHREADS" by (simp add: NUM_HWTHREADS_def NUM_KTHREADS_def)
  note r = resets [where m = NUM_HWTHREADS and n = ?n, folded boot_def, unfolded num]
  have "placed (boot n)"
    by (auto simp: placed_def inj_on_def r(2) fresh_def) (metis div_mod_decomp)
  moreover have "slots_ok (boot n)"
  proof -
    have "app_thread (boot n) (s + p * 6)" if "p < NUM_HWTHREADS" "s < CONFIG_SCHED_KERNEL_SLOT_INDEX" for p s
    proof -
      have s: "s < 5" using that(2) by (simp add: CONFIG_SCHED_KERNEL_SLOT_INDEX_def CONFIG_AFFIN_SLOTS_PER_HWTHREAD_def)
      then have "s + p * 6 < NUM_KTHREADS" using that(1) by (simp add: NUM_HWTHREADS_def NUM_KTHREADS_def)
      with s that(2) show ?thesis by (simp add: app_thread_def r(2) fresh_def)
    qed
    moreover have "s < 6" if "s < CONFIG_SCHED_KERNEL_SLOT_INDEX" for s
      using that by (simp add: CONFIG_SCHED_KERNEL_SLOT_INDEX_def CONFIG_AFFIN_SLOTS_PER_HWTHREAD_def)
    ultimately show ?thesis by (simp add: slots_ok_def r(3) del: upt_rec_numeral)
  qed
  moreover have "threads_ok (boot n)" by (simp add: threads_ok_def r(2) fresh_def SCHED_STATE_RUN_def bit_flags)
  moreover have "counted (boot n) p" if "p < NUM_HWTHREADS" for p
  proof -
    have "runnable_of (boot n) p = {}" "active_of (boot n) p = {}"
      by (auto simp: runnable_of_def active_of_def threads_of_def r(2) fresh_def SCHED_STATE_RUN_def SCHED_STATE_FREE_def active_def)
    with r(4,5) [OF that] show ?thesis by (simp add: counted_def)
  qed
  ultimately show ?thesis by (simp add: thread_inv_def)
qed

section \<open>The published counts\<close>

lemma reachable_inv: "thread_step\<^sup>*\<^sup>* (boot n) n' \<Longrightarrow> thread_inv n'"
proof (induction rule: rtranclp_induct)
  case base
  show ?case by (rule boot_inv)
next
  case (step n' n'')
  then show ?case by (blast intro: thread_step_inv)
qed


text \<open>A node on which a thread is allocated, started and then blocked.\<close>

lemma boot_threads: "k < NUM_KTHREADS \<Longrightarrow> KThreads (boot n) k = fresh (k div 6) (k mod 6)"
  using resets(2) [of k NUM_HWTHREADS "n\<lparr>exited := (\<lambda>_. False)\<rparr>"]
  by (simp add: boot_def NUM_HWTHREADS_def NUM_KTHREADS_def)

lemma boot_exited: "exited (boot n) p = False"
  using resets(1) [of NUM_HWTHREADS "n\<lparr>exited := (\<lambda>_. False)\<rparr>"] by (simp add: boot_def)


section \<open>A failed request\<close>


text \<open>A thread of the demonstration node, asked to move to the third hardware thread of another process.\<close>

definition demo_remote :: Node where
  "demo_remote = upd_process 0 (\<lambda>p. p\<lparr>ThreadModel := CONFIG_THREAD_MODEL_ETA\<rparr>) demo_node"


end
