(* ===== verification/CnkMigrateSpec.thy ===== *)
theory CnkMigrateSpec
  imports CnkThreadSpec
begin

text \<open>
  A migration from its move on the old hardware thread to its completion on the new one.
\<close>

unbundle bit_operations_syntax

section \<open>A migration\<close>

text \<open>What \<open>KThread_MoveToHwThread\<close> does to a thread and the one that was reserved for it.\<close>

lemma Move_effect:
  assumes k: "pHWThread (KThreads n k) = me" "ProcessorID (KThreads n k) = me" "MigrationData (KThreads n k) = Some (q, s)"
    and q: "q \<noteq> me" and j: "j = SchedSlot (HWThreads n q) ! s" "bit (State (KThreads n j)) 9" "j \<noteq> k"
  obtains n' where "KThread_MoveToHwThread me k n = Some n'"
    "\<And>i. State (KThreads n' i) = (if i = k then State (KThreads n k) OR SCHED_STATE_RESET else State (KThreads n i))"
    "\<And>i. pHWThread (KThreads n' i) = pHWThread (KThreads n (if i = k then j else if i = j then k else i))"
    "\<And>i. ProcessorID (KThreads n' i) = ProcessorID (KThreads n (if i = k then j else if i = j then k else i))"
    "\<And>i. SlotIndex (KThreads n' i) = SlotIndex (KThreads n (if i = k then j else if i = j then k else i))"
    "\<And>p. SchedSlot (HWThreads n' p) = (if p = me then (SchedSlot (HWThreads n me))[SlotIndex (KThreads n k) := j]
       else SchedSlot (HWThreads n p))"
    "exited n' = exited n" "Processes n' = Processes n"
    "\<And>i. i \<noteq> j \<Longrightarrow> pAppProc (KThreads n' i) = pAppProc (KThreads n i)" "hwtProcess n' = hwtProcess n"
proof -
  define n1 where "n1 = Sched_Block me k SCHED_STATE_RESET n"
  define n2 where "n2 = exchange_places me k j n1"
  define n3 where "n3 = (if Policy (KThreads n2 k) = SCHED_COMM
      then upd_hwthread (pHWThread (KThreads n2 j)) (\<lambda>h. h\<lparr>pCommThread := None\<rparr>) n2 else n2)"
  define n4 where "n4 = upd_hwthread me (\<lambda>h. h\<lparr>SchedSlot := (SchedSlot h)[SlotIndex (KThreads n3 j) := j]\<rparr>) n3"
  define n5 where "n5 = upd_hwthread me (KThread_refreshPriorityData (KThreads n4)) n4"
  define n6 where "n6 = (if k = pCurrentThread (HWThreads n5 me)
      then upd_kthread k (\<lambda>k. k\<lparr>Pending := Pending k OR KTHR_PENDING_MIGRATE\<rparr>) n5
      else IPI_DeliverInterrupt (ProcessorID (KThreads n5 k)) (IPI_handler_complete_migration k) n5)"
  have m: "KThread_MoveToHwThread me k n = Some n6"
    using q j(2) k(2) unfolding KThread_MoveToHwThread_def k(3) option.case prod.case Let_def j(1) [symmetric]
      n1_def [symmetric] n2_def [symmetric] n3_def [symmetric] n4_def [symmetric] n5_def [symmetric] n6_def
    by (simp add: flag_bits)
  have 1: "KThreads n1 = (KThreads n)(k := (KThreads n k)\<lparr>State := State (KThreads n k) OR SCHED_STATE_RESET\<rparr>)"
      "SchedSlot (HWThreads n1 p) = SchedSlot (HWThreads n p)" "exited n1 = exited n" "Processes n1 = Processes n"
      "hwtProcess n1 = hwtProcess n" for p
    using k(1) by (simp_all add: n1_def Sched_Block_def Let_def SCHED_STATE_RESET_def spi_sub_def)
  have 2: "SchedSlot (HWThreads n3 p) = SchedSlot (HWThreads n p)" "exited n3 = exited n" "Processes n3 = Processes n"
      "hwtProcess n3 = hwtProcess n" "KThreads n3 = KThreads n2" for p
    using 1 by (simp_all add: n3_def n2_def exchange_places_def Let_def)
  have 3: "KThreads n2 i = (if i = k then (KThreads n k)\<lparr>State := State (KThreads n k) OR SCHED_STATE_RESET,
          ProcessorID := ProcessorID (KThreads n j), SlotIndex := SlotIndex (KThreads n j), pHWThread := pHWThread (KThreads n j)\<rparr>
      else if i = j then (KThreads n j)\<lparr>ProcessorID := ProcessorID (KThreads n k), SlotIndex := SlotIndex (KThreads n k),
          pHWThread := pHWThread (KThreads n k), pAppProc := hwtProcess n me\<rparr> else KThreads n i)" for i
    using j(3) by (simp add: n2_def exchange_places_def Let_def 1)
  have 4: "SchedSlot (HWThreads n5 p) = (if p = me then (SchedSlot (HWThreads n me))[SlotIndex (KThreads n k) := j]
      else SchedSlot (HWThreads n p))" "KThreads n5 = KThreads n2" for p
    using j(3) by (simp_all add: n5_def n4_def refresh_fields 2 3)
  have 5: "exited n5 = exited n" "Processes n5 = Processes n" "hwtProcess n5 = hwtProcess n"
    by (simp_all add: n5_def n4_def 2)
  show ?thesis
    by (rule that [OF m]) (use j(3) in \<open>simp_all add: n6_def 3 4 5\<close>)
qed

text \<open>The arrival, for a thread whose start does not end its process.\<close>

lemma Unblock_effect:
  assumes "pHWThread (KThreads n k) = me" "u \<noteq> 0" "\<not> exited n me"
    and "\<And>a. pAppProc (KThreads n k) = Some a \<Longrightarrow> ProcessLeader_KThread (Processes n a) \<noteq> k"
  shows "KThreads (Sched_Unblock me k u n) = (KThreads n)(k := (KThreads n k)\<lparr>State := State (KThreads n k) AND NOT u\<rparr>)"
    "exited (Sched_Unblock me k u n) = exited n" "Processes (Sched_Unblock me k u n) = Processes n"
proof -
  have "start_leader me k (spi_add b me n) = spi_add b me n" for b
    using assms(4) by (simp add: start_leader_def spi_add_def split: option.splits)
  with assms show "KThreads (Sched_Unblock me k u n) = (KThreads n)(k := (KThreads n k)\<lparr>State := State (KThreads n k) AND NOT u\<rparr>)"
    "exited (Sched_Unblock me k u n) = exited n" "Processes (Sched_Unblock me k u n) = Processes n"
    by (simp_all add: Sched_Unblock_def Let_def spi_add_def)
qed

lemma avail_simps [simp]:
  "KThreads (Process_MakeHwThreadAvail a p n) = KThreads n" "exited (Process_MakeHwThreadAvail a p n) = exited n"
  "SchedSlot (HWThreads (Process_MakeHwThreadAvail a p n) q) = SchedSlot (HWThreads n q)"
  "ProcessLeader_KThread (Processes (Process_MakeHwThreadAvail a p n) b) = ProcessLeader_KThread (Processes n b)"
  by (simp_all add: Process_MakeHwThreadAvail_def decrementSlotAllocatedCount_def upd_process_def upd_hwthread_def Let_def)

lemma Complete_effect:
  assumes k: "pHWThread (KThreads n k) = me" "SlotIndex (KThreads n k) = s" "pAppProc (KThreads n k) = hwtProcess n me"
      "\<And>a. pAppProc (KThreads n k) = Some a \<Longrightarrow> ProcessLeader_KThread (Processes n a) \<noteq> k"
    and e: "\<not> exited n me" and j: "j = SchedSlot (HWThreads n me) ! s" "bit (State (KThreads n j)) 9" "j \<noteq> k"
  obtains n' where "KThread_CompleteMigration me k n = Some n'"
    "\<And>i. State (KThreads n' i) = (if i = k then State (KThreads n k) AND NOT SCHED_STATE_RESET
       else if i = j then State (KThreads n j) AND NOT SCHED_STATE_RESERVED else State (KThreads n i))"
    "\<And>i. pHWThread (KThreads n' i) = pHWThread (KThreads n i)" "\<And>i. SlotIndex (KThreads n' i) = SlotIndex (KThreads n i)"
    "\<And>p. SchedSlot (HWThreads n' p) = (if p = me then (SchedSlot (HWThreads n me))[s := k] else SchedSlot (HWThreads n p))"
    "MigrationData (KThreads n' k) = None"
proof -
  define n1 where "n1 = upd_hwthread me (\<lambda>h. h\<lparr>SchedSlot := (SchedSlot h)[s := k]\<rparr>) n"
  define n2 where "n2 = (if Policy (KThreads n1 k) = SCHED_COMM then upd_hwthread me (\<lambda>h. h\<lparr>pCommThread := Some k\<rparr>) n1 else n1)"
  define n3 where "n3 = upd_kthread j (\<lambda>k. k\<lparr>State := State k AND NOT SCHED_STATE_RESERVED\<rparr>) n2"
  define n4 where "n4 = (case pAppProc (KThreads n3 j) of None \<Rightarrow> n3
      | Some a \<Rightarrow> Process_MakeHwThreadAvail a (ProcessorID (KThreads n2 j)) n3)"
  define n5 where "n5 = Sched_Unblock me k SCHED_STATE_RESET n4"
  define n6 where "n6 = upd_hwthread me (\<lambda>h. h\<lparr>priorityRefreshPending := True\<rparr>) n5"
  define n7 where "n7 = (if SlotIndex (KThreads n6 (pCurrentThread (HWThreads n6 me))) \<noteq> CONFIG_SCHED_KERNEL_SLOT_INDEX \<and>
        Priority (KThreads n6 (pCurrentThread (HWThreads n6 me))) <s Priority (KThreads n6 k)
      then upd_kthread (pCurrentThread (HWThreads n6 me)) (\<lambda>k. k\<lparr>Pending := Pending k OR KTHR_PENDING_YIELD\<rparr>) n6 else n6)"
  have 2: "KThreads n2 = KThreads n" "exited n2 = exited n" "Processes n2 = Processes n"
      "SchedSlot (HWThreads n2 p) = (if p = me then (SchedSlot (HWThreads n me))[s := k] else SchedSlot (HWThreads n p))" for p
    by (simp_all add: n2_def n1_def)
  have c: "(pAppProc (KThreads n k) \<noteq> hwtProcess n me) = False" "(State (KThreads n2 j) AND SCHED_STATE_RESERVED = 0) = False"
    using k(3) j(2) by (simp_all add: 2 flag_bits)
  have m: "KThread_CompleteMigration me k n = Some (upd_kthread k (\<lambda>k. k\<lparr>MigrationData := None\<rparr>) n7)"
    unfolding KThread_CompleteMigration_def Let_def k(2) c(1) if_False bit.disj_zero_right j(1) [symmetric] n1_def [symmetric]
      n2_def [symmetric] c(2) n3_def [symmetric] n4_def [symmetric] n5_def [symmetric] n6_def [symmetric] n7_def [symmetric] by (rule refl)
  have 4: "KThreads n4 = (KThreads n)(j := (KThreads n j)\<lparr>State := State (KThreads n j) AND NOT SCHED_STATE_RESERVED\<rparr>)"
      "exited n4 = exited n" "ProcessLeader_KThread (Processes n4 b) = ProcessLeader_KThread (Processes n b)"
      "SchedSlot (HWThreads n4 p) = SchedSlot (HWThreads n2 p)" for b p
    by (simp_all add: n4_def n3_def 2 split: option.splits)
  have 5: "KThreads n5 = (KThreads n4)(k := (KThreads n4 k)\<lparr>State := State (KThreads n4 k) AND NOT SCHED_STATE_RESET\<rparr>)"
    unfolding n5_def by (rule Unblock_effect(1)) (use k e j(3) in \<open>simp_all add: 4 SCHED_STATE_RESET_def\<close>)
  show ?thesis
    by (rule that [OF m]) (use j(3) in \<open>simp_all add: n7_def n6_def 5 4 2 n5_def [symmetric] Sched_Unblock_fields(2)
        [of me k SCHED_STATE_RESET n4, folded n5_def]\<close>)
qed


definition demo_move :: Node where
  "demo_move = upd_kthread 1 (\<lambda>k. k\<lparr>pAppProc := Some 0, MigrationData := Some (2, 0)\<rparr>)
     (upd_kthread 12 (\<lambda>k. k\<lparr>State := SCHED_STATE_FREE OR SCHED_STATE_RESERVED\<rparr>) demo_node)"


end
