(* ===== verification/CnkFutex.thy ===== *)
theory CnkFutex
  imports CnkThread "HOL-Library.Monad_Syntax"
begin

text \<open>
  Futexes and sleeps (\<^verbatim>\<open>cnk/src/futex.c\<close>, \<^verbatim>\<open>cnk/src/syscalls/futex.cc\<close>, \<^verbatim>\<open>cnk/src/timers.c\<close>). The
  threads that wait on an address are a list linked through the threads themselves, and a table
  entry points to its first thread. Loops over the links are partial functions: they do not return
  on a cyclic list. An operation is None when it does not return: it waits for a lock that is not
  released, follows a cyclic list, or runs for a thread without a process.
\<close>

section \<open>The state\<close>

definition NUM_FUTEX :: nat where "NUM_FUTEX = NUM_KTHREADS"
definition UNBLOCK_LIST_SIZE :: nat where "UNBLOCK_LIST_SIZE = 64 * (6 - 1)"
definition CR_ERROR :: u32 where "CR_ERROR = 0x10000000"

text \<open>Linux numbers of the errors that a woken thread finds in its result register.\<close>

definition EINTR :: u64 where "EINTR = 4"
definition ETIMEDOUT :: u64 where "ETIMEDOUT = 110"

datatype futex_error = EWOULDBLOCK | EAGAIN | EFAULT | ENOSYS

text \<open>The table for all processes, or the table of one process.\<close>

datatype futex_scope = Shared | Private nat

record Futex_State =
  futex_vaddr :: u64
  pKThr_Waiter_Next :: ptr

text \<open>The fields of a thread that belong to waiting, with the registers of its system call.\<close>

record KWait =
  FutexQueueNext :: ptr
  FutexVAddr :: u64
  FutexValue :: u32
  FutexIsShared :: bool
  FutexTimeout :: u64
  SleepTimeout :: u64
  SleepRemainder :: u64
  Reg_cr :: u32
  Reg_gpr3 :: u64

text \<open>
  The node with the waiting fields of its threads, the futex tables and their locks, the words and
  the time values in the memory of the applications, the shared region of every process, and the
  timer of every hardware thread.
\<close>

record Kernel =
  node :: Node
  kwait :: "nat \<Rightarrow> KWait"
  Futex_Table :: "futex_scope \<Rightarrow> nat \<Rightarrow> Futex_State"
  FutexLock :: "futex_scope \<Rightarrow> u64"
  FutexOrderLock :: "futex_scope \<Rightarrow> u64"
  words :: "u64 \<Rightarrow> u32"
  timespecs :: "u64 \<Rightarrow> u64 \<times> u64"
  Shared_VStart :: "nat \<Rightarrow> u64"
  Shared_VEnd :: "nat \<Rightarrow> u64"
  udecr_expiration :: "nat \<Rightarrow> u64"
  UDEC :: "nat \<Rightarrow> u64"
  ipiMessageCheckerExpiration :: "nat \<Rightarrow> u64"
  FreqMHz :: u64

definition on_node :: "(Node \<Rightarrow> Node) \<Rightarrow> Kernel \<Rightarrow> Kernel" where
  "on_node f K = K\<lparr>node := f (node K)\<rparr>"

definition upd_kwait :: "nat \<Rightarrow> (KWait \<Rightarrow> KWait) \<Rightarrow> Kernel \<Rightarrow> Kernel" where
  "upd_kwait k f K = K\<lparr>kwait := (kwait K)(k := f (kwait K k))\<rparr>"

definition upd_entry :: "futex_scope \<Rightarrow> nat \<Rightarrow> (Futex_State \<Rightarrow> Futex_State) \<Rightarrow> Kernel \<Rightarrow> Kernel" where
  "upd_entry c i f K = K\<lparr>Futex_Table := (Futex_Table K)(c := (Futex_Table K c)(i := f (Futex_Table K c i)))\<rparr>"

definition GetMyKThread :: "nat \<Rightarrow> Kernel \<Rightarrow> nat" where
  "GetMyKThread me K = pCurrentThread (HWThreads (node K) me)"

definition GetMyProcess :: "nat \<Rightarrow> Kernel \<Rightarrow> ptr" where
  "GetMyProcess me K = pAppProc (KThreads (node K) (GetMyKThread me K))"

definition set_pending_yield :: "nat \<Rightarrow> Kernel \<Rightarrow> Kernel" where
  "set_pending_yield k = on_node (upd_kthread k (\<lambda>k. k\<lparr>Pending := Pending k OR KTHR_PENDING_YIELD\<rparr>))"

section \<open>Locks and table entries\<close>

text \<open>From the Linux headers.\<close>

definition FUTEX_PRIVATE_FLAG :: u32 where "FUTEX_PRIVATE_FLAG = 128"
definition FUTEX_CMD_MASK :: u32 where "FUTEX_CMD_MASK = NOT (128 OR 256)"

definition Futex_IsShared :: "nat \<Rightarrow> u64 \<Rightarrow> u32 \<Rightarrow> Kernel \<Rightarrow> bool option" where
  "Futex_IsShared me vaddr op_and_flags K =
     (if op_and_flags AND FUTEX_PRIVATE_FLAG \<noteq> 0 then Some False
      else do {
        a \<leftarrow> GetMyProcess me K;
        Some (Shared_VStart K a \<le> vaddr \<and> vaddr \<le> Shared_VEnd K a)
      })"

definition scope_of :: "nat \<Rightarrow> bool \<Rightarrow> Kernel \<Rightarrow> futex_scope option" where
  "scope_of me isShared K = (if isShared then Some Shared else map_option Private (GetMyProcess me K))"

text \<open>A ticket is drawn, and the caller waits for its turn; nobody else runs meanwhile.\<close>

definition Lock_AtomicAcquire :: "futex_scope \<Rightarrow> Kernel \<Rightarrow> (u64 \<times> Kernel) option" where
  "Lock_AtomicAcquire c K =
     (let my_turn = FutexLock K c
      in if FutexOrderLock K c = my_turn then Some (my_turn, K\<lparr>FutexLock := (FutexLock K)(c := my_turn + 1)\<rparr>) else None)"

definition Lock_AtomicRelease :: "futex_scope \<Rightarrow> u64 \<Rightarrow> Kernel \<Rightarrow> Kernel" where
  "Lock_AtomicRelease c my_turn K = K\<lparr>FutexOrderLock := (FutexOrderLock K)(c := my_turn + 1)\<rparr>"

definition Futex_findTableEntry :: "u64 \<Rightarrow> futex_scope \<Rightarrow> bool \<Rightarrow> Kernel \<Rightarrow> Kernel \<times> nat option" where
  "Futex_findTableEntry futexAddress c allocateIfNecessary K =
     (case find (\<lambda>i. futex_vaddr (Futex_Table K c i) = futexAddress) [0..<NUM_FUTEX] of
        Some i \<Rightarrow> (K, Some i)
      | None \<Rightarrow>
          if allocateIfNecessary then
            (case find (\<lambda>i. futex_vaddr (Futex_Table K c i) = 0) [0..<NUM_FUTEX] of
               Some i \<Rightarrow> (upd_entry c i (\<lambda>e. e\<lparr>futex_vaddr := futexAddress, pKThr_Waiter_Next := None\<rparr>) K, Some i)
             | None \<Rightarrow> (K, None))
          else (K, None))"

section \<open>The timer\<close>

definition Timer_disableUDECRwakeup :: "nat \<Rightarrow> Kernel \<Rightarrow> Kernel" where
  "Timer_disableUDECRwakeup me K = K\<lparr>UDEC := (UDEC K)(me := 0), udecr_expiration := (udecr_expiration K)(me := 0)\<rparr>"

definition Timer_enableUDECRwakeup :: "nat \<Rightarrow> u64 \<Rightarrow> u64 \<Rightarrow> Kernel \<Rightarrow> Kernel" where
  "Timer_enableUDECRwakeup me current_timebase expiration K =
     (let requested_interval = expiration - current_timebase;
          interval = (if drop_bit 32 requested_interval \<noteq> 0 then 0xFFFFFFFF else requested_interval)
      in K\<lparr>udecr_expiration := (udecr_expiration K)(me := current_timebase + interval), UDEC := (UDEC K)(me := interval)\<rparr>)"

definition Timer_enableFutexTimeout :: "nat \<Rightarrow> u64 \<Rightarrow> u64 \<Rightarrow> Kernel \<Rightarrow> Kernel" where
  "Timer_enableFutexTimeout = Timer_enableUDECRwakeup"

section \<open>Waiting\<close>

text \<open>The last thread of a queue that starts with \<open>FtQ\<close>.\<close>

partial_function (option) queue_last :: "(nat \<Rightarrow> KWait) \<Rightarrow> nat \<Rightarrow> nat option" where
  "queue_last kw FtQ = (case FutexQueueNext (kw FtQ) of None \<Rightarrow> Some FtQ | Some k \<Rightarrow> queue_last kw k)"

definition append_waiter :: "futex_scope \<Rightarrow> nat \<Rightarrow> nat \<Rightarrow> Kernel \<Rightarrow> Kernel option" where
  "append_waiter c i pKThr K =
     (case pKThr_Waiter_Next (Futex_Table K c i) of
        None \<Rightarrow> Some (upd_entry c i (\<lambda>e. e\<lparr>pKThr_Waiter_Next := Some pKThr\<rparr>) K)
      | Some k \<Rightarrow> do {
          FtQ \<leftarrow> queue_last (kwait K) k;
          Some (upd_kwait FtQ (\<lambda>w. w\<lparr>FutexQueueNext := Some pKThr\<rparr>) K)
        })"

definition Futex_Wait ::
    "nat \<Rightarrow> u32 \<Rightarrow> nat \<Rightarrow> u64 \<Rightarrow> u32 \<Rightarrow> u64 \<Rightarrow> u64 \<Rightarrow> Kernel \<Rightarrow> (Kernel \<times> (futex_error + nat)) option" where
  "Futex_Wait me op_and_flags pKThr vaddr futex_val timeout current_time K =
     do {
       isShared \<leftarrow> Futex_IsShared me vaddr op_and_flags K;
       c \<leftarrow> scope_of me isShared K;
       (my_turn, K) \<leftarrow> Lock_AtomicAcquire c K;
       if words K vaddr \<noteq> futex_val then Some (Lock_AtomicRelease c my_turn K, Inl EWOULDBLOCK)
       else do {
         K \<leftarrow> (case Futex_findTableEntry vaddr c True K of
                (K, Some i) \<Rightarrow> do {
                  K \<leftarrow> append_waiter c i pKThr K;
                  let K = upd_kwait pKThr (\<lambda>w. w\<lparr>FutexQueueNext := None, FutexVAddr := vaddr,
                            FutexValue := words K vaddr, FutexTimeout := timeout, FutexIsShared := isShared\<rparr>) K;
                  Some (if timeout \<noteq> 0
                        then Timer_enableFutexTimeout me current_time (if timeout < current_time then current_time + 1 else timeout) K
                        else K)
                }
              | (K, None) \<Rightarrow> Some K);
         let K = on_node (Sched_Block me (GetMyKThread me K) SCHED_STATE_FUTEX) K;
         let K = Lock_AtomicRelease c my_turn K;
         Some (set_pending_yield pKThr K, Inr 0)
       }
     }"

section \<open>Timeouts and interruptions\<close>

text \<open>The thread in front of \<open>thread\<close>, in the list that starts with \<open>FtQ\<close>.\<close>

partial_function (option) queue_before :: "(nat \<Rightarrow> KWait) \<Rightarrow> nat \<Rightarrow> ptr \<Rightarrow> ptr option" where
  "queue_before kw thread FtQ =
     (case FtQ of
        None \<Rightarrow> Some None
      | Some q \<Rightarrow> if FutexQueueNext (kw q) = Some thread then Some (Some q) else queue_before kw thread (FutexQueueNext (kw q)))"

definition unlink_waiter :: "futex_scope \<Rightarrow> nat \<Rightarrow> Kernel \<Rightarrow> Kernel option" where
  "unlink_waiter c thread K =
     (case Futex_findTableEntry (FutexVAddr (kwait K thread)) c False K of
        (K, None) \<Rightarrow> Some K
      | (K, Some i) \<Rightarrow>
          if pKThr_Waiter_Next (Futex_Table K c i) = Some thread then
            (let K = upd_entry c i (\<lambda>e. e\<lparr>pKThr_Waiter_Next := FutexQueueNext (kwait K thread)\<rparr>) K
             in Some (if pKThr_Waiter_Next (Futex_Table K c i) = None
                      then upd_entry c i (\<lambda>e. e\<lparr>futex_vaddr := 0\<rparr>) K else K))
          else do {
            FtQ \<leftarrow> queue_before (kwait K) thread (pKThr_Waiter_Next (Futex_Table K c i));
            Some (case FtQ of
                    None \<Rightarrow> K
                  | Some q \<Rightarrow> upd_kwait q (\<lambda>w. w\<lparr>FutexQueueNext := FutexQueueNext (kwait K thread)\<rparr>) K)
          })"

definition fail_waiter :: "u64 \<Rightarrow> KWait \<Rightarrow> KWait" where
  "fail_waiter errnum w = w\<lparr>Reg_cr := Reg_cr w OR CR_ERROR, Reg_gpr3 := errnum, FutexQueueNext := None, FutexVAddr := 0,
     FutexValue := 0, FutexTimeout := 0, FutexIsShared := False\<rparr>"

definition Futex_Timeout :: "nat \<Rightarrow> nat \<Rightarrow> Kernel \<Rightarrow> Kernel option" where
  "Futex_Timeout me thread K =
     do {
       c \<leftarrow> scope_of me (FutexIsShared (kwait K thread)) K;
       K \<leftarrow> unlink_waiter c thread K;
       let K = upd_kwait thread (fail_waiter ETIMEDOUT) K;
       Some (on_node (Sched_Unblock me thread SCHED_STATE_FUTEX) K)
     }"

text \<open>Whether the thread was woken, and the time at which it is to be.\<close>

definition Futex_CheckTimeout :: "nat \<Rightarrow> u64 \<Rightarrow> nat \<Rightarrow> Kernel \<Rightarrow> (Kernel \<times> bool \<times> u64) option" where
  "Futex_CheckTimeout me currentTime thread K =
     (if FutexTimeout (kwait K thread) = 0 then Some (K, False, 0)
      else do {
        c \<leftarrow> scope_of me (FutexIsShared (kwait K thread)) K;
        (my_turn, K) \<leftarrow> Lock_AtomicAcquire c K;
        let expiration = FutexTimeout (kwait K thread);
        (K, rc, pending_expiration) \<leftarrow>
          (if expiration = 0 then Some (K, False, 0)
           else if expiration \<le> currentTime then do { K \<leftarrow> Futex_Timeout me thread K; Some (K, True, 0) }
           else Some (K, False, expiration));
        Some (Lock_AtomicRelease c my_turn K, rc, pending_expiration)
      })"

definition Futex_Interrupt :: "nat \<Rightarrow> nat \<Rightarrow> Kernel \<Rightarrow> Kernel option" where
  "Futex_Interrupt me pKThr K =
     do {
       c \<leftarrow> scope_of me (FutexIsShared (kwait K pKThr)) K;
       (my_turn, K) \<leftarrow> Lock_AtomicAcquire c K;
       K \<leftarrow> unlink_waiter c pKThr K;
       let K = upd_kwait pKThr (fail_waiter EINTR) K;
       let K = Lock_AtomicRelease c my_turn K;
       Some (on_node (Sched_Unblock me pKThr SCHED_STATE_FUTEX) K)
     }"

section \<open>Waking\<close>

definition wake_waiter :: "futex_scope \<Rightarrow> nat \<Rightarrow> nat \<Rightarrow> Kernel \<Rightarrow> Kernel" where
  "wake_waiter c i thread K =
     (let K = upd_entry c i (\<lambda>e. e\<lparr>pKThr_Waiter_Next := FutexQueueNext (kwait K thread)\<rparr>) K
      in upd_kwait thread (\<lambda>w. w\<lparr>Reg_gpr3 := 0, FutexQueueNext := None, FutexVAddr := 0, FutexValue := 0,
           FutexTimeout := 0, FutexIsShared := False\<rparr>) K)"

text \<open>The threads from \<open>thread\<close> on now wait on the address of entry \<open>j\<close>.\<close>

partial_function (option) relabel :: "futex_scope \<Rightarrow> nat \<Rightarrow> ptr \<Rightarrow> Kernel \<Rightarrow> Kernel option" where
  "relabel c j thread K =
     (case thread of
        None \<Rightarrow> Some K
      | Some k \<Rightarrow> relabel c j (FutexQueueNext (kwait K k))
          (upd_kwait k (\<lambda>w. w\<lparr>FutexVAddr := futex_vaddr (Futex_Table K c j),
             FutexValue := words K (futex_vaddr (Futex_Table K c j))\<rparr>) K))"

text \<open>The link that ends the queue of entry \<open>j\<close> is the one of the entry or the one of its last thread.\<close>

definition requeue :: "futex_scope \<Rightarrow> nat \<Rightarrow> nat \<Rightarrow> nat \<Rightarrow> Kernel \<Rightarrow> Kernel option" where
  "requeue c i j thread K =
     do {
       tail \<leftarrow> (case pKThr_Waiter_Next (Futex_Table K c j) of
                None \<Rightarrow> Some None | Some k \<Rightarrow> map_option Some (queue_last (kwait K) k));
       let K = upd_entry c i (\<lambda>e. e\<lparr>pKThr_Waiter_Next := None\<rparr>) K;
       let K = (case tail of
                  None \<Rightarrow> upd_entry c j (\<lambda>e. e\<lparr>pKThr_Waiter_Next := Some thread\<rparr>) K
                | Some q \<Rightarrow> upd_kwait q (\<lambda>w. w\<lparr>FutexQueueNext := Some thread\<rparr>) K);
       relabel c j (Some thread) K
     }"

partial_function (option) wake_loop ::
    "futex_scope \<Rightarrow> nat \<Rightarrow> int \<Rightarrow> nat option \<Rightarrow> nat list \<Rightarrow> Kernel \<Rightarrow> (Kernel \<times> nat list) option" where
  "wake_loop c i maxToWake secondary unblockList K =
     (case pKThr_Waiter_Next (Futex_Table K c i) of
        None \<Rightarrow> Some (K, unblockList)
      | Some thread \<Rightarrow>
          if int (length unblockList) < maxToWake
          then wake_loop c i maxToWake secondary (unblockList @ [thread]) (wake_waiter c i thread K)
          else (case secondary of
                  Some j \<Rightarrow> do { K \<leftarrow> requeue c i j thread K; wake_loop c i maxToWake secondary unblockList K }
                | None \<Rightarrow> Some (K, unblockList)))"

definition drop_empty :: "futex_scope \<Rightarrow> nat \<Rightarrow> Kernel \<Rightarrow> Kernel" where
  "drop_empty c i K =
     (if pKThr_Waiter_Next (Futex_Table K c i) = None then upd_entry c i (\<lambda>e. e\<lparr>futex_vaddr := 0\<rparr>) K else K)"

definition Futex_WakeQueue ::
    "futex_scope \<Rightarrow> nat option \<Rightarrow> int \<Rightarrow> nat option \<Rightarrow> Kernel \<Rightarrow> (Kernel \<times> nat list) option" where
  "Futex_WakeQueue c futexTableEntry maxToWake secondary K =
     (case futexTableEntry of
        None \<Rightarrow> Some (K, [])
      | Some i \<Rightarrow> do {
          (K, unblockList) \<leftarrow> wake_loop c i maxToWake secondary [] K;
          let K = drop_empty c i K;
          Some (case secondary of None \<Rightarrow> K | Some j \<Rightarrow> drop_empty c j K, unblockList)
        })"

definition FUTEX_WAIT :: u32 where "FUTEX_WAIT = 0"
definition FUTEX_WAKE :: u32 where "FUTEX_WAKE = 1"
definition FUTEX_REQUEUE :: u32 where "FUTEX_REQUEUE = 3"
definition FUTEX_CMP_REQUEUE :: u32 where "FUTEX_CMP_REQUEUE = 4"
definition FUTEX_WAKE_OP :: u32 where "FUTEX_WAKE_OP = 5"
definition FUTEX_SHIFT :: u32 where "FUTEX_SHIFT = 8"

text \<open>A field of the encoded operation, by the number of its lowest bit and its width.\<close>

definition field_of :: "u32 \<Rightarrow> nat \<Rightarrow> nat \<Rightarrow> u32" where
  "field_of secondary_value b w = drop_bit b secondary_value AND mask w"

definition sign_extend12 :: "u32 \<Rightarrow> u32" where
  "sign_extend12 operand = operand OR (if operand AND 0x800 \<noteq> 0 then 0xfffff000 else 0)"

definition wake_op_value :: "u32 \<Rightarrow> u32 \<Rightarrow> u32 \<Rightarrow> u32" where
  "wake_op_value op operand previousValue =
     (if op = 0 then operand
      else if op = 1 then previousValue + operand
      else if op = 2 then previousValue OR operand
      else if op = 3 then previousValue AND NOT operand
      else if op = 4 then previousValue XOR operand
      else previousValue)"

definition wake_op_test :: "u32 \<Rightarrow> u32 \<Rightarrow> u32 \<Rightarrow> bool" where
  "wake_op_test cmpop previousValue cmpOperand =
     (if cmpop = 0 then previousValue = cmpOperand
      else if cmpop = 1 then previousValue \<noteq> cmpOperand
      else if cmpop = 2 then previousValue <s cmpOperand
      else if cmpop = 3 then previousValue \<le>s cmpOperand
      else if cmpop = 4 then cmpOperand <s previousValue
      else if cmpop = 5 then cmpOperand \<le>s previousValue
      else False)"

text \<open>
  The update of the second word and whether its queue is woken. A shift count outside of the word
  is taken as the instruction \<open>slw\<close> takes it, by its low six bits.
\<close>

definition wake_op :: "u32 \<Rightarrow> u32 \<Rightarrow> u32 \<times> bool" where
  "wake_op secondary_value previousValue =
     (let op = field_of secondary_value 28 4;
          cmpop = field_of secondary_value 24 4;
          operand = sign_extend12 (field_of secondary_value 12 12);
          cmpOperand = sign_extend12 (field_of secondary_value 0 12);
          (op, operand) = (if op AND FUTEX_SHIFT \<noteq> 0
                           then (op AND NOT FUTEX_SHIFT, push_bit (unat (operand AND 0x3F)) 1) else (op, operand))
      in (wake_op_value op operand previousValue, wake_op_test cmpop previousValue cmpOperand))"

text \<open>\<open>GetKThreadFromTid\<close> gives no thread for one that was freed or for a kernel thread.\<close>

definition GetKThreadFromTid :: "nat \<Rightarrow> Kernel \<Rightarrow> ptr" where
  "GetKThreadFromTid tid K =
     (let kthread = tid - 1 in
      if State (KThreads (node K) kthread) AND SCHED_STATE_FREE \<noteq> 0 \<or>
         SlotIndex (KThreads (node K) kthread) = CONFIG_SCHED_KERNEL_SLOT_INDEX then None else Some kthread)"

definition unblock_waiter :: "nat \<Rightarrow> nat \<Rightarrow> Kernel \<Rightarrow> Kernel" where
  "unblock_waiter me tid K =
     (case GetKThreadFromTid tid K of
        None \<Rightarrow> K
      | Some thread \<Rightarrow>
          (let K = on_node (Sched_Unblock me thread SCHED_STATE_FUTEX) K
           in if ProcessorID (KThreads (node K) thread) = me then set_pending_yield (GetMyKThread me K) K else K))"

definition Futex_Wake ::
    "nat \<Rightarrow> u32 \<Rightarrow> u64 \<Rightarrow> int \<Rightarrow> u64 \<Rightarrow> int \<Rightarrow> u32 \<Rightarrow> Kernel \<Rightarrow> (Kernel \<times> (futex_error + nat)) option" where
  "Futex_Wake me op_and_flags vaddr max_to_wake secondary_vaddr max_to_wake2 secondary_value K =
     do {
       let operation = op_and_flags AND FUTEX_CMD_MASK;
       isShared \<leftarrow> Futex_IsShared me vaddr op_and_flags K;
       c \<leftarrow> scope_of me isShared K;
       (my_turn, K) \<leftarrow> Lock_AtomicAcquire c K;
       if operation = FUTEX_CMP_REQUEUE \<and> words K vaddr \<noteq> secondary_value
       then Some (Lock_AtomicRelease c my_turn K, Inl EAGAIN)
       else do {
         let (newValue, test) = wake_op secondary_value (words K secondary_vaddr);
         let wakeSecondary = (operation = FUTEX_WAKE_OP \<and> test);
         let K = (if operation = FUTEX_WAKE_OP then K\<lparr>words := (words K)(secondary_vaddr := newValue)\<rparr> else K);
         let (K, futexTableEntry) = Futex_findTableEntry vaddr c False K;
         let requeueing = (futexTableEntry \<noteq> None \<and> (operation = FUTEX_REQUEUE \<or> operation = FUTEX_CMP_REQUEUE));
         let (K, secondary) = (if requeueing then Futex_findTableEntry secondary_vaddr c True K else (K, None));
         if requeueing \<and> secondary = None then Some (Lock_AtomicRelease c my_turn K, Inl EAGAIN)
         else do {
           (K, unblockList) \<leftarrow>
             Futex_WakeQueue c futexTableEntry (min max_to_wake (int UNBLOCK_LIST_SIZE)) secondary K;
           (K, unblockList) \<leftarrow>
             (if wakeSecondary then do {
                let (K, entry2) = Futex_findTableEntry secondary_vaddr c False K;
                (K, unblockList2) \<leftarrow>
                  Futex_WakeQueue c entry2 (min max_to_wake2 (int UNBLOCK_LIST_SIZE - int (length unblockList))) None K;
                Some (K, unblockList @ unblockList2)
              }
              else Some (K, unblockList));
           let K = Lock_AtomicRelease c my_turn K;
           Some (fold (unblock_waiter me) (map Suc unblockList) K, Inr (length unblockList))
         }
       }
     }"

section \<open>The system call\<close>

text \<open>
  \<open>is_app\<close> says which ranges of addresses belong to the process; the time value of the caller is
  given by its seconds and nanoseconds, None for a NULL pointer.
\<close>

definition sc_futex ::
    "(u64 \<Rightarrow> nat \<Rightarrow> bool) \<Rightarrow> nat \<Rightarrow> u64 \<Rightarrow> u64 \<Rightarrow> u64 \<Rightarrow> u64 \<Rightarrow> u64 \<Rightarrow> u64 \<Rightarrow> u64 \<Rightarrow> Kernel \<Rightarrow>
      (Kernel \<times> (futex_error + nat)) option" where
  "sc_futex is_app me current_time r3 r4 r5 r6 r7 r8 K =
     (let pKThr = GetMyKThread me K;
          ft_op_and_flags = ucast r4;
          ft_op = ft_op_and_flags AND FUTEX_CMD_MASK;
          ft_val = (ucast r5 :: u32);
          max2wake = (ucast r6 :: u32);
          ft_val3 = (ucast r8 :: u32)
      in if \<not> is_app r3 4 then Some (K, Inl EFAULT)
         else if ft_op = FUTEX_WAIT then
           (if r6 \<noteq> 0 \<and> \<not> is_app r6 16 then Some (K, Inl EFAULT)
            else
              (let (tv_sec, tv_nsec) = timespecs K r6;
                   futex_timeout = (if r6 \<noteq> 0 then (tv_sec * 1000000 + tv_nsec div 1000) * FreqMHz K + current_time else 0)
               in Futex_Wait me ft_op_and_flags pKThr r3 ft_val futex_timeout current_time K))
         else if ft_op = FUTEX_WAKE then Futex_Wake me ft_op_and_flags r3 (sint ft_val) 0 (-1) (-1) K
         else if ft_op = FUTEX_WAKE_OP then Futex_Wake me ft_op_and_flags r3 (sint ft_val) r7 (sint max2wake) ft_val3 K
         else if ft_op = FUTEX_REQUEUE \<or> ft_op = FUTEX_CMP_REQUEUE
         then Futex_Wake me ft_op_and_flags r3 (sint ft_val) r7 (-1) ft_val3 K
         else Some (K, Inl ENOSYS))"

section \<open>Sleeping\<close>

text \<open>The result is False for a time that is not valid.\<close>

definition Timer_NanoSleep :: "nat \<Rightarrow> u64 \<Rightarrow> u64 \<Rightarrow> u64 \<Rightarrow> u64 \<Rightarrow> Kernel \<Rightarrow> Kernel \<times> bool" where
  "Timer_NanoSleep me current_timebase tv_sec tv_nsec rem K =
     (if tv_nsec <s 0 \<or> 1000000000 \<le>s tv_nsec then (K, False)
      else
        (let micros = tv_sec * 1000000 + tv_nsec div 1000;
             expiration = current_timebase + micros * FreqMHz K;
             kthr = GetMyKThread me K
         in if current_timebase < expiration then
              (let K = upd_kwait kthr (\<lambda>w. w\<lparr>SleepTimeout := expiration, SleepRemainder := rem\<rparr>) K;
                   K = on_node (Sched_Block me kthr SCHED_STATE_SLEEP) K;
                   K = set_pending_yield kthr K
               in if udecr_expiration K me = 0 \<or> expiration < udecr_expiration K me
                  then (Timer_enableUDECRwakeup me current_timebase expiration K, True) else (K, True))
            else (K, True)))"

definition Timer_Interrupt :: "nat \<Rightarrow> u64 \<Rightarrow> nat \<Rightarrow> Kernel \<Rightarrow> Kernel" where
  "Timer_Interrupt me timebase kthr K =
     (let K = upd_kwait kthr (\<lambda>w. w\<lparr>Reg_cr := Reg_cr w OR CR_ERROR, Reg_gpr3 := EINTR\<rparr>) K;
          K = (if SleepRemainder (kwait K kthr) \<noteq> 0 then
                 (let cycles = SleepTimeout (kwait K kthr) - timebase;
                      cycles = (if cycles <s 0 then 0 else cycles);
                      micros = cycles div FreqMHz K
                  in K\<lparr>timespecs := (timespecs K)(SleepRemainder (kwait K kthr) := (micros div 1000000, micros mod 1000000 * 1000))\<rparr>)
               else K);
          K = upd_kwait kthr (\<lambda>w. w\<lparr>SleepTimeout := 0\<rparr>) K;
          K = on_node (Sched_Unblock me kthr SCHED_STATE_SLEEP) K
      in Timer_disableUDECRwakeup me K)"

definition Timer_Awaken :: "nat \<Rightarrow> nat \<Rightarrow> Kernel \<Rightarrow> Kernel" where
  "Timer_Awaken me kthr K =
     (let K = (if SleepRemainder (kwait K kthr) \<noteq> 0
               then K\<lparr>timespecs := (timespecs K)(SleepRemainder (kwait K kthr) := (0, 0))\<rparr> else K);
          K = upd_kwait kthr (\<lambda>w. w\<lparr>SleepTimeout := 0\<rparr>) K
      in on_node (Sched_Unblock me kthr SCHED_STATE_SLEEP) K)"

definition earlier :: "u64 \<Rightarrow> u64 \<Rightarrow> u64" where
  "earlier new_expiration candidate =
     (if new_expiration = 0 \<or> candidate < new_expiration then candidate else new_expiration)"

text \<open>One slot of the interrupt handler: the state, the next expiration and whether to dispatch.\<close>

definition udec_slot :: "nat \<Rightarrow> u64 \<Rightarrow> nat \<Rightarrow> Kernel \<times> u64 \<times> bool \<Rightarrow> (Kernel \<times> u64 \<times> bool) option" where
  "udec_slot me currentTime kthread = (\<lambda>(K, new_expiration, dispatchNeeded).
     do {
       let myKthread = GetMyKThread me K;
       let inTheScheduler = (SlotIndex (KThreads (node K) myKthread) = CONFIG_SCHED_KERNEL_SLOT_INDEX);
       let preempts = (\<not> inTheScheduler \<and> Priority (KThreads (node K) myKthread) <s Priority (KThreads (node K) kthread));
       let sleep = SleepTimeout (kwait K kthread);
       let (K, new_expiration, dispatchNeeded) =
         (if sleep = 0 then (K, new_expiration, dispatchNeeded)
          else if sleep \<le> currentTime then (Timer_Awaken me kthread K, new_expiration, dispatchNeeded \<or> preempts)
          else (K, earlier new_expiration sleep, dispatchNeeded));
       (K, rc, candidate) \<leftarrow> Futex_CheckTimeout me currentTime kthread K;
       Some (if rc then (K, new_expiration, dispatchNeeded \<or> preempts)
             else if candidate \<noteq> 0 then (K, earlier new_expiration candidate, dispatchNeeded)
             else (K, new_expiration, dispatchNeeded))
     })"

fun udec_loop :: "nat \<Rightarrow> u64 \<Rightarrow> nat list \<Rightarrow> Kernel \<times> u64 \<times> bool \<Rightarrow> (Kernel \<times> u64 \<times> bool) option" where
  "udec_loop me currentTime [] s = Some s"
| "udec_loop me currentTime (kthread # ks) s = do { s \<leftarrow> udec_slot me currentTime kthread s; udec_loop me currentTime ks s }"

text \<open>
  The check for lost requests between hardware threads finds none: a request stays in
  \<open>ipi_message\<close> until its interrupt is taken. What remains of it is the time of the next check.
\<close>

definition CONFIG_IPIMESSAGECHECKER_INTERVAL :: u64 where "CONFIG_IPIMESSAGECHECKER_INTERVAL = 20000"

definition IntHandler_UDEC :: "nat \<Rightarrow> u64 \<Rightarrow> Kernel \<Rightarrow> Kernel option" where
  "IntHandler_UDEC me currentTime K =
     do {
       let myKthread = GetMyKThread me K;
       (K, new_expiration, dispatchNeeded) \<leftarrow>
         udec_loop me currentTime (take CONFIG_SCHED_KERNEL_SLOT_INDEX (SchedSlot (HWThreads (node K) me))) (K, 0, False);
       let K = (if dispatchNeeded then set_pending_yield myKthread K else K);
       let checker = ipiMessageCheckerExpiration K me;
       let (K, new_expiration) =
         (if checker = 0 then (K, new_expiration)
          else
            (let checker' = (if checker < currentTime then currentTime + CONFIG_IPIMESSAGECHECKER_INTERVAL * FreqMHz K else checker)
             in (K\<lparr>ipiMessageCheckerExpiration := (ipiMessageCheckerExpiration K)(me := checker')\<rparr>, earlier new_expiration checker')));
       Some (if new_expiration \<noteq> 0 then Timer_enableUDECRwakeup me currentTime new_expiration K
             else Timer_disableUDECRwakeup me K)
     }"

definition IPI_disableMessageChecker :: "nat \<Rightarrow> Kernel \<Rightarrow> Kernel" where
  "IPI_disableMessageChecker me K = K\<lparr>ipiMessageCheckerExpiration := (ipiMessageCheckerExpiration K)(me := 0)\<rparr>"

definition IPI_enableMessageChecker :: "nat \<Rightarrow> u64 \<Rightarrow> Kernel \<Rightarrow> Kernel" where
  "IPI_enableMessageChecker me curtime K =
     (let expiration = curtime + CONFIG_IPIMESSAGECHECKER_INTERVAL * FreqMHz K
      in Timer_enableUDECRwakeup me curtime expiration
           (K\<lparr>ipiMessageCheckerExpiration := (ipiMessageCheckerExpiration K)(me := expiration)\<rparr>))"

end
