(* ===== verification/CnkTicket.thy ===== *)
theory CnkTicket
  imports CnkAtomic CnkFutex
begin

text \<open>
  The ticket lock of the futex operations (\<open>Lock_AtomicAcquire\<close> and \<open>Lock_AtomicRelease\<close> of
  \<^verbatim>\<open>cnk/src/futex.c\<close>) with the threads interleaved between the draw of a ticket, every look at the
  word that says whose turn it is, and the release.
\<close>

datatype ticket_pc = Out | Turn u64 | Inside u64

text \<open>The threads are recorded in the order in which they draw tickets and in which they enter.\<close>

record ticket_state =
  alock :: u64
  olock :: u64
  tpc :: "nat \<Rightarrow> ticket_pc"
  drawn :: "nat list"
  entered :: "nat list"

inductive ticket_step :: "nat \<Rightarrow> ticket_state \<Rightarrow> ticket_state \<Rightarrow> bool" for N where
  draw: "t < N \<Longrightarrow> tpc s t = Out \<Longrightarrow> fetch_and_add64 1 (alock s) = Some a \<Longrightarrow>
    ticket_step N s (s\<lparr>alock := a, tpc := (tpc s)(t := Turn (alock s)), drawn := drawn s @ [t]\<rparr>)"
| spin: "tpc s t = Turn my_turn \<Longrightarrow> olock s \<noteq> my_turn \<Longrightarrow> ticket_step N s s"
| enter: "tpc s t = Turn my_turn \<Longrightarrow> olock s = my_turn \<Longrightarrow>
    ticket_step N s (s\<lparr>tpc := (tpc s)(t := Inside my_turn), entered := entered s @ [t]\<rparr>)"
| release: "tpc s t = Inside my_turn \<Longrightarrow> ticket_step N s (s\<lparr>olock := my_turn + 1, tpc := (tpc s)(t := Out)\<rparr>)"

text \<open>
  The invariant: the threads \<open>h\<close> inside, at most one, and the threads \<open>q\<close> that wait, which have
  consecutive tickets.
\<close>

fun tickets :: "(nat \<Rightarrow> ticket_pc) \<Rightarrow> u64 \<Rightarrow> nat list \<Rightarrow> bool" where
  "tickets p b [] \<longleftrightarrow> True"
| "tickets p b (t # q) \<longleftrightarrow> p t = Turn b \<and> tickets p (b + 1) q"

definition ticket_queue :: "nat \<Rightarrow> ticket_state \<Rightarrow> nat list \<Rightarrow> nat list \<Rightarrow> bool" where
  "ticket_queue N s h q \<longleftrightarrow> distinct (h @ q) \<and> set (h @ q) \<subseteq> {..<N} \<and> (\<forall>t. t \<notin> set (h @ q) \<longrightarrow> tpc s t = Out) \<and>
     (h = [] \<or> (\<exists>t. h = [t] \<and> tpc s t = Inside (olock s))) \<and>
     tickets (tpc s) (olock s + of_nat (length h)) q \<and> alock s = olock s + of_nat (length (h @ q)) \<and> drawn s = entered s @ q"

lemma tickets_upd: "t \<notin> set q \<Longrightarrow> tickets (p(t := x)) b q = tickets p b q"
  by (induction q arbitrary: b) auto

lemma tickets_snoc: "tickets p b (q @ [t]) \<longleftrightarrow> tickets p b q \<and> p t = Turn (b + of_nat (length q))"
  by (induction q arbitrary: b) (simp_all add: algebra_simps)

lemma tickets_Turn: "tickets p b q \<Longrightarrow> t \<in> set q \<Longrightarrow> \<exists>i < length q. p t = Turn (b + of_nat i)"
proof (induction q arbitrary: b)
  case (Cons u q)
  show ?case
  proof (cases "t = u")
    case True
    with Cons show ?thesis by (auto intro!: exI [of _ 0])
  next
    case False
    with Cons obtain i where "i < length q" "p t = Turn (b + 1 + of_nat i)" by fastforce
    then show ?thesis by (intro exI [of _ "Suc i"]) (simp add: algebra_simps)
  qed
qed simp

lemma ticket_not_turn: "i < 2 ^ 64 \<Longrightarrow> of_nat i = (0 :: u64) \<longleftrightarrow> i = 0"
  by (auto simp: word_of_nat_eq_0_iff dest: nat_dvd_not_less)

lemma ticket_queue_length: "ticket_queue N s h q \<Longrightarrow> length (h @ q) \<le> N"
  unfolding ticket_queue_def by (metis card_lessThan card_mono distinct_card finite_lessThan)

lemma ticket_places:
  assumes q: "ticket_queue N s h q"
  shows "tpc s t = Turn m \<Longrightarrow> t \<in> set q" "tpc s t = Inside m \<Longrightarrow> h = [t] \<and> m = olock s"
proof -
  have "t \<in> set q \<Longrightarrow> \<exists>m. tpc s t = Turn m"
    using q tickets_Turn [of "tpc s" "olock s + of_nat (length h)" q t] by (auto simp: ticket_queue_def)
  moreover have "t \<in> set h \<Longrightarrow> h = [t] \<and> tpc s t = Inside (olock s)" using q by (auto simp: ticket_queue_def)
  moreover have "t \<notin> set q \<Longrightarrow> t \<notin> set h \<Longrightarrow> tpc s t = Out" using q by (simp add: ticket_queue_def)
  ultimately show "tpc s t = Turn m \<Longrightarrow> t \<in> set q" "tpc s t = Inside m \<Longrightarrow> h = [t] \<and> m = olock s" by auto
qed

text \<open>A thread whose turn it is waits as the first, and nobody is inside.\<close>

lemma ticket_first:
  assumes q: "ticket_queue N s h q" and N: "N < 2 ^ 64" and t: "tpc s t = Turn (olock s)"
  shows "h = [] \<and> (\<exists>r. q = t # r)"
proof -
  have "t \<in> set q" using ticket_places(1) [OF q t] .
  with q obtain i where i: "i < length q" "of_nat (length h + i) = (0 :: u64)"
    using tickets_Turn [of "tpc s" "olock s + of_nat (length h)" q t] t by (auto simp: ticket_queue_def algebra_simps)
  then have "h = []" using ticket_not_turn [of "length h + i"] ticket_queue_length [OF q] N by simp
  moreover have "tpc s u \<noteq> Turn (olock s)" if u: "u \<in> set (tl q)" for u
  proof -
    obtain v r where r: "q = v # r" using i by (cases q) auto
    obtain j where "j < length r" "tpc s u = Turn (olock s + 1 + of_nat j)"
      using q u tickets_Turn [of "tpc s" "olock s + 1" r u] by (auto simp: ticket_queue_def r \<open>h = []\<close>)
    then show ?thesis using ticket_not_turn [of "Suc j"] ticket_queue_length [OF q] N by (simp add: r add.assoc)
  qed
  ultimately show ?thesis using \<open>t \<in> set q\<close> t by (cases q) auto
qed

lemma ticket_step_queue:
  assumes "ticket_step N s s'" and q: "ticket_queue N s h q" and N: "N < 2 ^ 64"
  shows "\<exists>h' q'. ticket_queue N s' h' q'"
  using assms(1)
proof (cases rule: ticket_step.cases)
  case (draw t a)
  with q have "t \<notin> set (h @ q)"
    using tickets_Turn [of "tpc s" "olock s + of_nat (length h)" q t] by (auto simp: ticket_queue_def)
  with draw q have "ticket_queue N s' h (q @ [t])"
    by (auto simp: ticket_queue_def fetch_and_add64_def tickets_upd tickets_snoc algebra_simps)
  then show ?thesis by blast
next
  case (spin t m)
  with q show ?thesis by blast
next
  case (enter t m)
  with ticket_first [OF q N, of t] obtain r where "h = []" "q = t # r" by auto
  with enter q have "ticket_queue N s' [t] r" by (auto simp: ticket_queue_def tickets_upd)
  then show ?thesis by blast
next
  case (release t m)
  with ticket_places(2) [OF q, of t m] have "h = [t]" "m = olock s" by auto
  with release q have "ticket_queue N s' [] q" by (auto simp: ticket_queue_def tickets_upd)
  then show ?thesis by blast
qed

definition ticket_init :: "u64 \<Rightarrow> ticket_state" where
  "ticket_init v = \<lparr>alock = v, olock = v, tpc = (\<lambda>_. Out), drawn = [], entered = []\<rparr>"

lemma ticket_reachable:
  assumes "(ticket_step N)\<^sup>*\<^sup>* (ticket_init v) s" and N: "N < 2 ^ 64"
  shows "\<exists>h q. ticket_queue N s h q"
  using assms(1)
proof (induction rule: rtranclp_induct)
  case base
  have "ticket_queue N (ticket_init v) [] []" by (simp add: ticket_queue_def ticket_init_def)
  then show ?case by blast
qed (use ticket_step_queue N in blast)

text \<open>C36: with fewer than \<open>2 ^ 64\<close> threads, also across a wrap of the tickets, at most one thread
  holds the ticket lock; threads enter in the order in which they drew their tickets; and when
  threads wait and none holds the lock, the first of those that wait can enter.\<close>

theorem ticket_lock_fair:
  assumes "(ticket_step N)\<^sup>*\<^sup>* (ticket_init v) s" and "N < 2 ^ 64"
  shows "(\<forall>t u m m'. tpc s t = Inside m \<and> tpc s u = Inside m' \<longrightarrow> t = u) \<and>
    (\<exists>waiting. drawn s = entered s @ waiting \<and> set waiting = {t. \<exists>m. tpc s t = Turn m} \<and>
      (waiting \<noteq> [] \<and> (\<forall>t m. tpc s t \<noteq> Inside m) \<longrightarrow> tpc s (hd waiting) = Turn (olock s)))"
proof -
  obtain h q where q: "ticket_queue N s h q" using ticket_reachable [OF assms] by blast
  have "set q = {t. \<exists>m. tpc s t = Turn m}"
    using ticket_places(1) [OF q] tickets_Turn [of "tpc s" "olock s + of_nat (length h)" q] q by (fastforce simp: ticket_queue_def)
  moreover have "tpc s (hd q) = Turn (olock s)" if "q \<noteq> []" "\<forall>t m. tpc s t \<noteq> Inside m"
    using q that by (cases q) (auto simp: ticket_queue_def)
  moreover have "drawn s = entered s @ q" using q by (simp add: ticket_queue_def)
  ultimately show ?thesis using ticket_places(2) [OF q] by blast
qed

text \<open>Two threads and one that has released the lock before them, with a wrap of the tickets.\<close>

definition demo_tickets :: ticket_state where
  "demo_tickets = \<lparr>alock = 2, olock = 0, tpc = (\<lambda>_. Out)(1 := Inside 0, 2 := Turn 1), drawn = [0, 1, 2], entered = [0, 1]\<rparr>"

lemma demo_tickets_reachable: "(ticket_step 3)\<^sup>*\<^sup>* (ticket_init (-1)) demo_tickets"
proof -
  note steps = ticket_step.draw ticket_step.enter ticket_step.release
  define s0 where "s0 = ticket_init (-1)"
  define s1 where "s1 = s0\<lparr>alock := 0, tpc := (tpc s0)(0 := Turn (alock s0)), drawn := drawn s0 @ [0]\<rparr>"
  define s2 where "s2 = s1\<lparr>tpc := (tpc s1)(0 := Inside (-1)), entered := entered s1 @ [0]\<rparr>"
  define s3 where "s3 = s2\<lparr>alock := 1, tpc := (tpc s2)(1 := Turn (alock s2)), drawn := drawn s2 @ [1]\<rparr>"
  define s4 where "s4 = s3\<lparr>olock := -1 + 1, tpc := (tpc s3)(0 := Out)\<rparr>"
  define s5 where "s5 = s4\<lparr>tpc := (tpc s4)(1 := Inside 0), entered := entered s4 @ [1]\<rparr>"
  define s6 where "s6 = s5\<lparr>alock := 2, tpc := (tpc s5)(2 := Turn (alock s5)), drawn := drawn s5 @ [2]\<rparr>"
  note defs = s6_def s5_def s4_def s3_def s2_def s1_def s0_def ticket_init_def fetch_and_add64_def
  have "ticket_step 3 s0 s1" unfolding s1_def by (rule steps) (simp_all add: defs)
  moreover have "ticket_step 3 s1 s2" unfolding s2_def by (rule steps) (simp_all add: defs)
  moreover have "ticket_step 3 s2 s3" unfolding s3_def by (rule steps) (simp_all add: defs)
  moreover have "ticket_step 3 s3 s4" unfolding s4_def by (rule steps) (simp_all add: defs)
  moreover have "ticket_step 3 s4 s5" unfolding s5_def by (rule steps) (simp_all add: defs)
  moreover have "ticket_step 3 s5 s6" unfolding s6_def by (rule steps) (simp_all add: defs)
  moreover have "s6 = demo_tickets" by (auto simp: defs demo_tickets_def)
  ultimately show ?thesis unfolding s0_def by (meson converse_rtranclp_into_rtranclp rtranclp.rtrancl_refl)
qed

theorem ticket_lock_fair_witness:
  "tpc demo_tickets 1 = Inside 0 \<and> (\<exists>waiting. drawn demo_tickets = entered demo_tickets @ waiting \<and> 2 \<in> set waiting)"
  using ticket_lock_fair [OF demo_tickets_reachable] by (auto simp: demo_tickets_def)

end
