(* ===== verification/CnkFutexQueue.thy ===== *)
theory CnkFutexQueue
  imports CnkFutex
begin

text \<open>
  The queues of waiting threads that a futex table and the links of the threads stand for, and what
  the parts of the futex operations do to them.
\<close>

section \<open>Linked queues\<close>

fun chain :: "(nat \<Rightarrow> KWait) \<Rightarrow> ptr \<Rightarrow> nat list \<Rightarrow> bool" where
  "chain kw p [] \<longleftrightarrow> p = None"
| "chain kw p (k # ks) \<longleftrightarrow> p = Some k \<and> chain kw (FutexQueueNext (kw k)) ks"

lemma chain_upd [simp]: "k \<notin> set ks \<Longrightarrow> chain (kw(k := w)) p ks \<longleftrightarrow> chain kw p ks"
  by (induction ks arbitrary: p) auto

lemma chain_same_links: "(\<And>k. k \<in> set ks \<Longrightarrow> FutexQueueNext (kw' k) = FutexQueueNext (kw k)) \<Longrightarrow> chain kw' p ks = chain kw p ks"
  by (induction ks arbitrary: p) auto


lemma chain_unique: "chain kw p ks \<Longrightarrow> chain kw p ls \<Longrightarrow> ks = ls"
  by (induction ks arbitrary: p ls) (case_tac ls; auto)+

lemma chain_suffix: "chain kw p (ks @ k # ls) \<Longrightarrow> chain kw (Some k) (k # ls)"
  by (induction ks arbitrary: p) auto

lemma chain_distinct: "chain kw p ks \<Longrightarrow> distinct ks"
proof (induction ks arbitrary: p)
  case (Cons k ks)
  have "k \<notin> set ks"
  proof
    assume "k \<in> set ks"
    then obtain xs ys where "ks = xs @ k # ys" by (auto simp: in_set_conv_decomp)
    with Cons.prems have "chain kw (Some k) (k # ks)" "chain kw (Some k) (k # ys)" using chain_suffix [of kw p "k # xs" k ys] by auto
    from chain_unique [OF this] \<open>ks = xs @ k # ys\<close> show False by simp
  qed
  with Cons show ?case by auto
qed simp

text \<open>A queue gets the queue that starts with \<open>r\<close> behind its last thread.\<close>

lemma chain_join:
  assumes "chain kw p (ks @ [k])" "chain kw r ls" "k \<notin> set ls"
  shows "chain (kw(k := (kw k)\<lparr>FutexQueueNext := r\<rparr>)) p (ks @ [k] @ ls)"
  using assms
proof (induction ks arbitrary: p)
  case (Cons j ks)
  then have "j \<noteq> k" using chain_distinct [of kw p "(j # ks) @ [k]"] by auto
  with Cons show ?case by auto
qed simp

lemma queue_last_chain: "chain kw (Some k) (k # ks) \<Longrightarrow> queue_last kw k = Some (last (k # ks))"
  by (induction ks arbitrary: k) (subst queue_last.simps; auto)+


lemma queue_before_notin: "chain kw p ks \<Longrightarrow> t \<notin> set (tl ks) \<Longrightarrow> queue_before kw t p = Some None"
proof (induction ks arbitrary: p)
  case (Cons k ks)
  then show ?case by (cases ks) (subst queue_before.simps; auto)+
qed (simp add: queue_before.simps)

lemma queue_before_in: "chain kw p (xs @ k # t # ys) \<Longrightarrow> queue_before kw t p = Some (Some k)"
proof (induction xs arbitrary: p)
  case (Cons x xs)
  then have "distinct (x # xs @ k # t # ys)" using chain_distinct by fastforce
  with Cons show ?case by (cases xs) (subst queue_before.simps; auto)+
qed (simp add: queue_before.simps)

lemma chain_unlink:
  assumes "chain kw p (xs @ k # t # ys)"
  shows "chain (kw(k := (kw k)\<lparr>FutexQueueNext := FutexQueueNext (kw t)\<rparr>)) p (xs @ k # ys)"
  using assms
proof (induction xs arbitrary: p)
  case Nil
  then have "k \<notin> set ys" using chain_distinct [of kw p "k # t # ys"] by simp
  then have "chain (kw(k := (kw k)\<lparr>FutexQueueNext := FutexQueueNext (kw t)\<rparr>)) (FutexQueueNext (kw t)) ys" using Nil by (subst chain_upd) auto
  with Nil show ?case by (simp add: fun_upd_def)
next
  case (Cons x xs)
  then have "distinct (x # xs @ k # t # ys)" using chain_distinct by fastforce
  with Cons show ?case by auto
qed

section \<open>Tables\<close>

text \<open>
  The table \<open>T\<close> stands for the queues \<open>q\<close> of the addresses. An entry in use has a queue that is not
  empty, except for the entries \<open>E\<close> that an operation is working on.
\<close>

definition table_rep :: "nat set \<Rightarrow> (nat \<Rightarrow> Futex_State) \<Rightarrow> (nat \<Rightarrow> KWait) \<Rightarrow> (u64 \<Rightarrow> nat list) \<Rightarrow> bool" where
  "table_rep E T kw q \<longleftrightarrow> q 0 = [] \<and>
     (\<forall>i < NUM_FUTEX. chain kw (pKThr_Waiter_Next (T i)) (q (futex_vaddr (T i))) \<and>
       (q (futex_vaddr (T i)) = [] \<longrightarrow> futex_vaddr (T i) = 0 \<or> i \<in> E)) \<and>
     (\<forall>v. q v \<noteq> [] \<longrightarrow> (\<exists>i < NUM_FUTEX. futex_vaddr (T i) = v)) \<and>
     (\<forall>i < NUM_FUTEX. \<forall>j < NUM_FUTEX. futex_vaddr (T i) = futex_vaddr (T j) \<and> futex_vaddr (T i) \<noteq> 0 \<longrightarrow> i = j)"

lemma table_repI:
  assumes "q 0 = []" "\<And>i. i < NUM_FUTEX \<Longrightarrow> chain kw (pKThr_Waiter_Next (T i)) (q (futex_vaddr (T i)))"
    "\<And>i. i < NUM_FUTEX \<Longrightarrow> q (futex_vaddr (T i)) = [] \<Longrightarrow> futex_vaddr (T i) = 0 \<or> i \<in> E"
    "\<And>v. q v \<noteq> [] \<Longrightarrow> \<exists>i < NUM_FUTEX. futex_vaddr (T i) = v"
    "\<And>i j. i < NUM_FUTEX \<Longrightarrow> j < NUM_FUTEX \<Longrightarrow> futex_vaddr (T i) = futex_vaddr (T j) \<Longrightarrow> futex_vaddr (T i) \<noteq> 0 \<Longrightarrow> i = j"
  shows "table_rep E T kw q"
  unfolding table_rep_def using assms by blast

lemma table_repD:
  assumes "table_rep E T kw q"
  shows "q 0 = []" "i < NUM_FUTEX \<Longrightarrow> chain kw (pKThr_Waiter_Next (T i)) (q (futex_vaddr (T i)))"
    "i < NUM_FUTEX \<Longrightarrow> q (futex_vaddr (T i)) = [] \<Longrightarrow> futex_vaddr (T i) = 0 \<or> i \<in> E"
    "q v \<noteq> [] \<Longrightarrow> \<exists>i < NUM_FUTEX. futex_vaddr (T i) = v"
    "i < NUM_FUTEX \<Longrightarrow> j < NUM_FUTEX \<Longrightarrow> futex_vaddr (T i) = futex_vaddr (T j) \<Longrightarrow> futex_vaddr (T i) \<noteq> 0 \<Longrightarrow> i = j"
  using assms unfolding table_rep_def by blast+

lemma table_rep_links:
  assumes t: "table_rep E T kw q" and l: "\<And>v k. k \<in> set (q v) \<Longrightarrow> FutexQueueNext (kw' k) = FutexQueueNext (kw k)"
  shows "table_rep E T kw' q"
  by (rule table_repI) (use table_repD [OF t] chain_same_links [of "q _" kw' kw] l in blast)+

lemma table_rep_upd:
  assumes t: "table_rep E T kw q" and i: "i < NUM_FUTEX" "futex_vaddr (T i) = v" "v \<noteq> 0" and c: "chain kw' p xs"
    and o: "\<And>w k. w \<noteq> v \<Longrightarrow> k \<in> set (q w) \<Longrightarrow> FutexQueueNext (kw' k) = FutexQueueNext (kw k)"
  shows "table_rep (if xs = [] then insert i E else E - {i}) (T(i := (T i)\<lparr>pKThr_Waiter_Next := p\<rparr>)) kw' (q(v := xs))"
proof -
  let ?T = "T(i := (T i)\<lparr>pKThr_Waiter_Next := p\<rparr>)"
  have a: "futex_vaddr (?T j) = futex_vaddr (T j)" for j by simp
  have c': "chain kw' r (q w)" if "w \<noteq> v" "chain kw r (q w)" for r w using chain_same_links [of "q w" kw' kw r] o that by blast
  have v: "futex_vaddr (T j) \<noteq> v" if "j < NUM_FUTEX" "j \<noteq> i" for j using table_repD(5) [OF t, of j i] i that by auto
  show ?thesis
  proof (rule table_repI, unfold a)
    show "(q(v := xs)) 0 = []" using table_repD(1) [OF t] i(3) by simp
    show "chain kw' (pKThr_Waiter_Next (?T j)) ((q(v := xs)) (futex_vaddr (T j)))" if "j < NUM_FUTEX" for j
      using c i(2) c' [OF v [OF that]] table_repD(2) [OF t that] v [OF that] by (cases "j = i") simp_all
    show "futex_vaddr (T j) = 0 \<or> j \<in> (if xs = [] then insert i E else E - {i})"
      if "j < NUM_FUTEX" "(q(v := xs)) (futex_vaddr (T j)) = []" for j
      using table_repD(3) [OF t that(1)] v [OF that(1)] that(2) i(2) by (cases "j = i") simp_all
    show "\<exists>j < NUM_FUTEX. futex_vaddr (T j) = w" if "(q(v := xs)) w \<noteq> []" for w
      using table_repD(4) [OF t, of w] i that by (cases "w = v") auto
  qed (rule table_repD(5) [OF t])
qed

lemma table_rep_drop:
  assumes t: "table_rep E T kw q" and i: "i < NUM_FUTEX" "pKThr_Waiter_Next (T i) = None"
  shows "table_rep (E - {i}) (T(i := (T i)\<lparr>futex_vaddr := 0\<rparr>)) kw q"
proof -
  let ?T = "T(i := (T i)\<lparr>futex_vaddr := 0\<rparr>)"
  have q: "q (futex_vaddr (T i)) = []" using table_repD(2) [OF t i(1)] i(2) by (cases "q (futex_vaddr (T i))") auto
  show ?thesis
  proof (rule table_repI)
    show "chain kw (pKThr_Waiter_Next (?T j)) (q (futex_vaddr (?T j)))" if "j < NUM_FUTEX" for j
      using table_repD(2) [OF t that] table_repD(1) [OF t] i(2) by (cases "j = i") simp_all
    show "futex_vaddr (?T j) = 0 \<or> j \<in> E - {i}" if "j < NUM_FUTEX" "q (futex_vaddr (?T j)) = []" for j
      using table_repD(3) [OF t that(1)] that(2) by (cases "j = i") simp_all
    show "\<exists>j < NUM_FUTEX. futex_vaddr (?T j) = w" if w: "q w \<noteq> []" for w
    proof -
      obtain j where "j < NUM_FUTEX" "futex_vaddr (T j) = w" using table_repD(4) [OF t w] by blast
      with q w show ?thesis by (intro exI [of _ j]) auto
    qed
    show "j = j'" if "j < NUM_FUTEX" "j' < NUM_FUTEX" "futex_vaddr (?T j) = futex_vaddr (?T j')" "futex_vaddr (?T j) \<noteq> 0" for j j'
      using table_repD(5) [OF t that(1,2)] that(3,4) by (auto split: if_splits)
  qed (rule table_repD(1) [OF t])
qed

lemma table_rep_alloc:
  assumes t: "table_rep E T kw q" and i: "i < NUM_FUTEX" "futex_vaddr (T i) = 0"
    and v: "\<And>j. j < NUM_FUTEX \<Longrightarrow> futex_vaddr (T j) \<noteq> v"
  shows "table_rep (insert i E) (T(i := (T i)\<lparr>futex_vaddr := v, pKThr_Waiter_Next := None\<rparr>)) kw q"
proof -
  let ?T = "T(i := (T i)\<lparr>futex_vaddr := v, pKThr_Waiter_Next := None\<rparr>)"
  have q: "q v = []" using table_repD(4) [OF t, of v] v by blast
  show ?thesis
  proof (rule table_repI)
    show "chain kw (pKThr_Waiter_Next (?T j)) (q (futex_vaddr (?T j)))" if "j < NUM_FUTEX" for j
      using table_repD(2) [OF t that] q by (cases "j = i") simp_all
    show "futex_vaddr (?T j) = 0 \<or> j \<in> insert i E" if "j < NUM_FUTEX" "q (futex_vaddr (?T j)) = []" for j
      using table_repD(3) [OF t that(1)] that(2) by (cases "j = i") simp_all
    show "\<exists>j < NUM_FUTEX. futex_vaddr (?T j) = w" if w: "q w \<noteq> []" for w
    proof -
      obtain j where "j < NUM_FUTEX" "futex_vaddr (T j) = w" using table_repD(4) [OF t w] by blast
      with table_repD(1) [OF t] i w show ?thesis by (intro exI [of _ j]) auto
    qed
    show "j = j'" if "j < NUM_FUTEX" "j' < NUM_FUTEX" "futex_vaddr (?T j) = futex_vaddr (?T j')" "futex_vaddr (?T j) \<noteq> 0" for j j'
      using table_repD(5) [OF t that(1,2)] that(3,4) v that(1,2) by (auto split: if_splits)
  qed (rule table_repD(1) [OF t])
qed

lemma find_upt_Some: "find P [0..<n] = Some i \<Longrightarrow> i < n \<and> P i"
  by (auto simp: find_Some_iff)

lemma find_upt_None: "find P [0..<n] = None \<longleftrightarrow> (\<forall>i < n. \<not> P i)"
  by (auto simp: find_None_iff)

lemma table_find:
  assumes t: "table_rep {} T kw q" and v: "v \<noteq> 0"
  shows "find (\<lambda>i. futex_vaddr (T i) = v) [0..<NUM_FUTEX] = None \<longleftrightarrow> q v = []"
  unfolding find_upt_None using table_repD(3,4) [OF t] v by blast

text \<open>A table has an entry left while some thread does not wait: every entry in use has a thread of its own.\<close>

lemma table_has_room:
  assumes t: "table_rep {} T kw q" and k: "k < NUM_KTHREADS" "\<And>v. k \<notin> set (q v)"
    and b: "\<And>v j. j \<in> set (q v) \<Longrightarrow> j < NUM_KTHREADS" and d: "\<And>v w j. j \<in> set (q v) \<Longrightarrow> j \<in> set (q w) \<Longrightarrow> v = w"
  shows "\<exists>i < NUM_FUTEX. futex_vaddr (T i) = 0"
proof (rule ccontr)
  assume n: "\<not> (\<exists>i < NUM_FUTEX. futex_vaddr (T i) = 0)"
  let ?f = "\<lambda>i. hd (q (futex_vaddr (T i)))"
  have h: "?f i \<in> set (q (futex_vaddr (T i)))" if "i < NUM_FUTEX" for i
    using table_repD(3) [OF t that] n that by (metis empty_iff hd_in_set)
  have "inj_on ?f {..<NUM_FUTEX}"
  proof
    fix i j assume i: "i \<in> {..<NUM_FUTEX}" and j: "j \<in> {..<NUM_FUTEX}" and e: "?f i = ?f j"
    then have "futex_vaddr (T i) = futex_vaddr (T j)" using h d by (metis lessThan_iff)
    with table_repD(5) [OF t] n i j show "i = j" by (meson lessThan_iff)
  qed
  moreover have "?f ` {..<NUM_FUTEX} \<subseteq> {..<NUM_KTHREADS} - {k}" using h b k(2) by fastforce
  ultimately have "card {..<NUM_FUTEX} \<le> card ({..<NUM_KTHREADS} - {k})" by (intro card_inj_on_le) auto
  then show False using k(1) by (simp add: NUM_FUTEX_def)
qed

section \<open>The futexes of the node\<close>

type_synonym queues = "futex_scope \<Rightarrow> u64 \<Rightarrow> nat list"

definition queued :: "queues \<Rightarrow> nat set" where
  "queued qs = {k. \<exists>c v. k \<in> set (qs c v)}"

lemma queued_upd:
  "k \<in> queued (qs(c := (qs c)(v := xs))) \<longleftrightarrow> k \<in> set xs \<or> (\<exists>c' v'. (c', v') \<noteq> (c, v) \<and> k \<in> set (qs c' v'))"
  unfolding queued_def by (auto split: if_splits intro: exI [of _ c] exI [of _ v])

definition futex_rep :: "(futex_scope \<Rightarrow> nat set) \<Rightarrow> queues \<Rightarrow> Kernel \<Rightarrow> bool" where
  "futex_rep E qs K \<longleftrightarrow> (\<forall>c. table_rep (E c) (Futex_Table K c) (kwait K) (qs c)) \<and>
     (\<forall>c v k. k \<in> set (qs c v) \<longrightarrow> k < NUM_KTHREADS \<and> FutexVAddr (kwait K k) = v \<and>
       (FutexIsShared (kwait K k) \<longleftrightarrow> c = Shared) \<and> (\<forall>c' v'. k \<in> set (qs c' v') \<longrightarrow> c' = c)) \<and>
     (\<forall>k. k \<notin> queued qs \<longrightarrow> FutexVAddr (kwait K k) = 0 \<and> FutexTimeout (kwait K k) = 0)"

abbreviation none :: "futex_scope \<Rightarrow> nat set" where
  "none \<equiv> \<lambda>_. {}"

lemma futex_repD:
  assumes "futex_rep E qs K"
  shows "table_rep (E c) (Futex_Table K c) (kwait K) (qs c)"
    "k \<in> set (qs c v) \<Longrightarrow> k < NUM_KTHREADS \<and> FutexVAddr (kwait K k) = v \<and> (FutexIsShared (kwait K k) \<longleftrightarrow> c = Shared)"
    "k \<in> set (qs c v) \<Longrightarrow> k \<in> set (qs c' v') \<Longrightarrow> c' = c"
    "k \<notin> queued qs \<Longrightarrow> FutexVAddr (kwait K k) = 0 \<and> FutexTimeout (kwait K k) = 0"
  using assms unfolding futex_rep_def by blast+

lemma futex_rep_one_queue: "futex_rep E qs K \<Longrightarrow> k \<in> set (qs c v) \<Longrightarrow> k \<in> set (qs c' v') \<Longrightarrow> c' = c \<and> v' = v"
  unfolding futex_rep_def by blast

lemma futex_rep_cong:
  "futex_rep E qs K \<Longrightarrow> Futex_Table K' = Futex_Table K \<Longrightarrow> kwait K' = kwait K \<Longrightarrow> futex_rep E qs K'"
  unfolding futex_rep_def by simp

text \<open>One entry gets a new queue, and only the threads \<open>A\<close>, which wait nowhere else, are changed.\<close>

lemma futex_rep_upd:
  assumes r: "futex_rep E qs K" and i: "i < NUM_FUTEX" "futex_vaddr (Futex_Table K c i) = v" "v \<noteq> 0"
    and T: "Futex_Table K' = (Futex_Table K)(c := (Futex_Table K c)(i := (Futex_Table K c i)\<lparr>pKThr_Waiter_Next := p\<rparr>))"
    and x: "chain (kwait K') p xs"
    and A: "\<And>k. k \<notin> A \<Longrightarrow> kwait K' k = kwait K k" "\<And>k c' v'. k \<in> A \<Longrightarrow> k \<in> set (qs c' v') \<Longrightarrow> c' = c \<and> v' = v"
      "\<And>k. k \<in> set xs \<Longrightarrow> k \<in> A \<or> k \<in> set (qs c v)"
    and new: "\<And>k. k \<in> A \<Longrightarrow> k \<in> set xs \<Longrightarrow> k < NUM_KTHREADS \<and> FutexVAddr (kwait K' k) = v \<and> (FutexIsShared (kwait K' k) \<longleftrightarrow> c = Shared)"
    and old: "\<And>k. k \<in> A \<Longrightarrow> k \<notin> set xs \<Longrightarrow> FutexVAddr (kwait K' k) = 0 \<and> FutexTimeout (kwait K' k) = 0"
      "\<And>k. k \<in> set (qs c v) \<Longrightarrow> k \<notin> set xs \<Longrightarrow> k \<in> A"
  shows "futex_rep (E(c := if xs = [] then insert i (E c) else E c - {i})) (qs(c := (qs c)(v := xs))) K'"
proof -
  let ?qs = "qs(c := (qs c)(v := xs))"
  have o: "FutexQueueNext (kwait K' k) = FutexQueueNext (kwait K k)" if "(c', v') \<noteq> (c, v)" "k \<in> set (qs c' v')" for c' v' k
    using A(1,2) that by (cases "k \<in> A") auto
  have "table_rep ((E(c := if xs = [] then insert i (E c) else E c - {i})) c') (Futex_Table K' c') (kwait K') (?qs c')" for c'
  proof (cases "c' = c")
    case True
    have "table_rep (if xs = [] then insert i (E c) else E c - {i})
        ((Futex_Table K c)(i := (Futex_Table K c i)\<lparr>pKThr_Waiter_Next := p\<rparr>)) (kwait K') ((qs c)(v := xs))"
      by (rule table_rep_upd [OF futex_repD(1) [OF r] i x]) (rule o [of c], auto)
    with True T show ?thesis by simp
  next
    case False
    then have "table_rep (E c') (Futex_Table K c') (kwait K') (qs c')"
      by (intro table_rep_links [OF futex_repD(1) [OF r]]) (rule o [of c'], auto)
    with False T show ?thesis by simp
  qed
  moreover have "k < NUM_KTHREADS \<and> FutexVAddr (kwait K' k) = v' \<and> (FutexIsShared (kwait K' k) \<longleftrightarrow> c' = Shared) \<and>
      (\<forall>c'' v''. k \<in> set (?qs c'' v'') \<longrightarrow> c'' = c')" if k: "k \<in> set (?qs c' v')" for k c' v'
  proof (cases "(c', v') = (c, v)")
    case True
    then have e: "c' = c" "v' = v" by simp_all
    then have x: "k \<in> set xs" using k by simp
    have "c'' = c" if "k \<in> set (qs c'' v'')" for c'' v'' using that A(2,3) x futex_repD(3) [OF r] by blast
    then have "\<forall>c'' v''. k \<in> set (?qs c'' v'') \<longrightarrow> c'' = c'" unfolding e by (auto split: if_splits)
    moreover have "k < NUM_KTHREADS \<and> FutexVAddr (kwait K' k) = v \<and> (FutexIsShared (kwait K' k) \<longleftrightarrow> c = Shared)"
    proof (cases "k \<in> A")
      case False
      with A(3) [OF x] have "k \<in> set (qs c v)" by simp
      from futex_repD(2) [OF r this] A(1) [OF False] show ?thesis by simp
    qed (rule new [OF _ x])
    ultimately show ?thesis unfolding e by blast
  next
    case False
    then have q: "k \<in> set (qs c' v')" using k by (auto split: if_splits)
    then have "k \<notin> A" using A(2) False by auto
    have "c'' = c'" if "k \<in> set (?qs c'' v'')" for c'' v''
    proof (cases "(c'', v'') = (c, v)")
      case True
      then have "k \<in> set (qs c v)" using that A(3) \<open>k \<notin> A\<close> by auto
      with futex_repD(3) [OF r q] True show ?thesis by auto
    qed (use that futex_repD(3) [OF r q] in \<open>auto split: if_splits\<close>)
    with futex_repD(2) [OF r q] show ?thesis unfolding A(1) [OF \<open>k \<notin> A\<close>] by blast
  qed
  moreover have "FutexVAddr (kwait K' k) = 0 \<and> FutexTimeout (kwait K' k) = 0" if k: "k \<notin> queued ?qs" for k
  proof (cases "k \<in> A")
    case True
    have "k \<notin> set xs" using k by (simp add: queued_upd)
    with old True show ?thesis by blast
  next
    case False
    then have "k \<notin> set (qs c v)" using k old(2) unfolding queued_upd by blast
    then have "k \<notin> queued qs" using k unfolding queued_upd by (auto simp: queued_def)
    with futex_repD(4) [OF r] False A(1) show ?thesis by simp
  qed
  ultimately show ?thesis unfolding futex_rep_def by blast
qed

end
