(* ===== verification/CnkFutexOps.thy ===== *)
theory CnkFutexOps
  imports CnkFutexQueue
begin

text \<open>What the parts of the futex operations do to the queues.\<close>

lemmas kernel_upd_defs = on_node_def upd_kwait_def upd_entry_def set_pending_yield_def

lemma futex_rep_mono: "futex_rep E qs K \<Longrightarrow> (\<And>c. E c \<subseteq> E' c) \<Longrightarrow> futex_rep E' qs K"
  unfolding futex_rep_def table_rep_def by blast

lemma futex_rep_nonzero: "futex_rep E qs K \<Longrightarrow> k \<in> set (qs c v) \<Longrightarrow> v \<noteq> 0"
  using table_repD(1) [OF futex_repD(1)] by fastforce

lemma futex_rep_chain:
  "futex_rep E qs K \<Longrightarrow> i < NUM_FUTEX \<Longrightarrow> futex_vaddr (Futex_Table K c i) = v \<Longrightarrow>
    chain (kwait K) (pKThr_Waiter_Next (Futex_Table K c i)) (qs c v)"
  using table_repD(2) [OF futex_repD(1)] by blast

lemma chain_head: "chain kw p ks \<Longrightarrow> p = (case ks of [] \<Rightarrow> None | k # _ \<Rightarrow> Some k)"
  by (cases ks) auto

section \<open>Entries\<close>

lemma findTableEntry_absent:
  "futex_rep none qs K \<Longrightarrow> v \<noteq> 0 \<Longrightarrow> qs c v = [] \<Longrightarrow> Futex_findTableEntry v c False K = (K, None)"
  unfolding Futex_findTableEntry_def using table_find [OF futex_repD(1)] by (simp add: option.case_eq_if)

lemma findTableEntry_present:
  assumes "futex_rep none qs K" "v \<noteq> 0" "qs c v \<noteq> []"
  shows "\<exists>i < NUM_FUTEX. Futex_findTableEntry v c a K = (K, Some i) \<and> futex_vaddr (Futex_Table K c i) = v"
proof -
  obtain i where "find (\<lambda>i. futex_vaddr (Futex_Table K c i) = v) [0..<NUM_FUTEX] = Some i"
    using table_find [OF futex_repD(1) [OF assms(1)] assms(2)] assms(3) by blast
  with find_upt_Some [OF this] show ?thesis by (auto simp: Futex_findTableEntry_def)
qed

lemma futex_rep_entry:
  assumes "futex_rep E qs K" "\<And>c'. c' \<noteq> c \<Longrightarrow> E' c' = E c'" "table_rep (E' c) T (kwait K) (qs c)"
  shows "futex_rep E' qs (K\<lparr>Futex_Table := (Futex_Table K)(c := T)\<rparr>)"
  using assms unfolding futex_rep_def by (auto simp del: fun_upd_apply simp: fun_upd_def)

text \<open>An entry for an address can always be had while some thread does not wait.\<close>

lemma findTableEntry_alloc:
  assumes r: "futex_rep none qs K" and v: "v \<noteq> 0" and k: "k < NUM_KTHREADS" "k \<notin> queued qs"
  shows "\<exists>i T. i < NUM_FUTEX \<and> Futex_findTableEntry v c True K = (K\<lparr>Futex_Table := T\<rparr>, Some i) \<and>
    futex_vaddr (T c i) = v \<and> futex_rep (none(c := {i})) qs (K\<lparr>Futex_Table := T\<rparr>) \<and>
    (\<forall>m. futex_vaddr (Futex_Table K c m) \<noteq> 0 \<longrightarrow> T c m = Futex_Table K c m)"
proof (cases "qs c v = []")
  case True
  note t = futex_repD(1) [OF r, of c]
  have n: "find (\<lambda>i. futex_vaddr (Futex_Table K c i) = v) [0..<NUM_FUTEX] = None" using table_find [OF t v] True by blast
  have "\<exists>i < NUM_FUTEX. futex_vaddr (Futex_Table K c i) = 0"
    by (rule table_has_room [OF t k(1)]) (use k(2) futex_repD(2) [OF r] futex_rep_one_queue [OF r] in \<open>auto simp: queued_def\<close>)
  then obtain i where f: "find (\<lambda>i. futex_vaddr (Futex_Table K c i) = 0) [0..<NUM_FUTEX] = Some i"
    using find_upt_None [of "\<lambda>i. futex_vaddr (Futex_Table K c i) = 0" NUM_FUTEX] by (cases "find (\<lambda>i. futex_vaddr (Futex_Table K c i) = 0) [0..<NUM_FUTEX]") auto
  let ?T = "(Futex_Table K c)(i := (Futex_Table K c i)\<lparr>futex_vaddr := v, pKThr_Waiter_Next := None\<rparr>)"
  have "table_rep (insert i {}) ?T (kwait K) (qs c)"
    by (rule table_rep_alloc [OF t]) (use find_upt_Some [OF f] n [unfolded find_upt_None] in auto)
  then have "futex_rep (none(c := {i})) qs (K\<lparr>Futex_Table := (Futex_Table K)(c := ?T)\<rparr>)"
    by (intro futex_rep_entry [OF r]) simp_all
  with n f find_upt_Some [OF f] show ?thesis
    by (intro exI [of _ i] exI [of _ "(Futex_Table K)(c := ?T)"]) (simp add: Futex_findTableEntry_def upd_entry_def)
next
  case False
  from findTableEntry_present [OF r v this] obtain i where
    "i < NUM_FUTEX" "Futex_findTableEntry v c True K = (K, Some i)" "futex_vaddr (Futex_Table K c i) = v" by blast
  with futex_rep_mono [OF r] show ?thesis by (intro exI [of _ i] exI [of _ "Futex_Table K"]) simp
qed

lemma drop_empty_rep:
  assumes r: "futex_rep E qs K" and i: "i < NUM_FUTEX"
  shows "futex_rep (E(c := E c - {i})) qs (drop_empty c i K)"
proof (cases "pKThr_Waiter_Next (Futex_Table K c i) = None")
  case True
  have "futex_rep (E(c := E c - {i})) qs (K\<lparr>Futex_Table := (Futex_Table K)(c :=
      (Futex_Table K c)(i := (Futex_Table K c i)\<lparr>futex_vaddr := 0\<rparr>))\<rparr>)"
    by (rule futex_rep_entry [OF r]) (simp_all add: table_rep_drop [OF futex_repD(1) [OF r] i True])
  with True show ?thesis by (simp add: drop_empty_def upd_entry_def)
next
  case False
  then have "qs c (futex_vaddr (Futex_Table K c i)) \<noteq> []" using futex_rep_chain [OF r i refl, of c] by auto
  then have "table_rep (E c - {i}) (Futex_Table K c) (kwait K) (qs c)"
    using futex_repD(1) [OF r, of c] unfolding table_rep_def by blast
  then have "futex_rep (E(c := E c - {i})) qs (K\<lparr>Futex_Table := (Futex_Table K)(c := Futex_Table K c)\<rparr>)"
    by (intro futex_rep_entry [OF r]) simp_all
  with False show ?thesis by (auto simp: drop_empty_def)
qed

section \<open>Waiting\<close>

lemma entry_same: "T = T(c := (T c)(i := (T c i)\<lparr>pKThr_Waiter_Next := pKThr_Waiter_Next (T c i)\<rparr>))"
  by simp

text \<open>A thread that does not wait is put at the end of a queue.\<close>

lemma append_waiter_rep:
  assumes r: "futex_rep E qs K" and i: "i < NUM_FUTEX" "futex_vaddr (Futex_Table K c i) = v" "v \<noteq> 0"
    and k: "k < NUM_KTHREADS" "k \<notin> queued qs"
    and f: "\<And>w. FutexQueueNext (f w) = None \<and> FutexVAddr (f w) = v \<and> (FutexIsShared (f w) \<longleftrightarrow> c = Shared)"
  shows "\<exists>T kw. append_waiter c i k K = Some (K\<lparr>Futex_Table := T, kwait := kw\<rparr>) \<and>
    futex_rep (E(c := E c - {i})) (qs(c := (qs c)(v := qs c v @ [k]))) (upd_kwait k f (K\<lparr>Futex_Table := T, kwait := kw\<rparr>))"
proof -
  note ch = futex_rep_chain [OF r i(1,2)]
  have kq: "k \<notin> set (qs c' v')" for c' v' using k(2) by (auto simp: queued_def)
  show ?thesis
  proof (cases "qs c v")
    case Nil
    let ?T = "(Futex_Table K)(c := (Futex_Table K c)(i := (Futex_Table K c i)\<lparr>pKThr_Waiter_Next := Some k\<rparr>))"
    let ?K = "K\<lparr>Futex_Table := ?T, kwait := kwait K\<rparr>"
    have "append_waiter c i k K = Some ?K" using ch Nil by (simp add: append_waiter_def upd_entry_def)
    moreover have "futex_rep (E(c := if [k] = [] then insert i (E c) else E c - {i})) (qs(c := (qs c)(v := [k]))) (upd_kwait k f ?K)"
      by (rule futex_rep_upd [OF r i, where p = "Some k" and A = "{k}"]) (use f k kq Nil in \<open>auto simp: upd_kwait_def\<close>)
    ultimately show ?thesis using Nil by fastforce
  next
    case (Cons x xs)
    define l where "l = last (qs c v)"
    define kw where "kw = (kwait K)(l := (kwait K l)\<lparr>FutexQueueNext := Some k\<rparr>)"
    let ?K = "K\<lparr>Futex_Table := Futex_Table K, kwait := kw\<rparr>"
    have q: "qs c v = butlast (qs c v) @ [l]" "l \<in> set (qs c v)" using Cons by (simp_all add: l_def)
    then have lk: "l \<noteq> k" using kq by metis
    have "append_waiter c i k K = Some ?K"
      using ch Cons queue_last_chain [of "kwait K" x xs] by (simp add: append_waiter_def upd_kwait_def kw_def l_def)
    moreover have e: "kwait (upd_kwait k f ?K) = ((kwait K)(k := f (kwait K k)))(l := ((kwait K)(k := f (kwait K k))) l\<lparr>FutexQueueNext := Some k\<rparr>)"
      using lk by (auto simp: upd_kwait_def kw_def)
    have "chain (kwait (upd_kwait k f ?K)) (pKThr_Waiter_Next (Futex_Table K c i)) (butlast (qs c v) @ [l] @ [k])"
      unfolding e by (rule chain_join) (use ch q lk f kq in \<open>simp_all\<close>)
    then have ch': "chain (kwait (upd_kwait k f ?K)) (pKThr_Waiter_Next (Futex_Table K c i)) (qs c v @ [k])" using q(1) by (metis append.assoc)
    have "futex_rep (E(c := if qs c v @ [k] = [] then insert i (E c) else E c - {i})) (qs(c := (qs c)(v := qs c v @ [k]))) (upd_kwait k f ?K)"
    proof (rule futex_rep_upd [OF r i _ ch', where A = "{k, l}"])
      fix j
      show "j \<notin> {k, l} \<Longrightarrow> kwait (upd_kwait k f ?K) j = kwait K j" by (simp add: upd_kwait_def kw_def)
      show "j \<in> {k, l} \<Longrightarrow> j \<in> set (qs c' v') \<Longrightarrow> c' = c \<and> v' = v" for c' v'
        using kq futex_rep_one_queue [OF r q(2)] by blast
      show "j \<in> {k, l} \<Longrightarrow> j \<in> set (qs c v @ [k]) \<Longrightarrow> j < NUM_KTHREADS \<and> FutexVAddr (kwait (upd_kwait k f ?K) j) = v \<and>
          (FutexIsShared (kwait (upd_kwait k f ?K) j) \<longleftrightarrow> c = Shared)"
        using f [of "kwait K k"] k(1) lk futex_repD(2) [OF r q(2)] by (elim insertE) (simp_all add: upd_kwait_def kw_def)
    qed (use q(2) in \<open>auto simp: upd_kwait_def\<close>)
    ultimately show ?thesis by (intro exI [of _ "Futex_Table K"] exI [of _ kw]) simp
  qed
qed

section \<open>Waking\<close>

lemma wake_waiter_rep:
  assumes r: "futex_rep E qs K" and i: "i < NUM_FUTEX" "futex_vaddr (Futex_Table K c i) = v" "v \<noteq> 0" "i \<in> E c"
    and q: "qs c v = x # xs"
  shows "futex_rep E (qs(c := (qs c)(v := xs))) (wake_waiter c i x K)"
proof -
  note ch = futex_rep_chain [OF r i(1,2)]
  have x: "x \<in> set (qs c v)" "x \<notin> set xs" using q chain_distinct [OF ch] by auto
  let ?K = "wake_waiter c i x K"
  have K: "kwait ?K = (kwait K)(x := (kwait K x)\<lparr>Reg_gpr3 := 0, FutexQueueNext := None, FutexVAddr := 0, FutexValue := 0,
      FutexTimeout := 0, FutexIsShared := False\<rparr>)"
    by (simp add: wake_waiter_def upd_kwait_def upd_entry_def)
  have "futex_rep (E(c := if xs = [] then insert i (E c) else E c - {i})) (qs(c := (qs c)(v := xs))) ?K"
  proof (rule futex_rep_upd [OF r i(1-3), where p = "FutexQueueNext (kwait K x)" and A = "{x}"])
    show "chain (kwait ?K) (FutexQueueNext (kwait K x)) xs" unfolding K using ch q x(2) by simp
    show "k \<in> {x} \<Longrightarrow> k \<in> set (qs c' v') \<Longrightarrow> c' = c \<and> v' = v" for k c' v' using futex_rep_one_queue [OF r x(1)] by simp
    show "k \<in> {x} \<Longrightarrow> k \<in> set xs \<Longrightarrow> k < NUM_KTHREADS \<and> FutexVAddr (kwait ?K k) = v \<and> (FutexIsShared (kwait ?K k) \<longleftrightarrow> c = Shared)" for k
      using x(2) by simp
  qed (use q in \<open>simp_all add: wake_waiter_def upd_kwait_def upd_entry_def\<close>)
  then show ?thesis by (rule futex_rep_mono) (use i(4) in auto)
qed

lemma wake_waiter_frame [simp]:
  "node (wake_waiter c i x K) = node K" "words (wake_waiter c i x K) = words K"
  "FutexLock (wake_waiter c i x K) = FutexLock K" "FutexOrderLock (wake_waiter c i x K) = FutexOrderLock K"
  "futex_vaddr (Futex_Table (wake_waiter c i x K) c' j) = futex_vaddr (Futex_Table K c' j)"
  by (simp_all add: wake_waiter_def upd_kwait_def upd_entry_def)

definition relabelled :: "u64 \<Rightarrow> nat set \<Rightarrow> Kernel \<Rightarrow> nat \<Rightarrow> KWait" where
  "relabelled v A K k = (if k \<in> A then (kwait K k)\<lparr>FutexVAddr := v, FutexValue := words K v\<rparr> else kwait K k)"

lemma relabel_chain:
  "chain (kwait K) p ks \<Longrightarrow> relabel c j p K = Some (K\<lparr>kwait := relabelled (futex_vaddr (Futex_Table K c j)) (set ks) K\<rparr>)"
proof (induction ks arbitrary: p K)
  case Nil
  then show ?case by (simp add: relabel.simps relabelled_def [abs_def])
next
  case (Cons k ks)
  define v where "v = futex_vaddr (Futex_Table K c j)"
  define K1 where "K1 = upd_kwait k (\<lambda>w. w\<lparr>FutexVAddr := v, FutexValue := words K v\<rparr>) K"
  have n: "k \<notin> set ks" using chain_distinct [OF Cons.prems] by simp
  have "chain (kwait K1) (FutexQueueNext (kwait K k)) ks" using Cons.prems n by (simp add: K1_def upd_kwait_def)
  from Cons.IH [OF this] have "relabel c j p K = Some (K1\<lparr>kwait := relabelled v (set ks) K1\<rparr>)"
    using Cons.prems by (subst relabel.simps) (simp add: K1_def v_def upd_kwait_def)
  moreover have "relabelled v (set ks) K1 = relabelled v (set (k # ks)) K"
    using n by (auto simp: relabelled_def K1_def upd_kwait_def)
  ultimately show ?case by (simp add: K1_def upd_kwait_def v_def)
qed

lemma relabelled_links: "FutexQueueNext (relabelled v A K k) = FutexQueueNext (kwait K k)"
  by (simp add: relabelled_def)

text \<open>A queue is emptied, and its threads, which wait nowhere then, are put at the end of another queue.\<close>

lemma move_queue_rep:
  assumes r: "futex_rep E qs K" and i: "i < NUM_FUTEX" "futex_vaddr (Futex_Table K c i) = v" "v \<noteq> 0" "i \<in> E c"
    and j: "j < NUM_FUTEX" "futex_vaddr (Futex_Table K c j) = v2" "v2 \<noteq> 0" "j \<in> E c" and n: "i \<noteq> j" "v \<noteq> v2"
    and T: "Futex_Table K' = (Futex_Table K)(c := (Futex_Table K c)(i := (Futex_Table K c i)\<lparr>pKThr_Waiter_Next := None\<rparr>,
      j := (Futex_Table K c j)\<lparr>pKThr_Waiter_Next := p\<rparr>))"
    and x: "chain (kwait K') p (qs c v2 @ qs c v)" and L: "L \<subseteq> set (qs c v2)"
    and A: "\<And>k. k \<notin> set (qs c v) \<union> L \<Longrightarrow> kwait K' k = kwait K k"
    and new: "\<And>k. k \<in> set (qs c v) \<union> L \<Longrightarrow> FutexVAddr (kwait K' k) = v2 \<and> FutexIsShared (kwait K' k) = FutexIsShared (kwait K k)"
  shows "futex_rep E (qs(c := (qs c)(v := [], v2 := qs c v2 @ qs c v))) K'"
proof -
  define K1 where "K1 = K\<lparr>Futex_Table := (Futex_Table K)(c := (Futex_Table K c)(i := (Futex_Table K c i)\<lparr>pKThr_Waiter_Next := None\<rparr>)),
    kwait := (\<lambda>k. if k \<in> set (qs c v) then (kwait K k)\<lparr>FutexVAddr := 0, FutexTimeout := 0\<rparr> else kwait K k)\<rparr>"
  define qs1 where "qs1 = qs(c := (qs c)(v := []))"
  have "futex_rep (E(c := if [] = ([] :: nat list) then insert i (E c) else E c - {i})) qs1 K1"
    unfolding qs1_def by (rule futex_rep_upd [OF r i(1-3), where p = None and A = "set (qs c v)"])
      (auto simp: K1_def dest: futex_rep_one_queue [OF r])
  then have r1: "futex_rep E qs1 K1" by (rule futex_rep_mono) (use i(4) in auto)
  have q1: "qs1 c v2 = qs c v2" "\<And>k c' v'. k \<in> set (qs1 c' v') \<Longrightarrow> k \<in> set (qs c' v') \<and> (c', v') \<noteq> (c, v)"
    using n(2) by (auto simp: qs1_def split: if_splits)
  have "futex_rep (E(c := if qs c v2 @ qs c v = [] then insert j (E c) else E c - {j})) (qs1(c := (qs1 c)(v2 := qs c v2 @ qs c v))) K'"
  proof (rule futex_rep_upd [OF r1 j(1) _ j(3) _ x, where A = "set (qs c v) \<union> L"])
    fix k
    show "k \<notin> set (qs c v) \<union> L \<Longrightarrow> kwait K' k = kwait K1 k" using A [of k] by (simp add: K1_def)
    show "k \<in> set (qs c v) \<union> L \<Longrightarrow> k \<in> set (qs1 c' v') \<Longrightarrow> c' = c \<and> v' = v2" for c' v'
      using q1(2) [of k c' v'] futex_rep_one_queue [OF r, of k] L by blast
    show "k \<in> set (qs c v) \<union> L \<Longrightarrow> k \<in> set (qs c v2 @ qs c v) \<Longrightarrow>
        k < NUM_KTHREADS \<and> FutexVAddr (kwait K' k) = v2 \<and> (FutexIsShared (kwait K' k) \<longleftrightarrow> c = Shared)"
      using new [of k] futex_repD(2) [OF r, of k c] L by blast
  qed (use j(2) n(1) T L q1(1) in \<open>auto simp: K1_def\<close>)
  then have "futex_rep E (qs1(c := (qs1 c)(v2 := qs c v2 @ qs c v))) K'" by (rule futex_rep_mono) (use j(4) in auto)
  then show ?thesis by (simp add: qs1_def)
qed

lemma requeue_rep:
  assumes r: "futex_rep E qs K" and i: "i < NUM_FUTEX" "futex_vaddr (Futex_Table K c i) = v" "v \<noteq> 0" "i \<in> E c"
    and j: "j < NUM_FUTEX" "futex_vaddr (Futex_Table K c j) = v2" "v2 \<noteq> 0" "j \<in> E c" and n: "v \<noteq> v2"
    and q: "qs c v = x # xs"
  shows "\<exists>T kw. requeue c i j x K = Some (K\<lparr>Futex_Table := T, kwait := kw\<rparr>) \<and> pKThr_Waiter_Next (T c i) = None \<and>
    (\<forall>c' m. futex_vaddr (T c' m) = futex_vaddr (Futex_Table K c' m)) \<and>
    futex_rep E (qs(c := (qs c)(v := [], v2 := qs c v2 @ qs c v))) (K\<lparr>Futex_Table := T, kwait := kw\<rparr>)"
proof -
  have ij: "i \<noteq> j" using i(2) j(2) n by auto
  note ch = futex_rep_chain [OF r i(1,2)] and ch2 = futex_rep_chain [OF r j(1,2)]
  define T1 where "T1 = (Futex_Table K c)(i := (Futex_Table K c i)\<lparr>pKThr_Waiter_Next := None\<rparr>)"
  have dis: "k \<notin> set (qs c v)" if "k \<in> set (qs c v2)" for k using futex_rep_one_queue [OF r that] n by blast
  show ?thesis
  proof (cases "qs c v2")
    case Nil
    define T where "T = (Futex_Table K)(c := T1(j := (Futex_Table K c j)\<lparr>pKThr_Waiter_Next := Some x\<rparr>))"
    define K2 where "K2 = K\<lparr>Futex_Table := T\<rparr>"
    have "chain (kwait K2) (Some x) (x # xs)" using ch q by (simp add: K2_def)
    from relabel_chain [OF this, of c j] have "requeue c i j x K = Some (K2\<lparr>kwait := relabelled v2 (set (qs c v)) K2\<rparr>)"
      using ch2 Nil j(2) ij q by (simp add: requeue_def upd_entry_def K2_def T_def T1_def Let_def)
    moreover have "futex_rep E (qs(c := (qs c)(v := [], v2 := qs c v2 @ qs c v))) (K2\<lparr>kwait := relabelled v2 (set (qs c v)) K2\<rparr>)"
    proof (rule move_queue_rep [OF r i j ij n, where p = "Some x" and L = "{}"])
      have "chain (relabelled v2 (set (qs c v)) K2) (Some x) (x # xs) = chain (kwait K) (Some x) (x # xs)"
        by (rule chain_same_links) (simp add: relabelled_links K2_def)
      then show "chain (kwait (K2\<lparr>kwait := relabelled v2 (set (qs c v)) K2\<rparr>)) (Some x) (qs c v2 @ qs c v)" using ch q Nil by simp
    qed (simp_all add: K2_def T_def T1_def relabelled_def)
    ultimately show ?thesis
      by (intro exI [of _ T] exI [of _ "relabelled v2 (set (qs c v)) K2"]) (simp add: K2_def T_def T1_def ij)
  next
    case (Cons y ys)
    define l where "l = last (qs c v2)"
    have l: "qs c v2 = butlast (qs c v2) @ [l]" "l \<in> set (qs c v2)" using Cons by (simp_all add: l_def)
    define T where "T = (Futex_Table K)(c := T1)"
    define K2 where "K2 = K\<lparr>Futex_Table := T, kwait := (kwait K)(l := (kwait K l)\<lparr>FutexQueueNext := Some x\<rparr>)\<rparr>"
    have lq: "l \<notin> set (qs c v)" using dis [OF l(2)] .
    have chx: "chain (kwait K) (Some x) (qs c v)" using ch q by simp
    then have "chain (kwait K2) (Some x) (x # xs)" using lq q by (simp add: K2_def)
    from relabel_chain [OF this, of c j] have "requeue c i j x K = Some (K2\<lparr>kwait := relabelled v2 (set (qs c v)) K2\<rparr>)"
      using ch2 Cons queue_last_chain [of "kwait K" y ys] j(2) ij q
      by (simp add: requeue_def upd_entry_def upd_kwait_def K2_def T_def T1_def Let_def l_def)
    moreover have "futex_rep E (qs(c := (qs c)(v := [], v2 := qs c v2 @ qs c v))) (K2\<lparr>kwait := relabelled v2 (set (qs c v)) K2\<rparr>)"
    proof (rule move_queue_rep [OF r i j ij n, where p = "pKThr_Waiter_Next (Futex_Table K c j)" and L = "{l}"])
      have "chain (kwait K2) (pKThr_Waiter_Next (Futex_Table K c j)) (butlast (qs c v2) @ [l] @ qs c v)"
        unfolding K2_def by simp (rule chain_join [simplified], use ch2 l(1) chx lq in simp_all)
      then have "chain (kwait K2) (pKThr_Waiter_Next (Futex_Table K c j)) (qs c v2 @ qs c v)" using l(1) by (metis append.assoc)
      then show "chain (kwait (K2\<lparr>kwait := relabelled v2 (set (qs c v)) K2\<rparr>)) (pKThr_Waiter_Next (Futex_Table K c j)) (qs c v2 @ qs c v)"
        using chain_same_links [of "qs c v2 @ qs c v" "relabelled v2 (set (qs c v)) K2" "kwait K2"] by (simp add: relabelled_links)
      show "k \<in> set (qs c v) \<union> {l} \<Longrightarrow> FutexVAddr (kwait (K2\<lparr>kwait := relabelled v2 (set (qs c v)) K2\<rparr>) k) = v2 \<and>
          FutexIsShared (kwait (K2\<lparr>kwait := relabelled v2 (set (qs c v)) K2\<rparr>) k) = FutexIsShared (kwait K k)" for k
        using lq futex_repD(2) [OF r l(2)] by (auto simp: relabelled_def K2_def)
      have "T1(j := Futex_Table K c j) = T1" by (rule fun_upd_idem) (simp add: T1_def ij [symmetric])
      then show "Futex_Table (K2\<lparr>kwait := relabelled v2 (set (qs c v)) K2\<rparr>) =
          (Futex_Table K)(c := (Futex_Table K c)(i := (Futex_Table K c i)\<lparr>pKThr_Waiter_Next := None\<rparr>,
            j := (Futex_Table K c j)\<lparr>pKThr_Waiter_Next := pKThr_Waiter_Next (Futex_Table K c j)\<rparr>))"
        by (simp add: K2_def T_def T1_def)
    qed (use l(2) in \<open>auto simp: K2_def relabelled_def\<close>)
    ultimately show ?thesis
      by (intro exI [of _ T] exI [of _ "relabelled v2 (set (qs c v)) K2"]) (simp add: K2_def T_def T1_def ij)
  qed
qed

text \<open>The loop wakes threads from the front until enough are awake, and moves the rest, if there is a place for it.\<close>

definition woken :: "int \<Rightarrow> nat list \<Rightarrow> nat list" where
  "woken maxToWake q = take (nat maxToWake) q"

definition left :: "int \<Rightarrow> nat list \<Rightarrow> nat list" where
  "left maxToWake q = drop (nat maxToWake) q"

text \<open>What the queues of a table are afterwards: the rest stays, or goes to the end of the queue of \<open>sec\<close>.\<close>

definition wake_spec :: "int \<Rightarrow> u64 \<Rightarrow> u64 option \<Rightarrow> (u64 \<Rightarrow> nat list) \<Rightarrow> u64 \<Rightarrow> nat list" where
  "wake_spec maxToWake v sec q =
     (case sec of
        None \<Rightarrow> q(v := left maxToWake (q v))
      | Some v2 \<Rightarrow> q(v := [], v2 := q v2 @ left maxToWake (q v)))"

definition secondary_ok :: "(futex_scope \<Rightarrow> nat set) \<Rightarrow> Kernel \<Rightarrow> futex_scope \<Rightarrow> u64 \<Rightarrow> nat option \<Rightarrow> u64 option \<Rightarrow> bool" where
  "secondary_ok E K c v sec sv \<longleftrightarrow>
     (case sec of
        None \<Rightarrow> sv = None
      | Some j \<Rightarrow> sv = Some (futex_vaddr (Futex_Table K c j)) \<and> j < NUM_FUTEX \<and> futex_vaddr (Futex_Table K c j) \<noteq> 0 \<and>
          futex_vaddr (Futex_Table K c j) \<noteq> v \<and> j \<in> E c)"

lemma wake_spec_none: "q v = [] \<Longrightarrow> wake_spec m v sec q = q"
  by (auto simp: wake_spec_def left_def fun_upd_idem split: option.splits)

lemma wake_spec_one: "0 < m \<Longrightarrow> q v = x # xs \<Longrightarrow> sec \<noteq> Some v \<Longrightarrow> wake_spec m v sec q = wake_spec (m - 1) v sec (q(v := xs))"
  by (auto simp: wake_spec_def left_def nat_diff_distrib drop_Cons' split: option.splits)

lemma wake_loop_rep:
  assumes "futex_rep E qs K" "i < NUM_FUTEX" "futex_vaddr (Futex_Table K c i) = v" "v \<noteq> 0" "i \<in> E c" "secondary_ok E K c v sec sv"
  shows "\<exists>T kw. wake_loop c i m sec ws K =
      Some (K\<lparr>Futex_Table := T, kwait := kw\<rparr>, ws @ woken (m - int (length ws)) (qs c v)) \<and>
    futex_rep E (qs(c := wake_spec (m - int (length ws)) v sv (qs c))) (K\<lparr>Futex_Table := T, kwait := kw\<rparr>)"
  using assms
proof (induction "qs c v" arbitrary: qs K ws)
  case Nil
  then have "pKThr_Waiter_Next (Futex_Table K c i) = None" using futex_rep_chain [OF Nil(2-4)] by simp
  then have "wake_loop c i m sec ws K = Some (K, ws)" by (subst wake_loop.simps) simp
  with Nil show ?case
    by (intro exI [of _ "Futex_Table K"] exI [of _ "kwait K"]) (simp add: woken_def wake_spec_none)
next
  case (Cons x xs)
  note q = Cons.hyps(2) [symmetric]
  have p: "pKThr_Waiter_Next (Futex_Table K c i) = Some x" using futex_rep_chain [OF Cons.prems(1-3)] q by simp
  show ?case
  proof (cases "int (length ws) < m")
    case True
    define K1 where "K1 = wake_waiter c i x K"
    define qs1 where "qs1 = qs(c := (qs c)(v := xs))"
    have r1: "futex_rep E qs1 K1" unfolding qs1_def K1_def by (rule wake_waiter_rep [OF Cons.prems(1-5) q])
    have s1: "secondary_ok E K1 c v sec sv" using Cons.prems(6) by (simp add: secondary_ok_def K1_def split: option.splits)
    obtain T kw where 1: "wake_loop c i m sec (ws @ [x]) K1 =
        Some (K1\<lparr>Futex_Table := T, kwait := kw\<rparr>, (ws @ [x]) @ woken (m - int (length (ws @ [x]))) xs)"
      "futex_rep E (qs1(c := wake_spec (m - int (length (ws @ [x]))) v sv (qs1 c))) (K1\<lparr>Futex_Table := T, kwait := kw\<rparr>)"
      using Cons.hyps(1) [of qs1 K1 "ws @ [x]"] r1 s1 Cons.prems(2-5) by (auto simp: qs1_def K1_def)
    have "K1\<lparr>Futex_Table := T, kwait := kw\<rparr> = K\<lparr>Futex_Table := T, kwait := kw\<rparr>"
      by (simp add: K1_def wake_waiter_def upd_entry_def upd_kwait_def)
    moreover have "woken (m - int (length ws)) (x # xs) = x # woken (m - int (length (ws @ [x]))) xs"
    proof -
      have "nat (m - int (length ws)) = Suc (nat (m - int (length (ws @ [x]))))" using True by simp
      then show ?thesis by (simp add: woken_def)
    qed
    moreover have "sv \<noteq> Some v" using Cons.prems(6) by (auto simp: secondary_ok_def split: option.splits)
    then have "qs(c := wake_spec (m - int (length ws)) v sv (qs c)) = qs1(c := wake_spec (m - int (length (ws @ [x]))) v sv (qs1 c))"
      using wake_spec_one [of "m - int (length ws)" "qs c" v x xs sv] True q by (simp add: qs1_def algebra_simps)
    moreover have "wake_loop c i m sec ws K = wake_loop c i m sec (ws @ [x]) K1"
      using p True by (subst wake_loop.simps) (simp add: K1_def)
    ultimately show ?thesis using 1 q by auto
  next
    case False
    then have w: "woken (m - int (length ws)) (qs c v) = []" "left (m - int (length ws)) (qs c v) = qs c v"
      by (simp_all add: woken_def left_def)
    show ?thesis
    proof (cases sec)
      case None
      then have "wake_loop c i m sec ws K = Some (K, ws)" using p False by (subst wake_loop.simps) simp
      moreover have "wake_spec (m - int (length ws)) v sv (qs c) = qs c"
        using None Cons.prems(6) w(2) by (simp add: secondary_ok_def wake_spec_def fun_upd_idem)
      ultimately show ?thesis using w(1) Cons.prems(1) by (intro exI [of _ "Futex_Table K"] exI [of _ "kwait K"]) simp
    next
      case (Some j)
      then have j: "j < NUM_FUTEX" "futex_vaddr (Futex_Table K c j) \<noteq> 0" "j \<in> E c" "v \<noteq> futex_vaddr (Futex_Table K c j)"
          "sv = Some (futex_vaddr (Futex_Table K c j))"
        using Cons.prems(6) by (auto simp: secondary_ok_def)
      from requeue_rep [OF Cons.prems(1-5) j(1) refl j(2-4) q] obtain T kw where
        2: "requeue c i j x K = Some (K\<lparr>Futex_Table := T, kwait := kw\<rparr>)" "pKThr_Waiter_Next (T c i) = None"
          "futex_rep E (qs(c := (qs c)(v := [], futex_vaddr (Futex_Table K c j) := qs c (futex_vaddr (Futex_Table K c j)) @ qs c v)))
             (K\<lparr>Futex_Table := T, kwait := kw\<rparr>)"
        by blast
      have "wake_loop c i m sec ws (K\<lparr>Futex_Table := T, kwait := kw\<rparr>) = Some (K\<lparr>Futex_Table := T, kwait := kw\<rparr>, ws)"
        using 2(2) by (subst wake_loop.simps) simp
      then have "wake_loop c i m sec ws K = Some (K\<lparr>Futex_Table := T, kwait := kw\<rparr>, ws)"
        using p False 2(1) Some by (subst wake_loop.simps) simp
      with 2(3) w j(5) show ?thesis by (intro exI [of _ T] exI [of _ kw]) (simp add: wake_spec_def)
    qed
  qed
qed

text \<open>The queue of the address \<open>v\<close>, with the threads for which there is no room left at another address.\<close>

lemma WakeQueue_rep:
  assumes r: "futex_rep E qs K" and i: "i < NUM_FUTEX" "futex_vaddr (Futex_Table K c i) = v" "v \<noteq> 0" "i \<in> E c"
    and s: "secondary_ok E K c v sec sv"
  shows "\<exists>T kw. Futex_WakeQueue c (Some i) m sec K = Some (K\<lparr>Futex_Table := T, kwait := kw\<rparr>, woken m (qs c v)) \<and>
    futex_rep (E(c := E c - {i} - set_option sec)) (qs(c := wake_spec m v sv (qs c))) (K\<lparr>Futex_Table := T, kwait := kw\<rparr>)"
proof -
  obtain T kw where w: "wake_loop c i m sec [] K = Some (K\<lparr>Futex_Table := T, kwait := kw\<rparr>, woken m (qs c v))"
    and r1: "futex_rep E (qs(c := wake_spec m v sv (qs c))) (K\<lparr>Futex_Table := T, kwait := kw\<rparr>)"
    using wake_loop_rep [OF r i s, of m "[]"] by auto
  define K1 where "K1 = drop_empty c i (K\<lparr>Futex_Table := T, kwait := kw\<rparr>)"
  define K2 where "K2 = (case sec of None \<Rightarrow> K1 | Some j \<Rightarrow> drop_empty c j K1)"
  have "futex_rep (E(c := E c - {i})) (qs(c := wake_spec m v sv (qs c))) K1"
    unfolding K1_def by (rule drop_empty_rep [OF r1 i(1)])
  then have "futex_rep (E(c := E c - {i} - set_option sec)) (qs(c := wake_spec m v sv (qs c))) K2"
    using s drop_empty_rep [of "E(c := E c - {i})" _ K1 _ c] by (auto simp: K2_def secondary_ok_def split: option.splits)
  moreover have "K2 = K\<lparr>Futex_Table := Futex_Table K2, kwait := kw\<rparr>"
    by (auto simp: K2_def K1_def drop_empty_def upd_entry_def split: option.splits)
  moreover have "Futex_WakeQueue c (Some i) m sec K = Some (K2, woken m (qs c v))"
    using w by (simp add: Futex_WakeQueue_def K2_def K1_def Let_def split: option.splits)
  ultimately show ?thesis by metis
qed

section \<open>Leaving a queue\<close>

lemma remove1_middle: "distinct (xs @ k # ys) \<Longrightarrow> remove1 k (xs @ k # ys) = xs @ ys"
  by (simp add: remove1_append)

text \<open>A thread that waits is taken out of its queue; nothing happens to one that does not wait.\<close>

lemma unlink_waiter_rep:
  assumes r: "futex_rep none qs K" and k: "k \<in> set (qs c v)" and g: "\<And>w. FutexVAddr (g w) = 0 \<and> FutexTimeout (g w) = 0"
  shows "\<exists>T kw. unlink_waiter c k K = Some (K\<lparr>Futex_Table := T, kwait := kw\<rparr>) \<and>
    futex_rep none (qs(c := (qs c)(v := remove1 k (qs c v)))) (upd_kwait k g (K\<lparr>Futex_Table := T, kwait := kw\<rparr>))"
proof -
  have v: "v \<noteq> 0" "FutexVAddr (kwait K k) = v" using futex_rep_nonzero [OF r k] futex_repD(2) [OF r k] by auto
  obtain i where i: "i < NUM_FUTEX" "Futex_findTableEntry v c False K = (K, Some i)" "futex_vaddr (Futex_Table K c i) = v"
    using findTableEntry_present [OF r v(1), of c False] k by fastforce
  note ch = futex_rep_chain [OF r i(1,3)]
  obtain xs ys where q: "qs c v = xs @ k # ys" using k by (auto simp: in_set_conv_decomp)
  have d: "distinct (xs @ k # ys)" using chain_distinct [OF ch] q by simp
  have one: "j \<in> set (qs c' v') \<Longrightarrow> j \<in> set (xs @ k # ys) \<Longrightarrow> c' = c \<and> v' = v" for j c' v'
    using futex_rep_one_queue [OF r, of j c v] unfolding q by blast
  have rep: "futex_rep (none(c := if xs @ ys = [] then {i} else {})) (qs(c := (qs c)(v := xs @ ys))) (upd_kwait k g K')"
    if T: "Futex_Table K' = (Futex_Table K)(c := (Futex_Table K c)(i := (Futex_Table K c i)\<lparr>pKThr_Waiter_Next := p\<rparr>))"
      and x: "chain (kwait K') p (xs @ ys)" and L: "L \<subseteq> set xs" "\<And>j. j \<notin> L \<Longrightarrow> kwait K' j = kwait K j"
      "\<And>j. FutexVAddr (kwait K' j) = FutexVAddr (kwait K j) \<and> FutexIsShared (kwait K' j) = FutexIsShared (kwait K j)" for K' p L
  proof -
    have "futex_rep (none(c := if xs @ ys = [] then insert i (none c) else none c - {i})) (qs(c := (qs c)(v := xs @ ys))) (upd_kwait k g K')"
    proof (rule futex_rep_upd [OF r i(1,3) v(1), where p = p and A = "insert k L"])
      show "chain (kwait (upd_kwait k g K')) p (xs @ ys)" using x d by (simp add: upd_kwait_def)
      fix j
      show "j \<in> insert k L \<Longrightarrow> j \<in> set (qs c' v') \<Longrightarrow> c' = c \<and> v' = v" for c' v' using one [of j] L(1) by auto
      show "j \<in> insert k L \<Longrightarrow> j \<in> set (xs @ ys) \<Longrightarrow> j < NUM_KTHREADS \<and> FutexVAddr (kwait (upd_kwait k g K') j) = v \<and>
          (FutexIsShared (kwait (upd_kwait k g K') j) \<longleftrightarrow> c = Shared)"
        using d L(3) [of j] futex_repD(2) [OF r, of j c v] q by (auto simp: upd_kwait_def)
      show "j \<notin> insert k L \<Longrightarrow> kwait (upd_kwait k g K') j = kwait K j" using L(2) by (simp add: upd_kwait_def)
      show "j \<in> insert k L \<Longrightarrow> j \<notin> set (xs @ ys) \<Longrightarrow> FutexVAddr (kwait (upd_kwait k g K') j) = 0 \<and> FutexTimeout (kwait (upd_kwait k g K') j) = 0"
        using g L(1) by (auto simp: upd_kwait_def)
    qed (use T q in \<open>auto simp: upd_kwait_def\<close>)
    then show ?thesis by (simp only: empty_Diff)
  qed
  show ?thesis
  proof (cases xs rule: rev_cases)
    case Nil
    define p where "p = FutexQueueNext (kwait K k)"
    define T where "T = (Futex_Table K)(c := (Futex_Table K c)(i := (Futex_Table K c i)\<lparr>pKThr_Waiter_Next := p\<rparr>))"
    have chp: "chain (kwait K) p ys" "pKThr_Waiter_Next (Futex_Table K c i) = Some k" using ch q Nil by (simp_all add: p_def)
    have r1: "futex_rep (none(c := if xs @ ys = [] then {i} else {})) (qs(c := (qs c)(v := xs @ ys))) (upd_kwait k g (K\<lparr>Futex_Table := T\<rparr>))"
      by (rule rep [where p = p and L = "{}"]) (use chp Nil in \<open>simp_all add: T_def\<close>)
    define K2 where "K2 = drop_empty c i (K\<lparr>Futex_Table := T\<rparr>)"
    have K2: "K2 = K\<lparr>Futex_Table := Futex_Table K2, kwait := kwait K\<rparr>" by (auto simp: K2_def drop_empty_def upd_entry_def)
    have "unlink_waiter c k K = Some K2"
      using i(2) v(2) chp(2) by (auto simp: unlink_waiter_def K2_def T_def p_def drop_empty_def upd_entry_def Let_def)
    moreover have "upd_kwait k g K2 = drop_empty c i (upd_kwait k g (K\<lparr>Futex_Table := T\<rparr>))"
      by (simp add: K2_def drop_empty_def upd_entry_def upd_kwait_def)
    then have "futex_rep none (qs(c := (qs c)(v := xs @ ys))) (upd_kwait k g K2)"
      using drop_empty_rep [OF r1 i(1), of c] by (auto elim!: futex_rep_mono split: if_splits)
    ultimately show ?thesis using K2 remove1_middle [OF d] q by metis
  next
    case (snoc zs l)
    define kw where "kw = (kwait K)(l := (kwait K l)\<lparr>FutexQueueNext := FutexQueueNext (kwait K k)\<rparr>)"
    have c2: "chain (kwait K) (pKThr_Waiter_Next (Futex_Table K c i)) (zs @ l # k # ys)" using ch q snoc by simp
    have hd: "pKThr_Waiter_Next (Futex_Table K c i) \<noteq> Some k" using c2 d snoc by (cases zs) auto
    have "unlink_waiter c k K = Some (K\<lparr>Futex_Table := Futex_Table K, kwait := kw\<rparr>)"
      using i(2) v(2) hd queue_before_in [OF c2] by (simp add: unlink_waiter_def upd_kwait_def kw_def)
    moreover have "futex_rep (none(c := if xs @ ys = [] then {i} else {})) (qs(c := (qs c)(v := xs @ ys)))
        (upd_kwait k g (K\<lparr>Futex_Table := Futex_Table K, kwait := kw\<rparr>))"
      by (rule rep [where p = "pKThr_Waiter_Next (Futex_Table K c i)" and L = "{l}"])
        (use chain_unlink [OF c2] snoc in \<open>auto simp: kw_def\<close>)
    then have "futex_rep none (qs(c := (qs c)(v := xs @ ys))) (upd_kwait k g (K\<lparr>Futex_Table := Futex_Table K, kwait := kw\<rparr>))"
      using snoc by (auto elim!: futex_rep_mono split: if_splits)
    ultimately show ?thesis using remove1_middle [OF d] q by metis
  qed
qed

lemma unlink_waiter_none:
  assumes r: "futex_rep none qs K" and k: "k \<notin> queued qs"
  shows "unlink_waiter c k K = Some K"
proof -
  have z: "FutexVAddr (kwait K k) = 0" using futex_repD(4) [OF r k] by simp
  show ?thesis
  proof (cases "find (\<lambda>i. futex_vaddr (Futex_Table K c i) = 0) [0..<NUM_FUTEX]")
    case None
    then show ?thesis using z by (simp add: unlink_waiter_def Futex_findTableEntry_def)
  next
    case (Some i)
    then have "chain (kwait K) (pKThr_Waiter_Next (Futex_Table K c i)) (qs c 0)"
      using find_upt_Some [OF Some] futex_rep_chain [OF r, of i c 0] by simp
    then have "pKThr_Waiter_Next (Futex_Table K c i) = None" using table_repD(1) [OF futex_repD(1) [OF r]] by simp
    then show ?thesis using z Some by (simp add: unlink_waiter_def Futex_findTableEntry_def queue_before.simps)
  qed
qed

end
