(* ===== verification/CnkFutexSpec.thy ===== *)
theory CnkFutexSpec
  imports CnkFutexOps CnkCounts CnkAlloc
begin

text \<open>
  The futex operations refine operations on abstract queues: a table of queues of threads, one for
  every address of every scope.
\<close>

section \<open>The invariant between operations\<close>

definition futex_inv :: "queues \<Rightarrow> Kernel \<Rightarrow> bool" where
  "futex_inv qs K \<longleftrightarrow> futex_rep none qs K \<and> (\<forall>c. FutexOrderLock K c = FutexLock K c)"

lemma futex_inv_acquire:
  "futex_inv qs K \<Longrightarrow> Lock_AtomicAcquire c K = Some (FutexLock K c, K\<lparr>FutexLock := (FutexLock K)(c := FutexLock K c + 1)\<rparr>)"
  by (simp add: futex_inv_def Lock_AtomicAcquire_def Let_def)

lemma futex_inv_release:
  assumes "futex_inv qs K" "futex_rep none qs' K'" "FutexLock K' = (FutexLock K)(c := FutexLock K c + 1)" "FutexOrderLock K' = FutexOrderLock K"
  shows "futex_inv qs' (Lock_AtomicRelease c (FutexLock K c) K')"
  using assms futex_rep_cong [of none qs' K' "Lock_AtomicRelease c (FutexLock K c) K'"]
  by (auto simp: futex_inv_def Lock_AtomicRelease_def)

lemma futex_inv_cong:
  "futex_inv qs K \<Longrightarrow> Futex_Table K' = Futex_Table K \<Longrightarrow> kwait K' = kwait K \<Longrightarrow> FutexLock K' = FutexLock K \<Longrightarrow>
    FutexOrderLock K' = FutexOrderLock K \<Longrightarrow> futex_inv qs K'"
  unfolding futex_inv_def using futex_rep_cong by metis

lemma GetMyKThread_simps [simp]:
  "GetMyKThread me (upd_kwait k f K) = GetMyKThread me K" "GetMyKThread me (upd_entry c i h K) = GetMyKThread me K"
  "GetMyKThread me (K\<lparr>FutexLock := a\<rparr>) = GetMyKThread me K" "GetMyKThread me (K\<lparr>Futex_Table := T\<rparr>) = GetMyKThread me K"
  "GetMyKThread me (K\<lparr>kwait := w\<rparr>) = GetMyKThread me K" "GetMyKThread me (K\<lparr>words := x\<rparr>) = GetMyKThread me K"
  "GetMyKThread me (Timer_enableFutexTimeout me t e K) = GetMyKThread me K"
  by (simp_all add: GetMyKThread_def kernel_upd_defs Timer_enableFutexTimeout_def Timer_enableUDECRwakeup_def Let_def)

lemma scope_Shared: "scope_of me sh K = Some c \<Longrightarrow> sh \<longleftrightarrow> c = Shared"
  by (auto simp: scope_of_def split: if_splits)

lemma scope_of_cong: "node K' = node K \<Longrightarrow> scope_of me sh K' = scope_of me sh K"
  by (simp add: scope_of_def GetMyProcess_def GetMyKThread_def)

section \<open>Waiting\<close>

lemma Sched_Block_FUTEX_local:
  "pHWThread (KThreads n k) = me \<Longrightarrow>
    KThreads (Sched_Block me k SCHED_STATE_FUTEX n) = (KThreads n)(k := (KThreads n k)\<lparr>State := State (KThreads n k) OR SCHED_STATE_FUTEX\<rparr>)"
  by (simp add: Sched_Block_def SCHED_STATE_FUTEX_def SCHED_STATE_RESET_def spi_sub_def)

lemma Futex_Wait_rep:
  assumes i: "futex_inv qs K" and s: "Futex_IsShared me v flags K = Some sh" "scope_of me sh K = Some c" and v: "v \<noteq> 0"
    and k: "k = GetMyKThread me K" "pHWThread (KThreads (node K) k) = me" "k < NUM_KTHREADS" "k \<notin> queued qs"
  shows "\<exists>K' res. Futex_Wait me flags k v val timeout now K = Some (K', res) \<and>
    (if words K v = val
     then res = Inr 0 \<and> futex_inv (qs(c := (qs c)(v := qs c v @ [k]))) K' \<and> FutexTimeout (kwait K' k) = timeout \<and>
       (\<forall>j. State (KThreads (node K') j) = (if j = k then State (KThreads (node K) k) OR SCHED_STATE_FUTEX else State (KThreads (node K) j)))
     else res = Inl EWOULDBLOCK \<and> futex_inv qs K' \<and> node K' = node K \<and> kwait K' = kwait K)"
proof -
  define K1 where "K1 = K\<lparr>FutexLock := (FutexLock K)(c := FutexLock K c + 1)\<rparr>"
  have r1: "futex_rep none qs K1" using i futex_rep_cong [of none qs K K1] by (simp add: futex_inv_def K1_def)
  note a = futex_inv_acquire [OF i, of c, folded K1_def]
  show ?thesis
  proof (cases "words K v = val")
    case False
    have "futex_inv qs (Lock_AtomicRelease c (FutexLock K c) K1)" by (rule futex_inv_release [OF i r1]) (simp_all add: K1_def)
    with False s a show ?thesis by (simp add: Futex_Wait_def Lock_AtomicRelease_def K1_def)
  next
    case True
    obtain e T where e: "e < NUM_FUTEX" "Futex_findTableEntry v c True K1 = (K1\<lparr>Futex_Table := T\<rparr>, Some e)" "futex_vaddr (T c e) = v"
        "futex_rep (none(c := {e})) qs (K1\<lparr>Futex_Table := T\<rparr>)"
      using findTableEntry_alloc [OF r1 v k(3,4), of c] by blast
    define f where "f w = w\<lparr>FutexQueueNext := None, FutexVAddr := v, FutexValue := words K v, FutexTimeout := timeout,
      FutexIsShared := sh\<rparr>" for w :: KWait
    have f: "FutexQueueNext (f w) = None \<and> FutexVAddr (f w) = v \<and> (FutexIsShared (f w) \<longleftrightarrow> c = Shared)" for w
      using scope_Shared [OF s(2)] by (simp add: f_def)
    obtain T2 kw where w: "append_waiter c e k (K1\<lparr>Futex_Table := T\<rparr>) = Some (K1\<lparr>Futex_Table := T2, kwait := kw\<rparr>)"
        "futex_rep none (qs(c := (qs c)(v := qs c v @ [k]))) (upd_kwait k f (K1\<lparr>Futex_Table := T2, kwait := kw\<rparr>))"
      using append_waiter_rep [where f = f, OF e(4,1) _ v k(3,4) f] e(3) by (auto simp: fun_upd_idem)
    define K3 where "K3 = upd_kwait k f (K1\<lparr>Futex_Table := T2, kwait := kw\<rparr>)"
    define K4 where "K4 = (if timeout \<noteq> 0
      then Timer_enableFutexTimeout me now (if timeout < now then now + 1 else timeout) K3 else K3)"
    define K5 where "K5 = on_node (Sched_Block me k SCHED_STATE_FUTEX) K4"
    have "Futex_Wait me flags k v val timeout now K = Some (set_pending_yield k (Lock_AtomicRelease c (FutexLock K c) K5), Inr 0)"
      using s a True e(2) w(1) k(1) [symmetric]
      by (simp add: Futex_Wait_def K5_def K4_def K3_def f_def [abs_def] Let_def) (simp add: K1_def)
    moreover have K5: "Futex_Table K5 = Futex_Table K3" "kwait K5 = kwait K3" "FutexLock K5 = FutexLock K1" "FutexOrderLock K5 = FutexOrderLock K"
        "node K5 = Sched_Block me k SCHED_STATE_FUTEX (node K)"
      by (simp_all add: K5_def K4_def K3_def K1_def on_node_def upd_kwait_def Timer_enableFutexTimeout_def Timer_enableUDECRwakeup_def Let_def)
    have "futex_rep none (qs(c := (qs c)(v := qs c v @ [k]))) K5" by (rule futex_rep_cong [OF w(2) [folded K3_def]]) (simp_all add: K5)
    then have "futex_inv (qs(c := (qs c)(v := qs c v @ [k]))) (Lock_AtomicRelease c (FutexLock K c) K5)"
      by (rule futex_inv_release [OF i]) (simp_all add: K5 K1_def)
    then have "futex_inv (qs(c := (qs c)(v := qs c v @ [k]))) (set_pending_yield k (Lock_AtomicRelease c (FutexLock K c) K5))"
      by (rule futex_inv_cong) (simp_all add: set_pending_yield_def on_node_def)
    ultimately show ?thesis
      using True Sched_Block_FUTEX_local [OF k(2)]
      by (auto simp: set_pending_yield_def on_node_def upd_kthread_def Lock_AtomicRelease_def K5 K3_def f_def upd_kwait_def)
  qed
qed

text \<open>C31: when the word has the value that the caller expects, \<open>Futex_Wait\<close> puts the calling thread at
  the end of the queue of the address, whatever the state of the table, and blocks it; otherwise
  it changes neither queues nor threads and fails. In both cases the lock is free again.\<close>

theorem Futex_Wait_refines:
  assumes i: "futex_inv qs K" and s: "Futex_IsShared me v flags K = Some sh" "scope_of me sh K = Some c" and v: "v \<noteq> 0"
    and k: "k = GetMyKThread me K" "pHWThread (KThreads (node K) k) = me" "k < NUM_KTHREADS" "k \<notin> queued qs"
  shows "\<exists>K' res. Futex_Wait me flags k v val timeout now K = Some (K', res) \<and>
    (if words K v = val
     then res = Inr 0 \<and> futex_inv (qs(c := (qs c)(v := qs c v @ [k]))) K' \<and> FutexTimeout (kwait K' k) = timeout \<and>
       (\<forall>j. State (KThreads (node K') j) = (if j = k then State (KThreads (node K) k) OR SCHED_STATE_FUTEX else State (KThreads (node K) j)))
     else res = Inl EWOULDBLOCK \<and> futex_inv qs K' \<and> node K' = node K \<and> kwait K' = kwait K)"
  using assms by (rule Futex_Wait_rep)

text \<open>Threads 6 and 7 wait on a word of process 0, and thread 0 runs on hardware thread 0.\<close>

definition demo_wait :: KWait where
  "demo_wait = \<lparr>FutexQueueNext = None, FutexVAddr = 0, FutexValue = 0, FutexIsShared = False, FutexTimeout = 0,
     SleepTimeout = 0, SleepRemainder = 0, Reg_cr = 0, Reg_gpr3 = 0\<rparr>"

definition demo_kernel :: Kernel where
  "demo_kernel = \<lparr>
     node = demo_node\<lparr>KThreads := (\<lambda>k. (KThreads demo_node k)\<lparr>pAppProc := Some 0,
       State := if k = 6 \<or> k = 7 then SCHED_STATE_FUTEX else SCHED_STATE_RUN\<rparr>),
       HWThreads := (\<lambda>p. (HWThreads demo_node p)\<lparr>pCurrentThread := p * 6\<rparr>)\<rparr>,
     kwait = (\<lambda>_. demo_wait)(6 := demo_wait\<lparr>FutexQueueNext := Some 7, FutexVAddr := 256\<rparr>, 7 := demo_wait\<lparr>FutexVAddr := 256\<rparr>),
     Futex_Table = (\<lambda>_ _. \<lparr>futex_vaddr = 0, pKThr_Waiter_Next = None\<rparr>)
       (Private 0 := (\<lambda>_. \<lparr>futex_vaddr = 0, pKThr_Waiter_Next = None\<rparr>)(0 := \<lparr>futex_vaddr = 256, pKThr_Waiter_Next = Some 6\<rparr>)),
     FutexLock = (\<lambda>_. 9), FutexOrderLock = (\<lambda>_. 9), words = (\<lambda>_. 5), timespecs = (\<lambda>_. (0, 0)),
     Shared_VStart = (\<lambda>_. 1), Shared_VEnd = (\<lambda>_. 0), udecr_expiration = (\<lambda>_. 0), UDEC = (\<lambda>_. 0),
     ipiMessageCheckerExpiration = (\<lambda>_. 0), FreqMHz = 1600\<rparr>"

definition demo_queues :: queues where
  "demo_queues = (\<lambda>_ _. [])(Private 0 := (\<lambda>_. [])(256 := [6, 7]))"

lemma demo_queued: "queued demo_queues = {6, 7}"
  by (auto simp: queued_def demo_queues_def split: if_splits intro: exI [of _ "Private 0"] exI [of _ 256])

lemma demo_futex_inv: "futex_inv demo_queues demo_kernel"
proof -
  have "table_rep {} (Futex_Table demo_kernel c) (kwait demo_kernel) (demo_queues c)" for c
    by (rule table_repI) (auto simp: demo_kernel_def demo_queues_def demo_wait_def NUM_FUTEX_def NUM_KTHREADS_def split: if_splits)
  moreover have "FutexVAddr (kwait demo_kernel k) = 0 \<and> FutexTimeout (kwait demo_kernel k) = 0" if "k \<notin> {6, 7}" for k
    using that by (simp add: demo_kernel_def demo_wait_def)
  ultimately show ?thesis
    unfolding futex_inv_def futex_rep_def demo_queued
    by (auto simp: demo_kernel_def demo_queues_def demo_wait_def NUM_KTHREADS_def split: if_splits)
qed

lemma demo_scope: "Futex_IsShared 0 256 0 demo_kernel = Some False" "scope_of 0 False demo_kernel = Some (Private 0)"
  "GetMyProcess 0 demo_kernel = Some 0"
  by code_simp+

lemma demo_caller: "0 = GetMyKThread 0 demo_kernel" "pHWThread (KThreads (node demo_kernel) 0) = 0" "0 < NUM_KTHREADS"
  "0 \<notin> queued demo_queues" "\<not> exited (node demo_kernel) 0"
  by (code_simp, code_simp, code_simp, simp add: demo_queued, code_simp)

theorem Futex_Wait_refines_witness:
  "\<exists>K'. Futex_Wait 0 0 0 256 5 0 100 demo_kernel = Some (K', Inr 0) \<and>
     futex_inv (demo_queues(Private 0 := (demo_queues (Private 0))(256 := [6, 7, 0]))) K'"
proof -
  have "words demo_kernel 256 = 5" "demo_queues (Private 0) 256 = [6, 7]" by (simp_all add: demo_kernel_def demo_queues_def)
  then show ?thesis
    using Futex_Wait_refines [OF demo_futex_inv demo_scope(1,2) _ demo_caller(1-4), of 5 0 100] by auto
qed

section \<open>Waking\<close>

lemma findTableEntry_same: "fst (Futex_findTableEntry v c False K) = K"
  by (simp add: Futex_findTableEntry_def split: option.splits)

lemma WakeQueue_at:
  assumes r: "futex_rep none qs K" and v: "v \<noteq> 0"
  shows "\<exists>e T kw. Futex_findTableEntry v c False K = (K, e) \<and> (e = None \<longleftrightarrow> qs c v = []) \<and>
    Futex_WakeQueue c e m None K = Some (K\<lparr>Futex_Table := T, kwait := kw\<rparr>, woken m (qs c v)) \<and>
    futex_rep none (qs(c := wake_spec m v None (qs c))) (K\<lparr>Futex_Table := T, kwait := kw\<rparr>)"
proof (cases "qs c v = []")
  case True
  with findTableEntry_absent [OF r v True] r show ?thesis
    by (intro exI [of _ None] exI [of _ "Futex_Table K"] exI [of _ "kwait K"]) (simp add: Futex_WakeQueue_def woken_def wake_spec_none)
next
  case False
  obtain i where i: "i < NUM_FUTEX" "Futex_findTableEntry v c False K = (K, Some i)" "futex_vaddr (Futex_Table K c i) = v"
    using findTableEntry_present [OF r v False] by blast
  have "futex_rep (none(c := {i})) qs K" using r by (rule futex_rep_mono) simp
  from WakeQueue_rep [OF this i(1,3) v, of None None m] i False show ?thesis by (auto simp: secondary_ok_def fun_upd_idem)
qed

lemma requeue_at:
  assumes r: "futex_rep none qs K" and v: "v \<noteq> 0" "v2 \<noteq> 0" "v2 \<noteq> v" "qs c v \<noteq> []" and k: "k < NUM_KTHREADS" "k \<notin> queued qs"
  shows "\<exists>i j T T' kw. Futex_findTableEntry v c False K = (K, Some i) \<and>
    Futex_findTableEntry v2 c True K = (K\<lparr>Futex_Table := T\<rparr>, Some j) \<and>
    Futex_WakeQueue c (Some i) m (Some j) (K\<lparr>Futex_Table := T\<rparr>) = Some (K\<lparr>Futex_Table := T', kwait := kw\<rparr>, woken m (qs c v)) \<and>
    futex_rep none (qs(c := wake_spec m v (Some v2) (qs c))) (K\<lparr>Futex_Table := T', kwait := kw\<rparr>)"
proof -
  obtain i where i: "i < NUM_FUTEX" "Futex_findTableEntry v c False K = (K, Some i)" "futex_vaddr (Futex_Table K c i) = v"
    using findTableEntry_present [OF r v(1,4)] by blast
  obtain j T where j: "j < NUM_FUTEX" "Futex_findTableEntry v2 c True K = (K\<lparr>Futex_Table := T\<rparr>, Some j)" "futex_vaddr (T c j) = v2"
      "futex_rep (none(c := {j})) qs (K\<lparr>Futex_Table := T\<rparr>)" "futex_vaddr (Futex_Table K c i) \<noteq> 0 \<longrightarrow> T c i = Futex_Table K c i"
    using findTableEntry_alloc [OF r v(2) k, of c] by blast
  have r1: "futex_rep (none(c := {i, j})) qs (K\<lparr>Futex_Table := T\<rparr>)" using j(4) by (rule futex_rep_mono) auto
  have "secondary_ok (none(c := {i, j})) (K\<lparr>Futex_Table := T\<rparr>) c v (Some j) (Some v2)"
    using j(1,3) v by (simp add: secondary_ok_def)
  from WakeQueue_rep [OF r1 i(1) _ v(1) _ this, of m] i(3) j(5) v(1) have
    "\<exists>T' kw. Futex_WakeQueue c (Some i) m (Some j) (K\<lparr>Futex_Table := T\<rparr>) = Some (K\<lparr>Futex_Table := T', kwait := kw\<rparr>, woken m (qs c v)) \<and>
      futex_rep none (qs(c := wake_spec m v (Some v2) (qs c))) (K\<lparr>Futex_Table := T', kwait := kw\<rparr>)"
    by (auto simp: fun_upd_idem)
  with i(2) j(2) show ?thesis by blast
qed

text \<open>The wake-up calls that follow when the lock is released.\<close>

definition wakeable :: "Node \<Rightarrow> nat \<Rightarrow> bool" where
  "wakeable n k \<longleftrightarrow> State (KThreads n k) AND SCHED_STATE_FREE = 0 \<and> SlotIndex (KThreads n k) \<noteq> CONFIG_SCHED_KERNEL_SLOT_INDEX"

definition woken_state :: "nat \<Rightarrow> nat set \<Rightarrow> Node \<Rightarrow> nat \<Rightarrow> u32" where
  "woken_state me A n k = (if k \<in> A \<and> wakeable n k \<and> pHWThread (KThreads n k) = me
     then State (KThreads n k) AND NOT SCHED_STATE_FUTEX else State (KThreads n k))"

definition wake_requests :: "nat \<Rightarrow> nat list \<Rightarrow> Node \<Rightarrow> (nat \<times> ipi) list" where
  "wake_requests me ws n = map (\<lambda>k. (ProcessorID (KThreads n k), IPI_handler_run_scheduler (Some k) SCHED_STATE_FUTEX))
     (filter (\<lambda>k. wakeable n k \<and> pHWThread (KThreads n k) \<noteq> me \<and> ProcessorID (KThreads n k) < NUM_HWTHREADS) ws)"

definition same_places :: "Node \<Rightarrow> Node \<Rightarrow> bool" where
  "same_places n n' \<longleftrightarrow> (\<forall>k. pHWThread (KThreads n' k) = pHWThread (KThreads n k) \<and> ProcessorID (KThreads n' k) = ProcessorID (KThreads n k) \<and>
     SlotIndex (KThreads n' k) = SlotIndex (KThreads n k) \<and> (wakeable n' k \<longleftrightarrow> wakeable n k))"

lemma Unblock_FUTEX:
  "\<not> exited n me \<Longrightarrow> Sched_Unblock me k SCHED_STATE_FUTEX n =
     (if pHWThread (KThreads n k) = me then
        (let n' = upd_kthread k (\<lambda>t. t\<lparr>State := State t AND NOT SCHED_STATE_FUTEX\<rparr>) n
         in if State (KThreads n k) \<noteq> SCHED_STATE_RUN \<and> State (KThreads n' k) = SCHED_STATE_RUN then spi_add SPRG_SPIinfo_Runnable me n' else n')
      else IPI_DeliverInterrupt (ProcessorID (KThreads n k)) (IPI_handler_run_scheduler (Some k) SCHED_STATE_FUTEX) n)"
  by (simp add: Sched_Unblock_def SCHED_STATE_FUTEX_def SCHED_STATE_RESET_def SCHED_STATE_SUSPEND_def Let_def)

lemma and_not_FUTEX: "(st AND NOT SCHED_STATE_FUTEX) AND SCHED_STATE_FREE = st AND SCHED_STATE_FREE"
  by (simp add: and.assoc SCHED_STATE_FUTEX_def SCHED_STATE_FREE_def)

lemma wakeable_State:
  "SlotIndex (KThreads n' k) = SlotIndex (KThreads n k) \<Longrightarrow>
    State (KThreads n' k) = State (KThreads n k) \<or> State (KThreads n' k) = State (KThreads n k) AND NOT SCHED_STATE_FUTEX \<Longrightarrow>
    wakeable n' k \<longleftrightarrow> wakeable n k"
  by (auto simp: wakeable_def and_not_FUTEX)

lemma unblock_waiter_effect:
  assumes e: "\<not> exited (node K) me"
  shows "unblock_waiter me (Suc k) K = K\<lparr>node := node (unblock_waiter me (Suc k) K)\<rparr>"
    "exited (node (unblock_waiter me (Suc k) K)) = exited (node K)"
    "State (KThreads (node (unblock_waiter me (Suc k) K)) j) = woken_state me {k} (node K) j"
    "ipi_message (node (unblock_waiter me (Suc k) K)) = ipi_message (node K) @ wake_requests me [k] (node K)"
    "same_places (node K) (node (unblock_waiter me (Suc k) K))"
proof -
  define n1 where "n1 = Sched_Unblock me k SCHED_STATE_FUTEX (node K)"
  have n1: "exited n1 = exited (node K)" "\<And>j. SlotIndex (KThreads n1 j) = SlotIndex (KThreads (node K) j)"
      "\<And>j. pHWThread (KThreads n1 j) = pHWThread (KThreads (node K) j)" "\<And>j. ProcessorID (KThreads n1 j) = ProcessorID (KThreads (node K) j)"
      "\<And>j. State (KThreads n1 j) = (if j = k \<and> pHWThread (KThreads (node K) k) = me then State (KThreads (node K) k) AND NOT SCHED_STATE_FUTEX
         else State (KThreads (node K) j))"
      "ipi_message n1 = ipi_message (node K) @ (if pHWThread (KThreads (node K) k) \<noteq> me \<and> ProcessorID (KThreads (node K) k) < NUM_HWTHREADS
         then [(ProcessorID (KThreads (node K) k), IPI_handler_run_scheduler (Some k) SCHED_STATE_FUTEX)] else [])"
    using Unblock_FUTEX [OF e, of k]
    by (simp_all add: n1_def spi_add_def IPI_DeliverInterrupt_def Let_def upd_kthread_def upd_hwthread_def)
  have u: "unblock_waiter me (Suc k) K = (if wakeable (node K) k then
      (if ProcessorID (KThreads n1 k) = me then set_pending_yield (pCurrentThread (HWThreads n1 me)) (K\<lparr>node := n1\<rparr>) else K\<lparr>node := n1\<rparr>) else K)"
    by (auto simp: unblock_waiter_def GetKThreadFromTid_def wakeable_def on_node_def n1_def GetMyKThread_def Let_def)
  show "unblock_waiter me (Suc k) K = K\<lparr>node := node (unblock_waiter me (Suc k) K)\<rparr>"
    unfolding u by (simp add: set_pending_yield_def on_node_def)
  show "exited (node (unblock_waiter me (Suc k) K)) = exited (node K)"
    unfolding u by (simp add: set_pending_yield_def on_node_def upd_kthread_def n1)
  show st: "State (KThreads (node (unblock_waiter me (Suc k) K)) j) = woken_state me {k} (node K) j" for j
    unfolding u by (auto simp: set_pending_yield_def on_node_def upd_kthread_def n1 woken_state_def)
  show "ipi_message (node (unblock_waiter me (Suc k) K)) = ipi_message (node K) @ wake_requests me [k] (node K)"
    unfolding u by (auto simp: set_pending_yield_def on_node_def upd_kthread_def n1 wake_requests_def)
  have sl: "SlotIndex (KThreads (node (unblock_waiter me (Suc k) K)) j) = SlotIndex (KThreads (node K) j)" for j
    unfolding u by (auto simp: set_pending_yield_def on_node_def upd_kthread_def n1)
  have "wakeable (node (unblock_waiter me (Suc k) K)) j \<longleftrightarrow> wakeable (node K) j" for j
    by (rule wakeable_State [OF sl]) (simp add: st woken_state_def)
  then show "same_places (node K) (node (unblock_waiter me (Suc k) K))"
    unfolding same_places_def sl unfolding u by (auto simp: set_pending_yield_def on_node_def upd_kthread_def n1)
qed

lemma unblock_waiters_effect:
  assumes "\<not> exited (node K) me"
  shows "fold (unblock_waiter me) (map Suc ws) K = K\<lparr>node := node (fold (unblock_waiter me) (map Suc ws) K)\<rparr> \<and>
    (\<forall>j. State (KThreads (node (fold (unblock_waiter me) (map Suc ws) K)) j) = woken_state me (set ws) (node K) j) \<and>
    ipi_message (node (fold (unblock_waiter me) (map Suc ws) K)) = ipi_message (node K) @ wake_requests me ws (node K)"
  using assms
proof (induction ws arbitrary: K)
  case Nil
  then show ?case by (simp add: woken_state_def wake_requests_def)
next
  case (Cons k ws)
  define K1 where "K1 = unblock_waiter me (Suc k) K"
  note u = unblock_waiter_effect [OF Cons.prems, of k, folded K1_def]
  have e: "\<not> exited (node K1) me" using u(2) Cons.prems by simp
  note ih = Cons.IH [OF e]
  have "woken_state me (set ws) (node K1) j = woken_state me (set (k # ws)) (node K) j" for j
    using u(3) [of j] u(5) by (auto simp: woken_state_def same_places_def)
  moreover have "wake_requests me ws (node K1) = wake_requests me ws (node K)"
    using u(5) by (auto simp: wake_requests_def same_places_def)
  moreover have "wake_requests me (k # ws) (node K) = wake_requests me [k] (node K) @ wake_requests me ws (node K)"
    by (simp add: wake_requests_def)
  ultimately show ?case
    using ih u(1,4) by (simp add: K1_def [symmetric]) (metis Kernel.surjective Kernel.update_convs(1))
qed

text \<open>
  Waking on abstract queues: at most as many threads as the list of the operation holds. The
  result is the queues and the threads that are woken.
\<close>

definition requeues :: "u32 \<Rightarrow> bool" where
  "requeues operation \<longleftrightarrow> operation = FUTEX_REQUEUE \<or> operation = FUTEX_CMP_REQUEUE"

definition spec_wake ::
    "u32 \<Rightarrow> u64 \<Rightarrow> int \<Rightarrow> u64 \<Rightarrow> int \<Rightarrow> bool \<Rightarrow> (u64 \<Rightarrow> nat list) \<Rightarrow> (u64 \<Rightarrow> nat list) \<times> nat list" where
  "spec_wake operation v n v2 n2 test q =
     (let n = min n (int UNBLOCK_LIST_SIZE);
          ws = woken n (q v);
          q = wake_spec n v (if requeues operation then Some v2 else None) q;
          n2 = min n2 (int UNBLOCK_LIST_SIZE - int (length ws))
      in if operation = FUTEX_WAKE_OP \<and> test then (wake_spec n2 v2 None q, ws @ woken n2 (q v2)) else (q, ws))"

lemma woken_length: "m \<le> int b \<Longrightarrow> length (woken m q) \<le> b"
  by (simp add: woken_def)

lemma spec_wake_bound:
  assumes "spec_wake operation v n v2 n2 test q = (q', ws)"
  shows "length ws \<le> UNBLOCK_LIST_SIZE"
proof -
  define w1 where "w1 = woken (min n (int UNBLOCK_LIST_SIZE)) (q v)"
  have 1: "length w1 \<le> UNBLOCK_LIST_SIZE" unfolding w1_def by (rule woken_length) simp
  have 2: "length (woken (min n2 (int UNBLOCK_LIST_SIZE - int (length w1))) r) \<le> UNBLOCK_LIST_SIZE - length w1" for r
    by (rule woken_length) (use 1 in simp)
  have "ws = w1 \<or> (\<exists>r. ws = w1 @ woken (min n2 (int UNBLOCK_LIST_SIZE - int (length w1))) r)"
    using assms unfolding spec_wake_def Let_def w1_def [symmetric] by (metis prod.inject)
  with 1 show ?thesis
  proof (elim disjE exE)
    fix r assume "ws = w1 @ woken (min n2 (int UNBLOCK_LIST_SIZE - int (length w1))) r"
    with 1 2 [of r] show ?thesis by simp
  qed simp
qed

lemma woken_plus_left: "woken m q @ left m q = q"
  by (simp add: woken_def left_def)

lemma FUTEX_ops [simp]:
  "FUTEX_WAKE_OP \<noteq> FUTEX_CMP_REQUEUE" "FUTEX_WAKE_OP \<noteq> FUTEX_REQUEUE" "FUTEX_CMP_REQUEUE \<noteq> FUTEX_REQUEUE"
  "FUTEX_WAKE \<noteq> FUTEX_WAKE_OP" "FUTEX_WAKE \<noteq> FUTEX_REQUEUE" "FUTEX_WAKE \<noteq> FUTEX_CMP_REQUEUE"
  by (simp_all add: FUTEX_WAKE_OP_def FUTEX_CMP_REQUEUE_def FUTEX_REQUEUE_def FUTEX_WAKE_def)

lemmas FUTEX_ops_sym [simp] = FUTEX_ops [symmetric]

text \<open>The two parts of \<open>Futex_Wake\<close> under the lock: the first queue, and for a wake-up with an operation the second.\<close>

definition wake_first :: "futex_scope \<Rightarrow> u32 \<Rightarrow> u64 \<Rightarrow> int \<Rightarrow> u64 \<Rightarrow> Kernel \<Rightarrow> (Kernel \<times> (futex_error + nat list)) option" where
  "wake_first c operation v m v2 K =
     (let (K, futexTableEntry) = Futex_findTableEntry v c False K;
          requeueing = (futexTableEntry \<noteq> None \<and> requeues operation);
          (K, secondary) = (if requeueing then Futex_findTableEntry v2 c True K else (K, None))
      in if requeueing \<and> secondary = None then Some (K, Inl EAGAIN)
         else map_option (\<lambda>(K, ws). (K, Inr ws)) (Futex_WakeQueue c futexTableEntry m secondary K))"

definition wake_second :: "futex_scope \<Rightarrow> bool \<Rightarrow> u64 \<Rightarrow> int \<Rightarrow> nat list \<Rightarrow> Kernel \<Rightarrow> (Kernel \<times> nat list) option" where
  "wake_second c wakeSecondary v2 n2 ws K =
     (if wakeSecondary
      then map_option (\<lambda>(K, ws2). (K, ws @ ws2))
        (Futex_WakeQueue c (snd (Futex_findTableEntry v2 c False K)) (min n2 (int UNBLOCK_LIST_SIZE - int (length ws))) None K)
      else Some (K, ws))"

lemma Futex_Wake_parts:
  assumes "Futex_IsShared me v flags K = Some sh" "scope_of me sh K = Some c" "Lock_AtomicAcquire c K = Some (t, K1)"
    and "\<not> (flags AND FUTEX_CMD_MASK = FUTEX_CMP_REQUEUE \<and> words K1 v \<noteq> val3)"
    and "K2 = (if flags AND FUTEX_CMD_MASK = FUTEX_WAKE_OP then K1\<lparr>words := (words K1)(v2 := fst (wake_op val3 (words K1 v2)))\<rparr> else K1)"
    and "wake_first c (flags AND FUTEX_CMD_MASK) v (min n (int UNBLOCK_LIST_SIZE)) v2 K2 = Some (K3, Inr ws)"
    and "wake_second c (flags AND FUTEX_CMD_MASK = FUTEX_WAKE_OP \<and> snd (wake_op val3 (words K1 v2))) v2 n2 ws K3 = Some (K4, ws')"
  shows "Futex_Wake me flags v n v2 n2 val3 K =
    Some (fold (unblock_waiter me) (map Suc ws') (Lock_AtomicRelease c t K4), Inr (length ws'))"
proof -
  obtain e where e: "Futex_findTableEntry v c False K2 = (K2, e)" using findTableEntry_same [of v c K2] by (metis prod.collapse)
  obtain e2 where e2: "Futex_findTableEntry v2 c False K3 = (K3, e2)" using findTableEntry_same [of v2 c K3] by (metis prod.collapse)
  obtain KS sec where sec: "(if e \<noteq> None \<and> requeues (flags AND FUTEX_CMD_MASK) then Futex_findTableEntry v2 c True K2 else (K2, None)) = (KS, sec)"
    by (metis prod.collapse)
  have 1: "\<not> (e \<noteq> None \<and> requeues (flags AND FUTEX_CMD_MASK) \<and> sec = None)"
      "Futex_WakeQueue c e (min n (int UNBLOCK_LIST_SIZE)) sec KS = Some (K3, ws)"
    using assms(6) e sec by (auto simp: wake_first_def split: if_splits option.splits)
  obtain nv test where op: "wake_op val3 (words K1 v2) = (nv, test)" by fastforce
  have K2: "K2 = (if flags AND FUTEX_CMD_MASK = FUTEX_WAKE_OP then K1\<lparr>words := (words K1)(v2 := nv)\<rparr> else K1)"
    using assms(5) op by simp
  have 2: "if flags AND FUTEX_CMD_MASK = FUTEX_WAKE_OP \<and> test
      then \<exists>ws2. Futex_WakeQueue c e2 (min n2 (int UNBLOCK_LIST_SIZE - int (length ws))) None K3 = Some (K4, ws2) \<and> ws' = ws @ ws2
      else K4 = K3 \<and> ws' = ws"
    using assms(7) e2 op by (auto simp: wake_second_def split: if_splits)
  have 3: "\<not> (flags AND FUTEX_CMD_MASK = FUTEX_CMP_REQUEUE \<and> words K1 v \<noteq> val3)" by (fact assms(4))
  note go = if_not_P [OF 3]
  show ?thesis
  proof (cases "e \<noteq> None \<and> requeues (flags AND FUTEX_CMD_MASK)")
    case True
    then have "Futex_findTableEntry v2 c True K2 = (KS, sec)" "sec \<noteq> None" using sec 1(1) by simp_all
    then show ?thesis
      using assms(1-3) e True 1(2) 2 e2
      by (auto simp add: Futex_Wake_def go op K2 [symmetric] requeues_def [symmetric] Let_def del: not_None_eq split: if_splits)
  next
    case False
    then have "KS = K2" "sec = None" using sec by auto
    then show ?thesis
      using assms(1-3) e False 1(2) 2 e2
      by (auto simp add: Futex_Wake_def go op K2 [symmetric] requeues_def [symmetric] Let_def del: not_None_eq split: if_splits)
  qed
qed

lemma wake_first_rep:
  assumes r: "futex_rep none qs K" and v: "v \<noteq> 0" "requeues operation \<Longrightarrow> v2 \<noteq> 0 \<and> v2 \<noteq> v" and k: "k < NUM_KTHREADS" "k \<notin> queued qs"
  shows "\<exists>T kw. wake_first c operation v m v2 K = Some (K\<lparr>Futex_Table := T, kwait := kw\<rparr>, Inr (woken m (qs c v))) \<and>
    futex_rep none (qs(c := wake_spec m v (if requeues operation then Some v2 else None) (qs c))) (K\<lparr>Futex_Table := T, kwait := kw\<rparr>)"
proof (cases "requeues operation \<and> qs c v \<noteq> []")
  case True
  with requeue_at [OF r v(1) _ _ _ k, of v2 c m] v(2) obtain i j T T' kw where
    "Futex_findTableEntry v c False K = (K, Some i)" "Futex_findTableEntry v2 c True K = (K\<lparr>Futex_Table := T\<rparr>, Some j)"
    "Futex_WakeQueue c (Some i) m (Some j) (K\<lparr>Futex_Table := T\<rparr>) = Some (K\<lparr>Futex_Table := T', kwait := kw\<rparr>, woken m (qs c v))"
    "futex_rep none (qs(c := wake_spec m v (Some v2) (qs c))) (K\<lparr>Futex_Table := T', kwait := kw\<rparr>)"
    by blast
  with True show ?thesis by (intro exI [of _ T'] exI [of _ kw]) (simp add: wake_first_def)
next
  case False
  obtain e T kw where e: "Futex_findTableEntry v c False K = (K, e)" "e = None \<longleftrightarrow> qs c v = []"
      "Futex_WakeQueue c e m None K = Some (K\<lparr>Futex_Table := T, kwait := kw\<rparr>, woken m (qs c v))"
      "futex_rep none (qs(c := wake_spec m v None (qs c))) (K\<lparr>Futex_Table := T, kwait := kw\<rparr>)"
    using WakeQueue_at [OF r v(1), of c m] by blast
  have "wake_spec m v (if requeues operation then Some v2 else None) (qs c) = wake_spec m v None (qs c)"
    using False wake_spec_none [of "qs c" v m] by auto
  with e False show ?thesis by (intro exI [of _ T] exI [of _ kw]) (auto simp: wake_first_def)
qed

lemma wake_second_rep:
  assumes r: "futex_rep none qs K" and v2: "test \<Longrightarrow> v2 \<noteq> 0"
  shows "\<exists>T kw. wake_second c test v2 n2 ws K = Some (K\<lparr>Futex_Table := T, kwait := kw\<rparr>,
      if test then ws @ woken (min n2 (int UNBLOCK_LIST_SIZE - int (length ws))) (qs c v2) else ws) \<and>
    futex_rep none (if test then qs(c := wake_spec (min n2 (int UNBLOCK_LIST_SIZE - int (length ws))) v2 None (qs c)) else qs)
      (K\<lparr>Futex_Table := T, kwait := kw\<rparr>)"
proof (cases test)
  case True
  let ?m = "min n2 (int UNBLOCK_LIST_SIZE - int (length ws))"
  obtain e T kw where "Futex_findTableEntry v2 c False K = (K, e)"
      "Futex_WakeQueue c e ?m None K = Some (K\<lparr>Futex_Table := T, kwait := kw\<rparr>, woken ?m (qs c v2))"
      "futex_rep none (qs(c := wake_spec ?m v2 None (qs c))) (K\<lparr>Futex_Table := T, kwait := kw\<rparr>)"
    using WakeQueue_at [OF r v2 [OF True], of c ?m] by blast
  with True show ?thesis by (intro exI [of _ T] exI [of _ kw]) (simp add: wake_second_def)
next
  case False
  with r show ?thesis by (intro exI [of _ "Futex_Table K"] exI [of _ "kwait K"]) (simp add: wake_second_def)
qed

lemma Futex_Wake_rep:
  assumes i: "futex_inv qs K" and s: "Futex_IsShared me v flags K = Some sh" "scope_of me sh K = Some c"
    and op: "operation = flags AND FUTEX_CMD_MASK"
    and v: "v \<noteq> 0" "requeues operation \<Longrightarrow> v2 \<noteq> 0 \<and> v2 \<noteq> v" "operation = FUTEX_WAKE_OP \<Longrightarrow> v2 \<noteq> 0"
    and k: "k < NUM_KTHREADS" "k \<notin> queued qs" and e: "\<not> exited (node K) me"
    and w: "spec_wake operation v n v2 n2 (snd (wake_op val3 (words K v2))) (qs c) = (q', ws)"
  shows "\<exists>K'. if operation = FUTEX_CMP_REQUEUE \<and> words K v \<noteq> val3
    then Futex_Wake me flags v n v2 n2 val3 K = Some (K', Inl EAGAIN) \<and> futex_inv qs K' \<and> node K' = node K \<and> words K' = words K
    else Futex_Wake me flags v n v2 n2 val3 K = Some (K', Inr (length ws)) \<and> futex_inv (qs(c := q')) K' \<and>
      length ws \<le> UNBLOCK_LIST_SIZE \<and> (\<forall>j. State (KThreads (node K') j) = woken_state me (set ws) (node K) j) \<and>
      ipi_message (node K') = ipi_message (node K) @ wake_requests me ws (node K) \<and>
      words K' = (if operation = FUTEX_WAKE_OP then (words K)(v2 := fst (wake_op val3 (words K v2))) else words K)"
proof -
  define K1 where "K1 = K\<lparr>FutexLock := (FutexLock K)(c := FutexLock K c + 1)\<rparr>"
  have r1: "futex_rep none qs K1" using i futex_rep_cong [of none qs K K1] by (simp add: futex_inv_def K1_def)
  note a = futex_inv_acquire [OF i, of c, folded K1_def]
  show ?thesis
  proof (cases "operation = FUTEX_CMP_REQUEUE \<and> words K v \<noteq> val3")
    case True
    have "futex_inv qs (Lock_AtomicRelease c (FutexLock K c) K1)" by (rule futex_inv_release [OF i r1]) (simp_all add: K1_def)
    moreover have "Futex_Wake me flags v n v2 n2 val3 K = Some (Lock_AtomicRelease c (FutexLock K c) K1, Inl EAGAIN)"
      using True s a op by (simp add: Futex_Wake_def K1_def)
    ultimately show ?thesis using True by (simp add: Lock_AtomicRelease_def K1_def)
  next
    case False
    define test where "test = (operation = FUTEX_WAKE_OP \<and> snd (wake_op val3 (words K v2)))"
    define K2 where "K2 = (if operation = FUTEX_WAKE_OP then K1\<lparr>words := (words K1)(v2 := fst (wake_op val3 (words K1 v2)))\<rparr> else K1)"
    have r2: "futex_rep none qs K2" by (rule futex_rep_cong [OF r1]) (simp_all add: K2_def)
    let ?n = "min n (int UNBLOCK_LIST_SIZE)" and ?sec = "if requeues operation then Some v2 else None"
    obtain T kw where f: "wake_first c operation v ?n v2 K2 = Some (K2\<lparr>Futex_Table := T, kwait := kw\<rparr>, Inr (woken ?n (qs c v)))"
        "futex_rep none (qs(c := wake_spec ?n v ?sec (qs c))) (K2\<lparr>Futex_Table := T, kwait := kw\<rparr>)"
      using wake_first_rep [OF r2 v(1,2) k] by blast
    have "test \<Longrightarrow> v2 \<noteq> 0" using v(3) by (simp add: test_def)
    from wake_second_rep [OF f(2) this, where c = c and ?n2.0 = n2 and ws = "woken ?n (qs c v)" and test = test] w
    obtain T' kw' where g: "wake_second c test v2 n2 (woken ?n (qs c v)) (K2\<lparr>Futex_Table := T, kwait := kw\<rparr>) =
          Some (K2\<lparr>Futex_Table := T', kwait := kw'\<rparr>, ws)"
        "futex_rep none (qs(c := q')) (K2\<lparr>Futex_Table := T', kwait := kw'\<rparr>)"
      by (auto simp: spec_wake_def Let_def test_def [symmetric] split: if_splits)
    define K4 where "K4 = Lock_AtomicRelease c (FutexLock K c) (K2\<lparr>Futex_Table := T', kwait := kw'\<rparr>)"
    have K4: "node K4 = node K" "words K4 = words K2" by (simp_all add: K4_def K2_def K1_def Lock_AtomicRelease_def)
    have i4: "futex_inv (qs(c := q')) K4"
      unfolding K4_def by (rule futex_inv_release [OF i g(2)]) (simp_all add: K2_def K1_def)
    have "Futex_Wake me flags v n v2 n2 val3 K = Some (fold (unblock_waiter me) (map Suc ws) K4, Inr (length ws))"
      unfolding K4_def by (rule Futex_Wake_parts [OF s a _ K2_def [unfolded op] f(1) [unfolded op]])
        (use False op g(1) in \<open>auto simp: test_def K1_def\<close>)
    moreover note u = unblock_waiters_effect [of K4 me ws, unfolded K4(1), OF e]
    moreover have "futex_inv (qs(c := q')) (fold (unblock_waiter me) (map Suc ws) K4)"
      by (rule futex_inv_cong [OF i4]) (use u in \<open>metis Kernel.select_convs Kernel.surjective Kernel.update_convs(1)\<close>)+
    moreover have "words (fold (unblock_waiter me) (map Suc ws) K4) = words K2"
      using u K4(2) by (metis Kernel.select_convs(6) Kernel.surjective Kernel.update_convs(1))
    ultimately show ?thesis using False spec_wake_bound [OF w] by (auto simp: K2_def K1_def)
  qed
qed



end
