(* ===== verification/CnkFutexReturn.thy ===== *)
theory CnkFutexReturn
  imports CnkFutexSpec
begin

text \<open>
  Threads that leave a queue early, and which calls return: every call from a consistent state does,
  except for a requeue of an address to itself.
\<close>

section \<open>Leaving a queue early\<close>

lemma fail_waiter_fields: "FutexVAddr (fail_waiter e w) = 0 \<and> FutexTimeout (fail_waiter e w) = 0"
  by (simp add: fail_waiter_def)

lemma Futex_Interrupt_rep:
  assumes i: "futex_inv qs K" and k: "k \<in> set (qs c v)" and s: "scope_of me (FutexIsShared (kwait K k)) K = Some c"
  shows "\<exists>K'. Futex_Interrupt me k K = Some K' \<and> futex_inv (qs(c := (qs c)(v := remove1 k (qs c v)))) K' \<and>
    Reg_gpr3 (kwait K' k) = EINTR \<and> node K' = Sched_Unblock me k SCHED_STATE_FUTEX (node K)"
proof -
  define K1 where "K1 = K\<lparr>FutexLock := (FutexLock K)(c := FutexLock K c + 1)\<rparr>"
  have r1: "futex_rep none qs K1" using i futex_rep_cong [of none qs K K1] by (simp add: futex_inv_def K1_def)
  note a = futex_inv_acquire [OF i, of c, folded K1_def]
  obtain T kw where u: "unlink_waiter c k K1 = Some (K1\<lparr>Futex_Table := T, kwait := kw\<rparr>)"
      "futex_rep none (qs(c := (qs c)(v := remove1 k (qs c v)))) (upd_kwait k (fail_waiter EINTR) (K1\<lparr>Futex_Table := T, kwait := kw\<rparr>))"
    using unlink_waiter_rep [where g = "fail_waiter EINTR", OF r1 k fail_waiter_fields] by blast
  define K2 where "K2 = upd_kwait k (fail_waiter EINTR) (K1\<lparr>Futex_Table := T, kwait := kw\<rparr>)"
  define K3 where "K3 = on_node (Sched_Unblock me k SCHED_STATE_FUTEX) (Lock_AtomicRelease c (FutexLock K c) K2)"
  have "Futex_Interrupt me k K = Some K3" using s a u(1) by (simp add: Futex_Interrupt_def K3_def K2_def Let_def)
  moreover have "futex_inv (qs(c := (qs c)(v := remove1 k (qs c v)))) (Lock_AtomicRelease c (FutexLock K c) K2)"
    by (rule futex_inv_release [OF i u(2) [folded K2_def]]) (simp_all add: K2_def K1_def upd_kwait_def)
  then have "futex_inv (qs(c := (qs c)(v := remove1 k (qs c v)))) K3" by (rule futex_inv_cong) (simp_all add: K3_def on_node_def)
  ultimately show ?thesis by (simp add: K3_def K2_def K1_def on_node_def upd_kwait_def Lock_AtomicRelease_def fail_waiter_def)
qed

lemma Futex_Interrupt_not_waiting:
  assumes i: "futex_inv qs K" and k: "k \<notin> queued qs" and s: "scope_of me (FutexIsShared (kwait K k)) K = Some c"
  shows "\<exists>K'. Futex_Interrupt me k K = Some K' \<and> futex_inv qs K'"
proof -
  define K1 where "K1 = K\<lparr>FutexLock := (FutexLock K)(c := FutexLock K c + 1)\<rparr>"
  have r1: "futex_rep none qs K1" using i futex_rep_cong [of none qs K K1] by (simp add: futex_inv_def K1_def)
  note a = futex_inv_acquire [OF i, of c, folded K1_def]
  define K2 where "K2 = upd_kwait k (fail_waiter EINTR) K1"
  define K3 where "K3 = on_node (Sched_Unblock me k SCHED_STATE_FUTEX) (Lock_AtomicRelease c (FutexLock K c) K2)"
  have "Futex_Interrupt me k K = Some K3"
    using s a unlink_waiter_none [OF r1 k] by (simp add: Futex_Interrupt_def K3_def K2_def Let_def)
  moreover have r2: "futex_rep none qs K2"
  proof -
    have n: "j \<noteq> k" if "j \<in> set (qs c' v')" for j c' v' using k that by (auto simp: queued_def)
    have w: "kwait K2 j = (if j = k then fail_waiter EINTR (kwait K1 k) else kwait K1 j)" for j by (simp add: K2_def upd_kwait_def)
    have "table_rep {} (Futex_Table K2 c') (kwait K2) (qs c')" for c'
      using table_rep_links [OF futex_repD(1) [OF r1, of c'], of "kwait K2"] n w by (simp add: K2_def upd_kwait_def)
    then show ?thesis
      unfolding futex_rep_def w using n futex_repD(2-4) [OF r1] fail_waiter_fields by simp
  qed
  then have "futex_inv qs (Lock_AtomicRelease c (FutexLock K c) K2)"
    by (intro futex_inv_release [OF i]) (simp_all add: K2_def K1_def upd_kwait_def)
  then have "futex_inv qs K3" by (rule futex_inv_cong) (simp_all add: K3_def on_node_def)
  ultimately show ?thesis by blast
qed

lemma Futex_CheckTimeout_rep:
  assumes i: "futex_inv qs K" and k: "k \<in> set (qs c v)" and s: "scope_of me (FutexIsShared (kwait K k)) K = Some c"
    and t: "FutexTimeout (kwait K k) \<noteq> 0"
  shows "\<exists>K'. if FutexTimeout (kwait K k) \<le> now
    then Futex_CheckTimeout me now k K = Some (K', True, 0) \<and> futex_inv (qs(c := (qs c)(v := remove1 k (qs c v)))) K' \<and>
      Reg_gpr3 (kwait K' k) = ETIMEDOUT \<and> node K' = Sched_Unblock me k SCHED_STATE_FUTEX (node K)
    else Futex_CheckTimeout me now k K = Some (K', False, FutexTimeout (kwait K k)) \<and> futex_inv qs K' \<and> node K' = node K \<and> kwait K' = kwait K"
proof -
  define K1 where "K1 = K\<lparr>FutexLock := (FutexLock K)(c := FutexLock K c + 1)\<rparr>"
  have r1: "futex_rep none qs K1" using i futex_rep_cong [of none qs K K1] by (simp add: futex_inv_def K1_def)
  note a = futex_inv_acquire [OF i, of c, folded K1_def]
  have s1: "scope_of me (FutexIsShared (kwait K1 k)) K1 = Some c" using s scope_of_cong [of K1 K] by (simp add: K1_def)
  show ?thesis
  proof (cases "FutexTimeout (kwait K k) \<le> now")
    case True
    obtain T kw where u: "unlink_waiter c k K1 = Some (K1\<lparr>Futex_Table := T, kwait := kw\<rparr>)"
        "futex_rep none (qs(c := (qs c)(v := remove1 k (qs c v)))) (upd_kwait k (fail_waiter ETIMEDOUT) (K1\<lparr>Futex_Table := T, kwait := kw\<rparr>))"
      using unlink_waiter_rep [where g = "fail_waiter ETIMEDOUT", OF r1 k fail_waiter_fields] by blast
    define K2 where "K2 = on_node (Sched_Unblock me k SCHED_STATE_FUTEX) (upd_kwait k (fail_waiter ETIMEDOUT) (K1\<lparr>Futex_Table := T, kwait := kw\<rparr>))"
    have "Futex_Timeout me k K1 = Some K2" using s1 u(1) by (simp add: Futex_Timeout_def K2_def Let_def)
    then have "Futex_CheckTimeout me now k K = Some (Lock_AtomicRelease c (FutexLock K c) K2, True, 0)"
      using s a t True by (simp add: Futex_CheckTimeout_def Let_def) (simp add: K1_def)
    moreover have "futex_inv (qs(c := (qs c)(v := remove1 k (qs c v)))) (Lock_AtomicRelease c (FutexLock K c) K2)"
      by (rule futex_inv_release [OF i futex_rep_cong [OF u(2)]]) (simp_all add: K2_def K1_def upd_kwait_def on_node_def)
    ultimately show ?thesis
      using True by (simp add: K2_def K1_def on_node_def upd_kwait_def Lock_AtomicRelease_def fail_waiter_def)
  next
    case False
    then have "Futex_CheckTimeout me now k K = Some (Lock_AtomicRelease c (FutexLock K c) K1, False, FutexTimeout (kwait K k))"
      using s a t by (simp add: Futex_CheckTimeout_def Let_def) (simp add: K1_def)
    moreover have "futex_inv qs (Lock_AtomicRelease c (FutexLock K c) K1)" by (rule futex_inv_release [OF i r1]) (simp_all add: K1_def)
    ultimately show ?thesis using False by (simp add: Lock_AtomicRelease_def K1_def)
  qed
qed


definition demo_timed :: Kernel where
  "demo_timed = upd_kwait 7 (\<lambda>w. w\<lparr>FutexTimeout := 50\<rparr>) demo_kernel"

lemma demo_timed_inv: "futex_inv demo_queues demo_timed"
proof -
  have w: "kwait demo_timed j = (if j = 7 then (kwait demo_kernel 7)\<lparr>FutexTimeout := 50\<rparr> else kwait demo_kernel j)" for j
    by (simp add: demo_timed_def upd_kwait_def)
  have r: "futex_rep none demo_queues demo_kernel" using demo_futex_inv by (simp add: futex_inv_def)
  have "table_rep {} (Futex_Table demo_timed c) (kwait demo_timed) (demo_queues c)" for c
    using table_rep_links [OF futex_repD(1) [OF r, of c], of "kwait demo_timed"] w by (simp add: demo_timed_def upd_kwait_def)
  then have "futex_rep none demo_queues demo_timed"
    unfolding futex_rep_def w using futex_repD(2-4) [OF r] by (auto simp: demo_queued)
  with demo_futex_inv show ?thesis by (simp add: futex_inv_def demo_timed_def upd_kwait_def)
qed


section \<open>A requeue that does not return\<close>

text \<open>Threads whose links lead around in a circle.\<close>

definition endless :: "(nat \<Rightarrow> KWait) \<Rightarrow> nat set \<Rightarrow> bool" where
  "endless kw A \<longleftrightarrow> (\<forall>k \<in> A. \<exists>k' \<in> A. FutexQueueNext (kw k) = Some k')"

lemma relabel_endless:
  assumes r: "relabel c j p K = Some K'"
  shows "\<forall>k A. p = Some k \<and> k \<in> A \<longrightarrow> \<not> endless (kwait K) A"
proof (rule relabel.raw_induct [where P = "\<lambda>c j p K K'. \<forall>k A. p = Some k \<and> k \<in> A \<longrightarrow> \<not> endless (kwait K) A", OF _ r], intro allI impI notI)
  fix relabel' c j p K K' k A
  assume ih: "\<And>c j p K K'. relabel' c j p K = Some K' \<Longrightarrow> \<forall>k A. p = Some k \<and> k \<in> A \<longrightarrow> \<not> endless (kwait K) A"
    and b: "(case p of None \<Rightarrow> Some K
      | Some k \<Rightarrow> relabel' c j (FutexQueueNext (kwait K k)) (upd_kwait k (\<lambda>w. w\<lparr>FutexVAddr := futex_vaddr (Futex_Table K c j),
          FutexValue := words K (futex_vaddr (Futex_Table K c j))\<rparr>) K)) = Some (K' :: Kernel)"
    and p: "p = Some k \<and> k \<in> A" and e: "endless (kwait K) A"
  obtain k' where k': "k' \<in> A" "FutexQueueNext (kwait K k) = Some k'" using p e by (auto simp: endless_def)
  define K1 where "K1 = upd_kwait k (\<lambda>w. w\<lparr>FutexVAddr := futex_vaddr (Futex_Table K c j),
      FutexValue := words K (futex_vaddr (Futex_Table K c j))\<rparr>) K"
  have "relabel' c j (Some k') K1 = Some K'" using b p k'(2) by (simp add: K1_def)
  moreover have "endless (kwait K1) A" using e by (auto simp: endless_def K1_def upd_kwait_def)
  ultimately show False using ih k'(1) by blast
qed

lemma chain_links: "chain kw p (ks @ k # k' # ls) \<Longrightarrow> FutexQueueNext (kw k) = Some k'"
  by (induction ks arbitrary: p) auto

lemma endless_ring:
  assumes "chain kw p (ks @ [l])" "kw' = kw(l := (kw l)\<lparr>FutexQueueNext := p\<rparr>)"
  shows "endless kw' (set (ks @ [l]))"
  unfolding endless_def
proof
  fix k assume "k \<in> set (ks @ [l])"
  then consider "k = l" | xs ys where "k \<noteq> l" "ks = xs @ k # ys" by (auto simp: in_set_conv_decomp)
  then show "\<exists>k' \<in> set (ks @ [l]). FutexQueueNext (kw' k) = Some k'"
  proof cases
    case 1
    with assms show ?thesis using chain_head [OF assms(1)] by (cases ks) auto
  next
    case 2
    with assms have "FutexQueueNext (kw k) = Some (hd (ys @ [l]))" using chain_links [of kw p xs k "hd (ys @ [l])" "tl (ys @ [l])"] by simp
    with 2 assms(2) show ?thesis by (cases ys) auto
  qed
qed

text \<open>A queue that is requeued to its own address becomes a ring.\<close>

lemma requeue_self:
  assumes r: "futex_rep E qs K" and i: "i < NUM_FUTEX" "futex_vaddr (Futex_Table K c i) = v" and q: "qs c v = x # xs"
  shows "requeue c i i x K = None"
proof -
  note ch = futex_rep_chain [OF r i]
  define l where "l = last (x # xs)"
  define kw where "kw = (kwait K)(l := (kwait K l)\<lparr>FutexQueueNext := Some x\<rparr>)"
  have c: "chain (kwait K) (Some x) (butlast (x # xs) @ [l])" using ch q by (simp add: l_def del: butlast.simps last.simps)
  have "endless kw (set (butlast (x # xs) @ [l]))" by (rule endless_ring [OF c]) (simp add: kw_def)
  moreover have "set (butlast (x # xs) @ [l]) = set (x # xs)" by (simp add: l_def del: butlast.simps last.simps)
  ultimately have e: "endless kw (set (x # xs))" by simp
  define K1 where "K1 = upd_kwait l (\<lambda>w. w\<lparr>FutexQueueNext := Some x\<rparr>) (upd_entry c i (\<lambda>e. e\<lparr>pKThr_Waiter_Next := None\<rparr>) K)"
  have "kwait K1 = kw" by (simp add: K1_def kw_def upd_kwait_def upd_entry_def)
  then have "relabel c i (Some x) K1 = None" using relabel_endless [of c i "Some x" K1] e by (cases "relabel c i (Some x) K1") auto
  moreover have "queue_last (kwait K) x = Some l" "pKThr_Waiter_Next (Futex_Table K c i) = Some x"
    using queue_last_chain [of "kwait K" x xs] ch q by (simp_all add: l_def)
  ultimately show ?thesis by (simp add: requeue_def K1_def Let_def)
qed

lemma wake_loop_self:
  assumes "futex_rep E qs K" "i < NUM_FUTEX" "futex_vaddr (Futex_Table K c i) = v" "v \<noteq> 0" "i \<in> E c"
    "qs c v \<noteq> []" "m - int (length ws) < int (length (qs c v))"
  shows "wake_loop c i m (Some i) ws K = None"
  using assms
proof (induction "qs c v" arbitrary: qs K ws)
  case (Cons x xs)
  note q = Cons.hyps(2) [symmetric]
  have p: "pKThr_Waiter_Next (Futex_Table K c i) = Some x" using futex_rep_chain [OF Cons.prems(1-3)] q by simp
  show ?case
  proof (cases "int (length ws) < m")
    case True
    define qs1 where "qs1 = qs(c := (qs c)(v := xs))"
    have r1: "futex_rep E qs1 (wake_waiter c i x K)" unfolding qs1_def by (rule wake_waiter_rep [OF Cons.prems(1-5) q])
    have "wake_loop c i m (Some i) (ws @ [x]) (wake_waiter c i x K) = None"
      by (rule Cons.hyps(1) [of qs1, OF _ r1]) (use Cons.prems(2-7) True q in \<open>auto simp: qs1_def\<close>)
    with p True show ?thesis by (subst wake_loop.simps) simp
  next
    case False
    with p requeue_self [OF Cons.prems(1-3) q] show ?thesis by (subst wake_loop.simps) simp
  qed
qed simp

text \<open>C35: a requeue to the address itself does not return, and keeps the lock, when more threads wait
  than are to be woken: the queue is pasted behind its own last thread and becomes a ring.\<close>

theorem requeue_to_itself_never_returns:
  assumes i: "futex_inv qs K" and s: "Futex_IsShared me v flags K = Some sh" "scope_of me sh K = Some c"
    and op: "flags AND FUTEX_CMD_MASK = FUTEX_REQUEUE \<or> flags AND FUTEX_CMD_MASK = FUTEX_CMP_REQUEUE \<and> words K v = val3"
    and v: "v \<noteq> 0" "qs c v \<noteq> []" "min n (int UNBLOCK_LIST_SIZE) < int (length (qs c v))"
  shows "Futex_Wake me flags v n v n2 val3 K = None"
proof -
  define K1 where "K1 = K\<lparr>FutexLock := (FutexLock K)(c := FutexLock K c + 1)\<rparr>"
  have r1: "futex_rep none qs K1" using i futex_rep_cong [of none qs K K1] by (simp add: futex_inv_def K1_def)
  note a = futex_inv_acquire [OF i, of c, folded K1_def]
  obtain e where e: "e < NUM_FUTEX" "Futex_findTableEntry v c False K1 = (K1, Some e)" "futex_vaddr (Futex_Table K1 c e) = v"
    using findTableEntry_present [OF r1 v(1,2)] by blast
  have e': "Futex_findTableEntry v c True K1 = (K1, Some e)"
    using e(2) by (auto simp: Futex_findTableEntry_def split: option.splits)
  have "futex_rep (none(c := {e})) qs K1" using r1 by (rule futex_rep_mono) simp
  from wake_loop_self [OF this e(1,3) v(1), of "min n (int UNBLOCK_LIST_SIZE)" "[]"] v(2,3)
  have "wake_loop c e (min n (int UNBLOCK_LIST_SIZE)) (Some e) [] K1 = None" by simp
  then have w: "Futex_WakeQueue c (Some e) (min n (int UNBLOCK_LIST_SIZE)) (Some e) K1 = None" by (simp add: Futex_WakeQueue_def)
  have wds: "words K1 = words K" by (simp add: K1_def)
  show ?thesis
    using op s a e(2) e' w wds by (auto simp: Futex_Wake_def Let_def split: prod.splits)
qed

theorem requeue_to_itself_never_returns_witness: "Futex_Wake 0 3 256 1 256 (-1) 0 demo_kernel = None"
proof -
  have "Futex_IsShared 0 256 3 demo_kernel = Some False" by code_simp
  from requeue_to_itself_never_returns [OF demo_futex_inv this demo_scope(2), of 0 1 "-1"] show ?thesis
    by (simp add: demo_queues_def UNBLOCK_LIST_SIZE_def FUTEX_CMD_MASK_def FUTEX_REQUEUE_def)
qed

section \<open>The system call returns\<close>

lemma scope_exists:
  assumes "GetMyProcess me K = Some a"
  obtains sh c where "Futex_IsShared me v flags K = Some sh" "scope_of me sh K = Some c"
proof -
  have "\<exists>sh. Futex_IsShared me v flags K = Some sh" using assms by (auto simp: Futex_IsShared_def)
  moreover have "\<exists>c. scope_of me sh K = Some c" for sh using assms by (simp add: scope_of_def)
  ultimately show thesis using that by blast
qed

lemma FUTEX_WAIT_ops [simp]: "FUTEX_WAIT \<noteq> FUTEX_WAKE" "FUTEX_WAIT \<noteq> FUTEX_WAKE_OP"
  by (simp_all add: FUTEX_WAIT_def FUTEX_WAKE_def FUTEX_WAKE_OP_def)

text \<open>C34: from a state with consistent queues and free locks the system call returns for all its
  operations and arguments, and leaves consistent queues and free locks, provided that an
  operation on two addresses is given a second address that is not NULL and, for a requeue,
  is not the first one.\<close>

theorem sc_futex_returns:
  assumes i: "futex_inv qs K" and k: "k = GetMyKThread me K" "pHWThread (KThreads (node K) k) = me" "k < NUM_KTHREADS" "k \<notin> queued qs"
    and a: "GetMyProcess me K = Some a" and e: "\<not> exited (node K) me" and app: "\<not> is_app 0 4"
    and op: "operation = ucast r4 AND FUTEX_CMD_MASK" "requeues operation \<Longrightarrow> r7 \<noteq> 0 \<and> r7 \<noteq> r3" "operation = FUTEX_WAKE_OP \<Longrightarrow> r7 \<noteq> 0"
  shows "\<exists>K' res qs'. sc_futex is_app me now r3 r4 r5 r6 r7 r8 K = Some (K', res) \<and> futex_inv qs' K'"
proof (cases "is_app r3 4")
  case False
  then show ?thesis using i by (auto simp: sc_futex_def Let_def)
next
  case True
  then have v: "r3 \<noteq> 0" using app by auto
  obtain sh c where s: "Futex_IsShared me r3 (ucast r4) K = Some sh" "scope_of me sh K = Some c" using scope_exists [OF a] .
  have wait: "\<exists>K' res qs'. Futex_Wait me (ucast r4) k r3 val t now K = Some (K', res) \<and> futex_inv qs' K'" for val t
    using Futex_Wait_rep [OF i s v k, of val t now] by (metis (full_types))
  have wake: "\<exists>K' res qs'. Futex_Wake me (ucast r4) r3 n v2 n2 val3 K = Some (K', res) \<and> futex_inv qs' K'"
    if "requeues operation \<Longrightarrow> v2 \<noteq> 0 \<and> v2 \<noteq> r3" "operation = FUTEX_WAKE_OP \<Longrightarrow> v2 \<noteq> 0" for n v2 n2 val3
  proof -
    obtain q' ws where w: "spec_wake operation r3 n v2 n2 (snd (wake_op val3 (words K v2))) (qs c) = (q', ws)" by fastforce
    show ?thesis using Futex_Wake_rep [OF i s op(1) v that k(3,4) e w] by (metis (full_types))
  qed
  consider "operation = FUTEX_WAIT" | "operation = FUTEX_WAKE" | "operation = FUTEX_WAKE_OP" | "requeues operation"
    | "operation \<noteq> FUTEX_WAIT" "operation \<noteq> FUTEX_WAKE" "operation \<noteq> FUTEX_WAKE_OP" "\<not> requeues operation" by blast
  then show ?thesis
  proof cases
    case 1
    then show ?thesis
      using True wait i k(1) op(1) by (auto simp: sc_futex_def Let_def split: prod.splits)
  next
    case 2
    then have "\<not> requeues operation" "operation \<noteq> FUTEX_WAKE_OP" by (simp_all add: requeues_def)
    with 2 True wake [of 0] show ?thesis by (auto simp: sc_futex_def Let_def op(1) [symmetric] FUTEX_WAIT_ops(1) [symmetric])
  next
    case 3
    then have "\<not> requeues operation" by (simp add: requeues_def)
    with 3 True wake [of r7] op(3) show ?thesis by (auto simp: sc_futex_def Let_def op(1) [symmetric] FUTEX_WAIT_ops(2) [symmetric])
  next
    case 4
    then have "operation \<noteq> FUTEX_WAIT" "operation \<noteq> FUTEX_WAKE" "operation \<noteq> FUTEX_WAKE_OP" "operation = FUTEX_REQUEUE \<or> operation = FUTEX_CMP_REQUEUE"
      by (auto simp: requeues_def FUTEX_WAIT_def FUTEX_WAKE_def FUTEX_WAKE_OP_def FUTEX_REQUEUE_def FUTEX_CMP_REQUEUE_def)
    with 4 True wake [of r7] op(2) show ?thesis by (auto simp: sc_futex_def Let_def op(1) [symmetric])
  next
    case 5
    with True i show ?thesis by (auto simp: sc_futex_def Let_def op(1) [symmetric] requeues_def)
  qed
qed

theorem sc_futex_returns_witness:
  "\<exists>K' res qs'. sc_futex (\<lambda>a _. a \<noteq> 0) 0 100 256 3 1 0 512 0 demo_kernel = Some (K', res) \<and> futex_inv qs' K'"
  by (rule sc_futex_returns [OF demo_futex_inv demo_caller(1-4) demo_scope(3) demo_caller(5) _ refl]) simp_all

end
