(* ===== verification/CnkFutexHistory.thy ===== *)
theory CnkFutexHistory
  imports CnkFutexReturn "HOL-Library.Sublist"
begin

text \<open>
  The order of wake-ups over a history of futex operations. An interface describes a queue of
  threads that some steps of a system empty from the front; its client is the order of wake-ups
  over any number of steps. The futexes of the kernel implement it.
\<close>

section \<open>Queues that are served in order\<close>

text \<open>The steps of a history, with the threads that were woken and the ones that came.\<close>

inductive history ::
    "('s \<Rightarrow> bool \<Rightarrow> 's \<Rightarrow> bool) \<Rightarrow> ('s \<Rightarrow> 's \<Rightarrow> nat list) \<Rightarrow> ('s \<Rightarrow> 's \<Rightarrow> nat list) \<Rightarrow> 's \<Rightarrow> nat list \<Rightarrow> nat list \<Rightarrow> 's \<Rightarrow> bool"
  for step gone came where
  start: "history step gone came s [] [] s"
| step: "history step gone came s ws xs s' \<Longrightarrow> step s' wakes s'' \<Longrightarrow>
    history step gone came s (ws @ (if wakes then gone s' s'' else [])) (xs @ came s' s'') s''"

text \<open>
  \<open>queue s\<close> is the queue in state \<open>s\<close>. A step that wakes threads takes them from the front; any
  step may take threads out of the queue and put others behind its end.
\<close>

locale served_in_order =
  fixes ok :: "'s \<Rightarrow> bool" and queue :: "'s \<Rightarrow> nat list" and step :: "'s \<Rightarrow> bool \<Rightarrow> 's \<Rightarrow> bool"
    and gone :: "'s \<Rightarrow> 's \<Rightarrow> nat list" and came :: "'s \<Rightarrow> 's \<Rightarrow> nat list"
  assumes step_ok: "ok s \<Longrightarrow> step s wakes s' \<Longrightarrow> ok s'"
    and front: "ok s \<Longrightarrow> step s True s' \<Longrightarrow> \<exists>rest. queue s = gone s s' @ rest \<and> subseq (queue s') (rest @ came s s')"
    and behind: "ok s \<Longrightarrow> step s False s' \<Longrightarrow> subseq (queue s') (queue s @ came s s')"
begin

lemma history_ok: "history step gone came s ws xs s' \<Longrightarrow> ok s \<Longrightarrow> ok s'"
  by (induction rule: history.induct) (auto intro: step_ok)

lemma in_order: "history step gone came s ws xs s' \<Longrightarrow> ok s \<Longrightarrow> subseq (ws @ queue s') (queue s @ xs)"
proof (induction rule: history.induct)
  case (step s ws xs s' wakes s'')
  then have ok: "ok s'" using history_ok by blast
  obtain rest where r: "queue s' = (if wakes then gone s' s'' else []) @ rest" "subseq (queue s'') (rest @ came s' s'')"
    using front [OF ok, of s''] behind [OF ok, of s''] step.hyps(2) by (cases wakes) auto
  have "subseq ((ws @ (if wakes then gone s' s'' else [])) @ queue s'') ((ws @ (if wakes then gone s' s'' else []) @ rest) @ came s' s'')"
    using r(2) by (simp add: list_emb_append_mono)
  also have "subseq \<dots> ((queue s @ xs) @ came s' s'')"
    using step.IH [OF step.prems] r(1) by (intro list_emb_append_mono [of "(=)" "ws @ (if wakes then gone s' s'' else []) @ rest"]) simp_all
  finally show ?case by simp
qed simp

end

section \<open>The queue of an address\<close>

text \<open>The queue is read from the table and the links.\<close>

fun follow :: "nat \<Rightarrow> (nat \<Rightarrow> KWait) \<Rightarrow> ptr \<Rightarrow> nat list" where
  "follow 0 kw p = []"
| "follow (Suc n) kw p = (case p of None \<Rightarrow> [] | Some k \<Rightarrow> k # follow n kw (FutexQueueNext (kw k)))"

definition queue_of :: "futex_scope \<Rightarrow> u64 \<Rightarrow> Kernel \<Rightarrow> nat list" where
  "queue_of c v K =
     (case find (\<lambda>i. futex_vaddr (Futex_Table K c i) = v) [0..<NUM_FUTEX] of
        None \<Rightarrow> [] | Some i \<Rightarrow> follow NUM_KTHREADS (kwait K) (pKThr_Waiter_Next (Futex_Table K c i)))"

lemma follow_chain: "chain kw p ks \<Longrightarrow> length ks \<le> n \<Longrightarrow> follow n kw p = ks"
proof (induction ks arbitrary: p n)
  case Nil
  then show ?case by (cases n) auto
next
  case (Cons k ks)
  then show ?case by (cases n) auto
qed

lemma queue_of_rep:
  assumes r: "futex_rep none qs K" and v: "v \<noteq> 0"
  shows "queue_of c v K = qs c v"
proof (cases "find (\<lambda>i. futex_vaddr (Futex_Table K c i) = v) [0..<NUM_FUTEX]")
  case None
  with table_find [OF futex_repD(1) [OF r] v] have "qs c v = []" by blast
  with None show ?thesis by (simp add: queue_of_def)
next
  case (Some i)
  note ch = futex_rep_chain [OF r, of i c v]
  have "distinct (qs c v)" "set (qs c v) \<subseteq> {..<NUM_KTHREADS}"
    using chain_distinct [OF ch] find_upt_Some [OF Some] futex_repD(2) [OF r] by auto
  then have "length (qs c v) \<le> NUM_KTHREADS" by (metis card_lessThan card_mono distinct_card finite_lessThan)
  with Some ch find_upt_Some [OF Some] show ?thesis by (simp add: queue_of_def follow_chain)
qed

text \<open>The threads of the queue that wait no longer, and the threads that are new in it.\<close>

definition left_queue :: "futex_scope \<Rightarrow> u64 \<Rightarrow> Kernel \<Rightarrow> Kernel \<Rightarrow> nat list" where
  "left_queue c v K K' = filter (\<lambda>k. FutexVAddr (kwait K' k) = 0) (queue_of c v K)"

definition joined_queue :: "futex_scope \<Rightarrow> u64 \<Rightarrow> Kernel \<Rightarrow> Kernel \<Rightarrow> nat list" where
  "joined_queue c v K K' = filter (\<lambda>k. k \<notin> set (queue_of c v K)) (queue_of c v K')"

definition futex_ok :: "Kernel \<Rightarrow> bool" where
  "futex_ok K \<longleftrightarrow> (\<exists>qs. futex_inv qs K)"

text \<open>
  The steps: the calls of \<open>Futex_Wait\<close> and \<open>Futex_Wake\<close> by the thread that runs on a hardware thread and
  waits for nothing, interruptions and timeouts of threads of the scope, and everything that
  does not touch the futex data. The steps with a wake-up are marked.
\<close>

inductive futex_step :: "Kernel \<Rightarrow> bool \<Rightarrow> Kernel \<Rightarrow> bool" where
  wait: "k = GetMyKThread me K \<Longrightarrow> pHWThread (KThreads (node K) k) = me \<Longrightarrow> k < NUM_KTHREADS \<Longrightarrow> FutexVAddr (kwait K k) = 0 \<Longrightarrow>
    GetMyProcess me K = Some a \<Longrightarrow> v \<noteq> 0 \<Longrightarrow> Futex_Wait me flags k v val timeout now K = Some (K', res) \<Longrightarrow> futex_step K False K'"
| wake: "k = GetMyKThread me K \<Longrightarrow> k < NUM_KTHREADS \<Longrightarrow> FutexVAddr (kwait K k) = 0 \<Longrightarrow> GetMyProcess me K = Some a \<Longrightarrow>
    \<not> exited (node K) me \<Longrightarrow> v \<noteq> 0 \<Longrightarrow> v2 \<noteq> 0 \<and> v2 \<noteq> v \<or> flags AND FUTEX_CMD_MASK = FUTEX_WAKE \<Longrightarrow>
    Futex_Wake me flags v n v2 n2 val3 K = Some (K', res) \<Longrightarrow> futex_step K True K'"
| interrupt: "scope_of me (FutexIsShared (kwait K k)) K = Some c \<Longrightarrow> k \<in> set (queue_of c (FutexVAddr (kwait K k)) K) \<Longrightarrow>
    FutexVAddr (kwait K k) \<noteq> 0 \<Longrightarrow> Futex_Interrupt me k K = Some K' \<Longrightarrow> futex_step K False K'"
| timeout: "scope_of me (FutexIsShared (kwait K k)) K = Some c \<Longrightarrow> k \<in> set (queue_of c (FutexVAddr (kwait K k)) K) \<Longrightarrow>
    FutexVAddr (kwait K k) \<noteq> 0 \<Longrightarrow> Futex_CheckTimeout me now k K = Some (K', rc, pe) \<Longrightarrow> futex_step K False K'"
| other: "Futex_Table K' = Futex_Table K \<Longrightarrow> kwait K' = kwait K \<Longrightarrow> FutexLock K' = FutexLock K \<Longrightarrow>
    FutexOrderLock K' = FutexOrderLock K \<Longrightarrow> futex_step K False K'"

section \<open>The futexes implement the interface\<close>

lemma filter_prefix: "(\<And>k. k \<in> set xs \<Longrightarrow> P k) \<Longrightarrow> (\<And>k. k \<in> set ys \<Longrightarrow> \<not> P k) \<Longrightarrow> filter P (xs @ ys) = xs"
  by (simp add: filter_empty_conv filter_True)

text \<open>The three ways in which waking changes queues.\<close>

lemma spec_wake_cases:
  assumes "spec_wake operation v0 n v2 n2 t q = (q', ws)" and "v2 \<noteq> v0 \<or> operation = FUTEX_WAKE"
  obtains (stay) l where "q v0 = ws @ l" "q' = q(v0 := l)"
  | (move) l where "q v0 = ws @ l" "q' = q(v0 := [], v2 := q v2 @ l)" "v2 \<noteq> v0"
  | (both) w l w2 l2 where "q v0 = w @ l" "q v2 = w2 @ l2" "ws = w @ w2" "q' = q(v0 := l, v2 := l2)" "v2 \<noteq> v0"
proof -
  define m where "m = min n (int UNBLOCK_LIST_SIZE)"
  define w where "w = woken m (q v0)"
  define m2 where "m2 = min n2 (int UNBLOCK_LIST_SIZE - int (length w))"
  have q0: "q v0 = w @ left m (q v0)" "q v2 = woken m2 (q v2) @ left m2 (q v2)" by (simp_all add: w_def woken_plus_left)
  have s: "(if operation = FUTEX_WAKE_OP \<and> t
      then (wake_spec m2 v2 None (wake_spec m v0 (if requeues operation then Some v2 else None) q),
        w @ woken m2 (wake_spec m v0 (if requeues operation then Some v2 else None) q v2))
      else (wake_spec m v0 (if requeues operation then Some v2 else None) q, w)) = (q', ws)"
    using assms(1) unfolding spec_wake_def Let_def m_def [symmetric] w_def [symmetric] m2_def [symmetric] .
  consider "requeues operation" | "\<not> requeues operation" "operation = FUTEX_WAKE_OP \<and> t" | "\<not> requeues operation" "\<not> (operation = FUTEX_WAKE_OP \<and> t)"
    by blast
  then show thesis
  proof cases
    case 1
    then have "operation \<noteq> FUTEX_WAKE_OP" "operation \<noteq> FUTEX_WAKE" by (auto simp: requeues_def)
    with 1 s q0(1) assms(2) show thesis by (intro move [of "left m (q v0)"]) (auto simp: wake_spec_def)
  next
    case 2
    then have ne: "v2 \<noteq> v0" using assms(2) by auto
    with 2 s have "q' = q(v0 := left m (q v0), v2 := left m2 (q v2))" "ws = w @ woken m2 (q v2)" by (auto simp: wake_spec_def)
    with q0 ne show thesis by (intro both)
  next
    case 3
    with s have "q' = q(v0 := left m (q v0))" "ws = w" by (auto simp: wake_spec_def)
    with q0(1) show thesis by (intro stay) simp_all
  qed
qed

lemma filter_none: "(\<And>k. k \<in> set ys \<Longrightarrow> \<not> P k) \<Longrightarrow> filter P ys = []"
  by (simp add: filter_empty_conv)

lemma spec_wake_split:
  assumes s: "spec_wake operation v0 n v2 n2 t q = (q', ws)" "v2 \<noteq> v0 \<or> operation = FUTEX_WAKE"
    and d: "\<And>v. distinct (q v)" and o: "\<And>v v' k. k \<in> set (q v) \<Longrightarrow> k \<in> set (q v') \<Longrightarrow> v = v'"
  shows "(k \<in> set ws \<longrightarrow> (\<exists>v. k \<in> set (q v)) \<and> k \<notin> set (q' v)) \<and> (k \<in> set (q v) \<and> k \<notin> set ws \<longrightarrow> (\<exists>v'. k \<in> set (q' v'))) \<and>
    (\<exists>r. q v = filter (\<lambda>k. k \<in> set ws) (q v) @ r \<and> subseq (q' v) (r @ filter (\<lambda>k. k \<notin> set (q v)) (q' v)))"
  using s
proof (cases rule: spec_wake_cases)
  case (stay l)
  have w: "j \<in> set (q v) \<Longrightarrow> j \<in> set ws \<Longrightarrow> v = v0" for j v using o [of j v v0] stay(1) by simp
  have f: "filter (\<lambda>k. k \<in> set ws) (ws @ l) = ws" by (rule filter_prefix) (use d [of v0] stay(1) in auto)
  have "k \<in> set ws \<Longrightarrow> k \<notin> set (q' v)" using w [of k v] d [of v0] stay by auto
  moreover have "\<exists>r. q v = filter (\<lambda>k. k \<in> set ws) (q v) @ r \<and> subseq (q' v) (r @ filter (\<lambda>k. k \<notin> set (q v)) (q' v))"
  proof (cases "v = v0")
    case True
    with f stay show ?thesis by (intro exI [of _ l]) simp
  next
    case False
    with w stay(2) show ?thesis by (intro exI [of _ "q v"]) (auto simp: filter_empty_conv)
  qed
  moreover have "k \<in> set (q v) \<Longrightarrow> k \<notin> set ws \<Longrightarrow> \<exists>v'. k \<in> set (q' v')" using stay by (intro exI [of _ v]) auto
  moreover have "k \<in> set ws \<Longrightarrow> \<exists>v. k \<in> set (q v)" using stay(1) by (intro exI [of _ v0]) simp
  ultimately show ?thesis by blast
next
  case (move l)
  have w: "j \<in> set (q v) \<Longrightarrow> j \<in> set ws \<Longrightarrow> v = v0" for j v using o [of j v v0] move(1) by simp
  have f: "filter (\<lambda>k. k \<in> set ws) (ws @ l) = ws" by (rule filter_prefix) (use d [of v0] move(1) in auto)
  have dl: "set ws \<inter> set l = {}" using d [of v0] unfolding move(1) by simp
  have "k \<in> set ws \<Longrightarrow> k \<notin> set (q' v)" using w [of k v] w [of k v2] dl move(3) unfolding move(2) by (simp split: if_splits) blast
  moreover have "k \<in> set (q v) \<Longrightarrow> k \<notin> set ws \<Longrightarrow> \<exists>v'. k \<in> set (q' v')"
    using move(1,3) unfolding move(2) by (intro exI [of _ "if v = v0 then v2 else v"]) (auto split: if_splits)
  moreover have "\<exists>r. q v = filter (\<lambda>k. k \<in> set ws) (q v) @ r \<and> subseq (q' v) (r @ filter (\<lambda>k. k \<notin> set (q v)) (q' v))"
  proof (cases "v = v0")
    case True
    with f move show ?thesis by (intro exI [of _ l]) simp
  next
    case False
    have "filter (\<lambda>k. k \<notin> set (q v2)) (q v2 @ l) = l"
      using o [of _ v2 v0] move(1,3) by (auto simp: filter_empty_conv filter_id_conv)
    with False w move(2) show ?thesis by (intro exI [of _ "q v"]) (auto simp: filter_empty_conv)
  qed
  moreover have "k \<in> set ws \<Longrightarrow> \<exists>v. k \<in> set (q v)" using move(1) by (intro exI [of _ v0]) simp
  ultimately show ?thesis by blast
next
  case (both w l w2 l2)
  have w: "j \<in> set (q v) \<Longrightarrow> j \<in> set w \<Longrightarrow> v = v0" "j \<in> set (q v) \<Longrightarrow> j \<in> set w2 \<Longrightarrow> v = v2" for j v
    using o [of j v v0] o [of j v v2] both(1,2) by simp_all
  have f: "filter (\<lambda>k. k \<in> set ws) (w @ l) = w"
    by (rule filter_prefix) (use w(2) [of _ v0] d [of v0] both in auto)
  have f2: "filter (\<lambda>k. k \<in> set ws) (w2 @ l2) = w2"
    by (rule filter_prefix) (use w(1) [of _ v2] d [of v2] both in auto)
  have dl: "set w \<inter> set l = {}" "set w2 \<inter> set l2 = {}" using d [of v0] d [of v2] unfolding both(1,2) by simp_all
  have l: "set l \<subseteq> set (q v0)" "set l2 \<subseteq> set (q v2)" using both(1,2) by simp_all
  have "k \<in> set ws \<Longrightarrow> k \<notin> set (q' v)"
    using w [of k v] w [of k v0] w [of k v2] dl l both(5) unfolding both(3,4) by (simp split: if_splits) blast
  moreover have "k \<in> set (q v) \<Longrightarrow> k \<notin> set ws \<Longrightarrow> \<exists>v'. k \<in> set (q' v')" using both by (intro exI [of _ v]) auto
  moreover have "\<exists>r. q v = filter (\<lambda>k. k \<in> set ws) (q v) @ r \<and> subseq (q' v) (r @ filter (\<lambda>k. k \<notin> set (q v)) (q' v))"
  proof -
    consider "v = v0" | "v = v2" | "v \<noteq> v0" "v \<noteq> v2" by blast
    then show ?thesis
    proof cases
      case 1
      with f both show ?thesis by (intro exI [of _ l]) simp
    next
      case 2
      with f2 both show ?thesis by (intro exI [of _ l2]) simp
    next
      case 3
      with w both(3,4) show ?thesis by (intro exI [of _ "q v"]) (auto simp: filter_empty_conv)
    qed
  qed
  moreover have "k \<in> set ws \<Longrightarrow> \<exists>v. k \<in> set (q v)" using both(1-3) by (intro exI [of _ "if k \<in> set w then v0 else v2"]) auto
  ultimately show ?thesis by blast
qed

lemma futex_inv_rep: "futex_inv qs K \<Longrightarrow> futex_rep none qs K"
  by (simp add: futex_inv_def)

lemma vaddr_queued: "futex_inv qs K \<Longrightarrow> FutexVAddr (kwait K k) = 0 \<longleftrightarrow> k \<notin> queued qs"
  using futex_repD(2,4) [OF futex_inv_rep] futex_rep_nonzero [OF futex_inv_rep] unfolding queued_def by blast

lemma queue_distinct: "futex_inv qs K \<Longrightarrow> distinct (qs c v)"
proof (cases "qs c v = []")
  case False
  assume i: "futex_inv qs K"
  obtain k where "k \<in> set (qs c v)" using False by (cases "qs c v") auto
  from findTableEntry_present [OF futex_inv_rep [OF i] futex_rep_nonzero [OF futex_inv_rep [OF i] this] False]
  show ?thesis using futex_rep_chain [OF futex_inv_rep [OF i]] chain_distinct by blast
qed simp

lemma left_queue_rep:
  "futex_inv qs K \<Longrightarrow> futex_inv qs' K' \<Longrightarrow> v \<noteq> 0 \<Longrightarrow> left_queue c v K K' = filter (\<lambda>k. k \<notin> queued qs') (qs c v)"
  by (simp add: left_queue_def queue_of_rep [OF futex_inv_rep] vaddr_queued)

lemma joined_queue_rep:
  "futex_inv qs K \<Longrightarrow> futex_inv qs' K' \<Longrightarrow> v \<noteq> 0 \<Longrightarrow> joined_queue c v K K' = filter (\<lambda>k. k \<notin> set (qs c v)) (qs' c v)"
  by (simp add: joined_queue_def queue_of_rep [OF futex_inv_rep])

lemma unchanged_queue:
  assumes "futex_inv qs K" "futex_inv qs' K'" "v \<noteq> 0" "qs' c v = qs c v"
  shows "left_queue c v K K' = [] \<and> joined_queue c v K K' = []"
  using assms left_queue_rep [OF assms(1-3), of c] joined_queue_rep [OF assms(1-3), of c]
  by (auto simp: filter_empty_conv queued_def) metis

text \<open>What a step does to the queues, by the kind of the step.\<close>

lemma wake_step:
  assumes i: "futex_inv qs K" and st: "futex_step K True K'"
  obtains "futex_inv qs K'" | c v v2 operation n n2 t q' ws where "futex_inv (qs(c := q')) K'"
    "spec_wake operation v n v2 n2 t (qs c) = (q', ws)" "v2 \<noteq> v \<or> operation = FUTEX_WAKE"
  using st
proof (cases rule: futex_step.cases)
  case (wake k me a v v2 flags n n2 val3 res)
  obtain sh c where s: "Futex_IsShared me v flags K = Some sh" "scope_of me sh K = Some c" using scope_exists [OF wake(4)] .
  obtain q' ws where w: "spec_wake (flags AND FUTEX_CMD_MASK) v n v2 n2 (snd (wake_op val3 (words K v2))) (qs c) = (q', ws)" by fastforce
  have "k \<notin> queued qs" using wake(3) vaddr_queued [OF i] by blast
  with Futex_Wake_rep [OF i s refl wake(6) _ _ wake(2) _ wake(5) w] wake(7,8) have "futex_inv qs K' \<or> futex_inv (qs(c := q')) K'"
    by (auto simp: requeues_def split: if_splits)
  with that w wake(7) show thesis by blast
qed simp_all

lemma quiet_step:
  assumes i: "futex_inv qs K" and st: "futex_step K False K'"
  obtains "futex_inv qs K'" | c v k where "futex_inv (qs(c := (qs c)(v := qs c v @ [k]))) K'" "k \<notin> queued qs"
    | c v k where "futex_inv (qs(c := (qs c)(v := remove1 k (qs c v)))) K'"
  using st
proof (cases rule: futex_step.cases)
  case (wait k me a v flags val timeout now res)
  obtain sh c where s: "Futex_IsShared me v flags K = Some sh" "scope_of me sh K = Some c" using scope_exists [OF wait(5)] .
  have n: "k \<notin> queued qs" using wait(4) vaddr_queued [OF i] by blast
  from Futex_Wait_rep [OF i s wait(6) wait(1-3) n, of val timeout now] wait(7)
  have "futex_inv qs K' \<or> futex_inv (qs(c := (qs c)(v := qs c v @ [k]))) K'" by (auto split: if_splits)
  with that n show thesis by blast
next
  case (interrupt me k c)
  then have "k \<in> set (qs c (FutexVAddr (kwait K k)))" using queue_of_rep [OF futex_inv_rep [OF i]] by simp
  from Futex_Interrupt_rep [OF i this interrupt(1)] interrupt(4) that show thesis by auto
next
  case (timeout me k c now rc pe)
  then have k: "k \<in> set (qs c (FutexVAddr (kwait K k)))" using queue_of_rep [OF futex_inv_rep [OF i]] by simp
  show thesis
  proof (cases "FutexTimeout (kwait K k) = 0")
    case True
    with timeout(4) i that show thesis by (simp add: Futex_CheckTimeout_def)
  next
    case False
    from Futex_CheckTimeout_rep [OF i k timeout(1) False, of now] timeout(4) that show thesis by (auto split: if_splits)
  qed
next
  case other
  with futex_inv_cong [OF i] that show thesis by blast
qed simp_all

lemma futex_step_front:
  assumes i: "futex_inv qs K" and st: "futex_step K True K'" and v: "v \<noteq> 0"
  shows "\<exists>rest. queue_of c v K = left_queue c v K K' @ rest \<and> subseq (queue_of c v K') (rest @ joined_queue c v K K')"
  using i st
proof (cases rule: wake_step)
  case 1
  with unchanged_queue [OF i 1 v] queue_of_rep [OF futex_inv_rep [OF i] v] queue_of_rep [OF futex_inv_rep [OF 1] v]
  show ?thesis by simp
next
  case (2 c0 v0 v2 operation n n2 t q' ws)
  let ?qs = "qs(c0 := q')"
  note Q = queue_of_rep [OF futex_inv_rep [OF i] v] queue_of_rep [OF futex_inv_rep [OF 2(1)] v]
  show ?thesis
  proof (cases "c = c0")
    case False
    with unchanged_queue [OF i 2(1) v, of c] Q show ?thesis by simp
  next
    case True
    have d: "distinct (qs c0 v)" for v using queue_distinct [OF i] .
    have o: "k \<in> set (qs c0 v) \<Longrightarrow> k \<in> set (qs c0 v') \<Longrightarrow> v = v'" for v v' k using futex_rep_one_queue [OF futex_inv_rep [OF i]] by blast
    have sp: "(k \<in> set ws \<longrightarrow> (\<exists>v. k \<in> set (qs c0 v)) \<and> k \<notin> set (q' v)) \<and>
        (k \<in> set (qs c0 v) \<and> k \<notin> set ws \<longrightarrow> (\<exists>v'. k \<in> set (q' v'))) \<and>
        (\<exists>r. qs c0 v = filter (\<lambda>k. k \<in> set ws) (qs c0 v) @ r \<and> subseq (q' v) (r @ filter (\<lambda>k. k \<notin> set (qs c0 v)) (q' v)))" for k v
      by (rule spec_wake_split [OF 2(2,3) d]) (rule o)
    have "k \<notin> queued ?qs \<longleftrightarrow> k \<in> set ws" if k: "k \<in> set (qs c0 v)" for k
    proof
      assume "k \<notin> queued ?qs"
      then have "k \<notin> set (q' v')" for v' unfolding queued_def by (metis (mono_tags, lifting) fun_upd_same mem_Collect_eq)
      with sp [where k = k and v = v] k show "k \<in> set ws" by blast
    next
      assume w: "k \<in> set ws"
      have "k \<notin> set (?qs c' v')" for c' v'
        using sp [where k = k and v = v'] w futex_repD(3) [OF futex_inv_rep [OF i] k, of c' v'] by (cases "c' = c0") auto
      then show "k \<notin> queued ?qs" by (simp add: queued_def)
    qed
    then have "left_queue c v K K' = filter (\<lambda>k. k \<in> set ws) (qs c0 v)"
      unfolding left_queue_rep [OF i 2(1) v] True by (rule filter_cong [OF refl])
    with sp [where v = v] Q joined_queue_rep [OF i 2(1) v, of c] True show ?thesis by auto
  qed
qed

lemma subseq_remove1: "subseq (remove1 k q) q"
  by (induction q) auto

lemma futex_step_behind:
  assumes i: "futex_inv qs K" and st: "futex_step K False K'" and v: "v \<noteq> 0"
  shows "subseq (queue_of c v K') (queue_of c v K @ joined_queue c v K K')"
  using i st
proof (cases rule: quiet_step)
  case 1
  with queue_of_rep [OF futex_inv_rep [OF i] v] queue_of_rep [OF futex_inv_rep [OF 1] v] show ?thesis
    by (simp add: list_emb_prefix)
next
  case (2 c0 v0 k)
  have "k \<notin> set (qs c v)" using 2(2) by (auto simp: queued_def)
  with joined_queue_rep [OF i 2(1) v] queue_of_rep [OF futex_inv_rep [OF i] v] queue_of_rep [OF futex_inv_rep [OF 2(1)] v]
  show ?thesis by (auto simp: filter_empty_conv list_emb_prefix)
next
  case (3 c0 v0 k)
  with queue_of_rep [OF futex_inv_rep [OF i] v] queue_of_rep [OF futex_inv_rep [OF 3] v] show ?thesis
    by (auto simp: list_emb_prefix subseq_remove1)
qed

interpretation fq: served_in_order "\<lambda>K. futex_ok K \<and> v \<noteq> 0" "queue_of c v" futex_step "left_queue c v" "joined_queue c v" for c v
proof
  fix K wakes K'
  assume k: "futex_ok K \<and> v \<noteq> 0"
  then obtain qs where i: "futex_inv qs K" by (auto simp: futex_ok_def)
  have "futex_ok K'" if "futex_step K True K'" using i that by (cases rule: wake_step) (auto simp: futex_ok_def)
  moreover have "futex_ok K'" if "futex_step K False K'" using i that by (cases rule: quiet_step) (auto simp: futex_ok_def)
  ultimately show "futex_step K wakes K' \<Longrightarrow> futex_ok K' \<and> v \<noteq> 0" using k by (cases wakes) simp_all
  show "futex_step K True K' \<Longrightarrow> \<exists>rest. queue_of c v K = left_queue c v K K' @ rest \<and> subseq (queue_of c v K') (rest @ joined_queue c v K K')"
    using futex_step_front [OF i] k by blast
  show "futex_step K False K' \<Longrightarrow> subseq (queue_of c v K') (queue_of c v K @ joined_queue c v K K')"
    using futex_step_behind [OF i] k by blast
qed



end
