(* ===== verification/PpcOperand.thy ===== *)
theory PpcOperand
  imports CnkPrelude
begin

text \<open>
  The operands of the PowerPC disassembler, \<^verbatim>\<open>bgq_util/src/ppcDecode.cc\<close>: the processor flags and
  the operand flags, the functions that insert an operand into an instruction and extract it
  again, and the operand table. An instruction is a 64-bit word, the \<^verbatim>\<open>unsigned long\<close> of the code,
  of which the lower half is used; the value of an operand, a \<^verbatim>\<open>long\<close>, is a 64-bit word that is read
  as a signed number where the code compares it.
\<close>

unbundle bit_operations_syntax

named_theorems ppc_const "constants of the disassembler"
named_theorems ppc_form "instruction forms and masks built from them"
named_theorems ppc_val "constants of the disassembler as numbers"
named_theorems field_mask "masks of the instruction fields"

type_synonym i64 = "64 word"

section \<open>Flags\<close>
definition PPC_OPCODE_PPC :: u64 where [ppc_const]: "PPC_OPCODE_PPC = 1"
definition PPC_OPCODE_POWER :: u64 where [ppc_const]: "PPC_OPCODE_POWER = 2"
definition PPC_OPCODE_POWER2 :: u64 where [ppc_const]: "PPC_OPCODE_POWER2 = 4"
definition PPC_OPCODE_32 :: u64 where [ppc_const]: "PPC_OPCODE_32 = 8"
definition PPC_OPCODE_64 :: u64 where [ppc_const]: "PPC_OPCODE_64 = 0x10"
definition PPC_OPCODE_601 :: u64 where [ppc_const]: "PPC_OPCODE_601 = 0x20"
definition PPC_OPCODE_COMMON :: u64 where [ppc_const]: "PPC_OPCODE_COMMON = 0x40"
definition PPC_OPCODE_ANY :: u64 where [ppc_const]: "PPC_OPCODE_ANY = 0x80"
definition PPC_OPCODE_64_BRIDGE :: u64 where [ppc_const]: "PPC_OPCODE_64_BRIDGE = 0x100"
definition PPC_OPCODE_ALTIVEC :: u64 where [ppc_const]: "PPC_OPCODE_ALTIVEC = 0x200"
definition PPC_OPCODE_403 :: u64 where [ppc_const]: "PPC_OPCODE_403 = 0x400"
definition PPC_OPCODE_BOOKE :: u64 where [ppc_const]: "PPC_OPCODE_BOOKE = 0x800"
definition PPC_OPCODE_BOOKE64 :: u64 where [ppc_const]: "PPC_OPCODE_BOOKE64 = 0x1000"
definition PPC_OPCODE_440 :: u64 where [ppc_const]: "PPC_OPCODE_440 = 0x2000"
definition PPC_OPCODE_POWER4 :: u64 where [ppc_const]: "PPC_OPCODE_POWER4 = 0x4000"
definition PPC_OPCODE_NOPOWER4 :: u64 where [ppc_const]: "PPC_OPCODE_NOPOWER4 = 0x8000"
definition PPC_OPCODE_CLASSIC :: u64 where [ppc_const]: "PPC_OPCODE_CLASSIC = 0x10000"
definition PPC_OPCODE_SPE :: u64 where [ppc_const]: "PPC_OPCODE_SPE = 0x20000"
definition PPC_OPCODE_ISEL :: u64 where [ppc_const]: "PPC_OPCODE_ISEL = 0x40000"
definition PPC_OPCODE_EFS :: u64 where [ppc_const]: "PPC_OPCODE_EFS = 0x80000"
definition PPC_OPCODE_BRLOCK :: u64 where [ppc_const]: "PPC_OPCODE_BRLOCK = 0x100000"
definition PPC_OPCODE_PMR :: u64 where [ppc_const]: "PPC_OPCODE_PMR = 0x200000"
definition PPC_OPCODE_CACHELCK :: u64 where [ppc_const]: "PPC_OPCODE_CACHELCK = 0x400000"
definition PPC_OPCODE_RFMCI :: u64 where [ppc_const]: "PPC_OPCODE_RFMCI = 0x800000"
definition PPC_OPCODE_BGL :: u64 where [ppc_const]: "PPC_OPCODE_BGL = 0x1000000"
definition PPC_OPCODE_450 :: u64 where [ppc_const]: "PPC_OPCODE_450 = 0x2000000"
definition PPC_OPCODE_POWER5 :: u64 where [ppc_const]: "PPC_OPCODE_POWER5 = 0x1000000"
definition PPC_OPCODE_E300 :: u64 where [ppc_const]: "PPC_OPCODE_E300 = 0x2000000"

definition PPC_OPERAND_SIGNED :: u64 where [ppc_const]: "PPC_OPERAND_SIGNED = 1"
definition PPC_OPERAND_SIGNOPT :: u64 where [ppc_const]: "PPC_OPERAND_SIGNOPT = 2"
definition PPC_OPERAND_FAKE :: u64 where [ppc_const]: "PPC_OPERAND_FAKE = 4"
definition PPC_OPERAND_PARENS :: u64 where [ppc_const]: "PPC_OPERAND_PARENS = 8"
definition PPC_OPERAND_CR :: u64 where [ppc_const]: "PPC_OPERAND_CR = 16"
definition PPC_OPERAND_GPR :: u64 where [ppc_const]: "PPC_OPERAND_GPR = 32"
definition PPC_OPERAND_GPR_0 :: u64 where [ppc_const]: "PPC_OPERAND_GPR_0 = 64"
definition PPC_OPERAND_FPR :: u64 where [ppc_const]: "PPC_OPERAND_FPR = 128"
definition PPC_OPERAND_RELATIVE :: u64 where [ppc_const]: "PPC_OPERAND_RELATIVE = 256"
definition PPC_OPERAND_ABSOLUTE :: u64 where [ppc_const]: "PPC_OPERAND_ABSOLUTE = 512"
definition PPC_OPERAND_OPTIONAL :: u64 where [ppc_const]: "PPC_OPERAND_OPTIONAL = 1024"
definition PPC_OPERAND_NEXT :: u64 where [ppc_const]: "PPC_OPERAND_NEXT = 2048"
definition PPC_OPERAND_NEGATIVE :: u64 where [ppc_const]: "PPC_OPERAND_NEGATIVE = 4096"
definition PPC_OPERAND_VR :: u64 where [ppc_const]: "PPC_OPERAND_VR = 8192"
definition PPC_OPERAND_DS :: u64 where [ppc_const]: "PPC_OPERAND_DS = 16384"
definition PPC_OPERAND_DQ :: u64 where [ppc_const]: "PPC_OPERAND_DQ = 32768"

definition RT_MASK :: u64 where [field_mask]: "RT_MASK = push_bit 21 0x1f"

section \<open>Insertion and extraction\<close>

text \<open>
  An insertion function returns the new instruction and the message it leaves in \<^verbatim>\<open>*errmsg\<close>, if
  any. An extraction function returns the value and whether it sets \<^verbatim>\<open>*invalid\<close>.
\<close>

type_synonym insert_fn = "u64 \<Rightarrow> i64 \<Rightarrow> u64 \<Rightarrow> u64 \<times> string option"
type_synonym extract_fn = "u64 \<Rightarrow> u64 \<Rightarrow> i64 \<times> bool"

definition insert_bat :: insert_fn where
  "insert_bat insn value dialect = (insn OR push_bit 16 (drop_bit 21 insn AND 0x1f), None)"

definition extract_bat :: extract_fn where
  "extract_bat insn dialect = (0, drop_bit 21 insn AND 0x1f \<noteq> drop_bit 16 insn AND 0x1f)"

definition insert_bba :: insert_fn where
  "insert_bba insn value dialect = (insn OR push_bit 11 (drop_bit 16 insn AND 0x1f), None)"

definition extract_bba :: extract_fn where
  "extract_bba insn dialect = (0, drop_bit 16 insn AND 0x1f \<noteq> drop_bit 11 insn AND 0x1f)"

definition insert_bd :: insert_fn where
  "insert_bd insn value dialect = (insn OR (value AND 0xfffc), None)"

definition extract_bd :: extract_fn where
  "extract_bd insn dialect = (((insn AND 0xfffc) XOR 0x8000) - 0x8000, False)"

definition insert_bdm :: insert_fn where
  "insert_bdm insn value dialect =
     (let insn' =
        if dialect AND PPC_OPCODE_POWER4 = 0 then
          if value AND 0x8000 \<noteq> 0 then insn OR push_bit 21 1 else insn
        else if insn AND push_bit 21 0x14 = push_bit 21 0x04 then insn OR push_bit 21 0x02
        else if insn AND push_bit 21 0x14 = push_bit 21 0x10 then insn OR push_bit 21 0x08
        else insn
      in (insn' OR (value AND 0xfffc), None))"

definition extract_bdm :: extract_fn where
  "extract_bdm insn dialect =
     (((insn AND 0xfffc) XOR 0x8000) - 0x8000,
      if dialect AND PPC_OPCODE_POWER4 = 0 then
        (insn AND push_bit 21 1 = 0) \<noteq> (insn AND push_bit 15 1 = 0)
      else insn AND push_bit 21 0x17 \<noteq> push_bit 21 0x06 \<and> insn AND push_bit 21 0x1d \<noteq> push_bit 21 0x18)"

definition insert_bdp :: insert_fn where
  "insert_bdp insn value dialect =
     (let insn' =
        if dialect AND PPC_OPCODE_POWER4 = 0 then
          if value AND 0x8000 = 0 then insn OR push_bit 21 1 else insn
        else if insn AND push_bit 21 0x14 = push_bit 21 0x04 then insn OR push_bit 21 0x03
        else if insn AND push_bit 21 0x14 = push_bit 21 0x10 then insn OR push_bit 21 0x09
        else insn
      in (insn' OR (value AND 0xfffc), None))"

definition extract_bdp :: extract_fn where
  "extract_bdp insn dialect =
     (((insn AND 0xfffc) XOR 0x8000) - 0x8000,
      if dialect AND PPC_OPCODE_POWER4 = 0 then
        (insn AND push_bit 21 1 = 0) = (insn AND push_bit 15 1 = 0)
      else insn AND push_bit 21 0x17 \<noteq> push_bit 21 0x07 \<and> insn AND push_bit 21 0x1d \<noteq> push_bit 21 0x19)"

definition valid_bo :: "i64 \<Rightarrow> u64 \<Rightarrow> bool" where
  "valid_bo value dialect =
     (if dialect AND PPC_OPCODE_POWER4 = 0 then
        if value AND 0x14 = 0x4 then value AND 0x2 = 0
        else if value AND 0x14 = 0x10 then value AND 0x8 = 0
        else if value AND 0x14 = 0x14 then value = 0x14
        else True
      else if value AND 0x14 = 0 then value AND 0x1 = 0
      else if value AND 0x14 = 0x14 then value = 0x14
      else True)"

definition insert_bo :: insert_fn where
  "insert_bo insn value dialect =
     (insn OR push_bit 21 (value AND 0x1f),
      if \<not> valid_bo value dialect then Some ''invalid conditional option'' else None)"

definition extract_bo :: extract_fn where
  "extract_bo insn dialect =
     (let value = drop_bit 21 insn AND 0x1f in (value, \<not> valid_bo value dialect))"

definition insert_boe :: insert_fn where
  "insert_boe insn value dialect =
     (insn OR push_bit 21 (value AND 0x1f),
      if \<not> valid_bo value dialect then Some ''invalid conditional option''
      else if value AND 1 \<noteq> 0 then Some ''attempt to set y bit when using + or - modifier''
      else None)"

definition extract_boe :: extract_fn where
  "extract_boe insn dialect =
     (let value = drop_bit 21 insn AND 0x1f in (value AND 0x1e, \<not> valid_bo value dialect))"

definition insert_dq :: insert_fn where
  "insert_dq insn value dialect =
     (insn OR (value AND 0xfff0), if value AND 0xf \<noteq> 0 then Some ''offset not a multiple of 16'' else None)"

definition extract_dq :: extract_fn where
  "extract_dq insn dialect = (((insn AND 0xfff0) XOR 0x8000) - 0x8000, False)"

definition insert_ev2 :: insert_fn where
  "insert_ev2 insn value dialect =
     (insn OR push_bit 10 (value AND 0x3e),
      if 62 < sint value then Some ''offset greater than 62''
      else if value AND 1 \<noteq> 0 then Some ''offset not a multiple of 2'' else None)"

definition extract_ev2 :: extract_fn where
  "extract_ev2 insn dialect = (drop_bit 10 insn AND 0x3e, False)"

definition insert_ev4 :: insert_fn where
  "insert_ev4 insn value dialect =
     (insn OR push_bit 9 (value AND 0x7c),
      if 124 < sint value then Some ''offset greater than 124''
      else if value AND 3 \<noteq> 0 then Some ''offset not a multiple of 4'' else None)"

definition extract_ev4 :: extract_fn where
  "extract_ev4 insn dialect = (drop_bit 9 insn AND 0x7c, False)"

definition insert_ev8 :: insert_fn where
  "insert_ev8 insn value dialect =
     (insn OR push_bit 8 (value AND 0xf8),
      if 248 < sint value then Some ''offset greater than 248''
      else if value AND 7 \<noteq> 0 then Some ''offset not a multiple of 8'' else None)"

definition extract_ev8 :: extract_fn where
  "extract_ev8 insn dialect = (drop_bit 8 insn AND 0xf8, False)"

definition insert_ds :: insert_fn where
  "insert_ds insn value dialect =
     (insn OR (value AND 0xfffc), if value AND 3 \<noteq> 0 then Some ''offset not a multiple of 4'' else None)"

definition extract_ds :: extract_fn where
  "extract_ds insn dialect = (((insn AND 0xfffc) XOR 0x8000) - 0x8000, False)"

definition insert_de :: insert_fn where
  "insert_de insn value dialect =
     (insn OR (push_bit 4 value AND 0xfff0),
      if 2047 < sint value \<or> sint value < -2048 then Some ''offset not between -2048 and 2047'' else None)"

definition extract_de :: extract_fn where
  "extract_de insn dialect = (drop_bit 4 (insn AND 0xfff0), False)"

definition insert_des :: insert_fn where
  "insert_des insn value dialect =
     (insn OR (push_bit 2 value AND 0xfff0),
      if 8191 < sint value \<or> sint value < -8192 then Some ''offset not between -8192 and 8191''
      else if value AND 3 \<noteq> 0 then Some ''offset not a multiple of 4'' else None)"

definition extract_des :: extract_fn where
  "extract_des insn dialect = (((drop_bit 2 insn AND 0x3ffc) XOR 0x2000) - 0x2000, False)"

definition insert_fxm :: insert_fn where
  "insert_fxm insn value dialect =
     (let (insn', value', errmsg) =
        if insn AND push_bit 20 1 \<noteq> 0 then
          if value = 0 \<or> value AND - value \<noteq> value then (insn, 0, Some ''invalid mask field'')
          else (insn, value, None)
        else if value = 0 then (insn, value, None)
        else if value AND - value = value \<and>
          (dialect AND PPC_OPCODE_POWER4 \<noteq> 0 \<or>
           dialect AND PPC_OPCODE_ANY \<noteq> 0 \<and> insn AND push_bit 1 0x3ff = push_bit 1 19)
          then (insn OR push_bit 20 1, value, None)
        else if insn AND push_bit 1 0x3ff = push_bit 1 19 then (insn, 0, Some ''ignoring invalid mfcr mask'')
        else (insn, value, None)
      in (insn' OR push_bit 12 (value' AND 0xff), errmsg))"

definition extract_fxm :: extract_fn where
  "extract_fxm insn dialect =
     (let mask = drop_bit 12 insn AND 0xff
      in (mask,
          if insn AND push_bit 20 1 \<noteq> 0 then mask = 0 \<or> mask AND - mask \<noteq> mask
          else insn AND push_bit 1 0x3ff = push_bit 1 19 \<and> mask \<noteq> 0))"

definition insert_li :: insert_fn where
  "insert_li insn value dialect =
     (insn OR (value AND 0x3fffffc),
      if value AND 3 \<noteq> 0 then Some ''ignoring least significant bits in branch offset'' else None)"

definition extract_li :: extract_fn where
  "extract_li insn dialect = (((insn AND 0x3fffffc) XOR 0x2000000) - 0x2000000, False)"

text \<open>
  One turn of the loop of \<open>insert_mbe\<close>, at bit \<open>mx\<close> counted from the left of the lower half: the
  state is \<open>mb\<close>, \<open>me\<close>, \<open>count\<close> and \<open>last\<close>.
\<close>

fun mbe_step :: "u64 \<Rightarrow> nat \<Rightarrow> nat \<times> nat \<times> nat \<times> bool \<Rightarrow> nat \<times> nat \<times> nat \<times> bool" where
  "mbe_step uval mx (mb, me, count, lst) =
     (if bit uval (31 - mx) \<and> \<not> lst then (mx, me, count + 1, True)
      else if \<not> bit uval (31 - mx) \<and> lst then (mb, mx, count + 1, False)
      else (mb, me, count, lst))"

definition insert_mbe :: insert_fn where
  "insert_mbe insn value dialect =
     (if value = 0 then (insn, Some ''illegal bitmask'')
      else let (mb, me, count, lst) = fold (mbe_step value) [0..<32] (0, 32, 0, value AND 1 \<noteq> 0);
               me' = if me = 0 then 32 else me
           in (insn OR push_bit 6 (word_of_nat mb) OR push_bit 1 (word_of_nat (me' - 1)),
               if count \<noteq> 2 \<and> (count \<noteq> 0 \<or> \<not> lst) then Some ''illegal bitmask'' else None))"

definition extract_mbe :: extract_fn where
  "extract_mbe insn dialect =
     (let mb = unat (drop_bit 6 insn AND 0x1f); me = unat (drop_bit 1 insn AND 0x1f)
      in (if mb < me + 1 then fold (\<lambda>i ret. ret OR push_bit (31 - i) 1) [mb..<me + 1] 0
          else if mb = me + 1 then - 1
          else fold (\<lambda>i ret. ret AND NOT (push_bit (31 - i) 1)) [me + 1..<mb] (- 1),
          True))"

definition insert_mb6 :: insert_fn where
  "insert_mb6 insn value dialect = (insn OR push_bit 6 (value AND 0x1f) OR (value AND 0x20), None)"

definition extract_mb6 :: extract_fn where
  "extract_mb6 insn dialect = ((drop_bit 6 insn AND 0x1f) OR (insn AND 0x20), False)"

definition insert_nb :: insert_fn where
  "insert_nb insn value dialect =
     (insn OR push_bit 11 ((if value = 32 then 0 else value) AND 0x1f),
      if sint value < 0 \<or> 32 < sint value then Some ''value out of range'' else None)"

definition extract_nb :: extract_fn where
  "extract_nb insn dialect =
     (let ret = drop_bit 11 insn AND 0x1f in (if ret = 0 then 32 else ret, False))"

definition insert_nsi :: insert_fn where
  "insert_nsi insn value dialect = (insn OR (- value AND 0xffff), None)"

definition extract_nsi :: extract_fn where
  "extract_nsi insn dialect = (- (((insn AND 0xffff) XOR 0x8000) - 0x8000), True)"

definition insert_ral :: insert_fn where
  "insert_ral insn value dialect =
     (insn OR push_bit 16 (value AND 0x1f),
      if value = 0 \<or> value = drop_bit 21 insn AND 0x1f then Some ''invalid register operand when updating''
      else None)"

definition insert_ram :: insert_fn where
  "insert_ram insn value dialect =
     (insn OR push_bit 16 (value AND 0x1f),
      if drop_bit 21 insn AND 0x1f \<le> value then Some ''index register in load range'' else None)"

definition insert_raq :: insert_fn where
  "insert_raq insn value dialect =
     (insn OR push_bit 16 (value AND 0x1f),
      if value = drop_bit 21 (insn AND RT_MASK)
      then Some ''source and target register operands must be different'' else None)"

definition insert_ras :: insert_fn where
  "insert_ras insn value dialect =
     (insn OR push_bit 16 (value AND 0x1f),
      if value = 0 then Some ''invalid register operand when updating'' else None)"

definition insert_rbs :: insert_fn where
  "insert_rbs insn value dialect = (insn OR push_bit 11 (drop_bit 21 insn AND 0x1f), None)"

definition extract_rbs :: extract_fn where
  "extract_rbs insn dialect = (0, drop_bit 21 insn AND 0x1f \<noteq> drop_bit 11 insn AND 0x1f)"

definition insert_rtq :: insert_fn where
  "insert_rtq insn value dialect =
     (insn OR push_bit 21 (value AND 0x1f),
      if value AND 1 \<noteq> 0 then Some ''target register operand must be even'' else None)"

definition insert_rsq :: insert_fn where
  "insert_rsq insn value dialect =
     (insn OR push_bit 21 (value AND 0x1f),
      if value AND 1 \<noteq> 0 then Some ''source register operand must be even'' else None)"

definition insert_sh6 :: insert_fn where
  "insert_sh6 insn value dialect =
     (insn OR push_bit 11 (value AND 0x1f) OR drop_bit 4 (value AND 0x20), None)"

definition extract_sh6 :: extract_fn where
  "extract_sh6 insn dialect = ((drop_bit 11 insn AND 0x1f) OR (push_bit 4 insn AND 0x20), False)"

definition insert_spr :: insert_fn where
  "insert_spr insn value dialect =
     (insn OR push_bit 16 (value AND 0x1f) OR push_bit 6 (value AND 0x3e0), None)"

definition extract_spr :: extract_fn where
  "extract_spr insn dialect = ((drop_bit 16 insn AND 0x1f) OR (drop_bit 6 insn AND 0x3e0), False)"

definition insert_sprg :: insert_fn where
  "insert_sprg insn value dialect =
     (let value' = if sint value \<le> 3 \<or> insn AND 0x100 \<noteq> 0 then value OR 0x10 else value
      in (insn OR push_bit 16 (value' AND 0x17),
          if 7 < sint value \<or> 3 < sint value \<and> dialect AND (PPC_OPCODE_BOOKE OR PPC_OPCODE_403) = 0
          then Some ''invalid sprg number'' else None))"

definition extract_sprg :: extract_fn where
  "extract_sprg insn dialect =
     (let val = drop_bit 16 insn AND 0x1f
      in (val AND 7,
          val \<le> 3 \<or> val < 0x10 \<and> insn AND 0x100 \<noteq> 0 \<or>
          3 < val - 0x10 \<and> dialect AND (PPC_OPCODE_BOOKE OR PPC_OPCODE_403) = 0))"

definition TB :: i64 where [ppc_const]: "TB = 268"

definition insert_tbr :: insert_fn where
  "insert_tbr insn value dialect =
     (let value' = if value = 0 then TB else value
      in (insn OR push_bit 16 (value' AND 0x1f) OR push_bit 6 (value' AND 0x3e0), None))"

definition extract_tbr :: extract_fn where
  "extract_tbr insn dialect =
     (let ret = (drop_bit 16 insn AND 0x1f) OR (drop_bit 6 insn AND 0x3e0)
      in (if ret = TB then 0 else ret, False))"

section \<open>The operand table\<close>

record powerpc_operand =
  bits :: nat
  shift :: nat
  oinsert :: "insert_fn option"
  oextract :: "extract_fn option"
  oflags :: u64

definition opnd :: "nat \<Rightarrow> nat \<Rightarrow> insert_fn option \<Rightarrow> extract_fn option \<Rightarrow> u64 \<Rightarrow> powerpc_operand" where
  "opnd b s i e f = \<lparr>bits = b, shift = s, oinsert = i, oextract = e, oflags = f\<rparr>"

text \<open>The number of an operand is its place in the table; the fields have masks of their own.\<close>

definition UNUSED :: nat where [ppc_const]: "UNUSED = 0"
definition BA :: nat where [ppc_const]: "BA = UNUSED + 1"
definition BAT :: nat where [ppc_const]: "BAT = BA + 1"
definition BB :: nat where [ppc_const]: "BB = BAT + 1"
definition BBA :: nat where [ppc_const]: "BBA = BB + 1"
definition BD :: nat where [ppc_const]: "BD = BBA + 1"
definition BDA :: nat where [ppc_const]: "BDA = BD + 1"
definition BDM :: nat where [ppc_const]: "BDM = BDA + 1"
definition BDMA :: nat where [ppc_const]: "BDMA = BDM + 1"
definition BDP :: nat where [ppc_const]: "BDP = BDMA + 1"
definition BDPA :: nat where [ppc_const]: "BDPA = BDP + 1"
definition BF :: nat where [ppc_const]: "BF = BDPA + 1"
definition OBF :: nat where [ppc_const]: "OBF = BF + 1"
definition BFA :: nat where [ppc_const]: "BFA = OBF + 1"
definition BI :: nat where [ppc_const]: "BI = BFA + 1"
definition BO :: nat where [ppc_const]: "BO = BI + 1"
definition BOE :: nat where [ppc_const]: "BOE = BO + 1"
definition BH :: nat where [ppc_const]: "BH = BOE + 1"
definition BT :: nat where [ppc_const]: "BT = BH + 1"
definition CR :: nat where [ppc_const]: "CR = BT + 1"
definition CRB :: nat where [ppc_const]: "CRB = CR + 1"
definition CRFD :: nat where [ppc_const]: "CRFD = CRB + 1"
definition CRFS :: nat where [ppc_const]: "CRFS = CRFD + 1"
definition CT :: nat where [ppc_const]: "CT = CRFS + 1"
definition D :: nat where [ppc_const]: "D = CT + 1"
definition DE :: nat where [ppc_const]: "DE = D + 1"
definition DES :: nat where [ppc_const]: "DES = DE + 1"
definition DQ :: nat where [ppc_const]: "DQ = DES + 1"
definition DS :: nat where [ppc_const]: "DS = DQ + 1"
definition E :: nat where [ppc_const]: "E = DS + 1"
definition FL1 :: nat where [ppc_const]: "FL1 = E + 1"
definition FL2 :: nat where [ppc_const]: "FL2 = FL1 + 1"
definition FLM :: nat where [ppc_const]: "FLM = FL2 + 1"
definition FRA :: nat where [ppc_const]: "FRA = FLM + 1"
definition FRB :: nat where [ppc_const]: "FRB = FRA + 1"
definition FRC :: nat where [ppc_const]: "FRC = FRB + 1"
definition FRS :: nat where [ppc_const]: "FRS = FRC + 1"
definition FRT :: nat where [ppc_const]: "FRT = FRS"
definition FXM :: nat where [ppc_const]: "FXM = FRS + 1"
definition FXM4 :: nat where [ppc_const]: "FXM4 = FXM + 1"
definition L :: nat where [ppc_const]: "L = FXM4 + 1"
definition SVC_LEV :: nat where [ppc_const]: "SVC_LEV = L + 1"
definition LEV :: nat where [ppc_const]: "LEV = SVC_LEV + 1"
definition LI :: nat where [ppc_const]: "LI = LEV + 1"
definition LIA :: nat where [ppc_const]: "LIA = LI + 1"
definition LS :: nat where [ppc_const]: "LS = LIA + 1"
definition MB :: nat where [ppc_const]: "MB = LS + 1"
definition ME :: nat where [ppc_const]: "ME = MB + 1"
definition MBE :: nat where [ppc_const]: "MBE = ME + 1"
definition MB6 :: nat where [ppc_const]: "MB6 = MBE + 2"
definition ME6 :: nat where [ppc_const]: "ME6 = MB6"
definition MO :: nat where [ppc_const]: "MO = MB6 + 1"
definition TH :: nat where [ppc_const]: "TH = MO + 1"
definition NB :: nat where [ppc_const]: "NB = TH + 1"
definition NSI :: nat where [ppc_const]: "NSI = NB + 1"
definition RA :: nat where [ppc_const]: "RA = NSI + 1"
definition RA0 :: nat where [ppc_const]: "RA0 = RA + 1"
definition RAQ :: nat where [ppc_const]: "RAQ = RA0 + 1"
definition RAL :: nat where [ppc_const]: "RAL = RAQ + 1"
definition RAM :: nat where [ppc_const]: "RAM = RAL + 1"
definition RAS :: nat where [ppc_const]: "RAS = RAM + 1"
definition RAOPT :: nat where [ppc_const]: "RAOPT = RAS + 1"
definition RB :: nat where [ppc_const]: "RB = RAOPT + 1"
definition RBS :: nat where [ppc_const]: "RBS = RB + 1"
definition RS :: nat where [ppc_const]: "RS = RBS + 1"
definition RT :: nat where [ppc_const]: "RT = RS"
definition RSQ :: nat where [ppc_const]: "RSQ = RS + 1"
definition RTQ :: nat where [ppc_const]: "RTQ = RSQ + 1"
definition RSO :: nat where [ppc_const]: "RSO = RTQ + 1"
definition RTO :: nat where [ppc_const]: "RTO = RSO"
definition SH :: nat where [ppc_const]: "SH = RSO + 1"
definition SH6 :: nat where [ppc_const]: "SH6 = SH + 1"
definition SHO :: nat where [ppc_const]: "SHO = SH6 + 1"
definition SI :: nat where [ppc_const]: "SI = SHO + 1"
definition SISIGNOPT :: nat where [ppc_const]: "SISIGNOPT = SI + 1"
definition SPR :: nat where [ppc_const]: "SPR = SISIGNOPT + 1"
definition PMR :: nat where [ppc_const]: "PMR = SPR"
definition LIT :: nat where [ppc_const]: "LIT = SPR + 1"
definition QVD :: nat where [ppc_const]: "QVD = LIT + 1"
definition QTTTT :: nat where [ppc_const]: "QTTTT = QVD + 1"
definition SPRBAT :: nat where [ppc_const]: "SPRBAT = QTTTT + 1"
definition SPRG :: nat where [ppc_const]: "SPRG = SPRBAT + 1"
definition SR :: nat where [ppc_const]: "SR = SPRG + 1"
definition STRM :: nat where [ppc_const]: "STRM = SR + 1"
definition SV :: nat where [ppc_const]: "SV = STRM + 1"
definition TBR :: nat where [ppc_const]: "TBR = SV + 1"
definition TO :: nat where [ppc_const]: "TO = TBR + 1"
definition U :: nat where [ppc_const]: "U = TO + 1"
definition UI :: nat where [ppc_const]: "UI = U + 1"
definition VA :: nat where [ppc_const]: "VA = UI + 1"
definition VB :: nat where [ppc_const]: "VB = VA + 1"
definition VC :: nat where [ppc_const]: "VC = VB + 1"
definition VD :: nat where [ppc_const]: "VD = VC + 1"
definition VS :: nat where [ppc_const]: "VS = VD"
definition SIMM :: nat where [ppc_const]: "SIMM = VD + 1"
definition UIMM :: nat where [ppc_const]: "UIMM = SIMM + 1"
definition SHB :: nat where [ppc_const]: "SHB = UIMM + 1"
definition EVUIMM :: nat where [ppc_const]: "EVUIMM = SHB + 1"
definition EVUIMM_2 :: nat where [ppc_const]: "EVUIMM_2 = EVUIMM + 1"
definition EVUIMM_4 :: nat where [ppc_const]: "EVUIMM_4 = EVUIMM_2 + 1"
definition EVUIMM_8 :: nat where [ppc_const]: "EVUIMM_8 = EVUIMM_4 + 1"
definition WS :: nat where [ppc_const]: "WS = EVUIMM_8 + 1"
definition MTMSRD_L :: nat where [ppc_const]: "MTMSRD_L = WS + 1"

definition BA_MASK :: u64 where [field_mask]: "BA_MASK = push_bit 16 0x1f"
definition BB_MASK :: u64 where [field_mask]: "BB_MASK = push_bit 11 0x1f"
definition BI_MASK :: u64 where [field_mask]: "BI_MASK = push_bit 16 0x1f"
definition BO_MASK :: u64 where [field_mask]: "BO_MASK = push_bit 21 0x1f"
definition FRA_MASK :: u64 where [field_mask]: "FRA_MASK = push_bit 16 0x1f"
definition FRB_MASK :: u64 where [field_mask]: "FRB_MASK = push_bit 11 0x1f"
definition FRC_MASK :: u64 where [field_mask]: "FRC_MASK = push_bit 6 0x1f"
definition FXM_MASK :: u64 where [field_mask]: "FXM_MASK = push_bit 12 0xff"
definition MB_MASK :: u64 where [field_mask]: "MB_MASK = push_bit 6 0x1f"
definition ME_MASK :: u64 where [field_mask]: "ME_MASK = push_bit 1 0x1f"
definition MB6_MASK :: u64 where [field_mask]: "MB6_MASK = push_bit 5 0x3f"
definition RA_MASK :: u64 where [field_mask]: "RA_MASK = push_bit 16 0x1f"
definition RB_MASK :: u64 where [field_mask]: "RB_MASK = push_bit 11 0x1f"
definition SH_MASK :: u64 where [field_mask]: "SH_MASK = push_bit 11 0x1f"
definition SH6_MASK :: u64 where [field_mask]: "SH6_MASK = (push_bit 11 0x1f) OR (push_bit 1 1)"
definition SPR_MASK :: u64 where [field_mask]: "SPR_MASK = push_bit 11 0x3ff"
definition LIT_MASK :: u64 where [field_mask]: "LIT_MASK = push_bit 9 0xfff"
definition QVD_MASK :: u64 where [field_mask]: "QVD_MASK = push_bit 9 0x3"
definition QTTTT_MASK :: u64 where [field_mask]: "QTTTT_MASK = push_bit 7 0xf"
definition SPRBAT_MASK :: u64 where [field_mask]: "SPRBAT_MASK = push_bit 17 0x3"
definition STRM_MASK :: u64 where [field_mask]: "STRM_MASK = push_bit 21 0x3"
definition TO_MASK :: u64 where [field_mask]: "TO_MASK = push_bit 21 0x1f"
definition VA_MASK :: u64 where [field_mask]: "VA_MASK = push_bit 16 0x1f"
definition VB_MASK :: u64 where [field_mask]: "VB_MASK = push_bit 11 0x1f"
definition VC_MASK :: u64 where [field_mask]: "VC_MASK = push_bit 6 0x1f"
definition VD_MASK :: u64 where [field_mask]: "VD_MASK = push_bit 21 0x1f"
definition WS_MASK :: u64 where [field_mask]: "WS_MASK = push_bit 11 0x7"

lemma operand_numbers [ppc_val]:
  "UNUSED = 0"
  "BA = 1"
  "BAT = 2"
  "BB = 3"
  "BBA = 4"
  "BD = 5"
  "BDA = 6"
  "BDM = 7"
  "BDMA = 8"
  "BDP = 9"
  "BDPA = 10"
  "BF = 11"
  "OBF = 12"
  "BFA = 13"
  "BI = 14"
  "BO = 15"
  "BOE = 16"
  "BH = 17"
  "BT = 18"
  "CR = 19"
  "CRB = 20"
  "CRFD = 21"
  "CRFS = 22"
  "CT = 23"
  "D = 24"
  "DE = 25"
  "DES = 26"
  "DQ = 27"
  "DS = 28"
  "E = 29"
  "FL1 = 30"
  "FL2 = 31"
  "FLM = 32"
  "FRA = 33"
  "FRB = 34"
  "FRC = 35"
  "FRS = 36"
  "FRT = 36"
  "FXM = 37"
  "FXM4 = 38"
  "L = 39"
  "SVC_LEV = 40"
  "LEV = 41"
  "LI = 42"
  "LIA = 43"
  "LS = 44"
  "MB = 45"
  "ME = 46"
  "MBE = 47"
  "MB6 = 49"
  "ME6 = 49"
  "MO = 50"
  "TH = 51"
  "NB = 52"
  "NSI = 53"
  "RA = 54"
  "RA0 = 55"
  "RAQ = 56"
  "RAL = 57"
  "RAM = 58"
  "RAS = 59"
  "RAOPT = 60"
  "RB = 61"
  "RBS = 62"
  "RS = 63"
  "RT = 63"
  "RSQ = 64"
  "RTQ = 65"
  "RSO = 66"
  "RTO = 66"
  "SH = 67"
  "SH6 = 68"
  "SHO = 69"
  "SI = 70"
  "SISIGNOPT = 71"
  "SPR = 72"
  "PMR = 72"
  "LIT = 73"
  "QVD = 74"
  "QTTTT = 75"
  "SPRBAT = 76"
  "SPRG = 77"
  "SR = 78"
  "STRM = 79"
  "SV = 80"
  "TBR = 81"
  "TO = 82"
  "U = 83"
  "UI = 84"
  "VA = 85"
  "VB = 86"
  "VC = 87"
  "VD = 88"
  "VS = 88"
  "SIMM = 89"
  "UIMM = 90"
  "SHB = 91"
  "EVUIMM = 92"
  "EVUIMM_2 = 93"
  "EVUIMM_4 = 94"
  "EVUIMM_8 = 95"
  "WS = 96"
  "MTMSRD_L = 97"
  by (simp_all add: ppc_const)

definition powerpc_operands_0 :: "powerpc_operand list" where
  "powerpc_operands_0 =
   [opnd 0 0 None None 0,
    opnd 5 16 None None PPC_OPERAND_CR,
    opnd 5 16 (Some insert_bat) (Some extract_bat) PPC_OPERAND_FAKE,
    opnd 5 11 None None PPC_OPERAND_CR,
    opnd 5 11 (Some insert_bba) (Some extract_bba) PPC_OPERAND_FAKE,
    opnd 16 0 (Some insert_bd) (Some extract_bd) (PPC_OPERAND_RELATIVE OR PPC_OPERAND_SIGNED),
    opnd 16 0 (Some insert_bd) (Some extract_bd) (PPC_OPERAND_ABSOLUTE OR PPC_OPERAND_SIGNED),
    opnd 16 0 (Some insert_bdm) (Some extract_bdm) (PPC_OPERAND_RELATIVE OR PPC_OPERAND_SIGNED),
    opnd 16 0 (Some insert_bdm) (Some extract_bdm) (PPC_OPERAND_ABSOLUTE OR PPC_OPERAND_SIGNED),
    opnd 16 0 (Some insert_bdp) (Some extract_bdp) (PPC_OPERAND_RELATIVE OR PPC_OPERAND_SIGNED),
    opnd 16 0 (Some insert_bdp) (Some extract_bdp) (PPC_OPERAND_ABSOLUTE OR PPC_OPERAND_SIGNED),
    opnd 3 23 None None PPC_OPERAND_CR,
    opnd 3 23 None None (PPC_OPERAND_CR OR PPC_OPERAND_OPTIONAL),
    opnd 3 18 None None PPC_OPERAND_CR,
    opnd 5 16 None None PPC_OPERAND_CR,
    opnd 5 21 (Some insert_bo) (Some extract_bo) 0,
    opnd 5 21 (Some insert_boe) (Some extract_boe) 0,
    opnd 2 11 None None PPC_OPERAND_OPTIONAL,
    opnd 5 21 None None PPC_OPERAND_CR,
    opnd 3 18 None None (PPC_OPERAND_CR OR PPC_OPERAND_OPTIONAL),
    opnd 5 6 None None 0,
    opnd 3 23 None None PPC_OPERAND_CR,
    opnd 3 0 None None PPC_OPERAND_CR,
    opnd 5 21 None None PPC_OPERAND_OPTIONAL]"

definition powerpc_operands_1 :: "powerpc_operand list" where
  "powerpc_operands_1 =
   [opnd 16 0 None None (PPC_OPERAND_PARENS OR PPC_OPERAND_SIGNED),
    opnd 14 0 (Some insert_de) (Some extract_de) PPC_OPERAND_PARENS,
    opnd 14 0 (Some insert_des) (Some extract_des) (PPC_OPERAND_PARENS OR PPC_OPERAND_SIGNED),
    opnd 16 0 (Some insert_dq) (Some extract_dq) (PPC_OPERAND_PARENS OR PPC_OPERAND_SIGNED OR PPC_OPERAND_DQ),
    opnd 16 0 (Some insert_ds) (Some extract_ds) (PPC_OPERAND_PARENS OR PPC_OPERAND_SIGNED OR PPC_OPERAND_DS),
    opnd 1 15 None None 0,
    opnd 4 12 None None 0,
    opnd 3 2 None None 0,
    opnd 8 17 None None 0,
    opnd 5 16 None None PPC_OPERAND_FPR,
    opnd 5 11 None None PPC_OPERAND_FPR,
    opnd 5 6 None None PPC_OPERAND_FPR,
    opnd 5 21 None None PPC_OPERAND_FPR,
    opnd 8 12 (Some insert_fxm) (Some extract_fxm) 0,
    opnd 8 12 (Some insert_fxm) (Some extract_fxm) PPC_OPERAND_OPTIONAL,
    opnd 1 21 None None PPC_OPERAND_OPTIONAL,
    opnd 7 5 None None 0,
    opnd 7 5 None None PPC_OPERAND_OPTIONAL,
    opnd 26 0 (Some insert_li) (Some extract_li) (PPC_OPERAND_RELATIVE OR PPC_OPERAND_SIGNED),
    opnd 26 0 (Some insert_li) (Some extract_li) (PPC_OPERAND_ABSOLUTE OR PPC_OPERAND_SIGNED),
    opnd 2 21 None None PPC_OPERAND_OPTIONAL,
    opnd 5 6 None None 0,
    opnd 5 1 None None 0,
    opnd 5 6 None None (PPC_OPERAND_OPTIONAL OR PPC_OPERAND_NEXT),
    opnd 32 0 (Some insert_mbe) (Some extract_mbe) 0]"

definition powerpc_operands_2 :: "powerpc_operand list" where
  "powerpc_operands_2 =
   [opnd 6 5 (Some insert_mb6) (Some extract_mb6) 0,
    opnd 5 21 None None PPC_OPERAND_OPTIONAL,
    opnd 5 21 None None PPC_OPERAND_OPTIONAL,
    opnd 6 11 (Some insert_nb) (Some extract_nb) 0,
    opnd 16 0 (Some insert_nsi) (Some extract_nsi) (PPC_OPERAND_NEGATIVE OR PPC_OPERAND_SIGNED),
    opnd 5 16 None None PPC_OPERAND_GPR,
    opnd 5 16 None None PPC_OPERAND_GPR_0,
    opnd 5 16 (Some insert_raq) None PPC_OPERAND_GPR_0,
    opnd 5 16 (Some insert_ral) None PPC_OPERAND_GPR_0,
    opnd 5 16 (Some insert_ram) None PPC_OPERAND_GPR_0,
    opnd 5 16 (Some insert_ras) None PPC_OPERAND_GPR_0,
    opnd 5 16 None None (PPC_OPERAND_GPR OR PPC_OPERAND_OPTIONAL),
    opnd 5 11 None None PPC_OPERAND_GPR,
    opnd 5 1 (Some insert_rbs) (Some extract_rbs) PPC_OPERAND_FAKE,
    opnd 5 21 None None PPC_OPERAND_GPR,
    opnd 5 21 (Some insert_rsq) None PPC_OPERAND_GPR_0,
    opnd 5 21 (Some insert_rtq) None PPC_OPERAND_GPR_0,
    opnd 5 21 None None (PPC_OPERAND_GPR OR PPC_OPERAND_OPTIONAL),
    opnd 5 11 None None 0,
    opnd 6 1 (Some insert_sh6) (Some extract_sh6) 0,
    opnd 5 11 None None PPC_OPERAND_OPTIONAL,
    opnd 16 0 None None PPC_OPERAND_SIGNED,
    opnd 16 0 None None (PPC_OPERAND_SIGNED OR PPC_OPERAND_SIGNOPT)]"

definition powerpc_operands_3 :: "powerpc_operand list" where
  "powerpc_operands_3 =
   [opnd 10 11 (Some insert_spr) (Some extract_spr) 0,
    opnd 12 9 None None 0,
    opnd 2 9 None None 0,
    opnd 4 7 None None 0,
    opnd 2 17 None None 0,
    opnd 5 16 (Some insert_sprg) (Some extract_sprg) 0,
    opnd 4 16 None None 0,
    opnd 2 21 None None 0,
    opnd 14 2 None None 0,
    opnd 10 11 (Some insert_tbr) (Some extract_tbr) PPC_OPERAND_OPTIONAL,
    opnd 5 21 None None 0,
    opnd 4 12 None None 0,
    opnd 16 0 None None 0,
    opnd 5 16 None None PPC_OPERAND_VR,
    opnd 5 11 None None PPC_OPERAND_VR,
    opnd 5 6 None None PPC_OPERAND_VR,
    opnd 5 21 None None PPC_OPERAND_VR,
    opnd 5 16 None None PPC_OPERAND_SIGNED,
    opnd 5 16 None None 0,
    opnd 4 6 None None 0,
    opnd 5 11 None None 0,
    opnd 32 11 (Some insert_ev2) (Some extract_ev2) PPC_OPERAND_PARENS,
    opnd 32 11 (Some insert_ev4) (Some extract_ev4) PPC_OPERAND_PARENS,
    opnd 32 11 (Some insert_ev8) (Some extract_ev8) PPC_OPERAND_PARENS]"

definition powerpc_operands_4 :: "powerpc_operand list" where
  "powerpc_operands_4 =
   [opnd 3 11 None None 0,
    opnd 1 16 None None PPC_OPERAND_OPTIONAL]"

definition powerpc_operands :: "powerpc_operand list" where
  "powerpc_operands = powerpc_operands_0 @ powerpc_operands_1 @ powerpc_operands_2 @ powerpc_operands_3 @ powerpc_operands_4"

lemmas powerpc_operands_defs = powerpc_operands_def powerpc_operands_0_def powerpc_operands_1_def powerpc_operands_2_def powerpc_operands_3_def powerpc_operands_4_def

lemma length_powerpc_operands [simp]: "length powerpc_operands = 98"
  by (simp add: powerpc_operands_defs)

lemma powerpc_operands_nth [ppc_val]:
  "powerpc_operands ! 0 = opnd 0 0 None None 0x0"
  "powerpc_operands ! Suc 0 = opnd 5 16 None None 0x10"
  "powerpc_operands ! 2 = opnd 5 16 (Some insert_bat) (Some extract_bat) 0x4"
  "powerpc_operands ! 3 = opnd 5 11 None None 0x10"
  "powerpc_operands ! 4 = opnd 5 11 (Some insert_bba) (Some extract_bba) 0x4"
  "powerpc_operands ! 5 = opnd 16 0 (Some insert_bd) (Some extract_bd) 0x101"
  "powerpc_operands ! 6 = opnd 16 0 (Some insert_bd) (Some extract_bd) 0x201"
  "powerpc_operands ! 7 = opnd 16 0 (Some insert_bdm) (Some extract_bdm) 0x101"
  "powerpc_operands ! 8 = opnd 16 0 (Some insert_bdm) (Some extract_bdm) 0x201"
  "powerpc_operands ! 9 = opnd 16 0 (Some insert_bdp) (Some extract_bdp) 0x101"
  "powerpc_operands ! 10 = opnd 16 0 (Some insert_bdp) (Some extract_bdp) 0x201"
  "powerpc_operands ! 11 = opnd 3 23 None None 0x10"
  "powerpc_operands ! 12 = opnd 3 23 None None 0x410"
  "powerpc_operands ! 13 = opnd 3 18 None None 0x10"
  "powerpc_operands ! 14 = opnd 5 16 None None 0x10"
  "powerpc_operands ! 15 = opnd 5 21 (Some insert_bo) (Some extract_bo) 0x0"
  "powerpc_operands ! 16 = opnd 5 21 (Some insert_boe) (Some extract_boe) 0x0"
  "powerpc_operands ! 17 = opnd 2 11 None None 0x400"
  "powerpc_operands ! 18 = opnd 5 21 None None 0x10"
  "powerpc_operands ! 19 = opnd 3 18 None None 0x410"
  "powerpc_operands ! 20 = opnd 5 6 None None 0x0"
  "powerpc_operands ! 21 = opnd 3 23 None None 0x10"
  "powerpc_operands ! 22 = opnd 3 0 None None 0x10"
  "powerpc_operands ! 23 = opnd 5 21 None None 0x400"
  "powerpc_operands ! 24 = opnd 16 0 None None 0x9"
  "powerpc_operands ! 25 = opnd 14 0 (Some insert_de) (Some extract_de) 0x8"
  "powerpc_operands ! 26 = opnd 14 0 (Some insert_des) (Some extract_des) 0x9"
  "powerpc_operands ! 27 = opnd 16 0 (Some insert_dq) (Some extract_dq) 0x8009"
  "powerpc_operands ! 28 = opnd 16 0 (Some insert_ds) (Some extract_ds) 0x4009"
  "powerpc_operands ! 29 = opnd 1 15 None None 0x0"
  "powerpc_operands ! 30 = opnd 4 12 None None 0x0"
  "powerpc_operands ! 31 = opnd 3 2 None None 0x0"
  "powerpc_operands ! 32 = opnd 8 17 None None 0x0"
  "powerpc_operands ! 33 = opnd 5 16 None None 0x80"
  "powerpc_operands ! 34 = opnd 5 11 None None 0x80"
  "powerpc_operands ! 35 = opnd 5 6 None None 0x80"
  "powerpc_operands ! 36 = opnd 5 21 None None 0x80"
  "powerpc_operands ! 37 = opnd 8 12 (Some insert_fxm) (Some extract_fxm) 0x0"
  "powerpc_operands ! 38 = opnd 8 12 (Some insert_fxm) (Some extract_fxm) 0x400"
  "powerpc_operands ! 39 = opnd 1 21 None None 0x400"
  "powerpc_operands ! 40 = opnd 7 5 None None 0x0"
  "powerpc_operands ! 41 = opnd 7 5 None None 0x400"
  "powerpc_operands ! 42 = opnd 26 0 (Some insert_li) (Some extract_li) 0x101"
  "powerpc_operands ! 43 = opnd 26 0 (Some insert_li) (Some extract_li) 0x201"
  "powerpc_operands ! 44 = opnd 2 21 None None 0x400"
  "powerpc_operands ! 45 = opnd 5 6 None None 0x0"
  "powerpc_operands ! 46 = opnd 5 1 None None 0x0"
  "powerpc_operands ! 47 = opnd 5 6 None None 0xc00"
  "powerpc_operands ! 48 = opnd 32 0 (Some insert_mbe) (Some extract_mbe) 0x0"
  "powerpc_operands ! 49 = opnd 6 5 (Some insert_mb6) (Some extract_mb6) 0x0"
  "powerpc_operands ! 50 = opnd 5 21 None None 0x400"
  "powerpc_operands ! 51 = opnd 5 21 None None 0x400"
  "powerpc_operands ! 52 = opnd 6 11 (Some insert_nb) (Some extract_nb) 0x0"
  "powerpc_operands ! 53 = opnd 16 0 (Some insert_nsi) (Some extract_nsi) 0x1001"
  "powerpc_operands ! 54 = opnd 5 16 None None 0x20"
  "powerpc_operands ! 55 = opnd 5 16 None None 0x40"
  "powerpc_operands ! 56 = opnd 5 16 (Some insert_raq) None 0x40"
  "powerpc_operands ! 57 = opnd 5 16 (Some insert_ral) None 0x40"
  "powerpc_operands ! 58 = opnd 5 16 (Some insert_ram) None 0x40"
  "powerpc_operands ! 59 = opnd 5 16 (Some insert_ras) None 0x40"
  "powerpc_operands ! 60 = opnd 5 16 None None 0x420"
  "powerpc_operands ! 61 = opnd 5 11 None None 0x20"
  "powerpc_operands ! 62 = opnd 5 1 (Some insert_rbs) (Some extract_rbs) 0x4"
  "powerpc_operands ! 63 = opnd 5 21 None None 0x20"
  "powerpc_operands ! 64 = opnd 5 21 (Some insert_rsq) None 0x40"
  "powerpc_operands ! 65 = opnd 5 21 (Some insert_rtq) None 0x40"
  "powerpc_operands ! 66 = opnd 5 21 None None 0x420"
  "powerpc_operands ! 67 = opnd 5 11 None None 0x0"
  "powerpc_operands ! 68 = opnd 6 1 (Some insert_sh6) (Some extract_sh6) 0x0"
  "powerpc_operands ! 69 = opnd 5 11 None None 0x400"
  "powerpc_operands ! 70 = opnd 16 0 None None 0x1"
  "powerpc_operands ! 71 = opnd 16 0 None None 0x3"
  "powerpc_operands ! 72 = opnd 10 11 (Some insert_spr) (Some extract_spr) 0x0"
  "powerpc_operands ! 73 = opnd 12 9 None None 0x0"
  "powerpc_operands ! 74 = opnd 2 9 None None 0x0"
  "powerpc_operands ! 75 = opnd 4 7 None None 0x0"
  "powerpc_operands ! 76 = opnd 2 17 None None 0x0"
  "powerpc_operands ! 77 = opnd 5 16 (Some insert_sprg) (Some extract_sprg) 0x0"
  "powerpc_operands ! 78 = opnd 4 16 None None 0x0"
  "powerpc_operands ! 79 = opnd 2 21 None None 0x0"
  "powerpc_operands ! 80 = opnd 14 2 None None 0x0"
  "powerpc_operands ! 81 = opnd 10 11 (Some insert_tbr) (Some extract_tbr) 0x400"
  "powerpc_operands ! 82 = opnd 5 21 None None 0x0"
  "powerpc_operands ! 83 = opnd 4 12 None None 0x0"
  "powerpc_operands ! 84 = opnd 16 0 None None 0x0"
  "powerpc_operands ! 85 = opnd 5 16 None None 0x2000"
  "powerpc_operands ! 86 = opnd 5 11 None None 0x2000"
  "powerpc_operands ! 87 = opnd 5 6 None None 0x2000"
  "powerpc_operands ! 88 = opnd 5 21 None None 0x2000"
  "powerpc_operands ! 89 = opnd 5 16 None None 0x1"
  "powerpc_operands ! 90 = opnd 5 16 None None 0x0"
  "powerpc_operands ! 91 = opnd 4 6 None None 0x0"
  "powerpc_operands ! 92 = opnd 5 11 None None 0x0"
  "powerpc_operands ! 93 = opnd 32 11 (Some insert_ev2) (Some extract_ev2) 0x8"
  "powerpc_operands ! 94 = opnd 32 11 (Some insert_ev4) (Some extract_ev4) 0x8"
  "powerpc_operands ! 95 = opnd 32 11 (Some insert_ev8) (Some extract_ev8) 0x8"
  "powerpc_operands ! 96 = opnd 3 11 None None 0x0"
  "powerpc_operands ! 97 = opnd 1 16 None None 0x400"
  by (simp_all add: powerpc_operands_defs ppc_const)

lemma opnd_sel [simp]:
  "bits (opnd b s i e f) = b" "shift (opnd b s i e f) = s" "oinsert (opnd b s i e f) = i"
  "oextract (opnd b s i e f) = e" "oflags (opnd b s i e f) = f"
  by (simp_all add: opnd_def)

end
