(* ===== verification/PpcForms.thy ===== *)
theory PpcForms
  imports PpcOperand
begin

text \<open>
  The macros of \<^verbatim>\<open>bgq_util/src/ppcDecode.cc\<close> that build the opcodes, the masks and the
  processor flags of the opcode table: one definition per macro, on 64-bit words as in the code,
  where they are computed as \<^verbatim>\<open>unsigned long\<close>.
\<close>

section \<open>Instruction forms\<close>

definition OP :: "u64 \<Rightarrow> u64" where [ppc_form]: "OP x = push_bit 26 (x AND 0x3f)"
definition OP_MASK :: u64 where [field_mask]: "OP_MASK = OP 0x3f"
definition OPTO :: "u64 \<Rightarrow> u64 \<Rightarrow> u64" where
  [ppc_form]: "OPTO x to = (OP x) OR (push_bit 21 (to AND 0x1f))"
definition OPTO_MASK :: u64 where [field_mask]: "OPTO_MASK = OP_MASK OR TO_MASK"
definition OPL :: "u64 \<Rightarrow> u64 \<Rightarrow> u64" where
  [ppc_form]: "OPL x l = (OP x) OR (push_bit 21 (l AND 1))"
definition OPL_MASK :: u64 where [field_mask]: "OPL_MASK = OPL 0x3f 1"
definition A :: "u64 \<Rightarrow> u64 \<Rightarrow> u64 \<Rightarrow> u64" where
  [ppc_form]: "A op xop rc = (OP op) OR (push_bit 1 (xop AND 0x1f)) OR (rc AND 1)"
definition A_MASK :: u64 where [field_mask]: "A_MASK = A 0x3f 0x1f 1"
definition AFRB_MASK :: u64 where [field_mask]: "AFRB_MASK = A_MASK OR FRB_MASK"
definition AFRC_MASK :: u64 where [field_mask]: "AFRC_MASK = A_MASK OR FRC_MASK"
definition AFRAFRC_MASK :: u64 where [field_mask]: "AFRAFRC_MASK = A_MASK OR FRA_MASK OR FRC_MASK"
definition B :: "u64 \<Rightarrow> u64 \<Rightarrow> u64 \<Rightarrow> u64" where
  [ppc_form]: "B op aa lk = (OP op) OR (push_bit 1 (aa AND 1)) OR (lk AND 1)"
definition B_MASK :: u64 where [field_mask]: "B_MASK = B 0x3f 1 1"
definition BBO :: "u64 \<Rightarrow> u64 \<Rightarrow> u64 \<Rightarrow> u64 \<Rightarrow> u64" where
  [ppc_form]: "BBO op bo aa lk = (B op aa lk) OR (push_bit 21 (bo AND 0x1f))"
definition BBO_MASK :: u64 where [field_mask]: "BBO_MASK = BBO 0x3f 0x1f 1 1"
definition Y_MASK :: u64 where [field_mask]: "Y_MASK = push_bit 21 1"
definition AT1_MASK :: u64 where [field_mask]: "AT1_MASK = push_bit 21 3"
definition AT2_MASK :: u64 where [field_mask]: "AT2_MASK = push_bit 21 9"
definition BBOY_MASK :: u64 where [field_mask]: "BBOY_MASK = BBO_MASK AND (NOT Y_MASK)"
definition BBOAT_MASK :: u64 where [field_mask]: "BBOAT_MASK = BBO_MASK AND (NOT AT1_MASK)"
definition BBOCB :: "u64 \<Rightarrow> u64 \<Rightarrow> u64 \<Rightarrow> u64 \<Rightarrow> u64 \<Rightarrow> u64" where
  [ppc_form]: "BBOCB op bo cb aa lk = (BBO op bo aa lk) OR (push_bit 16 (cb AND 0x3))"
definition BBOCB_MASK :: u64 where [field_mask]: "BBOCB_MASK = BBOCB 0x3f 0x1f 0x3 1 1"
definition BBOYCB_MASK :: u64 where [field_mask]: "BBOYCB_MASK = BBOCB_MASK AND (NOT Y_MASK)"
definition BBOATCB_MASK :: u64 where [field_mask]: "BBOATCB_MASK = BBOCB_MASK AND (NOT AT1_MASK)"
definition BBOAT2CB_MASK :: u64 where [field_mask]: "BBOAT2CB_MASK = BBOCB_MASK AND (NOT AT2_MASK)"
definition BBOYBI_MASK :: u64 where [field_mask]: "BBOYBI_MASK = BBOYCB_MASK OR BI_MASK"
definition BBOATBI_MASK :: u64 where [field_mask]: "BBOATBI_MASK = BBOAT2CB_MASK OR BI_MASK"
definition CTX :: "u64 \<Rightarrow> u64 \<Rightarrow> u64" where
  [ppc_form]: "CTX op xop = (OP op) OR (xop AND 0x7)"
definition CTX_MASK :: u64 where [field_mask]: "CTX_MASK = CTX 0x3f 0x7"
definition UCTX :: "u64 \<Rightarrow> u64 \<Rightarrow> u64" where
  [ppc_form]: "UCTX op xop = (OP op) OR (xop AND 0x1f)"
definition UCTX_MASK :: u64 where [field_mask]: "UCTX_MASK = UCTX 0x3f 0x1f"
definition DRA_MASK :: u64 where [field_mask]: "DRA_MASK = OP_MASK OR RA_MASK"
definition DSO :: "u64 \<Rightarrow> u64 \<Rightarrow> u64" where
  [ppc_form]: "DSO op xop = (OP op) OR (xop AND 0x3)"
definition DS_MASK :: u64 where [field_mask]: "DS_MASK = DSO 0x3f 3"
definition DEO :: "u64 \<Rightarrow> u64 \<Rightarrow> u64" where
  [ppc_form]: "DEO op xop = (OP op) OR (xop AND 0xf)"
definition DE_MASK :: u64 where [field_mask]: "DE_MASK = DEO 0x3e 0xf"
definition EVSEL :: "u64 \<Rightarrow> u64 \<Rightarrow> u64" where
  [ppc_form]: "EVSEL op xop = (OP op) OR (push_bit 3 (xop AND 0xff))"
definition EVSEL_MASK :: u64 where [field_mask]: "EVSEL_MASK = EVSEL 0x3f 0xff"
definition M :: "u64 \<Rightarrow> u64 \<Rightarrow> u64" where [ppc_form]: "M op rc = (OP op) OR (rc AND 1)"
definition M_MASK :: u64 where [field_mask]: "M_MASK = M 0x3f 1"
definition MME :: "u64 \<Rightarrow> u64 \<Rightarrow> u64 \<Rightarrow> u64" where
  [ppc_form]: "MME op me rc = (M op rc) OR (push_bit 1 (me AND 0x1f))"
definition MMBME_MASK :: u64 where [field_mask]: "MMBME_MASK = M_MASK OR MB_MASK OR ME_MASK"
definition MSHME_MASK :: u64 where [field_mask]: "MSHME_MASK = M_MASK OR SH_MASK OR ME_MASK"
definition MD :: "u64 \<Rightarrow> u64 \<Rightarrow> u64 \<Rightarrow> u64" where
  [ppc_form]: "MD op xop rc = (OP op) OR (push_bit 2 (xop AND 0x7)) OR (rc AND 1)"
definition MD_MASK :: u64 where [field_mask]: "MD_MASK = MD 0x3f 0x7 1"
definition MDMB_MASK :: u64 where [field_mask]: "MDMB_MASK = MD_MASK OR MB6_MASK"
definition MDSH_MASK :: u64 where [field_mask]: "MDSH_MASK = MD_MASK OR SH6_MASK"
definition MDS :: "u64 \<Rightarrow> u64 \<Rightarrow> u64 \<Rightarrow> u64" where
  [ppc_form]: "MDS op xop rc = (OP op) OR (push_bit 1 (xop AND 0xf)) OR (rc AND 1)"
definition MDS_MASK :: u64 where [field_mask]: "MDS_MASK = MDS 0x3f 0xf 1"
definition MDSMB_MASK :: u64 where [field_mask]: "MDSMB_MASK = MDS_MASK OR MB6_MASK"
definition SC :: "u64 \<Rightarrow> u64 \<Rightarrow> u64 \<Rightarrow> u64" where
  [ppc_form]: "SC op sa lk = (OP op) OR (push_bit 1 (sa AND 1)) OR (lk AND 1)"
definition SC_MASK :: u64 where
  [field_mask]: "SC_MASK = OP_MASK OR (push_bit 16 0x3ff) OR (push_bit 1 1) OR 1"
definition VX :: "u64 \<Rightarrow> u64 \<Rightarrow> u64" where
  [ppc_form]: "VX op xop = (OP op) OR (xop AND 0x7ff)"
definition VX_MASK :: u64 where [field_mask]: "VX_MASK = VX 0x3f 0x7ff"
definition VXA :: "u64 \<Rightarrow> u64 \<Rightarrow> u64" where
  [ppc_form]: "VXA op xop = (OP op) OR (xop AND 0x03f)"
definition VXA_MASK :: u64 where [field_mask]: "VXA_MASK = VXA 0x3f 0x3f"
definition VXR :: "u64 \<Rightarrow> u64 \<Rightarrow> u64 \<Rightarrow> u64" where
  [ppc_form]: "VXR op xop rc = (OP op) OR (push_bit 10 (rc AND 1)) OR (xop AND 0x3ff)"
definition VXR_MASK :: u64 where [field_mask]: "VXR_MASK = VXR 0x3f 0x3ff 1"
definition X :: "u64 \<Rightarrow> u64 \<Rightarrow> u64" where
  [ppc_form]: "X op xop = (OP op) OR (push_bit 1 (xop AND 0x3ff))"
definition XRC :: "u64 \<Rightarrow> u64 \<Rightarrow> u64 \<Rightarrow> u64" where
  [ppc_form]: "XRC op xop rc = (X op xop) OR (rc AND 1)"
definition X_MASK :: u64 where [field_mask]: "X_MASK = XRC 0x3f 0x3ff 1"
definition XLIT_MASK :: u64 where [field_mask]: "XLIT_MASK = XRC 0x3f 0xff 0"
definition XTTTT_MASK :: u64 where [field_mask]: "XTTTT_MASK = XRC 0x3f 0x3f 0"
definition XRA_MASK :: u64 where [field_mask]: "XRA_MASK = X_MASK OR RA_MASK"
definition XRB_MASK :: u64 where [field_mask]: "XRB_MASK = X_MASK OR RB_MASK"
definition XRT_MASK :: u64 where [field_mask]: "XRT_MASK = X_MASK OR RT_MASK"
definition XRARB_MASK :: u64 where [field_mask]: "XRARB_MASK = X_MASK OR RA_MASK OR RB_MASK"
definition XRLARB_MASK :: u64 where [field_mask]: "XRLARB_MASK = XRARB_MASK AND (NOT (push_bit 16 1))"
definition XRTRA_MASK :: u64 where [field_mask]: "XRTRA_MASK = X_MASK OR RT_MASK OR RA_MASK"
definition XRTLRA_MASK :: u64 where [field_mask]: "XRTLRA_MASK = XRTRA_MASK AND (NOT (push_bit 21 1))"
definition XOPL :: "u64 \<Rightarrow> u64 \<Rightarrow> u64 \<Rightarrow> u64" where
  [ppc_form]: "XOPL op xop l = (X op xop) OR (push_bit 21 (l AND 1))"
definition XCMP_MASK :: u64 where [field_mask]: "XCMP_MASK = X_MASK OR (push_bit 22 1)"
definition XCMPL_MASK :: u64 where [field_mask]: "XCMPL_MASK = XCMP_MASK OR (push_bit 21 1)"
definition XTO :: "u64 \<Rightarrow> u64 \<Rightarrow> u64 \<Rightarrow> u64" where
  [ppc_form]: "XTO op xop to = (X op xop) OR (push_bit 21 (to AND 0x1f))"
definition XTO_MASK :: u64 where [field_mask]: "XTO_MASK = X_MASK OR TO_MASK"
definition XTLB :: "u64 \<Rightarrow> u64 \<Rightarrow> u64 \<Rightarrow> u64" where
  [ppc_form]: "XTLB op xop sh = (X op xop) OR (push_bit 11 (sh AND 0x1f))"
definition XTLB_MASK :: u64 where [field_mask]: "XTLB_MASK = X_MASK OR SH_MASK"
definition XSYNC :: "u64 \<Rightarrow> u64 \<Rightarrow> u64 \<Rightarrow> u64" where
  [ppc_form]: "XSYNC op xop l = (X op xop) OR (push_bit 21 (l AND 3))"
definition XSYNC_MASK :: u64 where [field_mask]: "XSYNC_MASK = 0xff9fffff"
definition XDSS :: "u64 \<Rightarrow> u64 \<Rightarrow> u64 \<Rightarrow> u64" where
  [ppc_form]: "XDSS op xop a = (X op xop) OR (push_bit 25 (a AND 1))"
definition XDSS_MASK :: u64 where [field_mask]: "XDSS_MASK = XDSS 0x3f 0x3ff 1"
definition XFL :: "u64 \<Rightarrow> u64 \<Rightarrow> u64 \<Rightarrow> u64" where
  [ppc_form]: "XFL op xop rc = (OP op) OR (push_bit 1 (xop AND 0x3ff)) OR (rc AND 1)"
definition XFL_MASK :: u64 where
  [field_mask]: "XFL_MASK = (XFL 0x3f 0x3ff 1) OR (push_bit 25 1) OR (push_bit 16 1)"
definition XISEL :: "u64 \<Rightarrow> u64 \<Rightarrow> u64" where
  [ppc_form]: "XISEL op xop = (OP op) OR (push_bit 1 (xop AND 0x1f))"
definition XISEL_MASK :: u64 where [field_mask]: "XISEL_MASK = XISEL 0x3f 0x1f"
definition XL :: "u64 \<Rightarrow> u64 \<Rightarrow> u64" where
  [ppc_form]: "XL op xop = (OP op) OR (push_bit 1 (xop AND 0x3ff))"
definition XLLK :: "u64 \<Rightarrow> u64 \<Rightarrow> u64 \<Rightarrow> u64" where
  [ppc_form]: "XLLK op xop lk = (XL op xop) OR (lk AND 1)"
definition XL_MASK :: u64 where [field_mask]: "XL_MASK = XLLK 0x3f 0x3ff 1"
definition XLO :: "u64 \<Rightarrow> u64 \<Rightarrow> u64 \<Rightarrow> u64 \<Rightarrow> u64" where
  [ppc_form]: "XLO op bo xop lk = (XLLK op xop lk) OR (push_bit 21 (bo AND 0x1f))"
definition XLO_MASK :: u64 where [field_mask]: "XLO_MASK = XL_MASK OR BO_MASK"
definition XLYLK :: "u64 \<Rightarrow> u64 \<Rightarrow> u64 \<Rightarrow> u64 \<Rightarrow> u64" where
  [ppc_form]: "XLYLK op xop y lk = (XLLK op xop lk) OR (push_bit 21 (y AND 1))"
definition XLYLK_MASK :: u64 where [field_mask]: "XLYLK_MASK = XL_MASK OR Y_MASK"
definition XLOCB :: "u64 \<Rightarrow> u64 \<Rightarrow> u64 \<Rightarrow> u64 \<Rightarrow> u64 \<Rightarrow> u64" where
  [ppc_form]: "XLOCB op bo cb xop lk = (XLO op bo xop lk) OR (push_bit 16 (cb AND 3))"
definition XLOCB_MASK :: u64 where [field_mask]: "XLOCB_MASK = XLOCB 0x3f 0x1f 0x3 0x3ff 1"
definition XLBB_MASK :: u64 where [field_mask]: "XLBB_MASK = XL_MASK OR BB_MASK"
definition XLYBB_MASK :: u64 where [field_mask]: "XLYBB_MASK = XLYLK_MASK OR BB_MASK"
definition XLBOCBBB_MASK :: u64 where [field_mask]: "XLBOCBBB_MASK = XLOCB_MASK OR BB_MASK"
definition XLBH_MASK :: u64 where [field_mask]: "XLBH_MASK = XL_MASK OR (push_bit 11 0x1c)"
definition XLBOBB_MASK :: u64 where [field_mask]: "XLBOBB_MASK = XL_MASK OR BO_MASK OR BB_MASK"
definition XLBOBIBB_MASK :: u64 where [field_mask]: "XLBOBIBB_MASK = XL_MASK OR BO_MASK OR BI_MASK OR BB_MASK"
definition XO :: "u64 \<Rightarrow> u64 \<Rightarrow> u64 \<Rightarrow> u64 \<Rightarrow> u64" where
  [ppc_form]: "XO op xop oe rc = (OP op) OR (push_bit 1 (xop AND 0x1ff)) OR (push_bit 10 (oe AND 1)) OR (rc AND 1)"
definition XO_MASK :: u64 where [field_mask]: "XO_MASK = XO 0x3f 0x1ff 1 1"
definition XORB_MASK :: u64 where [field_mask]: "XORB_MASK = XO_MASK OR RB_MASK"
definition XS :: "u64 \<Rightarrow> u64 \<Rightarrow> u64 \<Rightarrow> u64" where
  [ppc_form]: "XS op xop rc = (OP op) OR (push_bit 2 (xop AND 0x1ff)) OR (rc AND 1)"
definition XS_MASK :: u64 where [field_mask]: "XS_MASK = XS 0x3f 0x1ff 1"
definition XFXFXM_MASK :: u64 where [field_mask]: "XFXFXM_MASK = X_MASK OR (push_bit 11 1) OR (push_bit 20 1)"
definition XFXM :: "u64 \<Rightarrow> u64 \<Rightarrow> u64 \<Rightarrow> u64 \<Rightarrow> u64" where
  [ppc_form]: "XFXM op xop fxm p4 = (X op xop) OR (push_bit 12 (fxm AND 0xff)) OR (push_bit 20 p4)"
definition XSPR :: "u64 \<Rightarrow> u64 \<Rightarrow> u64 \<Rightarrow> u64" where
  [ppc_form]: "XSPR op xop spr = (X op xop) OR (push_bit 16 (spr AND 0x1f)) OR (push_bit 6 (spr AND 0x3e0))"
definition XSPR_MASK :: u64 where [field_mask]: "XSPR_MASK = X_MASK OR SPR_MASK"
definition XSPRBAT_MASK :: u64 where [field_mask]: "XSPRBAT_MASK = XSPR_MASK AND (NOT SPRBAT_MASK)"
definition XSPRG_MASK :: u64 where [field_mask]: "XSPRG_MASK = XSPR_MASK AND (NOT (push_bit 16 0x17))"
definition XE_MASK :: u64 where [field_mask]: "XE_MASK = 0xffff7fff"
definition XUC :: "u64 \<Rightarrow> u64 \<Rightarrow> u64" where
  [ppc_form]: "XUC op xop = (OP op) OR (xop AND 0x1f)"
definition XUC_MASK :: u64 where [field_mask]: "XUC_MASK = XUC 0x3f 0x1f"

section \<open>Encodings of the BO, BI and TO fields\<close>

definition BODNZF :: u64 where [ppc_form]: "BODNZF = 0x0"
definition BODNZFP :: u64 where [ppc_form]: "BODNZFP = 0x1"
definition BODZF :: u64 where [ppc_form]: "BODZF = 0x2"
definition BODZFP :: u64 where [ppc_form]: "BODZFP = 0x3"
definition BODNZT :: u64 where [ppc_form]: "BODNZT = 0x8"
definition BODNZTP :: u64 where [ppc_form]: "BODNZTP = 0x9"
definition BODZT :: u64 where [ppc_form]: "BODZT = 0xa"
definition BODZTP :: u64 where [ppc_form]: "BODZTP = 0xb"
definition BOF :: u64 where [ppc_form]: "BOF = 0x4"
definition BOFP :: u64 where [ppc_form]: "BOFP = 0x5"
definition BOFM4 :: u64 where [ppc_form]: "BOFM4 = 0x6"
definition BOFP4 :: u64 where [ppc_form]: "BOFP4 = 0x7"
definition BOT :: u64 where [ppc_form]: "BOT = 0xc"
definition BOTP :: u64 where [ppc_form]: "BOTP = 0xd"
definition BOTM4 :: u64 where [ppc_form]: "BOTM4 = 0xe"
definition BOTP4 :: u64 where [ppc_form]: "BOTP4 = 0xf"
definition BODNZ :: u64 where [ppc_form]: "BODNZ = 0x10"
definition BODNZP :: u64 where [ppc_form]: "BODNZP = 0x11"
definition BODZ :: u64 where [ppc_form]: "BODZ = 0x12"
definition BODZP :: u64 where [ppc_form]: "BODZP = 0x13"
definition BODNZM4 :: u64 where [ppc_form]: "BODNZM4 = 0x18"
definition BODNZP4 :: u64 where [ppc_form]: "BODNZP4 = 0x19"
definition BODZM4 :: u64 where [ppc_form]: "BODZM4 = 0x1a"
definition BODZP4 :: u64 where [ppc_form]: "BODZP4 = 0x1b"
definition BOU :: u64 where [ppc_form]: "BOU = 0x14"
definition CBLT :: u64 where [ppc_form]: "CBLT = 0"
definition CBGT :: u64 where [ppc_form]: "CBGT = 1"
definition CBEQ :: u64 where [ppc_form]: "CBEQ = 2"
definition CBSO :: u64 where [ppc_form]: "CBSO = 3"
definition TOLGT :: u64 where [ppc_form]: "TOLGT = 0x1"
definition TOLLT :: u64 where [ppc_form]: "TOLLT = 0x2"
definition TOEQ :: u64 where [ppc_form]: "TOEQ = 0x4"
definition TOLGE :: u64 where [ppc_form]: "TOLGE = 0x5"
definition TOLNL :: u64 where [ppc_form]: "TOLNL = 0x5"
definition TOLLE :: u64 where [ppc_form]: "TOLLE = 0x6"
definition TOLNG :: u64 where [ppc_form]: "TOLNG = 0x6"
definition TOGT :: u64 where [ppc_form]: "TOGT = 0x8"
definition TOGE :: u64 where [ppc_form]: "TOGE = 0xc"
definition TONL :: u64 where [ppc_form]: "TONL = 0xc"
definition TOLT :: u64 where [ppc_form]: "TOLT = 0x10"
definition TOLE :: u64 where [ppc_form]: "TOLE = 0x14"
definition TONG :: u64 where [ppc_form]: "TONG = 0x14"
definition TONE :: u64 where [ppc_form]: "TONE = 0x18"
definition TOU :: u64 where [ppc_form]: "TOU = 0x1f"

section \<open>Processor flags of the table\<close>

definition PPC :: u64 where [ppc_const]: "PPC = PPC_OPCODE_PPC"
definition PPCCOM :: u64 where [ppc_const]: "PPCCOM = PPC_OPCODE_PPC OR PPC_OPCODE_COMMON"
definition NOPOWER4 :: u64 where [ppc_const]: "NOPOWER4 = PPC_OPCODE_NOPOWER4 OR PPCCOM"
definition POWER4 :: u64 where [ppc_const]: "POWER4 = PPC_OPCODE_POWER4"
definition POWER5 :: u64 where [ppc_const]: "POWER5 = PPC_OPCODE_POWER5"
definition PPC32 :: u64 where [ppc_const]: "PPC32 = PPC_OPCODE_32 OR PPC_OPCODE_PPC"
definition PPC64 :: u64 where [ppc_const]: "PPC64 = PPC_OPCODE_64 OR PPC_OPCODE_PPC"
definition PPC403 :: u64 where [ppc_const]: "PPC403 = PPC_OPCODE_403"
definition PPC405 :: u64 where [ppc_const]: "PPC405 = PPC403"
definition PPC440 :: u64 where [ppc_const]: "PPC440 = PPC_OPCODE_440"
definition PPC450 :: u64 where [ppc_const]: "PPC450 = PPC_OPCODE_450"
definition PPC750 :: u64 where [ppc_const]: "PPC750 = PPC"
definition PPC860 :: u64 where [ppc_const]: "PPC860 = PPC"
definition PPCVEC :: u64 where [ppc_const]: "PPCVEC = PPC_OPCODE_ALTIVEC"
definition POWER :: u64 where [ppc_const]: "POWER = PPC_OPCODE_POWER"
definition POWER2 :: u64 where [ppc_const]: "POWER2 = PPC_OPCODE_POWER OR PPC_OPCODE_POWER2"
definition PPCPWR2 :: u64 where
  [ppc_const]: "PPCPWR2 = PPC_OPCODE_PPC OR PPC_OPCODE_POWER OR PPC_OPCODE_POWER2"
definition POWER32 :: u64 where [ppc_const]: "POWER32 = PPC_OPCODE_POWER OR PPC_OPCODE_32"
definition COM :: u64 where [ppc_const]: "COM = PPC_OPCODE_POWER OR PPC_OPCODE_PPC OR PPC_OPCODE_COMMON"
definition POWERA2 :: u64 where [ppc_const]: "POWERA2 = COM"
definition COM32 :: u64 where
  [ppc_const]: "COM32 = PPC_OPCODE_POWER OR PPC_OPCODE_PPC OR PPC_OPCODE_COMMON OR PPC_OPCODE_32"
definition M601 :: u64 where [ppc_const]: "M601 = PPC_OPCODE_POWER OR PPC_OPCODE_601"
definition PWRCOM :: u64 where [ppc_const]: "PWRCOM = PPC_OPCODE_POWER OR PPC_OPCODE_601 OR PPC_OPCODE_COMMON"
definition MFDEC1 :: u64 where [ppc_const]: "MFDEC1 = PPC_OPCODE_POWER"
definition MFDEC2 :: u64 where [ppc_const]: "MFDEC2 = PPC_OPCODE_PPC OR PPC_OPCODE_601 OR PPC_OPCODE_BOOKE"
definition BOOKE :: u64 where [ppc_const]: "BOOKE = PPC_OPCODE_BOOKE"
definition BOOKE64 :: u64 where [ppc_const]: "BOOKE64 = PPC_OPCODE_BOOKE64"
definition CLASSIC :: u64 where [ppc_const]: "CLASSIC = PPC_OPCODE_CLASSIC"
definition PPCE300 :: u64 where [ppc_const]: "PPCE300 = PPC_OPCODE_E300"
definition PPCSPE :: u64 where [ppc_const]: "PPCSPE = PPC_OPCODE_SPE"
definition PPCISEL :: u64 where [ppc_const]: "PPCISEL = PPC_OPCODE_ISEL"
definition PPCEFS :: u64 where [ppc_const]: "PPCEFS = PPC_OPCODE_EFS"
definition PPCBRLK :: u64 where [ppc_const]: "PPCBRLK = PPC_OPCODE_BRLOCK"
definition PPCPMR :: u64 where [ppc_const]: "PPCPMR = PPC_OPCODE_PMR"
definition PPCCHLK :: u64 where [ppc_const]: "PPCCHLK = PPC_OPCODE_CACHELCK"
definition PPCCHLK64 :: u64 where [ppc_const]: "PPCCHLK64 = PPC_OPCODE_CACHELCK OR PPC_OPCODE_BOOKE64"
definition PPCRFMCI :: u64 where [ppc_const]: "PPCRFMCI = PPC_OPCODE_RFMCI"
definition PPCBGL :: u64 where [ppc_const]: "PPCBGL = PPC_OPCODE_BGL"
definition PPCQPX :: u64 where [ppc_const]: "PPCQPX = COM"
definition PPCA2 :: u64 where [ppc_const]: "PPCA2 = COM"

section \<open>Operands of the vector instructions\<close>

definition QRT :: nat where [ppc_const]: "QRT = FRT"
definition QRS :: nat where [ppc_const]: "QRS = FRS"
definition QRA :: nat where [ppc_const]: "QRA = FRA"
definition QRB :: nat where [ppc_const]: "QRB = FRB"
definition QRC :: nat where [ppc_const]: "QRC = FRC"
definition QAT :: nat where [ppc_const]: "QAT = BAT"
definition QBA :: nat where [ppc_const]: "QBA = BBA"

section \<open>Values\<close>

text \<open>The masks and the flags as numbers, for the checks that run over the table.\<close>

lemma mask_values [ppc_val]:
  "AFRAFRC_MASK = 0xfc1f07ff"
  "AFRB_MASK = 0xfc00f83f"
  "AFRC_MASK = 0xfc0007ff"
  "A_MASK = 0xfc00003f"
  "BBOAT2CB_MASK = 0xfec30003"
  "BBOATBI_MASK = 0xfedf0003"
  "BBOATCB_MASK = 0xff830003"
  "BBOAT_MASK = 0xff800003"
  "BBOCB_MASK = 0xffe30003"
  "BBOYCB_MASK = 0xffc30003"
  "BBOY_MASK = 0xffc00003"
  "BBO_MASK = 0xffe00003"
  "B_MASK = 0xfc000003"
  "DE_MASK = 0xf800000f"
  "DRA_MASK = 0xfc1f0000"
  "DS_MASK = 0xfc000003"
  "EVSEL_MASK = 0xfc0007f8"
  "MDMB_MASK = 0xfc0007fd"
  "MDSH_MASK = 0xfc00f81f"
  "MDSMB_MASK = 0xfc0007ff"
  "MDS_MASK = 0xfc00001f"
  "MD_MASK = 0xfc00001d"
  "MMBME_MASK = 0xfc0007ff"
  "MSHME_MASK = 0xfc00f83f"
  "M_MASK = 0xfc000001"
  "OPL_MASK = 0xfc200000"
  "OPTO_MASK = 0xffe00000"
  "OP_MASK = 0xfc000000"
  "QTTTT_MASK = 0x780"
  "SC_MASK = 0xffff0003"
  "VXA_MASK = 0xfc00003f"
  "VXR_MASK = 0xfc0007ff"
  "VX_MASK = 0xfc0007ff"
  "XCMPL_MASK = 0xfc6007ff"
  "XCMP_MASK = 0xfc4007ff"
  "XDSS_MASK = 0xfe0007fe"
  "XE_MASK = 0xffff7fff"
  "XFL_MASK = 0xfe0107ff"
  "XFXFXM_MASK = 0xfc100fff"
  "XISEL_MASK = 0xfc00003e"
  "XLBB_MASK = 0xfc00ffff"
  "XLBH_MASK = 0xfc00e7ff"
  "XLBOBB_MASK = 0xffe0ffff"
  "XLBOBIBB_MASK = 0xffffffff"
  "XLBOCBBB_MASK = 0xffe3ffff"
  "XLIT_MASK = 0xfc0001fe"
  "XLOCB_MASK = 0xffe307ff"
  "XLYBB_MASK = 0xfc20ffff"
  "XLYLK_MASK = 0xfc2007ff"
  "XL_MASK = 0xfc0007ff"
  "XORB_MASK = 0xfc00ffff"
  "XO_MASK = 0xfc0007ff"
  "XRARB_MASK = 0xfc1fffff"
  "XRA_MASK = 0xfc1f07ff"
  "XRB_MASK = 0xfc00ffff"
  "XRLARB_MASK = 0xfc1effff"
  "XRTLRA_MASK = 0xffdf07ff"
  "XRTRA_MASK = 0xffff07ff"
  "XRT_MASK = 0xffe007ff"
  "XSPRBAT_MASK = 0xfc19ffff"
  "XSPRG_MASK = 0xfc08ffff"
  "XSPR_MASK = 0xfc1fffff"
  "XSYNC_MASK = 0xff9fffff"
  "XS_MASK = 0xfc0007fd"
  "XTLB_MASK = 0xfc00ffff"
  "XTO_MASK = 0xffe007ff"
  "X_MASK = 0xfc0007ff"
  by (simp_all add: field_mask ppc_form)

lemma flag_values [ppc_val]:
  "PPC = 0x1"
  "PPCCOM = 0x41"
  "NOPOWER4 = 0x8041"
  "POWER4 = 0x4000"
  "POWER5 = 0x1000000"
  "POWERA2 = 0x43"
  "PPC32 = 0x9"
  "PPC64 = 0x11"
  "PPC403 = 0x400"
  "PPC405 = 0x400"
  "PPC440 = 0x2000"
  "PPC450 = 0x2000000"
  "PPC750 = 0x1"
  "PPC860 = 0x1"
  "PPCVEC = 0x200"
  "POWER = 0x2"
  "POWER2 = 0x6"
  "PPCPWR2 = 0x7"
  "POWER32 = 0xa"
  "COM = 0x43"
  "COM32 = 0x4b"
  "M601 = 0x22"
  "PWRCOM = 0x62"
  "MFDEC1 = 0x2"
  "MFDEC2 = 0x821"
  "BOOKE = 0x800"
  "BOOKE64 = 0x1000"
  "CLASSIC = 0x10000"
  "PPCE300 = 0x2000000"
  "PPCSPE = 0x20000"
  "PPCISEL = 0x40000"
  "PPCEFS = 0x80000"
  "PPCBRLK = 0x100000"
  "PPCPMR = 0x200000"
  "PPCCHLK = 0x400000"
  "PPCCHLK64 = 0x401000"
  "PPCRFMCI = 0x800000"
  "PPCBGL = 0x1000000"
  "PPCQPX = 0x43"
  "PPCA2 = 0x43"
  by (simp_all add: ppc_const)

lemma vector_operands [ppc_val]:
  "QRT = 36"
  "QRS = 36"
  "QRA = 33"
  "QRB = 34"
  "QRC = 35"
  "QAT = 2"
  "QBA = 4"
  by (simp_all add: ppc_const)

end
