(* ===== verification/PpcTable.thy ===== *)
theory PpcTable
  imports PpcForms
begin

text \<open>
  The opcode table of the disassembler, \<^verbatim>\<open>powerpc_opcodes\<close> in \<^verbatim>\<open>bgq_util/src/ppcDecode.cc\<close>, entry by
  entry and in the order of the source, in pieces of at most 150 lines of it.
\<close>

record powerpc_opcode =
  name :: string
  opcode :: u64
  opmask :: u64
  opflags :: u64
  operands :: "nat list"

definition Opc :: "string \<Rightarrow> u64 \<Rightarrow> u64 \<Rightarrow> u64 \<Rightarrow> nat list \<Rightarrow> powerpc_opcode" where
  "Opc n c m f ops = \<lparr>name = n, opcode = c, opmask = m, opflags = f, operands = ops\<rparr>"

definition powerpc_opcodes_0 :: "powerpc_opcode list" where
  "powerpc_opcodes_0 =
   [Opc ''fpsel'' (A 0 5 0) A_MASK PPCBGL [FRT, FRA, FRC, FRB],
    Opc ''fpmul'' (A 0 8 0) AFRB_MASK PPCBGL [FRT, FRA, FRC],
    Opc ''fxmul'' (A 0 9 0) AFRB_MASK PPCBGL [FRT, FRA, FRC],
    Opc ''fxpmul'' (A 0 10 0) AFRB_MASK PPCBGL [FRT, FRA, FRC],
    Opc ''fxsmul'' (A 0 11 0) AFRB_MASK PPCBGL [FRT, FRA, FRC],
    Opc ''fpadd'' (A 0 12 0) AFRC_MASK PPCBGL [FRT, FRA, FRB],
    Opc ''fpsub'' (A 0 13 0) AFRC_MASK PPCBGL [FRT, FRA, FRB],
    Opc ''fpre'' (A 0 14 0) AFRAFRC_MASK PPCBGL [FRT, FRB],
    Opc ''fprsqrte'' (A 0 15 0) AFRAFRC_MASK PPCBGL [FRT, FRB],
    Opc ''fpmadd'' (A 0 16 0) A_MASK PPCBGL [FRT, FRA, FRC, FRB],
    Opc ''fxmadd'' (A 0 17 0) A_MASK PPCBGL [FRT, FRA, FRC, FRB],
    Opc ''fxcpmadd'' (A 0 18 0) A_MASK PPCBGL [FRT, FRA, FRC, FRB],
    Opc ''fxcsmadd'' (A 0 19 0) A_MASK PPCBGL [FRT, FRA, FRC, FRB],
    Opc ''fpnmadd'' (A 0 20 0) A_MASK PPCBGL [FRT, FRA, FRC, FRB],
    Opc ''fxnmadd'' (A 0 21 0) A_MASK PPCBGL [FRT, FRA, FRC, FRB],
    Opc ''fxcpnmadd'' (A 0 22 0) A_MASK PPCBGL [FRT, FRA, FRC, FRB],
    Opc ''fxcsnmadd'' (A 0 23 0) A_MASK PPCBGL [FRT, FRA, FRC, FRB],
    Opc ''fpmsub'' (A 0 24 0) A_MASK PPCBGL [FRT, FRA, FRC, FRB],
    Opc ''fxmsub'' (A 0 25 0) A_MASK PPCBGL [FRT, FRA, FRC, FRB],
    Opc ''fxcpmsub'' (A 0 26 0) A_MASK PPCBGL [FRT, FRA, FRC, FRB],
    Opc ''fxcsmsub'' (A 0 27 0) A_MASK PPCBGL [FRT, FRA, FRC, FRB],
    Opc ''fpnmsub'' (A 0 28 0) A_MASK PPCBGL [FRT, FRA, FRC, FRB],
    Opc ''fxnmsub'' (A 0 29 0) A_MASK PPCBGL [FRT, FRA, FRC, FRB],
    Opc ''fxcpnmsub'' (A 0 30 0) A_MASK PPCBGL [FRT, FRA, FRC, FRB],
    Opc ''fxcsnmsub'' (A 0 31 0) A_MASK PPCBGL [FRT, FRA, FRC, FRB],
    Opc ''fpmr'' (X 0 32) XRA_MASK PPCBGL [FRT, FRB],
    Opc ''fpabs'' (X 0 96) XRA_MASK PPCBGL [FRT, FRB],
    Opc ''fpneg'' (X 0 160) XRA_MASK PPCBGL [FRT, FRB],
    Opc ''fprsp'' (X 0 192) XRA_MASK PPCBGL [FRT, FRB],
    Opc ''fpnabs'' (X 0 224) XRA_MASK PPCBGL [FRT, FRB],
    Opc ''fsmr'' (X 0 288) XRA_MASK PPCBGL [FRT, FRB],
    Opc ''fscmp'' (X 0 320) (X_MASK OR (push_bit 21 3)) PPCBGL [BF, FRA, FRB],
    Opc ''fsabs'' (X 0 352) XRA_MASK PPCBGL [FRT, FRB],
    Opc ''fsneg'' (X 0 416) XRA_MASK PPCBGL [FRT, FRB],
    Opc ''fsnabs'' (X 0 480) XRA_MASK PPCBGL [FRT, FRB],
    Opc ''fxmr'' (X 0 544) XRA_MASK PPCBGL [FRT, FRB],
    Opc ''fpctiw'' (X 0 576) XRA_MASK PPCBGL [FRT, FRB],
    Opc ''fpctiwz'' (X 0 704) XRA_MASK PPCBGL [FRT, FRB],
    Opc ''fsmtp'' (X 0 800) XRA_MASK PPCBGL [FRT, FRB],
    Opc ''fsmfp'' (X 0 928) XRA_MASK PPCBGL [FRT, FRB],
    Opc ''attn'' (X 0 256) X_MASK POWER4 [0],
    Opc ''qvfxxmadds'' (A 0 1 0) A_MASK PPCQPX [QRT, QRA, QRC, QRB],
    Opc ''qvfxxcpnmadds'' (A 0 3 0) A_MASK PPCQPX [QRT, QRA, QRC, QRB],
    Opc ''qvfxmadds'' (A 0 9 0) A_MASK PPCQPX [QRT, QRA, QRC, QRB],
    Opc ''qvfxxnpmadds'' (A 0 11 0) A_MASK PPCQPX [QRT, QRA, QRC, QRB],
    Opc ''qvfxmuls'' (A 0 17 0) AFRB_MASK PPCQPX [QRT, QRA, QRC],
    Opc ''qvfsubs'' (A 0 20 0) AFRC_MASK PPCQPX [QRT, QRA, QRB],
    Opc ''qvfadds'' (A 0 21 0) AFRC_MASK PPCQPX [QRT, QRA, QRB],
    Opc ''qvfres'' (A 0 24 0) AFRAFRC_MASK PPCQPX [QRT, QRB],
    Opc ''qvfmuls'' (A 0 25 0) AFRB_MASK PPCQPX [QRT, QRA, QRC],
    Opc ''qvfrsqrtes'' (A 0 26 0) AFRAFRC_MASK PPCQPX [QRT, QRB],
    Opc ''qvfmsubs'' (A 0 28 0) A_MASK PPCQPX [QRT, QRA, QRC, QRB],
    Opc ''qvfmadds'' (A 0 29 0) A_MASK PPCQPX [QRT, QRA, QRC, QRB],
    Opc ''qvfnmsubs'' (A 0 30 0) A_MASK PPCQPX [QRT, QRA, QRC, QRB],
    Opc ''qvfnmadds'' (A 0 31 0) A_MASK PPCQPX [QRT, QRA, QRC, QRB],
    Opc ''qvfcfids'' (XRC 0 846 0) XRA_MASK PPCQPX [QRT, QRB],
    Opc ''qvfcfidus'' (XRC 0 974 0) XRA_MASK PPCQPX [QRT, QRB],
    Opc ''tdlgti'' (OPTO 2 TOLGT) OPTO_MASK PPC64 [RA, SI],
    Opc ''tdllti'' (OPTO 2 TOLLT) OPTO_MASK PPC64 [RA, SI],
    Opc ''tdeqi'' (OPTO 2 TOEQ) OPTO_MASK PPC64 [RA, SI],
    Opc ''tdlgei'' (OPTO 2 TOLGE) OPTO_MASK PPC64 [RA, SI],
    Opc ''tdlnli'' (OPTO 2 TOLNL) OPTO_MASK PPC64 [RA, SI],
    Opc ''tdllei'' (OPTO 2 TOLLE) OPTO_MASK PPC64 [RA, SI],
    Opc ''tdlngi'' (OPTO 2 TOLNG) OPTO_MASK PPC64 [RA, SI],
    Opc ''tdgti'' (OPTO 2 TOGT) OPTO_MASK PPC64 [RA, SI],
    Opc ''tdgei'' (OPTO 2 TOGE) OPTO_MASK PPC64 [RA, SI],
    Opc ''tdnli'' (OPTO 2 TONL) OPTO_MASK PPC64 [RA, SI],
    Opc ''tdlti'' (OPTO 2 TOLT) OPTO_MASK PPC64 [RA, SI],
    Opc ''tdlei'' (OPTO 2 TOLE) OPTO_MASK PPC64 [RA, SI],
    Opc ''tdngi'' (OPTO 2 TONG) OPTO_MASK PPC64 [RA, SI],
    Opc ''tdnei'' (OPTO 2 TONE) OPTO_MASK PPC64 [RA, SI],
    Opc ''tdi'' (OP 2) OP_MASK PPC64 [TO, RA, SI],
    Opc ''twlgti'' (OPTO 3 TOLGT) OPTO_MASK PPCCOM [RA, SI],
    Opc ''tlgti'' (OPTO 3 TOLGT) OPTO_MASK PWRCOM [RA, SI],
    Opc ''twllti'' (OPTO 3 TOLLT) OPTO_MASK PPCCOM [RA, SI],
    Opc ''tllti'' (OPTO 3 TOLLT) OPTO_MASK PWRCOM [RA, SI],
    Opc ''tweqi'' (OPTO 3 TOEQ) OPTO_MASK PPCCOM [RA, SI],
    Opc ''teqi'' (OPTO 3 TOEQ) OPTO_MASK PWRCOM [RA, SI],
    Opc ''twlgei'' (OPTO 3 TOLGE) OPTO_MASK PPCCOM [RA, SI],
    Opc ''tlgei'' (OPTO 3 TOLGE) OPTO_MASK PWRCOM [RA, SI],
    Opc ''twlnli'' (OPTO 3 TOLNL) OPTO_MASK PPCCOM [RA, SI],
    Opc ''tlnli'' (OPTO 3 TOLNL) OPTO_MASK PWRCOM [RA, SI],
    Opc ''twllei'' (OPTO 3 TOLLE) OPTO_MASK PPCCOM [RA, SI],
    Opc ''tllei'' (OPTO 3 TOLLE) OPTO_MASK PWRCOM [RA, SI],
    Opc ''twlngi'' (OPTO 3 TOLNG) OPTO_MASK PPCCOM [RA, SI],
    Opc ''tlngi'' (OPTO 3 TOLNG) OPTO_MASK PWRCOM [RA, SI],
    Opc ''twgti'' (OPTO 3 TOGT) OPTO_MASK PPCCOM [RA, SI],
    Opc ''tgti'' (OPTO 3 TOGT) OPTO_MASK PWRCOM [RA, SI],
    Opc ''twgei'' (OPTO 3 TOGE) OPTO_MASK PPCCOM [RA, SI],
    Opc ''tgei'' (OPTO 3 TOGE) OPTO_MASK PWRCOM [RA, SI],
    Opc ''twnli'' (OPTO 3 TONL) OPTO_MASK PPCCOM [RA, SI],
    Opc ''tnli'' (OPTO 3 TONL) OPTO_MASK PWRCOM [RA, SI],
    Opc ''twlti'' (OPTO 3 TOLT) OPTO_MASK PPCCOM [RA, SI],
    Opc ''tlti'' (OPTO 3 TOLT) OPTO_MASK PWRCOM [RA, SI],
    Opc ''twlei'' (OPTO 3 TOLE) OPTO_MASK PPCCOM [RA, SI],
    Opc ''tlei'' (OPTO 3 TOLE) OPTO_MASK PWRCOM [RA, SI],
    Opc ''twngi'' (OPTO 3 TONG) OPTO_MASK PPCCOM [RA, SI],
    Opc ''tngi'' (OPTO 3 TONG) OPTO_MASK PWRCOM [RA, SI],
    Opc ''twnei'' (OPTO 3 TONE) OPTO_MASK PPCCOM [RA, SI],
    Opc ''tnei'' (OPTO 3 TONE) OPTO_MASK PWRCOM [RA, SI],
    Opc ''twi'' (OP 3) OP_MASK PPCCOM [TO, RA, SI],
    Opc ''ti'' (OP 3) OP_MASK PWRCOM [TO, RA, SI],
    Opc ''qvfxxmadd'' (A 4 1 0) A_MASK PPCQPX [QRT, QRA, QRC, QRB],
    Opc ''qvfxxcpnmadd'' (A 4 3 0) A_MASK PPCQPX [QRT, QRA, QRC, QRB],
    Opc ''qvfxmadd'' (A 4 9 0) A_MASK PPCQPX [QRT, QRA, QRC, QRB],
    Opc ''qvfxxnpmadd'' (A 4 11 0) A_MASK PPCQPX [QRT, QRA, QRC, QRB],
    Opc ''qvfsel'' (A 4 23 0) A_MASK PPCQPX [QRT, QRA, QRC, QRB],
    Opc ''qvfcpsgn'' (A 4 8 0) AFRC_MASK PPCQPX [QRT, QRA, QRB],
    Opc ''qvfxmul'' (A 4 17 0) AFRB_MASK PPCQPX [QRT, QRA, QRC],
    Opc ''qvfsub'' (A 4 20 0) AFRC_MASK PPCQPX [QRT, QRA, QRB],
    Opc ''qvfadd'' (A 4 21 0) AFRC_MASK PPCQPX [QRT, QRA, QRB],
    Opc ''qvfre'' (A 4 24 0) AFRAFRC_MASK PPCQPX [QRT, QRB],
    Opc ''qvfmul'' (A 4 25 0) AFRB_MASK PPCQPX [QRT, QRA, QRC],
    Opc ''qvfrsqrte'' (A 4 26 0) AFRAFRC_MASK PPCQPX [QRT, QRB],
    Opc ''qvfmsub'' (A 4 28 0) A_MASK PPCQPX [QRT, QRA, QRC, QRB],
    Opc ''qvfmadd'' (A 4 29 0) A_MASK PPCQPX [QRT, QRA, QRC, QRB],
    Opc ''qvfnmsub'' (A 4 30 0) A_MASK PPCQPX [QRT, QRA, QRC, QRB],
    Opc ''qvfnmadd'' (A 4 31 0) A_MASK PPCQPX [QRT, QRA, QRC, QRB],
    Opc ''qvfperm'' (A 4 6 0) A_MASK PPCQPX [QRT, QRA, QRB, QRC],
    Opc ''qvftstnan'' (XO 4 64 0 0) XO_MASK PPCQPX [QRT, QRA, QRB]]"

definition powerpc_opcodes_1 :: "powerpc_opcode list" where
  "powerpc_opcodes_1 =
   [Opc ''qvfcmpgt'' (XO 4 32 0 0) XO_MASK PPCQPX [QRT, QRA, QRB],
    Opc ''qvfcmplt'' (XO 4 96 0 0) XO_MASK PPCQPX [QRT, QRA, QRB],
    Opc ''qvfcmpeq'' (XO 4 0 0 0) XO_MASK PPCQPX [QRT, QRA, QRB],
    Opc ''qvaligni_00'' (XRC 4 0x005 0) X_MASK PPCQPX [QRT, QRA, QRB],
    Opc ''qvaligni_01'' (XRC 4 0x105 0) X_MASK PPCQPX [QRT, QRA, QRB],
    Opc ''qvaligni_10'' (XRC 4 0x205 0) X_MASK PPCQPX [QRT, QRA, QRB],
    Opc ''qvaligni_11'' (XRC 4 0x305 0) X_MASK PPCQPX [QRT, QRA, QRB],
    Opc ''qvaligni'' (XRC 4 0x05 0) XLIT_MASK PPCQPX [QRT, QRA, QRB, QVD],
    Opc ''qvesplati_00'' (XRC 4 0x025 0) XRB_MASK PPCQPX [QRT, QRA],
    Opc ''qvesplati_01'' (XRC 4 0x125 0) XRB_MASK PPCQPX [QRT, QRA],
    Opc ''qvesplati_10'' (XRC 4 0x225 0) XRB_MASK PPCQPX [QRT, QRA],
    Opc ''qvesplati_11'' (XRC 4 0x325 0) XRB_MASK PPCQPX [QRT, QRA],
    Opc ''qvesplati'' (XRC 4 0x25 0) XLIT_MASK PPCQPX [QRT, QRA, QVD],
    Opc ''qvgpci'' (XRC 4 133 0) XLIT_MASK PPCQPX [QRT, LIT],
    Opc ''qvfrsp'' (XRC 4 12 0) XRA_MASK PPCQPX [QRT, QRB],
    Opc ''qvfctid'' (XRC 4 814 0) XRA_MASK PPCQPX [QRT, QRB],
    Opc ''qvfctidu'' (XRC 4 942 0) XRA_MASK PPCQPX [QRT, QRB],
    Opc ''qvfctiduz'' (XRC 4 943 0) XRA_MASK PPCQPX [QRT, QRB],
    Opc ''qvfctidz'' (XRC 4 815 0) XRA_MASK PPCQPX [QRT, QRB],
    Opc ''qvfctiw'' (XRC 4 14 0) XRA_MASK PPCQPX [QRT, QRB],
    Opc ''qvfctiwu'' (XRC 4 142 0) XRA_MASK PPCQPX [QRT, QRB],
    Opc ''qvfctiwz'' (XRC 4 15 0) XRA_MASK PPCQPX [QRT, QRB],
    Opc ''qvfctiwuz'' (XRC 4 143 0) XRA_MASK PPCQPX [QRT, QRB],
    Opc ''qvfcfid'' (XRC 4 846 0) XRA_MASK PPCQPX [QRT, QRB],
    Opc ''qvfcfidu'' (XRC 4 974 0) XRA_MASK PPCQPX [QRT, QRB],
    Opc ''qvfrin'' (XRC 4 392 0) XRA_MASK PPCQPX [QRT, QRB],
    Opc ''qvfriz'' (XRC 4 424 0) XRA_MASK PPCQPX [QRT, QRB],
    Opc ''qvfrip'' (XRC 4 456 0) XRA_MASK PPCQPX [QRT, QRB],
    Opc ''qvfrim'' (XRC 4 488 0) XRA_MASK PPCQPX [QRT, QRB],
    Opc ''qvfneg'' (XRC 4 40 0) XRA_MASK PPCQPX [QRT, QRB],
    Opc ''qvfmr'' (XRC 4 72 0) XRA_MASK PPCQPX [QRT, QRB],
    Opc ''qvfabs'' (XRC 4 264 0) XRA_MASK PPCQPX [QRT, QRB],
    Opc ''qvfnabs'' (XRC 4 136 0) XRA_MASK PPCQPX [QRT, QRB],
    Opc ''qvfclr'' (XRC 4 4 0) XL_MASK PPCQPX [QRT, QAT, QBA],
    Opc ''qvfand'' (XRC 4 68 0) X_MASK PPCQPX [QRT, QRA, QRB],
    Opc ''qvfandc'' (XRC 4 260 0) X_MASK PPCQPX [QRT, QRA, QRB],
    Opc ''qvfctfb'' (XRC 4 324 0) XL_MASK PPCQPX [QRT, QRA, QBA],
    Opc ''qvfxor'' (XRC 4 388 0) X_MASK PPCQPX [QRT, QRA, QRB],
    Opc ''qvfor'' (XRC 4 452 0) X_MASK PPCQPX [QRT, QRA, QRB],
    Opc ''qvfnor'' (XRC 4 516 0) X_MASK PPCQPX [QRT, QRA, QRB],
    Opc ''qvfequ'' (XRC 4 580 0) X_MASK PPCQPX [QRT, QRA, QRB],
    Opc ''qvfnot'' (XRC 4 644 0) XL_MASK PPCQPX [QRT, QRA, QBA],
    Opc ''qvforc'' (XRC 4 836 0) X_MASK PPCQPX [QRT, QRA, QRB],
    Opc ''qvfnand'' (XRC 4 900 0) X_MASK PPCQPX [QRT, QRA, QRB],
    Opc ''qvfset'' (XRC 4 964 0) X_MASK PPCQPX [QRT, QAT, QBA],
    Opc ''qvflogical'' (XRC 4 4 0) QTTTT_MASK PPCQPX [QRT, QRA, QRB, QTTTT],
    Opc ''fxcpnpma'' (A 4 24 0) A_MASK PPCBGL [FRT, FRA, FRC, FRB],
    Opc ''fxcsnpma'' (A 4 25 0) A_MASK PPCBGL [FRT, FRA, FRC, FRB],
    Opc ''fxcpnsma'' (A 4 26 0) A_MASK PPCBGL [FRT, FRA, FRC, FRB],
    Opc ''fxcsnsma'' (A 4 27 0) A_MASK PPCBGL [FRT, FRA, FRC, FRB],
    Opc ''fxcxnpma'' (A 4 29 0) A_MASK PPCBGL [FRT, FRA, FRC, FRB],
    Opc ''fxcxnsma'' (A 4 30 0) A_MASK PPCBGL [FRT, FRA, FRC, FRB],
    Opc ''fxcxma'' (A 4 28 0) A_MASK PPCBGL [FRT, FRA, FRC, FRB],
    Opc ''fxcxnms'' (A 4 31 0) A_MASK PPCBGL [FRT, FRA, FRC, FRB],
    Opc ''macchw'' (XO 4 172 0 0) XO_MASK (PPC405 OR PPC440) [RT, RA, RB],
    Opc ''macchw.'' (XO 4 172 0 1) XO_MASK (PPC405 OR PPC440) [RT, RA, RB],
    Opc ''macchwo'' (XO 4 172 1 0) XO_MASK (PPC405 OR PPC440) [RT, RA, RB],
    Opc ''macchwo.'' (XO 4 172 1 1) XO_MASK (PPC405 OR PPC440) [RT, RA, RB],
    Opc ''macchws'' (XO 4 236 0 0) XO_MASK (PPC405 OR PPC440) [RT, RA, RB],
    Opc ''macchws.'' (XO 4 236 0 1) XO_MASK (PPC405 OR PPC440) [RT, RA, RB],
    Opc ''macchwso'' (XO 4 236 1 0) XO_MASK (PPC405 OR PPC440) [RT, RA, RB],
    Opc ''macchwso.'' (XO 4 236 1 1) XO_MASK (PPC405 OR PPC440) [RT, RA, RB],
    Opc ''macchwsu'' (XO 4 204 0 0) XO_MASK (PPC405 OR PPC440) [RT, RA, RB],
    Opc ''macchwsu.'' (XO 4 204 0 1) XO_MASK (PPC405 OR PPC440) [RT, RA, RB],
    Opc ''macchwsuo'' (XO 4 204 1 0) XO_MASK (PPC405 OR PPC440) [RT, RA, RB],
    Opc ''macchwsuo.'' (XO 4 204 1 1) XO_MASK (PPC405 OR PPC440) [RT, RA, RB],
    Opc ''macchwu'' (XO 4 140 0 0) XO_MASK (PPC405 OR PPC440) [RT, RA, RB],
    Opc ''macchwu.'' (XO 4 140 0 1) XO_MASK (PPC405 OR PPC440) [RT, RA, RB],
    Opc ''macchwuo'' (XO 4 140 1 0) XO_MASK (PPC405 OR PPC440) [RT, RA, RB],
    Opc ''macchwuo.'' (XO 4 140 1 1) XO_MASK (PPC405 OR PPC440) [RT, RA, RB],
    Opc ''machhw'' (XO 4 44 0 0) XO_MASK (PPC405 OR PPC440) [RT, RA, RB],
    Opc ''machhw.'' (XO 4 44 0 1) XO_MASK (PPC405 OR PPC440) [RT, RA, RB],
    Opc ''machhwo'' (XO 4 44 1 0) XO_MASK (PPC405 OR PPC440) [RT, RA, RB],
    Opc ''machhwo.'' (XO 4 44 1 1) XO_MASK (PPC405 OR PPC440) [RT, RA, RB],
    Opc ''machhws'' (XO 4 108 0 0) XO_MASK (PPC405 OR PPC440) [RT, RA, RB],
    Opc ''machhws.'' (XO 4 108 0 1) XO_MASK (PPC405 OR PPC440) [RT, RA, RB],
    Opc ''machhwso'' (XO 4 108 1 0) XO_MASK (PPC405 OR PPC440) [RT, RA, RB],
    Opc ''machhwso.'' (XO 4 108 1 1) XO_MASK (PPC405 OR PPC440) [RT, RA, RB],
    Opc ''machhwsu'' (XO 4 76 0 0) XO_MASK (PPC405 OR PPC440) [RT, RA, RB],
    Opc ''machhwsu.'' (XO 4 76 0 1) XO_MASK (PPC405 OR PPC440) [RT, RA, RB],
    Opc ''machhwsuo'' (XO 4 76 1 0) XO_MASK (PPC405 OR PPC440) [RT, RA, RB],
    Opc ''machhwsuo.'' (XO 4 76 1 1) XO_MASK (PPC405 OR PPC440) [RT, RA, RB],
    Opc ''machhwu'' (XO 4 12 0 0) XO_MASK (PPC405 OR PPC440) [RT, RA, RB],
    Opc ''machhwu.'' (XO 4 12 0 1) XO_MASK (PPC405 OR PPC440) [RT, RA, RB],
    Opc ''machhwuo'' (XO 4 12 1 0) XO_MASK (PPC405 OR PPC440) [RT, RA, RB],
    Opc ''machhwuo.'' (XO 4 12 1 1) XO_MASK (PPC405 OR PPC440) [RT, RA, RB],
    Opc ''maclhw'' (XO 4 428 0 0) XO_MASK (PPC405 OR PPC440) [RT, RA, RB],
    Opc ''maclhw.'' (XO 4 428 0 1) XO_MASK (PPC405 OR PPC440) [RT, RA, RB],
    Opc ''maclhwo'' (XO 4 428 1 0) XO_MASK (PPC405 OR PPC440) [RT, RA, RB],
    Opc ''maclhwo.'' (XO 4 428 1 1) XO_MASK (PPC405 OR PPC440) [RT, RA, RB],
    Opc ''maclhws'' (XO 4 492 0 0) XO_MASK (PPC405 OR PPC440) [RT, RA, RB],
    Opc ''maclhws.'' (XO 4 492 0 1) XO_MASK (PPC405 OR PPC440) [RT, RA, RB],
    Opc ''maclhwso'' (XO 4 492 1 0) XO_MASK (PPC405 OR PPC440) [RT, RA, RB],
    Opc ''maclhwso.'' (XO 4 492 1 1) XO_MASK (PPC405 OR PPC440) [RT, RA, RB],
    Opc ''maclhwsu'' (XO 4 460 0 0) XO_MASK (PPC405 OR PPC440) [RT, RA, RB],
    Opc ''maclhwsu.'' (XO 4 460 0 1) XO_MASK (PPC405 OR PPC440) [RT, RA, RB],
    Opc ''maclhwsuo'' (XO 4 460 1 0) XO_MASK (PPC405 OR PPC440) [RT, RA, RB],
    Opc ''maclhwsuo.'' (XO 4 460 1 1) XO_MASK (PPC405 OR PPC440) [RT, RA, RB],
    Opc ''maclhwu'' (XO 4 396 0 0) XO_MASK (PPC405 OR PPC440) [RT, RA, RB],
    Opc ''maclhwu.'' (XO 4 396 0 1) XO_MASK (PPC405 OR PPC440) [RT, RA, RB],
    Opc ''maclhwuo'' (XO 4 396 1 0) XO_MASK (PPC405 OR PPC440) [RT, RA, RB],
    Opc ''maclhwuo.'' (XO 4 396 1 1) XO_MASK (PPC405 OR PPC440) [RT, RA, RB],
    Opc ''mulchw'' (XRC 4 168 0) X_MASK (PPC405 OR PPC440) [RT, RA, RB],
    Opc ''mulchw.'' (XRC 4 168 1) X_MASK (PPC405 OR PPC440) [RT, RA, RB],
    Opc ''mulchwu'' (XRC 4 136 0) X_MASK (PPC405 OR PPC440) [RT, RA, RB],
    Opc ''mulchwu.'' (XRC 4 136 1) X_MASK (PPC405 OR PPC440) [RT, RA, RB],
    Opc ''mulhhw'' (XRC 4 40 0) X_MASK (PPC405 OR PPC440) [RT, RA, RB],
    Opc ''mulhhw.'' (XRC 4 40 1) X_MASK (PPC405 OR PPC440) [RT, RA, RB],
    Opc ''mulhhwu'' (XRC 4 8 0) X_MASK (PPC405 OR PPC440) [RT, RA, RB],
    Opc ''mulhhwu.'' (XRC 4 8 1) X_MASK (PPC405 OR PPC440) [RT, RA, RB],
    Opc ''mullhw'' (XRC 4 424 0) X_MASK (PPC405 OR PPC440) [RT, RA, RB],
    Opc ''mullhw.'' (XRC 4 424 1) X_MASK (PPC405 OR PPC440) [RT, RA, RB],
    Opc ''mullhwu'' (XRC 4 392 0) X_MASK (PPC405 OR PPC440) [RT, RA, RB],
    Opc ''mullhwu.'' (XRC 4 392 1) X_MASK (PPC405 OR PPC440) [RT, RA, RB],
    Opc ''nmacchw'' (XO 4 174 0 0) XO_MASK (PPC405 OR PPC440) [RT, RA, RB],
    Opc ''nmacchw.'' (XO 4 174 0 1) XO_MASK (PPC405 OR PPC440) [RT, RA, RB],
    Opc ''nmacchwo'' (XO 4 174 1 0) XO_MASK (PPC405 OR PPC440) [RT, RA, RB],
    Opc ''nmacchwo.'' (XO 4 174 1 1) XO_MASK (PPC405 OR PPC440) [RT, RA, RB],
    Opc ''nmacchws'' (XO 4 238 0 0) XO_MASK (PPC405 OR PPC440) [RT, RA, RB],
    Opc ''nmacchws.'' (XO 4 238 0 1) XO_MASK (PPC405 OR PPC440) [RT, RA, RB],
    Opc ''nmacchwso'' (XO 4 238 1 0) XO_MASK (PPC405 OR PPC440) [RT, RA, RB],
    Opc ''nmacchwso.'' (XO 4 238 1 1) XO_MASK (PPC405 OR PPC440) [RT, RA, RB],
    Opc ''nmachhw'' (XO 4 46 0 0) XO_MASK (PPC405 OR PPC440) [RT, RA, RB],
    Opc ''nmachhw.'' (XO 4 46 0 1) XO_MASK (PPC405 OR PPC440) [RT, RA, RB],
    Opc ''nmachhwo'' (XO 4 46 1 0) XO_MASK (PPC405 OR PPC440) [RT, RA, RB],
    Opc ''nmachhwo.'' (XO 4 46 1 1) XO_MASK (PPC405 OR PPC440) [RT, RA, RB],
    Opc ''nmachhws'' (XO 4 110 0 0) XO_MASK (PPC405 OR PPC440) [RT, RA, RB],
    Opc ''nmachhws.'' (XO 4 110 0 1) XO_MASK (PPC405 OR PPC440) [RT, RA, RB],
    Opc ''nmachhwso'' (XO 4 110 1 0) XO_MASK (PPC405 OR PPC440) [RT, RA, RB],
    Opc ''nmachhwso.'' (XO 4 110 1 1) XO_MASK (PPC405 OR PPC440) [RT, RA, RB],
    Opc ''nmaclhw'' (XO 4 430 0 0) XO_MASK (PPC405 OR PPC440) [RT, RA, RB],
    Opc ''nmaclhw.'' (XO 4 430 0 1) XO_MASK (PPC405 OR PPC440) [RT, RA, RB],
    Opc ''nmaclhwo'' (XO 4 430 1 0) XO_MASK (PPC405 OR PPC440) [RT, RA, RB],
    Opc ''nmaclhwo.'' (XO 4 430 1 1) XO_MASK (PPC405 OR PPC440) [RT, RA, RB],
    Opc ''nmaclhws'' (XO 4 494 0 0) XO_MASK (PPC405 OR PPC440) [RT, RA, RB],
    Opc ''nmaclhws.'' (XO 4 494 0 1) XO_MASK (PPC405 OR PPC440) [RT, RA, RB],
    Opc ''nmaclhwso'' (XO 4 494 1 0) XO_MASK (PPC405 OR PPC440) [RT, RA, RB],
    Opc ''nmaclhwso.'' (XO 4 494 1 1) XO_MASK (PPC405 OR PPC440) [RT, RA, RB]]"

definition powerpc_opcodes_2 :: "powerpc_opcode list" where
  "powerpc_opcodes_2 =
   [Opc ''mfvscr'' (VX 4 1540) VX_MASK PPCVEC [VD],
    Opc ''mtvscr'' (VX 4 1604) VX_MASK PPCVEC [VB],
    Opc ''efscfd'' (VX 4 719) VX_MASK PPCEFS [RS, RB],
    Opc ''efdabs'' (VX 4 740) VX_MASK PPCEFS [RS, RA],
    Opc ''efdnabs'' (VX 4 741) VX_MASK PPCEFS [RS, RA],
    Opc ''efdneg'' (VX 4 742) VX_MASK PPCEFS [RS, RA],
    Opc ''efdadd'' (VX 4 736) VX_MASK PPCEFS [RS, RA, RB],
    Opc ''efdsub'' (VX 4 737) VX_MASK PPCEFS [RS, RA, RB],
    Opc ''efdmul'' (VX 4 744) VX_MASK PPCEFS [RS, RA, RB],
    Opc ''efddiv'' (VX 4 745) VX_MASK PPCEFS [RS, RA, RB],
    Opc ''efdcmpgt'' (VX 4 748) VX_MASK PPCEFS [CRFD, RA, RB],
    Opc ''efdcmplt'' (VX 4 749) VX_MASK PPCEFS [CRFD, RA, RB],
    Opc ''efdcmpeq'' (VX 4 750) VX_MASK PPCEFS [CRFD, RA, RB],
    Opc ''efdtstgt'' (VX 4 764) VX_MASK PPCEFS [CRFD, RA, RB],
    Opc ''efdtstlt'' (VX 4 765) VX_MASK PPCEFS [CRFD, RA, RB],
    Opc ''efdtsteq'' (VX 4 766) VX_MASK PPCEFS [CRFD, RA, RB],
    Opc ''efdcfsi'' (VX 4 753) VX_MASK PPCEFS [RS, RB],
    Opc ''efdcfsid'' (VX 4 739) VX_MASK PPCEFS [RS, RB],
    Opc ''efdcfui'' (VX 4 752) VX_MASK PPCEFS [RS, RB],
    Opc ''efdcfuid'' (VX 4 738) VX_MASK PPCEFS [RS, RB],
    Opc ''efdcfsf'' (VX 4 755) VX_MASK PPCEFS [RS, RB],
    Opc ''efdcfuf'' (VX 4 754) VX_MASK PPCEFS [RS, RB],
    Opc ''efdctsi'' (VX 4 757) VX_MASK PPCEFS [RS, RB],
    Opc ''efdctsidz'' (VX 4 747) VX_MASK PPCEFS [RS, RB],
    Opc ''efdctsiz'' (VX 4 762) VX_MASK PPCEFS [RS, RB],
    Opc ''efdctui'' (VX 4 756) VX_MASK PPCEFS [RS, RB],
    Opc ''efdctuidz'' (VX 4 746) VX_MASK PPCEFS [RS, RB],
    Opc ''efdctuiz'' (VX 4 760) VX_MASK PPCEFS [RS, RB],
    Opc ''efdctsf'' (VX 4 759) VX_MASK PPCEFS [RS, RB],
    Opc ''efdctuf'' (VX 4 758) VX_MASK PPCEFS [RS, RB],
    Opc ''efdcfs'' (VX 4 751) VX_MASK PPCEFS [RS, RB],
    Opc ''vaddcuw'' (VX 4 384) VX_MASK PPCVEC [VD, VA, VB],
    Opc ''vaddfp'' (VX 4 10) VX_MASK PPCVEC [VD, VA, VB],
    Opc ''vaddsbs'' (VX 4 768) VX_MASK PPCVEC [VD, VA, VB],
    Opc ''vaddshs'' (VX 4 832) VX_MASK PPCVEC [VD, VA, VB],
    Opc ''vaddsws'' (VX 4 896) VX_MASK PPCVEC [VD, VA, VB],
    Opc ''vaddubm'' (VX 4 0) VX_MASK PPCVEC [VD, VA, VB],
    Opc ''vaddubs'' (VX 4 512) VX_MASK PPCVEC [VD, VA, VB],
    Opc ''vadduhm'' (VX 4 64) VX_MASK PPCVEC [VD, VA, VB],
    Opc ''vadduhs'' (VX 4 576) VX_MASK PPCVEC [VD, VA, VB],
    Opc ''vadduwm'' (VX 4 128) VX_MASK PPCVEC [VD, VA, VB],
    Opc ''vadduws'' (VX 4 640) VX_MASK PPCVEC [VD, VA, VB],
    Opc ''vand'' (VX 4 1028) VX_MASK PPCVEC [VD, VA, VB],
    Opc ''vandc'' (VX 4 1092) VX_MASK PPCVEC [VD, VA, VB],
    Opc ''vavgsb'' (VX 4 1282) VX_MASK PPCVEC [VD, VA, VB],
    Opc ''vavgsh'' (VX 4 1346) VX_MASK PPCVEC [VD, VA, VB],
    Opc ''vavgsw'' (VX 4 1410) VX_MASK PPCVEC [VD, VA, VB],
    Opc ''vavgub'' (VX 4 1026) VX_MASK PPCVEC [VD, VA, VB],
    Opc ''vavguh'' (VX 4 1090) VX_MASK PPCVEC [VD, VA, VB],
    Opc ''vavguw'' (VX 4 1154) VX_MASK PPCVEC [VD, VA, VB],
    Opc ''vcfsx'' (VX 4 842) VX_MASK PPCVEC [VD, VB, UIMM],
    Opc ''vcfux'' (VX 4 778) VX_MASK PPCVEC [VD, VB, UIMM],
    Opc ''vcmpbfp'' (VXR 4 966 0) VXR_MASK PPCVEC [VD, VA, VB],
    Opc ''vcmpbfp.'' (VXR 4 966 1) VXR_MASK PPCVEC [VD, VA, VB],
    Opc ''vcmpeqfp'' (VXR 4 198 0) VXR_MASK PPCVEC [VD, VA, VB],
    Opc ''vcmpeqfp.'' (VXR 4 198 1) VXR_MASK PPCVEC [VD, VA, VB],
    Opc ''vcmpequb'' (VXR 4 6 0) VXR_MASK PPCVEC [VD, VA, VB],
    Opc ''vcmpequb.'' (VXR 4 6 1) VXR_MASK PPCVEC [VD, VA, VB],
    Opc ''vcmpequh'' (VXR 4 70 0) VXR_MASK PPCVEC [VD, VA, VB],
    Opc ''vcmpequh.'' (VXR 4 70 1) VXR_MASK PPCVEC [VD, VA, VB],
    Opc ''vcmpequw'' (VXR 4 134 0) VXR_MASK PPCVEC [VD, VA, VB],
    Opc ''vcmpequw.'' (VXR 4 134 1) VXR_MASK PPCVEC [VD, VA, VB],
    Opc ''vcmpgefp'' (VXR 4 454 0) VXR_MASK PPCVEC [VD, VA, VB],
    Opc ''vcmpgefp.'' (VXR 4 454 1) VXR_MASK PPCVEC [VD, VA, VB],
    Opc ''vcmpgtfp'' (VXR 4 710 0) VXR_MASK PPCVEC [VD, VA, VB],
    Opc ''vcmpgtfp.'' (VXR 4 710 1) VXR_MASK PPCVEC [VD, VA, VB],
    Opc ''vcmpgtsb'' (VXR 4 774 0) VXR_MASK PPCVEC [VD, VA, VB],
    Opc ''vcmpgtsb.'' (VXR 4 774 1) VXR_MASK PPCVEC [VD, VA, VB],
    Opc ''vcmpgtsh'' (VXR 4 838 0) VXR_MASK PPCVEC [VD, VA, VB],
    Opc ''vcmpgtsh.'' (VXR 4 838 1) VXR_MASK PPCVEC [VD, VA, VB],
    Opc ''vcmpgtsw'' (VXR 4 902 0) VXR_MASK PPCVEC [VD, VA, VB],
    Opc ''vcmpgtsw.'' (VXR 4 902 1) VXR_MASK PPCVEC [VD, VA, VB],
    Opc ''vcmpgtub'' (VXR 4 518 0) VXR_MASK PPCVEC [VD, VA, VB],
    Opc ''vcmpgtub.'' (VXR 4 518 1) VXR_MASK PPCVEC [VD, VA, VB],
    Opc ''vcmpgtuh'' (VXR 4 582 0) VXR_MASK PPCVEC [VD, VA, VB],
    Opc ''vcmpgtuh.'' (VXR 4 582 1) VXR_MASK PPCVEC [VD, VA, VB],
    Opc ''vcmpgtuw'' (VXR 4 646 0) VXR_MASK PPCVEC [VD, VA, VB],
    Opc ''vcmpgtuw.'' (VXR 4 646 1) VXR_MASK PPCVEC [VD, VA, VB],
    Opc ''vctsxs'' (VX 4 970) VX_MASK PPCVEC [VD, VB, UIMM],
    Opc ''vctuxs'' (VX 4 906) VX_MASK PPCVEC [VD, VB, UIMM],
    Opc ''vexptefp'' (VX 4 394) VX_MASK PPCVEC [VD, VB],
    Opc ''vlogefp'' (VX 4 458) VX_MASK PPCVEC [VD, VB],
    Opc ''vmaddfp'' (VXA 4 46) VXA_MASK PPCVEC [VD, VA, VC, VB],
    Opc ''vmaxfp'' (VX 4 1034) VX_MASK PPCVEC [VD, VA, VB],
    Opc ''vmaxsb'' (VX 4 258) VX_MASK PPCVEC [VD, VA, VB],
    Opc ''vmaxsh'' (VX 4 322) VX_MASK PPCVEC [VD, VA, VB],
    Opc ''vmaxsw'' (VX 4 386) VX_MASK PPCVEC [VD, VA, VB],
    Opc ''vmaxub'' (VX 4 2) VX_MASK PPCVEC [VD, VA, VB],
    Opc ''vmaxuh'' (VX 4 66) VX_MASK PPCVEC [VD, VA, VB],
    Opc ''vmaxuw'' (VX 4 130) VX_MASK PPCVEC [VD, VA, VB],
    Opc ''vmhaddshs'' (VXA 4 32) VXA_MASK PPCVEC [VD, VA, VB, VC],
    Opc ''vmhraddshs'' (VXA 4 33) VXA_MASK PPCVEC [VD, VA, VB, VC],
    Opc ''vminfp'' (VX 4 1098) VX_MASK PPCVEC [VD, VA, VB],
    Opc ''vminsb'' (VX 4 770) VX_MASK PPCVEC [VD, VA, VB],
    Opc ''vminsh'' (VX 4 834) VX_MASK PPCVEC [VD, VA, VB],
    Opc ''vminsw'' (VX 4 898) VX_MASK PPCVEC [VD, VA, VB],
    Opc ''vminub'' (VX 4 514) VX_MASK PPCVEC [VD, VA, VB],
    Opc ''vminuh'' (VX 4 578) VX_MASK PPCVEC [VD, VA, VB],
    Opc ''vminuw'' (VX 4 642) VX_MASK PPCVEC [VD, VA, VB],
    Opc ''vmladduhm'' (VXA 4 34) VXA_MASK PPCVEC [VD, VA, VB, VC],
    Opc ''vmrghb'' (VX 4 12) VX_MASK PPCVEC [VD, VA, VB],
    Opc ''vmrghh'' (VX 4 76) VX_MASK PPCVEC [VD, VA, VB],
    Opc ''vmrghw'' (VX 4 140) VX_MASK PPCVEC [VD, VA, VB],
    Opc ''vmrglb'' (VX 4 268) VX_MASK PPCVEC [VD, VA, VB],
    Opc ''vmrglh'' (VX 4 332) VX_MASK PPCVEC [VD, VA, VB],
    Opc ''vmrglw'' (VX 4 396) VX_MASK PPCVEC [VD, VA, VB],
    Opc ''vmsummbm'' (VXA 4 37) VXA_MASK PPCVEC [VD, VA, VB, VC],
    Opc ''vmsumshm'' (VXA 4 40) VXA_MASK PPCVEC [VD, VA, VB, VC],
    Opc ''vmsumshs'' (VXA 4 41) VXA_MASK PPCVEC [VD, VA, VB, VC],
    Opc ''vmsumubm'' (VXA 4 36) VXA_MASK PPCVEC [VD, VA, VB, VC],
    Opc ''vmsumuhm'' (VXA 4 38) VXA_MASK PPCVEC [VD, VA, VB, VC],
    Opc ''vmsumuhs'' (VXA 4 39) VXA_MASK PPCVEC [VD, VA, VB, VC],
    Opc ''vmulesb'' (VX 4 776) VX_MASK PPCVEC [VD, VA, VB],
    Opc ''vmulesh'' (VX 4 840) VX_MASK PPCVEC [VD, VA, VB],
    Opc ''vmuleub'' (VX 4 520) VX_MASK PPCVEC [VD, VA, VB],
    Opc ''vmuleuh'' (VX 4 584) VX_MASK PPCVEC [VD, VA, VB],
    Opc ''vmulosb'' (VX 4 264) VX_MASK PPCVEC [VD, VA, VB],
    Opc ''vmulosh'' (VX 4 328) VX_MASK PPCVEC [VD, VA, VB],
    Opc ''vmuloub'' (VX 4 8) VX_MASK PPCVEC [VD, VA, VB],
    Opc ''vmulouh'' (VX 4 72) VX_MASK PPCVEC [VD, VA, VB],
    Opc ''vnmsubfp'' (VXA 4 47) VXA_MASK PPCVEC [VD, VA, VC, VB],
    Opc ''vnor'' (VX 4 1284) VX_MASK PPCVEC [VD, VA, VB],
    Opc ''vor'' (VX 4 1156) VX_MASK PPCVEC [VD, VA, VB],
    Opc ''vperm'' (VXA 4 43) VXA_MASK PPCVEC [VD, VA, VB, VC],
    Opc ''vpkpx'' (VX 4 782) VX_MASK PPCVEC [VD, VA, VB],
    Opc ''vpkshss'' (VX 4 398) VX_MASK PPCVEC [VD, VA, VB],
    Opc ''vpkshus'' (VX 4 270) VX_MASK PPCVEC [VD, VA, VB],
    Opc ''vpkswss'' (VX 4 462) VX_MASK PPCVEC [VD, VA, VB],
    Opc ''vpkswus'' (VX 4 334) VX_MASK PPCVEC [VD, VA, VB],
    Opc ''vpkuhum'' (VX 4 14) VX_MASK PPCVEC [VD, VA, VB],
    Opc ''vpkuhus'' (VX 4 142) VX_MASK PPCVEC [VD, VA, VB],
    Opc ''vpkuwum'' (VX 4 78) VX_MASK PPCVEC [VD, VA, VB],
    Opc ''vpkuwus'' (VX 4 206) VX_MASK PPCVEC [VD, VA, VB],
    Opc ''vrefp'' (VX 4 266) VX_MASK PPCVEC [VD, VB],
    Opc ''vrfim'' (VX 4 714) VX_MASK PPCVEC [VD, VB],
    Opc ''vrfin'' (VX 4 522) VX_MASK PPCVEC [VD, VB],
    Opc ''vrfip'' (VX 4 650) VX_MASK PPCVEC [VD, VB],
    Opc ''vrfiz'' (VX 4 586) VX_MASK PPCVEC [VD, VB],
    Opc ''vrlb'' (VX 4 4) VX_MASK PPCVEC [VD, VA, VB],
    Opc ''vrlh'' (VX 4 68) VX_MASK PPCVEC [VD, VA, VB],
    Opc ''vrlw'' (VX 4 132) VX_MASK PPCVEC [VD, VA, VB],
    Opc ''vrsqrtefp'' (VX 4 330) VX_MASK PPCVEC [VD, VB],
    Opc ''vsel'' (VXA 4 42) VXA_MASK PPCVEC [VD, VA, VB, VC],
    Opc ''vsl'' (VX 4 452) VX_MASK PPCVEC [VD, VA, VB]]"

definition powerpc_opcodes_3 :: "powerpc_opcode list" where
  "powerpc_opcodes_3 =
   [Opc ''vslb'' (VX 4 260) VX_MASK PPCVEC [VD, VA, VB],
    Opc ''vsldoi'' (VXA 4 44) VXA_MASK PPCVEC [VD, VA, VB, SHB],
    Opc ''vslh'' (VX 4 324) VX_MASK PPCVEC [VD, VA, VB],
    Opc ''vslo'' (VX 4 1036) VX_MASK PPCVEC [VD, VA, VB],
    Opc ''vslw'' (VX 4 388) VX_MASK PPCVEC [VD, VA, VB],
    Opc ''vspltb'' (VX 4 524) VX_MASK PPCVEC [VD, VB, UIMM],
    Opc ''vsplth'' (VX 4 588) VX_MASK PPCVEC [VD, VB, UIMM],
    Opc ''vspltisb'' (VX 4 780) VX_MASK PPCVEC [VD, SIMM],
    Opc ''vspltish'' (VX 4 844) VX_MASK PPCVEC [VD, SIMM],
    Opc ''vspltisw'' (VX 4 908) VX_MASK PPCVEC [VD, SIMM],
    Opc ''vspltw'' (VX 4 652) VX_MASK PPCVEC [VD, VB, UIMM],
    Opc ''vsr'' (VX 4 708) VX_MASK PPCVEC [VD, VA, VB],
    Opc ''vsrab'' (VX 4 772) VX_MASK PPCVEC [VD, VA, VB],
    Opc ''vsrah'' (VX 4 836) VX_MASK PPCVEC [VD, VA, VB],
    Opc ''vsraw'' (VX 4 900) VX_MASK PPCVEC [VD, VA, VB],
    Opc ''vsrb'' (VX 4 516) VX_MASK PPCVEC [VD, VA, VB],
    Opc ''vsrh'' (VX 4 580) VX_MASK PPCVEC [VD, VA, VB],
    Opc ''vsro'' (VX 4 1100) VX_MASK PPCVEC [VD, VA, VB],
    Opc ''vsrw'' (VX 4 644) VX_MASK PPCVEC [VD, VA, VB],
    Opc ''vsubcuw'' (VX 4 1408) VX_MASK PPCVEC [VD, VA, VB],
    Opc ''vsubfp'' (VX 4 74) VX_MASK PPCVEC [VD, VA, VB],
    Opc ''vsubsbs'' (VX 4 1792) VX_MASK PPCVEC [VD, VA, VB],
    Opc ''vsubshs'' (VX 4 1856) VX_MASK PPCVEC [VD, VA, VB],
    Opc ''vsubsws'' (VX 4 1920) VX_MASK PPCVEC [VD, VA, VB],
    Opc ''vsububm'' (VX 4 1024) VX_MASK PPCVEC [VD, VA, VB],
    Opc ''vsububs'' (VX 4 1536) VX_MASK PPCVEC [VD, VA, VB],
    Opc ''vsubuhm'' (VX 4 1088) VX_MASK PPCVEC [VD, VA, VB],
    Opc ''vsubuhs'' (VX 4 1600) VX_MASK PPCVEC [VD, VA, VB],
    Opc ''vsubuwm'' (VX 4 1152) VX_MASK PPCVEC [VD, VA, VB],
    Opc ''vsubuws'' (VX 4 1664) VX_MASK PPCVEC [VD, VA, VB],
    Opc ''vsumsws'' (VX 4 1928) VX_MASK PPCVEC [VD, VA, VB],
    Opc ''vsum2sws'' (VX 4 1672) VX_MASK PPCVEC [VD, VA, VB],
    Opc ''vsum4sbs'' (VX 4 1800) VX_MASK PPCVEC [VD, VA, VB],
    Opc ''vsum4shs'' (VX 4 1608) VX_MASK PPCVEC [VD, VA, VB],
    Opc ''vsum4ubs'' (VX 4 1544) VX_MASK PPCVEC [VD, VA, VB],
    Opc ''vupkhpx'' (VX 4 846) VX_MASK PPCVEC [VD, VB],
    Opc ''vupkhsb'' (VX 4 526) VX_MASK PPCVEC [VD, VB],
    Opc ''vupkhsh'' (VX 4 590) VX_MASK PPCVEC [VD, VB],
    Opc ''vupklpx'' (VX 4 974) VX_MASK PPCVEC [VD, VB],
    Opc ''vupklsb'' (VX 4 654) VX_MASK PPCVEC [VD, VB],
    Opc ''vupklsh'' (VX 4 718) VX_MASK PPCVEC [VD, VB],
    Opc ''vxor'' (VX 4 1220) VX_MASK PPCVEC [VD, VA, VB],
    Opc ''evaddw'' (VX 4 512) VX_MASK PPCSPE [RS, RA, RB],
    Opc ''evaddiw'' (VX 4 514) VX_MASK PPCSPE [RS, RB, UIMM],
    Opc ''evsubfw'' (VX 4 516) VX_MASK PPCSPE [RS, RA, RB],
    Opc ''evsubw'' (VX 4 516) VX_MASK PPCSPE [RS, RB, RA],
    Opc ''evsubifw'' (VX 4 518) VX_MASK PPCSPE [RS, UIMM, RB],
    Opc ''evsubiw'' (VX 4 518) VX_MASK PPCSPE [RS, RB, UIMM],
    Opc ''evabs'' (VX 4 520) VX_MASK PPCSPE [RS, RA],
    Opc ''evneg'' (VX 4 521) VX_MASK PPCSPE [RS, RA],
    Opc ''evextsb'' (VX 4 522) VX_MASK PPCSPE [RS, RA],
    Opc ''evextsh'' (VX 4 523) VX_MASK PPCSPE [RS, RA],
    Opc ''evrndw'' (VX 4 524) VX_MASK PPCSPE [RS, RA],
    Opc ''evcntlzw'' (VX 4 525) VX_MASK PPCSPE [RS, RA],
    Opc ''evcntlsw'' (VX 4 526) VX_MASK PPCSPE [RS, RA],
    Opc ''brinc'' (VX 4 527) VX_MASK PPCSPE [RS, RA, RB],
    Opc ''evand'' (VX 4 529) VX_MASK PPCSPE [RS, RA, RB],
    Opc ''evandc'' (VX 4 530) VX_MASK PPCSPE [RS, RA, RB],
    Opc ''evmr'' (VX 4 535) VX_MASK PPCSPE [RS, RA, BBA],
    Opc ''evor'' (VX 4 535) VX_MASK PPCSPE [RS, RA, RB],
    Opc ''evorc'' (VX 4 539) VX_MASK PPCSPE [RS, RA, RB],
    Opc ''evxor'' (VX 4 534) VX_MASK PPCSPE [RS, RA, RB],
    Opc ''eveqv'' (VX 4 537) VX_MASK PPCSPE [RS, RA, RB],
    Opc ''evnand'' (VX 4 542) VX_MASK PPCSPE [RS, RA, RB],
    Opc ''evnot'' (VX 4 536) VX_MASK PPCSPE [RS, RA, BBA],
    Opc ''evnor'' (VX 4 536) VX_MASK PPCSPE [RS, RA, RB],
    Opc ''evrlw'' (VX 4 552) VX_MASK PPCSPE [RS, RA, RB],
    Opc ''evrlwi'' (VX 4 554) VX_MASK PPCSPE [RS, RA, EVUIMM],
    Opc ''evslw'' (VX 4 548) VX_MASK PPCSPE [RS, RA, RB],
    Opc ''evslwi'' (VX 4 550) VX_MASK PPCSPE [RS, RA, EVUIMM],
    Opc ''evsrws'' (VX 4 545) VX_MASK PPCSPE [RS, RA, RB],
    Opc ''evsrwu'' (VX 4 544) VX_MASK PPCSPE [RS, RA, RB],
    Opc ''evsrwis'' (VX 4 547) VX_MASK PPCSPE [RS, RA, EVUIMM],
    Opc ''evsrwiu'' (VX 4 546) VX_MASK PPCSPE [RS, RA, EVUIMM],
    Opc ''evsplati'' (VX 4 553) VX_MASK PPCSPE [RS, SIMM],
    Opc ''evsplatfi'' (VX 4 555) VX_MASK PPCSPE [RS, SIMM],
    Opc ''evmergehi'' (VX 4 556) VX_MASK PPCSPE [RS, RA, RB],
    Opc ''evmergelo'' (VX 4 557) VX_MASK PPCSPE [RS, RA, RB],
    Opc ''evmergehilo'' (VX 4 558) VX_MASK PPCSPE [RS, RA, RB],
    Opc ''evmergelohi'' (VX 4 559) VX_MASK PPCSPE [RS, RA, RB],
    Opc ''evcmpgts'' (VX 4 561) VX_MASK PPCSPE [CRFD, RA, RB],
    Opc ''evcmpgtu'' (VX 4 560) VX_MASK PPCSPE [CRFD, RA, RB],
    Opc ''evcmplts'' (VX 4 563) VX_MASK PPCSPE [CRFD, RA, RB],
    Opc ''evcmpltu'' (VX 4 562) VX_MASK PPCSPE [CRFD, RA, RB],
    Opc ''evcmpeq'' (VX 4 564) VX_MASK PPCSPE [CRFD, RA, RB],
    Opc ''evsel'' (EVSEL 4 79) EVSEL_MASK PPCSPE [RS, RA, RB, CRFS],
    Opc ''evldd'' (VX 4 769) VX_MASK PPCSPE [RS, EVUIMM_8, RA],
    Opc ''evlddx'' (VX 4 768) VX_MASK PPCSPE [RS, RA, RB],
    Opc ''evldw'' (VX 4 771) VX_MASK PPCSPE [RS, EVUIMM_8, RA],
    Opc ''evldwx'' (VX 4 770) VX_MASK PPCSPE [RS, RA, RB],
    Opc ''evldh'' (VX 4 773) VX_MASK PPCSPE [RS, EVUIMM_8, RA],
    Opc ''evldhx'' (VX 4 772) VX_MASK PPCSPE [RS, RA, RB],
    Opc ''evlwhe'' (VX 4 785) VX_MASK PPCSPE [RS, EVUIMM_4, RA],
    Opc ''evlwhex'' (VX 4 784) VX_MASK PPCSPE [RS, RA, RB],
    Opc ''evlwhou'' (VX 4 789) VX_MASK PPCSPE [RS, EVUIMM_4, RA],
    Opc ''evlwhoux'' (VX 4 788) VX_MASK PPCSPE [RS, RA, RB],
    Opc ''evlwhos'' (VX 4 791) VX_MASK PPCSPE [RS, EVUIMM_4, RA],
    Opc ''evlwhosx'' (VX 4 790) VX_MASK PPCSPE [RS, RA, RB],
    Opc ''evlwwsplat'' (VX 4 793) VX_MASK PPCSPE [RS, EVUIMM_4, RA],
    Opc ''evlwwsplatx'' (VX 4 792) VX_MASK PPCSPE [RS, RA, RB],
    Opc ''evlwhsplat'' (VX 4 797) VX_MASK PPCSPE [RS, EVUIMM_4, RA],
    Opc ''evlwhsplatx'' (VX 4 796) VX_MASK PPCSPE [RS, RA, RB],
    Opc ''evlhhesplat'' (VX 4 777) VX_MASK PPCSPE [RS, EVUIMM_2, RA],
    Opc ''evlhhesplatx'' (VX 4 776) VX_MASK PPCSPE [RS, RA, RB],
    Opc ''evlhhousplat'' (VX 4 781) VX_MASK PPCSPE [RS, EVUIMM_2, RA],
    Opc ''evlhhousplatx'' (VX 4 780) VX_MASK PPCSPE [RS, RA, RB],
    Opc ''evlhhossplat'' (VX 4 783) VX_MASK PPCSPE [RS, EVUIMM_2, RA],
    Opc ''evlhhossplatx'' (VX 4 782) VX_MASK PPCSPE [RS, RA, RB],
    Opc ''evstdd'' (VX 4 801) VX_MASK PPCSPE [RS, EVUIMM_8, RA],
    Opc ''evstddx'' (VX 4 800) VX_MASK PPCSPE [RS, RA, RB],
    Opc ''evstdw'' (VX 4 803) VX_MASK PPCSPE [RS, EVUIMM_8, RA],
    Opc ''evstdwx'' (VX 4 802) VX_MASK PPCSPE [RS, RA, RB],
    Opc ''evstdh'' (VX 4 805) VX_MASK PPCSPE [RS, EVUIMM_8, RA],
    Opc ''evstdhx'' (VX 4 804) VX_MASK PPCSPE [RS, RA, RB],
    Opc ''evstwwe'' (VX 4 825) VX_MASK PPCSPE [RS, EVUIMM_4, RA],
    Opc ''evstwwex'' (VX 4 824) VX_MASK PPCSPE [RS, RA, RB],
    Opc ''evstwwo'' (VX 4 829) VX_MASK PPCSPE [RS, EVUIMM_4, RA],
    Opc ''evstwwox'' (VX 4 828) VX_MASK PPCSPE [RS, RA, RB],
    Opc ''evstwhe'' (VX 4 817) VX_MASK PPCSPE [RS, EVUIMM_4, RA],
    Opc ''evstwhex'' (VX 4 816) VX_MASK PPCSPE [RS, RA, RB],
    Opc ''evstwho'' (VX 4 821) VX_MASK PPCSPE [RS, EVUIMM_4, RA],
    Opc ''evstwhox'' (VX 4 820) VX_MASK PPCSPE [RS, RA, RB],
    Opc ''evfsabs'' (VX 4 644) VX_MASK PPCSPE [RS, RA],
    Opc ''evfsnabs'' (VX 4 645) VX_MASK PPCSPE [RS, RA],
    Opc ''evfsneg'' (VX 4 646) VX_MASK PPCSPE [RS, RA],
    Opc ''evfsadd'' (VX 4 640) VX_MASK PPCSPE [RS, RA, RB],
    Opc ''evfssub'' (VX 4 641) VX_MASK PPCSPE [RS, RA, RB],
    Opc ''evfsmul'' (VX 4 648) VX_MASK PPCSPE [RS, RA, RB],
    Opc ''evfsdiv'' (VX 4 649) VX_MASK PPCSPE [RS, RA, RB],
    Opc ''evfscmpgt'' (VX 4 652) VX_MASK PPCSPE [CRFD, RA, RB],
    Opc ''evfscmplt'' (VX 4 653) VX_MASK PPCSPE [CRFD, RA, RB],
    Opc ''evfscmpeq'' (VX 4 654) VX_MASK PPCSPE [CRFD, RA, RB],
    Opc ''evfststgt'' (VX 4 668) VX_MASK PPCSPE [CRFD, RA, RB],
    Opc ''evfststlt'' (VX 4 669) VX_MASK PPCSPE [CRFD, RA, RB],
    Opc ''evfststeq'' (VX 4 670) VX_MASK PPCSPE [CRFD, RA, RB],
    Opc ''evfscfui'' (VX 4 656) VX_MASK PPCSPE [RS, RB],
    Opc ''evfsctuiz'' (VX 4 664) VX_MASK PPCSPE [RS, RB],
    Opc ''evfscfsi'' (VX 4 657) VX_MASK PPCSPE [RS, RB],
    Opc ''evfscfuf'' (VX 4 658) VX_MASK PPCSPE [RS, RB],
    Opc ''evfscfsf'' (VX 4 659) VX_MASK PPCSPE [RS, RB],
    Opc ''evfsctui'' (VX 4 660) VX_MASK PPCSPE [RS, RB],
    Opc ''evfsctsi'' (VX 4 661) VX_MASK PPCSPE [RS, RB]]"

definition powerpc_opcodes_4 :: "powerpc_opcode list" where
  "powerpc_opcodes_4 =
   [Opc ''evfsctsiz'' (VX 4 666) VX_MASK PPCSPE [RS, RB],
    Opc ''evfsctuf'' (VX 4 662) VX_MASK PPCSPE [RS, RB],
    Opc ''evfsctsf'' (VX 4 663) VX_MASK PPCSPE [RS, RB],
    Opc ''efsabs'' (VX 4 708) VX_MASK PPCEFS [RS, RA],
    Opc ''efsnabs'' (VX 4 709) VX_MASK PPCEFS [RS, RA],
    Opc ''efsneg'' (VX 4 710) VX_MASK PPCEFS [RS, RA],
    Opc ''efsadd'' (VX 4 704) VX_MASK PPCEFS [RS, RA, RB],
    Opc ''efssub'' (VX 4 705) VX_MASK PPCEFS [RS, RA, RB],
    Opc ''efsmul'' (VX 4 712) VX_MASK PPCEFS [RS, RA, RB],
    Opc ''efsdiv'' (VX 4 713) VX_MASK PPCEFS [RS, RA, RB],
    Opc ''efscmpgt'' (VX 4 716) VX_MASK PPCEFS [CRFD, RA, RB],
    Opc ''efscmplt'' (VX 4 717) VX_MASK PPCEFS [CRFD, RA, RB],
    Opc ''efscmpeq'' (VX 4 718) VX_MASK PPCEFS [CRFD, RA, RB],
    Opc ''efststgt'' (VX 4 732) VX_MASK PPCEFS [CRFD, RA, RB],
    Opc ''efststlt'' (VX 4 733) VX_MASK PPCEFS [CRFD, RA, RB],
    Opc ''efststeq'' (VX 4 734) VX_MASK PPCEFS [CRFD, RA, RB],
    Opc ''efscfui'' (VX 4 720) VX_MASK PPCEFS [RS, RB],
    Opc ''efsctuiz'' (VX 4 728) VX_MASK PPCEFS [RS, RB],
    Opc ''efscfsi'' (VX 4 721) VX_MASK PPCEFS [RS, RB],
    Opc ''efscfuf'' (VX 4 722) VX_MASK PPCEFS [RS, RB],
    Opc ''efscfsf'' (VX 4 723) VX_MASK PPCEFS [RS, RB],
    Opc ''efsctui'' (VX 4 724) VX_MASK PPCEFS [RS, RB],
    Opc ''efsctsi'' (VX 4 725) VX_MASK PPCEFS [RS, RB],
    Opc ''efsctsiz'' (VX 4 730) VX_MASK PPCEFS [RS, RB],
    Opc ''efsctuf'' (VX 4 726) VX_MASK PPCEFS [RS, RB],
    Opc ''efsctsf'' (VX 4 727) VX_MASK PPCEFS [RS, RB],
    Opc ''evmhossf'' (VX 4 1031) VX_MASK PPCSPE [RS, RA, RB],
    Opc ''evmhossfa'' (VX 4 1063) VX_MASK PPCSPE [RS, RA, RB],
    Opc ''evmhosmf'' (VX 4 1039) VX_MASK PPCSPE [RS, RA, RB],
    Opc ''evmhosmfa'' (VX 4 1071) VX_MASK PPCSPE [RS, RA, RB],
    Opc ''evmhosmi'' (VX 4 1037) VX_MASK PPCSPE [RS, RA, RB],
    Opc ''evmhosmia'' (VX 4 1069) VX_MASK PPCSPE [RS, RA, RB],
    Opc ''evmhoumi'' (VX 4 1036) VX_MASK PPCSPE [RS, RA, RB],
    Opc ''evmhoumia'' (VX 4 1068) VX_MASK PPCSPE [RS, RA, RB],
    Opc ''evmhessf'' (VX 4 1027) VX_MASK PPCSPE [RS, RA, RB],
    Opc ''evmhessfa'' (VX 4 1059) VX_MASK PPCSPE [RS, RA, RB],
    Opc ''evmhesmf'' (VX 4 1035) VX_MASK PPCSPE [RS, RA, RB],
    Opc ''evmhesmfa'' (VX 4 1067) VX_MASK PPCSPE [RS, RA, RB],
    Opc ''evmhesmi'' (VX 4 1033) VX_MASK PPCSPE [RS, RA, RB],
    Opc ''evmhesmia'' (VX 4 1065) VX_MASK PPCSPE [RS, RA, RB],
    Opc ''evmheumi'' (VX 4 1032) VX_MASK PPCSPE [RS, RA, RB],
    Opc ''evmheumia'' (VX 4 1064) VX_MASK PPCSPE [RS, RA, RB],
    Opc ''evmhossfaaw'' (VX 4 1287) VX_MASK PPCSPE [RS, RA, RB],
    Opc ''evmhossiaaw'' (VX 4 1285) VX_MASK PPCSPE [RS, RA, RB],
    Opc ''evmhosmfaaw'' (VX 4 1295) VX_MASK PPCSPE [RS, RA, RB],
    Opc ''evmhosmiaaw'' (VX 4 1293) VX_MASK PPCSPE [RS, RA, RB],
    Opc ''evmhousiaaw'' (VX 4 1284) VX_MASK PPCSPE [RS, RA, RB],
    Opc ''evmhoumiaaw'' (VX 4 1292) VX_MASK PPCSPE [RS, RA, RB],
    Opc ''evmhessfaaw'' (VX 4 1283) VX_MASK PPCSPE [RS, RA, RB],
    Opc ''evmhessiaaw'' (VX 4 1281) VX_MASK PPCSPE [RS, RA, RB],
    Opc ''evmhesmfaaw'' (VX 4 1291) VX_MASK PPCSPE [RS, RA, RB],
    Opc ''evmhesmiaaw'' (VX 4 1289) VX_MASK PPCSPE [RS, RA, RB],
    Opc ''evmheusiaaw'' (VX 4 1280) VX_MASK PPCSPE [RS, RA, RB],
    Opc ''evmheumiaaw'' (VX 4 1288) VX_MASK PPCSPE [RS, RA, RB],
    Opc ''evmhossfanw'' (VX 4 1415) VX_MASK PPCSPE [RS, RA, RB],
    Opc ''evmhossianw'' (VX 4 1413) VX_MASK PPCSPE [RS, RA, RB],
    Opc ''evmhosmfanw'' (VX 4 1423) VX_MASK PPCSPE [RS, RA, RB],
    Opc ''evmhosmianw'' (VX 4 1421) VX_MASK PPCSPE [RS, RA, RB],
    Opc ''evmhousianw'' (VX 4 1412) VX_MASK PPCSPE [RS, RA, RB],
    Opc ''evmhoumianw'' (VX 4 1420) VX_MASK PPCSPE [RS, RA, RB],
    Opc ''evmhessfanw'' (VX 4 1411) VX_MASK PPCSPE [RS, RA, RB],
    Opc ''evmhessianw'' (VX 4 1409) VX_MASK PPCSPE [RS, RA, RB],
    Opc ''evmhesmfanw'' (VX 4 1419) VX_MASK PPCSPE [RS, RA, RB],
    Opc ''evmhesmianw'' (VX 4 1417) VX_MASK PPCSPE [RS, RA, RB],
    Opc ''evmheusianw'' (VX 4 1408) VX_MASK PPCSPE [RS, RA, RB],
    Opc ''evmheumianw'' (VX 4 1416) VX_MASK PPCSPE [RS, RA, RB],
    Opc ''evmhogsmfaa'' (VX 4 1327) VX_MASK PPCSPE [RS, RA, RB],
    Opc ''evmhogsmiaa'' (VX 4 1325) VX_MASK PPCSPE [RS, RA, RB],
    Opc ''evmhogumiaa'' (VX 4 1324) VX_MASK PPCSPE [RS, RA, RB],
    Opc ''evmhegsmfaa'' (VX 4 1323) VX_MASK PPCSPE [RS, RA, RB],
    Opc ''evmhegsmiaa'' (VX 4 1321) VX_MASK PPCSPE [RS, RA, RB],
    Opc ''evmhegumiaa'' (VX 4 1320) VX_MASK PPCSPE [RS, RA, RB],
    Opc ''evmhogsmfan'' (VX 4 1455) VX_MASK PPCSPE [RS, RA, RB],
    Opc ''evmhogsmian'' (VX 4 1453) VX_MASK PPCSPE [RS, RA, RB],
    Opc ''evmhogumian'' (VX 4 1452) VX_MASK PPCSPE [RS, RA, RB],
    Opc ''evmhegsmfan'' (VX 4 1451) VX_MASK PPCSPE [RS, RA, RB],
    Opc ''evmhegsmian'' (VX 4 1449) VX_MASK PPCSPE [RS, RA, RB],
    Opc ''evmhegumian'' (VX 4 1448) VX_MASK PPCSPE [RS, RA, RB],
    Opc ''evmwhssf'' (VX 4 1095) VX_MASK PPCSPE [RS, RA, RB],
    Opc ''evmwhssfa'' (VX 4 1127) VX_MASK PPCSPE [RS, RA, RB],
    Opc ''evmwhsmf'' (VX 4 1103) VX_MASK PPCSPE [RS, RA, RB],
    Opc ''evmwhsmfa'' (VX 4 1135) VX_MASK PPCSPE [RS, RA, RB],
    Opc ''evmwhsmi'' (VX 4 1101) VX_MASK PPCSPE [RS, RA, RB],
    Opc ''evmwhsmia'' (VX 4 1133) VX_MASK PPCSPE [RS, RA, RB],
    Opc ''evmwhumi'' (VX 4 1100) VX_MASK PPCSPE [RS, RA, RB],
    Opc ''evmwhumia'' (VX 4 1132) VX_MASK PPCSPE [RS, RA, RB],
    Opc ''evmwlumi'' (VX 4 1096) VX_MASK PPCSPE [RS, RA, RB],
    Opc ''evmwlumia'' (VX 4 1128) VX_MASK PPCSPE [RS, RA, RB],
    Opc ''evmwlssiaaw'' (VX 4 1345) VX_MASK PPCSPE [RS, RA, RB],
    Opc ''evmwlsmiaaw'' (VX 4 1353) VX_MASK PPCSPE [RS, RA, RB],
    Opc ''evmwlusiaaw'' (VX 4 1344) VX_MASK PPCSPE [RS, RA, RB],
    Opc ''evmwlumiaaw'' (VX 4 1352) VX_MASK PPCSPE [RS, RA, RB],
    Opc ''evmwlssianw'' (VX 4 1473) VX_MASK PPCSPE [RS, RA, RB],
    Opc ''evmwlsmianw'' (VX 4 1481) VX_MASK PPCSPE [RS, RA, RB],
    Opc ''evmwlusianw'' (VX 4 1472) VX_MASK PPCSPE [RS, RA, RB],
    Opc ''evmwlumianw'' (VX 4 1480) VX_MASK PPCSPE [RS, RA, RB],
    Opc ''evmwssf'' (VX 4 1107) VX_MASK PPCSPE [RS, RA, RB],
    Opc ''evmwssfa'' (VX 4 1139) VX_MASK PPCSPE [RS, RA, RB],
    Opc ''evmwsmf'' (VX 4 1115) VX_MASK PPCSPE [RS, RA, RB],
    Opc ''evmwsmfa'' (VX 4 1147) VX_MASK PPCSPE [RS, RA, RB],
    Opc ''evmwsmi'' (VX 4 1113) VX_MASK PPCSPE [RS, RA, RB],
    Opc ''evmwsmia'' (VX 4 1145) VX_MASK PPCSPE [RS, RA, RB],
    Opc ''evmwumi'' (VX 4 1112) VX_MASK PPCSPE [RS, RA, RB],
    Opc ''evmwumia'' (VX 4 1144) VX_MASK PPCSPE [RS, RA, RB],
    Opc ''evmwssfaa'' (VX 4 1363) VX_MASK PPCSPE [RS, RA, RB],
    Opc ''evmwsmfaa'' (VX 4 1371) VX_MASK PPCSPE [RS, RA, RB],
    Opc ''evmwsmiaa'' (VX 4 1369) VX_MASK PPCSPE [RS, RA, RB],
    Opc ''evmwumiaa'' (VX 4 1368) VX_MASK PPCSPE [RS, RA, RB],
    Opc ''evmwssfan'' (VX 4 1491) VX_MASK PPCSPE [RS, RA, RB],
    Opc ''evmwsmfan'' (VX 4 1499) VX_MASK PPCSPE [RS, RA, RB],
    Opc ''evmwsmian'' (VX 4 1497) VX_MASK PPCSPE [RS, RA, RB],
    Opc ''evmwumian'' (VX 4 1496) VX_MASK PPCSPE [RS, RA, RB],
    Opc ''evaddssiaaw'' (VX 4 1217) VX_MASK PPCSPE [RS, RA],
    Opc ''evaddsmiaaw'' (VX 4 1225) VX_MASK PPCSPE [RS, RA],
    Opc ''evaddusiaaw'' (VX 4 1216) VX_MASK PPCSPE [RS, RA],
    Opc ''evaddumiaaw'' (VX 4 1224) VX_MASK PPCSPE [RS, RA],
    Opc ''evsubfssiaaw'' (VX 4 1219) VX_MASK PPCSPE [RS, RA],
    Opc ''evsubfsmiaaw'' (VX 4 1227) VX_MASK PPCSPE [RS, RA],
    Opc ''evsubfusiaaw'' (VX 4 1218) VX_MASK PPCSPE [RS, RA],
    Opc ''evsubfumiaaw'' (VX 4 1226) VX_MASK PPCSPE [RS, RA],
    Opc ''evmra'' (VX 4 1220) VX_MASK PPCSPE [RS, RA],
    Opc ''evdivws'' (VX 4 1222) VX_MASK PPCSPE [RS, RA, RB],
    Opc ''evdivwu'' (VX 4 1223) VX_MASK PPCSPE [RS, RA, RB],
    Opc ''mulli'' (OP 7) OP_MASK PPCCOM [RT, RA, SI],
    Opc ''muli'' (OP 7) OP_MASK PWRCOM [RT, RA, SI],
    Opc ''subfic'' (OP 8) OP_MASK PPCCOM [RT, RA, SI],
    Opc ''sfi'' (OP 8) OP_MASK PWRCOM [RT, RA, SI],
    Opc ''dozi'' (OP 9) OP_MASK M601 [RT, RA, SI],
    Opc ''bce'' (B 9 0 0) B_MASK BOOKE64 [BO, BI, BD]]"

definition powerpc_opcodes_5 :: "powerpc_opcode list" where
  "powerpc_opcodes_5 =
   [Opc ''bcel'' (B 9 0 1) B_MASK BOOKE64 [BO, BI, BD],
    Opc ''bcea'' (B 9 1 0) B_MASK BOOKE64 [BO, BI, BDA],
    Opc ''bcela'' (B 9 1 1) B_MASK BOOKE64 [BO, BI, BDA],
    Opc ''cmplwi'' (OPL 10 0) OPL_MASK PPCCOM [OBF, RA, UI],
    Opc ''cmpldi'' (OPL 10 1) OPL_MASK PPC64 [OBF, RA, UI],
    Opc ''cmpli'' (OP 10) OP_MASK PPC [BF, L, RA, UI],
    Opc ''cmpli'' (OP 10) OP_MASK PWRCOM [BF, RA, UI],
    Opc ''cmpwi'' (OPL 11 0) OPL_MASK PPCCOM [OBF, RA, SI],
    Opc ''cmpdi'' (OPL 11 1) OPL_MASK PPC64 [OBF, RA, SI],
    Opc ''cmpi'' (OP 11) OP_MASK PPC [BF, L, RA, SI],
    Opc ''cmpi'' (OP 11) OP_MASK PWRCOM [BF, RA, SI],
    Opc ''addic'' (OP 12) OP_MASK PPCCOM [RT, RA, SI],
    Opc ''ai'' (OP 12) OP_MASK PWRCOM [RT, RA, SI],
    Opc ''subic'' (OP 12) OP_MASK PPCCOM [RT, RA, NSI],
    Opc ''addic.'' (OP 13) OP_MASK PPCCOM [RT, RA, SI],
    Opc ''ai.'' (OP 13) OP_MASK PWRCOM [RT, RA, SI],
    Opc ''subic.'' (OP 13) OP_MASK PPCCOM [RT, RA, NSI],
    Opc ''li'' (OP 14) DRA_MASK PPCCOM [RT, SI],
    Opc ''lil'' (OP 14) DRA_MASK PWRCOM [RT, SI],
    Opc ''addi'' (OP 14) OP_MASK PPCCOM [RT, RA0, SI],
    Opc ''cal'' (OP 14) OP_MASK PWRCOM [RT, D, RA0],
    Opc ''subi'' (OP 14) OP_MASK PPCCOM [RT, RA0, NSI],
    Opc ''la'' (OP 14) OP_MASK PPCCOM [RT, D, RA0],
    Opc ''lis'' (OP 15) DRA_MASK PPCCOM [RT, SISIGNOPT],
    Opc ''liu'' (OP 15) DRA_MASK PWRCOM [RT, SISIGNOPT],
    Opc ''addis'' (OP 15) OP_MASK PPCCOM [RT, RA0, SISIGNOPT],
    Opc ''cau'' (OP 15) OP_MASK PWRCOM [RT, RA0, SISIGNOPT],
    Opc ''subis'' (OP 15) OP_MASK PPCCOM [RT, RA0, NSI],
    Opc ''bdnz-'' (BBO 16 BODNZ 0 0) BBOATBI_MASK PPCCOM [BDM],
    Opc ''bdnz+'' (BBO 16 BODNZ 0 0) BBOATBI_MASK PPCCOM [BDP],
    Opc ''bdnz'' (BBO 16 BODNZ 0 0) BBOATBI_MASK PPCCOM [BD],
    Opc ''bdn'' (BBO 16 BODNZ 0 0) BBOATBI_MASK PWRCOM [BD],
    Opc ''bdnzl-'' (BBO 16 BODNZ 0 1) BBOATBI_MASK PPCCOM [BDM],
    Opc ''bdnzl+'' (BBO 16 BODNZ 0 1) BBOATBI_MASK PPCCOM [BDP],
    Opc ''bdnzl'' (BBO 16 BODNZ 0 1) BBOATBI_MASK PPCCOM [BD],
    Opc ''bdnl'' (BBO 16 BODNZ 0 1) BBOATBI_MASK PWRCOM [BD],
    Opc ''bdnza-'' (BBO 16 BODNZ 1 0) BBOATBI_MASK PPCCOM [BDMA],
    Opc ''bdnza+'' (BBO 16 BODNZ 1 0) BBOATBI_MASK PPCCOM [BDPA],
    Opc ''bdnza'' (BBO 16 BODNZ 1 0) BBOATBI_MASK PPCCOM [BDA],
    Opc ''bdna'' (BBO 16 BODNZ 1 0) BBOATBI_MASK PWRCOM [BDA],
    Opc ''bdnzla-'' (BBO 16 BODNZ 1 1) BBOATBI_MASK PPCCOM [BDMA],
    Opc ''bdnzla+'' (BBO 16 BODNZ 1 1) BBOATBI_MASK PPCCOM [BDPA],
    Opc ''bdnzla'' (BBO 16 BODNZ 1 1) BBOATBI_MASK PPCCOM [BDA],
    Opc ''bdnla'' (BBO 16 BODNZ 1 1) BBOATBI_MASK PWRCOM [BDA],
    Opc ''bdz-'' (BBO 16 BODZ 0 0) BBOATBI_MASK PPCCOM [BDM],
    Opc ''bdz+'' (BBO 16 BODZ 0 0) BBOATBI_MASK PPCCOM [BDP],
    Opc ''bdz'' (BBO 16 BODZ 0 0) BBOATBI_MASK COM [BD],
    Opc ''bdzl-'' (BBO 16 BODZ 0 1) BBOATBI_MASK PPCCOM [BDM],
    Opc ''bdzl+'' (BBO 16 BODZ 0 1) BBOATBI_MASK PPCCOM [BDP],
    Opc ''bdzl'' (BBO 16 BODZ 0 1) BBOATBI_MASK COM [BD],
    Opc ''bdza-'' (BBO 16 BODZ 1 0) BBOATBI_MASK PPCCOM [BDMA],
    Opc ''bdza+'' (BBO 16 BODZ 1 0) BBOATBI_MASK PPCCOM [BDPA],
    Opc ''bdza'' (BBO 16 BODZ 1 0) BBOATBI_MASK COM [BDA],
    Opc ''bdzla-'' (BBO 16 BODZ 1 1) BBOATBI_MASK PPCCOM [BDMA],
    Opc ''bdzla+'' (BBO 16 BODZ 1 1) BBOATBI_MASK PPCCOM [BDPA],
    Opc ''bdzla'' (BBO 16 BODZ 1 1) BBOATBI_MASK COM [BDA],
    Opc ''blt-'' (BBOCB 16 BOT CBLT 0 0) BBOATCB_MASK PPCCOM [CR, BDM],
    Opc ''blt+'' (BBOCB 16 BOT CBLT 0 0) BBOATCB_MASK PPCCOM [CR, BDP],
    Opc ''blt'' (BBOCB 16 BOT CBLT 0 0) BBOATCB_MASK COM [CR, BD],
    Opc ''bltl-'' (BBOCB 16 BOT CBLT 0 1) BBOATCB_MASK PPCCOM [CR, BDM],
    Opc ''bltl+'' (BBOCB 16 BOT CBLT 0 1) BBOATCB_MASK PPCCOM [CR, BDP],
    Opc ''bltl'' (BBOCB 16 BOT CBLT 0 1) BBOATCB_MASK COM [CR, BD],
    Opc ''blta-'' (BBOCB 16 BOT CBLT 1 0) BBOATCB_MASK PPCCOM [CR, BDMA],
    Opc ''blta+'' (BBOCB 16 BOT CBLT 1 0) BBOATCB_MASK PPCCOM [CR, BDPA],
    Opc ''blta'' (BBOCB 16 BOT CBLT 1 0) BBOATCB_MASK COM [CR, BDA],
    Opc ''bltla-'' (BBOCB 16 BOT CBLT 1 1) BBOATCB_MASK PPCCOM [CR, BDMA],
    Opc ''bltla+'' (BBOCB 16 BOT CBLT 1 1) BBOATCB_MASK PPCCOM [CR, BDPA],
    Opc ''bltla'' (BBOCB 16 BOT CBLT 1 1) BBOATCB_MASK COM [CR, BDA],
    Opc ''bgt-'' (BBOCB 16 BOT CBGT 0 0) BBOATCB_MASK PPCCOM [CR, BDM],
    Opc ''bgt+'' (BBOCB 16 BOT CBGT 0 0) BBOATCB_MASK PPCCOM [CR, BDP],
    Opc ''bgt'' (BBOCB 16 BOT CBGT 0 0) BBOATCB_MASK COM [CR, BD],
    Opc ''bgtl-'' (BBOCB 16 BOT CBGT 0 1) BBOATCB_MASK PPCCOM [CR, BDM],
    Opc ''bgtl+'' (BBOCB 16 BOT CBGT 0 1) BBOATCB_MASK PPCCOM [CR, BDP],
    Opc ''bgtl'' (BBOCB 16 BOT CBGT 0 1) BBOATCB_MASK COM [CR, BD],
    Opc ''bgta-'' (BBOCB 16 BOT CBGT 1 0) BBOATCB_MASK PPCCOM [CR, BDMA],
    Opc ''bgta+'' (BBOCB 16 BOT CBGT 1 0) BBOATCB_MASK PPCCOM [CR, BDPA],
    Opc ''bgta'' (BBOCB 16 BOT CBGT 1 0) BBOATCB_MASK COM [CR, BDA],
    Opc ''bgtla-'' (BBOCB 16 BOT CBGT 1 1) BBOATCB_MASK PPCCOM [CR, BDMA],
    Opc ''bgtla+'' (BBOCB 16 BOT CBGT 1 1) BBOATCB_MASK PPCCOM [CR, BDPA],
    Opc ''bgtla'' (BBOCB 16 BOT CBGT 1 1) BBOATCB_MASK COM [CR, BDA],
    Opc ''beq-'' (BBOCB 16 BOT CBEQ 0 0) BBOATCB_MASK PPCCOM [CR, BDM],
    Opc ''beq+'' (BBOCB 16 BOT CBEQ 0 0) BBOATCB_MASK PPCCOM [CR, BDP],
    Opc ''beq'' (BBOCB 16 BOT CBEQ 0 0) BBOATCB_MASK COM [CR, BD],
    Opc ''beql-'' (BBOCB 16 BOT CBEQ 0 1) BBOATCB_MASK PPCCOM [CR, BDM],
    Opc ''beql+'' (BBOCB 16 BOT CBEQ 0 1) BBOATCB_MASK PPCCOM [CR, BDP],
    Opc ''beql'' (BBOCB 16 BOT CBEQ 0 1) BBOATCB_MASK COM [CR, BD],
    Opc ''beqa-'' (BBOCB 16 BOT CBEQ 1 0) BBOATCB_MASK PPCCOM [CR, BDMA],
    Opc ''beqa+'' (BBOCB 16 BOT CBEQ 1 0) BBOATCB_MASK PPCCOM [CR, BDPA],
    Opc ''beqa'' (BBOCB 16 BOT CBEQ 1 0) BBOATCB_MASK COM [CR, BDA],
    Opc ''beqla-'' (BBOCB 16 BOT CBEQ 1 1) BBOATCB_MASK PPCCOM [CR, BDMA],
    Opc ''beqla+'' (BBOCB 16 BOT CBEQ 1 1) BBOATCB_MASK PPCCOM [CR, BDPA],
    Opc ''beqla'' (BBOCB 16 BOT CBEQ 1 1) BBOATCB_MASK COM [CR, BDA],
    Opc ''bso-'' (BBOCB 16 BOT CBSO 0 0) BBOATCB_MASK PPCCOM [CR, BDM],
    Opc ''bso+'' (BBOCB 16 BOT CBSO 0 0) BBOATCB_MASK PPCCOM [CR, BDP],
    Opc ''bso'' (BBOCB 16 BOT CBSO 0 0) BBOATCB_MASK COM [CR, BD],
    Opc ''bsol-'' (BBOCB 16 BOT CBSO 0 1) BBOATCB_MASK PPCCOM [CR, BDM],
    Opc ''bsol+'' (BBOCB 16 BOT CBSO 0 1) BBOATCB_MASK PPCCOM [CR, BDP],
    Opc ''bsol'' (BBOCB 16 BOT CBSO 0 1) BBOATCB_MASK COM [CR, BD],
    Opc ''bsoa-'' (BBOCB 16 BOT CBSO 1 0) BBOATCB_MASK PPCCOM [CR, BDMA],
    Opc ''bsoa+'' (BBOCB 16 BOT CBSO 1 0) BBOATCB_MASK PPCCOM [CR, BDPA],
    Opc ''bsoa'' (BBOCB 16 BOT CBSO 1 0) BBOATCB_MASK COM [CR, BDA],
    Opc ''bsola-'' (BBOCB 16 BOT CBSO 1 1) BBOATCB_MASK PPCCOM [CR, BDMA],
    Opc ''bsola+'' (BBOCB 16 BOT CBSO 1 1) BBOATCB_MASK PPCCOM [CR, BDPA],
    Opc ''bsola'' (BBOCB 16 BOT CBSO 1 1) BBOATCB_MASK COM [CR, BDA],
    Opc ''bun-'' (BBOCB 16 BOT CBSO 0 0) BBOATCB_MASK PPCCOM [CR, BDM],
    Opc ''bun+'' (BBOCB 16 BOT CBSO 0 0) BBOATCB_MASK PPCCOM [CR, BDP],
    Opc ''bun'' (BBOCB 16 BOT CBSO 0 0) BBOATCB_MASK PPCCOM [CR, BD],
    Opc ''bunl-'' (BBOCB 16 BOT CBSO 0 1) BBOATCB_MASK PPCCOM [CR, BDM],
    Opc ''bunl+'' (BBOCB 16 BOT CBSO 0 1) BBOATCB_MASK PPCCOM [CR, BDP],
    Opc ''bunl'' (BBOCB 16 BOT CBSO 0 1) BBOATCB_MASK PPCCOM [CR, BD],
    Opc ''buna-'' (BBOCB 16 BOT CBSO 1 0) BBOATCB_MASK PPCCOM [CR, BDMA],
    Opc ''buna+'' (BBOCB 16 BOT CBSO 1 0) BBOATCB_MASK PPCCOM [CR, BDPA],
    Opc ''buna'' (BBOCB 16 BOT CBSO 1 0) BBOATCB_MASK PPCCOM [CR, BDA],
    Opc ''bunla-'' (BBOCB 16 BOT CBSO 1 1) BBOATCB_MASK PPCCOM [CR, BDMA],
    Opc ''bunla+'' (BBOCB 16 BOT CBSO 1 1) BBOATCB_MASK PPCCOM [CR, BDPA],
    Opc ''bunla'' (BBOCB 16 BOT CBSO 1 1) BBOATCB_MASK PPCCOM [CR, BDA],
    Opc ''bge-'' (BBOCB 16 BOF CBLT 0 0) BBOATCB_MASK PPCCOM [CR, BDM],
    Opc ''bge+'' (BBOCB 16 BOF CBLT 0 0) BBOATCB_MASK PPCCOM [CR, BDP],
    Opc ''bge'' (BBOCB 16 BOF CBLT 0 0) BBOATCB_MASK COM [CR, BD],
    Opc ''bgel-'' (BBOCB 16 BOF CBLT 0 1) BBOATCB_MASK PPCCOM [CR, BDM],
    Opc ''bgel+'' (BBOCB 16 BOF CBLT 0 1) BBOATCB_MASK PPCCOM [CR, BDP],
    Opc ''bgel'' (BBOCB 16 BOF CBLT 0 1) BBOATCB_MASK COM [CR, BD],
    Opc ''bgea-'' (BBOCB 16 BOF CBLT 1 0) BBOATCB_MASK PPCCOM [CR, BDMA],
    Opc ''bgea+'' (BBOCB 16 BOF CBLT 1 0) BBOATCB_MASK PPCCOM [CR, BDPA],
    Opc ''bgea'' (BBOCB 16 BOF CBLT 1 0) BBOATCB_MASK COM [CR, BDA],
    Opc ''bgela-'' (BBOCB 16 BOF CBLT 1 1) BBOATCB_MASK PPCCOM [CR, BDMA],
    Opc ''bgela+'' (BBOCB 16 BOF CBLT 1 1) BBOATCB_MASK PPCCOM [CR, BDPA],
    Opc ''bgela'' (BBOCB 16 BOF CBLT 1 1) BBOATCB_MASK COM [CR, BDA],
    Opc ''bnl-'' (BBOCB 16 BOF CBLT 0 0) BBOATCB_MASK PPCCOM [CR, BDM],
    Opc ''bnl+'' (BBOCB 16 BOF CBLT 0 0) BBOATCB_MASK PPCCOM [CR, BDP],
    Opc ''bnl'' (BBOCB 16 BOF CBLT 0 0) BBOATCB_MASK COM [CR, BD],
    Opc ''bnll-'' (BBOCB 16 BOF CBLT 0 1) BBOATCB_MASK PPCCOM [CR, BDM],
    Opc ''bnll+'' (BBOCB 16 BOF CBLT 0 1) BBOATCB_MASK PPCCOM [CR, BDP],
    Opc ''bnll'' (BBOCB 16 BOF CBLT 0 1) BBOATCB_MASK COM [CR, BD],
    Opc ''bnla-'' (BBOCB 16 BOF CBLT 1 0) BBOATCB_MASK PPCCOM [CR, BDMA],
    Opc ''bnla+'' (BBOCB 16 BOF CBLT 1 0) BBOATCB_MASK PPCCOM [CR, BDPA],
    Opc ''bnla'' (BBOCB 16 BOF CBLT 1 0) BBOATCB_MASK COM [CR, BDA],
    Opc ''bnlla-'' (BBOCB 16 BOF CBLT 1 1) BBOATCB_MASK PPCCOM [CR, BDMA],
    Opc ''bnlla+'' (BBOCB 16 BOF CBLT 1 1) BBOATCB_MASK PPCCOM [CR, BDPA],
    Opc ''bnlla'' (BBOCB 16 BOF CBLT 1 1) BBOATCB_MASK COM [CR, BDA],
    Opc ''ble-'' (BBOCB 16 BOF CBGT 0 0) BBOATCB_MASK PPCCOM [CR, BDM],
    Opc ''ble+'' (BBOCB 16 BOF CBGT 0 0) BBOATCB_MASK PPCCOM [CR, BDP],
    Opc ''ble'' (BBOCB 16 BOF CBGT 0 0) BBOATCB_MASK COM [CR, BD]]"

definition powerpc_opcodes_6 :: "powerpc_opcode list" where
  "powerpc_opcodes_6 =
   [Opc ''blel-'' (BBOCB 16 BOF CBGT 0 1) BBOATCB_MASK PPCCOM [CR, BDM],
    Opc ''blel+'' (BBOCB 16 BOF CBGT 0 1) BBOATCB_MASK PPCCOM [CR, BDP],
    Opc ''blel'' (BBOCB 16 BOF CBGT 0 1) BBOATCB_MASK COM [CR, BD],
    Opc ''blea-'' (BBOCB 16 BOF CBGT 1 0) BBOATCB_MASK PPCCOM [CR, BDMA],
    Opc ''blea+'' (BBOCB 16 BOF CBGT 1 0) BBOATCB_MASK PPCCOM [CR, BDPA],
    Opc ''blea'' (BBOCB 16 BOF CBGT 1 0) BBOATCB_MASK COM [CR, BDA],
    Opc ''blela-'' (BBOCB 16 BOF CBGT 1 1) BBOATCB_MASK PPCCOM [CR, BDMA],
    Opc ''blela+'' (BBOCB 16 BOF CBGT 1 1) BBOATCB_MASK PPCCOM [CR, BDPA],
    Opc ''blela'' (BBOCB 16 BOF CBGT 1 1) BBOATCB_MASK COM [CR, BDA],
    Opc ''bng-'' (BBOCB 16 BOF CBGT 0 0) BBOATCB_MASK PPCCOM [CR, BDM],
    Opc ''bng+'' (BBOCB 16 BOF CBGT 0 0) BBOATCB_MASK PPCCOM [CR, BDP],
    Opc ''bng'' (BBOCB 16 BOF CBGT 0 0) BBOATCB_MASK COM [CR, BD],
    Opc ''bngl-'' (BBOCB 16 BOF CBGT 0 1) BBOATCB_MASK PPCCOM [CR, BDM],
    Opc ''bngl+'' (BBOCB 16 BOF CBGT 0 1) BBOATCB_MASK PPCCOM [CR, BDP],
    Opc ''bngl'' (BBOCB 16 BOF CBGT 0 1) BBOATCB_MASK COM [CR, BD],
    Opc ''bnga-'' (BBOCB 16 BOF CBGT 1 0) BBOATCB_MASK PPCCOM [CR, BDMA],
    Opc ''bnga+'' (BBOCB 16 BOF CBGT 1 0) BBOATCB_MASK PPCCOM [CR, BDPA],
    Opc ''bnga'' (BBOCB 16 BOF CBGT 1 0) BBOATCB_MASK COM [CR, BDA],
    Opc ''bngla-'' (BBOCB 16 BOF CBGT 1 1) BBOATCB_MASK PPCCOM [CR, BDMA],
    Opc ''bngla+'' (BBOCB 16 BOF CBGT 1 1) BBOATCB_MASK PPCCOM [CR, BDPA],
    Opc ''bngla'' (BBOCB 16 BOF CBGT 1 1) BBOATCB_MASK COM [CR, BDA],
    Opc ''bne-'' (BBOCB 16 BOF CBEQ 0 0) BBOATCB_MASK PPCCOM [CR, BDM],
    Opc ''bne+'' (BBOCB 16 BOF CBEQ 0 0) BBOATCB_MASK PPCCOM [CR, BDP],
    Opc ''bne'' (BBOCB 16 BOF CBEQ 0 0) BBOATCB_MASK COM [CR, BD],
    Opc ''bnel-'' (BBOCB 16 BOF CBEQ 0 1) BBOATCB_MASK PPCCOM [CR, BDM],
    Opc ''bnel+'' (BBOCB 16 BOF CBEQ 0 1) BBOATCB_MASK PPCCOM [CR, BDP],
    Opc ''bnel'' (BBOCB 16 BOF CBEQ 0 1) BBOATCB_MASK COM [CR, BD],
    Opc ''bnea-'' (BBOCB 16 BOF CBEQ 1 0) BBOATCB_MASK PPCCOM [CR, BDMA],
    Opc ''bnea+'' (BBOCB 16 BOF CBEQ 1 0) BBOATCB_MASK PPCCOM [CR, BDPA],
    Opc ''bnea'' (BBOCB 16 BOF CBEQ 1 0) BBOATCB_MASK COM [CR, BDA],
    Opc ''bnela-'' (BBOCB 16 BOF CBEQ 1 1) BBOATCB_MASK PPCCOM [CR, BDMA],
    Opc ''bnela+'' (BBOCB 16 BOF CBEQ 1 1) BBOATCB_MASK PPCCOM [CR, BDPA],
    Opc ''bnela'' (BBOCB 16 BOF CBEQ 1 1) BBOATCB_MASK COM [CR, BDA],
    Opc ''bns-'' (BBOCB 16 BOF CBSO 0 0) BBOATCB_MASK PPCCOM [CR, BDM],
    Opc ''bns+'' (BBOCB 16 BOF CBSO 0 0) BBOATCB_MASK PPCCOM [CR, BDP],
    Opc ''bns'' (BBOCB 16 BOF CBSO 0 0) BBOATCB_MASK COM [CR, BD],
    Opc ''bnsl-'' (BBOCB 16 BOF CBSO 0 1) BBOATCB_MASK PPCCOM [CR, BDM],
    Opc ''bnsl+'' (BBOCB 16 BOF CBSO 0 1) BBOATCB_MASK PPCCOM [CR, BDP],
    Opc ''bnsl'' (BBOCB 16 BOF CBSO 0 1) BBOATCB_MASK COM [CR, BD],
    Opc ''bnsa-'' (BBOCB 16 BOF CBSO 1 0) BBOATCB_MASK PPCCOM [CR, BDMA],
    Opc ''bnsa+'' (BBOCB 16 BOF CBSO 1 0) BBOATCB_MASK PPCCOM [CR, BDPA],
    Opc ''bnsa'' (BBOCB 16 BOF CBSO 1 0) BBOATCB_MASK COM [CR, BDA],
    Opc ''bnsla-'' (BBOCB 16 BOF CBSO 1 1) BBOATCB_MASK PPCCOM [CR, BDMA],
    Opc ''bnsla+'' (BBOCB 16 BOF CBSO 1 1) BBOATCB_MASK PPCCOM [CR, BDPA],
    Opc ''bnsla'' (BBOCB 16 BOF CBSO 1 1) BBOATCB_MASK COM [CR, BDA],
    Opc ''bnu-'' (BBOCB 16 BOF CBSO 0 0) BBOATCB_MASK PPCCOM [CR, BDM],
    Opc ''bnu+'' (BBOCB 16 BOF CBSO 0 0) BBOATCB_MASK PPCCOM [CR, BDP],
    Opc ''bnu'' (BBOCB 16 BOF CBSO 0 0) BBOATCB_MASK PPCCOM [CR, BD],
    Opc ''bnul-'' (BBOCB 16 BOF CBSO 0 1) BBOATCB_MASK PPCCOM [CR, BDM],
    Opc ''bnul+'' (BBOCB 16 BOF CBSO 0 1) BBOATCB_MASK PPCCOM [CR, BDP],
    Opc ''bnul'' (BBOCB 16 BOF CBSO 0 1) BBOATCB_MASK PPCCOM [CR, BD],
    Opc ''bnua-'' (BBOCB 16 BOF CBSO 1 0) BBOATCB_MASK PPCCOM [CR, BDMA],
    Opc ''bnua+'' (BBOCB 16 BOF CBSO 1 0) BBOATCB_MASK PPCCOM [CR, BDPA],
    Opc ''bnua'' (BBOCB 16 BOF CBSO 1 0) BBOATCB_MASK PPCCOM [CR, BDA],
    Opc ''bnula-'' (BBOCB 16 BOF CBSO 1 1) BBOATCB_MASK PPCCOM [CR, BDMA],
    Opc ''bnula+'' (BBOCB 16 BOF CBSO 1 1) BBOATCB_MASK PPCCOM [CR, BDPA],
    Opc ''bnula'' (BBOCB 16 BOF CBSO 1 1) BBOATCB_MASK PPCCOM [CR, BDA],
    Opc ''bdnzt-'' (BBO 16 BODNZT 0 0) BBOY_MASK NOPOWER4 [BI, BDM],
    Opc ''bdnzt+'' (BBO 16 BODNZT 0 0) BBOY_MASK NOPOWER4 [BI, BDP],
    Opc ''bdnzt'' (BBO 16 BODNZT 0 0) BBOY_MASK PPCCOM [BI, BD],
    Opc ''bdnztl-'' (BBO 16 BODNZT 0 1) BBOY_MASK NOPOWER4 [BI, BDM],
    Opc ''bdnztl+'' (BBO 16 BODNZT 0 1) BBOY_MASK NOPOWER4 [BI, BDP],
    Opc ''bdnztl'' (BBO 16 BODNZT 0 1) BBOY_MASK PPCCOM [BI, BD],
    Opc ''bdnzta-'' (BBO 16 BODNZT 1 0) BBOY_MASK NOPOWER4 [BI, BDMA],
    Opc ''bdnzta+'' (BBO 16 BODNZT 1 0) BBOY_MASK NOPOWER4 [BI, BDPA],
    Opc ''bdnzta'' (BBO 16 BODNZT 1 0) BBOY_MASK PPCCOM [BI, BDA],
    Opc ''bdnztla-'' (BBO 16 BODNZT 1 1) BBOY_MASK NOPOWER4 [BI, BDMA],
    Opc ''bdnztla+'' (BBO 16 BODNZT 1 1) BBOY_MASK NOPOWER4 [BI, BDPA],
    Opc ''bdnztla'' (BBO 16 BODNZT 1 1) BBOY_MASK PPCCOM [BI, BDA],
    Opc ''bdnzf-'' (BBO 16 BODNZF 0 0) BBOY_MASK NOPOWER4 [BI, BDM],
    Opc ''bdnzf+'' (BBO 16 BODNZF 0 0) BBOY_MASK NOPOWER4 [BI, BDP],
    Opc ''bdnzf'' (BBO 16 BODNZF 0 0) BBOY_MASK PPCCOM [BI, BD],
    Opc ''bdnzfl-'' (BBO 16 BODNZF 0 1) BBOY_MASK NOPOWER4 [BI, BDM],
    Opc ''bdnzfl+'' (BBO 16 BODNZF 0 1) BBOY_MASK NOPOWER4 [BI, BDP],
    Opc ''bdnzfl'' (BBO 16 BODNZF 0 1) BBOY_MASK PPCCOM [BI, BD],
    Opc ''bdnzfa-'' (BBO 16 BODNZF 1 0) BBOY_MASK NOPOWER4 [BI, BDMA],
    Opc ''bdnzfa+'' (BBO 16 BODNZF 1 0) BBOY_MASK NOPOWER4 [BI, BDPA],
    Opc ''bdnzfa'' (BBO 16 BODNZF 1 0) BBOY_MASK PPCCOM [BI, BDA],
    Opc ''bdnzfla-'' (BBO 16 BODNZF 1 1) BBOY_MASK NOPOWER4 [BI, BDMA],
    Opc ''bdnzfla+'' (BBO 16 BODNZF 1 1) BBOY_MASK NOPOWER4 [BI, BDPA],
    Opc ''bdnzfla'' (BBO 16 BODNZF 1 1) BBOY_MASK PPCCOM [BI, BDA],
    Opc ''bt-'' (BBO 16 BOT 0 0) BBOAT_MASK PPCCOM [BI, BDM],
    Opc ''bt+'' (BBO 16 BOT 0 0) BBOAT_MASK PPCCOM [BI, BDP],
    Opc ''bt'' (BBO 16 BOT 0 0) BBOAT_MASK PPCCOM [BI, BD],
    Opc ''bbt'' (BBO 16 BOT 0 0) BBOAT_MASK PWRCOM [BI, BD],
    Opc ''btl-'' (BBO 16 BOT 0 1) BBOAT_MASK PPCCOM [BI, BDM],
    Opc ''btl+'' (BBO 16 BOT 0 1) BBOAT_MASK PPCCOM [BI, BDP],
    Opc ''btl'' (BBO 16 BOT 0 1) BBOAT_MASK PPCCOM [BI, BD],
    Opc ''bbtl'' (BBO 16 BOT 0 1) BBOAT_MASK PWRCOM [BI, BD],
    Opc ''bta-'' (BBO 16 BOT 1 0) BBOAT_MASK PPCCOM [BI, BDMA],
    Opc ''bta+'' (BBO 16 BOT 1 0) BBOAT_MASK PPCCOM [BI, BDPA],
    Opc ''bta'' (BBO 16 BOT 1 0) BBOAT_MASK PPCCOM [BI, BDA],
    Opc ''bbta'' (BBO 16 BOT 1 0) BBOAT_MASK PWRCOM [BI, BDA],
    Opc ''btla-'' (BBO 16 BOT 1 1) BBOAT_MASK PPCCOM [BI, BDMA],
    Opc ''btla+'' (BBO 16 BOT 1 1) BBOAT_MASK PPCCOM [BI, BDPA],
    Opc ''btla'' (BBO 16 BOT 1 1) BBOAT_MASK PPCCOM [BI, BDA],
    Opc ''bbtla'' (BBO 16 BOT 1 1) BBOAT_MASK PWRCOM [BI, BDA],
    Opc ''bf-'' (BBO 16 BOF 0 0) BBOAT_MASK PPCCOM [BI, BDM],
    Opc ''bf+'' (BBO 16 BOF 0 0) BBOAT_MASK PPCCOM [BI, BDP],
    Opc ''bf'' (BBO 16 BOF 0 0) BBOAT_MASK PPCCOM [BI, BD],
    Opc ''bbf'' (BBO 16 BOF 0 0) BBOAT_MASK PWRCOM [BI, BD],
    Opc ''bfl-'' (BBO 16 BOF 0 1) BBOAT_MASK PPCCOM [BI, BDM],
    Opc ''bfl+'' (BBO 16 BOF 0 1) BBOAT_MASK PPCCOM [BI, BDP],
    Opc ''bfl'' (BBO 16 BOF 0 1) BBOAT_MASK PPCCOM [BI, BD],
    Opc ''bbfl'' (BBO 16 BOF 0 1) BBOAT_MASK PWRCOM [BI, BD],
    Opc ''bfa-'' (BBO 16 BOF 1 0) BBOAT_MASK PPCCOM [BI, BDMA],
    Opc ''bfa+'' (BBO 16 BOF 1 0) BBOAT_MASK PPCCOM [BI, BDPA],
    Opc ''bfa'' (BBO 16 BOF 1 0) BBOAT_MASK PPCCOM [BI, BDA],
    Opc ''bbfa'' (BBO 16 BOF 1 0) BBOAT_MASK PWRCOM [BI, BDA],
    Opc ''bfla-'' (BBO 16 BOF 1 1) BBOAT_MASK PPCCOM [BI, BDMA],
    Opc ''bfla+'' (BBO 16 BOF 1 1) BBOAT_MASK PPCCOM [BI, BDPA],
    Opc ''bfla'' (BBO 16 BOF 1 1) BBOAT_MASK PPCCOM [BI, BDA],
    Opc ''bbfla'' (BBO 16 BOF 1 1) BBOAT_MASK PWRCOM [BI, BDA],
    Opc ''bdzt-'' (BBO 16 BODZT 0 0) BBOY_MASK NOPOWER4 [BI, BDM],
    Opc ''bdzt+'' (BBO 16 BODZT 0 0) BBOY_MASK NOPOWER4 [BI, BDP],
    Opc ''bdzt'' (BBO 16 BODZT 0 0) BBOY_MASK PPCCOM [BI, BD],
    Opc ''bdztl-'' (BBO 16 BODZT 0 1) BBOY_MASK NOPOWER4 [BI, BDM],
    Opc ''bdztl+'' (BBO 16 BODZT 0 1) BBOY_MASK NOPOWER4 [BI, BDP],
    Opc ''bdztl'' (BBO 16 BODZT 0 1) BBOY_MASK PPCCOM [BI, BD],
    Opc ''bdzta-'' (BBO 16 BODZT 1 0) BBOY_MASK NOPOWER4 [BI, BDMA],
    Opc ''bdzta+'' (BBO 16 BODZT 1 0) BBOY_MASK NOPOWER4 [BI, BDPA],
    Opc ''bdzta'' (BBO 16 BODZT 1 0) BBOY_MASK PPCCOM [BI, BDA],
    Opc ''bdztla-'' (BBO 16 BODZT 1 1) BBOY_MASK NOPOWER4 [BI, BDMA],
    Opc ''bdztla+'' (BBO 16 BODZT 1 1) BBOY_MASK NOPOWER4 [BI, BDPA],
    Opc ''bdztla'' (BBO 16 BODZT 1 1) BBOY_MASK PPCCOM [BI, BDA],
    Opc ''bdzf-'' (BBO 16 BODZF 0 0) BBOY_MASK NOPOWER4 [BI, BDM],
    Opc ''bdzf+'' (BBO 16 BODZF 0 0) BBOY_MASK NOPOWER4 [BI, BDP],
    Opc ''bdzf'' (BBO 16 BODZF 0 0) BBOY_MASK PPCCOM [BI, BD],
    Opc ''bdzfl-'' (BBO 16 BODZF 0 1) BBOY_MASK NOPOWER4 [BI, BDM],
    Opc ''bdzfl+'' (BBO 16 BODZF 0 1) BBOY_MASK NOPOWER4 [BI, BDP],
    Opc ''bdzfl'' (BBO 16 BODZF 0 1) BBOY_MASK PPCCOM [BI, BD],
    Opc ''bdzfa-'' (BBO 16 BODZF 1 0) BBOY_MASK NOPOWER4 [BI, BDMA],
    Opc ''bdzfa+'' (BBO 16 BODZF 1 0) BBOY_MASK NOPOWER4 [BI, BDPA],
    Opc ''bdzfa'' (BBO 16 BODZF 1 0) BBOY_MASK PPCCOM [BI, BDA],
    Opc ''bdzfla-'' (BBO 16 BODZF 1 1) BBOY_MASK NOPOWER4 [BI, BDMA],
    Opc ''bdzfla+'' (BBO 16 BODZF 1 1) BBOY_MASK NOPOWER4 [BI, BDPA],
    Opc ''bdzfla'' (BBO 16 BODZF 1 1) BBOY_MASK PPCCOM [BI, BDA],
    Opc ''bc-'' (B 16 0 0) B_MASK PPCCOM [BOE, BI, BDM],
    Opc ''bc+'' (B 16 0 0) B_MASK PPCCOM [BOE, BI, BDP],
    Opc ''bc'' (B 16 0 0) B_MASK COM [BO, BI, BD],
    Opc ''bcl-'' (B 16 0 1) B_MASK PPCCOM [BOE, BI, BDM],
    Opc ''bcl+'' (B 16 0 1) B_MASK PPCCOM [BOE, BI, BDP],
    Opc ''bcl'' (B 16 0 1) B_MASK COM [BO, BI, BD],
    Opc ''bca-'' (B 16 1 0) B_MASK PPCCOM [BOE, BI, BDMA],
    Opc ''bca+'' (B 16 1 0) B_MASK PPCCOM [BOE, BI, BDPA],
    Opc ''bca'' (B 16 1 0) B_MASK COM [BO, BI, BDA],
    Opc ''bcla-'' (B 16 1 1) B_MASK PPCCOM [BOE, BI, BDMA],
    Opc ''bcla+'' (B 16 1 1) B_MASK PPCCOM [BOE, BI, BDPA],
    Opc ''bcla'' (B 16 1 1) B_MASK COM [BO, BI, BDA]]"

definition powerpc_opcodes_7 :: "powerpc_opcode list" where
  "powerpc_opcodes_7 =
   [Opc ''sc'' (SC 17 1 0) SC_MASK PPC [LEV],
    Opc ''svc'' (SC 17 0 0) SC_MASK POWER [SVC_LEV, FL1, FL2],
    Opc ''svcl'' (SC 17 0 1) SC_MASK POWER [SVC_LEV, FL1, FL2],
    Opc ''svca'' (SC 17 1 0) SC_MASK PWRCOM [SV],
    Opc ''svcla'' (SC 17 1 1) SC_MASK POWER [SV],
    Opc ''b'' (B 18 0 0) B_MASK COM [LI],
    Opc ''bl'' (B 18 0 1) B_MASK COM [LI],
    Opc ''ba'' (B 18 1 0) B_MASK COM [LIA],
    Opc ''bla'' (B 18 1 1) B_MASK COM [LIA],
    Opc ''mcrf'' (XL 19 0) (XLBB_MASK OR (push_bit 21 3) OR (push_bit 16 3)) COM [BF, BFA],
    Opc ''blr'' (XLO 19 BOU 16 0) XLBOBIBB_MASK PPCCOM [0],
    Opc ''br'' (XLO 19 BOU 16 0) XLBOBIBB_MASK PWRCOM [0],
    Opc ''blrl'' (XLO 19 BOU 16 1) XLBOBIBB_MASK PPCCOM [0],
    Opc ''brl'' (XLO 19 BOU 16 1) XLBOBIBB_MASK PWRCOM [0],
    Opc ''bdnzlr'' (XLO 19 BODNZ 16 0) XLBOBIBB_MASK PPCCOM [0],
    Opc ''bdnzlr-'' (XLO 19 BODNZ 16 0) XLBOBIBB_MASK NOPOWER4 [0],
    Opc ''bdnzlr-'' (XLO 19 BODNZM4 16 0) XLBOBIBB_MASK POWER4 [0],
    Opc ''bdnzlr+'' (XLO 19 BODNZP 16 0) XLBOBIBB_MASK NOPOWER4 [0],
    Opc ''bdnzlr+'' (XLO 19 BODNZP4 16 0) XLBOBIBB_MASK POWER4 [0],
    Opc ''bdnzlrl'' (XLO 19 BODNZ 16 1) XLBOBIBB_MASK PPCCOM [0],
    Opc ''bdnzlrl-'' (XLO 19 BODNZ 16 1) XLBOBIBB_MASK NOPOWER4 [0],
    Opc ''bdnzlrl-'' (XLO 19 BODNZM4 16 1) XLBOBIBB_MASK POWER4 [0],
    Opc ''bdnzlrl+'' (XLO 19 BODNZP 16 1) XLBOBIBB_MASK NOPOWER4 [0],
    Opc ''bdnzlrl+'' (XLO 19 BODNZP4 16 1) XLBOBIBB_MASK POWER4 [0],
    Opc ''bdzlr'' (XLO 19 BODZ 16 0) XLBOBIBB_MASK PPCCOM [0],
    Opc ''bdzlr-'' (XLO 19 BODZ 16 0) XLBOBIBB_MASK NOPOWER4 [0],
    Opc ''bdzlr-'' (XLO 19 BODZM4 16 0) XLBOBIBB_MASK POWER4 [0],
    Opc ''bdzlr+'' (XLO 19 BODZP 16 0) XLBOBIBB_MASK NOPOWER4 [0],
    Opc ''bdzlr+'' (XLO 19 BODZP4 16 0) XLBOBIBB_MASK POWER4 [0],
    Opc ''bdzlrl'' (XLO 19 BODZ 16 1) XLBOBIBB_MASK PPCCOM [0],
    Opc ''bdzlrl-'' (XLO 19 BODZ 16 1) XLBOBIBB_MASK NOPOWER4 [0],
    Opc ''bdzlrl-'' (XLO 19 BODZM4 16 1) XLBOBIBB_MASK POWER4 [0],
    Opc ''bdzlrl+'' (XLO 19 BODZP 16 1) XLBOBIBB_MASK NOPOWER4 [0],
    Opc ''bdzlrl+'' (XLO 19 BODZP4 16 1) XLBOBIBB_MASK POWER4 [0],
    Opc ''bltlr'' (XLOCB 19 BOT CBLT 16 0) XLBOCBBB_MASK PPCCOM [CR],
    Opc ''bltlr-'' (XLOCB 19 BOT CBLT 16 0) XLBOCBBB_MASK NOPOWER4 [CR],
    Opc ''bltlr-'' (XLOCB 19 BOTM4 CBLT 16 0) XLBOCBBB_MASK POWER4 [CR],
    Opc ''bltlr+'' (XLOCB 19 BOTP CBLT 16 0) XLBOCBBB_MASK NOPOWER4 [CR],
    Opc ''bltlr+'' (XLOCB 19 BOTP4 CBLT 16 0) XLBOCBBB_MASK POWER4 [CR],
    Opc ''bltr'' (XLOCB 19 BOT CBLT 16 0) XLBOCBBB_MASK PWRCOM [CR],
    Opc ''bltlrl'' (XLOCB 19 BOT CBLT 16 1) XLBOCBBB_MASK PPCCOM [CR],
    Opc ''bltlrl-'' (XLOCB 19 BOT CBLT 16 1) XLBOCBBB_MASK NOPOWER4 [CR],
    Opc ''bltlrl-'' (XLOCB 19 BOTM4 CBLT 16 1) XLBOCBBB_MASK POWER4 [CR],
    Opc ''bltlrl+'' (XLOCB 19 BOTP CBLT 16 1) XLBOCBBB_MASK NOPOWER4 [CR],
    Opc ''bltlrl+'' (XLOCB 19 BOTP4 CBLT 16 1) XLBOCBBB_MASK POWER4 [CR],
    Opc ''bltrl'' (XLOCB 19 BOT CBLT 16 1) XLBOCBBB_MASK PWRCOM [CR],
    Opc ''bgtlr'' (XLOCB 19 BOT CBGT 16 0) XLBOCBBB_MASK PPCCOM [CR],
    Opc ''bgtlr-'' (XLOCB 19 BOT CBGT 16 0) XLBOCBBB_MASK NOPOWER4 [CR],
    Opc ''bgtlr-'' (XLOCB 19 BOTM4 CBGT 16 0) XLBOCBBB_MASK POWER4 [CR],
    Opc ''bgtlr+'' (XLOCB 19 BOTP CBGT 16 0) XLBOCBBB_MASK NOPOWER4 [CR],
    Opc ''bgtlr+'' (XLOCB 19 BOTP4 CBGT 16 0) XLBOCBBB_MASK POWER4 [CR],
    Opc ''bgtr'' (XLOCB 19 BOT CBGT 16 0) XLBOCBBB_MASK PWRCOM [CR],
    Opc ''bgtlrl'' (XLOCB 19 BOT CBGT 16 1) XLBOCBBB_MASK PPCCOM [CR],
    Opc ''bgtlrl-'' (XLOCB 19 BOT CBGT 16 1) XLBOCBBB_MASK NOPOWER4 [CR],
    Opc ''bgtlrl-'' (XLOCB 19 BOTM4 CBGT 16 1) XLBOCBBB_MASK POWER4 [CR],
    Opc ''bgtlrl+'' (XLOCB 19 BOTP CBGT 16 1) XLBOCBBB_MASK NOPOWER4 [CR],
    Opc ''bgtlrl+'' (XLOCB 19 BOTP4 CBGT 16 1) XLBOCBBB_MASK POWER4 [CR],
    Opc ''bgtrl'' (XLOCB 19 BOT CBGT 16 1) XLBOCBBB_MASK PWRCOM [CR],
    Opc ''beqlr'' (XLOCB 19 BOT CBEQ 16 0) XLBOCBBB_MASK PPCCOM [CR],
    Opc ''beqlr-'' (XLOCB 19 BOT CBEQ 16 0) XLBOCBBB_MASK NOPOWER4 [CR],
    Opc ''beqlr-'' (XLOCB 19 BOTM4 CBEQ 16 0) XLBOCBBB_MASK POWER4 [CR],
    Opc ''beqlr+'' (XLOCB 19 BOTP CBEQ 16 0) XLBOCBBB_MASK NOPOWER4 [CR],
    Opc ''beqlr+'' (XLOCB 19 BOTP4 CBEQ 16 0) XLBOCBBB_MASK POWER4 [CR],
    Opc ''beqr'' (XLOCB 19 BOT CBEQ 16 0) XLBOCBBB_MASK PWRCOM [CR],
    Opc ''beqlrl'' (XLOCB 19 BOT CBEQ 16 1) XLBOCBBB_MASK PPCCOM [CR],
    Opc ''beqlrl-'' (XLOCB 19 BOT CBEQ 16 1) XLBOCBBB_MASK NOPOWER4 [CR],
    Opc ''beqlrl-'' (XLOCB 19 BOTM4 CBEQ 16 1) XLBOCBBB_MASK POWER4 [CR],
    Opc ''beqlrl+'' (XLOCB 19 BOTP CBEQ 16 1) XLBOCBBB_MASK NOPOWER4 [CR],
    Opc ''beqlrl+'' (XLOCB 19 BOTP4 CBEQ 16 1) XLBOCBBB_MASK POWER4 [CR],
    Opc ''beqrl'' (XLOCB 19 BOT CBEQ 16 1) XLBOCBBB_MASK PWRCOM [CR],
    Opc ''bsolr'' (XLOCB 19 BOT CBSO 16 0) XLBOCBBB_MASK PPCCOM [CR],
    Opc ''bsolr-'' (XLOCB 19 BOT CBSO 16 0) XLBOCBBB_MASK NOPOWER4 [CR],
    Opc ''bsolr-'' (XLOCB 19 BOTM4 CBSO 16 0) XLBOCBBB_MASK POWER4 [CR],
    Opc ''bsolr+'' (XLOCB 19 BOTP CBSO 16 0) XLBOCBBB_MASK NOPOWER4 [CR],
    Opc ''bsolr+'' (XLOCB 19 BOTP4 CBSO 16 0) XLBOCBBB_MASK POWER4 [CR],
    Opc ''bsor'' (XLOCB 19 BOT CBSO 16 0) XLBOCBBB_MASK PWRCOM [CR],
    Opc ''bsolrl'' (XLOCB 19 BOT CBSO 16 1) XLBOCBBB_MASK PPCCOM [CR],
    Opc ''bsolrl-'' (XLOCB 19 BOT CBSO 16 1) XLBOCBBB_MASK NOPOWER4 [CR],
    Opc ''bsolrl-'' (XLOCB 19 BOTM4 CBSO 16 1) XLBOCBBB_MASK POWER4 [CR],
    Opc ''bsolrl+'' (XLOCB 19 BOTP CBSO 16 1) XLBOCBBB_MASK NOPOWER4 [CR],
    Opc ''bsolrl+'' (XLOCB 19 BOTP4 CBSO 16 1) XLBOCBBB_MASK POWER4 [CR],
    Opc ''bsorl'' (XLOCB 19 BOT CBSO 16 1) XLBOCBBB_MASK PWRCOM [CR],
    Opc ''bunlr'' (XLOCB 19 BOT CBSO 16 0) XLBOCBBB_MASK PPCCOM [CR],
    Opc ''bunlr-'' (XLOCB 19 BOT CBSO 16 0) XLBOCBBB_MASK NOPOWER4 [CR],
    Opc ''bunlr-'' (XLOCB 19 BOTM4 CBSO 16 0) XLBOCBBB_MASK POWER4 [CR],
    Opc ''bunlr+'' (XLOCB 19 BOTP CBSO 16 0) XLBOCBBB_MASK NOPOWER4 [CR],
    Opc ''bunlr+'' (XLOCB 19 BOTP4 CBSO 16 0) XLBOCBBB_MASK POWER4 [CR],
    Opc ''bunlrl'' (XLOCB 19 BOT CBSO 16 1) XLBOCBBB_MASK PPCCOM [CR],
    Opc ''bunlrl-'' (XLOCB 19 BOT CBSO 16 1) XLBOCBBB_MASK NOPOWER4 [CR],
    Opc ''bunlrl-'' (XLOCB 19 BOTM4 CBSO 16 1) XLBOCBBB_MASK POWER4 [CR],
    Opc ''bunlrl+'' (XLOCB 19 BOTP CBSO 16 1) XLBOCBBB_MASK NOPOWER4 [CR],
    Opc ''bunlrl+'' (XLOCB 19 BOTP4 CBSO 16 1) XLBOCBBB_MASK POWER4 [CR],
    Opc ''bgelr'' (XLOCB 19 BOF CBLT 16 0) XLBOCBBB_MASK PPCCOM [CR],
    Opc ''bgelr-'' (XLOCB 19 BOF CBLT 16 0) XLBOCBBB_MASK NOPOWER4 [CR],
    Opc ''bgelr-'' (XLOCB 19 BOFM4 CBLT 16 0) XLBOCBBB_MASK POWER4 [CR],
    Opc ''bgelr+'' (XLOCB 19 BOFP CBLT 16 0) XLBOCBBB_MASK NOPOWER4 [CR],
    Opc ''bgelr+'' (XLOCB 19 BOFP4 CBLT 16 0) XLBOCBBB_MASK POWER4 [CR],
    Opc ''bger'' (XLOCB 19 BOF CBLT 16 0) XLBOCBBB_MASK PWRCOM [CR],
    Opc ''bgelrl'' (XLOCB 19 BOF CBLT 16 1) XLBOCBBB_MASK PPCCOM [CR],
    Opc ''bgelrl-'' (XLOCB 19 BOF CBLT 16 1) XLBOCBBB_MASK NOPOWER4 [CR],
    Opc ''bgelrl-'' (XLOCB 19 BOFM4 CBLT 16 1) XLBOCBBB_MASK POWER4 [CR],
    Opc ''bgelrl+'' (XLOCB 19 BOFP CBLT 16 1) XLBOCBBB_MASK NOPOWER4 [CR],
    Opc ''bgelrl+'' (XLOCB 19 BOFP4 CBLT 16 1) XLBOCBBB_MASK POWER4 [CR],
    Opc ''bgerl'' (XLOCB 19 BOF CBLT 16 1) XLBOCBBB_MASK PWRCOM [CR],
    Opc ''bnllr'' (XLOCB 19 BOF CBLT 16 0) XLBOCBBB_MASK PPCCOM [CR],
    Opc ''bnllr-'' (XLOCB 19 BOF CBLT 16 0) XLBOCBBB_MASK NOPOWER4 [CR],
    Opc ''bnllr-'' (XLOCB 19 BOFM4 CBLT 16 0) XLBOCBBB_MASK POWER4 [CR],
    Opc ''bnllr+'' (XLOCB 19 BOFP CBLT 16 0) XLBOCBBB_MASK NOPOWER4 [CR],
    Opc ''bnllr+'' (XLOCB 19 BOFP4 CBLT 16 0) XLBOCBBB_MASK POWER4 [CR],
    Opc ''bnlr'' (XLOCB 19 BOF CBLT 16 0) XLBOCBBB_MASK PWRCOM [CR],
    Opc ''bnllrl'' (XLOCB 19 BOF CBLT 16 1) XLBOCBBB_MASK PPCCOM [CR],
    Opc ''bnllrl-'' (XLOCB 19 BOF CBLT 16 1) XLBOCBBB_MASK NOPOWER4 [CR],
    Opc ''bnllrl-'' (XLOCB 19 BOFM4 CBLT 16 1) XLBOCBBB_MASK POWER4 [CR],
    Opc ''bnllrl+'' (XLOCB 19 BOFP CBLT 16 1) XLBOCBBB_MASK NOPOWER4 [CR],
    Opc ''bnllrl+'' (XLOCB 19 BOFP4 CBLT 16 1) XLBOCBBB_MASK POWER4 [CR],
    Opc ''bnlrl'' (XLOCB 19 BOF CBLT 16 1) XLBOCBBB_MASK PWRCOM [CR],
    Opc ''blelr'' (XLOCB 19 BOF CBGT 16 0) XLBOCBBB_MASK PPCCOM [CR],
    Opc ''blelr-'' (XLOCB 19 BOF CBGT 16 0) XLBOCBBB_MASK NOPOWER4 [CR],
    Opc ''blelr-'' (XLOCB 19 BOFM4 CBGT 16 0) XLBOCBBB_MASK POWER4 [CR],
    Opc ''blelr+'' (XLOCB 19 BOFP CBGT 16 0) XLBOCBBB_MASK NOPOWER4 [CR],
    Opc ''blelr+'' (XLOCB 19 BOFP4 CBGT 16 0) XLBOCBBB_MASK POWER4 [CR],
    Opc ''bler'' (XLOCB 19 BOF CBGT 16 0) XLBOCBBB_MASK PWRCOM [CR],
    Opc ''blelrl'' (XLOCB 19 BOF CBGT 16 1) XLBOCBBB_MASK PPCCOM [CR],
    Opc ''blelrl-'' (XLOCB 19 BOF CBGT 16 1) XLBOCBBB_MASK NOPOWER4 [CR],
    Opc ''blelrl-'' (XLOCB 19 BOFM4 CBGT 16 1) XLBOCBBB_MASK POWER4 [CR],
    Opc ''blelrl+'' (XLOCB 19 BOFP CBGT 16 1) XLBOCBBB_MASK NOPOWER4 [CR],
    Opc ''blelrl+'' (XLOCB 19 BOFP4 CBGT 16 1) XLBOCBBB_MASK POWER4 [CR],
    Opc ''blerl'' (XLOCB 19 BOF CBGT 16 1) XLBOCBBB_MASK PWRCOM [CR],
    Opc ''bnglr'' (XLOCB 19 BOF CBGT 16 0) XLBOCBBB_MASK PPCCOM [CR],
    Opc ''bnglr-'' (XLOCB 19 BOF CBGT 16 0) XLBOCBBB_MASK NOPOWER4 [CR],
    Opc ''bnglr-'' (XLOCB 19 BOFM4 CBGT 16 0) XLBOCBBB_MASK POWER4 [CR],
    Opc ''bnglr+'' (XLOCB 19 BOFP CBGT 16 0) XLBOCBBB_MASK NOPOWER4 [CR],
    Opc ''bnglr+'' (XLOCB 19 BOFP4 CBGT 16 0) XLBOCBBB_MASK POWER4 [CR],
    Opc ''bngr'' (XLOCB 19 BOF CBGT 16 0) XLBOCBBB_MASK PWRCOM [CR],
    Opc ''bnglrl'' (XLOCB 19 BOF CBGT 16 1) XLBOCBBB_MASK PPCCOM [CR],
    Opc ''bnglrl-'' (XLOCB 19 BOF CBGT 16 1) XLBOCBBB_MASK NOPOWER4 [CR],
    Opc ''bnglrl-'' (XLOCB 19 BOFM4 CBGT 16 1) XLBOCBBB_MASK POWER4 [CR],
    Opc ''bnglrl+'' (XLOCB 19 BOFP CBGT 16 1) XLBOCBBB_MASK NOPOWER4 [CR],
    Opc ''bnglrl+'' (XLOCB 19 BOFP4 CBGT 16 1) XLBOCBBB_MASK POWER4 [CR],
    Opc ''bngrl'' (XLOCB 19 BOF CBGT 16 1) XLBOCBBB_MASK PWRCOM [CR],
    Opc ''bnelr'' (XLOCB 19 BOF CBEQ 16 0) XLBOCBBB_MASK PPCCOM [CR],
    Opc ''bnelr-'' (XLOCB 19 BOF CBEQ 16 0) XLBOCBBB_MASK NOPOWER4 [CR],
    Opc ''bnelr-'' (XLOCB 19 BOFM4 CBEQ 16 0) XLBOCBBB_MASK POWER4 [CR],
    Opc ''bnelr+'' (XLOCB 19 BOFP CBEQ 16 0) XLBOCBBB_MASK NOPOWER4 [CR],
    Opc ''bnelr+'' (XLOCB 19 BOFP4 CBEQ 16 0) XLBOCBBB_MASK POWER4 [CR],
    Opc ''bner'' (XLOCB 19 BOF CBEQ 16 0) XLBOCBBB_MASK PWRCOM [CR]]"

definition powerpc_opcodes_8 :: "powerpc_opcode list" where
  "powerpc_opcodes_8 =
   [Opc ''bnelrl'' (XLOCB 19 BOF CBEQ 16 1) XLBOCBBB_MASK PPCCOM [CR],
    Opc ''bnelrl-'' (XLOCB 19 BOF CBEQ 16 1) XLBOCBBB_MASK NOPOWER4 [CR],
    Opc ''bnelrl-'' (XLOCB 19 BOFM4 CBEQ 16 1) XLBOCBBB_MASK POWER4 [CR],
    Opc ''bnelrl+'' (XLOCB 19 BOFP CBEQ 16 1) XLBOCBBB_MASK NOPOWER4 [CR],
    Opc ''bnelrl+'' (XLOCB 19 BOFP4 CBEQ 16 1) XLBOCBBB_MASK POWER4 [CR],
    Opc ''bnerl'' (XLOCB 19 BOF CBEQ 16 1) XLBOCBBB_MASK PWRCOM [CR],
    Opc ''bnslr'' (XLOCB 19 BOF CBSO 16 0) XLBOCBBB_MASK PPCCOM [CR],
    Opc ''bnslr-'' (XLOCB 19 BOF CBSO 16 0) XLBOCBBB_MASK NOPOWER4 [CR],
    Opc ''bnslr-'' (XLOCB 19 BOFM4 CBSO 16 0) XLBOCBBB_MASK POWER4 [CR],
    Opc ''bnslr+'' (XLOCB 19 BOFP CBSO 16 0) XLBOCBBB_MASK NOPOWER4 [CR],
    Opc ''bnslr+'' (XLOCB 19 BOFP4 CBSO 16 0) XLBOCBBB_MASK POWER4 [CR],
    Opc ''bnsr'' (XLOCB 19 BOF CBSO 16 0) XLBOCBBB_MASK PWRCOM [CR],
    Opc ''bnslrl'' (XLOCB 19 BOF CBSO 16 1) XLBOCBBB_MASK PPCCOM [CR],
    Opc ''bnslrl-'' (XLOCB 19 BOF CBSO 16 1) XLBOCBBB_MASK NOPOWER4 [CR],
    Opc ''bnslrl-'' (XLOCB 19 BOFM4 CBSO 16 1) XLBOCBBB_MASK POWER4 [CR],
    Opc ''bnslrl+'' (XLOCB 19 BOFP CBSO 16 1) XLBOCBBB_MASK NOPOWER4 [CR],
    Opc ''bnslrl+'' (XLOCB 19 BOFP4 CBSO 16 1) XLBOCBBB_MASK POWER4 [CR],
    Opc ''bnsrl'' (XLOCB 19 BOF CBSO 16 1) XLBOCBBB_MASK PWRCOM [CR],
    Opc ''bnulr'' (XLOCB 19 BOF CBSO 16 0) XLBOCBBB_MASK PPCCOM [CR],
    Opc ''bnulr-'' (XLOCB 19 BOF CBSO 16 0) XLBOCBBB_MASK NOPOWER4 [CR],
    Opc ''bnulr-'' (XLOCB 19 BOFM4 CBSO 16 0) XLBOCBBB_MASK POWER4 [CR],
    Opc ''bnulr+'' (XLOCB 19 BOFP CBSO 16 0) XLBOCBBB_MASK NOPOWER4 [CR],
    Opc ''bnulr+'' (XLOCB 19 BOFP4 CBSO 16 0) XLBOCBBB_MASK POWER4 [CR],
    Opc ''bnulrl'' (XLOCB 19 BOF CBSO 16 1) XLBOCBBB_MASK PPCCOM [CR],
    Opc ''bnulrl-'' (XLOCB 19 BOF CBSO 16 1) XLBOCBBB_MASK NOPOWER4 [CR],
    Opc ''bnulrl-'' (XLOCB 19 BOFM4 CBSO 16 1) XLBOCBBB_MASK POWER4 [CR],
    Opc ''bnulrl+'' (XLOCB 19 BOFP CBSO 16 1) XLBOCBBB_MASK NOPOWER4 [CR],
    Opc ''bnulrl+'' (XLOCB 19 BOFP4 CBSO 16 1) XLBOCBBB_MASK POWER4 [CR],
    Opc ''btlr'' (XLO 19 BOT 16 0) XLBOBB_MASK PPCCOM [BI],
    Opc ''btlr-'' (XLO 19 BOT 16 0) XLBOBB_MASK NOPOWER4 [BI],
    Opc ''btlr-'' (XLO 19 BOTM4 16 0) XLBOBB_MASK POWER4 [BI],
    Opc ''btlr+'' (XLO 19 BOTP 16 0) XLBOBB_MASK NOPOWER4 [BI],
    Opc ''btlr+'' (XLO 19 BOTP4 16 0) XLBOBB_MASK POWER4 [BI],
    Opc ''bbtr'' (XLO 19 BOT 16 0) XLBOBB_MASK PWRCOM [BI],
    Opc ''btlrl'' (XLO 19 BOT 16 1) XLBOBB_MASK PPCCOM [BI],
    Opc ''btlrl-'' (XLO 19 BOT 16 1) XLBOBB_MASK NOPOWER4 [BI],
    Opc ''btlrl-'' (XLO 19 BOTM4 16 1) XLBOBB_MASK POWER4 [BI],
    Opc ''btlrl+'' (XLO 19 BOTP 16 1) XLBOBB_MASK NOPOWER4 [BI],
    Opc ''btlrl+'' (XLO 19 BOTP4 16 1) XLBOBB_MASK POWER4 [BI],
    Opc ''bbtrl'' (XLO 19 BOT 16 1) XLBOBB_MASK PWRCOM [BI],
    Opc ''bflr'' (XLO 19 BOF 16 0) XLBOBB_MASK PPCCOM [BI],
    Opc ''bflr-'' (XLO 19 BOF 16 0) XLBOBB_MASK NOPOWER4 [BI],
    Opc ''bflr-'' (XLO 19 BOFM4 16 0) XLBOBB_MASK POWER4 [BI],
    Opc ''bflr+'' (XLO 19 BOFP 16 0) XLBOBB_MASK NOPOWER4 [BI],
    Opc ''bflr+'' (XLO 19 BOFP4 16 0) XLBOBB_MASK POWER4 [BI],
    Opc ''bbfr'' (XLO 19 BOF 16 0) XLBOBB_MASK PWRCOM [BI],
    Opc ''bflrl'' (XLO 19 BOF 16 1) XLBOBB_MASK PPCCOM [BI],
    Opc ''bflrl-'' (XLO 19 BOF 16 1) XLBOBB_MASK NOPOWER4 [BI],
    Opc ''bflrl-'' (XLO 19 BOFM4 16 1) XLBOBB_MASK POWER4 [BI],
    Opc ''bflrl+'' (XLO 19 BOFP 16 1) XLBOBB_MASK NOPOWER4 [BI],
    Opc ''bflrl+'' (XLO 19 BOFP4 16 1) XLBOBB_MASK POWER4 [BI],
    Opc ''bbfrl'' (XLO 19 BOF 16 1) XLBOBB_MASK PWRCOM [BI],
    Opc ''bdnztlr'' (XLO 19 BODNZT 16 0) XLBOBB_MASK PPCCOM [BI],
    Opc ''bdnztlr-'' (XLO 19 BODNZT 16 0) XLBOBB_MASK NOPOWER4 [BI],
    Opc ''bdnztlr+'' (XLO 19 BODNZTP 16 0) XLBOBB_MASK NOPOWER4 [BI],
    Opc ''bdnztlrl'' (XLO 19 BODNZT 16 1) XLBOBB_MASK PPCCOM [BI],
    Opc ''bdnztlrl-'' (XLO 19 BODNZT 16 1) XLBOBB_MASK NOPOWER4 [BI],
    Opc ''bdnztlrl+'' (XLO 19 BODNZTP 16 1) XLBOBB_MASK NOPOWER4 [BI],
    Opc ''bdnzflr'' (XLO 19 BODNZF 16 0) XLBOBB_MASK PPCCOM [BI],
    Opc ''bdnzflr-'' (XLO 19 BODNZF 16 0) XLBOBB_MASK NOPOWER4 [BI],
    Opc ''bdnzflr+'' (XLO 19 BODNZFP 16 0) XLBOBB_MASK NOPOWER4 [BI],
    Opc ''bdnzflrl'' (XLO 19 BODNZF 16 1) XLBOBB_MASK PPCCOM [BI],
    Opc ''bdnzflrl-'' (XLO 19 BODNZF 16 1) XLBOBB_MASK NOPOWER4 [BI],
    Opc ''bdnzflrl+'' (XLO 19 BODNZFP 16 1) XLBOBB_MASK NOPOWER4 [BI],
    Opc ''bdztlr'' (XLO 19 BODZT 16 0) XLBOBB_MASK PPCCOM [BI],
    Opc ''bdztlr-'' (XLO 19 BODZT 16 0) XLBOBB_MASK NOPOWER4 [BI],
    Opc ''bdztlr+'' (XLO 19 BODZTP 16 0) XLBOBB_MASK NOPOWER4 [BI],
    Opc ''bdztlrl'' (XLO 19 BODZT 16 1) XLBOBB_MASK PPCCOM [BI],
    Opc ''bdztlrl-'' (XLO 19 BODZT 16 1) XLBOBB_MASK NOPOWER4 [BI],
    Opc ''bdztlrl+'' (XLO 19 BODZTP 16 1) XLBOBB_MASK NOPOWER4 [BI],
    Opc ''bdzflr'' (XLO 19 BODZF 16 0) XLBOBB_MASK PPCCOM [BI],
    Opc ''bdzflr-'' (XLO 19 BODZF 16 0) XLBOBB_MASK NOPOWER4 [BI],
    Opc ''bdzflr+'' (XLO 19 BODZFP 16 0) XLBOBB_MASK NOPOWER4 [BI],
    Opc ''bdzflrl'' (XLO 19 BODZF 16 1) XLBOBB_MASK PPCCOM [BI],
    Opc ''bdzflrl-'' (XLO 19 BODZF 16 1) XLBOBB_MASK NOPOWER4 [BI],
    Opc ''bdzflrl+'' (XLO 19 BODZFP 16 1) XLBOBB_MASK NOPOWER4 [BI],
    Opc ''bclr+'' (XLYLK 19 16 1 0) XLYBB_MASK PPCCOM [BOE, BI],
    Opc ''bclrl+'' (XLYLK 19 16 1 1) XLYBB_MASK PPCCOM [BOE, BI],
    Opc ''bclr-'' (XLYLK 19 16 0 0) XLYBB_MASK PPCCOM [BOE, BI],
    Opc ''bclrl-'' (XLYLK 19 16 0 1) XLYBB_MASK PPCCOM [BOE, BI],
    Opc ''bclr'' (XLLK 19 16 0) XLBH_MASK PPCCOM [BO, BI, BH],
    Opc ''bclrl'' (XLLK 19 16 1) XLBH_MASK PPCCOM [BO, BI, BH],
    Opc ''bcr'' (XLLK 19 16 0) XLBB_MASK PWRCOM [BO, BI],
    Opc ''bcrl'' (XLLK 19 16 1) XLBB_MASK PWRCOM [BO, BI],
    Opc ''bclre'' (XLLK 19 17 0) XLBB_MASK BOOKE64 [BO, BI],
    Opc ''bclrel'' (XLLK 19 17 1) XLBB_MASK BOOKE64 [BO, BI],
    Opc ''rfid'' (XL 19 18) 0xffffffff PPC64 [0],
    Opc ''crnot'' (XL 19 33) XL_MASK PPCCOM [BT, BA, BBA],
    Opc ''crnor'' (XL 19 33) XL_MASK COM [BT, BA, BB],
    Opc ''rfmci'' (X 19 38) 0xffffffff PPCRFMCI [0],
    Opc ''rfi'' (XL 19 50) 0xffffffff COM [0],
    Opc ''rfci'' (XL 19 51) 0xffffffff (PPC403 OR PPC440 OR BOOKE) [0],
    Opc ''rfsvc'' (XL 19 82) 0xffffffff POWER [0],
    Opc ''rfgi'' (XL 19 102) 0xffffffff PPCA2 [0],
    Opc ''crandc'' (XL 19 129) XL_MASK COM [BT, BA, BB],
    Opc ''isync'' (XL 19 150) 0xffffffff PPCCOM [0],
    Opc ''ics'' (XL 19 150) 0xffffffff PWRCOM [0],
    Opc ''crclr'' (XL 19 193) XL_MASK PPCCOM [BT, BAT, BBA],
    Opc ''crxor'' (XL 19 193) XL_MASK COM [BT, BA, BB],
    Opc ''crnand'' (XL 19 225) XL_MASK COM [BT, BA, BB],
    Opc ''crand'' (XL 19 257) XL_MASK COM [BT, BA, BB],
    Opc ''hrfid'' (XL 19 274) 0xffffffff POWER5 [0],
    Opc ''crset'' (XL 19 289) XL_MASK PPCCOM [BT, BAT, BBA],
    Opc ''creqv'' (XL 19 289) XL_MASK COM [BT, BA, BB],
    Opc ''crorc'' (XL 19 417) XL_MASK COM [BT, BA, BB],
    Opc ''crmove'' (XL 19 449) XL_MASK PPCCOM [BT, BA, BBA],
    Opc ''cror'' (XL 19 449) XL_MASK COM [BT, BA, BB],
    Opc ''bctr'' (XLO 19 BOU 528 0) XLBOBIBB_MASK COM [0],
    Opc ''bctrl'' (XLO 19 BOU 528 1) XLBOBIBB_MASK COM [0],
    Opc ''bltctr'' (XLOCB 19 BOT CBLT 528 0) XLBOCBBB_MASK PPCCOM [CR],
    Opc ''bltctr-'' (XLOCB 19 BOT CBLT 528 0) XLBOCBBB_MASK NOPOWER4 [CR],
    Opc ''bltctr-'' (XLOCB 19 BOTM4 CBLT 528 0) XLBOCBBB_MASK POWER4 [CR],
    Opc ''bltctr+'' (XLOCB 19 BOTP CBLT 528 0) XLBOCBBB_MASK NOPOWER4 [CR],
    Opc ''bltctr+'' (XLOCB 19 BOTP4 CBLT 528 0) XLBOCBBB_MASK POWER4 [CR],
    Opc ''bltctrl'' (XLOCB 19 BOT CBLT 528 1) XLBOCBBB_MASK PPCCOM [CR],
    Opc ''bltctrl-'' (XLOCB 19 BOT CBLT 528 1) XLBOCBBB_MASK NOPOWER4 [CR],
    Opc ''bltctrl-'' (XLOCB 19 BOTM4 CBLT 528 1) XLBOCBBB_MASK POWER4 [CR],
    Opc ''bltctrl+'' (XLOCB 19 BOTP CBLT 528 1) XLBOCBBB_MASK NOPOWER4 [CR],
    Opc ''bltctrl+'' (XLOCB 19 BOTP4 CBLT 528 1) XLBOCBBB_MASK POWER4 [CR],
    Opc ''bgtctr'' (XLOCB 19 BOT CBGT 528 0) XLBOCBBB_MASK PPCCOM [CR],
    Opc ''bgtctr-'' (XLOCB 19 BOT CBGT 528 0) XLBOCBBB_MASK NOPOWER4 [CR],
    Opc ''bgtctr-'' (XLOCB 19 BOTM4 CBGT 528 0) XLBOCBBB_MASK POWER4 [CR],
    Opc ''bgtctr+'' (XLOCB 19 BOTP CBGT 528 0) XLBOCBBB_MASK NOPOWER4 [CR],
    Opc ''bgtctr+'' (XLOCB 19 BOTP4 CBGT 528 0) XLBOCBBB_MASK POWER4 [CR],
    Opc ''bgtctrl'' (XLOCB 19 BOT CBGT 528 1) XLBOCBBB_MASK PPCCOM [CR],
    Opc ''bgtctrl-'' (XLOCB 19 BOT CBGT 528 1) XLBOCBBB_MASK NOPOWER4 [CR],
    Opc ''bgtctrl-'' (XLOCB 19 BOTM4 CBGT 528 1) XLBOCBBB_MASK POWER4 [CR],
    Opc ''bgtctrl+'' (XLOCB 19 BOTP CBGT 528 1) XLBOCBBB_MASK NOPOWER4 [CR],
    Opc ''bgtctrl+'' (XLOCB 19 BOTP4 CBGT 528 1) XLBOCBBB_MASK POWER4 [CR],
    Opc ''beqctr'' (XLOCB 19 BOT CBEQ 528 0) XLBOCBBB_MASK PPCCOM [CR],
    Opc ''beqctr-'' (XLOCB 19 BOT CBEQ 528 0) XLBOCBBB_MASK NOPOWER4 [CR],
    Opc ''beqctr-'' (XLOCB 19 BOTM4 CBEQ 528 0) XLBOCBBB_MASK POWER4 [CR],
    Opc ''beqctr+'' (XLOCB 19 BOTP CBEQ 528 0) XLBOCBBB_MASK NOPOWER4 [CR],
    Opc ''beqctr+'' (XLOCB 19 BOTP4 CBEQ 528 0) XLBOCBBB_MASK POWER4 [CR],
    Opc ''beqctrl'' (XLOCB 19 BOT CBEQ 528 1) XLBOCBBB_MASK PPCCOM [CR],
    Opc ''beqctrl-'' (XLOCB 19 BOT CBEQ 528 1) XLBOCBBB_MASK NOPOWER4 [CR]]"

definition powerpc_opcodes_9 :: "powerpc_opcode list" where
  "powerpc_opcodes_9 =
   [Opc ''beqctrl-'' (XLOCB 19 BOTM4 CBEQ 528 1) XLBOCBBB_MASK POWER4 [CR],
    Opc ''beqctrl+'' (XLOCB 19 BOTP CBEQ 528 1) XLBOCBBB_MASK NOPOWER4 [CR],
    Opc ''beqctrl+'' (XLOCB 19 BOTP4 CBEQ 528 1) XLBOCBBB_MASK POWER4 [CR],
    Opc ''bsoctr'' (XLOCB 19 BOT CBSO 528 0) XLBOCBBB_MASK PPCCOM [CR],
    Opc ''bsoctr-'' (XLOCB 19 BOT CBSO 528 0) XLBOCBBB_MASK NOPOWER4 [CR],
    Opc ''bsoctr-'' (XLOCB 19 BOTM4 CBSO 528 0) XLBOCBBB_MASK POWER4 [CR],
    Opc ''bsoctr+'' (XLOCB 19 BOTP CBSO 528 0) XLBOCBBB_MASK NOPOWER4 [CR],
    Opc ''bsoctr+'' (XLOCB 19 BOTP4 CBSO 528 0) XLBOCBBB_MASK POWER4 [CR],
    Opc ''bsoctrl'' (XLOCB 19 BOT CBSO 528 1) XLBOCBBB_MASK PPCCOM [CR],
    Opc ''bsoctrl-'' (XLOCB 19 BOT CBSO 528 1) XLBOCBBB_MASK NOPOWER4 [CR],
    Opc ''bsoctrl-'' (XLOCB 19 BOTM4 CBSO 528 1) XLBOCBBB_MASK POWER4 [CR],
    Opc ''bsoctrl+'' (XLOCB 19 BOTP CBSO 528 1) XLBOCBBB_MASK NOPOWER4 [CR],
    Opc ''bsoctrl+'' (XLOCB 19 BOTP4 CBSO 528 1) XLBOCBBB_MASK POWER4 [CR],
    Opc ''bunctr'' (XLOCB 19 BOT CBSO 528 0) XLBOCBBB_MASK PPCCOM [CR],
    Opc ''bunctr-'' (XLOCB 19 BOT CBSO 528 0) XLBOCBBB_MASK NOPOWER4 [CR],
    Opc ''bunctr-'' (XLOCB 19 BOTM4 CBSO 528 0) XLBOCBBB_MASK POWER4 [CR],
    Opc ''bunctr+'' (XLOCB 19 BOTP CBSO 528 0) XLBOCBBB_MASK NOPOWER4 [CR],
    Opc ''bunctr+'' (XLOCB 19 BOTP4 CBSO 528 0) XLBOCBBB_MASK POWER4 [CR],
    Opc ''bunctrl'' (XLOCB 19 BOT CBSO 528 1) XLBOCBBB_MASK PPCCOM [CR],
    Opc ''bunctrl-'' (XLOCB 19 BOT CBSO 528 1) XLBOCBBB_MASK NOPOWER4 [CR],
    Opc ''bunctrl-'' (XLOCB 19 BOTM4 CBSO 528 1) XLBOCBBB_MASK POWER4 [CR],
    Opc ''bunctrl+'' (XLOCB 19 BOTP CBSO 528 1) XLBOCBBB_MASK NOPOWER4 [CR],
    Opc ''bunctrl+'' (XLOCB 19 BOTP4 CBSO 528 1) XLBOCBBB_MASK POWER4 [CR],
    Opc ''bgectr'' (XLOCB 19 BOF CBLT 528 0) XLBOCBBB_MASK PPCCOM [CR],
    Opc ''bgectr-'' (XLOCB 19 BOF CBLT 528 0) XLBOCBBB_MASK NOPOWER4 [CR],
    Opc ''bgectr-'' (XLOCB 19 BOFM4 CBLT 528 0) XLBOCBBB_MASK POWER4 [CR],
    Opc ''bgectr+'' (XLOCB 19 BOFP CBLT 528 0) XLBOCBBB_MASK NOPOWER4 [CR],
    Opc ''bgectr+'' (XLOCB 19 BOFP4 CBLT 528 0) XLBOCBBB_MASK POWER4 [CR],
    Opc ''bgectrl'' (XLOCB 19 BOF CBLT 528 1) XLBOCBBB_MASK PPCCOM [CR],
    Opc ''bgectrl-'' (XLOCB 19 BOF CBLT 528 1) XLBOCBBB_MASK NOPOWER4 [CR],
    Opc ''bgectrl-'' (XLOCB 19 BOFM4 CBLT 528 1) XLBOCBBB_MASK POWER4 [CR],
    Opc ''bgectrl+'' (XLOCB 19 BOFP CBLT 528 1) XLBOCBBB_MASK NOPOWER4 [CR],
    Opc ''bgectrl+'' (XLOCB 19 BOFP4 CBLT 528 1) XLBOCBBB_MASK POWER4 [CR],
    Opc ''bnlctr'' (XLOCB 19 BOF CBLT 528 0) XLBOCBBB_MASK PPCCOM [CR],
    Opc ''bnlctr-'' (XLOCB 19 BOF CBLT 528 0) XLBOCBBB_MASK NOPOWER4 [CR],
    Opc ''bnlctr-'' (XLOCB 19 BOFM4 CBLT 528 0) XLBOCBBB_MASK POWER4 [CR],
    Opc ''bnlctr+'' (XLOCB 19 BOFP CBLT 528 0) XLBOCBBB_MASK NOPOWER4 [CR],
    Opc ''bnlctr+'' (XLOCB 19 BOFP4 CBLT 528 0) XLBOCBBB_MASK POWER4 [CR],
    Opc ''bnlctrl'' (XLOCB 19 BOF CBLT 528 1) XLBOCBBB_MASK PPCCOM [CR],
    Opc ''bnlctrl-'' (XLOCB 19 BOF CBLT 528 1) XLBOCBBB_MASK NOPOWER4 [CR],
    Opc ''bnlctrl-'' (XLOCB 19 BOFM4 CBLT 528 1) XLBOCBBB_MASK POWER4 [CR],
    Opc ''bnlctrl+'' (XLOCB 19 BOFP CBLT 528 1) XLBOCBBB_MASK NOPOWER4 [CR],
    Opc ''bnlctrl+'' (XLOCB 19 BOFP4 CBLT 528 1) XLBOCBBB_MASK POWER4 [CR],
    Opc ''blectr'' (XLOCB 19 BOF CBGT 528 0) XLBOCBBB_MASK PPCCOM [CR],
    Opc ''blectr-'' (XLOCB 19 BOF CBGT 528 0) XLBOCBBB_MASK NOPOWER4 [CR],
    Opc ''blectr-'' (XLOCB 19 BOFM4 CBGT 528 0) XLBOCBBB_MASK POWER4 [CR],
    Opc ''blectr+'' (XLOCB 19 BOFP CBGT 528 0) XLBOCBBB_MASK NOPOWER4 [CR],
    Opc ''blectr+'' (XLOCB 19 BOFP4 CBGT 528 0) XLBOCBBB_MASK POWER4 [CR],
    Opc ''blectrl'' (XLOCB 19 BOF CBGT 528 1) XLBOCBBB_MASK PPCCOM [CR],
    Opc ''blectrl-'' (XLOCB 19 BOF CBGT 528 1) XLBOCBBB_MASK NOPOWER4 [CR],
    Opc ''blectrl-'' (XLOCB 19 BOFM4 CBGT 528 1) XLBOCBBB_MASK POWER4 [CR],
    Opc ''blectrl+'' (XLOCB 19 BOFP CBGT 528 1) XLBOCBBB_MASK NOPOWER4 [CR],
    Opc ''blectrl+'' (XLOCB 19 BOFP4 CBGT 528 1) XLBOCBBB_MASK POWER4 [CR],
    Opc ''bngctr'' (XLOCB 19 BOF CBGT 528 0) XLBOCBBB_MASK PPCCOM [CR],
    Opc ''bngctr-'' (XLOCB 19 BOF CBGT 528 0) XLBOCBBB_MASK NOPOWER4 [CR],
    Opc ''bngctr-'' (XLOCB 19 BOFM4 CBGT 528 0) XLBOCBBB_MASK POWER4 [CR],
    Opc ''bngctr+'' (XLOCB 19 BOFP CBGT 528 0) XLBOCBBB_MASK NOPOWER4 [CR],
    Opc ''bngctr+'' (XLOCB 19 BOFP4 CBGT 528 0) XLBOCBBB_MASK POWER4 [CR],
    Opc ''bngctrl'' (XLOCB 19 BOF CBGT 528 1) XLBOCBBB_MASK PPCCOM [CR],
    Opc ''bngctrl-'' (XLOCB 19 BOF CBGT 528 1) XLBOCBBB_MASK NOPOWER4 [CR],
    Opc ''bngctrl-'' (XLOCB 19 BOFM4 CBGT 528 1) XLBOCBBB_MASK POWER4 [CR],
    Opc ''bngctrl+'' (XLOCB 19 BOFP CBGT 528 1) XLBOCBBB_MASK NOPOWER4 [CR],
    Opc ''bngctrl+'' (XLOCB 19 BOFP4 CBGT 528 1) XLBOCBBB_MASK POWER4 [CR],
    Opc ''bnectr'' (XLOCB 19 BOF CBEQ 528 0) XLBOCBBB_MASK PPCCOM [CR],
    Opc ''bnectr-'' (XLOCB 19 BOF CBEQ 528 0) XLBOCBBB_MASK NOPOWER4 [CR],
    Opc ''bnectr-'' (XLOCB 19 BOFM4 CBEQ 528 0) XLBOCBBB_MASK POWER4 [CR],
    Opc ''bnectr+'' (XLOCB 19 BOFP CBEQ 528 0) XLBOCBBB_MASK NOPOWER4 [CR],
    Opc ''bnectr+'' (XLOCB 19 BOFP4 CBEQ 528 0) XLBOCBBB_MASK POWER4 [CR],
    Opc ''bnectrl'' (XLOCB 19 BOF CBEQ 528 1) XLBOCBBB_MASK PPCCOM [CR],
    Opc ''bnectrl-'' (XLOCB 19 BOF CBEQ 528 1) XLBOCBBB_MASK NOPOWER4 [CR],
    Opc ''bnectrl-'' (XLOCB 19 BOFM4 CBEQ 528 1) XLBOCBBB_MASK POWER4 [CR],
    Opc ''bnectrl+'' (XLOCB 19 BOFP CBEQ 528 1) XLBOCBBB_MASK NOPOWER4 [CR],
    Opc ''bnectrl+'' (XLOCB 19 BOFP4 CBEQ 528 1) XLBOCBBB_MASK POWER4 [CR],
    Opc ''bnsctr'' (XLOCB 19 BOF CBSO 528 0) XLBOCBBB_MASK PPCCOM [CR],
    Opc ''bnsctr-'' (XLOCB 19 BOF CBSO 528 0) XLBOCBBB_MASK NOPOWER4 [CR],
    Opc ''bnsctr-'' (XLOCB 19 BOFM4 CBSO 528 0) XLBOCBBB_MASK POWER4 [CR],
    Opc ''bnsctr+'' (XLOCB 19 BOFP CBSO 528 0) XLBOCBBB_MASK NOPOWER4 [CR],
    Opc ''bnsctr+'' (XLOCB 19 BOFP4 CBSO 528 0) XLBOCBBB_MASK POWER4 [CR],
    Opc ''bnsctrl'' (XLOCB 19 BOF CBSO 528 1) XLBOCBBB_MASK PPCCOM [CR],
    Opc ''bnsctrl-'' (XLOCB 19 BOF CBSO 528 1) XLBOCBBB_MASK NOPOWER4 [CR],
    Opc ''bnsctrl-'' (XLOCB 19 BOFM4 CBSO 528 1) XLBOCBBB_MASK POWER4 [CR],
    Opc ''bnsctrl+'' (XLOCB 19 BOFP CBSO 528 1) XLBOCBBB_MASK NOPOWER4 [CR],
    Opc ''bnsctrl+'' (XLOCB 19 BOFP4 CBSO 528 1) XLBOCBBB_MASK POWER4 [CR],
    Opc ''bnuctr'' (XLOCB 19 BOF CBSO 528 0) XLBOCBBB_MASK PPCCOM [CR],
    Opc ''bnuctr-'' (XLOCB 19 BOF CBSO 528 0) XLBOCBBB_MASK NOPOWER4 [CR],
    Opc ''bnuctr-'' (XLOCB 19 BOFM4 CBSO 528 0) XLBOCBBB_MASK POWER4 [CR],
    Opc ''bnuctr+'' (XLOCB 19 BOFP CBSO 528 0) XLBOCBBB_MASK NOPOWER4 [CR],
    Opc ''bnuctr+'' (XLOCB 19 BOFP4 CBSO 528 0) XLBOCBBB_MASK POWER4 [CR],
    Opc ''bnuctrl'' (XLOCB 19 BOF CBSO 528 1) XLBOCBBB_MASK PPCCOM [CR],
    Opc ''bnuctrl-'' (XLOCB 19 BOF CBSO 528 1) XLBOCBBB_MASK NOPOWER4 [CR],
    Opc ''bnuctrl-'' (XLOCB 19 BOFM4 CBSO 528 1) XLBOCBBB_MASK POWER4 [CR],
    Opc ''bnuctrl+'' (XLOCB 19 BOFP CBSO 528 1) XLBOCBBB_MASK NOPOWER4 [CR],
    Opc ''bnuctrl+'' (XLOCB 19 BOFP4 CBSO 528 1) XLBOCBBB_MASK POWER4 [CR],
    Opc ''btctr'' (XLO 19 BOT 528 0) XLBOBB_MASK PPCCOM [BI],
    Opc ''btctr-'' (XLO 19 BOT 528 0) XLBOBB_MASK NOPOWER4 [BI],
    Opc ''btctr-'' (XLO 19 BOTM4 528 0) XLBOBB_MASK POWER4 [BI],
    Opc ''btctr+'' (XLO 19 BOTP 528 0) XLBOBB_MASK NOPOWER4 [BI],
    Opc ''btctr+'' (XLO 19 BOTP4 528 0) XLBOBB_MASK POWER4 [BI],
    Opc ''btctrl'' (XLO 19 BOT 528 1) XLBOBB_MASK PPCCOM [BI],
    Opc ''btctrl-'' (XLO 19 BOT 528 1) XLBOBB_MASK NOPOWER4 [BI],
    Opc ''btctrl-'' (XLO 19 BOTM4 528 1) XLBOBB_MASK POWER4 [BI],
    Opc ''btctrl+'' (XLO 19 BOTP 528 1) XLBOBB_MASK NOPOWER4 [BI],
    Opc ''btctrl+'' (XLO 19 BOTP4 528 1) XLBOBB_MASK POWER4 [BI],
    Opc ''bfctr'' (XLO 19 BOF 528 0) XLBOBB_MASK PPCCOM [BI],
    Opc ''bfctr-'' (XLO 19 BOF 528 0) XLBOBB_MASK NOPOWER4 [BI],
    Opc ''bfctr-'' (XLO 19 BOFM4 528 0) XLBOBB_MASK POWER4 [BI],
    Opc ''bfctr+'' (XLO 19 BOFP 528 0) XLBOBB_MASK NOPOWER4 [BI],
    Opc ''bfctr+'' (XLO 19 BOFP4 528 0) XLBOBB_MASK POWER4 [BI],
    Opc ''bfctrl'' (XLO 19 BOF 528 1) XLBOBB_MASK PPCCOM [BI],
    Opc ''bfctrl-'' (XLO 19 BOF 528 1) XLBOBB_MASK NOPOWER4 [BI],
    Opc ''bfctrl-'' (XLO 19 BOFM4 528 1) XLBOBB_MASK POWER4 [BI],
    Opc ''bfctrl+'' (XLO 19 BOFP 528 1) XLBOBB_MASK NOPOWER4 [BI],
    Opc ''bfctrl+'' (XLO 19 BOFP4 528 1) XLBOBB_MASK POWER4 [BI],
    Opc ''bcctr-'' (XLYLK 19 528 0 0) XLYBB_MASK PPCCOM [BOE, BI],
    Opc ''bcctr+'' (XLYLK 19 528 1 0) XLYBB_MASK PPCCOM [BOE, BI],
    Opc ''bcctrl-'' (XLYLK 19 528 0 1) XLYBB_MASK PPCCOM [BOE, BI],
    Opc ''bcctrl+'' (XLYLK 19 528 1 1) XLYBB_MASK PPCCOM [BOE, BI],
    Opc ''bcctr'' (XLLK 19 528 0) XLBH_MASK PPCCOM [BO, BI, BH],
    Opc ''bcctrl'' (XLLK 19 528 1) XLBH_MASK PPCCOM [BO, BI, BH],
    Opc ''bcc'' (XLLK 19 528 0) XLBB_MASK PWRCOM [BO, BI],
    Opc ''bccl'' (XLLK 19 528 1) XLBB_MASK PWRCOM [BO, BI],
    Opc ''bcctre'' (XLLK 19 529 0) XLYBB_MASK BOOKE64 [BO, BI],
    Opc ''bcctrel'' (XLLK 19 529 1) XLYBB_MASK BOOKE64 [BO, BI],
    Opc ''rlwimi'' (M 20 0) M_MASK PPCCOM [RA, RS, SH, MBE, ME],
    Opc ''rlimi'' (M 20 0) M_MASK PWRCOM [RA, RS, SH, MBE, ME],
    Opc ''rlwimi.'' (M 20 1) M_MASK PPCCOM [RA, RS, SH, MBE, ME],
    Opc ''rlimi.'' (M 20 1) M_MASK PWRCOM [RA, RS, SH, MBE, ME],
    Opc ''rotlwi'' (MME 21 31 0) MMBME_MASK PPCCOM [RA, RS, SH],
    Opc ''clrlwi'' (MME 21 31 0) MSHME_MASK PPCCOM [RA, RS, MB],
    Opc ''rlwinm'' (M 21 0) M_MASK PPCCOM [RA, RS, SH, MBE, ME],
    Opc ''rlinm'' (M 21 0) M_MASK PWRCOM [RA, RS, SH, MBE, ME],
    Opc ''rotlwi.'' (MME 21 31 1) MMBME_MASK PPCCOM [RA, RS, SH],
    Opc ''clrlwi.'' (MME 21 31 1) MSHME_MASK PPCCOM [RA, RS, MB],
    Opc ''rlwinm.'' (M 21 1) M_MASK PPCCOM [RA, RS, SH, MBE, ME],
    Opc ''rlinm.'' (M 21 1) M_MASK PWRCOM [RA, RS, SH, MBE, ME],
    Opc ''rlmi'' (M 22 0) M_MASK M601 [RA, RS, RB, MBE, ME],
    Opc ''rlmi.'' (M 22 1) M_MASK M601 [RA, RS, RB, MBE, ME],
    Opc ''be'' (B 22 0 0) B_MASK BOOKE64 [LI],
    Opc ''bel'' (B 22 0 1) B_MASK BOOKE64 [LI],
    Opc ''bea'' (B 22 1 0) B_MASK BOOKE64 [LIA],
    Opc ''bela'' (B 22 1 1) B_MASK BOOKE64 [LIA],
    Opc ''rotlw'' (MME 23 31 0) MMBME_MASK PPCCOM [RA, RS, RB],
    Opc ''rlwnm'' (M 23 0) M_MASK PPCCOM [RA, RS, RB, MBE, ME],
    Opc ''rlnm'' (M 23 0) M_MASK PWRCOM [RA, RS, RB, MBE, ME]]"

definition powerpc_opcodes_10 :: "powerpc_opcode list" where
  "powerpc_opcodes_10 =
   [Opc ''rotlw.'' (MME 23 31 1) MMBME_MASK PPCCOM [RA, RS, RB],
    Opc ''rlwnm.'' (M 23 1) M_MASK PPCCOM [RA, RS, RB, MBE, ME],
    Opc ''rlnm.'' (M 23 1) M_MASK PWRCOM [RA, RS, RB, MBE, ME],
    Opc ''nop'' (OP 24) 0xffffffff PPCCOM [0],
    Opc ''ori'' (OP 24) OP_MASK PPCCOM [RA, RS, UI],
    Opc ''oril'' (OP 24) OP_MASK PWRCOM [RA, RS, UI],
    Opc ''oris'' (OP 25) OP_MASK PPCCOM [RA, RS, UI],
    Opc ''oriu'' (OP 25) OP_MASK PWRCOM [RA, RS, UI],
    Opc ''xori'' (OP 26) OP_MASK PPCCOM [RA, RS, UI],
    Opc ''xoril'' (OP 26) OP_MASK PWRCOM [RA, RS, UI],
    Opc ''xoris'' (OP 27) OP_MASK PPCCOM [RA, RS, UI],
    Opc ''xoriu'' (OP 27) OP_MASK PWRCOM [RA, RS, UI],
    Opc ''andi.'' (OP 28) OP_MASK PPCCOM [RA, RS, UI],
    Opc ''andil.'' (OP 28) OP_MASK PWRCOM [RA, RS, UI],
    Opc ''andis.'' (OP 29) OP_MASK PPCCOM [RA, RS, UI],
    Opc ''andiu.'' (OP 29) OP_MASK PWRCOM [RA, RS, UI],
    Opc ''rotldi'' (MD 30 0 0) MDMB_MASK PPC64 [RA, RS, SH6],
    Opc ''clrldi'' (MD 30 0 0) MDSH_MASK PPC64 [RA, RS, MB6],
    Opc ''rldicl'' (MD 30 0 0) MD_MASK PPC64 [RA, RS, SH6, MB6],
    Opc ''rotldi.'' (MD 30 0 1) MDMB_MASK PPC64 [RA, RS, SH6],
    Opc ''clrldi.'' (MD 30 0 1) MDSH_MASK PPC64 [RA, RS, MB6],
    Opc ''rldicl.'' (MD 30 0 1) MD_MASK PPC64 [RA, RS, SH6, MB6],
    Opc ''rldicr'' (MD 30 1 0) MD_MASK PPC64 [RA, RS, SH6, ME6],
    Opc ''rldicr.'' (MD 30 1 1) MD_MASK PPC64 [RA, RS, SH6, ME6],
    Opc ''rldic'' (MD 30 2 0) MD_MASK PPC64 [RA, RS, SH6, MB6],
    Opc ''rldic.'' (MD 30 2 1) MD_MASK PPC64 [RA, RS, SH6, MB6],
    Opc ''rldimi'' (MD 30 3 0) MD_MASK PPC64 [RA, RS, SH6, MB6],
    Opc ''rldimi.'' (MD 30 3 1) MD_MASK PPC64 [RA, RS, SH6, MB6],
    Opc ''rotld'' (MDS 30 8 0) MDSMB_MASK PPC64 [RA, RS, RB],
    Opc ''rldcl'' (MDS 30 8 0) MDS_MASK PPC64 [RA, RS, RB, MB6],
    Opc ''rotld.'' (MDS 30 8 1) MDSMB_MASK PPC64 [RA, RS, RB],
    Opc ''rldcl.'' (MDS 30 8 1) MDS_MASK PPC64 [RA, RS, RB, MB6],
    Opc ''rldcr'' (MDS 30 9 0) MDS_MASK PPC64 [RA, RS, RB, ME6],
    Opc ''rldcr.'' (MDS 30 9 1) MDS_MASK PPC64 [RA, RS, RB, ME6],
    Opc ''qvlfsx'' (XRC 31 519 0) X_MASK COM [QRT, RA, RB],
    Opc ''qvlfsxa'' (XRC 31 519 1) X_MASK COM [QRT, RA, RB],
    Opc ''qvlfsux'' (XRC 31 551 0) X_MASK COM [QRT, RA, RB],
    Opc ''qvlfsuxa'' (XRC 31 551 1) X_MASK COM [QRT, RA, RB],
    Opc ''qvlfdx'' (XRC 31 583 0) X_MASK COM [QRT, RA, RB],
    Opc ''qvlfdxa'' (XRC 31 583 1) X_MASK COM [QRT, RA, RB],
    Opc ''qvlfdux'' (XRC 31 615 0) X_MASK COM [QRT, RA, RB],
    Opc ''qvlfduxa'' (XRC 31 615 1) X_MASK COM [QRT, RA, RB],
    Opc ''qvlfcsx'' (XRC 31 7 0) X_MASK COM [QRT, RA, RB],
    Opc ''qvlfcsxa'' (XRC 31 7 1) X_MASK COM [QRT, RA, RB],
    Opc ''qvlfcsux'' (XRC 31 39 0) X_MASK COM [QRT, RA, RB],
    Opc ''qvlfcsuxa'' (XRC 31 39 1) X_MASK COM [QRT, RA, RB],
    Opc ''qvlfcdx'' (XRC 31 71 0) X_MASK COM [QRT, RA, RB],
    Opc ''qvlfcdxa'' (XRC 31 71 1) X_MASK COM [QRT, RA, RB],
    Opc ''qvlfcdux'' (XRC 31 103 0) X_MASK COM [QRT, RA, RB],
    Opc ''qvlfcduxa'' (XRC 31 103 1) X_MASK COM [QRT, RA, RB],
    Opc ''qvlfiwax'' (XRC 31 871 0) X_MASK COM [QRT, RA, RB],
    Opc ''qvlfiwaxa'' (XRC 31 871 1) X_MASK COM [QRT, RA, RB],
    Opc ''qvlfiwzx'' (XRC 31 839 0) X_MASK COM [QRT, RA, RB],
    Opc ''qvlfiwzxa'' (XRC 31 839 1) X_MASK COM [QRT, RA, RB],
    Opc ''qvlpcldx'' (X 31 582) XO_MASK COM [QRT, RA, RB],
    Opc ''qvlpclsx'' (X 31 518) XO_MASK COM [QRT, RA, RB],
    Opc ''qvlpcrdx'' (X 31 70) XO_MASK COM [QRT, RA, RB],
    Opc ''qvlpcrsx'' (X 31 6) XO_MASK COM [QRT, RA, RB],
    Opc ''qvstfsx'' (XRC 31 647 0) X_MASK COM [QRS, RA, RB],
    Opc ''qvstfsxa'' (XRC 31 647 1) X_MASK COM [QRS, RA, RB],
    Opc ''qvstfsux'' (XRC 31 679 0) X_MASK COM [QRS, RA, RB],
    Opc ''qvstfsuxa'' (XRC 31 679 1) X_MASK COM [QRS, RA, RB],
    Opc ''qvstfsxi'' (XRC 31 645 0) X_MASK COM [QRS, RA, RB],
    Opc ''qvstfsxia'' (XRC 31 645 1) X_MASK COM [QRS, RA, RB],
    Opc ''qvstfsuxi'' (XRC 31 677 0) X_MASK COM [QRS, RA, RB],
    Opc ''qvstfsuxia'' (XRC 31 677 1) X_MASK COM [QRS, RA, RB],
    Opc ''qvstfdx'' (XRC 31 711 0) X_MASK COM [QRS, RA, RB],
    Opc ''qvstfdxa'' (XRC 31 711 1) X_MASK COM [QRS, RA, RB],
    Opc ''qvstfdux'' (XRC 31 743 0) X_MASK COM [QRS, RA, RB],
    Opc ''qvstfduxa'' (XRC 31 743 1) X_MASK COM [QRS, RA, RB],
    Opc ''qvstfdxi'' (XRC 31 709 0) X_MASK COM [QRS, RA, RB],
    Opc ''qvstfdxia'' (XRC 31 709 1) X_MASK COM [QRS, RA, RB],
    Opc ''qvstfduxi'' (XRC 31 741 0) X_MASK COM [QRS, RA, RB],
    Opc ''qvstfduxia'' (XRC 31 741 1) X_MASK COM [QRS, RA, RB],
    Opc ''qvstfcsx'' (XRC 31 135 0) X_MASK COM [QRS, RA, RB],
    Opc ''qvstfcsxa'' (XRC 31 135 1) X_MASK COM [QRS, RA, RB],
    Opc ''qvstfcdx'' (XRC 31 199 0) X_MASK COM [QRS, RA, RB],
    Opc ''qvstfcdxa'' (XRC 31 199 1) X_MASK COM [QRS, RA, RB],
    Opc ''qvstfcsxi'' (XRC 31 133 0) X_MASK COM [QRS, RA, RB],
    Opc ''qvstfcsxia'' (XRC 31 133 1) X_MASK COM [QRS, RA, RB],
    Opc ''qvstfcdxi'' (XRC 31 197 0) X_MASK COM [QRS, RA, RB],
    Opc ''qvstfcdxia'' (XRC 31 197 1) X_MASK COM [QRS, RA, RB],
    Opc ''qvstfcsux'' (XRC 31 167 0) X_MASK COM [QRS, RA, RB],
    Opc ''qvstfcsuxa'' (XRC 31 167 1) X_MASK COM [QRS, RA, RB],
    Opc ''qvstfcdux'' (XRC 31 231 0) X_MASK COM [QRS, RA, RB],
    Opc ''qvstfcduxa'' (XRC 31 231 1) X_MASK COM [QRS, RA, RB],
    Opc ''qvstfcsuxi'' (XRC 31 165 0) X_MASK COM [QRS, RA, RB],
    Opc ''qvstfcsuxia'' (XRC 31 165 1) X_MASK COM [QRS, RA, RB],
    Opc ''qvstfcduxi'' (XRC 31 229 0) X_MASK COM [QRS, RA, RB],
    Opc ''qvstfcduxia'' (XRC 31 229 1) X_MASK COM [QRS, RA, RB],
    Opc ''qvstfiwx'' (XRC 31 967 0) X_MASK COM [QRS, RA, RB],
    Opc ''qvstfiwxa'' (XRC 31 967 1) X_MASK COM [QRS, RA, RB],
    Opc ''cmpw'' (XOPL 31 0 0) XCMPL_MASK PPCCOM [OBF, RA, RB],
    Opc ''cmpd'' (XOPL 31 0 1) XCMPL_MASK PPC64 [OBF, RA, RB],
    Opc ''cmp'' (X 31 0) XCMP_MASK PPC [BF, L, RA, RB],
    Opc ''cmp'' (X 31 0) XCMPL_MASK PWRCOM [BF, RA, RB],
    Opc ''twlgt'' (XTO 31 4 TOLGT) XTO_MASK PPCCOM [RA, RB],
    Opc ''tlgt'' (XTO 31 4 TOLGT) XTO_MASK PWRCOM [RA, RB],
    Opc ''twllt'' (XTO 31 4 TOLLT) XTO_MASK PPCCOM [RA, RB],
    Opc ''tllt'' (XTO 31 4 TOLLT) XTO_MASK PWRCOM [RA, RB],
    Opc ''tweq'' (XTO 31 4 TOEQ) XTO_MASK PPCCOM [RA, RB],
    Opc ''teq'' (XTO 31 4 TOEQ) XTO_MASK PWRCOM [RA, RB],
    Opc ''twlge'' (XTO 31 4 TOLGE) XTO_MASK PPCCOM [RA, RB],
    Opc ''tlge'' (XTO 31 4 TOLGE) XTO_MASK PWRCOM [RA, RB],
    Opc ''twlnl'' (XTO 31 4 TOLNL) XTO_MASK PPCCOM [RA, RB],
    Opc ''tlnl'' (XTO 31 4 TOLNL) XTO_MASK PWRCOM [RA, RB],
    Opc ''twlle'' (XTO 31 4 TOLLE) XTO_MASK PPCCOM [RA, RB],
    Opc ''tlle'' (XTO 31 4 TOLLE) XTO_MASK PWRCOM [RA, RB],
    Opc ''twlng'' (XTO 31 4 TOLNG) XTO_MASK PPCCOM [RA, RB],
    Opc ''tlng'' (XTO 31 4 TOLNG) XTO_MASK PWRCOM [RA, RB],
    Opc ''twgt'' (XTO 31 4 TOGT) XTO_MASK PPCCOM [RA, RB],
    Opc ''tgt'' (XTO 31 4 TOGT) XTO_MASK PWRCOM [RA, RB],
    Opc ''twge'' (XTO 31 4 TOGE) XTO_MASK PPCCOM [RA, RB],
    Opc ''tge'' (XTO 31 4 TOGE) XTO_MASK PWRCOM [RA, RB],
    Opc ''twnl'' (XTO 31 4 TONL) XTO_MASK PPCCOM [RA, RB],
    Opc ''tnl'' (XTO 31 4 TONL) XTO_MASK PWRCOM [RA, RB],
    Opc ''twlt'' (XTO 31 4 TOLT) XTO_MASK PPCCOM [RA, RB],
    Opc ''tlt'' (XTO 31 4 TOLT) XTO_MASK PWRCOM [RA, RB],
    Opc ''twle'' (XTO 31 4 TOLE) XTO_MASK PPCCOM [RA, RB],
    Opc ''tle'' (XTO 31 4 TOLE) XTO_MASK PWRCOM [RA, RB],
    Opc ''twng'' (XTO 31 4 TONG) XTO_MASK PPCCOM [RA, RB],
    Opc ''tng'' (XTO 31 4 TONG) XTO_MASK PWRCOM [RA, RB],
    Opc ''twne'' (XTO 31 4 TONE) XTO_MASK PPCCOM [RA, RB],
    Opc ''tne'' (XTO 31 4 TONE) XTO_MASK PWRCOM [RA, RB],
    Opc ''trap'' (XTO 31 4 TOU) 0xffffffff PPCCOM [0],
    Opc ''tw'' (X 31 4) X_MASK PPCCOM [TO, RA, RB],
    Opc ''t'' (X 31 4) X_MASK PWRCOM [TO, RA, RB],
    Opc ''subfc'' (XO 31 8 0 0) XO_MASK PPCCOM [RT, RA, RB],
    Opc ''sf'' (XO 31 8 0 0) XO_MASK PWRCOM [RT, RA, RB]]"

definition powerpc_opcodes_11 :: "powerpc_opcode list" where
  "powerpc_opcodes_11 =
   [Opc ''subc'' (XO 31 8 0 0) XO_MASK PPC [RT, RB, RA],
    Opc ''subfc.'' (XO 31 8 0 1) XO_MASK PPCCOM [RT, RA, RB],
    Opc ''sf.'' (XO 31 8 0 1) XO_MASK PWRCOM [RT, RA, RB],
    Opc ''subc.'' (XO 31 8 0 1) XO_MASK PPCCOM [RT, RB, RA],
    Opc ''subfco'' (XO 31 8 1 0) XO_MASK PPCCOM [RT, RA, RB],
    Opc ''sfo'' (XO 31 8 1 0) XO_MASK PWRCOM [RT, RA, RB],
    Opc ''subco'' (XO 31 8 1 0) XO_MASK PPC [RT, RB, RA],
    Opc ''subfco.'' (XO 31 8 1 1) XO_MASK PPCCOM [RT, RA, RB],
    Opc ''sfo.'' (XO 31 8 1 1) XO_MASK PWRCOM [RT, RA, RB],
    Opc ''subco.'' (XO 31 8 1 1) XO_MASK PPC [RT, RB, RA],
    Opc ''mulhdu'' (XO 31 9 0 0) XO_MASK PPC64 [RT, RA, RB],
    Opc ''mulhdu.'' (XO 31 9 0 1) XO_MASK PPC64 [RT, RA, RB],
    Opc ''addc'' (XO 31 10 0 0) XO_MASK PPCCOM [RT, RA, RB],
    Opc ''a'' (XO 31 10 0 0) XO_MASK PWRCOM [RT, RA, RB],
    Opc ''addc.'' (XO 31 10 0 1) XO_MASK PPCCOM [RT, RA, RB],
    Opc ''a.'' (XO 31 10 0 1) XO_MASK PWRCOM [RT, RA, RB],
    Opc ''addco'' (XO 31 10 1 0) XO_MASK PPCCOM [RT, RA, RB],
    Opc ''ao'' (XO 31 10 1 0) XO_MASK PWRCOM [RT, RA, RB],
    Opc ''addco.'' (XO 31 10 1 1) XO_MASK PPCCOM [RT, RA, RB],
    Opc ''ao.'' (XO 31 10 1 1) XO_MASK PWRCOM [RT, RA, RB],
    Opc ''mulhwu'' (XO 31 11 0 0) XO_MASK PPC [RT, RA, RB],
    Opc ''mulhwu.'' (XO 31 11 0 1) XO_MASK PPC [RT, RA, RB],
    Opc ''isellt'' (X 31 15) X_MASK PPCISEL [RT, RA, RB],
    Opc ''iselgt'' (X 31 47) X_MASK PPCISEL [RT, RA, RB],
    Opc ''iseleq'' (X 31 79) X_MASK PPCISEL [RT, RA, RB],
    Opc ''isel'' (XISEL 31 15) XISEL_MASK PPCISEL [RT, RA, RB, CRB],
    Opc ''tlbilx'' (X 31 18) X_MASK POWERA2 [RT, RA, RB],
    Opc ''mfocrf'' (XFXM 31 19 0 1) XFXFXM_MASK COM [RT, FXM],
    Opc ''mfcr'' (X 31 19) XRARB_MASK NOPOWER4 [RT],
    Opc ''mfcr'' (X 31 19) XFXFXM_MASK POWER4 [RT, FXM4],
    Opc ''lwarx'' (X 31 20) X_MASK PPC [RT, RA0, RB],
    Opc ''ldx'' (X 31 21) X_MASK PPC64 [RT, RA0, RB],
    Opc ''icbt'' (X 31 22) X_MASK BOOKE [CT, RA, RB],
    Opc ''icbt'' (X 31 22) X_MASK PPC440 [RA, RB],
    Opc ''icbt'' (X 31 262) XRT_MASK PPC403 [RA, RB],
    Opc ''lwzx'' (X 31 23) X_MASK PPCCOM [RT, RA0, RB],
    Opc ''lx'' (X 31 23) X_MASK PWRCOM [RT, RA, RB],
    Opc ''slw'' (XRC 31 24 0) X_MASK PPCCOM [RA, RS, RB],
    Opc ''sl'' (XRC 31 24 0) X_MASK PWRCOM [RA, RS, RB],
    Opc ''slw.'' (XRC 31 24 1) X_MASK PPCCOM [RA, RS, RB],
    Opc ''sl.'' (XRC 31 24 1) X_MASK PWRCOM [RA, RS, RB],
    Opc ''cntlzw'' (XRC 31 26 0) XRB_MASK PPCCOM [RA, RS],
    Opc ''cntlz'' (XRC 31 26 0) XRB_MASK PWRCOM [RA, RS],
    Opc ''cntlzw.'' (XRC 31 26 1) XRB_MASK PPCCOM [RA, RS],
    Opc ''cntlz.'' (XRC 31 26 1) XRB_MASK PWRCOM [RA, RS],
    Opc ''sld'' (XRC 31 27 0) X_MASK PPC64 [RA, RS, RB],
    Opc ''sld.'' (XRC 31 27 1) X_MASK PPC64 [RA, RS, RB],
    Opc ''and'' (XRC 31 28 0) X_MASK COM [RA, RS, RB],
    Opc ''and.'' (XRC 31 28 1) X_MASK COM [RA, RS, RB],
    Opc ''ldepx'' (X 31 29) X_MASK POWERA2 [RT, RA, RB],
    Opc ''maskg'' (XRC 31 29 0) X_MASK M601 [RA, RS, RB],
    Opc ''maskg.'' (XRC 31 29 1) X_MASK M601 [RA, RS, RB],
    Opc ''icbte'' (X 31 30) X_MASK BOOKE64 [CT, RA, RB],
    Opc ''lwzxe'' (X 31 31) X_MASK BOOKE64 [RT, RA0, RB],
    Opc ''lwepx'' (X 31 31) X_MASK POWERA2 [RT, RA, RB],
    Opc ''cmplw'' (XOPL 31 32 0) XCMPL_MASK PPCCOM [OBF, RA, RB],
    Opc ''cmpld'' (XOPL 31 32 1) XCMPL_MASK PPC64 [OBF, RA, RB],
    Opc ''cmpl'' (X 31 32) XCMP_MASK PPC [BF, L, RA, RB],
    Opc ''cmpl'' (X 31 32) XCMPL_MASK PWRCOM [BF, RA, RB],
    Opc ''subf'' (XO 31 40 0 0) XO_MASK PPC [RT, RA, RB],
    Opc ''sub'' (XO 31 40 0 0) XO_MASK PPC [RT, RB, RA],
    Opc ''subf.'' (XO 31 40 0 1) XO_MASK PPC [RT, RA, RB],
    Opc ''sub.'' (XO 31 40 0 1) XO_MASK PPC [RT, RB, RA],
    Opc ''subfo'' (XO 31 40 1 0) XO_MASK PPC [RT, RA, RB],
    Opc ''subo'' (XO 31 40 1 0) XO_MASK PPC [RT, RB, RA],
    Opc ''subfo.'' (XO 31 40 1 1) XO_MASK PPC [RT, RA, RB],
    Opc ''subo.'' (XO 31 40 1 1) XO_MASK PPC [RT, RB, RA],
    Opc ''eratilx'' (X 31 51) X_MASK POWERA2 [RT, RA, RB],
    Opc ''ldux'' (X 31 53) X_MASK PPC64 [RT, RAL, RB],
    Opc ''dcbst'' (X 31 54) XRT_MASK PPC [RA, RB],
    Opc ''lwzux'' (X 31 55) X_MASK PPCCOM [RT, RAL, RB],
    Opc ''lux'' (X 31 55) X_MASK PWRCOM [RT, RA, RB],
    Opc ''dcbste'' (X 31 62) XRT_MASK BOOKE64 [RA, RB],
    Opc ''dcbstep'' (X 31 63) XRT_MASK POWERA2 [RA, RB],
    Opc ''lwzuxe'' (X 31 63) X_MASK BOOKE64 [RT, RAL, RB],
    Opc ''cntlzd'' (XRC 31 58 0) XRB_MASK PPC64 [RA, RS],
    Opc ''cntlzd.'' (XRC 31 58 1) XRB_MASK PPC64 [RA, RS],
    Opc ''andc'' (XRC 31 60 0) X_MASK COM [RA, RS, RB],
    Opc ''andc.'' (XRC 31 60 1) X_MASK COM [RA, RS, RB],
    Opc ''wait'' (X 31 62) 0xffffffff POWERA2 [0],
    Opc ''tdlgt'' (XTO 31 68 TOLGT) XTO_MASK PPC64 [RA, RB],
    Opc ''tdllt'' (XTO 31 68 TOLLT) XTO_MASK PPC64 [RA, RB],
    Opc ''tdeq'' (XTO 31 68 TOEQ) XTO_MASK PPC64 [RA, RB],
    Opc ''tdlge'' (XTO 31 68 TOLGE) XTO_MASK PPC64 [RA, RB],
    Opc ''tdlnl'' (XTO 31 68 TOLNL) XTO_MASK PPC64 [RA, RB],
    Opc ''tdlle'' (XTO 31 68 TOLLE) XTO_MASK PPC64 [RA, RB],
    Opc ''tdlng'' (XTO 31 68 TOLNG) XTO_MASK PPC64 [RA, RB],
    Opc ''tdgt'' (XTO 31 68 TOGT) XTO_MASK PPC64 [RA, RB],
    Opc ''tdge'' (XTO 31 68 TOGE) XTO_MASK PPC64 [RA, RB],
    Opc ''tdnl'' (XTO 31 68 TONL) XTO_MASK PPC64 [RA, RB],
    Opc ''tdlt'' (XTO 31 68 TOLT) XTO_MASK PPC64 [RA, RB],
    Opc ''tdle'' (XTO 31 68 TOLE) XTO_MASK PPC64 [RA, RB],
    Opc ''tdng'' (XTO 31 68 TONG) XTO_MASK PPC64 [RA, RB],
    Opc ''tdne'' (XTO 31 68 TONE) XTO_MASK PPC64 [RA, RB],
    Opc ''td'' (X 31 68) X_MASK PPC64 [TO, RA, RB],
    Opc ''mulhd'' (XO 31 73 0 0) XO_MASK PPC64 [RT, RA, RB],
    Opc ''mulhd.'' (XO 31 73 0 1) XO_MASK PPC64 [RT, RA, RB],
    Opc ''mulhw'' (XO 31 75 0 0) XO_MASK PPC [RT, RA, RB],
    Opc ''mulhw.'' (XO 31 75 0 1) XO_MASK PPC [RT, RA, RB],
    Opc ''dlmzb'' (XRC 31 78 0) X_MASK (PPC403 OR PPC440) [RA, RS, RB],
    Opc ''dlmzb.'' (XRC 31 78 1) X_MASK (PPC403 OR PPC440) [RA, RS, RB],
    Opc ''mtsrd'' (X 31 82) (XRB_MASK OR (push_bit 20 1)) PPC64 [SR, RS],
    Opc ''mfmsr'' (X 31 83) XRARB_MASK COM [RT],
    Opc ''ldarx'' (X 31 84) X_MASK PPC64 [RT, RA0, RB],
    Opc ''dcbf'' (X 31 86) XRT_MASK PPC [RA, RB],
    Opc ''lbzx'' (X 31 87) X_MASK COM [RT, RA0, RB],
    Opc ''dcbfe'' (X 31 94) XRT_MASK BOOKE64 [RA, RB],
    Opc ''lbzxe'' (X 31 95) X_MASK BOOKE64 [RT, RA0, RB],
    Opc ''lbepx'' (X 31 95) X_MASK POWERA2 [RT, RA, RB],
    Opc ''neg'' (XO 31 104 0 0) XORB_MASK COM [RT, RA],
    Opc ''neg.'' (XO 31 104 0 1) XORB_MASK COM [RT, RA],
    Opc ''nego'' (XO 31 104 1 0) XORB_MASK COM [RT, RA]]"

definition powerpc_opcodes_12 :: "powerpc_opcode list" where
  "powerpc_opcodes_12 =
   [Opc ''nego.'' (XO 31 104 1 1) XORB_MASK COM [RT, RA],
    Opc ''mul'' (XO 31 107 0 0) XO_MASK M601 [RT, RA, RB],
    Opc ''mul.'' (XO 31 107 0 1) XO_MASK M601 [RT, RA, RB],
    Opc ''mulo'' (XO 31 107 1 0) XO_MASK M601 [RT, RA, RB],
    Opc ''mulo.'' (XO 31 107 1 1) XO_MASK M601 [RT, RA, RB],
    Opc ''mtsrdin'' (X 31 114) XRA_MASK PPC64 [RS, RB],
    Opc ''clf'' (X 31 118) XTO_MASK POWER [RA, RB],
    Opc ''lbzux'' (X 31 119) X_MASK COM [RT, RAL, RB],
    Opc ''popcntb'' (X 31 122) XRB_MASK (POWER5 OR PPCA2) [RA, RS],
    Opc ''popcntw'' (X 31 378) XRB_MASK PPCA2 [RA, RS],
    Opc ''popcntd'' (X 31 506) XRB_MASK PPCA2 [RA, RS],
    Opc ''not'' (XRC 31 124 0) X_MASK COM [RA, RS, RBS],
    Opc ''nor'' (XRC 31 124 0) X_MASK COM [RA, RS, RB],
    Opc ''not.'' (XRC 31 124 1) X_MASK COM [RA, RS, RBS],
    Opc ''nor.'' (XRC 31 124 1) X_MASK COM [RA, RS, RB],
    Opc ''lwarxe'' (X 31 126) X_MASK BOOKE64 [RT, RA0, RB],
    Opc ''lbzuxe'' (X 31 127) X_MASK BOOKE64 [RT, RAL, RB],
    Opc ''dcbfep'' (X 31 127) XRT_MASK POWERA2 [RA, RB],
    Opc ''wrtee'' (X 31 131) XRARB_MASK (PPC403 OR BOOKE OR PPC440) [RS],
    Opc ''dcbtstls'' (X 31 134) X_MASK PPCCHLK [CT, RA, RB],
    Opc ''subfe'' (XO 31 136 0 0) XO_MASK PPCCOM [RT, RA, RB],
    Opc ''sfe'' (XO 31 136 0 0) XO_MASK PWRCOM [RT, RA, RB],
    Opc ''subfe.'' (XO 31 136 0 1) XO_MASK PPCCOM [RT, RA, RB],
    Opc ''sfe.'' (XO 31 136 0 1) XO_MASK PWRCOM [RT, RA, RB],
    Opc ''subfeo'' (XO 31 136 1 0) XO_MASK PPCCOM [RT, RA, RB],
    Opc ''sfeo'' (XO 31 136 1 0) XO_MASK PWRCOM [RT, RA, RB],
    Opc ''subfeo.'' (XO 31 136 1 1) XO_MASK PPCCOM [RT, RA, RB],
    Opc ''sfeo.'' (XO 31 136 1 1) XO_MASK PWRCOM [RT, RA, RB],
    Opc ''adde'' (XO 31 138 0 0) XO_MASK PPCCOM [RT, RA, RB],
    Opc ''ae'' (XO 31 138 0 0) XO_MASK PWRCOM [RT, RA, RB],
    Opc ''adde.'' (XO 31 138 0 1) XO_MASK PPCCOM [RT, RA, RB],
    Opc ''ae.'' (XO 31 138 0 1) XO_MASK PWRCOM [RT, RA, RB],
    Opc ''addeo'' (XO 31 138 1 0) XO_MASK PPCCOM [RT, RA, RB],
    Opc ''aeo'' (XO 31 138 1 0) XO_MASK PWRCOM [RT, RA, RB],
    Opc ''addeo.'' (XO 31 138 1 1) XO_MASK PPCCOM [RT, RA, RB],
    Opc ''aeo.'' (XO 31 138 1 1) XO_MASK PWRCOM [RT, RA, RB],
    Opc ''dcbtstlse'' (X 31 142) X_MASK PPCCHLK64 [CT, RA, RB],
    Opc ''lfssx'' (X 31 142) X_MASK PPCBGL [FRT, RA, RB],
    Opc ''mtocrf'' (XFXM 31 144 0 1) XFXFXM_MASK COM [FXM, RS],
    Opc ''mtcr'' (XFXM 31 144 0xff 0) XRARB_MASK COM [RS],
    Opc ''mtcrf'' (X 31 144) XFXFXM_MASK COM [FXM, RS],
    Opc ''mtmsr'' (X 31 146) XRARB_MASK COM [RS],
    Opc ''eratsx'' (XRC 31 147 0) X_MASK POWERA2 [RT, RA, RB],
    Opc ''eratsx.'' (XRC 31 147 1) X_MASK POWERA2 [RT, RA, RB],
    Opc ''stdx'' (X 31 149) X_MASK PPC64 [RS, RA0, RB],
    Opc ''stwcx.'' (XRC 31 150 1) X_MASK PPC [RS, RA0, RB],
    Opc ''stwx'' (X 31 151) X_MASK PPCCOM [RS, RA0, RB],
    Opc ''stx'' (X 31 151) X_MASK PWRCOM [RS, RA, RB],
    Opc ''prtyw'' (X 31 154) XRB_MASK POWERA2 [RA, RS],
    Opc ''stdepx'' (X 31 157) X_MASK POWERA2 [RS, RA, RB],
    Opc ''stwcxe.'' (XRC 31 158 1) X_MASK BOOKE64 [RS, RA0, RB],
    Opc ''stwxe'' (X 31 159) X_MASK BOOKE64 [RS, RA0, RB],
    Opc ''stwepx'' (X 31 159) X_MASK POWERA2 [RS, RA, RB],
    Opc ''slq'' (XRC 31 152 0) X_MASK M601 [RA, RS, RB],
    Opc ''slq.'' (XRC 31 152 1) X_MASK M601 [RA, RS, RB],
    Opc ''sle'' (XRC 31 153 0) X_MASK M601 [RA, RS, RB],
    Opc ''sle.'' (XRC 31 153 1) X_MASK M601 [RA, RS, RB],
    Opc ''wrteei'' (X 31 163) XE_MASK (PPC403 OR BOOKE OR PPC440) [E],
    Opc ''dcbtls'' (X 31 166) X_MASK PPCCHLK [CT, RA, RB],
    Opc ''dcbtlse'' (X 31 174) X_MASK PPCCHLK64 [CT, RA, RB],
    Opc ''lfssux'' (X 31 174) X_MASK PPCBGL [FRT, RAS, RB],
    Opc ''mtmsrd'' (X 31 178) XRLARB_MASK PPC64 [RS, MTMSRD_L],
    Opc ''eratre'' (X 31 179) X_MASK POWERA2 [RT, RA, WS],
    Opc ''stdux'' (X 31 181) X_MASK PPC64 [RS, RAS, RB],
    Opc ''stwux'' (X 31 183) X_MASK PPCCOM [RS, RAS, RB],
    Opc ''stux'' (X 31 183) X_MASK PWRCOM [RS, RA0, RB],
    Opc ''sliq'' (XRC 31 184 0) X_MASK M601 [RA, RS, SH],
    Opc ''sliq.'' (XRC 31 184 1) X_MASK M601 [RA, RS, SH],
    Opc ''prtyd'' (X 31 186) XRB_MASK POWERA2 [RA, RS],
    Opc ''stwuxe'' (X 31 191) X_MASK BOOKE64 [RS, RAS, RB],
    Opc ''subfze'' (XO 31 200 0 0) XORB_MASK PPCCOM [RT, RA],
    Opc ''sfze'' (XO 31 200 0 0) XORB_MASK PWRCOM [RT, RA],
    Opc ''subfze.'' (XO 31 200 0 1) XORB_MASK PPCCOM [RT, RA],
    Opc ''sfze.'' (XO 31 200 0 1) XORB_MASK PWRCOM [RT, RA],
    Opc ''subfzeo'' (XO 31 200 1 0) XORB_MASK PPCCOM [RT, RA],
    Opc ''sfzeo'' (XO 31 200 1 0) XORB_MASK PWRCOM [RT, RA],
    Opc ''subfzeo.'' (XO 31 200 1 1) XORB_MASK PPCCOM [RT, RA],
    Opc ''sfzeo.'' (XO 31 200 1 1) XORB_MASK PWRCOM [RT, RA],
    Opc ''addze'' (XO 31 202 0 0) XORB_MASK PPCCOM [RT, RA],
    Opc ''aze'' (XO 31 202 0 0) XORB_MASK PWRCOM [RT, RA],
    Opc ''addze.'' (XO 31 202 0 1) XORB_MASK PPCCOM [RT, RA],
    Opc ''aze.'' (XO 31 202 0 1) XORB_MASK PWRCOM [RT, RA],
    Opc ''addzeo'' (XO 31 202 1 0) XORB_MASK PPCCOM [RT, RA],
    Opc ''azeo'' (XO 31 202 1 0) XORB_MASK PWRCOM [RT, RA],
    Opc ''addzeo.'' (XO 31 202 1 1) XORB_MASK PPCCOM [RT, RA],
    Opc ''azeo.'' (XO 31 202 1 1) XORB_MASK PWRCOM [RT, RA],
    Opc ''lfsdx'' (X 31 206) X_MASK PPCBGL [FRT, RA, RB],
    Opc ''msgsnd'' (X 31 206) X_MASK POWERA2 [RB],
    Opc ''mtsr'' (X 31 210) (XRB_MASK OR (push_bit 20 1)) COM32 [SR, RS],
    Opc ''stdcx.'' (XRC 31 214 1) X_MASK PPC64 [RS, RA0, RB],
    Opc ''stbx'' (X 31 215) X_MASK COM [RS, RA0, RB],
    Opc ''sllq'' (XRC 31 216 0) X_MASK M601 [RA, RS, RB],
    Opc ''sllq.'' (XRC 31 216 1) X_MASK M601 [RA, RS, RB],
    Opc ''sleq'' (XRC 31 217 0) X_MASK M601 [RA, RS, RB],
    Opc ''sleq.'' (XRC 31 217 1) X_MASK M601 [RA, RS, RB],
    Opc ''stbxe'' (X 31 223) X_MASK BOOKE64 [RS, RA0, RB],
    Opc ''stbepx'' (X 31 223) X_MASK POWERA2 [RS, RA, RB],
    Opc ''icblc'' (X 31 230) X_MASK PPCCHLK [CT, RA, RB],
    Opc ''subfme'' (XO 31 232 0 0) XORB_MASK PPCCOM [RT, RA],
    Opc ''sfme'' (XO 31 232 0 0) XORB_MASK PWRCOM [RT, RA],
    Opc ''subfme.'' (XO 31 232 0 1) XORB_MASK PPCCOM [RT, RA],
    Opc ''sfme.'' (XO 31 232 0 1) XORB_MASK PWRCOM [RT, RA],
    Opc ''subfmeo'' (XO 31 232 1 0) XORB_MASK PPCCOM [RT, RA],
    Opc ''sfmeo'' (XO 31 232 1 0) XORB_MASK PWRCOM [RT, RA],
    Opc ''subfmeo.'' (XO 31 232 1 1) XORB_MASK PPCCOM [RT, RA],
    Opc ''sfmeo.'' (XO 31 232 1 1) XORB_MASK PWRCOM [RT, RA]]"

definition powerpc_opcodes_13 :: "powerpc_opcode list" where
  "powerpc_opcodes_13 =
   [Opc ''mulld'' (XO 31 233 0 0) XO_MASK PPC64 [RT, RA, RB],
    Opc ''mulld.'' (XO 31 233 0 1) XO_MASK PPC64 [RT, RA, RB],
    Opc ''mulldo'' (XO 31 233 1 0) XO_MASK PPC64 [RT, RA, RB],
    Opc ''mulldo.'' (XO 31 233 1 1) XO_MASK PPC64 [RT, RA, RB],
    Opc ''addme'' (XO 31 234 0 0) XORB_MASK PPCCOM [RT, RA],
    Opc ''ame'' (XO 31 234 0 0) XORB_MASK PWRCOM [RT, RA],
    Opc ''addme.'' (XO 31 234 0 1) XORB_MASK PPCCOM [RT, RA],
    Opc ''ame.'' (XO 31 234 0 1) XORB_MASK PWRCOM [RT, RA],
    Opc ''addmeo'' (XO 31 234 1 0) XORB_MASK PPCCOM [RT, RA],
    Opc ''ameo'' (XO 31 234 1 0) XORB_MASK PWRCOM [RT, RA],
    Opc ''addmeo.'' (XO 31 234 1 1) XORB_MASK PPCCOM [RT, RA],
    Opc ''ameo.'' (XO 31 234 1 1) XORB_MASK PWRCOM [RT, RA],
    Opc ''mullw'' (XO 31 235 0 0) XO_MASK PPCCOM [RT, RA, RB],
    Opc ''muls'' (XO 31 235 0 0) XO_MASK PWRCOM [RT, RA, RB],
    Opc ''mullw.'' (XO 31 235 0 1) XO_MASK PPCCOM [RT, RA, RB],
    Opc ''muls.'' (XO 31 235 0 1) XO_MASK PWRCOM [RT, RA, RB],
    Opc ''mullwo'' (XO 31 235 1 0) XO_MASK PPCCOM [RT, RA, RB],
    Opc ''mulso'' (XO 31 235 1 0) XO_MASK PWRCOM [RT, RA, RB],
    Opc ''mullwo.'' (XO 31 235 1 1) XO_MASK PPCCOM [RT, RA, RB],
    Opc ''mulso.'' (XO 31 235 1 1) XO_MASK PWRCOM [RT, RA, RB],
    Opc ''icblce'' (X 31 238) X_MASK PPCCHLK64 [CT, RA, RB],
    Opc ''lfsdux'' (X 31 238) X_MASK PPCBGL [FRT, RAS, RB],
    Opc ''msgclr'' (X 31 238) X_MASK POWERA2 [RB],
    Opc ''mtsrin'' (X 31 242) XRA_MASK PPC32 [RS, RB],
    Opc ''mtsri'' (X 31 242) XRA_MASK POWER32 [RS, RB],
    Opc ''dcbtst'' (X 31 246) X_MASK PPC [CT, RA, RB],
    Opc ''stbux'' (X 31 247) X_MASK COM [RS, RAS, RB],
    Opc ''slliq'' (XRC 31 248 0) X_MASK M601 [RA, RS, SH],
    Opc ''slliq.'' (XRC 31 248 1) X_MASK M601 [RA, RS, SH],
    Opc ''bperm'' (X 31 252) X_MASK POWERA2 [CT, RA, RB],
    Opc ''dcbtste'' (X 31 253) X_MASK BOOKE64 [CT, RA, RB],
    Opc ''stbuxe'' (X 31 255) X_MASK BOOKE64 [RS, RAS, RB],
    Opc ''dcbtstep'' (X 31 255) X_MASK POWERA2 [TH, RA, RB],
    Opc ''mfdcrx'' (X 31 259) X_MASK (BOOKE OR PPC450) [RS, RA],
    Opc ''doz'' (XO 31 264 0 0) XO_MASK M601 [RT, RA, RB],
    Opc ''doz.'' (XO 31 264 0 1) XO_MASK M601 [RT, RA, RB],
    Opc ''dozo'' (XO 31 264 1 0) XO_MASK M601 [RT, RA, RB],
    Opc ''dozo.'' (XO 31 264 1 1) XO_MASK M601 [RT, RA, RB],
    Opc ''add'' (XO 31 266 0 0) XO_MASK PPCCOM [RT, RA, RB],
    Opc ''cax'' (XO 31 266 0 0) XO_MASK PWRCOM [RT, RA, RB],
    Opc ''add.'' (XO 31 266 0 1) XO_MASK PPCCOM [RT, RA, RB],
    Opc ''cax.'' (XO 31 266 0 1) XO_MASK PWRCOM [RT, RA, RB],
    Opc ''addo'' (XO 31 266 1 0) XO_MASK PPCCOM [RT, RA, RB],
    Opc ''caxo'' (XO 31 266 1 0) XO_MASK PWRCOM [RT, RA, RB],
    Opc ''addo.'' (XO 31 266 1 1) XO_MASK PPCCOM [RT, RA, RB],
    Opc ''caxo.'' (XO 31 266 1 1) XO_MASK PWRCOM [RT, RA, RB],
    Opc ''ehpriv'' (X 31 270) 0xffffffff PPCA2 [0],
    Opc ''lfxsx'' (X 31 270) X_MASK PPCBGL [FRT, RA, RB],
    Opc ''tlbiel'' (X 31 274) XRTLRA_MASK POWER4 [RB, L],
    Opc ''mfapidi'' (X 31 275) X_MASK BOOKE [RT, RA],
    Opc ''lscbx'' (XRC 31 277 0) X_MASK M601 [RT, RA, RB],
    Opc ''lscbx.'' (XRC 31 277 1) X_MASK M601 [RT, RA, RB],
    Opc ''dcbt'' (X 31 278) X_MASK PPC [CT, RA, RB],
    Opc ''lhzx'' (X 31 279) X_MASK COM [RT, RA0, RB],
    Opc ''eqv'' (XRC 31 284 0) X_MASK COM [RA, RS, RB],
    Opc ''eqv.'' (XRC 31 284 1) X_MASK COM [RA, RS, RB],
    Opc ''dcbte'' (X 31 286) X_MASK BOOKE64 [CT, RA, RB],
    Opc ''lhzxe'' (X 31 287) X_MASK BOOKE64 [RT, RA0, RB],
    Opc ''lhepx'' (X 31 287) X_MASK POWERA2 [RT, RA, RB],
    Opc ''mfdcrux'' (X 31 291) X_MASK PPC450 [RS, RA],
    Opc ''lfxsux'' (X 31 302) X_MASK PPCBGL [FRT, RAS, RB],
    Opc ''tlbie'' (X 31 306) XRTLRA_MASK PPC [RB, L],
    Opc ''tlbi'' (X 31 306) XRT_MASK POWER [RA0, RB],
    Opc ''eciwx'' (X 31 310) X_MASK PPC [RT, RA, RB],
    Opc ''lhzux'' (X 31 311) X_MASK COM [RT, RAL, RB],
    Opc ''xor'' (XRC 31 316 0) X_MASK COM [RA, RS, RB],
    Opc ''xor.'' (XRC 31 316 1) X_MASK COM [RA, RS, RB],
    Opc ''lhzuxe'' (X 31 319) X_MASK BOOKE64 [RT, RAL, RB],
    Opc ''dcbtep'' (X 31 319) X_MASK POWERA2 [TH, RA, RB],
    Opc ''mfexisr'' (XSPR 31 323 64) XSPR_MASK PPC403 [RT],
    Opc ''mfexier'' (XSPR 31 323 66) XSPR_MASK PPC403 [RT],
    Opc ''mfbr0'' (XSPR 31 323 128) XSPR_MASK PPC403 [RT],
    Opc ''mfbr1'' (XSPR 31 323 129) XSPR_MASK PPC403 [RT],
    Opc ''mfbr2'' (XSPR 31 323 130) XSPR_MASK PPC403 [RT],
    Opc ''mfbr3'' (XSPR 31 323 131) XSPR_MASK PPC403 [RT],
    Opc ''mfbr4'' (XSPR 31 323 132) XSPR_MASK PPC403 [RT],
    Opc ''mfbr5'' (XSPR 31 323 133) XSPR_MASK PPC403 [RT],
    Opc ''mfbr6'' (XSPR 31 323 134) XSPR_MASK PPC403 [RT],
    Opc ''mfbr7'' (XSPR 31 323 135) XSPR_MASK PPC403 [RT],
    Opc ''mfbear'' (XSPR 31 323 144) XSPR_MASK PPC403 [RT],
    Opc ''mfbesr'' (XSPR 31 323 145) XSPR_MASK PPC403 [RT],
    Opc ''mfiocr'' (XSPR 31 323 160) XSPR_MASK PPC403 [RT],
    Opc ''mfdmacr0'' (XSPR 31 323 192) XSPR_MASK PPC403 [RT],
    Opc ''mfdmact0'' (XSPR 31 323 193) XSPR_MASK PPC403 [RT],
    Opc ''mfdmada0'' (XSPR 31 323 194) XSPR_MASK PPC403 [RT],
    Opc ''mfdmasa0'' (XSPR 31 323 195) XSPR_MASK PPC403 [RT],
    Opc ''mfdmacc0'' (XSPR 31 323 196) XSPR_MASK PPC403 [RT],
    Opc ''mfdmacr1'' (XSPR 31 323 200) XSPR_MASK PPC403 [RT],
    Opc ''mfdmact1'' (XSPR 31 323 201) XSPR_MASK PPC403 [RT],
    Opc ''mfdmada1'' (XSPR 31 323 202) XSPR_MASK PPC403 [RT],
    Opc ''mfdmasa1'' (XSPR 31 323 203) XSPR_MASK PPC403 [RT],
    Opc ''mfdmacc1'' (XSPR 31 323 204) XSPR_MASK PPC403 [RT],
    Opc ''mfdmacr2'' (XSPR 31 323 208) XSPR_MASK PPC403 [RT],
    Opc ''mfdmact2'' (XSPR 31 323 209) XSPR_MASK PPC403 [RT],
    Opc ''mfdmada2'' (XSPR 31 323 210) XSPR_MASK PPC403 [RT],
    Opc ''mfdmasa2'' (XSPR 31 323 211) XSPR_MASK PPC403 [RT],
    Opc ''mfdmacc2'' (XSPR 31 323 212) XSPR_MASK PPC403 [RT],
    Opc ''mfdmacr3'' (XSPR 31 323 216) XSPR_MASK PPC403 [RT],
    Opc ''mfdmact3'' (XSPR 31 323 217) XSPR_MASK PPC403 [RT],
    Opc ''mfdmada3'' (XSPR 31 323 218) XSPR_MASK PPC403 [RT],
    Opc ''mfdmasa3'' (XSPR 31 323 219) XSPR_MASK PPC403 [RT],
    Opc ''mfdmacc3'' (XSPR 31 323 220) XSPR_MASK PPC403 [RT],
    Opc ''mfdmasr'' (XSPR 31 323 224) XSPR_MASK PPC403 [RT],
    Opc ''mfdcr'' (X 31 323) X_MASK (PPC403 OR PPC440 OR PPC450 OR BOOKE) [RT, SPR],
    Opc ''div'' (XO 31 331 0 0) XO_MASK M601 [RT, RA, RB],
    Opc ''div.'' (XO 31 331 0 1) XO_MASK M601 [RT, RA, RB],
    Opc ''divo'' (XO 31 331 1 0) XO_MASK M601 [RT, RA, RB],
    Opc ''divo.'' (XO 31 331 1 1) XO_MASK M601 [RT, RA, RB],
    Opc ''mfpmr'' (X 31 334) X_MASK PPCPMR [RT, PMR],
    Opc ''lfxdx'' (X 31 334) X_MASK PPCBGL [FRT, RA, RB],
    Opc ''mfmq'' (XSPR 31 339 0) XSPR_MASK M601 [RT],
    Opc ''mfxer'' (XSPR 31 339 1) XSPR_MASK COM [RT],
    Opc ''mfrtcu'' (XSPR 31 339 4) XSPR_MASK COM [RT],
    Opc ''mfrtcl'' (XSPR 31 339 5) XSPR_MASK COM [RT],
    Opc ''mfdec'' (XSPR 31 339 6) XSPR_MASK MFDEC1 [RT],
    Opc ''mfdec'' (XSPR 31 339 22) XSPR_MASK MFDEC2 [RT]]"

definition powerpc_opcodes_14 :: "powerpc_opcode list" where
  "powerpc_opcodes_14 =
   [Opc ''mflr'' (XSPR 31 339 8) XSPR_MASK COM [RT],
    Opc ''mfctr'' (XSPR 31 339 9) XSPR_MASK COM [RT],
    Opc ''mftid'' (XSPR 31 339 17) XSPR_MASK POWER [RT],
    Opc ''mfdsisr'' (XSPR 31 339 18) XSPR_MASK COM [RT],
    Opc ''mfdar'' (XSPR 31 339 19) XSPR_MASK COM [RT],
    Opc ''mfsdr0'' (XSPR 31 339 24) XSPR_MASK POWER [RT],
    Opc ''mfsdr1'' (XSPR 31 339 25) XSPR_MASK COM [RT],
    Opc ''mfsrr0'' (XSPR 31 339 26) XSPR_MASK COM [RT],
    Opc ''mfsrr1'' (XSPR 31 339 27) XSPR_MASK COM [RT],
    Opc ''mfpid'' (XSPR 31 339 48) XSPR_MASK (PPC440 OR BOOKE) [RT],
    Opc ''mfpid'' (XSPR 31 339 945) XSPR_MASK PPC403 [RT],
    Opc ''mfcsrr0'' (XSPR 31 339 58) XSPR_MASK (PPC440 OR BOOKE) [RT],
    Opc ''mfcsrr1'' (XSPR 31 339 59) XSPR_MASK (PPC440 OR BOOKE) [RT],
    Opc ''mfdear'' (XSPR 31 339 61) XSPR_MASK (PPC440 OR BOOKE) [RT],
    Opc ''mfdear'' (XSPR 31 339 981) XSPR_MASK PPC403 [RT],
    Opc ''mfesr'' (XSPR 31 339 62) XSPR_MASK (PPC440 OR BOOKE) [RT],
    Opc ''mfesr'' (XSPR 31 339 980) XSPR_MASK PPC403 [RT],
    Opc ''mfivpr'' (XSPR 31 339 63) XSPR_MASK (PPC440 OR BOOKE) [RT],
    Opc ''mfcmpa'' (XSPR 31 339 144) XSPR_MASK PPC860 [RT],
    Opc ''mfcmpb'' (XSPR 31 339 145) XSPR_MASK PPC860 [RT],
    Opc ''mfcmpc'' (XSPR 31 339 146) XSPR_MASK PPC860 [RT],
    Opc ''mfcmpd'' (XSPR 31 339 147) XSPR_MASK PPC860 [RT],
    Opc ''mficr'' (XSPR 31 339 148) XSPR_MASK PPC860 [RT],
    Opc ''mfder'' (XSPR 31 339 149) XSPR_MASK PPC860 [RT],
    Opc ''mfcounta'' (XSPR 31 339 150) XSPR_MASK PPC860 [RT],
    Opc ''mfcountb'' (XSPR 31 339 151) XSPR_MASK PPC860 [RT],
    Opc ''mfcmpe'' (XSPR 31 339 152) XSPR_MASK PPC860 [RT],
    Opc ''mfcmpf'' (XSPR 31 339 153) XSPR_MASK PPC860 [RT],
    Opc ''mfcmpg'' (XSPR 31 339 154) XSPR_MASK PPC860 [RT],
    Opc ''mfcmph'' (XSPR 31 339 155) XSPR_MASK PPC860 [RT],
    Opc ''mflctrl1'' (XSPR 31 339 156) XSPR_MASK PPC860 [RT],
    Opc ''mflctrl2'' (XSPR 31 339 157) XSPR_MASK PPC860 [RT],
    Opc ''mfictrl'' (XSPR 31 339 158) XSPR_MASK PPC860 [RT],
    Opc ''mfbar'' (XSPR 31 339 159) XSPR_MASK PPC860 [RT],
    Opc ''mfvrsave'' (XSPR 31 339 256) XSPR_MASK PPCVEC [RT],
    Opc ''mfusprg0'' (XSPR 31 339 256) XSPR_MASK (PPC440 OR BOOKE) [RT],
    Opc ''mftbl'' (XSPR 31 371 268) XSPR_MASK CLASSIC [RT],
    Opc ''mftbl'' (XSPR 31 339 268) XSPR_MASK BOOKE [RT],
    Opc ''mftbu'' (XSPR 31 371 269) XSPR_MASK CLASSIC [RT],
    Opc ''mfsprg'' (XSPR 31 339 256) XSPRG_MASK PPC [RT, SPRG],
    Opc ''mfsprg0'' (XSPR 31 339 272) XSPR_MASK PPC [RT],
    Opc ''mfsprg1'' (XSPR 31 339 273) XSPR_MASK PPC [RT],
    Opc ''mfsprg2'' (XSPR 31 339 274) XSPR_MASK PPC [RT],
    Opc ''mfsprg3'' (XSPR 31 339 275) XSPR_MASK PPC [RT],
    Opc ''mfsprg4'' (XSPR 31 339 260) XSPR_MASK (PPC405 OR PPC440 OR BOOKE) [RT],
    Opc ''mfsprg5'' (XSPR 31 339 261) XSPR_MASK (PPC405 OR PPC440 OR BOOKE) [RT],
    Opc ''mfsprg6'' (XSPR 31 339 262) XSPR_MASK (PPC405 OR PPC440 OR BOOKE) [RT],
    Opc ''mfsprg7'' (XSPR 31 339 263) XSPR_MASK (PPC405 OR PPC440 OR BOOKE) [RT],
    Opc ''mfasr'' (XSPR 31 339 280) XSPR_MASK PPC64 [RT],
    Opc ''mfear'' (XSPR 31 339 282) XSPR_MASK PPC [RT],
    Opc ''mfpir'' (XSPR 31 339 286) XSPR_MASK (PPC440 OR BOOKE) [RT],
    Opc ''mfpvr'' (XSPR 31 339 287) XSPR_MASK PPC [RT],
    Opc ''mfdbsr'' (XSPR 31 339 304) XSPR_MASK (PPC440 OR BOOKE) [RT],
    Opc ''mfdbsr'' (XSPR 31 339 1008) XSPR_MASK PPC403 [RT],
    Opc ''mfdbcr0'' (XSPR 31 339 308) XSPR_MASK (PPC440 OR BOOKE) [RT],
    Opc ''mfdbcr0'' (XSPR 31 339 1010) XSPR_MASK PPC405 [RT],
    Opc ''mfdbcr1'' (XSPR 31 339 309) XSPR_MASK (PPC440 OR BOOKE) [RT],
    Opc ''mfdbcr1'' (XSPR 31 339 957) XSPR_MASK PPC405 [RT],
    Opc ''mfdbcr2'' (XSPR 31 339 310) XSPR_MASK (PPC440 OR BOOKE) [RT],
    Opc ''mfiac1'' (XSPR 31 339 312) XSPR_MASK (PPC440 OR BOOKE) [RT],
    Opc ''mfiac1'' (XSPR 31 339 1012) XSPR_MASK PPC403 [RT],
    Opc ''mfiac2'' (XSPR 31 339 313) XSPR_MASK (PPC440 OR BOOKE) [RT],
    Opc ''mfiac2'' (XSPR 31 339 1013) XSPR_MASK PPC403 [RT],
    Opc ''mfiac3'' (XSPR 31 339 314) XSPR_MASK (PPC440 OR BOOKE) [RT],
    Opc ''mfiac3'' (XSPR 31 339 948) XSPR_MASK PPC405 [RT],
    Opc ''mfiac4'' (XSPR 31 339 315) XSPR_MASK (PPC440 OR BOOKE) [RT],
    Opc ''mfiac4'' (XSPR 31 339 949) XSPR_MASK PPC405 [RT],
    Opc ''mfdac1'' (XSPR 31 339 316) XSPR_MASK (PPC440 OR BOOKE) [RT],
    Opc ''mfdac1'' (XSPR 31 339 1014) XSPR_MASK PPC403 [RT],
    Opc ''mfdac2'' (XSPR 31 339 317) XSPR_MASK (PPC440 OR BOOKE) [RT],
    Opc ''mfdac2'' (XSPR 31 339 1015) XSPR_MASK PPC403 [RT],
    Opc ''mfdvc1'' (XSPR 31 339 318) XSPR_MASK (PPC440 OR BOOKE) [RT],
    Opc ''mfdvc1'' (XSPR 31 339 950) XSPR_MASK PPC405 [RT],
    Opc ''mfdvc2'' (XSPR 31 339 319) XSPR_MASK (PPC440 OR BOOKE) [RT],
    Opc ''mfdvc2'' (XSPR 31 339 951) XSPR_MASK PPC405 [RT],
    Opc ''mftsr'' (XSPR 31 339 336) XSPR_MASK (PPC440 OR BOOKE) [RT],
    Opc ''mftsr'' (XSPR 31 339 984) XSPR_MASK PPC403 [RT],
    Opc ''mftcr'' (XSPR 31 339 340) XSPR_MASK (PPC440 OR BOOKE) [RT],
    Opc ''mftcr'' (XSPR 31 339 986) XSPR_MASK PPC403 [RT],
    Opc ''mfivor0'' (XSPR 31 339 400) XSPR_MASK (PPC440 OR BOOKE) [RT],
    Opc ''mfivor1'' (XSPR 31 339 401) XSPR_MASK (PPC440 OR BOOKE) [RT],
    Opc ''mfivor2'' (XSPR 31 339 402) XSPR_MASK (PPC440 OR BOOKE) [RT],
    Opc ''mfivor3'' (XSPR 31 339 403) XSPR_MASK (PPC440 OR BOOKE) [RT],
    Opc ''mfivor4'' (XSPR 31 339 404) XSPR_MASK (PPC440 OR BOOKE) [RT],
    Opc ''mfivor5'' (XSPR 31 339 405) XSPR_MASK (PPC440 OR BOOKE) [RT],
    Opc ''mfivor6'' (XSPR 31 339 406) XSPR_MASK (PPC440 OR BOOKE) [RT],
    Opc ''mfivor7'' (XSPR 31 339 407) XSPR_MASK (PPC440 OR BOOKE) [RT],
    Opc ''mfivor8'' (XSPR 31 339 408) XSPR_MASK (PPC440 OR BOOKE) [RT],
    Opc ''mfivor9'' (XSPR 31 339 409) XSPR_MASK (PPC440 OR BOOKE) [RT],
    Opc ''mfivor10'' (XSPR 31 339 410) XSPR_MASK (PPC440 OR BOOKE) [RT],
    Opc ''mfivor11'' (XSPR 31 339 411) XSPR_MASK (PPC440 OR BOOKE) [RT],
    Opc ''mfivor12'' (XSPR 31 339 412) XSPR_MASK (PPC440 OR BOOKE) [RT],
    Opc ''mfivor13'' (XSPR 31 339 413) XSPR_MASK (PPC440 OR BOOKE) [RT],
    Opc ''mfivor14'' (XSPR 31 339 414) XSPR_MASK (PPC440 OR BOOKE) [RT],
    Opc ''mfivor15'' (XSPR 31 339 415) XSPR_MASK (PPC440 OR BOOKE) [RT],
    Opc ''mfspefscr'' (XSPR 31 339 512) XSPR_MASK PPCSPE [RT],
    Opc ''mfbbear'' (XSPR 31 339 513) XSPR_MASK PPCBRLK [RT],
    Opc ''mfbbtar'' (XSPR 31 339 514) XSPR_MASK PPCBRLK [RT],
    Opc ''mfivor32'' (XSPR 31 339 528) XSPR_MASK PPCSPE [RT],
    Opc ''mfivor33'' (XSPR 31 339 529) XSPR_MASK PPCSPE [RT],
    Opc ''mfivor34'' (XSPR 31 339 530) XSPR_MASK PPCSPE [RT],
    Opc ''mfivor35'' (XSPR 31 339 531) XSPR_MASK PPCPMR [RT],
    Opc ''mfibatu'' (XSPR 31 339 528) XSPRBAT_MASK PPC [RT, SPRBAT],
    Opc ''mfibatl'' (XSPR 31 339 529) XSPRBAT_MASK PPC [RT, SPRBAT],
    Opc ''mfdbatu'' (XSPR 31 339 536) XSPRBAT_MASK PPC [RT, SPRBAT],
    Opc ''mfdbatl'' (XSPR 31 339 537) XSPRBAT_MASK PPC [RT, SPRBAT],
    Opc ''mfic_cst'' (XSPR 31 339 560) XSPR_MASK PPC860 [RT],
    Opc ''mfic_adr'' (XSPR 31 339 561) XSPR_MASK PPC860 [RT],
    Opc ''mfic_dat'' (XSPR 31 339 562) XSPR_MASK PPC860 [RT],
    Opc ''mfdc_cst'' (XSPR 31 339 568) XSPR_MASK PPC860 [RT],
    Opc ''mfdc_adr'' (XSPR 31 339 569) XSPR_MASK PPC860 [RT],
    Opc ''mfmcsrr0'' (XSPR 31 339 570) XSPR_MASK PPCRFMCI [RT],
    Opc ''mfdc_dat'' (XSPR 31 339 570) XSPR_MASK PPC860 [RT],
    Opc ''mfmcsrr1'' (XSPR 31 339 571) XSPR_MASK PPCRFMCI [RT],
    Opc ''mfmcsr'' (XSPR 31 339 572) XSPR_MASK PPCRFMCI [RT],
    Opc ''mfmcar'' (XSPR 31 339 573) XSPR_MASK PPCRFMCI [RT],
    Opc ''mfdpdr'' (XSPR 31 339 630) XSPR_MASK PPC860 [RT],
    Opc ''mfdpir'' (XSPR 31 339 631) XSPR_MASK PPC860 [RT],
    Opc ''mfimmr'' (XSPR 31 339 638) XSPR_MASK PPC860 [RT],
    Opc ''mfmi_ctr'' (XSPR 31 339 784) XSPR_MASK PPC860 [RT],
    Opc ''mfmi_ap'' (XSPR 31 339 786) XSPR_MASK PPC860 [RT],
    Opc ''mfmi_epn'' (XSPR 31 339 787) XSPR_MASK PPC860 [RT],
    Opc ''mfmi_twc'' (XSPR 31 339 789) XSPR_MASK PPC860 [RT],
    Opc ''mfmi_rpn'' (XSPR 31 339 790) XSPR_MASK PPC860 [RT],
    Opc ''mfmd_ctr'' (XSPR 31 339 792) XSPR_MASK PPC860 [RT],
    Opc ''mfm_casid'' (XSPR 31 339 793) XSPR_MASK PPC860 [RT],
    Opc ''mfmd_ap'' (XSPR 31 339 794) XSPR_MASK PPC860 [RT],
    Opc ''mfmd_epn'' (XSPR 31 339 795) XSPR_MASK PPC860 [RT],
    Opc ''mfmd_twb'' (XSPR 31 339 796) XSPR_MASK PPC860 [RT],
    Opc ''mfmd_twc'' (XSPR 31 339 797) XSPR_MASK PPC860 [RT],
    Opc ''mfmd_rpn'' (XSPR 31 339 798) XSPR_MASK PPC860 [RT],
    Opc ''mfm_tw'' (XSPR 31 339 799) XSPR_MASK PPC860 [RT],
    Opc ''mfmi_dbcam'' (XSPR 31 339 816) XSPR_MASK PPC860 [RT],
    Opc ''mfmi_dbram0'' (XSPR 31 339 817) XSPR_MASK PPC860 [RT],
    Opc ''mfmi_dbram1'' (XSPR 31 339 818) XSPR_MASK PPC860 [RT],
    Opc ''mfmd_dbcam'' (XSPR 31 339 824) XSPR_MASK PPC860 [RT],
    Opc ''mfmd_dbram0'' (XSPR 31 339 825) XSPR_MASK PPC860 [RT],
    Opc ''mfmd_dbram1'' (XSPR 31 339 826) XSPR_MASK PPC860 [RT],
    Opc ''mfummcr0'' (XSPR 31 339 936) XSPR_MASK PPC750 [RT],
    Opc ''mfupmc1'' (XSPR 31 339 937) XSPR_MASK PPC750 [RT],
    Opc ''mfupmc2'' (XSPR 31 339 938) XSPR_MASK PPC750 [RT],
    Opc ''mfusia'' (XSPR 31 339 939) XSPR_MASK PPC750 [RT],
    Opc ''mfummcr1'' (XSPR 31 339 940) XSPR_MASK PPC750 [RT],
    Opc ''mfupmc3'' (XSPR 31 339 941) XSPR_MASK PPC750 [RT],
    Opc ''mfupmc4'' (XSPR 31 339 942) XSPR_MASK PPC750 [RT],
    Opc ''mfzpr'' (XSPR 31 339 944) XSPR_MASK PPC403 [RT],
    Opc ''mfmmucr'' (XSPR 31 339 946) XSPR_MASK PPC440 [RT],
    Opc ''mfccr0'' (XSPR 31 339 947) XSPR_MASK (PPC405 OR PPC440) [RT],
    Opc ''mfmmcr0'' (XSPR 31 339 952) XSPR_MASK PPC750 [RT],
    Opc ''mfpmc1'' (XSPR 31 339 953) XSPR_MASK PPC750 [RT]]"

definition powerpc_opcodes_15 :: "powerpc_opcode list" where
  "powerpc_opcodes_15 =
   [Opc ''mfsgr'' (XSPR 31 339 953) XSPR_MASK PPC403 [RT],
    Opc ''mfpmc2'' (XSPR 31 339 954) XSPR_MASK PPC750 [RT],
    Opc ''mfdcwr'' (XSPR 31 339 954) XSPR_MASK PPC403 [RT],
    Opc ''mfsia'' (XSPR 31 339 955) XSPR_MASK PPC750 [RT],
    Opc ''mfsler'' (XSPR 31 339 955) XSPR_MASK PPC405 [RT],
    Opc ''mfmmcr1'' (XSPR 31 339 956) XSPR_MASK PPC750 [RT],
    Opc ''mfsu0r'' (XSPR 31 339 956) XSPR_MASK PPC405 [RT],
    Opc ''mfpmc3'' (XSPR 31 339 957) XSPR_MASK PPC750 [RT],
    Opc ''mfpmc4'' (XSPR 31 339 958) XSPR_MASK PPC750 [RT],
    Opc ''mficdbdr'' (XSPR 31 339 979) XSPR_MASK PPC403 [RT],
    Opc ''mfevpr'' (XSPR 31 339 982) XSPR_MASK PPC403 [RT],
    Opc ''mfcdbcr'' (XSPR 31 339 983) XSPR_MASK PPC403 [RT],
    Opc ''mfpit'' (XSPR 31 339 987) XSPR_MASK PPC403 [RT],
    Opc ''mftbhi'' (XSPR 31 339 988) XSPR_MASK PPC403 [RT],
    Opc ''mftblo'' (XSPR 31 339 989) XSPR_MASK PPC403 [RT],
    Opc ''mfsrr2'' (XSPR 31 339 990) XSPR_MASK PPC403 [RT],
    Opc ''mfsrr3'' (XSPR 31 339 991) XSPR_MASK PPC403 [RT],
    Opc ''mfl2cr'' (XSPR 31 339 1017) XSPR_MASK PPC750 [RT],
    Opc ''mfdccr'' (XSPR 31 339 1018) XSPR_MASK PPC403 [RT],
    Opc ''mficcr'' (XSPR 31 339 1019) XSPR_MASK PPC403 [RT],
    Opc ''mfictc'' (XSPR 31 339 1019) XSPR_MASK PPC750 [RT],
    Opc ''mfpbl1'' (XSPR 31 339 1020) XSPR_MASK PPC403 [RT],
    Opc ''mfthrm1'' (XSPR 31 339 1020) XSPR_MASK PPC750 [RT],
    Opc ''mfpbu1'' (XSPR 31 339 1021) XSPR_MASK PPC403 [RT],
    Opc ''mfthrm2'' (XSPR 31 339 1021) XSPR_MASK PPC750 [RT],
    Opc ''mfpbl2'' (XSPR 31 339 1022) XSPR_MASK PPC403 [RT],
    Opc ''mfthrm3'' (XSPR 31 339 1022) XSPR_MASK PPC750 [RT],
    Opc ''mfpbu2'' (XSPR 31 339 1023) XSPR_MASK PPC403 [RT],
    Opc ''mfspr'' (X 31 339) X_MASK COM [RT, SPR],
    Opc ''mftb'' (XSPR 31 339 268) XSPR_MASK BOOKE [RT, TBR],
    Opc ''mftbu'' (XSPR 31 339 269) XSPR_MASK BOOKE [RT, TBR],
    Opc ''lwax'' (X 31 341) X_MASK PPC64 [RT, RA0, RB],
    Opc ''dst'' (XDSS 31 342 0) XDSS_MASK PPCVEC [RA, RB, STRM],
    Opc ''dstt'' (XDSS 31 342 1) XDSS_MASK PPCVEC [RA, RB, STRM],
    Opc ''lhax'' (X 31 343) X_MASK COM [RT, RA0, RB],
    Opc ''lhaxe'' (X 31 351) X_MASK BOOKE64 [RT, RA0, RB],
    Opc ''dstst'' (XDSS 31 374 0) XDSS_MASK PPCVEC [RA, RB, STRM],
    Opc ''dststt'' (XDSS 31 374 1) XDSS_MASK PPCVEC [RA, RB, STRM],
    Opc ''dccci'' (X 31 454) XRT_MASK (PPC403 OR PPC440) [RA, RB],
    Opc ''dci'' (X 31 454) XRARB_MASK POWERA2 [CT],
    Opc ''abs'' (XO 31 360 0 0) XORB_MASK M601 [RT, RA],
    Opc ''abs.'' (XO 31 360 0 1) XORB_MASK M601 [RT, RA],
    Opc ''abso'' (XO 31 360 1 0) XORB_MASK M601 [RT, RA],
    Opc ''abso.'' (XO 31 360 1 1) XORB_MASK M601 [RT, RA],
    Opc ''divs'' (XO 31 363 0 0) XO_MASK M601 [RT, RA, RB],
    Opc ''divs.'' (XO 31 363 0 1) XO_MASK M601 [RT, RA, RB],
    Opc ''divso'' (XO 31 363 1 0) XO_MASK M601 [RT, RA, RB],
    Opc ''lfxdux'' (X 31 366) X_MASK PPCBGL [FRT, RAS, RB],
    Opc ''divso.'' (XO 31 363 1 1) XO_MASK M601 [RT, RA, RB],
    Opc ''tlbia'' (X 31 370) 0xffffffff PPC [0],
    Opc ''lwaux'' (X 31 373) X_MASK PPC64 [RT, RAL, RB],
    Opc ''lhaux'' (X 31 375) X_MASK COM [RT, RAL, RB],
    Opc ''lhauxe'' (X 31 383) X_MASK BOOKE64 [RT, RAL, RB],
    Opc ''mtdcrx'' (X 31 387) X_MASK (BOOKE OR PPC450) [RA, RS],
    Opc ''dcblc'' (X 31 390) X_MASK PPCCHLK [CT, RA, RB],
    Opc ''subfe64'' (XO 31 392 0 0) XO_MASK BOOKE64 [RT, RA, RB],
    Opc ''subfe64o'' (XO 31 392 1 0) XO_MASK BOOKE64 [RT, RA, RB],
    Opc ''adde64'' (XO 31 394 0 0) XO_MASK BOOKE64 [RT, RA, RB],
    Opc ''adde64o'' (XO 31 394 1 0) XO_MASK BOOKE64 [RT, RA, RB],
    Opc ''dcblce'' (X 31 398) X_MASK PPCCHLK64 [CT, RA, RB],
    Opc ''slbmte'' (X 31 402) XRA_MASK PPC64 [RS, RB],
    Opc ''lfpsx'' (X 31 398) X_MASK PPCBGL [FRT, RA, RB],
    Opc ''sthx'' (X 31 407) X_MASK COM [RS, RA0, RB],
    Opc ''mtdcrux'' (X 31 419) X_MASK PPC450 [RA, RS],
    Opc ''lfqx'' (X 31 791) X_MASK POWER2 [FRT, RA, RB],
    Opc ''erativax'' (X 31 819) X_MASK POWERA2 [RS, RA, RB],
    Opc ''lfqux'' (X 31 823) X_MASK POWER2 [FRT, RA, RB],
    Opc ''stfqx'' (X 31 919) X_MASK POWER2 [FRS, RA, RB],
    Opc ''stfqux'' (X 31 951) X_MASK POWER2 [FRS, RA, RB],
    Opc ''orc'' (XRC 31 412 0) X_MASK COM [RA, RS, RB],
    Opc ''orc.'' (XRC 31 412 1) X_MASK COM [RA, RS, RB],
    Opc ''sradi'' (XS 31 413 0) XS_MASK PPC64 [RA, RS, SH6],
    Opc ''sradi.'' (XS 31 413 1) XS_MASK PPC64 [RA, RS, SH6],
    Opc ''sthxe'' (X 31 415) X_MASK BOOKE64 [RS, RA0, RB],
    Opc ''sthepx'' (X 31 415) X_MASK POWERA2 [RS, RA, RB],
    Opc ''lfpsux'' (X 31 430) X_MASK PPCBGL [FRT, RA, RB],
    Opc ''slbie'' (X 31 434) XRTRA_MASK PPC64 [RB],
    Opc ''ecowx'' (X 31 438) X_MASK PPC [RT, RA, RB],
    Opc ''sthux'' (X 31 439) X_MASK COM [RS, RAS, RB],
    Opc ''sthuxe'' (X 31 447) X_MASK BOOKE64 [RS, RAS, RB],
    Opc ''mr'' (XRC 31 444 0) X_MASK COM [RA, RS, RBS],
    Opc ''or'' (XRC 31 444 0) X_MASK COM [RA, RS, RB],
    Opc ''mr.'' (XRC 31 444 1) X_MASK COM [RA, RS, RBS],
    Opc ''or.'' (XRC 31 444 1) X_MASK COM [RA, RS, RB],
    Opc ''mtexisr'' (XSPR 31 451 64) XSPR_MASK PPC403 [RS],
    Opc ''mtexier'' (XSPR 31 451 66) XSPR_MASK PPC403 [RS],
    Opc ''mtbr0'' (XSPR 31 451 128) XSPR_MASK PPC403 [RS],
    Opc ''mtbr1'' (XSPR 31 451 129) XSPR_MASK PPC403 [RS],
    Opc ''mtbr2'' (XSPR 31 451 130) XSPR_MASK PPC403 [RS],
    Opc ''mtbr3'' (XSPR 31 451 131) XSPR_MASK PPC403 [RS],
    Opc ''mtbr4'' (XSPR 31 451 132) XSPR_MASK PPC403 [RS],
    Opc ''mtbr5'' (XSPR 31 451 133) XSPR_MASK PPC403 [RS],
    Opc ''mtbr6'' (XSPR 31 451 134) XSPR_MASK PPC403 [RS],
    Opc ''mtbr7'' (XSPR 31 451 135) XSPR_MASK PPC403 [RS],
    Opc ''mtbear'' (XSPR 31 451 144) XSPR_MASK PPC403 [RS],
    Opc ''mtbesr'' (XSPR 31 451 145) XSPR_MASK PPC403 [RS],
    Opc ''mtiocr'' (XSPR 31 451 160) XSPR_MASK PPC403 [RS],
    Opc ''mtdmacr0'' (XSPR 31 451 192) XSPR_MASK PPC403 [RS],
    Opc ''mtdmact0'' (XSPR 31 451 193) XSPR_MASK PPC403 [RS],
    Opc ''mtdmada0'' (XSPR 31 451 194) XSPR_MASK PPC403 [RS],
    Opc ''mtdmasa0'' (XSPR 31 451 195) XSPR_MASK PPC403 [RS],
    Opc ''mtdmacc0'' (XSPR 31 451 196) XSPR_MASK PPC403 [RS],
    Opc ''mtdmacr1'' (XSPR 31 451 200) XSPR_MASK PPC403 [RS],
    Opc ''mtdmact1'' (XSPR 31 451 201) XSPR_MASK PPC403 [RS],
    Opc ''mtdmada1'' (XSPR 31 451 202) XSPR_MASK PPC403 [RS],
    Opc ''mtdmasa1'' (XSPR 31 451 203) XSPR_MASK PPC403 [RS],
    Opc ''mtdmacc1'' (XSPR 31 451 204) XSPR_MASK PPC403 [RS],
    Opc ''mtdmacr2'' (XSPR 31 451 208) XSPR_MASK PPC403 [RS],
    Opc ''mtdmact2'' (XSPR 31 451 209) XSPR_MASK PPC403 [RS],
    Opc ''mtdmada2'' (XSPR 31 451 210) XSPR_MASK PPC403 [RS],
    Opc ''mtdmasa2'' (XSPR 31 451 211) XSPR_MASK PPC403 [RS],
    Opc ''mtdmacc2'' (XSPR 31 451 212) XSPR_MASK PPC403 [RS]]"

definition powerpc_opcodes_16 :: "powerpc_opcode list" where
  "powerpc_opcodes_16 =
   [Opc ''mtdmacr3'' (XSPR 31 451 216) XSPR_MASK PPC403 [RS],
    Opc ''mtdmact3'' (XSPR 31 451 217) XSPR_MASK PPC403 [RS],
    Opc ''mtdmada3'' (XSPR 31 451 218) XSPR_MASK PPC403 [RS],
    Opc ''mtdmasa3'' (XSPR 31 451 219) XSPR_MASK PPC403 [RS],
    Opc ''mtdmacc3'' (XSPR 31 451 220) XSPR_MASK PPC403 [RS],
    Opc ''mtdmasr'' (XSPR 31 451 224) XSPR_MASK PPC403 [RS],
    Opc ''mtdcr'' (X 31 451) X_MASK (PPC403 OR PPC440 OR PPC450 OR BOOKE) [SPR, RS],
    Opc ''subfze64'' (XO 31 456 0 0) XORB_MASK BOOKE64 [RT, RA],
    Opc ''subfze64o'' (XO 31 456 1 0) XORB_MASK BOOKE64 [RT, RA],
    Opc ''divdu'' (XO 31 457 0 0) XO_MASK PPC64 [RT, RA, RB],
    Opc ''divdu.'' (XO 31 457 0 1) XO_MASK PPC64 [RT, RA, RB],
    Opc ''divduo'' (XO 31 457 1 0) XO_MASK PPC64 [RT, RA, RB],
    Opc ''divduo.'' (XO 31 457 1 1) XO_MASK PPC64 [RT, RA, RB],
    Opc ''addze64'' (XO 31 458 0 0) XORB_MASK BOOKE64 [RT, RA],
    Opc ''addze64o'' (XO 31 458 1 0) XORB_MASK BOOKE64 [RT, RA],
    Opc ''divwu'' (XO 31 459 0 0) XO_MASK PPC [RT, RA, RB],
    Opc ''divwu.'' (XO 31 459 0 1) XO_MASK PPC [RT, RA, RB],
    Opc ''divwuo'' (XO 31 459 1 0) XO_MASK PPC [RT, RA, RB],
    Opc ''divwuo.'' (XO 31 459 1 1) XO_MASK PPC [RT, RA, RB],
    Opc ''lfpdx'' (X 31 462) X_MASK PPCBGL [FRT, RA, RB],
    Opc ''mtmq'' (XSPR 31 467 0) XSPR_MASK M601 [RS],
    Opc ''mtxer'' (XSPR 31 467 1) XSPR_MASK COM [RS],
    Opc ''mtlr'' (XSPR 31 467 8) XSPR_MASK COM [RS],
    Opc ''mtctr'' (XSPR 31 467 9) XSPR_MASK COM [RS],
    Opc ''mttid'' (XSPR 31 467 17) XSPR_MASK POWER [RS],
    Opc ''mtdsisr'' (XSPR 31 467 18) XSPR_MASK COM [RS],
    Opc ''mtdar'' (XSPR 31 467 19) XSPR_MASK COM [RS],
    Opc ''mtrtcu'' (XSPR 31 467 20) XSPR_MASK COM [RS],
    Opc ''mtrtcl'' (XSPR 31 467 21) XSPR_MASK COM [RS],
    Opc ''mtdec'' (XSPR 31 467 22) XSPR_MASK COM [RS],
    Opc ''mtsdr0'' (XSPR 31 467 24) XSPR_MASK POWER [RS],
    Opc ''mtsdr1'' (XSPR 31 467 25) XSPR_MASK COM [RS],
    Opc ''mtsrr0'' (XSPR 31 467 26) XSPR_MASK COM [RS],
    Opc ''mtsrr1'' (XSPR 31 467 27) XSPR_MASK COM [RS],
    Opc ''mtpid'' (XSPR 31 467 48) XSPR_MASK (PPC440 OR BOOKE) [RS],
    Opc ''mtpid'' (XSPR 31 467 945) XSPR_MASK PPC403 [RS],
    Opc ''mtdecar'' (XSPR 31 467 54) XSPR_MASK (PPC440 OR BOOKE) [RS],
    Opc ''mtcsrr0'' (XSPR 31 467 58) XSPR_MASK (PPC440 OR BOOKE) [RS],
    Opc ''mtcsrr1'' (XSPR 31 467 59) XSPR_MASK (PPC440 OR BOOKE) [RS],
    Opc ''mtdear'' (XSPR 31 467 61) XSPR_MASK (PPC440 OR BOOKE) [RS],
    Opc ''mtdear'' (XSPR 31 467 981) XSPR_MASK PPC403 [RS],
    Opc ''mtesr'' (XSPR 31 467 62) XSPR_MASK (PPC440 OR BOOKE) [RS],
    Opc ''mtesr'' (XSPR 31 467 980) XSPR_MASK PPC403 [RS],
    Opc ''mtivpr'' (XSPR 31 467 63) XSPR_MASK (PPC440 OR BOOKE) [RS],
    Opc ''mtcmpa'' (XSPR 31 467 144) XSPR_MASK PPC860 [RS],
    Opc ''mtcmpb'' (XSPR 31 467 145) XSPR_MASK PPC860 [RS],
    Opc ''mtcmpc'' (XSPR 31 467 146) XSPR_MASK PPC860 [RS],
    Opc ''mtcmpd'' (XSPR 31 467 147) XSPR_MASK PPC860 [RS],
    Opc ''mticr'' (XSPR 31 467 148) XSPR_MASK PPC860 [RS],
    Opc ''mtder'' (XSPR 31 467 149) XSPR_MASK PPC860 [RS],
    Opc ''mtcounta'' (XSPR 31 467 150) XSPR_MASK PPC860 [RS],
    Opc ''mtcountb'' (XSPR 31 467 151) XSPR_MASK PPC860 [RS],
    Opc ''mtcmpe'' (XSPR 31 467 152) XSPR_MASK PPC860 [RS],
    Opc ''mtcmpf'' (XSPR 31 467 153) XSPR_MASK PPC860 [RS],
    Opc ''mtcmpg'' (XSPR 31 467 154) XSPR_MASK PPC860 [RS],
    Opc ''mtcmph'' (XSPR 31 467 155) XSPR_MASK PPC860 [RS],
    Opc ''mtlctrl1'' (XSPR 31 467 156) XSPR_MASK PPC860 [RS],
    Opc ''mtlctrl2'' (XSPR 31 467 157) XSPR_MASK PPC860 [RS],
    Opc ''mtictrl'' (XSPR 31 467 158) XSPR_MASK PPC860 [RS],
    Opc ''mtbar'' (XSPR 31 467 159) XSPR_MASK PPC860 [RS],
    Opc ''mtvrsave'' (XSPR 31 467 256) XSPR_MASK PPCVEC [RS],
    Opc ''mtusprg0'' (XSPR 31 467 256) XSPR_MASK (PPC440 OR BOOKE) [RS],
    Opc ''mtsprg'' (XSPR 31 467 256) XSPRG_MASK PPC [SPRG, RS],
    Opc ''mtsprg0'' (XSPR 31 467 272) XSPR_MASK PPC [RS],
    Opc ''mtsprg1'' (XSPR 31 467 273) XSPR_MASK PPC [RS],
    Opc ''mtsprg2'' (XSPR 31 467 274) XSPR_MASK PPC [RS],
    Opc ''mtsprg3'' (XSPR 31 467 275) XSPR_MASK PPC [RS],
    Opc ''mtsprg4'' (XSPR 31 467 276) XSPR_MASK (PPC405 OR PPC440 OR BOOKE) [RS],
    Opc ''mtsprg5'' (XSPR 31 467 277) XSPR_MASK (PPC405 OR PPC440 OR BOOKE) [RS],
    Opc ''mtsprg6'' (XSPR 31 467 278) XSPR_MASK (PPC405 OR PPC440 OR BOOKE) [RS],
    Opc ''mtsprg7'' (XSPR 31 467 279) XSPR_MASK (PPC405 OR PPC440 OR BOOKE) [RS],
    Opc ''mtasr'' (XSPR 31 467 280) XSPR_MASK PPC64 [RS],
    Opc ''mtear'' (XSPR 31 467 282) XSPR_MASK PPC [RS],
    Opc ''mttbl'' (XSPR 31 467 284) XSPR_MASK PPC [RS],
    Opc ''mttbu'' (XSPR 31 467 285) XSPR_MASK PPC [RS],
    Opc ''mtdbsr'' (XSPR 31 467 304) XSPR_MASK (PPC440 OR BOOKE) [RS],
    Opc ''mtdbsr'' (XSPR 31 467 1008) XSPR_MASK PPC403 [RS],
    Opc ''mtdbcr0'' (XSPR 31 467 308) XSPR_MASK (PPC440 OR BOOKE) [RS],
    Opc ''mtdbcr0'' (XSPR 31 467 1010) XSPR_MASK PPC405 [RS],
    Opc ''mtdbcr1'' (XSPR 31 467 309) XSPR_MASK (PPC440 OR BOOKE) [RS],
    Opc ''mtdbcr1'' (XSPR 31 467 957) XSPR_MASK PPC405 [RS],
    Opc ''mtdbcr2'' (XSPR 31 467 310) XSPR_MASK (PPC440 OR BOOKE) [RS],
    Opc ''mtiac1'' (XSPR 31 467 312) XSPR_MASK (PPC440 OR BOOKE) [RS],
    Opc ''mtiac1'' (XSPR 31 467 1012) XSPR_MASK PPC403 [RS],
    Opc ''mtiac2'' (XSPR 31 467 313) XSPR_MASK (PPC440 OR BOOKE) [RS],
    Opc ''mtiac2'' (XSPR 31 467 1013) XSPR_MASK PPC403 [RS],
    Opc ''mtiac3'' (XSPR 31 467 314) XSPR_MASK (PPC440 OR BOOKE) [RS],
    Opc ''mtiac3'' (XSPR 31 467 948) XSPR_MASK PPC405 [RS],
    Opc ''mtiac4'' (XSPR 31 467 315) XSPR_MASK (PPC440 OR BOOKE) [RS],
    Opc ''mtiac4'' (XSPR 31 467 949) XSPR_MASK PPC405 [RS],
    Opc ''mtdac1'' (XSPR 31 467 316) XSPR_MASK (PPC440 OR BOOKE) [RS],
    Opc ''mtdac1'' (XSPR 31 467 1014) XSPR_MASK PPC403 [RS],
    Opc ''mtdac2'' (XSPR 31 467 317) XSPR_MASK (PPC440 OR BOOKE) [RS],
    Opc ''mtdac2'' (XSPR 31 467 1015) XSPR_MASK PPC403 [RS],
    Opc ''mtdvc1'' (XSPR 31 467 318) XSPR_MASK (PPC440 OR BOOKE) [RS],
    Opc ''mtdvc1'' (XSPR 31 467 950) XSPR_MASK PPC405 [RS],
    Opc ''mtdvc2'' (XSPR 31 467 319) XSPR_MASK (PPC440 OR BOOKE) [RS],
    Opc ''mtdvc2'' (XSPR 31 467 951) XSPR_MASK PPC405 [RS],
    Opc ''mttsr'' (XSPR 31 467 336) XSPR_MASK (PPC440 OR BOOKE) [RS],
    Opc ''mttsr'' (XSPR 31 467 984) XSPR_MASK PPC403 [RS],
    Opc ''mttcr'' (XSPR 31 467 340) XSPR_MASK (PPC440 OR BOOKE) [RS],
    Opc ''mttcr'' (XSPR 31 467 986) XSPR_MASK PPC403 [RS],
    Opc ''mtivor0'' (XSPR 31 467 400) XSPR_MASK (PPC440 OR BOOKE) [RS],
    Opc ''mtivor1'' (XSPR 31 467 401) XSPR_MASK (PPC440 OR BOOKE) [RS],
    Opc ''mtivor2'' (XSPR 31 467 402) XSPR_MASK (PPC440 OR BOOKE) [RS],
    Opc ''mtivor3'' (XSPR 31 467 403) XSPR_MASK (PPC440 OR BOOKE) [RS],
    Opc ''mtivor4'' (XSPR 31 467 404) XSPR_MASK (PPC440 OR BOOKE) [RS],
    Opc ''mtivor5'' (XSPR 31 467 405) XSPR_MASK (PPC440 OR BOOKE) [RS],
    Opc ''mtivor6'' (XSPR 31 467 406) XSPR_MASK (PPC440 OR BOOKE) [RS],
    Opc ''mtivor7'' (XSPR 31 467 407) XSPR_MASK (PPC440 OR BOOKE) [RS],
    Opc ''mtivor8'' (XSPR 31 467 408) XSPR_MASK (PPC440 OR BOOKE) [RS],
    Opc ''mtivor9'' (XSPR 31 467 409) XSPR_MASK (PPC440 OR BOOKE) [RS],
    Opc ''mtivor10'' (XSPR 31 467 410) XSPR_MASK (PPC440 OR BOOKE) [RS],
    Opc ''mtivor11'' (XSPR 31 467 411) XSPR_MASK (PPC440 OR BOOKE) [RS],
    Opc ''mtivor12'' (XSPR 31 467 412) XSPR_MASK (PPC440 OR BOOKE) [RS],
    Opc ''mtivor13'' (XSPR 31 467 413) XSPR_MASK (PPC440 OR BOOKE) [RS],
    Opc ''mtivor14'' (XSPR 31 467 414) XSPR_MASK (PPC440 OR BOOKE) [RS],
    Opc ''mtivor15'' (XSPR 31 467 415) XSPR_MASK (PPC440 OR BOOKE) [RS],
    Opc ''mtspefscr'' (XSPR 31 467 512) XSPR_MASK PPCSPE [RS],
    Opc ''mtbbear'' (XSPR 31 467 513) XSPR_MASK PPCBRLK [RS],
    Opc ''mtbbtar'' (XSPR 31 467 514) XSPR_MASK PPCBRLK [RS],
    Opc ''mtivor32'' (XSPR 31 467 528) XSPR_MASK PPCSPE [RS],
    Opc ''mtivor33'' (XSPR 31 467 529) XSPR_MASK PPCSPE [RS],
    Opc ''mtivor34'' (XSPR 31 467 530) XSPR_MASK PPCSPE [RS],
    Opc ''mtivor35'' (XSPR 31 467 531) XSPR_MASK PPCPMR [RS],
    Opc ''mtibatu'' (XSPR 31 467 528) XSPRBAT_MASK PPC [SPRBAT, RS],
    Opc ''mtibatl'' (XSPR 31 467 529) XSPRBAT_MASK PPC [SPRBAT, RS],
    Opc ''mtdbatu'' (XSPR 31 467 536) XSPRBAT_MASK PPC [SPRBAT, RS],
    Opc ''mtdbatl'' (XSPR 31 467 537) XSPRBAT_MASK PPC [SPRBAT, RS],
    Opc ''mtmcsrr0'' (XSPR 31 467 570) XSPR_MASK PPCRFMCI [RS],
    Opc ''mtmcsrr1'' (XSPR 31 467 571) XSPR_MASK PPCRFMCI [RS],
    Opc ''mtmcsr'' (XSPR 31 467 572) XSPR_MASK PPCRFMCI [RS],
    Opc ''mtummcr0'' (XSPR 31 467 936) XSPR_MASK PPC750 [RS],
    Opc ''mtupmc1'' (XSPR 31 467 937) XSPR_MASK PPC750 [RS],
    Opc ''mtupmc2'' (XSPR 31 467 938) XSPR_MASK PPC750 [RS],
    Opc ''mtusia'' (XSPR 31 467 939) XSPR_MASK PPC750 [RS],
    Opc ''mtummcr1'' (XSPR 31 467 940) XSPR_MASK PPC750 [RS],
    Opc ''mtupmc3'' (XSPR 31 467 941) XSPR_MASK PPC750 [RS],
    Opc ''mtupmc4'' (XSPR 31 467 942) XSPR_MASK PPC750 [RS],
    Opc ''mtzpr'' (XSPR 31 467 944) XSPR_MASK PPC403 [RS],
    Opc ''mtccr0'' (XSPR 31 467 947) XSPR_MASK (PPC440 OR PPC405) [RS],
    Opc ''mtmmcr0'' (XSPR 31 467 952) XSPR_MASK PPC750 [RS],
    Opc ''mtsgr'' (XSPR 31 467 953) XSPR_MASK PPC403 [RS],
    Opc ''mtpmc1'' (XSPR 31 467 953) XSPR_MASK PPC750 [RS]]"

definition powerpc_opcodes_17 :: "powerpc_opcode list" where
  "powerpc_opcodes_17 =
   [Opc ''mtdcwr'' (XSPR 31 467 954) XSPR_MASK PPC403 [RS],
    Opc ''mtpmc2'' (XSPR 31 467 954) XSPR_MASK PPC750 [RS],
    Opc ''mtsler'' (XSPR 31 467 955) XSPR_MASK PPC405 [RS],
    Opc ''mtsia'' (XSPR 31 467 955) XSPR_MASK PPC750 [RS],
    Opc ''mtsu0r'' (XSPR 31 467 956) XSPR_MASK PPC405 [RS],
    Opc ''mtmmcr1'' (XSPR 31 467 956) XSPR_MASK PPC750 [RS],
    Opc ''mtpmc3'' (XSPR 31 467 957) XSPR_MASK PPC750 [RS],
    Opc ''mtpmc4'' (XSPR 31 467 958) XSPR_MASK PPC750 [RS],
    Opc ''mticdbdr'' (XSPR 31 467 979) XSPR_MASK PPC403 [RS],
    Opc ''mtevpr'' (XSPR 31 467 982) XSPR_MASK PPC403 [RS],
    Opc ''mtcdbcr'' (XSPR 31 467 983) XSPR_MASK PPC403 [RS],
    Opc ''mtpit'' (XSPR 31 467 987) XSPR_MASK PPC403 [RS],
    Opc ''mttbhi'' (XSPR 31 467 988) XSPR_MASK PPC403 [RS],
    Opc ''mttblo'' (XSPR 31 467 989) XSPR_MASK PPC403 [RS],
    Opc ''mtsrr2'' (XSPR 31 467 990) XSPR_MASK PPC403 [RS],
    Opc ''mtsrr3'' (XSPR 31 467 991) XSPR_MASK PPC403 [RS],
    Opc ''mtl2cr'' (XSPR 31 467 1017) XSPR_MASK PPC750 [RS],
    Opc ''mtdccr'' (XSPR 31 467 1018) XSPR_MASK PPC403 [RS],
    Opc ''mticcr'' (XSPR 31 467 1019) XSPR_MASK PPC403 [RS],
    Opc ''mtictc'' (XSPR 31 467 1019) XSPR_MASK PPC750 [RS],
    Opc ''mtpbl1'' (XSPR 31 467 1020) XSPR_MASK PPC403 [RS],
    Opc ''mtthrm1'' (XSPR 31 467 1020) XSPR_MASK PPC750 [RS],
    Opc ''mtpbu1'' (XSPR 31 467 1021) XSPR_MASK PPC403 [RS],
    Opc ''mtthrm2'' (XSPR 31 467 1021) XSPR_MASK PPC750 [RS],
    Opc ''mtpbl2'' (XSPR 31 467 1022) XSPR_MASK PPC403 [RS],
    Opc ''mtthrm3'' (XSPR 31 467 1022) XSPR_MASK PPC750 [RS],
    Opc ''mtpbu2'' (XSPR 31 467 1023) XSPR_MASK PPC403 [RS],
    Opc ''mtspr'' (X 31 467) X_MASK COM [SPR, RS],
    Opc ''dcbi'' (X 31 470) XRT_MASK PPC [RA, RB],
    Opc ''nand'' (XRC 31 476 0) X_MASK COM [RA, RS, RB],
    Opc ''nand.'' (XRC 31 476 1) X_MASK COM [RA, RS, RB],
    Opc ''dcbie'' (X 31 478) XRT_MASK BOOKE64 [RA, RB],
    Opc ''dcread'' (X 31 486) X_MASK (PPC403 OR PPC440) [RT, RA, RB],
    Opc ''mtpmr'' (X 31 462) X_MASK PPCPMR [PMR, RS],
    Opc ''icbtls'' (X 31 486) X_MASK PPCCHLK [CT, RA, RB],
    Opc ''nabs'' (XO 31 488 0 0) XORB_MASK M601 [RT, RA],
    Opc ''subfme64'' (XO 31 488 0 0) XORB_MASK BOOKE64 [RT, RA],
    Opc ''nabs.'' (XO 31 488 0 1) XORB_MASK M601 [RT, RA],
    Opc ''nabso'' (XO 31 488 1 0) XORB_MASK M601 [RT, RA],
    Opc ''subfme64o'' (XO 31 488 1 0) XORB_MASK BOOKE64 [RT, RA],
    Opc ''nabso.'' (XO 31 488 1 1) XORB_MASK M601 [RT, RA],
    Opc ''divd'' (XO 31 489 0 0) XO_MASK PPC64 [RT, RA, RB],
    Opc ''divd.'' (XO 31 489 0 1) XO_MASK PPC64 [RT, RA, RB],
    Opc ''divdo'' (XO 31 489 1 0) XO_MASK PPC64 [RT, RA, RB],
    Opc ''divdo.'' (XO 31 489 1 1) XO_MASK PPC64 [RT, RA, RB],
    Opc ''addme64'' (XO 31 490 0 0) XORB_MASK BOOKE64 [RT, RA],
    Opc ''addme64o'' (XO 31 490 1 0) XORB_MASK BOOKE64 [RT, RA],
    Opc ''divw'' (XO 31 491 0 0) XO_MASK PPC [RT, RA, RB],
    Opc ''divw.'' (XO 31 491 0 1) XO_MASK PPC [RT, RA, RB],
    Opc ''divwo'' (XO 31 491 1 0) XO_MASK PPC [RT, RA, RB],
    Opc ''divwo.'' (XO 31 491 1 1) XO_MASK PPC [RT, RA, RB],
    Opc ''icbtlse'' (X 31 494) X_MASK PPCCHLK64 [CT, RA, RB],
    Opc ''lfpdux'' (X 31 494) X_MASK PPCBGL [FRT, RAS, RB],
    Opc ''slbia'' (X 31 498) 0xffffffff PPC64 [0],
    Opc ''cli'' (X 31 502) XRB_MASK POWER [RT, RA],
    Opc ''cmpb'' (X 31 508) XCMP_MASK POWERA2 [RA, RS, RB],
    Opc ''stdcxe.'' (XRC 31 511 1) X_MASK BOOKE64 [RS, RA, RB],
    Opc ''mcrxr'' (X 31 512) (XRARB_MASK OR (push_bit 21 3)) COM [BF],
    Opc ''bblels'' (X 31 518) X_MASK PPCBRLK [0],
    Opc ''stfpiwx'' (X 31 526) X_MASK PPCBGL [FRT, RA, RB],
    Opc ''mcrxr64'' (X 31 544) (XRARB_MASK OR (push_bit 21 3)) BOOKE64 [BF],
    Opc ''clcs'' (X 31 531) XRB_MASK M601 [RT, RA],
    Opc ''ldbrx'' (X 31 532) X_MASK POWERA2 [RT, RA0, RB],
    Opc ''lswx'' (X 31 533) X_MASK PPCCOM [RT, RA0, RB],
    Opc ''lsx'' (X 31 533) X_MASK PWRCOM [RT, RA, RB],
    Opc ''lwbrx'' (X 31 534) X_MASK PPCCOM [RT, RA0, RB],
    Opc ''lbrx'' (X 31 534) X_MASK PWRCOM [RT, RA, RB],
    Opc ''lfsx'' (X 31 535) X_MASK COM [FRT, RA0, RB],
    Opc ''srw'' (XRC 31 536 0) X_MASK PPCCOM [RA, RS, RB],
    Opc ''sr'' (XRC 31 536 0) X_MASK PWRCOM [RA, RS, RB],
    Opc ''srw.'' (XRC 31 536 1) X_MASK PPCCOM [RA, RS, RB],
    Opc ''sr.'' (XRC 31 536 1) X_MASK PWRCOM [RA, RS, RB],
    Opc ''rrib'' (XRC 31 537 0) X_MASK M601 [RA, RS, RB],
    Opc ''rrib.'' (XRC 31 537 1) X_MASK M601 [RA, RS, RB],
    Opc ''srd'' (XRC 31 539 0) X_MASK PPC64 [RA, RS, RB],
    Opc ''srd.'' (XRC 31 539 1) X_MASK PPC64 [RA, RS, RB],
    Opc ''maskir'' (XRC 31 541 0) X_MASK M601 [RA, RS, RB],
    Opc ''maskir.'' (XRC 31 541 1) X_MASK M601 [RA, RS, RB],
    Opc ''lwbrxe'' (X 31 542) X_MASK BOOKE64 [RT, RA0, RB],
    Opc ''lfsxe'' (X 31 543) X_MASK BOOKE64 [FRT, RA0, RB],
    Opc ''bbelr'' (X 31 550) X_MASK PPCBRLK [0],
    Opc ''tlbsync'' (X 31 566) 0xffffffff PPC [0],
    Opc ''lfsux'' (X 31 567) X_MASK COM [FRT, RAS, RB],
    Opc ''lfsuxe'' (X 31 575) X_MASK BOOKE64 [FRT, RAS, RB],
    Opc ''mfsr'' (X 31 595) (XRB_MASK OR (push_bit 20 1)) COM32 [RT, SR],
    Opc ''lswi'' (X 31 597) X_MASK PPCCOM [RT, RA0, NB],
    Opc ''lsi'' (X 31 597) X_MASK PWRCOM [RT, RA0, NB],
    Opc ''lwsync'' (XSYNC 31 598 1) 0xffffffff PPC [0],
    Opc ''ptesync'' (XSYNC 31 598 2) 0xffffffff PPC64 [0],
    Opc ''msync'' (X 31 598) 0xffffffff (PPC440 OR BOOKE) [0],
    Opc ''sync'' (X 31 598) XSYNC_MASK PPCCOM [LS],
    Opc ''dcs'' (X 31 598) 0xffffffff PWRCOM [0],
    Opc ''lfdx'' (X 31 599) X_MASK COM [FRT, RA0, RB],
    Opc ''lfdxe'' (X 31 607) X_MASK BOOKE64 [FRT, RA0, RB],
    Opc ''mfsri'' (X 31 627) X_MASK PWRCOM [RT, RA, RB],
    Opc ''dclst'' (X 31 630) XRB_MASK PWRCOM [RS, RA],
    Opc ''lfdux'' (X 31 631) X_MASK COM [FRT, RAS, RB],
    Opc ''lfduxe'' (X 31 639) X_MASK BOOKE64 [FRT, RAS, RB],
    Opc ''stfssx'' (X 31 654) X_MASK PPCBGL [FRT, RA, RB],
    Opc ''mfsrin'' (X 31 659) XRA_MASK PPC32 [RT, RB],
    Opc ''stdbrx'' (X 31 660) X_MASK POWERA2 [RS, RA0, RB],
    Opc ''stswx'' (X 31 661) X_MASK PPCCOM [RS, RA0, RB],
    Opc ''stsx'' (X 31 661) X_MASK PWRCOM [RS, RA0, RB]]"

definition powerpc_opcodes_18 :: "powerpc_opcode list" where
  "powerpc_opcodes_18 =
   [Opc ''stwbrx'' (X 31 662) X_MASK PPCCOM [RS, RA0, RB],
    Opc ''stbrx'' (X 31 662) X_MASK PWRCOM [RS, RA0, RB],
    Opc ''stfsx'' (X 31 663) X_MASK COM [FRS, RA0, RB],
    Opc ''srq'' (XRC 31 664 0) X_MASK M601 [RA, RS, RB],
    Opc ''srq.'' (XRC 31 664 1) X_MASK M601 [RA, RS, RB],
    Opc ''sre'' (XRC 31 665 0) X_MASK M601 [RA, RS, RB],
    Opc ''sre.'' (XRC 31 665 1) X_MASK M601 [RA, RS, RB],
    Opc ''stwbrxe'' (X 31 670) X_MASK BOOKE64 [RS, RA0, RB],
    Opc ''stfsxe'' (X 31 671) X_MASK BOOKE64 [FRS, RA0, RB],
    Opc ''stfsux'' (X 31 695) X_MASK COM [FRS, RAS, RB],
    Opc ''sriq'' (XRC 31 696 0) X_MASK M601 [RA, RS, SH],
    Opc ''sriq.'' (XRC 31 696 1) X_MASK M601 [RA, RS, SH],
    Opc ''stfsuxe'' (X 31 703) X_MASK BOOKE64 [FRS, RAS, RB],
    Opc ''stfsdx'' (X 31 718) X_MASK PPCBGL [FRT, RA, RB],
    Opc ''stswi'' (X 31 725) X_MASK PPCCOM [RS, RA0, NB],
    Opc ''stsi'' (X 31 725) X_MASK PWRCOM [RS, RA0, NB],
    Opc ''stfdx'' (X 31 727) X_MASK COM [FRS, RA0, RB],
    Opc ''srlq'' (XRC 31 728 0) X_MASK M601 [RA, RS, RB],
    Opc ''srlq.'' (XRC 31 728 1) X_MASK M601 [RA, RS, RB],
    Opc ''sreq'' (XRC 31 729 0) X_MASK M601 [RA, RS, RB],
    Opc ''sreq.'' (XRC 31 729 1) X_MASK M601 [RA, RS, RB],
    Opc ''stfdxe'' (X 31 735) X_MASK BOOKE64 [FRS, RA0, RB],
    Opc ''stfsdux'' (X 31 750) X_MASK PPCBGL [FRT, RAS, RB],
    Opc ''dcba'' (X 31 758) XRT_MASK (PPC405 OR PPC440 OR BOOKE) [RA, RB],
    Opc ''stfdux'' (X 31 759) X_MASK COM [FRS, RAS, RB],
    Opc ''srliq'' (XRC 31 760 0) X_MASK M601 [RA, RS, SH],
    Opc ''srliq.'' (XRC 31 760 1) X_MASK M601 [RA, RS, SH],
    Opc ''dcbae'' (X 31 766) XRT_MASK BOOKE64 [RA, RB],
    Opc ''stfduxe'' (X 31 767) X_MASK BOOKE64 [FRS, RAS, RB],
    Opc ''stfxsx'' (X 31 782) X_MASK PPCBGL [FRT, RA, RB],
    Opc ''tlbivax'' (X 31 786) XRT_MASK BOOKE [RA, RB],
    Opc ''tlbivaxe'' (X 31 787) XRT_MASK BOOKE64 [RA, RB],
    Opc ''lhbrx'' (X 31 790) X_MASK COM [RT, RA0, RB],
    Opc ''sraw'' (XRC 31 792 0) X_MASK PPCCOM [RA, RS, RB],
    Opc ''sra'' (XRC 31 792 0) X_MASK PWRCOM [RA, RS, RB],
    Opc ''sraw.'' (XRC 31 792 1) X_MASK PPCCOM [RA, RS, RB],
    Opc ''sra.'' (XRC 31 792 1) X_MASK PWRCOM [RA, RS, RB],
    Opc ''srad'' (XRC 31 794 0) X_MASK PPC64 [RA, RS, RB],
    Opc ''srad.'' (XRC 31 794 1) X_MASK PPC64 [RA, RS, RB],
    Opc ''lhbrxe'' (X 31 798) X_MASK BOOKE64 [RT, RA0, RB],
    Opc ''ldxe'' (X 31 799) X_MASK BOOKE64 [RT, RA0, RB],
    Opc ''stfxsux'' (X 31 814) X_MASK PPCBGL [FRT, RAS, RB],
    Opc ''lduxe'' (X 31 831) X_MASK BOOKE64 [RT, RA0, RB],
    Opc ''rac'' (X 31 818) X_MASK PWRCOM [RT, RA, RB],
    Opc ''dss'' (XDSS 31 822 0) XDSS_MASK PPCVEC [STRM],
    Opc ''dssall'' (XDSS 31 822 1) XDSS_MASK PPCVEC [0],
    Opc ''srawi'' (XRC 31 824 0) X_MASK PPCCOM [RA, RS, SH],
    Opc ''srai'' (XRC 31 824 0) X_MASK PWRCOM [RA, RS, SH],
    Opc ''srawi.'' (XRC 31 824 1) X_MASK PPCCOM [RA, RS, SH],
    Opc ''srai.'' (XRC 31 824 1) X_MASK PWRCOM [RA, RS, SH],
    Opc ''stfxdx'' (X 31 846) X_MASK PPCBGL [FRT, RA, RB],
    Opc ''tlbsrx.'' (XRC 31 850 1) XRT_MASK POWERA2 [RA, RB],
    Opc ''slbmfev'' (X 31 851) XRA_MASK PPC64 [RT, RB],
    Opc ''mbar'' (X 31 854) X_MASK (PPC440 OR BOOKE) [MO],
    Opc ''eieio'' (X 31 854) 0xffffffff PPC [0],
    Opc ''stfxdux'' (X 31 878) X_MASK PPCBGL [FRT, RAS, RB],
    Opc ''eratsrx.'' (X 31 883) X_MASK POWERA2 [RS, RA, RB],
    Opc ''stfpsx'' (X 31 910) X_MASK PPCBGL [FRT, RA, RB],
    Opc ''tlbsx'' (XRC 31 914 0) X_MASK (PPC403 OR PPC440 OR BOOKE) [RTO, RA, RB],
    Opc ''tlbsx.'' (XRC 31 914 1) X_MASK (PPC403 OR PPC440 OR BOOKE) [RTO, RA, RB],
    Opc ''tlbsxe'' (XRC 31 915 0) X_MASK BOOKE64 [RA, RB],
    Opc ''tlbsxe.'' (XRC 31 915 1) X_MASK BOOKE64 [RA, RB],
    Opc ''slbmfee'' (X 31 915) XRA_MASK PPC64 [RT, RB],
    Opc ''sthbrx'' (X 31 918) X_MASK COM [RS, RA0, RB],
    Opc ''sraq'' (XRC 31 920 0) X_MASK M601 [RA, RS, RB],
    Opc ''sraq.'' (XRC 31 920 1) X_MASK M601 [RA, RS, RB],
    Opc ''srea'' (XRC 31 921 0) X_MASK M601 [RA, RS, RB],
    Opc ''srea.'' (XRC 31 921 1) X_MASK M601 [RA, RS, RB],
    Opc ''extsh'' (XRC 31 922 0) XRB_MASK PPCCOM [RA, RS],
    Opc ''exts'' (XRC 31 922 0) XRB_MASK PWRCOM [RA, RS],
    Opc ''extsh.'' (XRC 31 922 1) XRB_MASK PPCCOM [RA, RS],
    Opc ''exts.'' (XRC 31 922 1) XRB_MASK PWRCOM [RA, RS],
    Opc ''sthbrxe'' (X 31 926) X_MASK BOOKE64 [RS, RA0, RB],
    Opc ''stdxe'' (X 31 927) X_MASK BOOKE64 [RS, RA0, RB],
    Opc ''stfpsux'' (X 31 942) X_MASK PPCBGL [FRT, RAS, RB],
    Opc ''tlbrehi'' (XTLB 31 946 0) XTLB_MASK PPC403 [RT, RA],
    Opc ''tlbrelo'' (XTLB 31 946 1) XTLB_MASK PPC403 [RT, RA],
    Opc ''tlbre'' (X 31 946) X_MASK (PPC403 OR PPC440 OR BOOKE) [RSO, RAOPT, SHO],
    Opc ''sraiq'' (XRC 31 952 0) X_MASK M601 [RA, RS, SH],
    Opc ''sraiq.'' (XRC 31 952 1) X_MASK M601 [RA, RS, SH],
    Opc ''extsb'' (XRC 31 954 0) XRB_MASK PPC [RA, RS],
    Opc ''extsb.'' (XRC 31 954 1) XRB_MASK PPC [RA, RS],
    Opc ''stduxe'' (X 31 959) X_MASK BOOKE64 [RS, RAS, RB],
    Opc ''iccci'' (X 31 966) XRT_MASK (PPC403 OR PPC440) [RA, RB],
    Opc ''ici'' (X 31 966) XRARB_MASK POWERA2 [CT],
    Opc ''stfpdx'' (X 31 974) X_MASK PPCBGL [FRT, RA, RB],
    Opc ''tlbwehi'' (XTLB 31 978 0) XTLB_MASK PPC403 [RT, RA],
    Opc ''tlbwelo'' (XTLB 31 978 1) XTLB_MASK PPC403 [RT, RA],
    Opc ''tlbwe'' (X 31 978) X_MASK (PPC403 OR PPC440 OR BOOKE) [RSO, RAOPT, SHO],
    Opc ''tlbld'' (X 31 978) XRTRA_MASK PPC [RB],
    Opc ''eratwehi'' (XTLB 31 211 0) XTLB_MASK PPC403 [RT, RA],
    Opc ''eratwelo'' (XTLB 31 211 1) XTLB_MASK PPC403 [RT, RA],
    Opc ''eratwe'' (X 31 211) X_MASK (PPC403 OR PPC440 OR BOOKE) [RSO, RAOPT, SHO]]"

definition powerpc_opcodes_19 :: "powerpc_opcode list" where
  "powerpc_opcodes_19 =
   [Opc ''eratld'' (X 31 211) XRTRA_MASK PPC [RB],
    Opc ''icbi'' (X 31 982) XRT_MASK PPC [RA, RB],
    Opc ''stfiwx'' (X 31 983) X_MASK PPC [FRS, RA0, RB],
    Opc ''icbiep'' (X 31 991) XRT_MASK POWERA2 [RA, RB],
    Opc ''extsw'' (XRC 31 986 0) XRB_MASK (PPC64 OR BOOKE64) [RA, RS],
    Opc ''extsw.'' (XRC 31 986 1) XRB_MASK PPC64 [RA, RS],
    Opc ''icread'' (X 31 998) XRT_MASK (PPC403 OR PPC440) [RA, RB],
    Opc ''icbie'' (X 31 990) XRT_MASK BOOKE64 [RA, RB],
    Opc ''stfiwxe'' (X 31 991) X_MASK BOOKE64 [FRS, RA0, RB],
    Opc ''stfpdux'' (X 31 1006) X_MASK PPCBGL [FRT, RAS, RB],
    Opc ''tlbli'' (X 31 1010) XRTRA_MASK PPC [RB],
    Opc ''dcbzl'' (XOPL 31 1014 1) XRT_MASK POWER4 [RA, RB],
    Opc ''dcbz'' (X 31 1014) XRT_MASK PPC [RA, RB],
    Opc ''dclz'' (X 31 1014) XRT_MASK PPC [RA, RB],
    Opc ''dcbze'' (X 31 1022) XRT_MASK BOOKE64 [RA, RB],
    Opc ''dcbzep'' (X 31 1023) XRT_MASK POWERA2 [RA, RB],
    Opc ''lvebx'' (X 31 7) X_MASK PPCVEC [VD, RA, RB],
    Opc ''lvehx'' (X 31 39) X_MASK PPCVEC [VD, RA, RB],
    Opc ''lvewx'' (X 31 71) X_MASK PPCVEC [VD, RA, RB],
    Opc ''lvsl'' (X 31 6) X_MASK PPCVEC [VD, RA, RB],
    Opc ''lvsr'' (X 31 38) X_MASK PPCVEC [VD, RA, RB],
    Opc ''lvx'' (X 31 103) X_MASK PPCVEC [VD, RA, RB],
    Opc ''lvxl'' (X 31 359) X_MASK PPCVEC [VD, RA, RB],
    Opc ''stvebx'' (X 31 135) X_MASK PPCVEC [VS, RA, RB],
    Opc ''stvehx'' (X 31 167) X_MASK PPCVEC [VS, RA, RB],
    Opc ''stvewx'' (X 31 199) X_MASK PPCVEC [VS, RA, RB],
    Opc ''stvx'' (X 31 231) X_MASK PPCVEC [VS, RA, RB],
    Opc ''stvxl'' (X 31 487) X_MASK PPCVEC [VS, RA, RB],
    Opc ''lwz'' (OP 32) OP_MASK PPCCOM [RT, D, RA0],
    Opc ''l'' (OP 32) OP_MASK PWRCOM [RT, D, RA0],
    Opc ''lwzu'' (OP 33) OP_MASK PPCCOM [RT, D, RAL],
    Opc ''lu'' (OP 33) OP_MASK PWRCOM [RT, D, RA0],
    Opc ''lbz'' (OP 34) OP_MASK COM [RT, D, RA0],
    Opc ''lbzu'' (OP 35) OP_MASK COM [RT, D, RAL],
    Opc ''stw'' (OP 36) OP_MASK PPCCOM [RS, D, RA0],
    Opc ''st'' (OP 36) OP_MASK PWRCOM [RS, D, RA0],
    Opc ''stwu'' (OP 37) OP_MASK PPCCOM [RS, D, RAS],
    Opc ''stu'' (OP 37) OP_MASK PWRCOM [RS, D, RA0],
    Opc ''stb'' (OP 38) OP_MASK COM [RS, D, RA0],
    Opc ''stbu'' (OP 39) OP_MASK COM [RS, D, RAS],
    Opc ''lhz'' (OP 40) OP_MASK COM [RT, D, RA0],
    Opc ''lhzu'' (OP 41) OP_MASK COM [RT, D, RAL],
    Opc ''lha'' (OP 42) OP_MASK COM [RT, D, RA0],
    Opc ''lhau'' (OP 43) OP_MASK COM [RT, D, RAL],
    Opc ''sth'' (OP 44) OP_MASK COM [RS, D, RA0],
    Opc ''sthu'' (OP 45) OP_MASK COM [RS, D, RAS],
    Opc ''lmw'' (OP 46) OP_MASK PPCCOM [RT, D, RAM],
    Opc ''lm'' (OP 46) OP_MASK PWRCOM [RT, D, RA0],
    Opc ''stmw'' (OP 47) OP_MASK PPCCOM [RS, D, RA0],
    Opc ''stm'' (OP 47) OP_MASK PWRCOM [RS, D, RA0],
    Opc ''lfs'' (OP 48) OP_MASK COM [FRT, D, RA0],
    Opc ''lfsu'' (OP 49) OP_MASK COM [FRT, D, RAS],
    Opc ''lfd'' (OP 50) OP_MASK COM [FRT, D, RA0],
    Opc ''lfdu'' (OP 51) OP_MASK COM [FRT, D, RAS],
    Opc ''stfs'' (OP 52) OP_MASK COM [FRS, D, RA0],
    Opc ''stfsu'' (OP 53) OP_MASK COM [FRS, D, RAS],
    Opc ''stfd'' (OP 54) OP_MASK COM [FRS, D, RA0],
    Opc ''stfdu'' (OP 55) OP_MASK COM [FRS, D, RAS],
    Opc ''lq'' (OP 56) OP_MASK POWER4 [RTQ, DQ, RAQ],
    Opc ''lfq'' (OP 56) OP_MASK POWER2 [FRT, D, RA0],
    Opc ''lfqu'' (OP 57) OP_MASK POWER2 [FRT, D, RA0],
    Opc ''lbze'' (DEO 58 0) DE_MASK BOOKE64 [RT, DE, RA0],
    Opc ''lbzue'' (DEO 58 1) DE_MASK BOOKE64 [RT, DE, RAL],
    Opc ''lhze'' (DEO 58 2) DE_MASK BOOKE64 [RT, DE, RA0],
    Opc ''lhzue'' (DEO 58 3) DE_MASK BOOKE64 [RT, DE, RAL],
    Opc ''lhae'' (DEO 58 4) DE_MASK BOOKE64 [RT, DE, RA0],
    Opc ''lhaue'' (DEO 58 5) DE_MASK BOOKE64 [RT, DE, RAL],
    Opc ''lwze'' (DEO 58 6) DE_MASK BOOKE64 [RT, DE, RA0],
    Opc ''lwzue'' (DEO 58 7) DE_MASK BOOKE64 [RT, DE, RAL],
    Opc ''stbe'' (DEO 58 8) DE_MASK BOOKE64 [RS, DE, RA0],
    Opc ''stbue'' (DEO 58 9) DE_MASK BOOKE64 [RS, DE, RAS],
    Opc ''sthe'' (DEO 58 10) DE_MASK BOOKE64 [RS, DE, RA0],
    Opc ''sthue'' (DEO 58 11) DE_MASK BOOKE64 [RS, DE, RAS],
    Opc ''stwe'' (DEO 58 14) DE_MASK BOOKE64 [RS, DE, RA0],
    Opc ''stwue'' (DEO 58 15) DE_MASK BOOKE64 [RS, DE, RAS],
    Opc ''ld'' (DSO 58 0) DS_MASK PPC64 [RT, DS, RA0],
    Opc ''ldu'' (DSO 58 1) DS_MASK PPC64 [RT, DS, RAL],
    Opc ''lwa'' (DSO 58 2) DS_MASK PPC64 [RT, DS, RA0],
    Opc ''fdivs'' (A 59 18 0) AFRC_MASK PPC [FRT, FRA, FRB],
    Opc ''fdivs.'' (A 59 18 1) AFRC_MASK PPC [FRT, FRA, FRB],
    Opc ''fsubs'' (A 59 20 0) AFRC_MASK PPC [FRT, FRA, FRB],
    Opc ''fsubs.'' (A 59 20 1) AFRC_MASK PPC [FRT, FRA, FRB],
    Opc ''fadds'' (A 59 21 0) AFRC_MASK PPC [FRT, FRA, FRB],
    Opc ''fadds.'' (A 59 21 1) AFRC_MASK PPC [FRT, FRA, FRB],
    Opc ''fsqrts'' (A 59 22 0) AFRAFRC_MASK PPC [FRT, FRB],
    Opc ''fsqrts.'' (A 59 22 1) AFRAFRC_MASK PPC [FRT, FRB],
    Opc ''fres'' (A 59 24 0) AFRAFRC_MASK PPC [FRT, FRB],
    Opc ''fres.'' (A 59 24 1) AFRAFRC_MASK PPC [FRT, FRB],
    Opc ''fmuls'' (A 59 25 0) AFRB_MASK PPC [FRT, FRA, FRC],
    Opc ''fmuls.'' (A 59 25 1) AFRB_MASK PPC [FRT, FRA, FRC],
    Opc ''frsqrtes'' (A 59 26 0) AFRAFRC_MASK POWER5 [FRT, FRB],
    Opc ''frsqrtes.'' (A 59 26 1) AFRAFRC_MASK POWER5 [FRT, FRB],
    Opc ''fmsubs'' (A 59 28 0) A_MASK PPC [FRT, FRA, FRC, FRB],
    Opc ''fmsubs.'' (A 59 28 1) A_MASK PPC [FRT, FRA, FRC, FRB],
    Opc ''fmadds'' (A 59 29 0) A_MASK PPC [FRT, FRA, FRC, FRB],
    Opc ''fmadds.'' (A 59 29 1) A_MASK PPC [FRT, FRA, FRC, FRB],
    Opc ''fnmsubs'' (A 59 30 0) A_MASK PPC [FRT, FRA, FRC, FRB],
    Opc ''fnmsubs.'' (A 59 30 1) A_MASK PPC [FRT, FRA, FRC, FRB]]"

definition powerpc_opcodes_20 :: "powerpc_opcode list" where
  "powerpc_opcodes_20 =
   [Opc ''fnmadds'' (A 59 31 0) A_MASK PPC [FRT, FRA, FRC, FRB],
    Opc ''fnmadds.'' (A 59 31 1) A_MASK PPC [FRT, FRA, FRC, FRB],
    Opc ''stfq'' (OP 60) OP_MASK POWER2 [FRS, D, RA],
    Opc ''stfqu'' (OP 61) OP_MASK POWER2 [FRS, D, RA],
    Opc ''lde'' (DEO 62 0) DE_MASK BOOKE64 [RT, DES, RA0],
    Opc ''ldue'' (DEO 62 1) DE_MASK BOOKE64 [RT, DES, RA0],
    Opc ''lfse'' (DEO 62 4) DE_MASK BOOKE64 [FRT, DES, RA0],
    Opc ''lfsue'' (DEO 62 5) DE_MASK BOOKE64 [FRT, DES, RAS],
    Opc ''lfde'' (DEO 62 6) DE_MASK BOOKE64 [FRT, DES, RA0],
    Opc ''lfdue'' (DEO 62 7) DE_MASK BOOKE64 [FRT, DES, RAS],
    Opc ''stde'' (DEO 62 8) DE_MASK BOOKE64 [RS, DES, RA0],
    Opc ''stdue'' (DEO 62 9) DE_MASK BOOKE64 [RS, DES, RAS],
    Opc ''stfse'' (DEO 62 12) DE_MASK BOOKE64 [FRS, DES, RA0],
    Opc ''stfsue'' (DEO 62 13) DE_MASK BOOKE64 [FRS, DES, RAS],
    Opc ''stfde'' (DEO 62 14) DE_MASK BOOKE64 [FRS, DES, RA0],
    Opc ''stfdue'' (DEO 62 15) DE_MASK BOOKE64 [FRS, DES, RAS],
    Opc ''std'' (DSO 62 0) DS_MASK PPC64 [RS, DS, RA0],
    Opc ''stdu'' (DSO 62 1) DS_MASK PPC64 [RS, DS, RAS],
    Opc ''stq'' (DSO 62 2) DS_MASK POWER4 [RSQ, DS, RA0],
    Opc ''fcmpu'' (X 63 0) (X_MASK OR (push_bit 21 3)) COM [BF, FRA, FRB],
    Opc ''frsp'' (XRC 63 12 0) XRA_MASK COM [FRT, FRB],
    Opc ''frsp.'' (XRC 63 12 1) XRA_MASK COM [FRT, FRB],
    Opc ''fctiw'' (XRC 63 14 0) XRA_MASK PPCCOM [FRT, FRB],
    Opc ''fcir'' (XRC 63 14 0) XRA_MASK POWER2 [FRT, FRB],
    Opc ''fctiw.'' (XRC 63 14 1) XRA_MASK PPCCOM [FRT, FRB],
    Opc ''fcir.'' (XRC 63 14 1) XRA_MASK POWER2 [FRT, FRB],
    Opc ''fctiwz'' (XRC 63 15 0) XRA_MASK PPCCOM [FRT, FRB],
    Opc ''fcirz'' (XRC 63 15 0) XRA_MASK POWER2 [FRT, FRB],
    Opc ''fctiwz.'' (XRC 63 15 1) XRA_MASK PPCCOM [FRT, FRB],
    Opc ''fcirz.'' (XRC 63 15 1) XRA_MASK POWER2 [FRT, FRB],
    Opc ''fdiv'' (A 63 18 0) AFRC_MASK PPCCOM [FRT, FRA, FRB],
    Opc ''fd'' (A 63 18 0) AFRC_MASK PWRCOM [FRT, FRA, FRB],
    Opc ''fdiv.'' (A 63 18 1) AFRC_MASK PPCCOM [FRT, FRA, FRB],
    Opc ''fd.'' (A 63 18 1) AFRC_MASK PWRCOM [FRT, FRA, FRB],
    Opc ''fsub'' (A 63 20 0) AFRC_MASK PPCCOM [FRT, FRA, FRB],
    Opc ''fs'' (A 63 20 0) AFRC_MASK PWRCOM [FRT, FRA, FRB],
    Opc ''fsub.'' (A 63 20 1) AFRC_MASK PPCCOM [FRT, FRA, FRB],
    Opc ''fs.'' (A 63 20 1) AFRC_MASK PWRCOM [FRT, FRA, FRB],
    Opc ''fadd'' (A 63 21 0) AFRC_MASK PPCCOM [FRT, FRA, FRB],
    Opc ''fa'' (A 63 21 0) AFRC_MASK PWRCOM [FRT, FRA, FRB],
    Opc ''fadd.'' (A 63 21 1) AFRC_MASK PPCCOM [FRT, FRA, FRB],
    Opc ''fa.'' (A 63 21 1) AFRC_MASK PWRCOM [FRT, FRA, FRB],
    Opc ''fsqrt'' (A 63 22 0) AFRAFRC_MASK PPCPWR2 [FRT, FRB],
    Opc ''fsqrt.'' (A 63 22 1) AFRAFRC_MASK PPCPWR2 [FRT, FRB],
    Opc ''fsel'' (A 63 23 0) A_MASK PPC [FRT, FRA, FRC, FRB],
    Opc ''fsel.'' (A 63 23 1) A_MASK PPC [FRT, FRA, FRC, FRB],
    Opc ''fre'' (A 63 24 0) AFRAFRC_MASK POWER5 [FRT, FRB],
    Opc ''fre.'' (A 63 24 1) AFRAFRC_MASK POWER5 [FRT, FRB],
    Opc ''fmul'' (A 63 25 0) AFRB_MASK PPCCOM [FRT, FRA, FRC],
    Opc ''fm'' (A 63 25 0) AFRB_MASK PWRCOM [FRT, FRA, FRC],
    Opc ''fmul.'' (A 63 25 1) AFRB_MASK PPCCOM [FRT, FRA, FRC],
    Opc ''fm.'' (A 63 25 1) AFRB_MASK PWRCOM [FRT, FRA, FRC],
    Opc ''frsqrte'' (A 63 26 0) AFRAFRC_MASK PPC [FRT, FRB],
    Opc ''frsqrte.'' (A 63 26 1) AFRAFRC_MASK PPC [FRT, FRB],
    Opc ''fmsub'' (A 63 28 0) A_MASK PPCCOM [FRT, FRA, FRC, FRB],
    Opc ''fms'' (A 63 28 0) A_MASK PWRCOM [FRT, FRA, FRC, FRB],
    Opc ''fmsub.'' (A 63 28 1) A_MASK PPCCOM [FRT, FRA, FRC, FRB],
    Opc ''fms.'' (A 63 28 1) A_MASK PWRCOM [FRT, FRA, FRC, FRB],
    Opc ''fmadd'' (A 63 29 0) A_MASK PPCCOM [FRT, FRA, FRC, FRB],
    Opc ''fma'' (A 63 29 0) A_MASK PWRCOM [FRT, FRA, FRC, FRB],
    Opc ''fmadd.'' (A 63 29 1) A_MASK PPCCOM [FRT, FRA, FRC, FRB],
    Opc ''fma.'' (A 63 29 1) A_MASK PWRCOM [FRT, FRA, FRC, FRB],
    Opc ''fnmsub'' (A 63 30 0) A_MASK PPCCOM [FRT, FRA, FRC, FRB],
    Opc ''fnms'' (A 63 30 0) A_MASK PWRCOM [FRT, FRA, FRC, FRB],
    Opc ''fnmsub.'' (A 63 30 1) A_MASK PPCCOM [FRT, FRA, FRC, FRB],
    Opc ''fnms.'' (A 63 30 1) A_MASK PWRCOM [FRT, FRA, FRC, FRB],
    Opc ''fnmadd'' (A 63 31 0) A_MASK PPCCOM [FRT, FRA, FRC, FRB],
    Opc ''fnma'' (A 63 31 0) A_MASK PWRCOM [FRT, FRA, FRC, FRB],
    Opc ''fnmadd.'' (A 63 31 1) A_MASK PPCCOM [FRT, FRA, FRC, FRB],
    Opc ''fnma.'' (A 63 31 1) A_MASK PWRCOM [FRT, FRA, FRC, FRB],
    Opc ''fcmpo'' (X 63 32) (X_MASK OR (push_bit 21 3)) COM [BF, FRA, FRB],
    Opc ''mtfsb1'' (XRC 63 38 0) XRARB_MASK COM [BT],
    Opc ''mtfsb1.'' (XRC 63 38 1) XRARB_MASK COM [BT],
    Opc ''fneg'' (XRC 63 40 0) XRA_MASK COM [FRT, FRB],
    Opc ''fneg.'' (XRC 63 40 1) XRA_MASK COM [FRT, FRB],
    Opc ''mcrfs'' (X 63 64) (XRB_MASK OR (push_bit 21 3) OR (push_bit 16 3)) COM [BF, BFA],
    Opc ''mtfsb0'' (XRC 63 70 0) XRARB_MASK COM [BT],
    Opc ''mtfsb0.'' (XRC 63 70 1) XRARB_MASK COM [BT],
    Opc ''fmr'' (XRC 63 72 0) XRA_MASK COM [FRT, FRB],
    Opc ''fmr.'' (XRC 63 72 1) XRA_MASK COM [FRT, FRB],
    Opc ''mtfsfi'' (XRC 63 134 0) (XRA_MASK OR (push_bit 21 3) OR (push_bit 11 1)) COM [BF, U],
    Opc ''mtfsfi.'' (XRC 63 134 1) (XRA_MASK OR (push_bit 21 3) OR (push_bit 11 1)) COM [BF, U],
    Opc ''fnabs'' (XRC 63 136 0) XRA_MASK COM [FRT, FRB],
    Opc ''fnabs.'' (XRC 63 136 1) XRA_MASK COM [FRT, FRB],
    Opc ''fabs'' (XRC 63 264 0) XRA_MASK COM [FRT, FRB],
    Opc ''fabs.'' (XRC 63 264 1) XRA_MASK COM [FRT, FRB],
    Opc ''frin'' (XRC 63 392 0) XRA_MASK POWER5 [FRT, FRB],
    Opc ''frin.'' (XRC 63 392 1) XRA_MASK POWER5 [FRT, FRB],
    Opc ''friz'' (XRC 63 424 0) XRA_MASK POWER5 [FRT, FRB],
    Opc ''friz.'' (XRC 63 424 1) XRA_MASK POWER5 [FRT, FRB],
    Opc ''frip'' (XRC 63 456 0) XRA_MASK POWER5 [FRT, FRB],
    Opc ''frip.'' (XRC 63 456 1) XRA_MASK POWER5 [FRT, FRB],
    Opc ''frim'' (XRC 63 488 0) XRA_MASK POWER5 [FRT, FRB],
    Opc ''frim.'' (XRC 63 488 1) XRA_MASK POWER5 [FRT, FRB],
    Opc ''mffs'' (XRC 63 583 0) XRARB_MASK COM [FRT],
    Opc ''mffs.'' (XRC 63 583 1) XRARB_MASK COM [FRT],
    Opc ''mtfsf'' (XFL 63 711 0) XFL_MASK COM [FLM, FRB],
    Opc ''mtfsf.'' (XFL 63 711 1) XFL_MASK COM [FLM, FRB],
    Opc ''fctid'' (XRC 63 814 0) XRA_MASK PPC64 [FRT, FRB],
    Opc ''fctid.'' (XRC 63 814 1) XRA_MASK PPC64 [FRT, FRB],
    Opc ''fctidz'' (XRC 63 815 0) XRA_MASK PPC64 [FRT, FRB],
    Opc ''fctidz.'' (XRC 63 815 1) XRA_MASK PPC64 [FRT, FRB],
    Opc ''fcfid'' (XRC 63 846 0) XRA_MASK PPC64 [FRT, FRB],
    Opc ''fcfid.'' (XRC 63 846 1) XRA_MASK PPC64 [FRT, FRB]]"

definition powerpc_opcodes :: "powerpc_opcode list" where
  "powerpc_opcodes = concat [
    powerpc_opcodes_0, powerpc_opcodes_1, powerpc_opcodes_2, powerpc_opcodes_3, powerpc_opcodes_4,
    powerpc_opcodes_5, powerpc_opcodes_6, powerpc_opcodes_7, powerpc_opcodes_8, powerpc_opcodes_9,
    powerpc_opcodes_10, powerpc_opcodes_11, powerpc_opcodes_12, powerpc_opcodes_13, powerpc_opcodes_14,
    powerpc_opcodes_15, powerpc_opcodes_16, powerpc_opcodes_17, powerpc_opcodes_18, powerpc_opcodes_19,
    powerpc_opcodes_20]"

lemma Opc_sel [simp]:
  "name (Opc n c m f ops) = n" "opcode (Opc n c m f ops) = c" "opmask (Opc n c m f ops) = m"
  "opflags (Opc n c m f ops) = f" "operands (Opc n c m f ops) = ops"
  by (simp_all add: Opc_def)

end
