(* ===== verification/PpcDecoder.thy ===== *)
theory PpcDecoder
  imports PpcTable
begin

text \<open>
  The disassembler \<^verbatim>\<open>PpcDecode::decodeInst\<close> of \<^verbatim>\<open>bgq_util/src/ppcDecode.cc\<close>: the search of the opcode
  table, the extraction of the operands and the text that is printed, as the string that the
  output stream holds in the end.
\<close>

section \<open>The code\<close>

definition PPC_OP :: "u64 \<Rightarrow> u64" where
  "PPC_OP i = drop_bit 26 i AND 0x3f"

definition dialect :: u64 where
  "dialect = PPC_OPCODE_PPC OR PPC_OPCODE_64 OR PPC_OPCODE_COMMON OR PPC_OPCODE_ANY"

text \<open>The operands of an entry, up to the zero that ends them.\<close>

definition opindexes :: "powerpc_opcode \<Rightarrow> nat list" where
  "opindexes e = takeWhile (\<lambda>i. i \<noteq> UNUSED) (operands e)"

subsection \<open>Numbers in the output stream\<close>

fun digits :: "nat \<Rightarrow> nat \<Rightarrow> string" where
  "digits base n =
     (if base < 2 \<or> n < base then [''0123456789abcdef'' ! n]
      else digits base (n div base) @ [''0123456789abcdef'' ! (n mod base)])"

definition put_dec :: "i64 \<Rightarrow> string" where
  "put_dec v = (if sint v < 0 then ''-'' @ digits 10 (nat (- sint v)) else digits 10 (nat (sint v)))"

definition put_hex :: "i64 \<Rightarrow> string" where
  "put_hex v = digits 16 (unat v)"

definition put_hexw :: "nat \<Rightarrow> u64 \<Rightarrow> string" where
  "put_hexw w v = ''0x'' @ replicate (w - length (put_hex v)) CHR ''0'' @ put_hex v"

subsection \<open>Operands\<close>

text \<open>The first pass: whether an operand makes the entry invalid for the instruction.\<close>

definition operand_invalid :: "u64 \<Rightarrow> powerpc_operand \<Rightarrow> bool" where
  "operand_invalid insn operand =
     (case oextract operand of None \<Rightarrow> False | Some extract \<Rightarrow> snd (extract insn dialect))"

text \<open>The second pass: the value of an operand.\<close>

definition operand_value :: "u64 \<Rightarrow> powerpc_operand \<Rightarrow> i64" where
  "operand_value insn operand =
     (case oextract operand of
        Some extract \<Rightarrow> fst (extract insn dialect)
      | None \<Rightarrow>
          let value = drop_bit (shift operand) insn AND (push_bit (bits operand) 1 - 1)
          in if oflags operand AND PPC_OPERAND_SIGNED \<noteq> 0 \<and> value AND push_bit (bits operand - 1) 1 \<noteq> 0
             then value - push_bit (bits operand) 1 else value)"

definition cbnames :: "string list" where
  "cbnames = [''lt'', ''gt'', ''eq'', ''so'']"

definition put_operand :: "powerpc_operand \<Rightarrow> i64 \<Rightarrow> string" where
  "put_operand operand value =
     (if oflags operand AND PPC_OPERAND_GPR \<noteq> 0 \<or> oflags operand AND PPC_OPERAND_GPR_0 \<noteq> 0 \<and> value \<noteq> 0
        then ''r'' @ put_dec value
      else if oflags operand AND PPC_OPERAND_FPR \<noteq> 0 then ''f'' @ put_dec value
      else if oflags operand AND PPC_OPERAND_VR \<noteq> 0 then ''v'' @ put_dec value
      else if oflags operand AND PPC_OPERAND_RELATIVE \<noteq> 0 then ''+'' @ put_hex value
      else if oflags operand AND PPC_OPERAND_ABSOLUTE \<noteq> 0 then put_hex value
      else if oflags operand AND PPC_OPERAND_CR = 0 \<or> dialect AND PPC_OPCODE_PPC = 0 then put_dec value
      else if bits operand = 3 then ''cr'' @ put_dec value
      else (if drop_bit 2 value \<noteq> 0 then ''4*cr'' @ put_dec value @ ''+'' else '''')
           @ cbnames ! unat (value AND 3))"

text \<open>The loop over the operands, with \<open>need_comma\<close> and \<open>need_paren\<close>.\<close>

fun put_operands :: "u64 \<Rightarrow> nat list \<Rightarrow> bool \<Rightarrow> bool \<Rightarrow> string" where
  "put_operands insn [] need_comma need_paren = ''''"
| "put_operands insn (i # opindex) need_comma need_paren =
     (let operand = powerpc_operands ! i; value = operand_value insn operand
      in if oflags operand AND PPC_OPERAND_FAKE \<noteq> 0 \<or>
            oflags operand AND PPC_OPERAND_OPTIONAL \<noteq> 0 \<and> oflags operand AND PPC_OPERAND_NEXT = 0 \<and> value = 0
         then put_operands insn opindex need_comma need_paren
         else (if need_comma then '','' else '''') @ put_operand operand value
           @ (if need_paren then '')'' else '''')
           @ (if oflags operand AND PPC_OPERAND_PARENS = 0 then put_operands insn opindex True False
              else ''('' @ put_operands insn opindex False True))"

subsection \<open>The search\<close>

text \<open>The tests on the opcode, the mask, the flags and the operands of an entry.\<close>

definition entry_valid :: "u64 \<Rightarrow> powerpc_opcode \<Rightarrow> bool" where
  "entry_valid insn e \<longleftrightarrow>
     insn AND opmask e = opcode e \<and> opflags e AND dialect \<noteq> 0
   \<and> \<not> list_ex (\<lambda>i. operand_invalid insn (powerpc_operands ! i)) (opindexes e)"

definition put_entry :: "u64 \<Rightarrow> powerpc_opcode \<Rightarrow> string" where
  "put_entry insn e =
     (if opindexes e \<noteq> [] then name e @ replicate (7 - length (name e)) CHR '' '' else name e)
     @ put_operands insn (opindexes e) False False"

fun decode_loop :: "powerpc_opcode list \<Rightarrow> u64 \<Rightarrow> string option" where
  "decode_loop [] insn = None"
| "decode_loop (e # es) insn =
     (if PPC_OP insn < PPC_OP (opcode e) then None
      else if PPC_OP (opcode e) < PPC_OP insn then decode_loop es insn
      else if entry_valid insn e then Some (put_entry insn e)
      else decode_loop es insn)"

definition decodeInst :: "u32 \<Rightarrow> string" where
  "decodeInst insn =
     (case decode_loop powerpc_opcodes (ucast insn) of Some os \<Rightarrow> os | None \<Rightarrow> put_hexw 8 (ucast insn))"

end
