(* ===== verification/PpcFields.thy ===== *)
theory PpcFields
  imports PpcDecoder
begin

text \<open>
  The bits of an instruction that the insertion of an operand can set: those of \<open>bits\<close> and
  \<open>shift\<close>, except for the operands whose insertion function does something else.
\<close>

definition special_fields :: "(nat \<times> u64) list" where
  "special_fields =
    [(BD, 0xfffc), (BDA, 0xfffc), (BDM, 0x20fffc), (BDMA, 0x20fffc), (BDP, 0x20fffc), (BDPA, 0x20fffc),
     (DE, 0xfff0), (DES, 0xfff0), (DQ, 0xfff0), (DS, 0xfffc), (FXM, 0x1ff000), (FXM4, 0x1ff000),
     (LI, 0x3fffffc), (LIA, 0x3fffffc), (48, 0x7fe), (NB, 0xf800), (RBS, 0xf800), (SH6, 0xf802),
     (SPRG, 0x170000), (EVUIMM_2, 0xf800), (EVUIMM_4, 0xf800), (EVUIMM_8, 0xf800)]"

definition operand_field :: "nat \<Rightarrow> u64" where
  "operand_field i =
     (case map_of special_fields i of Some f \<Rightarrow> f
      | None \<Rightarrow> push_bit (shift (powerpc_operands ! i)) (push_bit (bits (powerpc_operands ! i)) 1 - 1))"

lemma operand_field_values [ppc_val]:
  "operand_field 0 = 0x0"
  "operand_field (Suc 0) = 0x1f0000"
  "operand_field 2 = 0x1f0000"
  "operand_field 3 = 0xf800"
  "operand_field 4 = 0xf800"
  "operand_field 5 = 0xfffc"
  "operand_field 6 = 0xfffc"
  "operand_field 7 = 0x20fffc"
  "operand_field 8 = 0x20fffc"
  "operand_field 9 = 0x20fffc"
  "operand_field 10 = 0x20fffc"
  "operand_field 11 = 0x3800000"
  "operand_field 12 = 0x3800000"
  "operand_field 13 = 0x1c0000"
  "operand_field 14 = 0x1f0000"
  "operand_field 15 = 0x3e00000"
  "operand_field 16 = 0x3e00000"
  "operand_field 17 = 0x1800"
  "operand_field 18 = 0x3e00000"
  "operand_field 19 = 0x1c0000"
  "operand_field 20 = 0x7c0"
  "operand_field 21 = 0x3800000"
  "operand_field 22 = 0x7"
  "operand_field 23 = 0x3e00000"
  "operand_field 24 = 0xffff"
  "operand_field 25 = 0xfff0"
  "operand_field 26 = 0xfff0"
  "operand_field 27 = 0xfff0"
  "operand_field 28 = 0xfffc"
  "operand_field 29 = 0x8000"
  "operand_field 30 = 0xf000"
  "operand_field 31 = 0x1c"
  "operand_field 32 = 0x1fe0000"
  "operand_field 33 = 0x1f0000"
  "operand_field 34 = 0xf800"
  "operand_field 35 = 0x7c0"
  "operand_field 36 = 0x3e00000"
  "operand_field 37 = 0x1ff000"
  "operand_field 38 = 0x1ff000"
  "operand_field 39 = 0x200000"
  "operand_field 40 = 0xfe0"
  "operand_field 41 = 0xfe0"
  "operand_field 42 = 0x3fffffc"
  "operand_field 43 = 0x3fffffc"
  "operand_field 44 = 0x600000"
  "operand_field 45 = 0x7c0"
  "operand_field 46 = 0x3e"
  "operand_field 47 = 0x7c0"
  "operand_field 48 = 0x7fe"
  "operand_field 49 = 0x7e0"
  "operand_field 50 = 0x3e00000"
  "operand_field 51 = 0x3e00000"
  "operand_field 52 = 0xf800"
  "operand_field 53 = 0xffff"
  "operand_field 54 = 0x1f0000"
  "operand_field 55 = 0x1f0000"
  "operand_field 56 = 0x1f0000"
  "operand_field 57 = 0x1f0000"
  "operand_field 58 = 0x1f0000"
  "operand_field 59 = 0x1f0000"
  "operand_field 60 = 0x1f0000"
  "operand_field 61 = 0xf800"
  "operand_field 62 = 0xf800"
  "operand_field 63 = 0x3e00000"
  "operand_field 64 = 0x3e00000"
  "operand_field 65 = 0x3e00000"
  "operand_field 66 = 0x3e00000"
  "operand_field 67 = 0xf800"
  "operand_field 68 = 0xf802"
  "operand_field 69 = 0xf800"
  "operand_field 70 = 0xffff"
  "operand_field 71 = 0xffff"
  "operand_field 72 = 0x1ff800"
  "operand_field 73 = 0x1ffe00"
  "operand_field 74 = 0x600"
  "operand_field 75 = 0x780"
  "operand_field 76 = 0x60000"
  "operand_field 77 = 0x170000"
  "operand_field 78 = 0xf0000"
  "operand_field 79 = 0x600000"
  "operand_field 80 = 0xfffc"
  "operand_field 81 = 0x1ff800"
  "operand_field 82 = 0x3e00000"
  "operand_field 83 = 0xf000"
  "operand_field 84 = 0xffff"
  "operand_field 85 = 0x1f0000"
  "operand_field 86 = 0xf800"
  "operand_field 87 = 0x7c0"
  "operand_field 88 = 0x3e00000"
  "operand_field 89 = 0x1f0000"
  "operand_field 90 = 0x1f0000"
  "operand_field 91 = 0x3c0"
  "operand_field 92 = 0xf800"
  "operand_field 93 = 0xf800"
  "operand_field 94 = 0xf800"
  "operand_field 95 = 0xf800"
  "operand_field 96 = 0x3800"
  "operand_field 97 = 0x10000"
  by (simp_all add: operand_field_def special_fields_def ppc_val)

end
