(* ===== verification/PpcRoundtrip.thy ===== *)
theory PpcRoundtrip
  imports PpcFields
begin

text \<open>
  Inserting an operand into an instruction whose field is empty and extracting it again gives the
  operand back, for every operand of the table and every value that it can hold.
\<close>

section \<open>Fields of a word\<close>

lemma low_mask: "push_bit b 1 - 1 = (mask b :: u64)"
  by (simp add: mask_eq_exp_minus_1)

lemma empty_field:
  fixes insn v :: u64
  assumes "insn AND push_bit s (mask b) = 0" "s + b \<le> 64"
  shows "drop_bit s (insn OR push_bit s (v AND mask b)) AND mask b = take_bit b v"
proof (rule bit_eqI)
  fix n
  have "\<not> bit insn (s + n)" if "n < b"
  proof -
    have "\<not> bit (insn AND push_bit s (mask b)) (s + n)" using assms(1) by simp
    then show ?thesis using that assms(2) by (auto simp: bit_simps)
  qed
  then show "bit (drop_bit s (insn OR push_bit s (v AND mask b)) AND mask b) n = bit (take_bit b v) n"
    using assms(2) by (auto simp: bit_simps)
qed

lemma in_field: "drop_bit s (insn OR push_bit s (v AND mask b)) AND mask b = take_bit b v"
  if "insn AND m = 0" "m = push_bit s (mask b)" "s + b \<le> 64"
  for insn v :: u64
  using empty_field that by simp

text \<open>A two's complement number of \<open>Suc n\<close> bits, as the extraction functions read it.\<close>

lemma xor_push_bit: "x XOR push_bit n 1 = (if bit x n then x - push_bit n 1 else x + push_bit n 1)"
  if "n < 64" for x :: u64
  using that flip_bit_eq_if [of n x] unset_bit_eq [of n x] set_bit_eq [of n x]
  by (auto simp: flip_bit_eq_xor)

lemma sign_extend:
  fixes v :: u64
  assumes "n < 63"
  shows "(take_bit (Suc n) v XOR push_bit n 1) - push_bit n 1 = signed_take_bit n v"
  using assms xor_push_bit [of n "take_bit (Suc n) v"]
  by (auto simp: signed_take_bit_code Let_def push_bit_eq_mult bit_take_bit_iff)

lemma sign_subtract:
  fixes v :: u64
  assumes "0 < b" "b < 64"
  shows "(if take_bit b v AND push_bit (b - 1) 1 \<noteq> 0 then take_bit b v - push_bit b 1 else take_bit b v) =
    signed_take_bit (b - 1) v"
proof -
  obtain n where n: "b = Suc n" using assms(1) by (cases b) auto
  have "take_bit b v AND push_bit (b - 1) 1 \<noteq> 0 \<longleftrightarrow> bit (take_bit b v) (b - 1)"
    by (simp add: and_exp_eq_0_iff_not_bit push_bit_of_1)
  then show ?thesis using assms unfolding n by (simp add: signed_take_bit_code Let_def push_bit_eq_mult)
qed

section \<open>Values that an operand can hold\<close>

text \<open>The insertion of an operand; without an insertion function it is done as the comment on the
  field \<open>insert\<close> of \<open>powerpc_operand\<close> says.\<close>

definition insert_operand :: "powerpc_operand \<Rightarrow> u64 \<Rightarrow> i64 \<Rightarrow> u64 \<times> string option" where
  "insert_operand operand insn value =
     (case oinsert operand of
        Some f \<Rightarrow> f insn value dialect
      | None \<Rightarrow> (insn OR push_bit (shift operand) (value AND (push_bit (bits operand) 1 - 1)), None))"

text \<open>The range of an operand: \<open>bits\<close> bits, in two's complement when the operand is signed. Some
  operands exclude values that their insertion function accepts but that do not fit.\<close>

definition in_range :: "powerpc_operand \<Rightarrow> i64 \<Rightarrow> bool" where
  "in_range operand v \<longleftrightarrow>
     (if oflags operand AND PPC_OPERAND_SIGNED \<noteq> 0 then signed_take_bit (bits operand - 1) v = v
      else take_bit (bits operand) v = v)"

definition excluded :: "(nat \<times> (i64 \<Rightarrow> bool)) list" where
  "excluded =
    [(BAT, \<lambda>v. v \<noteq> 0), (BBA, \<lambda>v. v \<noteq> 0), (RBS, \<lambda>v. v \<noteq> 0),
     (BD, \<lambda>v. v AND 3 \<noteq> 0), (BDA, \<lambda>v. v AND 3 \<noteq> 0), (BDM, \<lambda>v. v AND 3 \<noteq> 0), (BDMA, \<lambda>v. v AND 3 \<noteq> 0),
     (BDP, \<lambda>v. v AND 3 \<noteq> 0), (BDPA, \<lambda>v. v AND 3 \<noteq> 0),
     (DE, \<lambda>v. sint v < 0), (EVUIMM_2, \<lambda>v. sint v < 0), (EVUIMM_4, \<lambda>v. sint v < 0), (EVUIMM_8, \<lambda>v. sint v < 0),
     (NB, \<lambda>v. v = 0), (TBR, \<lambda>v. v = TB), (SPRG, \<lambda>v. True),
     (NSI, \<lambda>v. True), (MBE + 1, \<lambda>v. True)]"

definition operand_fits :: "nat \<Rightarrow> i64 \<Rightarrow> bool" where
  "operand_fits i v \<longleftrightarrow> in_range (powerpc_operands ! i) v
   \<and> (case map_of excluded i of None \<Rightarrow> True | Some p \<Rightarrow> \<not> p v)"

definition codec :: "powerpc_operand \<Rightarrow> u64 \<Rightarrow> (i64 \<Rightarrow> bool) \<Rightarrow> bool" where
  "codec operand field excl \<longleftrightarrow>
     (\<forall>insn v insn'. insn AND field = 0 \<longrightarrow> in_range operand v \<longrightarrow> \<not> excl v \<longrightarrow>
        insert_operand operand insn v = (insn', None) \<longrightarrow>
        operand_value insn' operand = v \<and> \<not> operand_invalid insn' operand)"

lemma codecI:
  assumes "\<And>insn v insn'. insn AND field = 0 \<Longrightarrow> in_range operand v \<Longrightarrow> \<not> excl v \<Longrightarrow>
    insert_operand operand insn v = (insn', None) \<Longrightarrow>
    operand_value insn' operand = v \<and> \<not> operand_invalid insn' operand"
  shows "codec operand field excl"
  using assms by (auto simp: codec_def)

lemmas codec_defs = insert_operand_def in_range_def operand_value_def operand_invalid_def
  PPC_OPERAND_SIGNED_def

named_theorems codecs "operands of the table for which extraction inverts insertion"

section \<open>Operands without an extraction function\<close>

lemma codec_plain [codecs]:
  assumes "field = push_bit s (push_bit b 1 - 1)" "s + b \<le> 64" "b < 64"
    "f AND PPC_OPERAND_SIGNED \<noteq> 0 \<longrightarrow> 0 < b"
    "i = None \<or> (\<exists>g. i = Some g \<and> (\<forall>insn v. fst (g insn v dialect) = insn OR push_bit s (v AND (push_bit b 1 - 1))))"
  shows "codec (opnd b s i None f) field excl"
proof (rule codecI)
  fix insn v insn'
  assume e: "insn AND field = 0" and r: "in_range (opnd b s i None f) v"
    and n: "insert_operand (opnd b s i None f) insn v = (insn', None)"
  have "insn' = insn OR push_bit s (v AND mask b)"
    using n assms(5) unfolding insert_operand_def low_mask opnd_sel
    by (metis (no_types, lifting) fst_conv option.case(1) option.case(2))
  then have x: "drop_bit s insn' AND mask b = take_bit b v"
    using empty_field [of insn s b v] e assms(1,2) unfolding low_mask by metis
  have "operand_value insn' (opnd b s i None f) = v"
  proof (cases "f AND PPC_OPERAND_SIGNED = 0")
    case True
    then show ?thesis using r x unfolding operand_value_def in_range_def low_mask Let_def by simp
  next
    case False
    then have "signed_take_bit (b - 1) v = v" "0 < b" using r assms(4) by (auto simp: in_range_def)
    then show ?thesis
      using False x sign_subtract [of b v] assms(3) by (simp only: operand_value_def low_mask Let_def opnd_sel option.case simp_thms if_True)
  qed
  then show "operand_value insn' (opnd b s i None f) = v \<and> \<not> operand_invalid insn' (opnd b s i None f)"
    by (simp add: operand_invalid_def)
qed

section \<open>Operands with an extraction function\<close>

lemma or_and_mask: "insn AND m = 0 \<Longrightarrow> (insn OR (v AND m)) AND m = v AND m"
  for insn v m :: u64
  by (simp add: bit.conj_disj_distrib2 and.assoc)

text \<open>A displacement whose lower two or four bits are zero.\<close>

lemma take_bit_aligned:
  fixes v :: u64
  shows "v AND 3 = 0 \<Longrightarrow> v AND 0xfffc = take_bit 16 v"
    and "v AND 3 = 0 \<Longrightarrow> v AND 0x3fffffc = take_bit 26 v"
    and "v AND 0xf = 0 \<Longrightarrow> v AND 0xfff0 = take_bit 16 v"
    and "v AND 3 = 0 \<Longrightarrow> v AND 0x3ffc = take_bit 14 v"
    and "v AND 1 = 0 \<Longrightarrow> v AND 0x1e = take_bit 5 v"
    and "v AND 1 = 0 \<Longrightarrow> v AND 0x3e = take_bit 6 v"
    and "v AND 3 = 0 \<Longrightarrow> v AND 0x7c = take_bit 7 v"
    and "v AND 7 = 0 \<Longrightarrow> v AND 0xf8 = take_bit 8 v"
proof -
  have *: "v AND m = take_bit n v" if "v AND l = 0" "m OR l = mask n" for l m n
  proof -
    have "take_bit n v = v AND (m OR l)" using that by (simp add: take_bit_eq_mask)
    also have "\<dots> = (v AND m) OR (v AND l)" by (rule bit.conj_disj_distrib)
    finally show ?thesis using that by simp
  qed
  show "v AND 3 = 0 \<Longrightarrow> v AND 0xfffc = take_bit 16 v" by (rule * [of 3]) (simp_all add: mask_eq_exp_minus_1)
  show "v AND 3 = 0 \<Longrightarrow> v AND 0x3fffffc = take_bit 26 v" by (rule * [of 3]) (simp_all add: mask_eq_exp_minus_1)
  show "v AND 0xf = 0 \<Longrightarrow> v AND 0xfff0 = take_bit 16 v" by (rule * [where l = 15]) (simp_all add: mask_eq_exp_minus_1)
  show "v AND 3 = 0 \<Longrightarrow> v AND 0x3ffc = take_bit 14 v" by (rule * [of 3]) (simp_all add: mask_eq_exp_minus_1)
  show "v AND 1 = 0 \<Longrightarrow> v AND 0x1e = take_bit 5 v" by (rule * [of 1]) (simp_all add: mask_eq_exp_minus_1)
  show "v AND 1 = 0 \<Longrightarrow> v AND 0x3e = take_bit 6 v" by (rule * [of 1]) (simp_all add: mask_eq_exp_minus_1)
  show "v AND 3 = 0 \<Longrightarrow> v AND 0x7c = take_bit 7 v" by (rule * [of 3]) (simp_all add: mask_eq_exp_minus_1)
  show "v AND 7 = 0 \<Longrightarrow> v AND 0xf8 = take_bit 8 v" by (rule * [where l = 7]) (simp_all add: mask_eq_exp_minus_1)
qed

lemma displacement:
  fixes insn v :: u64
  shows "insn AND 0xfffc = 0 \<Longrightarrow> v AND 3 = 0 \<Longrightarrow> signed_take_bit 15 v = v \<Longrightarrow>
      (((insn OR (v AND 0xfffc)) AND 0xfffc) XOR 0x8000) - 0x8000 = v"
    and "insn AND 0x3fffffc = 0 \<Longrightarrow> v AND 3 = 0 \<Longrightarrow> signed_take_bit 25 v = v \<Longrightarrow>
      (((insn OR (v AND 0x3fffffc)) AND 0x3fffffc) XOR 0x2000000) - 0x2000000 = v"
    and "insn AND 0xfff0 = 0 \<Longrightarrow> v AND 0xf = 0 \<Longrightarrow> signed_take_bit 15 v = v \<Longrightarrow>
      (((insn OR (v AND 0xfff0)) AND 0xfff0) XOR 0x8000) - 0x8000 = v"
  using sign_extend [of 15 v] sign_extend [of 25 v]
  by (simp_all only: or_and_mask) (simp_all add: take_bit_aligned)

text \<open>What is left to show for an operand with functions \<open>g\<close> and \<open>h\<close>.\<close>

lemma codec_functions:
  assumes "\<And>insn v. insn AND field = 0 \<Longrightarrow>
      (if f AND PPC_OPERAND_SIGNED \<noteq> 0 then signed_take_bit (b - 1) v = v else take_bit b v = v) \<Longrightarrow>
      \<not> excl v \<Longrightarrow> snd (g insn v dialect) = None \<Longrightarrow> h (fst (g insn v dialect)) dialect = (v, False)"
  shows "codec (opnd b s (Some g) (Some h) f) field excl"
proof (rule codecI)
  fix insn v insn'
  assume "insn AND field = 0" "in_range (opnd b s (Some g) (Some h) f) v" "\<not> excl v"
    "insert_operand (opnd b s (Some g) (Some h) f) insn v = (insn', None)"
  then have "h insn' dialect = (v, False)"
    using assms [of insn v] unfolding insert_operand_def in_range_def opnd_sel by simp
  then show "operand_value insn' (opnd b s (Some g) (Some h) f) = v \<and>
      \<not> operand_invalid insn' (opnd b s (Some g) (Some h) f)"
    by (simp add: operand_value_def operand_invalid_def)
qed

lemma dialect_value: "dialect = 0xd1"
  by (simp add: dialect_def ppc_const)

lemma codec_bd [codecs]:
  "f AND PPC_OPERAND_SIGNED \<noteq> 0 \<Longrightarrow>
   codec (opnd 16 0 (Some insert_bd) (Some extract_bd) f) 0xfffc (\<lambda>v. v AND 3 \<noteq> 0)"
  by (rule codec_functions) (use displacement(1) in \<open>simp add: insert_bd_def extract_bd_def\<close>)

lemma codec_ds [codecs]:
  "f AND PPC_OPERAND_SIGNED \<noteq> 0 \<Longrightarrow> codec (opnd 16 0 (Some insert_ds) (Some extract_ds) f) 0xfffc excl"
  by (rule codec_functions)
    (use displacement(1) in \<open>simp add: insert_ds_def extract_ds_def split: if_splits\<close>)

lemma codec_dq [codecs]:
  "f AND PPC_OPERAND_SIGNED \<noteq> 0 \<Longrightarrow> codec (opnd 16 0 (Some insert_dq) (Some extract_dq) f) 0xfff0 excl"
  by (rule codec_functions)
    (use displacement(3) in \<open>simp add: insert_dq_def extract_dq_def split: if_splits\<close>)

lemma codec_li [codecs]:
  "f AND PPC_OPERAND_SIGNED \<noteq> 0 \<Longrightarrow> codec (opnd 26 0 (Some insert_li) (Some extract_li) f) 0x3fffffc excl"
  by (rule codec_functions)
    (use displacement(2) in \<open>simp add: insert_li_def extract_li_def split: if_splits\<close>)

subsection \<open>Branch displacements with a hint\<close>

lemma empty_bit: "insn AND m = 0 \<Longrightarrow> bit m n \<Longrightarrow> \<not> bit insn n"
  for insn m :: u64
  by (metis bit_0_eq bit_and_iff bot_apply bot_bool_def)

lemma sub_mask: "insn AND m = 0 \<Longrightarrow> k AND m = k \<Longrightarrow> insn AND k = 0"
  for insn m k :: u64
  by (metis and.left_commute and_zero_eq)

lemma and_single_bit: "x AND 0x200000 = 0 \<longleftrightarrow> \<not> bit x 21" "x AND 0x8000 = 0 \<longleftrightarrow> \<not> bit x 15"
  for x :: u64
  using and_exp_eq_0_iff_not_bit [of x 21] and_exp_eq_0_iff_not_bit [of x 15] by simp_all

lemma hinted_branch:
  fixes insn v :: u64
  assumes e: "insn AND 0x20fffc = 0" and v: "signed_take_bit 15 v = v" "v AND 3 = 0"
  shows "extract_bd ((if hint then insn OR 0x200000 else insn) OR (v AND 0xfffc)) d = (v, False)"
    and "((if hint then insn OR 0x200000 else insn) OR (v AND 0xfffc)) AND 0x200000 = 0 \<longleftrightarrow> \<not> hint"
    and "((if hint then insn OR 0x200000 else insn) OR (v AND 0xfffc)) AND 0x8000 = 0 \<longleftrightarrow> v AND 0x8000 = 0"
proof -
  have "insn AND 0xfffc = 0" using sub_mask [OF e] by simp
  then have "(if hint then insn OR 0x200000 else insn) AND 0xfffc = 0" by (simp add: bit.conj_disj_distrib2)
  from displacement(1) [OF this v(2,1)]
  show "extract_bd ((if hint then insn OR 0x200000 else insn) OR (v AND 0xfffc)) d = (v, False)"
    by (simp only: extract_bd_def)
  have "\<not> bit insn 21" "\<not> bit insn 15" using empty_bit [OF e] by simp_all
  then show "((if hint then insn OR 0x200000 else insn) OR (v AND 0xfffc)) AND 0x200000 = 0 \<longleftrightarrow> \<not> hint"
    "((if hint then insn OR 0x200000 else insn) OR (v AND 0xfffc)) AND 0x8000 = 0 \<longleftrightarrow> v AND 0x8000 = 0"
    by (simp_all add: and_single_bit bit_or_iff bit_and_iff)
qed

lemma codec_bdm [codecs]:
  assumes "f AND PPC_OPERAND_SIGNED \<noteq> 0"
  shows "codec (opnd 16 0 (Some insert_bdm) (Some extract_bdm) f) 0x20fffc (\<lambda>v. v AND 3 \<noteq> 0)"
proof (rule codec_functions)
  fix insn v :: u64
  assume e: "insn AND 0x20fffc = 0" "\<not> v AND 3 \<noteq> 0"
    "if f AND PPC_OPERAND_SIGNED \<noteq> 0 then signed_take_bit (16 - 1) v = v else take_bit 16 v = v"
  then have v: "signed_take_bit 15 v = v" "v AND 3 = 0" using assms by simp_all
  have "fst (insert_bdm insn v dialect) = (if v AND 0x8000 \<noteq> 0 then insn OR 0x200000 else insn) OR (v AND 0xfffc)"
    by (simp add: insert_bdm_def dialect_value PPC_OPCODE_POWER4_def)
  then show "extract_bdm (fst (insert_bdm insn v dialect)) dialect = (v, False)"
    using hinted_branch [OF e(1) v, where hint = "v AND 0x8000 \<noteq> 0"]
    by (simp add: extract_bd_def extract_bdm_def dialect_value PPC_OPCODE_POWER4_def)
qed

lemma codec_bdp [codecs]:
  assumes "f AND PPC_OPERAND_SIGNED \<noteq> 0"
  shows "codec (opnd 16 0 (Some insert_bdp) (Some extract_bdp) f) 0x20fffc (\<lambda>v. v AND 3 \<noteq> 0)"
proof (rule codec_functions)
  fix insn v :: u64
  assume e: "insn AND 0x20fffc = 0" "\<not> v AND 3 \<noteq> 0"
    "if f AND PPC_OPERAND_SIGNED \<noteq> 0 then signed_take_bit (16 - 1) v = v else take_bit 16 v = v"
  then have v: "signed_take_bit 15 v = v" "v AND 3 = 0" using assms by simp_all
  have "fst (insert_bdp insn v dialect) = (if v AND 0x8000 = 0 then insn OR 0x200000 else insn) OR (v AND 0xfffc)"
    by (simp add: insert_bdp_def dialect_value PPC_OPCODE_POWER4_def)
  then show "extract_bdp (fst (insert_bdp insn v dialect)) dialect = (v, False)"
    using hinted_branch [OF e(1) v, where hint = "v AND 0x8000 = 0"]
    by (simp add: extract_bd_def extract_bdp_def dialect_value PPC_OPCODE_POWER4_def)
qed

subsection \<open>Fields in one or two pieces\<close>

text \<open>The constants as masks, so that their bits are known by position.\<close>

lemma masks:
  "(0x1f :: u64) = mask 5" "(0x3e0 :: u64) = push_bit 5 (mask 5)"
  "(0x3e :: u64) = push_bit 1 (mask 5)" "(0x7c :: u64) = push_bit 2 (mask 5)" "(0xf8 :: u64) = push_bit 3 (mask 5)"
  "(0xff :: u64) = mask 8" "(0xfff0 :: u64) = push_bit 4 (mask 12)" "(0x3ffc :: u64) = push_bit 2 (mask 12)"
  "(0x3e00000 :: u64) = push_bit 21 (mask 5)" "(0x1ff800 :: u64) = push_bit 11 (mask 10)"
  "(0x7e0 :: u64) = push_bit 5 (mask 6)" "(0xf800 :: u64) = push_bit 11 (mask 5)"
  by (simp_all add: mask_eq_exp_minus_1)

lemma empty_bits:
  "insn AND push_bit s (mask b) = 0 \<Longrightarrow> s \<le> n \<Longrightarrow> n < s + b \<Longrightarrow> n < 64 \<Longrightarrow> \<not> bit insn n"
  for insn :: u64
  by (rule empty_bit) (auto simp: bit_simps)

lemma bit_32: "bit (0x20 :: int) n \<longleftrightarrow> n = 5"
  using bit_exp_iff [where 'a = int, of 5 n] by auto

lemma bit_1048576: "bit (0x100000 :: int) n \<longleftrightarrow> n = 20"
  using bit_exp_iff [where 'a = int, of 20 n] by auto

lemmas bits_simps = bit_32 bit_1048576 bit_or_iff bit_and_iff bit_drop_bit_eq bit_push_bit_iff bit_mask_iff bit_take_bit_iff
  less_diff_conv2

lemma extract_insert_spr:
  assumes "insn AND 0x1ff800 = 0"
  shows "extract_spr (fst (insert_spr insn v d)) d' = (take_bit 10 v, False)"
proof -
  have e: "\<not> bit insn n" if "11 \<le> n" "n < 21" for n
    using that assms unfolding masks by (intro empty_bits) auto
  have "(drop_bit 16 (insn OR push_bit 16 (v AND mask 5) OR push_bit 6 (v AND push_bit 5 (mask 5))) AND mask 5) OR
    (drop_bit 6 (insn OR push_bit 16 (v AND mask 5) OR push_bit 6 (v AND push_bit 5 (mask 5))) AND push_bit 5 (mask 5))
    = take_bit 10 v" (is "?l = ?r")
  proof (rule bit_word_eqI)
    fix n assume "n < LENGTH(64)"
    consider "n < 5" | "5 \<le> n" "n < 10" | "10 \<le> n" by linarith
    then show "bit ?l n = bit ?r n" by cases (simp_all add: bits_simps e)
  qed
  then show ?thesis unfolding extract_spr_def insert_spr_def fst_conv masks by simp
qed

lemma extract_insert_mb6:
  assumes "insn AND 0x7e0 = 0"
  shows "extract_mb6 (fst (insert_mb6 insn v d)) d' = (take_bit 6 v, False)"
proof -
  have e: "\<not> bit insn n" if "5 \<le> n" "n < 11" for n
    using that assms unfolding masks by (intro empty_bits) auto
  have "(drop_bit 6 (insn OR push_bit 6 (v AND mask 5) OR (v AND 0x20)) AND mask 5) OR
    ((insn OR push_bit 6 (v AND mask 5) OR (v AND 0x20)) AND 0x20)
    = take_bit 6 v" (is "?l = ?r")
  proof (rule bit_word_eqI)
    fix n assume "n < LENGTH(64)"
    consider "n < 5" | "n = 5" | "6 \<le> n" by linarith
    then show "bit ?l n = bit ?r n" by cases (simp_all add: bits_simps e)
  qed
  then show ?thesis unfolding extract_mb6_def insert_mb6_def fst_conv masks by simp
qed

lemma extract_insert_sh6:
  assumes "insn AND 0xf802 = 0"
  shows "extract_sh6 (fst (insert_sh6 insn v d)) d' = (take_bit 6 v, False)"
proof -
  have "insn AND 0xf800 = 0" using sub_mask [OF assms] by simp
  then have e: "\<not> bit insn n" if "11 \<le> n" "n < 16" for n
    using that unfolding masks by (intro empty_bits) auto
  have e1: "\<not> bit insn (Suc 0)" using empty_bit [OF assms] by simp
  have "(drop_bit 11 (insn OR push_bit 11 (v AND mask 5) OR drop_bit 4 (v AND 0x20)) AND mask 5) OR
    (push_bit 4 (insn OR push_bit 11 (v AND mask 5) OR drop_bit 4 (v AND 0x20)) AND 0x20)
    = take_bit 6 v" (is "?l = ?r")
  proof (rule bit_word_eqI)
    fix n assume "n < LENGTH(64)"
    consider "n < 5" | "n = 5" | "6 \<le> n" by linarith
    then show "bit ?l n = bit ?r n" by cases (simp_all add: bits_simps e e1)
  qed
  then show ?thesis unfolding extract_sh6_def insert_sh6_def fst_conv masks by simp
qed

lemma codec_spr [codecs]:
  "f AND PPC_OPERAND_SIGNED = 0 \<Longrightarrow> codec (opnd 10 11 (Some insert_spr) (Some extract_spr) f) 0x1ff800 excl"
  by (rule codec_functions) (simp add: extract_insert_spr)

lemma codec_mb6 [codecs]:
  "f AND PPC_OPERAND_SIGNED = 0 \<Longrightarrow> codec (opnd 6 5 (Some insert_mb6) (Some extract_mb6) f) 0x7e0 excl"
  by (rule codec_functions) (simp add: extract_insert_mb6)

lemma codec_sh6 [codecs]:
  "f AND PPC_OPERAND_SIGNED = 0 \<Longrightarrow> codec (opnd 6 (Suc 0) (Some insert_sh6) (Some extract_sh6) f) 0xf802 excl"
  by (rule codec_functions) (simp add: extract_insert_sh6)

lemma codec_tbr [codecs]:
  assumes "f AND PPC_OPERAND_SIGNED = 0"
  shows "codec (opnd 10 11 (Some insert_tbr) (Some extract_tbr) f) 0x1ff800 (\<lambda>v. v = TB)"
proof (rule codec_functions)
  fix insn v :: u64
  assume e: "insn AND 0x1ff800 = 0" and "\<not> v = TB"
    "if f AND PPC_OPERAND_SIGNED \<noteq> 0 then signed_take_bit (10 - 1) v = v else take_bit 10 v = v"
  define w where "w = (if v = 0 then TB else v)"
  have "take_bit 10 TB = TB" by (simp add: TB_def)
  then have "take_bit 10 w = w" using \<open>if _ then _ else _\<close> assms by (simp add: w_def)
  then have x: "extract_spr (fst (insert_spr insn w dialect)) dialect = (w, False)"
    using extract_insert_spr [OF e] by simp
  have "fst (insert_tbr insn v dialect) = fst (insert_spr insn w dialect)"
    by (simp only: insert_tbr_def insert_spr_def w_def Let_def fst_conv)
  moreover have "extract_tbr i d = (let (ret, z) = extract_spr i d in (if ret = TB then 0 else ret, z))" for i d
    by (simp only: extract_tbr_def extract_spr_def Let_def prod.case)
  ultimately show "extract_tbr (fst (insert_tbr insn v dialect)) dialect = (v, False)"
    using x \<open>\<not> v = TB\<close> by (simp add: w_def)
qed

subsection \<open>Condition options\<close>

lemma bo_field:
  "insn AND 0x3e00000 = 0 \<Longrightarrow> drop_bit 21 (insn OR push_bit 21 (v AND 0x1f)) AND 0x1f = take_bit 5 v"
  for insn v :: u64
  unfolding masks by (rule empty_field) simp_all

lemma codec_bo [codecs]:
  assumes "f AND PPC_OPERAND_SIGNED = 0"
  shows "codec (opnd 5 21 (Some insert_bo) (Some extract_bo) f) 0x3e00000 excl"
proof (rule codec_functions)
  fix insn v :: u64
  assume "insn AND 0x3e00000 = 0" "snd (insert_bo insn v dialect) = None"
    "if f AND PPC_OPERAND_SIGNED \<noteq> 0 then signed_take_bit (5 - 1) v = v else take_bit 5 v = v"
  then have "drop_bit 21 (insn OR push_bit 21 (v AND 0x1f)) AND 0x1f = v" "valid_bo v dialect"
    using bo_field [of insn v] assms by (simp_all only: insert_bo_def snd_conv split: if_splits) simp_all
  then show "extract_bo (fst (insert_bo insn v dialect)) dialect = (v, False)"
    by (simp only: extract_bo_def insert_bo_def fst_conv Let_def) simp
qed

lemma codec_boe [codecs]:
  assumes "f AND PPC_OPERAND_SIGNED = 0"
  shows "codec (opnd 5 21 (Some insert_boe) (Some extract_boe) f) 0x3e00000 excl"
proof (rule codec_functions)
  fix insn v :: u64
  assume "insn AND 0x3e00000 = 0" and n: "snd (insert_boe insn v dialect) = None"
    and r: "if f AND PPC_OPERAND_SIGNED \<noteq> 0 then signed_take_bit (5 - 1) v = v else take_bit 5 v = v"
  have "valid_bo v dialect" "v AND 1 = 0" using n by (simp_all add: insert_boe_def split: if_splits)
  moreover have "v AND 0x1e = v" using r assms take_bit_aligned(5) [of v] calculation(2) by simp
  moreover have "drop_bit 21 (insn OR push_bit 21 (v AND 0x1f)) AND 0x1f = v"
    using bo_field [of insn v] r assms \<open>insn AND 0x3e00000 = 0\<close> by simp
  ultimately show "extract_boe (fst (insert_boe insn v dialect)) dialect = (v, False)"
    by (simp only: extract_boe_def insert_boe_def fst_conv Let_def) simp
qed

subsection \<open>Fields that copy another field\<close>

lemma copied_field:
  fixes insn :: u64
  assumes "insn AND push_bit s (mask 5) = 0" "s + 5 \<le> r" "r \<le> 21"
  shows "drop_bit s (insn OR push_bit s (drop_bit r insn AND 0x1f)) AND 0x1f = drop_bit r insn AND 0x1f"
    and "drop_bit r (insn OR push_bit s (drop_bit r insn AND 0x1f)) AND 0x1f = drop_bit r insn AND 0x1f"
proof -
  show "drop_bit s (insn OR push_bit s (drop_bit r insn AND 0x1f)) AND 0x1f = drop_bit r insn AND 0x1f"
    using empty_field [OF assms(1), of "drop_bit r insn"] assms(2,3) unfolding masks
    by (simp add: take_bit_eq_mask)
  show "drop_bit r (insn OR push_bit s (drop_bit r insn AND 0x1f)) AND 0x1f = drop_bit r insn AND 0x1f"
    unfolding masks by (rule bit_word_eqI) (use assms(2,3) in \<open>auto simp: bits_simps\<close>)
qed

lemma codec_bat [codecs]:
  "codec (opnd 5 16 (Some insert_bat) (Some extract_bat) f) 0x1f0000 (\<lambda>v. v \<noteq> 0)"
proof (rule codec_functions)
  fix insn v :: u64
  assume "insn AND 0x1f0000 = 0" "\<not> v \<noteq> 0"
  then have "insn AND push_bit 16 (mask 5) = 0" by (simp add: mask_eq_exp_minus_1)
  from copied_field [OF this, of 21] show "extract_bat (fst (insert_bat insn v dialect)) dialect = (v, False)"
    using \<open>\<not> v \<noteq> 0\<close> by (simp only: extract_bat_def insert_bat_def fst_conv) simp
qed

lemma codec_bba [codecs]:
  "codec (opnd 5 11 (Some insert_bba) (Some extract_bba) f) 0xf800 (\<lambda>v. v \<noteq> 0)"
proof (rule codec_functions)
  fix insn v :: u64
  assume "insn AND 0xf800 = 0" "\<not> v \<noteq> 0"
  then have "insn AND push_bit 11 (mask 5) = 0" by (simp add: mask_eq_exp_minus_1)
  from copied_field [OF this, of 16] show "extract_bba (fst (insert_bba insn v dialect)) dialect = (v, False)"
    using \<open>\<not> v \<noteq> 0\<close> by (simp only: extract_bba_def insert_bba_def fst_conv) simp
qed

lemma codec_rbs [codecs]:
  "codec (opnd 5 (Suc 0) (Some insert_rbs) (Some extract_rbs) f) 0xf800 (\<lambda>v. v \<noteq> 0)"
proof (rule codec_functions)
  fix insn v :: u64
  assume "insn AND 0xf800 = 0" "\<not> v \<noteq> 0"
  then have "insn AND push_bit 11 (mask 5) = 0" by (simp add: mask_eq_exp_minus_1)
  from copied_field [OF this, of 21] show "extract_rbs (fst (insert_rbs insn v dialect)) dialect = (v, False)"
    using \<open>\<not> v \<noteq> 0\<close> by (simp only: extract_rbs_def insert_rbs_def fst_conv) simp
qed

subsection \<open>Scaled and biased fields\<close>

lemma take_bit_nonneg: "0 \<le> sint v \<Longrightarrow> sint v < 2 ^ n \<Longrightarrow> n < 64 \<Longrightarrow> take_bit n v = v"
  for v :: u64
proof -
  assume a: "0 \<le> sint v" "sint v < 2 ^ n" "n < 64"
  then have "take_bit n (sint v) = sint v" by (simp add: take_bit_int_eq_self)
  then have "take_bit n (word_of_int (sint v) :: u64) = word_of_int (sint v)"
    by (simp only: take_bit_of_int)
  then show ?thesis by simp
qed

lemma scaled_field:
  fixes insn v m :: u64
  assumes "insn AND push_bit s m = 0" "take_bit (64 - s) m = m"
  shows "drop_bit s (insn OR push_bit s (v AND m)) AND m = v AND m"
proof (rule bit_word_eqI)
  fix n assume "n < LENGTH(64)"
  have n: "s + n < 64" if "bit m n" using that by (subst (asm) assms(2) [symmetric]) (auto simp: bits_simps)
  have "\<not> bit (insn AND push_bit s m) (s + n)" using assms(1) by simp
  then have "\<not> bit insn (s + n)" if "bit m n" using n [OF that] that by (simp add: bits_simps)
  then show "bit (drop_bit s (insn OR push_bit s (v AND m)) AND m) n = bit (v AND m) n"
    using n by (auto simp: bits_simps)
qed

lemma codec_ev2 [codecs]:
  assumes "f AND PPC_OPERAND_SIGNED = 0"
  shows "codec (opnd 32 11 (Some insert_ev2) (Some extract_ev2) f) 0xf800 (\<lambda>v. sint v < 0)"
proof (rule codec_functions)
  fix insn v :: u64
  assume "insn AND 0xf800 = 0" "\<not> sint v < 0" "snd (insert_ev2 insn v dialect) = None"
  then have v: "v AND 1 = 0" "take_bit 6 v = v" and e: "insn AND push_bit 10 0x3e = 0"
    using take_bit_nonneg [of v 6] by (auto simp: insert_ev2_def split: if_splits)
  show "extract_ev2 (fst (insert_ev2 insn v dialect)) dialect = (v, False)"
    using v take_bit_aligned(6) [of v] scaled_field [OF e, of v]
    by (simp only: extract_ev2_def insert_ev2_def fst_conv) simp
qed

lemma codec_ev4 [codecs]:
  assumes "f AND PPC_OPERAND_SIGNED = 0"
  shows "codec (opnd 32 11 (Some insert_ev4) (Some extract_ev4) f) 0xf800 (\<lambda>v. sint v < 0)"
proof (rule codec_functions)
  fix insn v :: u64
  assume "insn AND 0xf800 = 0" "\<not> sint v < 0" "snd (insert_ev4 insn v dialect) = None"
  then have v: "v AND 3 = 0" "take_bit 7 v = v" and e: "insn AND push_bit 9 0x7c = 0"
    using take_bit_nonneg [of v 7] by (auto simp: insert_ev4_def split: if_splits)
  show "extract_ev4 (fst (insert_ev4 insn v dialect)) dialect = (v, False)"
    using v take_bit_aligned(7) [of v] scaled_field [OF e, of v]
    by (simp only: extract_ev4_def insert_ev4_def fst_conv) simp
qed

lemma codec_ev8 [codecs]:
  assumes "f AND PPC_OPERAND_SIGNED = 0"
  shows "codec (opnd 32 11 (Some insert_ev8) (Some extract_ev8) f) 0xf800 (\<lambda>v. sint v < 0)"
proof (rule codec_functions)
  fix insn v :: u64
  assume "insn AND 0xf800 = 0" "\<not> sint v < 0" "snd (insert_ev8 insn v dialect) = None"
  then have v: "v AND 7 = 0" "take_bit 8 v = v" and e: "insn AND push_bit 8 0xf8 = 0"
    using take_bit_nonneg [of v 8] by (auto simp: insert_ev8_def split: if_splits)
  show "extract_ev8 (fst (insert_ev8 insn v dialect)) dialect = (v, False)"
    using v take_bit_aligned(8) [of v] scaled_field [OF e, of v]
    by (simp only: extract_ev8_def insert_ev8_def fst_conv) simp
qed

lemma codec_de [codecs]:
  assumes "f AND PPC_OPERAND_SIGNED = 0"
  shows "codec (opnd 14 0 (Some insert_de) (Some extract_de) f) 0xfff0 (\<lambda>v. sint v < 0)"
proof (rule codec_functions)
  fix insn v :: u64
  assume e: "insn AND 0xfff0 = 0" and "\<not> sint v < 0" "snd (insert_de insn v dialect) = None"
  then have v: "take_bit 12 v = v"
    using take_bit_nonneg [of v 12] by (auto simp: insert_de_def split: if_splits)
  have "(insn OR (push_bit 4 v AND 0xfff0)) AND 0xfff0 = push_bit 4 v AND 0xfff0"
    by (rule or_and_mask [OF e])
  moreover have "drop_bit 4 (push_bit 4 v AND 0xfff0) = take_bit 12 v"
    unfolding masks by (rule bit_word_eqI) (auto simp: bits_simps)
  ultimately show "extract_de (fst (insert_de insn v dialect)) dialect = (v, False)"
    using v by (simp only: extract_de_def insert_de_def fst_conv)
qed

lemma codec_des [codecs]:
  assumes "f AND PPC_OPERAND_SIGNED \<noteq> 0"
  shows "codec (opnd 14 0 (Some insert_des) (Some extract_des) f) 0xfff0 excl"
proof (rule codec_functions)
  fix insn v :: u64
  assume e: "insn AND 0xfff0 = 0" and n: "snd (insert_des insn v dialect) = None"
    and r: "if f AND PPC_OPERAND_SIGNED \<noteq> 0 then signed_take_bit (14 - 1) v = v else take_bit 14 v = v"
  have "v AND 3 = 0" using n by (simp add: insert_des_def split: if_splits)
  have "\<not> bit insn n" if "4 \<le> n" "n < 16" for n using that e unfolding masks by (intro empty_bits) auto
  then have "drop_bit 2 (insn OR (push_bit 2 v AND push_bit 4 (mask 12))) AND push_bit 2 (mask 12) =
    v AND push_bit 2 (mask 12)"
    by (intro bit_word_eqI) (auto simp: bits_simps)
  then have "drop_bit 2 (insn OR (push_bit 2 v AND 0xfff0)) AND 0x3ffc = take_bit 14 v"
    using take_bit_aligned(4) [OF \<open>v AND 3 = 0\<close>] unfolding masks by simp
  then show "extract_des (fst (insert_des insn v dialect)) dialect = (v, False)"
    using r assms sign_extend [of 13 v] by (simp only: extract_des_def insert_des_def fst_conv) simp
qed

lemma codec_nb [codecs]:
  assumes "f AND PPC_OPERAND_SIGNED = 0"
  shows "codec (opnd 6 11 (Some insert_nb) (Some extract_nb) f) 0xf800 (\<lambda>v. v = 0)"
proof (rule codec_functions)
  fix insn v :: u64
  assume "insn AND 0xf800 = 0" and v: "\<not> v = 0" and n: "snd (insert_nb insn v dialect) = None"
  define w where "w = (if v = 32 then 0 else v)"
  have s: "0 \<le> sint v" "sint v \<le> 32" using n by (auto simp: insert_nb_def split: if_splits)
  have "v = 32" if "sint v = 32"
  proof -
    have "word_of_int (sint v) = (32 :: u64)" by (subst that) simp
    then show ?thesis by simp
  qed
  then have "sint v < 2 ^ 5" if "v \<noteq> 32" using that s(2) by force
  then have "take_bit 5 w = w" using take_bit_nonneg [of v 5] s(1) by (cases "v = 32") (simp_all add: w_def)
  moreover have "drop_bit 11 (insn OR push_bit 11 (w AND 0x1f)) AND 0x1f = take_bit 5 w"
    using \<open>insn AND 0xf800 = 0\<close> unfolding masks by (intro empty_field) auto
  ultimately show "extract_nb (fst (insert_nb insn v dialect)) dialect = (v, False)"
    using v by (simp only: extract_nb_def insert_nb_def fst_conv w_def Let_def) simp
qed

subsection \<open>The mask of \<open>mfcr\<close> and \<open>mtcrf\<close>\<close>

lemma fxm_value:
  fixes insn v :: u64
  assumes "insn AND 0x1ff000 = 0" "take_bit 8 v = v" "k = 0 \<or> k = push_bit 20 1"
  shows "drop_bit 12 (insn OR k OR push_bit 12 (v AND 0xff)) AND 0xff = v"
    and "(insn OR k OR push_bit 12 (v AND 0xff)) AND push_bit 20 1 = k"
    and "(insn OR k OR push_bit 12 (v AND 0xff)) AND push_bit 1 0x3ff = insn AND push_bit 1 0x3ff"
proof -
  have m: "(0x3ff :: u64) = mask 10" "(0xff :: u64) = mask 8" "(1 :: u64) = mask 1"
    by (simp_all add: mask_eq_exp_minus_1)
  have e: "insn AND push_bit 12 (mask 9) = 0" using assms(1) by (simp add: mask_eq_exp_minus_1)
  have i: "\<not> bit insn n" if "12 \<le> n" "n < 21" for n using that e by (intro empty_bits) auto
  have "drop_bit 12 (insn OR k OR push_bit 12 (v AND mask 8)) AND mask 8 = take_bit 8 v"
    using assms(3) by (intro bit_word_eqI) (auto simp: bits_simps i bit_1_iff)
  then show "drop_bit 12 (insn OR k OR push_bit 12 (v AND 0xff)) AND 0xff = v" unfolding m using assms(2) by simp
  show "(insn OR k OR push_bit 12 (v AND 0xff)) AND push_bit 20 1 = k" unfolding m(2)
    using assms(3) by (intro bit_word_eqI) (auto simp: bits_simps i bit_1_iff)
  show "(insn OR k OR push_bit 12 (v AND 0xff)) AND push_bit 1 0x3ff = insn AND push_bit 1 0x3ff"
    using assms(3) by (auto simp: bit.conj_disj_distrib2 and.assoc)
qed

lemma codec_fxm [codecs]:
  assumes "f AND PPC_OPERAND_SIGNED = 0"
  shows "codec (opnd 8 12 (Some insert_fxm) (Some extract_fxm) f) 0x1ff000 excl"
proof (rule codec_functions)
  fix insn v :: u64
  assume e: "insn AND 0x1ff000 = 0" and n: "snd (insert_fxm insn v dialect) = None"
    and "if f AND PPC_OPERAND_SIGNED \<noteq> 0 then signed_take_bit (8 - 1) v = v else take_bit 8 v = v"
  then have v: "take_bit 8 v = v" using assms by simp
  have z: "insn AND push_bit 20 1 = 0" using sub_mask [OF e] by simp
  have d: "dialect AND PPC_OPCODE_POWER4 = 0" "dialect AND PPC_OPCODE_ANY \<noteq> 0"
    by (simp_all add: dialect_value PPC_OPCODE_POWER4_def PPC_OPCODE_ANY_def)
  define k where "k = (if v \<noteq> 0 \<and> v AND - v = v \<and> insn AND push_bit 1 0x3ff = push_bit 1 19 then push_bit 20 1 else 0 :: u64)"
  have i: "fst (insert_fxm insn v dialect) = insn OR k OR push_bit 12 (v AND 0xff)"
    using n d(2) unfolding insert_fxm_def z d(1) k_def by (auto simp: Let_def or.assoc split: if_splits)
  have m: "insn AND push_bit 1 0x3ff = push_bit 1 19 \<Longrightarrow> v = 0 \<or> k = push_bit 20 1"
    using n d(2) unfolding insert_fxm_def z d(1) k_def by (auto simp: Let_def split: if_splits)
  have k: "k = 0 \<or> k = push_bit 20 1" "k = push_bit 20 1 \<Longrightarrow> v \<noteq> 0 \<and> v AND - v = v"
    by (simp_all add: k_def split: if_splits)
  show "extract_fxm (fst (insert_fxm insn v dialect)) dialect = (v, False)"
    unfolding extract_fxm_def i Let_def fxm_value [OF e v k(1)] using k m by auto
qed

section \<open>The operand table\<close>

lemma codec_excluded [codecs]: "codec operand field (\<lambda>v. True)"
  by (simp add: codec_def)

lemma insert_plain:
  "fst (insert_ral insn v d) = insn OR push_bit 16 (v AND (push_bit 5 1 - 1))"
  "fst (insert_ram insn v d) = insn OR push_bit 16 (v AND (push_bit 5 1 - 1))"
  "fst (insert_raq insn v d) = insn OR push_bit 16 (v AND (push_bit 5 1 - 1))"
  "fst (insert_ras insn v d) = insn OR push_bit 16 (v AND (push_bit 5 1 - 1))"
  "fst (insert_rtq insn v d) = insn OR push_bit 21 (v AND (push_bit 5 1 - 1))"
  "fst (insert_rsq insn v d) = insn OR push_bit 21 (v AND (push_bit 5 1 - 1))"
  by (simp_all add: insert_ral_def insert_ram_def insert_raq_def insert_ras_def insert_rtq_def insert_rsq_def)

definition codec_at :: "nat \<Rightarrow> bool" where
  "codec_at i \<longleftrightarrow> codec (powerpc_operands ! i) (operand_field i)
     (case map_of excluded i of None \<Rightarrow> \<lambda>v. False | Some p \<Rightarrow> p)"

lemma operands_codec: "list_all codec_at (0 # Suc 0 # [2..<98])"
  by (simp add: upt_rec_numeral codec_at_def ppc_val excluded_def codecs insert_plain PPC_OPERAND_SIGNED_def)

lemma codec_at: "codec_at i" if "i < 98"
proof -
  have "i = 0 \<or> i = Suc 0 \<or> i \<in> {2..<98}" using that by auto
  then show ?thesis using operands_codec unfolding list_all_iff list.set set_upt by blast
qed



section \<open>Insertion changes the field only\<close>

definition within :: "powerpc_operand \<Rightarrow> u64 \<Rightarrow> bool" where
  "within operand field \<longleftrightarrow>
     (\<forall>insn v m. field AND m = 0 \<longrightarrow> fst (insert_operand operand insn v) AND m = insn AND m)"

named_theorems withins "operands of the table whose insertion stays in the field"

lemma within_or:
  assumes "\<And>insn v. \<exists>y. fst (insert_operand operand insn v) = insn OR y \<and> y AND field = y"
  shows "within operand field"
  unfolding within_def
proof (intro allI impI)
  fix insn v m :: u64
  assume f: "field AND m = 0"
  obtain y where y: "fst (insert_operand operand insn v) = insn OR y" "y AND field = y" using assms by blast
  have "y AND m = y AND (field AND m)" using y(2) by (metis and.assoc)
  then show "fst (insert_operand operand insn v) AND m = insn AND m"
    using f by (simp add: y(1) bit.conj_disj_distrib2)
qed

lemma within_plain [withins]: "within (opnd b s None e f) field" if "field = push_bit s (push_bit b 1 - 1)"
  by (rule within_or) (auto simp: insert_operand_def that and.assoc simp flip: push_bit_and)

lemma within_functions:
  assumes "\<And>insn v. \<exists>y. fst (g insn v dialect) = insn OR y \<and> y AND field = y"
  shows "within (opnd b s (Some g) e f) field"
  using assms by (intro within_or) (simp add: insert_operand_def)

lemma within_single [withins]:
  "within (opnd b s (Some insert_bat) e f) 0x1f0000" "within (opnd b s (Some insert_bba) e f) 0xf800"
  "within (opnd b s (Some insert_rbs) e f) 0xf800" "within (opnd b s (Some insert_bd) e f) 0xfffc"
  "within (opnd b s (Some insert_ds) e f) 0xfffc" "within (opnd b s (Some insert_dq) e f) 0xfff0"
  "within (opnd b s (Some insert_de) e f) 0xfff0" "within (opnd b s (Some insert_des) e f) 0xfff0"
  "within (opnd b s (Some insert_li) e f) 0x3fffffc" "within (opnd b s (Some insert_bo) e f) 0x3e00000"
  "within (opnd b s (Some insert_boe) e f) 0x3e00000" "within (opnd b s (Some insert_ev2) e f) 0xf800"
  "within (opnd b s (Some insert_ev4) e f) 0xf800" "within (opnd b s (Some insert_ev8) e f) 0xf800"
  "within (opnd b s (Some insert_nsi) e f) 0xffff"
  "within (opnd b s (Some insert_ral) e f) 0x1f0000" "within (opnd b s (Some insert_ram) e f) 0x1f0000"
  "within (opnd b s (Some insert_raq) e f) 0x1f0000" "within (opnd b s (Some insert_ras) e f) 0x1f0000"
  "within (opnd b s (Some insert_rtq) e f) 0x3e00000" "within (opnd b s (Some insert_rsq) e f) 0x3e00000"
  by (rule within_functions;
      auto simp: insert_bat_def insert_bba_def insert_rbs_def insert_bd_def insert_ds_def insert_dq_def
        insert_de_def insert_des_def insert_li_def insert_bo_def insert_boe_def insert_ev2_def insert_ev4_def
        insert_ev8_def insert_nsi_def insert_ral_def insert_ram_def insert_raq_def insert_ras_def
        insert_rtq_def insert_rsq_def and.assoc intro!: exI)+

lemma within_nb [withins]: "within (opnd b s (Some insert_nb) e f) 0xf800"
proof (rule within_functions)
  fix insn v :: u64
  show "\<exists>y. fst (insert_nb insn v dialect) = insn OR y \<and> y AND 0xf800 = y"
    by (intro exI [of _ "push_bit 11 ((if v = 32 then 0 else v) AND 0x1f)"]) (simp add: insert_nb_def and.assoc)
qed

lemma within_pieces [withins]:
  "within (opnd b s (Some insert_spr) e f) 0x1ff800" "within (opnd b s (Some insert_mb6) e f) 0x7e0"
  "within (opnd b s (Some insert_sh6) e f) 0xf802" "within (opnd b s (Some insert_tbr) e f) 0x1ff800"
  "within (opnd b s (Some insert_sprg) e f) 0x170000" "within (opnd b s (Some insert_bdm) e f) 0x20fffc"
  "within (opnd b s (Some insert_bdp) e f) 0x20fffc"
  by (rule within_functions;
      auto simp: insert_spr_def insert_mb6_def insert_sh6_def insert_tbr_def insert_sprg_def insert_bdm_def insert_bdp_def
        Let_def dialect_value PPC_OPCODE_POWER4_def and.assoc or.assoc bit.conj_disj_distrib2 TB_def intro!: exI)+

lemma within_fxm [withins]: "within (opnd b s (Some insert_fxm) e f) 0x1ff000"
proof (rule within_functions)
  fix insn v :: u64
  have "fst (insert_fxm insn v dialect) \<in>
      {insn OR 0, insn OR push_bit 12 (v AND 0xff), insn OR (push_bit 20 1 OR push_bit 12 (v AND 0xff))}"
    by (simp add: insert_fxm_def Let_def or.assoc)
  moreover have "y AND 0x1ff000 = y" if "y \<in> {0, push_bit 12 (v AND 0xff), push_bit 20 1 OR push_bit 12 (v AND 0xff)}" for y
    using that by (auto simp: and.assoc bit.conj_disj_distrib2)
  ultimately show "\<exists>y. fst (insert_fxm insn v dialect) = insn OR y \<and> y AND 0x1ff000 = y"
    by blast
qed

lemma operands_within: "list_all (\<lambda>i. within (powerpc_operands ! i) (operand_field i))
  (0 # Suc 0 # [2..<48] @ [49..<98])"
  by (simp add: upt_rec_numeral ppc_val withins)

lemma insert_operand_within:
  assumes "i < 98" "i \<noteq> MBE + 1" "operand_field i AND m = 0"
  shows "fst (insert_operand (powerpc_operands ! i) insn v) AND m = insn AND m"
proof -
  have "i = 0 \<or> i = Suc 0 \<or> i \<in> {2..<48} \<or> i \<in> {49..<98}" using assms(1,2) by (auto simp: ppc_val)
  then have "within (powerpc_operands ! i) (operand_field i)"
    using operands_within unfolding list_all_iff list.set set_append set_upt by blast
  then show ?thesis using assms(3) by (simp add: within_def)
qed

end
