(* ===== verification/PpcWellFormed.thy ===== *)
theory PpcWellFormed
  imports PpcRoundtrip
begin

text \<open>
  What the tables of the disassembler guarantee, checked entry by entry: the entries are sorted
  by their major opcode; every operand number is in the operand table; a mask covers the bits
  of its opcode; the bits that an operand fills in are outside the mask; an operand that opens a
  parenthesis is followed by one that is always printed. The entries that break one of the rules
  are named.
\<close>

section \<open>Entries\<close>

definition odd_entries :: "string list" where
  "odd_entries =
    [''bcctr+'', ''bcctr-'', ''bcctre'', ''bcctrel'', ''bcctrl+'', ''bcctrl-'', ''bclr+'', ''bclr-'',
     ''bclrl+'', ''bclrl-'', ''cmpb'', ''mfcr'', ''mfocrf'', ''mftb'', ''mftbu'', ''mtcrf'',
     ''mtocrf'', ''qvflogical'']"

text \<open>An operand that opens a parenthesis is followed by one that is printed whatever its value is.\<close>

fun parens_ok :: "nat list \<Rightarrow> bool" where
  "parens_ok [] \<longleftrightarrow> True"
| "parens_ok (i # is) \<longleftrightarrow>
     (if oflags (powerpc_operands ! i) AND PPC_OPERAND_PARENS = 0 then parens_ok is
      else case is of [] \<Rightarrow> False
        | j # js \<Rightarrow> oflags (powerpc_operands ! j) AND (PPC_OPERAND_PARENS OR PPC_OPERAND_FAKE OR PPC_OPERAND_OPTIONAL) = 0
            \<and> parens_ok is)"

definition entry_ok :: "powerpc_opcode \<Rightarrow> bool" where
  "entry_ok e \<longleftrightarrow>
     (opcode e AND opmask e = opcode e) = (name e \<noteq> ''qvflogical'')
   \<and> list_all (\<lambda>i. i < 98 \<and> i \<noteq> 48 \<and>
        (if operand_field i AND opmask e = 0 then True else name e \<in> set odd_entries)) (opindexes e)
   \<and> parens_ok (opindexes e)"

fun table_ok :: "u64 \<Rightarrow> u64 \<Rightarrow> powerpc_opcode list \<Rightarrow> bool" where
  "table_ok lo hi [] \<longleftrightarrow> lo \<le> hi"
| "table_ok lo hi (e # es) \<longleftrightarrow>
     lo \<le> PPC_OP (opcode e) \<and> entry_ok e \<and> table_ok (PPC_OP (opcode e)) hi es"

lemma table_ok_append: "table_ok lo mid xs \<Longrightarrow> table_ok mid hi ys \<Longrightarrow> table_ok lo hi (xs @ ys)"
proof (induction xs arbitrary: lo)
  case Nil
  then show ?case by (cases ys) (auto intro: order_trans)
qed simp

lemma opindexes_Opc: "opindexes (Opc n c m f ops) = takeWhile (\<lambda>i. i \<noteq> 0) ops"
  by (simp add: opindexes_def ppc_const)

lemmas table_eval = entry_ok_def opindexes_Opc ppc_form ppc_val PPC_OP_def odd_entries_def
  PPC_OPERAND_PARENS_def PPC_OPERAND_FAKE_def PPC_OPERAND_OPTIONAL_def

lemma powerpc_opcodes_0_ok: "table_ok 0 4 powerpc_opcodes_0"
  by (simp add: powerpc_opcodes_0_def table_eval)

lemma powerpc_opcodes_1_ok: "table_ok 4 4 powerpc_opcodes_1"
  by (simp add: powerpc_opcodes_1_def table_eval)

lemma powerpc_opcodes_2_ok: "table_ok 4 4 powerpc_opcodes_2"
  by (simp add: powerpc_opcodes_2_def table_eval)

lemma powerpc_opcodes_3_ok: "table_ok 4 4 powerpc_opcodes_3"
  by (simp add: powerpc_opcodes_3_def table_eval)

lemma powerpc_opcodes_4_ok: "table_ok 4 9 powerpc_opcodes_4"
  by (simp add: powerpc_opcodes_4_def table_eval)

lemma powerpc_opcodes_5_ok: "table_ok 9 16 powerpc_opcodes_5"
  by (simp add: powerpc_opcodes_5_def table_eval)

lemma powerpc_opcodes_6_ok: "table_ok 16 16 powerpc_opcodes_6"
  by (simp add: powerpc_opcodes_6_def table_eval)

lemma powerpc_opcodes_7_ok: "table_ok 16 19 powerpc_opcodes_7"
  by (simp add: powerpc_opcodes_7_def table_eval)

lemma powerpc_opcodes_8_ok: "table_ok 19 19 powerpc_opcodes_8"
  by (simp add: powerpc_opcodes_8_def table_eval)

lemma powerpc_opcodes_9_ok: "table_ok 19 23 powerpc_opcodes_9"
  by (simp add: powerpc_opcodes_9_def table_eval)

lemma powerpc_opcodes_10_ok: "table_ok 23 31 powerpc_opcodes_10"
  by (simp add: powerpc_opcodes_10_def table_eval)

lemma powerpc_opcodes_11_ok: "table_ok 31 31 powerpc_opcodes_11"
  by (simp add: powerpc_opcodes_11_def table_eval)

lemma powerpc_opcodes_12_ok: "table_ok 31 31 powerpc_opcodes_12"
  by (simp add: powerpc_opcodes_12_def table_eval)

lemma powerpc_opcodes_13_ok: "table_ok 31 31 powerpc_opcodes_13"
  by (simp add: powerpc_opcodes_13_def table_eval)

lemma powerpc_opcodes_14_ok: "table_ok 31 31 powerpc_opcodes_14"
  by (simp add: powerpc_opcodes_14_def table_eval)

lemma powerpc_opcodes_15_ok: "table_ok 31 31 powerpc_opcodes_15"
  by (simp add: powerpc_opcodes_15_def table_eval)

lemma powerpc_opcodes_16_ok: "table_ok 31 31 powerpc_opcodes_16"
  by (simp add: powerpc_opcodes_16_def table_eval)

lemma powerpc_opcodes_17_ok: "table_ok 31 31 powerpc_opcodes_17"
  by (simp add: powerpc_opcodes_17_def table_eval)

lemma powerpc_opcodes_18_ok: "table_ok 31 31 powerpc_opcodes_18"
  by (simp add: powerpc_opcodes_18_def table_eval)

lemma powerpc_opcodes_19_ok: "table_ok 31 59 powerpc_opcodes_19"
  by (simp add: powerpc_opcodes_19_def table_eval)

lemma powerpc_opcodes_20_ok: "table_ok 59 63 powerpc_opcodes_20"
  by (simp add: powerpc_opcodes_20_def table_eval)

lemmas powerpc_opcodes_pieces_ok =
  powerpc_opcodes_0_ok powerpc_opcodes_1_ok powerpc_opcodes_2_ok powerpc_opcodes_3_ok powerpc_opcodes_4_ok
  powerpc_opcodes_5_ok powerpc_opcodes_6_ok powerpc_opcodes_7_ok powerpc_opcodes_8_ok powerpc_opcodes_9_ok
  powerpc_opcodes_10_ok powerpc_opcodes_11_ok powerpc_opcodes_12_ok powerpc_opcodes_13_ok powerpc_opcodes_14_ok
  powerpc_opcodes_15_ok powerpc_opcodes_16_ok powerpc_opcodes_17_ok powerpc_opcodes_18_ok powerpc_opcodes_19_ok
  powerpc_opcodes_20_ok

lemma powerpc_opcodes_ok: "table_ok 0 63 powerpc_opcodes"
  unfolding powerpc_opcodes_def concat.simps append_Nil2
  by (intro table_ok_append) (rule powerpc_opcodes_pieces_ok)+

end
