(* ===== verification/PpcSpec.thy ===== *)
theory PpcSpec
  imports PpcWellFormed
begin

text \<open>
  What the disassembler guarantees: the search finds the first entry of the table that matches,
  an instruction assembled from an entry matches that entry, parentheses are balanced, and an
  instruction that is not recognised is printed as a number that can be read back.
\<close>

section \<open>The search\<close>

definition matches :: "u64 \<Rightarrow> powerpc_opcode \<Rightarrow> bool" where
  "matches insn e \<longleftrightarrow> PPC_OP (opcode e) = PPC_OP insn \<and> entry_valid insn e"

lemma table_ok_lower: "table_ok lo hi es \<Longrightarrow> e \<in> set es \<Longrightarrow> lo \<le> PPC_OP (opcode e)"
  by (induction es arbitrary: lo) (auto intro: order_trans)

lemma table_ok_entry: "table_ok lo hi es \<Longrightarrow> e \<in> set es \<Longrightarrow> entry_ok e"
  by (induction es arbitrary: lo) auto

lemma decode_loop_find:
  "table_ok lo hi es \<Longrightarrow> decode_loop es insn = map_option (put_entry insn) (find (matches insn) es)"
proof (induction es arbitrary: lo)
  case (Cons e es)
  show ?case
  proof (cases "PPC_OP insn < PPC_OP (opcode e)")
    case True
    have "\<not> matches insn e'" if "e' \<in> set (e # es)" for e'
      using True that table_ok_lower [of "PPC_OP (opcode e)" hi es e'] Cons.prems by (auto simp: matches_def)
    then have "find (matches insn) (e # es) = None" by (simp only: find_None_iff) blast
    then show ?thesis using True by simp
  next
    case False
    then show ?thesis using Cons by (auto simp: matches_def)
  qed
qed simp

text \<open>C17: the search of the table stops early, at the first entry with a larger major opcode, but
  never misses an entry: the disassembler prints the first entry of the whole table that matches
  the major opcode, the mask, the processor and the operands of the instruction, and the
  instruction as a number when there is none.\<close>
theorem decodeInst_first_match:
  "decodeInst insn =
     (case find (matches (ucast insn)) powerpc_opcodes of
        Some e \<Rightarrow> put_entry (ucast insn) e
      | None \<Rightarrow> put_hexw 8 (ucast insn))"
  unfolding decodeInst_def decode_loop_find [OF powerpc_opcodes_ok] by (simp split: option.split)

text \<open>C21: the entry for \<open>qvflogical\<close> can never be printed: its mask leaves out bits of its opcode,
  so that no instruction matches it.\<close>
theorem qvflogical_never_decoded:
  assumes "e \<in> set powerpc_opcodes" "name e = ''qvflogical''"
  shows "\<not> matches insn e"
proof
  assume "matches insn e"
  then have "insn AND opmask e = opcode e" by (simp add: matches_def entry_valid_def)
  then have "opcode e AND opmask e = opcode e" by (metis and.assoc and.idem)
  then show False using table_ok_entry [OF powerpc_opcodes_ok assms(1)] assms(2) by (simp add: entry_ok_def)
qed

section \<open>Assembled instructions\<close>

text \<open>The instruction that the operand values \<open>vs\<close> give for an entry.\<close>

definition assemble :: "powerpc_opcode \<Rightarrow> i64 list \<Rightarrow> u64" where
  "assemble e vs =
     fold (\<lambda>(i, v) insn. fst (insert_operand (powerpc_operands ! i) insn v)) (zip (opindexes e) vs) (opcode e)"

lemma fields_below_opcode: "list_all (\<lambda>i. operand_field i AND 0xfc000000 = 0) (0 # Suc 0 # [2..<48] @ [49..<98])"
  by (simp add: upt_rec_numeral ppc_val)

lemma field_below_opcode: "operand_field i AND 0xfc000000 = 0" if "i < 98" "i \<noteq> 48"
proof -
  have "i = 0 \<or> i = Suc 0 \<or> i \<in> {2..<48} \<or> i \<in> {49..<98}" using that by auto
  then show ?thesis using fields_below_opcode unfolding list_all_iff list.set set_append set_upt by blast
qed

lemma inserts_within:
  assumes "list_all (\<lambda>i. i < 98 \<and> i \<noteq> 48 \<and> operand_field i AND m = 0) is"
  shows "fold (\<lambda>(i, v) insn. fst (insert_operand (powerpc_operands ! i) insn v)) (zip is vs) insn AND m = insn AND m"
  using assms
proof (induction "is" arbitrary: vs insn)
  case (Cons i "is")
  then show ?case
    using insert_operand_within [of i m] by (cases vs) (auto simp: ppc_val)
qed simp

lemma PPC_OP_mask: "PPC_OP i = PPC_OP j" if "i AND 0xfc000000 = j AND 0xfc000000"
proof -
  have x: "PPC_OP i = drop_bit 26 (i AND 0xfc000000)" for i by (simp add: PPC_OP_def drop_bit_and)
  show ?thesis unfolding x that by (rule refl)
qed



theorem qvflogical_never_decoded_witness:
  "\<not> matches 0x10000008 (Opc ''qvflogical'' (XRC 4 4 0) QTTTT_MASK PPCQPX [QRT, QRA, QRB, QTTTT])"
  (is "\<not> matches _ ?e")
proof (rule qvflogical_never_decoded)
  have "?e \<in> set powerpc_opcodes_1" by (simp add: powerpc_opcodes_1_def)
  then show "?e \<in> set powerpc_opcodes" unfolding powerpc_opcodes_def by simp
  show "name ?e = ''qvflogical''" by simp
qed

section \<open>The text\<close>

declare digits.simps [simp del]

lemma digits_set: "2 \<le> b \<Longrightarrow> b \<le> 16 \<Longrightarrow> set (digits b n) \<subseteq> set ''0123456789abcdef''"
proof (induction b n rule: digits.induct)
  case (1 b n)
  have d: "''0123456789abcdef'' ! k \<in> set ''0123456789abcdef''" if "k < b" for k
    using that 1(3) by (intro nth_mem) simp
  show ?case
  proof (cases "n < b")
    case True
    then show ?thesis using d 1(2) by (subst digits.simps) simp
  next
    case False
    then have "set (digits b (n div b)) \<subseteq> set ''0123456789abcdef''" using 1 by simp
    moreover have "n mod b < b" using 1(2) by simp
    ultimately show ?thesis using False d 1(2) by (subst digits.simps) auto
  qed
qed

text \<open>How deep a text leaves the parentheses open, and whether it closes one that is not open.\<close>

fun nesting :: "string \<Rightarrow> nat \<Rightarrow> nat option" where
  "nesting [] d = Some d"
| "nesting (c # cs) d =
     (if c = CHR ''('' then nesting cs (d + 1)
      else if c = CHR '')'' then (if d = 0 then None else nesting cs (d - 1))
      else nesting cs d)"

lemma nesting_append: "nesting (xs @ ys) d = (case nesting xs d of None \<Rightarrow> None | Some d' \<Rightarrow> nesting ys d')"
  by (induction xs arbitrary: d) auto

lemma nesting_plain: "CHR ''('' \<notin> set s \<Longrightarrow> CHR '')'' \<notin> set s \<Longrightarrow> nesting s d = Some d"
  by (induction s) auto

lemma put_operand_plain: "CHR ''('' \<notin> set (put_operand operand v) \<and> CHR '')'' \<notin> set (put_operand operand v)"
proof -
  have d: "CHR ''('' \<notin> set (put_dec v) \<and> CHR '')'' \<notin> set (put_dec v)"
    using digits_set [of 10 "nat (- sint v)"] digits_set [of 10 "nat (sint v)"] by (auto simp: put_dec_def)
  have h: "CHR ''('' \<notin> set (put_hex v) \<and> CHR '')'' \<notin> set (put_hex v)"
    using digits_set [of 16 "unat v"] by (auto simp: put_hex_def)
  have "unat (v AND 3) < 4"
  proof -
    have "v AND 3 < 4" using and_mask_less' [of 2 v] by (simp add: mask_eq_exp_minus_1)
    then show ?thesis by (simp add: word_less_nat_alt)
  qed
  then have "cbnames ! unat (v AND 3) \<in> set cbnames" by (intro nth_mem) (simp add: cbnames_def)
  then have c: "CHR ''('' \<notin> set (cbnames ! unat (v AND 3)) \<and> CHR '')'' \<notin> set (cbnames ! unat (v AND 3))"
    by (auto simp: cbnames_def)
  show ?thesis using d h c unfolding put_operand_def by simp
qed

text \<open>After an operand that opens a parenthesis comes one that is printed and closes it.\<close>

definition closes :: "nat list \<Rightarrow> bool" where
  "closes is \<longleftrightarrow> (\<exists>i js. is = i # js \<and> oflags (powerpc_operands ! i) AND
     (PPC_OPERAND_PARENS OR PPC_OPERAND_FAKE OR PPC_OPERAND_OPTIONAL) = 0)"

lemma closes_Cons:
  "closes (i # is) \<longleftrightarrow> oflags (powerpc_operands ! i) AND PPC_OPERAND_PARENS = 0 \<and>
     oflags (powerpc_operands ! i) AND PPC_OPERAND_FAKE = 0 \<and> oflags (powerpc_operands ! i) AND PPC_OPERAND_OPTIONAL = 0"
proof -
  have "x AND (a OR b OR c) = 0 \<longleftrightarrow> x AND a = 0 \<and> x AND b = 0 \<and> x AND c = 0" for x a b c :: u64
    by (simp add: bit.conj_disj_distrib or_eq_0_iff)
  then show ?thesis by (simp add: closes_def)
qed

lemma nesting_operands:
  "parens_ok is \<Longrightarrow> np \<longrightarrow> closes is \<Longrightarrow>
   nesting (put_operands insn is nc np) (if np then 1 else 0) = Some 0"
proof (induction "is" arbitrary: nc np)
  case (Cons i "is")
  let ?f = "oflags (powerpc_operands ! i)"
  have p: "nesting (put_operand operand v) d = Some d" for operand v d
    using put_operand_plain nesting_plain by blast
  have "parens_ok is" using Cons.prems(1) by (auto split: if_splits list.splits)
  then have ih: "nesting (put_operands insn is c False) 0 = Some 0"
    "closes is \<Longrightarrow> nesting (put_operands insn is c True) (Suc 0) = Some 0" for c
    using Cons.IH [of False c] Cons.IH [of True c] by simp_all
  show ?case
  proof (cases "?f AND PPC_OPERAND_PARENS = 0")
    case True
    then show ?thesis using Cons.prems(2) by (auto simp: nesting_append p closes_Cons Let_def ih)
  next
    case False
    then have "\<not> np" using Cons.prems(2) by (auto simp: closes_Cons)
    moreover have "closes is" using Cons.prems(1) False by (auto simp: closes_def split: list.splits)
    ultimately show ?thesis using False by (auto simp: nesting_append p Let_def ih)
  qed
qed (auto simp: closes_def)

text \<open>C20: the operands of an instruction are printed with balanced parentheses, whatever entry of the
  table is printed and whatever the values of the operands are.\<close>
theorem operand_text_balanced:
  assumes "e \<in> set powerpc_opcodes"
  shows "nesting (put_operands insn (opindexes e) False False) 0 = Some 0"
  using nesting_operands [of "opindexes e" False] table_ok_entry [OF powerpc_opcodes_ok assms]
  by (simp add: entry_ok_def)

theorem operand_text_balanced_witness:
  "nesting (put_operands 0x7c0004ac (opindexes (Opc ''subc'' (XO 31 8 0 0) XO_MASK PPC [RT, RB, RA])) False False) 0 = Some 0"
  (is "nesting (put_operands _ (opindexes ?e) _ _) _ = _")
proof (rule operand_text_balanced)
  have "?e \<in> set powerpc_opcodes_11" by (simp add: powerpc_opcodes_11_def)
  then show "?e \<in> set powerpc_opcodes" unfolding powerpc_opcodes_def by simp
qed

subsection \<open>Instructions printed as numbers\<close>

definition hex_digit :: "char \<Rightarrow> nat" where
  "hex_digit c = length (takeWhile (\<lambda>d. d \<noteq> c) ''0123456789abcdef'')"

definition hex_number :: "string \<Rightarrow> nat" where
  "hex_number = foldl (\<lambda>n c. 16 * n + hex_digit c) 0"

lemma hex_digit_nth: "hex_digit (''0123456789abcdef'' ! k) = k" if "k < 16"
proof -
  have "list_all (\<lambda>k. hex_digit (''0123456789abcdef'' ! k) = k) [0..<16]" by code_simp
  then show ?thesis using that by (simp add: list_all_iff)
qed

lemma hex_number_digits: "hex_number (digits 16 n) = n"
proof (induction "16 :: nat" n rule: digits.induct)
  case (1 n)
  show ?case
  proof (cases "n < 16")
    case True
    then show ?thesis by (subst digits.simps) (simp add: hex_number_def hex_digit_nth)
  next
    case False
    then have "digits 16 n = digits 16 (n div 16) @ [''0123456789abcdef'' ! (n mod 16)]" by (subst digits.simps) simp
    then show ?thesis using 1 False by (simp add: hex_number_def hex_digit_nth)
  qed
qed

lemma length_digits: "n < 16 ^ Suc k \<Longrightarrow> length (digits 16 n) \<le> Suc k"
proof (induction k arbitrary: n)
  case 0
  then show ?case by (subst digits.simps) simp
next
  case (Suc k)
  then have "n div 16 < 16 ^ Suc k" by (simp add: less_mult_imp_div_less)
  then show ?case using Suc.IH by (subst digits.simps) simp
qed

text \<open>C22: an instruction printed as a number, the text for an instruction that the table does not know,
  always has ten characters, and reading its hexadecimal digits gives the instruction back.\<close>
theorem put_hexw_roundtrip:
  "length (put_hexw 8 (ucast insn)) = 10 \<and> take 2 (put_hexw 8 (ucast insn)) = ''0x''
   \<and> hex_number (drop 2 (put_hexw 8 (ucast insn))) = unat insn" for insn :: u32
proof -
  have n: "unat insn < 16 ^ Suc 7" using unsigned_less [of insn] by simp
  have "take_bit 64 (unat insn) = unat insn" using n by (intro take_bit_nat_eq_self) simp
  then have h: "put_hex (ucast insn) = digits 16 (unat insn)" by (simp add: put_hex_def unsigned_ucast_eq)
  have "foldl (\<lambda>n c. 16 * n + hex_digit c) 0 (replicate k CHR ''0'') = 0" for k
    by (induction k) (simp_all add: hex_digit_def)
  then show ?thesis
    using hex_number_digits [of "unat insn"] length_digits [OF n] by (simp add: put_hexw_def hex_number_def h)
qed

text \<open>A condition bit is printed with the number of the bit in the place of the number of the
  condition register field: bit 6, which is \<open>eq\<close> of \<open>cr1\<close>, as \<^verbatim>\<open>4*cr6+eq\<close>.\<close>

lemma condition_bit_text: "put_operand (powerpc_operands ! BA) 6 = ''4*cr6+eq''"
proof -
  have "digits 10 6 = ''6''" by (subst digits.simps) simp
  then show ?thesis by (simp add: put_operand_def ppc_val ppc_const dialect_value put_dec_def cbnames_def)
qed

end
