(* ===== verification/Spec2Isabelle.thy ===== *)
theory Spec2Isabelle
  imports CnkPrelude CnkCrc MmapHistory CnkBarrier CnkMigrateSpec CnkTicket CnkFutexHistory PpcSpec
begin

text \<open>
  Verification development for the Blue Gene/Q driver (skeleton).
\<close>

end
